(* ===== verification/Rust_Prelude.thy ===== *)
theory Rust_Prelude
  imports
    "HOL-Library.Word"
    "HOL-Library.Finite_Map"
    "HOL-Library.List_Lexorder"
    "HOL-Library.Char_ord"
begin

text \<open>
  Shared vocabulary of the development: the Rust types the crates use, the fragments of the
  standard library their code calls (\<^verbatim>\<open>Option::map_or_else\<close>, \<^verbatim>\<open>Iterator::map\<close> followed by
  \<^verbatim>\<open>collect\<close>, \<^verbatim>\<open>HashMap\<close> iteration and collection, \<^verbatim>\<open>?\<close> on \<^verbatim>\<open>Result\<close>), and the interfaces
  that the conversions of \<^verbatim>\<open>armonik/src/objects\<close> implement: a protobuf enumeration, an
  enumeration that mirrors a generated one, and a wire codec.

  \<^item> \<^verbatim>\<open>i32\<close>, \<^verbatim>\<open>i64\<close>, \<^verbatim>\<open>u8\<close>, \<^verbatim>\<open>u32\<close>, \<^verbatim>\<open>u64\<close> are machine words; \<^verbatim>\<open>String\<close> is its list of UTF-8 bytes
    (\<^typ>\<open>string\<close>); \<^verbatim>\<open>Vec<T>\<close> is a list; \<^verbatim>\<open>HashMap<K, V>\<close> is a finite map, and the unspecified order in
    which it is iterated is a parameter (\<open>iterates\<close> is what the code may rely on).
  \<^item> \<^verbatim>\<open>Result<T, E>\<close> is the sum \<open>'e + 'a\<close> with \<open>Inl\<close> the error.
\<close>

section \<open>Types\<close>

type_synonym i32 = "32 word"
type_synonym i64 = "64 word"
type_synonym u8 = "8 word"
type_synonym u32 = "32 word"
type_synonym u64 = "64 word"

type_synonym ('a, 'e) Result = "'e + 'a"

text \<open>The protobuf well-known types carry a pair of signed integers.\<close>

record Timestamp =
  seconds :: i64
  nanos :: i32

record prost_Duration =
  seconds :: i64
  nanos :: i32

definition Timestamp_default :: Timestamp where
  "Timestamp_default = \<lparr>Timestamp.seconds = 0, Timestamp.nanos = 0\<rparr>"

definition prost_Duration_default :: prost_Duration where
  "prost_Duration_default = \<lparr>prost_Duration.seconds = 0, prost_Duration.nanos = 0\<rparr>"

section \<open>Options, iterators and results\<close>

text \<open>\<^verbatim>\<open>value.map_or_else(Default::default, Into::into)\<close>\<close>

definition map_or_default :: "'b \<Rightarrow> ('a \<Rightarrow> 'b) \<Rightarrow> 'a option \<Rightarrow> 'b" where
  "map_or_default d f x = (case x of None \<Rightarrow> d | Some y \<Rightarrow> f y)"

declare option.map_ident [simp]

lemma map_or_default_simps [simp]:
  "map_or_default d f None = d"
  "map_or_default d f (Some y) = f y"
  by (simp_all add: map_or_default_def)

text \<open>\<^verbatim>\<open>self.into_iter().map(Into::into).collect()\<close> between two vectors.\<close>

definition into_collect :: "('a \<Rightarrow> 'b) \<Rightarrow> 'a list \<Rightarrow> 'b list" where
  "into_collect f xs = map f xs"

lemma into_collect_ident [simp]: "into_collect (\<lambda>x. x) xs = xs"
  by (simp add: into_collect_def)

lemma length_into_collect [simp]: "length (into_collect f xs) = length xs"
  by (simp add: into_collect_def)

lemma into_collect_append: "into_collect f (xs @ ys) = into_collect f xs @ into_collect f ys"
  by (simp add: into_collect_def)

definition bindR :: "'e + 'a \<Rightarrow> ('a \<Rightarrow> 'e + 'b) \<Rightarrow> 'e + 'b" where
  "bindR r f = (case r of Inl e \<Rightarrow> Inl e | Inr x \<Rightarrow> f x)"

lemma bindR_simps [simp]:
  "bindR (Inl e) f = Inl e"
  "bindR (Inr x) f = f x"
  by (simp_all add: bindR_def)

lemma bindR_eq_Inr_iff: "bindR r f = Inr y \<longleftrightarrow> (\<exists>x. r = Inr x \<and> f x = Inr y)"
  by (cases r) simp_all

lemma bindR_eq_Inl_iff: "bindR r f = Inl e \<longleftrightarrow> r = Inl e \<or> (\<exists>x. r = Inr x \<and> f x = Inl e)"
  by (cases r) simp_all

section \<open>Hash maps\<close>

text \<open>
  \<^verbatim>\<open>HashMap::into_iter\<close> yields every entry exactly once, in an order the program cannot rely on; an
  iteration order is a function \<open>it\<close> with this property.
\<close>

definition iterates :: "(('k, 'v) fmap \<Rightarrow> ('k \<times> 'v) list) \<Rightarrow> bool" where
  "iterates it \<longleftrightarrow>
     (\<forall>m. distinct (map fst (it m)) \<and> (\<forall>k v. (k, v) \<in> set (it m) \<longleftrightarrow> fmlookup m k = Some v))"

text \<open>\<^verbatim>\<open>collect::<HashMap<_, _>>()\<close> inserts the pairs in order: a later pair replaces an earlier one.\<close>

definition hashmap_collect :: "('k \<times> 'v) list \<Rightarrow> ('k, 'v) fmap" where
  "hashmap_collect kvs = fold (\<lambda>(k, v) m. fmupd k v m) kvs fmempty"

lemma fmlookup_fold_fmupd:
  "fmlookup (fold (\<lambda>(k, v) m. fmupd k v m) kvs m0) k =
     (case map_of (rev kvs) k of None \<Rightarrow> fmlookup m0 k | Some v \<Rightarrow> Some v)"
  by (induction kvs arbitrary: m0) (auto simp: map_add_def split: option.splits)

lemma fmlookup_hashmap_collect: "fmlookup (hashmap_collect kvs) k = map_of (rev kvs) k"
  by (simp add: hashmap_collect_def fmlookup_fold_fmupd split: option.splits)

lemma hashmap_collect_last_wins:
  "fmlookup (hashmap_collect (kvs @ [(k, v)])) k = Some v"
  by (simp add: fmlookup_hashmap_collect)

lemma iterates_singleton:
  assumes "iterates it"
  shows "it (fmupd k v fmempty) = [(k, v)]"
proof -
  have d: "distinct (map fst (it (fmupd k v fmempty)))" and e: "set (it (fmupd k v fmempty)) = {(k, v)}"
    using assms by (auto simp: iterates_def split: if_splits)
  from e obtain x xs where xs: "it (fmupd k v fmempty) = x # xs" by (cases "it (fmupd k v fmempty)") auto
  with d e have "x = (k, v)" and "xs = []" by (auto, cases xs, auto)
  with xs show ?thesis by simp
qed

lemma hashmap_collect_iterates:
  assumes "iterates it"
  shows "hashmap_collect (it m) = m"
proof (rule fmap_ext)
  fix k
  from assms have d: "distinct (map fst (it m))"
    and s: "\<And>v. (k, v) \<in> set (it m) \<longleftrightarrow> fmlookup m k = Some v"
    by (auto simp: iterates_def)
  have "distinct (map fst (rev (it m)))" using d by (simp add: rev_map [symmetric])
  then have "map_of (rev (it m)) k = Some v \<longleftrightarrow> (k, v) \<in> set (it m)" for v
    by (metis map_of_eq_Some_iff set_rev)
  then show "fmlookup (hashmap_collect (it m)) k = fmlookup m k"
    by (metis fmlookup_hashmap_collect not_None_eq s)
qed

text \<open>
  A \<^verbatim>\<open>HashMap\<close> sent as a repeated message and collected back is unchanged whatever the order, when
  every entry survives its own conversion.
\<close>

lemma hashmap_entries_roundtrip:
  assumes "iterates it" and "\<And>k v. dec (enc (k, v)) = (k, v)"
  shows "hashmap_collect (map dec (map enc (it m))) = m"
proof -
  from assms(2) have "dec \<circ> enc = id" by (auto simp: fun_eq_iff)
  then have "map dec (map enc (it m)) = it m" by (simp only: map_map list.map_id)
  then show ?thesis by (simp only: hashmap_collect_iterates [OF assms(1)])
qed

text \<open>Sorting the keys is one admissible order.\<close>

lemma iterates_sorted_list_of_fmap:
  "iterates (sorted_list_of_fmap :: ('k :: linorder, 'v) fmap \<Rightarrow> ('k \<times> 'v) list)"
proof -
  have "(k, v) \<in> set (sorted_list_of_fmap m) \<longleftrightarrow> fmlookup m k = Some v" for m :: "('k, 'v) fmap" and k v
    by (auto simp: sorted_list_of_fmap_def fmlookup_dom_iff dest: fmdomI)
  moreover have "distinct (map fst (sorted_list_of_fmap m))" for m :: "('k, 'v) fmap"
    by (simp add: sorted_list_of_fmap_def o_def sorted_list_of_fset.rep_eq)
  ultimately show ?thesis by (simp add: iterates_def)
qed

section \<open>Views of a field\<close>

text \<open>
  A shared reference to a field reads it; a mutable reference is the change made through it. The contract
  of such a pair is that of a lens.
\<close>

locale field_view =
  fixes get :: "'s \<Rightarrow> 'a" and update :: "('a \<Rightarrow> 'a) \<Rightarrow> 's \<Rightarrow> 's"
  assumes get_update [simp]: "get (update f s) = f (get s)"
    and update_same: "f (get s) = get s \<Longrightarrow> update f s = s"
    and update_update [simp]: "update f (update g s) = update (f \<circ> g) s"
begin

lemma update_id [simp]: "update (\<lambda>x. x) s = s"
  by (simp add: update_same)

lemma update_cong: "f (get s) = g (get s) \<Longrightarrow> update f s = update g s"
  by (metis comp_apply fun_upd_apply get_update update_same update_update)

lemma update_get: "update (\<lambda>_. get s) s = s"
  by (simp add: update_same)

end

text \<open>
  The wrappers of a vector (\<^verbatim>\<open>impl_vec_wrapper!\<close>) are used like the vector through the references that the
  macro implements. \<open>inner\<close> and \<open>upd\<close> are the field of the wrapper.
\<close>

definition wrapper_iter :: "('w \<Rightarrow> 'a list) \<Rightarrow> 'w \<Rightarrow> 'a list" where
  "wrapper_iter inner w = inner w"

text \<open>Iterating mutably and replacing every element \<open>x\<close> by \<open>f x\<close>.\<close>

definition wrapper_iter_mut :: "(('a list \<Rightarrow> 'a list) \<Rightarrow> 'w \<Rightarrow> 'w) \<Rightarrow> ('a \<Rightarrow> 'a) \<Rightarrow> 'w \<Rightarrow> 'w" where
  "wrapper_iter_mut upd f w = upd (map f) w"

definition wrapper_ref_into_iter :: "('w \<Rightarrow> 'a list) \<Rightarrow> 'w \<Rightarrow> 'a list" where
  "wrapper_ref_into_iter inner w = wrapper_iter inner w"

definition wrapper_mut_into_iter :: "(('a list \<Rightarrow> 'a list) \<Rightarrow> 'w \<Rightarrow> 'w) \<Rightarrow> ('a \<Rightarrow> 'a) \<Rightarrow> 'w \<Rightarrow> 'w" where
  "wrapper_mut_into_iter upd f w = wrapper_iter_mut upd f w"

definition wrapper_as_ref :: "('w \<Rightarrow> 'a list) \<Rightarrow> 'w \<Rightarrow> 'a list" where
  "wrapper_as_ref inner w = inner w"

text \<open>
  An element is replaced through the mutable slice; an index out of range panics, the value \<open>None\<close>.
\<close>

definition wrapper_as_mut ::
  "('w \<Rightarrow> 'a list) \<Rightarrow> (('a list \<Rightarrow> 'a list) \<Rightarrow> 'w \<Rightarrow> 'w) \<Rightarrow> nat \<Rightarrow> 'a \<Rightarrow> 'w \<Rightarrow> 'w option" where
  "wrapper_as_mut inner upd i x w =
     (if i < length (inner w) then Some (upd (\<lambda>xs. xs[i := x]) w) else None)"

definition wrapper_borrow :: "('w \<Rightarrow> 'a list) \<Rightarrow> 'w \<Rightarrow> 'a list" where
  "wrapper_borrow inner w = inner w"

definition wrapper_borrow_mut ::
  "(('a list \<Rightarrow> 'a list) \<Rightarrow> 'w \<Rightarrow> 'w) \<Rightarrow> ('a list \<Rightarrow> 'a list) \<Rightarrow> 'w \<Rightarrow> 'w" where
  "wrapper_borrow_mut upd f w = upd f w"

definition wrapper_deref :: "('w \<Rightarrow> 'a list) \<Rightarrow> 'w \<Rightarrow> 'a list" where
  "wrapper_deref inner w = inner w"

definition wrapper_deref_mut ::
  "(('a list \<Rightarrow> 'a list) \<Rightarrow> 'w \<Rightarrow> 'w) \<Rightarrow> ('a list \<Rightarrow> 'a list) \<Rightarrow> 'w \<Rightarrow> 'w" where
  "wrapper_deref_mut upd f w = upd f w"

lemmas wrapper_defs = wrapper_iter_def wrapper_iter_mut_def wrapper_ref_into_iter_def
  wrapper_mut_into_iter_def wrapper_as_ref_def wrapper_as_mut_def wrapper_borrow_def
  wrapper_borrow_mut_def wrapper_deref_def wrapper_deref_mut_def

locale vec_wrapper = field_view inner upd
  for inner :: "'w \<Rightarrow> 'a list" and upd :: "('a list \<Rightarrow> 'a list) \<Rightarrow> 'w \<Rightarrow> 'w" +
  fixes from_iter :: "'a list \<Rightarrow> 'w"
  assumes inner_from_iter [simp]: "inner (from_iter xs) = xs"
    and from_iter_inner [simp]: "from_iter (inner w) = w"
begin

lemma upd_from_iter: "upd f w = from_iter (f (inner w))"
  by (metis from_iter_inner get_update)

lemma iter_mut_collects: "wrapper_iter_mut upd f w = from_iter (map f (wrapper_iter inner w))"
  by (simp add: wrapper_defs upd_from_iter)

lemma as_mut_reads:
  "wrapper_as_mut inner upd i x w = Some w' \<Longrightarrow> wrapper_as_ref inner w' = (wrapper_as_ref inner w)[i := x]"
  by (auto simp: wrapper_defs split: if_splits)

lemma deref_mut_reads: "wrapper_deref inner (wrapper_deref_mut upd f w) = f (wrapper_deref inner w)"
  by (simp add: wrapper_defs)

end

section \<open>Interfaces of the conversions\<close>

text \<open>
  A protobuf enumeration: \<open>as_i32\<close> is the cast \<^verbatim>\<open>value as i32\<close> (the discriminants of the Rust enum) and
  \<open>of_i32\<close> its \<^verbatim>\<open>From<i32>\<close>. Numbers that no variant carries decode to the fallback variant.
\<close>

locale proto_enum =
  fixes as_i32 :: "'e \<Rightarrow> i32" and of_i32 :: "i32 \<Rightarrow> 'e" and fallback :: 'e
  assumes of_as [simp]: "of_i32 (as_i32 e) = e"
    and not_fallback: "of_i32 i \<noteq> fallback \<Longrightarrow> as_i32 (of_i32 i) = i"
begin

lemma as_inj: "inj as_i32"
  by (metis injI of_as)

lemma as_eq_iff [simp]: "as_i32 e = as_i32 e' \<longleftrightarrow> e = e'"
  by (metis of_as)

lemma unknown_number: "i \<notin> range as_i32 \<Longrightarrow> of_i32 i = fallback"
  by (metis not_fallback rangeI)

lemma as_of: "as_i32 (of_i32 i) = (if i \<in> range as_i32 then i else as_i32 fallback)"
  by (metis not_fallback of_as rangeE rangeI)

lemma of_as_comp [simp]: "of_i32 \<circ> as_i32 = id"
  by (simp add: fun_eq_iff)

lemma collect_enum [simp]: "into_collect of_i32 (into_collect as_i32 es) = es"
  by (simp add: into_collect_def)

lemma map_enum [simp]: "map of_i32 (map as_i32 es) = es"
  by simp

end

text \<open>
  An enumeration that follows one of the schema: \<open>schema\<close> names the schema's value that a variant
  stands for, and the discriminants are the schema's numbers.
\<close>

locale schema_enum = proto_enum as_i32 of_i32 fallback
  for as_i32 :: "'e \<Rightarrow> i32" and of_i32 :: "i32 \<Rightarrow> 'e" and fallback :: 'e +
  fixes schema :: "'e \<Rightarrow> 'w" and v3_as_i32 :: "'w \<Rightarrow> i32"
  assumes schema_numbers [simp]: "v3_as_i32 (schema e) = as_i32 e"
    and schema_surj: "surj schema"
begin

lemma decode_schema: "of_i32 (v3_as_i32 (schema e)) = e"
  by simp

lemma same_numbers: "range as_i32 = range v3_as_i32"
proof -
  have "range v3_as_i32 = v3_as_i32 ` range schema" by (simp only: schema_surj)
  also have "\<dots> = range as_i32" by (simp add: image_image)
  finally show ?thesis by simp
qed

lemma schema_number_not_lost: "as_i32 (of_i32 (v3_as_i32 w)) = v3_as_i32 w"
  by (metis of_as schema_numbers schema_surj surjD)

end

text \<open>
  Most enumerations also convert to and from the enum generated from the schema; the two
  conversions are inverse of each other.
\<close>

locale mirrored_enum = proto_enum as_i32 of_i32 fallback
  for as_i32 :: "'e \<Rightarrow> i32" and of_i32 :: "i32 \<Rightarrow> 'e" and fallback :: 'e +
  fixes to_v3 :: "'e \<Rightarrow> 'w" and of_v3 :: "'w \<Rightarrow> 'e" and v3_as_i32 :: "'w \<Rightarrow> i32"
  assumes of_to [simp]: "of_v3 (to_v3 e) = e"
    and to_of [simp]: "to_v3 (of_v3 w) = w"
    and numbers: "v3_as_i32 (to_v3 e) = as_i32 e"

sublocale mirrored_enum \<subseteq> schema_enum as_i32 of_i32 fallback to_v3 v3_as_i32
  by unfold_locales (simp add: numbers, metis surjI to_of)

context mirrored_enum
begin

lemma bij_to_v3: "bij to_v3"
  by (metis bijI' of_to to_of)

lemma of_schema_number [simp]: "of_i32 (v3_as_i32 w) = of_v3 w"
  by (metis numbers of_as to_of)

end

text \<open>
  A codec: \<open>to_v3\<close> is the \<^verbatim>\<open>From<T> for v3::T\<close> conversion and \<open>of_v3\<close> its counterpart. \<open>partial_codec\<close>
  is the contract of the few conversions that lose information outside a set of values.
\<close>

locale partial_codec =
  fixes to_v3 :: "'a \<Rightarrow> 'w" and of_v3 :: "'w \<Rightarrow> 'a" and faithful :: "'a \<Rightarrow> bool"
  assumes roundtrip_faithful: "faithful x \<Longrightarrow> of_v3 (to_v3 x) = x"
begin

lemma inj_on_faithful: "inj_on to_v3 {x. faithful x}"
  by (metis inj_onI mem_Collect_eq roundtrip_faithful)

lemma collect_faithful: "list_all faithful xs \<Longrightarrow> into_collect of_v3 (into_collect to_v3 xs) = xs"
  by (induction xs) (simp_all add: into_collect_def roundtrip_faithful)

lemma option_faithful: "pred_option faithful x \<Longrightarrow> map_option of_v3 (map_option to_v3 x) = x"
  by (cases x) (simp_all add: roundtrip_faithful)

end

locale wire_codec =
  fixes to_v3 :: "'a \<Rightarrow> 'w" and of_v3 :: "'w \<Rightarrow> 'a"
  assumes roundtrip [simp]: "of_v3 (to_v3 x) = x"

sublocale wire_codec \<subseteq> partial_codec to_v3 of_v3 "\<lambda>_. True"
  by unfold_locales simp

context wire_codec
begin

lemma collect [simp]: "into_collect of_v3 (into_collect to_v3 xs) = xs"
  by (simp add: into_collect_def o_def)

lemma option [simp]: "map_option of_v3 (map_option to_v3 x) = x"
  by (cases x) simp_all

lemma to_v3_inj: "inj to_v3"
  by (metis injI roundtrip)

lemma to_v3_eq_iff: "to_v3 x = to_v3 y \<longleftrightarrow> x = y"
  by (metis roundtrip)

lemma decode_surj: "surj of_v3"
  by (metis roundtrip surjI)

lemma decode_idempotent: "of_v3 (to_v3 (of_v3 w)) = of_v3 w"
  by simp

end

section \<open>Serialised dates and durations\<close>

text \<open>
  With the \<^verbatim>\<open>serde\<close> feature, timestamps and durations are (de)serialised through the pair of their
  seconds and nanoseconds.
\<close>

definition serde_timestamp_serialize :: "Timestamp \<Rightarrow> i64 \<times> i32" where
  "serde_timestamp_serialize v = (Timestamp.seconds v, Timestamp.nanos v)"

definition serde_timestamp_deserialize :: "i64 \<times> i32 \<Rightarrow> Timestamp" where
  "serde_timestamp_deserialize p =
     (case p of (s, n) \<Rightarrow> \<lparr>Timestamp.seconds = s, Timestamp.nanos = n\<rparr>)"

definition serde_option_timestamp_serialize :: "Timestamp option \<Rightarrow> (i64 \<times> i32) option" where
  "serde_option_timestamp_serialize v = map_option (\<lambda>t. (Timestamp.seconds t, Timestamp.nanos t)) v"

definition serde_option_timestamp_deserialize :: "(i64 \<times> i32) option \<Rightarrow> Timestamp option" where
  "serde_option_timestamp_deserialize p =
     map_option (\<lambda>(s, n). \<lparr>Timestamp.seconds = s, Timestamp.nanos = n\<rparr>) p"

definition serde_duration_serialize :: "prost_Duration \<Rightarrow> i64 \<times> i32" where
  "serde_duration_serialize v = (prost_Duration.seconds v, prost_Duration.nanos v)"

definition serde_duration_deserialize :: "i64 \<times> i32 \<Rightarrow> prost_Duration" where
  "serde_duration_deserialize p =
     (case p of (s, n) \<Rightarrow> \<lparr>prost_Duration.seconds = s, prost_Duration.nanos = n\<rparr>)"

definition serde_option_duration_serialize :: "prost_Duration option \<Rightarrow> (i64 \<times> i32) option" where
  "serde_option_duration_serialize v =
     map_option (\<lambda>t. (prost_Duration.seconds t, prost_Duration.nanos t)) v"

definition serde_option_duration_deserialize :: "(i64 \<times> i32) option \<Rightarrow> prost_Duration option" where
  "serde_option_duration_deserialize p =
     map_option (\<lambda>(s, n). \<lparr>prost_Duration.seconds = s, prost_Duration.nanos = n\<rparr>) p"

interpretation serde_timestamp: wire_codec serde_timestamp_serialize serde_timestamp_deserialize
  by unfold_locales (simp add: serde_timestamp_serialize_def serde_timestamp_deserialize_def)

interpretation serde_duration: wire_codec serde_duration_serialize serde_duration_deserialize
  by unfold_locales (simp add: serde_duration_serialize_def serde_duration_deserialize_def)

interpretation serde_option_timestamp:
  wire_codec serde_option_timestamp_serialize serde_option_timestamp_deserialize
proof unfold_locales
  fix x
  show "serde_option_timestamp_deserialize (serde_option_timestamp_serialize x) = x"
    by (cases x)
      (simp_all add: serde_option_timestamp_serialize_def serde_option_timestamp_deserialize_def)
qed

interpretation serde_option_duration:
  wire_codec serde_option_duration_serialize serde_option_duration_deserialize
proof unfold_locales
  fix x
  show "serde_option_duration_deserialize (serde_option_duration_serialize x) = x"
    by (cases x)
      (simp_all add: serde_option_duration_serialize_def serde_option_duration_deserialize_def)
qed

end
