(* ===== verification/Rpc.thy ===== *)
theory Rpc
  imports Rust_Prelude
begin

text \<open>
  The calling machinery that all services share: gRPC statuses, requests and contexts, the streams of
  the streaming calls, the client side of a call (\<^verbatim>\<open>impl_call!\<close> and the \<^verbatim>\<open>GrpcCall\<close> implementations of
  \<^verbatim>\<open>armonik/src/client\<close>) and the server side (\<^verbatim>\<open>impl_trait_methods!\<close> of \<^verbatim>\<open>armonik/src/server/mod.rs\<close>).

  The client stubs that tonic generates are parameters: for each service a record of functions from a
  request message and the state of the channel to a status or a response message, and the new state.
  A service implementation is likewise a record of handlers over its state. The futures of the
  code are run to completion; tracing spans have no effect on the result and are left out.
\<close>

section \<open>Statuses and errors\<close>

datatype Code =
    Ok | Cancelled | Unknown | InvalidArgument | DeadlineExceeded | NotFound | AlreadyExists
  | PermissionDenied | ResourceExhausted | FailedPrecondition | Aborted | OutOfRange | Unimplemented
  | Internal | Unavailable | DataLoss | Unauthenticated

record tonic_Status =
  code :: Code
  message :: string

definition Status_internal :: "string \<Rightarrow> tonic_Status" where
  "Status_internal m = \<lparr>tonic_Status.code = Code.Internal, tonic_Status.message = m\<rparr>"

definition Status_unimplemented :: "string \<Rightarrow> tonic_Status" where
  "Status_unimplemented m = \<lparr>tonic_Status.code = Code.Unimplemented, tonic_Status.message = m\<rparr>"

datatype RequestError = Grpc tonic_Status

text \<open>A fallible step over a state, and the change of its success value.\<close>

definition map_ok :: "('a \<Rightarrow> 'b) \<Rightarrow> ('e + 'a) \<times> 'c \<Rightarrow> ('e + 'b) \<times> 'c" where
  "map_ok f rc = (case rc of (r, c) \<Rightarrow> (map_sum (\<lambda>e. e) f r, c))"

definition and_then :: "('e + 'a) \<times> 'c \<Rightarrow> ('a \<Rightarrow> 'e + 'b) \<Rightarrow> ('e + 'b) \<times> 'c" where
  "and_then rc f = (case rc of (r, c) \<Rightarrow> (bindR r f, c))"

lemma map_ok_simps [simp]:
  "map_ok f (Inr x, c) = (Inr (f x), c)"
  "map_ok f (Inl e, c) = (Inl e, c)"
  "snd (map_ok f rc) = snd rc"
  "fst (map_ok f rc) = map_sum (\<lambda>e. e) f (fst rc)"
  by (simp_all add: map_ok_def split: prod.split)

lemma and_then_simps [simp]:
  "and_then (Inr x, c) f = (f x, c)"
  "and_then (Inl e, c) f = (Inl e, c)"
  "snd (and_then rc f) = snd rc"
  "fst (and_then rc f) = bindR (fst rc) f"
  by (simp_all add: and_then_def split: prod.split)

lemma map_sum_ident [simp]: "map_sum (\<lambda>e. e) (\<lambda>x. x) r = r"
  by (cases r) simp_all

lemma map_sum_ident_fun [simp]: "map_sum (\<lambda>e. e) (\<lambda>x. x) = (\<lambda>r. r)"
  by (simp add: fun_eq_iff)

lemma map_ok_ident [simp]: "map_ok (\<lambda>x. x) rc = rc"
  by (cases rc) (simp add: map_ok_def)

section \<open>Streams\<close>

text \<open>A stream yields items until it ends, or for ever.\<close>

codatatype 'a Stream = SNil | SCons 'a "'a Stream"

primcorec chain :: "'a Stream \<Rightarrow> 'a Stream \<Rightarrow> 'a Stream" where
  "chain s t = (case s of SNil \<Rightarrow> t | SCons x s' \<Rightarrow> SCons x (chain s' t))"

primrec stream_iter :: "'a list \<Rightarrow> 'a Stream" where
    "stream_iter [] = SNil"
  | "stream_iter (x # xs) = SCons x (stream_iter xs)"

lemma chain_simps [simp]:
  "chain SNil t = t"
  "chain (SCons x s) t = SCons x (chain s t)"
proof -
  show "chain SNil t = t" by (subst chain.code) simp
  show "chain (SCons x s) t = SCons x (chain s t)" by (subst chain.code) simp
qed

lemma chain_iter: "chain (stream_iter xs) (stream_iter ys) = stream_iter (xs @ ys)"
  by (induction xs) simp_all

lemma map_stream_iter [simp]: "map_Stream f (stream_iter xs) = stream_iter (map f xs)"
  by (induction xs) simp_all

text \<open>The first \<open>n\<close> items.\<close>

fun stake :: "nat \<Rightarrow> 'a Stream \<Rightarrow> 'a list" where
    "stake 0 s = []"
  | "stake (Suc n) s = (case s of SNil \<Rightarrow> [] | SCons x s' \<Rightarrow> x # stake n s')"

lemma stake_map: "stake n (map_Stream f s) = map f (stake n s)"
  by (induction n arbitrary: s) (auto split: Stream.splits)

lemma stake_iter: "length xs \<le> n \<Longrightarrow> stake n (stream_iter xs) = xs"
proof (induction xs arbitrary: n)
  case Nil
  show ?case by (cases n) simp_all
next
  case (Cons x xs)
  then show ?case by (cases n) simp_all
qed

lemma map_Stream_ident_fun [simp]: "map_Stream (\<lambda>x. x) = (\<lambda>s. s)"
  by (simp add: fun_eq_iff Stream.map_ident)

lemma map_Stream_cong_ident: "(\<And>x. f (g x) = x) \<Longrightarrow> map_Stream f (map_Stream g s) = s"
  by (simp add: Stream.map_comp o_def Stream.map_ident)

section \<open>The client side of a call\<close>

text \<open>
  A unary call: the request is converted, the stub is called once, a status becomes
  \<^verbatim>\<open>RequestError::Grpc\<close> and a response is converted back.
\<close>

type_synonym ('w, 'c, 'v) stub = "'w \<Rightarrow> 'c \<Rightarrow> (tonic_Status + 'v) \<times> 'c"

definition unary_call ::
  "('r \<Rightarrow> 'w) \<Rightarrow> ('v \<Rightarrow> 'p) \<Rightarrow> ('w, 'c, 'v) stub \<Rightarrow> 'r \<Rightarrow> 'c \<Rightarrow> (RequestError + 'p) \<times> 'c" where
  "unary_call enc dec rpc req c = (case rpc (enc req) c of (r, c') \<Rightarrow> (map_sum Grpc dec r, c'))"

text \<open>A call that sends a stream of requests.\<close>

definition client_stream_call ::
  "('r \<Rightarrow> 'w) \<Rightarrow> ('v \<Rightarrow> 'p) \<Rightarrow> ('w Stream, 'c, 'v) stub \<Rightarrow> 'r Stream \<Rightarrow> 'c \<Rightarrow> (RequestError + 'p) \<times> 'c" where
  "client_stream_call enc dec rpc reqs c =
     (case rpc (map_Stream enc reqs) c of (r, c') \<Rightarrow> (map_sum Grpc dec r, c'))"

text \<open>A call that receives a stream; each item is converted, and a status in it is wrapped.\<close>

definition server_stream_call ::
  "('r \<Rightarrow> 'w) \<Rightarrow> ('v \<Rightarrow> 'p) \<Rightarrow> ('w, 'c, (tonic_Status + 'v) Stream) stub \<Rightarrow> 'r \<Rightarrow> 'c
   \<Rightarrow> (RequestError + (RequestError + 'p) Stream) \<times> 'c" where
  "server_stream_call enc dec rpc req c =
     (case rpc (enc req) c of (r, c') \<Rightarrow> (map_sum Grpc (map_Stream (map_sum Grpc dec)) r, c'))"

text \<open>The raw call of \<^verbatim>\<open>Submitter\<close> leaves the statuses inside the stream as they are.\<close>

definition server_stream_call_raw ::
  "('r \<Rightarrow> 'w) \<Rightarrow> ('v \<Rightarrow> 'p) \<Rightarrow> ('w, 'c, (tonic_Status + 'v) Stream) stub \<Rightarrow> 'r \<Rightarrow> 'c
   \<Rightarrow> (RequestError + (tonic_Status + 'p) Stream) \<times> 'c" where
  "server_stream_call_raw enc dec rpc req c =
     (case rpc (enc req) c of (r, c') \<Rightarrow> (map_sum Grpc (map_Stream (map_sum (\<lambda>e. e) dec)) r, c'))"

lemma unary_call_error:
  "rpc (enc req) c = (Inl st, c') \<Longrightarrow> unary_call enc dec rpc req c = (Inl (Grpc st), c')"
  by (simp add: unary_call_def)

lemma unary_call_success:
  "rpc (enc req) c = (Inr v, c') \<Longrightarrow> unary_call enc dec rpc req c = (Inr (dec v), c')"
  by (simp add: unary_call_def)

section \<open>The server side of a call\<close>

record ('h, 'e) RequestContext =
  headers :: 'h
  extensions :: 'e

definition RequestContext_new :: "'h \<Rightarrow> 'e \<Rightarrow> ('h, 'e) RequestContext" where
  "RequestContext_new h e = \<lparr>RequestContext.headers = h, RequestContext.extensions = e\<rparr>"

text \<open>
  \<^verbatim>\<open>tonic::Request\<close> carries the metadata, the extensions and the message; \<^verbatim>\<open>into_parts\<close> separates them.
  \<open>ih\<close> is \<^verbatim>\<open>MetadataMap::into_headers\<close>.
\<close>

record ('m, 'e, 'w) tonic_Request =
  metadata :: 'm
  request_extensions :: 'e
  body :: 'w

type_synonym ('r, 'h, 'e, 's, 'p) handler =
  "'r \<Rightarrow> ('h, 'e) RequestContext \<Rightarrow> 's \<Rightarrow> (tonic_Status + 'p) \<times> 's"

definition unary_server ::
  "('m \<Rightarrow> 'h) \<Rightarrow> ('w \<Rightarrow> 'r) \<Rightarrow> ('p \<Rightarrow> 'v) \<Rightarrow> ('r, 'h, 'e, 's, 'p) handler
   \<Rightarrow> ('m, 'e, 'w) tonic_Request \<Rightarrow> 's \<Rightarrow> (tonic_Status + 'v) \<times> 's" where
  "unary_server ih dec enc h req s =
     (let request = dec (tonic_Request.body req);
          ctx = RequestContext_new (ih (tonic_Request.metadata req)) (tonic_Request.request_extensions req)
      in case h request ctx s of
           (Inr res, s') \<Rightarrow> (Inr (enc res), s')
         | (Inl err, s') \<Rightarrow> (Inl err, s'))"

definition client_stream_server ::
  "('m \<Rightarrow> 'h) \<Rightarrow> ('w \<Rightarrow> 'r) \<Rightarrow> ('p \<Rightarrow> 'v) \<Rightarrow> ((tonic_Status + 'r) Stream, 'h, 'e, 's, 'p) handler
   \<Rightarrow> ('m, 'e, (tonic_Status + 'w) Stream) tonic_Request \<Rightarrow> 's \<Rightarrow> (tonic_Status + 'v) \<times> 's" where
  "client_stream_server ih dec enc h req s =
     (let ctx = RequestContext_new (ih (tonic_Request.metadata req)) (tonic_Request.request_extensions req);
          stream = map_Stream (\<lambda>r. case r of Inr x \<Rightarrow> Inr (dec x) | Inl err \<Rightarrow> Inl err) (tonic_Request.body req)
      in case h stream ctx s of
           (Inr res, s') \<Rightarrow> (Inr (enc res), s')
         | (Inl err, s') \<Rightarrow> (Inl err, s'))"

definition server_stream_server ::
  "('m \<Rightarrow> 'h) \<Rightarrow> ('w \<Rightarrow> 'r) \<Rightarrow> ('p \<Rightarrow> 'v) \<Rightarrow> ('r, 'h, 'e, 's, (tonic_Status + 'p) Stream) handler
   \<Rightarrow> ('m, 'e, 'w) tonic_Request \<Rightarrow> 's \<Rightarrow> (tonic_Status + (tonic_Status + 'v) Stream) \<times> 's" where
  "server_stream_server ih dec enc h req s =
     (let request = dec (tonic_Request.body req);
          ctx = RequestContext_new (ih (tonic_Request.metadata req)) (tonic_Request.request_extensions req)
      in case h request ctx s of
           (Inr stream, s') \<Rightarrow>
             (Inr (map_Stream (\<lambda>r. case r of Inr x \<Rightarrow> Inr (enc x) | Inl err \<Rightarrow> Inl err) stream), s')
         | (Inl err, s') \<Rightarrow> (Inl err, s'))"

lemma case_sum_map_sum: "case_sum Inl (\<lambda>x. Inr (f x)) = map_sum (\<lambda>e. e) f"
  by (auto simp: fun_eq_iff split: sum.split)

lemma unary_server_eq:
  "unary_server ih dec enc h req s =
     map_ok enc (h (dec (tonic_Request.body req))
       (RequestContext_new (ih (tonic_Request.metadata req)) (tonic_Request.request_extensions req)) s)"
  by (simp add: unary_server_def map_ok_def Let_def split: prod.split sum.split)

lemma client_stream_server_eq:
  "client_stream_server ih dec enc h req s =
     map_ok enc (h (map_Stream (map_sum (\<lambda>e. e) dec) (tonic_Request.body req))
       (RequestContext_new (ih (tonic_Request.metadata req)) (tonic_Request.request_extensions req)) s)"
  by (simp add: client_stream_server_def map_ok_def Let_def case_sum_map_sum split: prod.split sum.split)

lemma server_stream_server_eq:
  "server_stream_server ih dec enc h req s =
     map_ok (map_Stream (map_sum (\<lambda>e. e) enc)) (h (dec (tonic_Request.body req))
       (RequestContext_new (ih (tonic_Request.metadata req)) (tonic_Request.request_extensions req)) s)"
  by (simp add: server_stream_server_def map_ok_def Let_def case_sum_map_sum split: prod.split sum.split)

section \<open>A client talking to a server\<close>

text \<open>
  A transport that delivers messages intact: the stub of the client hands the message, with the
  metadata \<open>m\<close> and the extensions \<open>e\<close> of the connection, to the server, whose state is the state of
  the channel. In the other direction a stream of requests arrives without transport errors.
\<close>

definition direct_request :: "'m \<Rightarrow> 'e \<Rightarrow> 'w \<Rightarrow> ('m, 'e, 'w) tonic_Request" where
  "direct_request m e w =
     \<lparr>tonic_Request.metadata = m, tonic_Request.request_extensions = e, tonic_Request.body = w\<rparr>"

definition direct_context :: "('m \<Rightarrow> 'h) \<Rightarrow> 'm \<Rightarrow> 'e \<Rightarrow> ('h, 'e) RequestContext" where
  "direct_context ih m e = RequestContext_new (ih m) e"

definition as_received :: "'w Stream \<Rightarrow> (tonic_Status + 'w) Stream" where
  "as_received s = map_Stream Inr s"

text \<open>What the caller of a handler would see if the handler were called in process.\<close>

definition in_process :: "(tonic_Status + 'p) \<times> 's \<Rightarrow> (RequestError + 'p) \<times> 's" where
  "in_process rc = (case rc of (r, s) \<Rightarrow> (map_sum Grpc (\<lambda>p. p) r, s))"

definition in_process_stream ::
  "(tonic_Status + (tonic_Status + 'p) Stream) \<times> 's \<Rightarrow> (RequestError + (RequestError + 'p) Stream) \<times> 's" where
  "in_process_stream rc = (case rc of (r, s) \<Rightarrow> (map_sum Grpc (map_Stream (map_sum Grpc (\<lambda>p. p))) r, s))"

lemma unary_loopback:
  "unary_call enc_q dec_p (\<lambda>w. unary_server ih dec_q enc_p h (direct_request m e w)) r s =
     in_process (map_ok (\<lambda>p. dec_p (enc_p p)) (h (dec_q (enc_q r)) (direct_context ih m e) s))"
  by (auto simp: unary_call_def unary_server_eq in_process_def map_ok_def direct_request_def
      direct_context_def sum.map_comp o_def split: prod.split)

lemma client_stream_loopback:
  "client_stream_call enc_q dec_p
       (\<lambda>ws. client_stream_server ih dec_q enc_p h (direct_request m e (as_received ws))) rs s =
     in_process (map_ok (\<lambda>p. dec_p (enc_p p))
       (h (as_received (map_Stream (\<lambda>r. dec_q (enc_q r)) rs)) (direct_context ih m e) s))"
  by (auto simp: client_stream_call_def client_stream_server_eq in_process_def map_ok_def
      direct_request_def direct_context_def as_received_def Stream.map_comp sum.map_comp o_def
      split: prod.split)

lemma server_stream_loopback:
  "server_stream_call enc_q dec_p (\<lambda>w. server_stream_server ih dec_q enc_p h (direct_request m e w)) r s =
     in_process_stream (map_ok (map_Stream (map_sum (\<lambda>e. e) (\<lambda>p. dec_p (enc_p p))))
       (h (dec_q (enc_q r)) (direct_context ih m e) s))"
  by (auto simp: server_stream_call_def server_stream_server_eq in_process_stream_def map_ok_def
      direct_request_def direct_context_def Stream.map_comp sum.map_comp o_def split: prod.split)

text \<open>
  The contract of one remote procedure: the codecs of its request and of its response. Under it a
  remote call is indistinguishable from calling the handler in process.
\<close>

locale rpc_link =
  req: partial_codec enc_q dec_q ok_q + resp: partial_codec enc_p dec_p ok_p
  for enc_q :: "'r \<Rightarrow> 'w" and dec_q :: "'w \<Rightarrow> 'r" and ok_q :: "'r \<Rightarrow> bool"
    and enc_p :: "'p \<Rightarrow> 'v" and dec_p :: "'v \<Rightarrow> 'p" and ok_p :: "'p \<Rightarrow> bool"
begin

lemma map_ok_decoded:
  assumes "\<And>p s'. rc = (Inr p, s') \<Longrightarrow> ok_p p"
  shows "map_ok (\<lambda>p. dec_p (enc_p p)) rc = rc"
  using assms by (cases rc; cases "fst rc") (auto simp: resp.roundtrip_faithful)

lemma unary_transparent:
  assumes "ok_q r" and "\<And>p s'. h r (direct_context ih m e) s = (Inr p, s') \<Longrightarrow> ok_p p"
  shows "unary_call enc_q dec_p (\<lambda>w. unary_server ih dec_q enc_p h (direct_request m e w)) r s =
    in_process (h r (direct_context ih m e) s)"
  using assms by (simp add: unary_loopback req.roundtrip_faithful map_ok_decoded)

lemma client_stream_transparent:
  assumes "\<And>r. r \<in> set_Stream rs \<Longrightarrow> ok_q r"
    and "\<And>p s'. h (as_received rs) (direct_context ih m e) s = (Inr p, s') \<Longrightarrow> ok_p p"
  shows "client_stream_call enc_q dec_p
      (\<lambda>ws. client_stream_server ih dec_q enc_p h (direct_request m e (as_received ws))) rs s =
    in_process (h (as_received rs) (direct_context ih m e) s)"
proof -
  have "map_Stream (\<lambda>r. dec_q (enc_q r)) rs = rs"
    using assms(1) by (simp add: req.roundtrip_faithful Stream.map_ident cong: Stream.map_cong)
  then show ?thesis using assms(2) by (simp add: client_stream_loopback map_ok_decoded)
qed

end

text \<open>When both codecs are total the transparency has no side condition.\<close>

locale total_rpc_link =
  treq: wire_codec enc_q dec_q + tresp: wire_codec enc_p dec_p
  for enc_q :: "'r \<Rightarrow> 'w" and dec_q :: "'w \<Rightarrow> 'r"
    and enc_p :: "'p \<Rightarrow> 'v" and dec_p :: "'v \<Rightarrow> 'p"

sublocale total_rpc_link \<subseteq> rpc_link enc_q dec_q "\<lambda>_. True" enc_p dec_p "\<lambda>_. True"
  by unfold_locales

context total_rpc_link
begin

lemma unary [simp]:
  "unary_call enc_q dec_p (\<lambda>w. unary_server ih dec_q enc_p h (direct_request m e w)) r s =
    in_process (h r (direct_context ih m e) s)"
  by (simp add: unary_transparent)

lemma client_stream [simp]:
  "client_stream_call enc_q dec_p
      (\<lambda>ws. client_stream_server ih dec_q enc_p h (direct_request m e (as_received ws))) rs s =
    in_process (h (as_received rs) (direct_context ih m e) s)"
  by (simp add: client_stream_transparent)

lemma server_stream [simp]:
  "server_stream_call enc_q dec_p (\<lambda>w. server_stream_server ih dec_q enc_p h (direct_request m e w)) r s =
    in_process_stream (h r (direct_context ih m e) s)"
  by (simp add: server_stream_loopback Stream.map_ident)

end

section \<open>Which procedures are called\<close>

text \<open>
  A recording channel: it keeps the service and the procedure of every call, and delegates to an
  inner stub.
\<close>

type_synonym 'c recording = "(string \<times> string) list \<times> 'c"

definition recorded :: "string \<Rightarrow> string \<Rightarrow> ('w, 'c, 'v) stub \<Rightarrow> ('w, 'c recording, 'v) stub" where
  "recorded svc rpc f w lc = (case lc of (l, c) \<Rightarrow> (case f w c of (r, c') \<Rightarrow> (r, (l @ [(svc, rpc)], c'))))"

definition calls :: "'a \<times> 'c recording \<Rightarrow> (string \<times> string) list" where
  "calls rc = fst (snd rc)"

lemma calls_map_ok [simp]: "calls (map_ok f rc) = calls rc"
  by (simp add: calls_def)

lemma calls_and_then [simp]: "calls (and_then rc f) = calls rc"
  by (simp add: calls_def)

lemma calls_unary [simp]:
  "calls (unary_call enc dec (recorded svc rpc f) req (l, c)) = l @ [(svc, rpc)]"
  by (simp add: calls_def unary_call_def recorded_def split: prod.split)

lemma calls_client_stream [simp]:
  "calls (client_stream_call enc dec (recorded svc rpc f) reqs (l, c)) = l @ [(svc, rpc)]"
  by (simp add: calls_def client_stream_call_def recorded_def split: prod.split)

lemma calls_server_stream [simp]:
  "calls (server_stream_call enc dec (recorded svc rpc f) req (l, c)) = l @ [(svc, rpc)]"
  by (simp add: calls_def server_stream_call_def recorded_def split: prod.split)

lemma calls_server_stream_raw [simp]:
  "calls (server_stream_call_raw enc dec (recorded svc rpc f) req (l, c)) = l @ [(svc, rpc)]"
  by (simp add: calls_def server_stream_call_raw_def recorded_def split: prod.split)

end
