(* ===== verification/Json.thy ===== *)
theory Json
  imports Rust_Prelude
begin

text \<open>
  JSON values and what \<^verbatim>\<open>serde\<close> makes of them for the types that the code reads from JSON: strings, booleans, unsigned
  integers and maps with string keys. An object is the list of its members in the order of the text, where a key may come
  twice. The text itself is read and written by \<^verbatim>\<open>serde_json\<close>, a parameter of the definitions that do so.
\<close>

datatype json =
    JNull
  | JBool bool
  | JInt int
  | JFloat string
  | JString string
  | JArray "json list"
  | JObject "(string \<times> json) list"

datatype json_error =
    InvalidType string
  | InvalidValue string
  | InvalidLength nat string
  | MissingField string
  | DuplicateField string
  | TrailingElements

fun json_string :: "json \<Rightarrow> json_error + string" where
    "json_string (JString s) = Inr s"
  | "json_string _ = Inl (InvalidType ''a string'')"

fun json_bool :: "json \<Rightarrow> json_error + bool" where
    "json_bool (JBool b) = Inr b"
  | "json_bool _ = Inl (InvalidType ''a boolean'')"

text \<open>\<^verbatim>\<open>usize\<close> has 64 bits on the platforms the crate is built for.\<close>

fun json_usize :: "json \<Rightarrow> json_error + nat" where
    "json_usize (JInt n) = (if 0 \<le> n \<and> n < 2 ^ 64 then Inr (nat n) else Inl (InvalidValue ''usize''))"
  | "json_usize _ = Inl (InvalidType ''usize'')"

text \<open>A \<^verbatim>\<open>HashMap\<close> keeps the last value of a key that comes twice.\<close>

primrec json_entries ::
  "(json \<Rightarrow> json_error + 'v) \<Rightarrow> (string \<times> json) list \<Rightarrow> (string \<rightharpoonup> 'v) \<Rightarrow> json_error + (string \<rightharpoonup> 'v)" where
    "json_entries f [] m = Inr m"
  | "json_entries f (kv # kvs) m = bindR (f (snd kv)) (\<lambda>v. json_entries f kvs (m(fst kv \<mapsto> v)))"

fun json_hash_map :: "(json \<Rightarrow> json_error + 'v) \<Rightarrow> json \<Rightarrow> json_error + (string \<rightharpoonup> 'v)" where
    "json_hash_map f (JObject kvs) = json_entries f kvs Map.empty"
  | "json_hash_map f _ = Inl (InvalidType ''a map'')"

section \<open>What is accepted\<close>

lemma json_string_Inr_iff [simp]: "json_string j = Inr s \<longleftrightarrow> j = JString s"
  by (cases j) auto

lemma json_bool_Inr_iff [simp]: "json_bool j = Inr b \<longleftrightarrow> j = JBool b"
  by (cases j) auto

lemma json_usize_Inr_iff: "json_usize j = Inr n \<longleftrightarrow> j = JInt (int n) \<and> n < 2 ^ 64"
proof (cases j)
  case (JInt i)
  have "int n < 2 ^ 64 \<longleftrightarrow> n < 2 ^ 64" by (metis of_nat_less_iff of_nat_numeral of_nat_power)
  with JInt show ?thesis by auto
qed auto

text \<open>An object whose keys are distinct is read member by member.\<close>

lemma json_entries_map:
  "(\<And>x. x \<in> set xs \<Longrightarrow> f (enc x) = Inr (dec x)) \<Longrightarrow>
     json_entries f (map (\<lambda>x. (key x, enc x)) xs) m = Inr (m ++ map_of (rev (map (\<lambda>x. (key x, dec x)) xs)))"
  by (induction xs arbitrary: m) (simp_all add: fun_upd_def map_add_def fun_eq_iff split: option.split)

lemma json_hash_map_map:
  assumes "\<And>x. x \<in> set xs \<Longrightarrow> f (enc x) = Inr (dec x)" and "distinct (map key xs)"
  shows "json_hash_map f (JObject (map (\<lambda>x. (key x, enc x)) xs)) = Inr (map_of (map (\<lambda>x. (key x, dec x)) xs))"
proof -
  have "map_of (rev (map (\<lambda>x. (key x, dec x)) xs)) = map_of (map (\<lambda>x. (key x, dec x)) xs)"
    using assms(2) by (subst map_of_inject_set) (simp_all add: comp_def flip: rev_map)
  then show ?thesis by (simp add: json_entries_map assms(1))
qed

end
