(* ===== verification/Request_Count.thy ===== *)
theory Request_Count
  imports Rpc Json
begin

text \<open>
  What the unit tests of the service clients (the \<^verbatim>\<open>tests\<close> modules of \<^verbatim>\<open>armonik/src/client/*.rs\<close>) rest on: the mock server
  of the repository, which counts the calls of each of its methods (\<^verbatim>\<open>csharp/ArmoniK.Api.Mock\<close>), and the shape
  that all these tests share: read a counter, make one call, read the counter again.

  A channel that records calls (\<^verbatim>\<open>Rpc\<close>) is the server seen from its counters: they are a function of the calls
  it has received. Recording changes nothing else, which is the first group of lemmas.
\<close>

section \<open>Recording changes nothing but the record\<close>

definition logged :: "string \<Rightarrow> string \<Rightarrow> (string \<times> string) list \<Rightarrow> 'a \<times> 'c \<Rightarrow> 'a \<times> 'c recording" where
  "logged svc rpc l rc = (fst rc, (l @ [(svc, rpc)], snd rc))"

named_theorems logged_simps

lemma recorded_logged [logged_simps]: "recorded svc rpc f w (l, c) = logged svc rpc l (f w c)"
  by (simp add: recorded_def logged_def split: prod.split)

lemma logged_calls [logged_simps]:
  "unary_call enc dec (recorded svc rpc f) req (l, c) = logged svc rpc l (unary_call enc dec f req c)"
  "client_stream_call enc dec (recorded svc rpc f') reqs (l, c) = logged svc rpc l (client_stream_call enc dec f' reqs c)"
  "server_stream_call enc dec' (recorded svc rpc f'') req (l, c) = logged svc rpc l (server_stream_call enc dec' f'' req c)"
  "server_stream_call_raw enc dec' (recorded svc rpc f'') req (l, c) =
     logged svc rpc l (server_stream_call_raw enc dec' f'' req c)"
  by (simp_all add: unary_call_def client_stream_call_def server_stream_call_def server_stream_call_raw_def
      recorded_def logged_def split: prod.split)

lemma logged_results [logged_simps]:
  "map_ok g (logged svc rpc l rc) = logged svc rpc l (map_ok g rc)"
  "and_then (logged svc rpc l rc) h = logged svc rpc l (and_then rc h)"
  by (simp_all add: logged_def map_ok_def and_then_def split: prod.split)

lemma logged_select [simp]:
  "fst (logged svc rpc l rc) = fst rc"
  "snd (logged svc rpc l rc) = (l @ [(svc, rpc)], snd rc)"
  by (simp_all add: logged_def)

section \<open>The counters of the mock server\<close>

text \<open>The methods that carry the attribute \<^verbatim>\<open>[Count]\<close>, by class.\<close>

definition mock_Agent :: "string list" where
  "mock_Agent = [''CreateTask'', ''CreateResultsMetaData'', ''SubmitTasks'', ''CreateResults'', ''GetCommonData'',
     ''GetDirectData'', ''GetResourceData'', ''NotifyResultData'']"

definition mock_Applications :: "string list" where
  "mock_Applications = [''ListApplications'']"

definition mock_Authentication :: "string list" where
  "mock_Authentication = [''GetCurrentUser'']"

definition mock_Events :: "string list" where
  "mock_Events = [''GetEvents'']"

definition mock_HealthChecks :: "string list" where
  "mock_HealthChecks = [''CheckHealth'']"

definition mock_Partitions :: "string list" where
  "mock_Partitions = [''GetPartition'', ''ListPartitions'']"

definition mock_Results :: "string list" where
  "mock_Results = [''GetOwnerTaskId'', ''ListResults'', ''CreateResultsMetaData'', ''CreateResults'',
     ''DeleteResultsData'', ''DownloadResultData'', ''GetServiceConfiguration'', ''UploadResultData'',
     ''GetResult'', ''WatchResults'', ''ImportResultsData'']"

definition mock_Sessions :: "string list" where
  "mock_Sessions = [''CancelSession'', ''CreateSession'', ''GetSession'', ''ListSessions'', ''DeleteSession'',
     ''PauseSession'', ''ResumeSession'', ''CloseSession'', ''PurgeSession'', ''StopSubmission'']"

definition mock_Submitter :: "string list" where
  "mock_Submitter = [''GetServiceConfiguration'', ''CancelSession'', ''CancelTasks'', ''CreateSession'',
     ''CreateSmallTasks'', ''CreateLargeTasks'', ''CountTasks'', ''TryGetResultStream'',
     ''WaitForCompletion'', ''TryGetTaskOutput'', ''WaitForAvailability'', ''GetTaskStatus'',
     ''GetResultStatus'', ''ListTasks'', ''ListSessions'', ''WatchResults'']"

definition mock_Tasks :: "string list" where
  "mock_Tasks = [''GetTask'', ''ListTasks'', ''GetResultIds'', ''CancelTasks'', ''CountTasksByStatus'',
     ''ListTasksDetailed'', ''SubmitTasks'']"

definition mock_Versions :: "string list" where
  "mock_Versions = [''ListVersions'']"

text \<open>\<^verbatim>\<open>CountingService\<close> finds the classes by reflection and starts with a zero for each counted method.\<close>

type_synonym counters = "(string \<times> (string \<times> i64) list) list"

definition mock_services :: "(string \<times> string list) list" where
  "mock_services = [
     (''Agent'', mock_Agent),
     (''Applications'', mock_Applications),
     (''Authentication'', mock_Authentication),
     (''Events'', mock_Events),
     (''HealthChecks'', mock_HealthChecks),
     (''Partitions'', mock_Partitions),
     (''Results'', mock_Results),
     (''Sessions'', mock_Sessions),
     (''Submitter'', mock_Submitter),
     (''Tasks'', mock_Tasks),
     (''Versions'', mock_Versions)]"

definition CountingService_init :: counters where
  "CountingService_init = map (\<lambda>(cls, ms). (cls, map (\<lambda>m. (m, 0)) ms)) mock_services"

text \<open>A call of a counted method adds one, in 64 bits.\<close>

definition CountAttribute_Init :: "string \<Rightarrow> string \<Rightarrow> counters \<Rightarrow> counters" where
  "CountAttribute_Init cls m cs =
     map (\<lambda>(k, ms). (k, if k = cls then map (\<lambda>(j, n). (j, if j = m then n + 1 else n)) ms else ms)) cs"

text \<open>
  The class that implements a service has its name, but for the health checks. \<open>served l\<close> are the counters of
  a server that has received the calls \<open>l\<close>.
\<close>

definition mock_class :: "string \<Rightarrow> string" where
  "mock_class svc = (if svc = ''HealthChecksService'' then ''HealthChecks'' else svc)"

definition served :: "(string \<times> string) list \<Rightarrow> counters" where
  "served l = foldl (\<lambda>cs (svc, rpc). CountAttribute_Init (mock_class svc) rpc cs) CountingService_init l"

definition occurrences :: "(string \<times> string) list \<Rightarrow> string \<Rightarrow> string \<Rightarrow> nat" where
  "occurrences l cls m = length (filter (\<lambda>(svc, rpc). mock_class svc = cls \<and> rpc = m) l)"

lemma occurrences_simps [simp]:
  "occurrences [] cls m = 0"
  "occurrences (l @ [(svc, rpc)]) cls m = occurrences l cls m + (if mock_class svc = cls \<and> rpc = m then 1 else 0)"
  by (simp_all add: occurrences_def)

lemma occurrences_le: "occurrences l cls m \<le> length l"
  by (simp add: occurrences_def)

lemma served_snoc: "served (l @ [(svc, rpc)]) = CountAttribute_Init (mock_class svc) rpc (served l)"
  by (simp add: served_def)

text \<open>The counters are the numbers of the calls received, up to the width of a counter.\<close>

lemma served_eq:
  "served l = map (\<lambda>(cls, ms). (cls, map (\<lambda>m. (m, of_nat (occurrences l cls m))) ms)) mock_services"
proof (induction l rule: rev_induct)
  case Nil
  show ?case by (simp add: served_def CountingService_init_def)
next
  case (snoc x l)
  obtain svc rpc where "x = (svc, rpc)" by (cases x)
  with snoc show ?case by (auto simp: served_snoc CountAttribute_Init_def)
qed

section \<open>Reading a counter\<close>

text \<open>
  The server answers \<^verbatim>\<open>GET /calls.json\<close> with its counters as JSON; a method that the body of a request excludes is
  left out, and the body of a \<^verbatim>\<open>GET\<close> is empty. The client reads the answer as
  \<^verbatim>\<open>HashMap<String, HashMap<String, usize>>\<close>, which no negative number fits, and indexes it; \<open>None\<close> is a panic.
\<close>

definition GetCounters :: "(string \<rightharpoonup> string list) \<Rightarrow> counters \<Rightarrow> counters" where
  "GetCounters exclude cs = map (\<lambda>(cls, ms).
     (cls, filter (\<lambda>(m, n). m \<notin> set (case exclude cls of None \<Rightarrow> [] | Some ex \<Rightarrow> ex)) ms)) cs"

definition Calls :: "(string \<rightharpoonup> string list) \<Rightarrow> counters \<Rightarrow> json" where
  "Calls exclude cs = JObject (map (\<lambda>(cls, ms). (cls, JObject (map (\<lambda>(m, n). (m, JInt (sint n))) ms)))
     (GetCounters exclude cs))"

definition calls_from_json :: "json \<Rightarrow> json_error + (string \<rightharpoonup> (string \<rightharpoonup> nat))" where
  "calls_from_json = json_hash_map (json_hash_map json_usize)"

definition mock_counter :: "string \<Rightarrow> string \<Rightarrow> 'c recording \<Rightarrow> nat option" where
  "mock_counter cls m w = (case calls_from_json (Calls Map.empty (served (fst w))) of
       Inl _ \<Rightarrow> None
     | Inr counts \<Rightarrow> Option.bind (counts cls) (\<lambda>methods. methods m))"

definition counts_method :: "string \<Rightarrow> string \<Rightarrow> bool" where
  "counts_method cls m \<longleftrightarrow> (case map_of mock_services cls of None \<Rightarrow> False | Some ms \<Rightarrow> m \<in> set ms)"

text \<open>\<^verbatim>\<open>POST /reset\<close> brings every counter back to its start.\<close>

definition ResetCounters :: "counters \<Rightarrow> counters" where
  "ResetCounters cs = map (\<lambda>(cls, ms). (cls, map (\<lambda>(m, n). (m, 0)) ms)) cs"

lemma ResetCounters_served: "ResetCounters (served l) = CountingService_init"
  by (simp add: ResetCounters_def served_eq CountingService_init_def split_beta comp_def)

lemmas mock_methods = mock_services_def
  mock_Agent_def mock_Applications_def mock_Authentication_def mock_Events_def mock_HealthChecks_def mock_Partitions_def
  mock_Results_def mock_Sessions_def mock_Submitter_def mock_Tasks_def mock_Versions_def

lemma mock_services_distinct:
  "distinct (map fst mock_services)" "(cls, ms) \<in> set mock_services \<Longrightarrow> distinct ms"
  by (auto simp: mock_methods)

lemma sint_occurrences: "length l < 2 ^ 63 \<Longrightarrow> sint (of_nat (occurrences l cls m) :: i64) = int (occurrences l cls m)"
  using occurrences_le [of l cls m] by (simp add: signed_of_nat signed_take_bit_int_eq_self)

lemma Calls_served:
  assumes "length l < 2 ^ 63"
  shows "Calls Map.empty (served l) = JObject (map (\<lambda>x. (fst x,
    JObject (map (\<lambda>m. (m, JInt (int (occurrences l (fst x) m)))) (snd x)))) mock_services)"
  using assms by (simp add: Calls_def GetCounters_def served_eq split_beta comp_def sint_occurrences)

lemma calls_from_json_served:
  assumes "length l < 2 ^ 63"
  shows "calls_from_json (Calls Map.empty (served l)) =
    Inr (map_of (map (\<lambda>x. (fst x, map_of (map (\<lambda>m. (m, occurrences l (fst x) m)) (snd x)))) mock_services))"
proof -
  have n: "json_usize (JInt (int (occurrences l cls m))) = Inr (occurrences l cls m)" for cls m
    using assms occurrences_le [of l cls m] by (simp add: json_usize_Inr_iff)
  have counts: "json_hash_map json_usize (JObject (map (\<lambda>m. (m, JInt (int (occurrences l (fst x) m)))) (snd x))) =
      Inr (map_of (map (\<lambda>m. (m, occurrences l (fst x) m)) (snd x)))" if "x \<in> set mock_services" for x
    using that mock_services_distinct(2) [of "fst x" "snd x"]
    by (intro json_hash_map_map n) (simp add: comp_def)
  show ?thesis
    unfolding calls_from_json_def Calls_served [OF assms]
    by (rule json_hash_map_map) (use counts mock_services_distinct(1) in blast)+
qed

lemma map_of_map_values: "map_of (map (\<lambda>x. (fst x, f x)) xs) k = map_option (\<lambda>v. f (k, v)) (map_of xs k)"
  by (induction xs) auto

text \<open>The counter of a method is the number of its calls; reading any other counter panics.\<close>

lemma mock_counter_eq:
  assumes "length (fst w) < 2 ^ 63"
  shows "mock_counter cls m w = (if counts_method cls m then Some (occurrences (fst w) cls m) else None)"
  using assms
  by (auto simp: mock_counter_def calls_from_json_served counts_method_def
      map_of_map_values map_of_map_restrict split: option.splits)

section \<open>The shape of a test\<close>

text \<open>
  A test names the counter it reads and the call it makes with the client of its service; the call says
  whether the test panics on its result. \<open>connect\<close> is \<^verbatim>\<open>Client::new().await.unwrap()\<close> with the accessor
  of the service, and \<open>nb\<close> is \<^verbatim>\<open>Client::get_nb_request\<close>; both panic as \<open>None\<close>.
\<close>

record ('cl, 'w) client_test =
  counter_service :: string
  counter_rpc :: string
  test_call :: "'cl \<Rightarrow> 'w \<Rightarrow> bool \<times> 'w"

definition counted ::
  "(string \<Rightarrow> string \<Rightarrow> 'w \<Rightarrow> nat option) \<Rightarrow> ('w \<Rightarrow> 'cl option) \<Rightarrow> ('cl, 'w) client_test \<Rightarrow> 'w \<Rightarrow> bool" where
  "counted nb connect t w =
     (case nb (counter_service t) (counter_rpc t) w of
        None \<Rightarrow> False
      | Some before \<Rightarrow> (case connect w of
          None \<Rightarrow> False
        | Some cl \<Rightarrow> (case test_call t cl w of (passed, w') \<Rightarrow>
            passed \<and> (case nb (counter_service t) (counter_rpc t) w' of
              None \<Rightarrow> False
            | Some after \<Rightarrow> before \<le> after \<and> after - before = 1))))"

text \<open>What the tests do with a result: \<^verbatim>\<open>unwrap\<close>; \<^verbatim>\<open>unwrap\<close>, collect the stream and \<^verbatim>\<open>unwrap\<close>; or accept an error too,
  when it is an internal status without a message.\<close>

definition unwrap :: "('e + 'a) \<times> 'w \<Rightarrow> bool \<times> 'w" where
  "unwrap rw = (case fst rw of Inr _ \<Rightarrow> True | Inl _ \<Rightarrow> False, snd rw)"

inductive collects :: "('e + 'a) Stream \<Rightarrow> bool" where
    "collects SNil"
  | "collects s \<Longrightarrow> collects (SCons (Inr x) s)"

inductive_simps collects_simps [simp]:
  "collects SNil" "collects (SCons x s)"

definition unwrap_collect :: "('e + ('f + 'a) Stream) \<times> 'w \<Rightarrow> bool \<times> 'w" where
  "unwrap_collect rw = (case fst rw of Inr s \<Rightarrow> collects s | Inl _ \<Rightarrow> False, snd rw)"

definition tolerate :: "(RequestError + 'a) \<times> 'w \<Rightarrow> bool \<times> 'w" where
  "tolerate rw = (case fst rw of
       Inr _ \<Rightarrow> True
     | Inl (Grpc st) \<Rightarrow> tonic_Status.code st = Code.Internal \<and> tonic_Status.message st = [], snd rw)"

lemma logged_outcomes [logged_simps]:
  "unwrap (logged svc rpc l rc) = logged svc rpc l (unwrap rc)"
  "unwrap_collect (logged svc rpc l rc') = logged svc rpc l (unwrap_collect rc')"
  "tolerate (logged svc rpc l rc'') = logged svc rpc l (tolerate rc'')"
  by (simp_all add: unwrap_def unwrap_collect_def tolerate_def logged_def)

text \<open>
  A test against the mock passes exactly when its call does not panic: the counter it reads is the one of the
  procedure that the call reaches, and the call reaches it once. A test is used at two types of channel, with the record
  and without.
\<close>

lemma counted_iff:
  assumes call: "test_call t (rec cl) (l, c) = logged svc rpc l (test_call t' cl c)"
    and reads: "counter_service t = mock_class svc" "counter_rpc t = rpc" "counts_method (mock_class svc) rpc"
    and room: "length l < 2 ^ 63 - 1"
  shows "counted mock_counter (\<lambda>_. Some (rec cl)) t (l, c) \<longleftrightarrow> fst (test_call t' cl c)"
proof -
  have "mock_counter (mock_class svc) rpc (l, c) = Some (occurrences l (mock_class svc) rpc)"
    "mock_counter (mock_class svc) rpc (l @ [(svc, rpc)], snd (test_call t' cl c)) =
      Some (Suc (occurrences l (mock_class svc) rpc))"
    using room reads(3) by (simp_all add: mock_counter_eq)
  then show ?thesis by (simp add: counted_def call reads logged_def)
qed

text \<open>What evaluates a call against a stub that answers at once, and a test on its answer.\<close>

lemmas mock_simps = unary_call_def client_stream_call_def server_stream_call_def server_stream_call_raw_def
  map_ok_def and_then_def unwrap_def unwrap_collect_def tolerate_def

lemmas counts_simps = counts_method_def mock_class_def mock_methods

text \<open>Tests that are decided by their answers pass when the answers are right.\<close>

lemma list_all_decided: "map f xs = map g ys \<Longrightarrow> list_all g ys \<Longrightarrow> list_all f xs"
  by (induction xs ys rule: list_induct2') simp_all

section \<open>The integration tests\<close>

text \<open>
  The handlers of the integration tests (\<^verbatim>\<open>armonik/tests/*.rs\<close>) answer through \<^verbatim>\<open>unary_rpc_impl\<close>: they wait for a while, fail
  when they are told to, and otherwise answer. The tests assert something of the unwrapped result, and index the lists in it.
\<close>

definition unary_rpc_impl :: "tonic_Status option \<Rightarrow> 'a \<Rightarrow> 's \<Rightarrow> (tonic_Status + 'a) \<times> 's" where
  "unary_rpc_impl fails answer s = (case fails of Some st \<Rightarrow> (Inl st, s) | None \<Rightarrow> (Inr answer, s))"

definition expects :: "('a \<Rightarrow> bool) \<Rightarrow> ('e + 'a) \<times> 's \<Rightarrow> bool" where
  "expects P rs = (case fst rs of Inl _ \<Rightarrow> False | Inr x \<Rightarrow> P x)"

definition indexed :: "nat \<Rightarrow> ('a \<Rightarrow> bool) \<Rightarrow> 'a list \<Rightarrow> bool" where
  "indexed i P xs \<longleftrightarrow> i < length xs \<and> P (xs ! i)"

lemma map_ok_unary_rpc_impl [simp]: "map_ok f (unary_rpc_impl fails x s) = unary_rpc_impl fails (f x) s"
  by (simp add: unary_rpc_impl_def split: option.split)

lemma expects_in_process [simp]:
  "expects P (in_process (unary_rpc_impl fails x s)) \<longleftrightarrow> fails = None \<and> P x"
  "expects Q (map_ok f (in_process (unary_rpc_impl fails y s))) \<longleftrightarrow> fails = None \<and> Q (f y)"
  by (simp_all add: expects_def in_process_def unary_rpc_impl_def split: option.split)

end
