(* ===== verification/Enums.thy ===== *)
theory Enums
  imports Rust_Prelude
begin

text \<open>
  The enumerations of \<^verbatim>\<open>armonik/src/objects\<close> that several services share: statuses, sort direction and
  filter operators. Each has its discriminants (\<open>_as_i32\<close>), its decoder (\<open>_of_i32\<close>), its default
  and, where the code has them, the conversions to and from the enum generated from the schema. The
  interpretations discharge, for every enumeration, that encoding is injective and decoded back,
  that an unknown number gives the documented fallback, and that the discriminants are the numbers
  of the schema.
\<close>

section \<open>Statuses\<close>

datatype TaskStatus =
    Unspecified
  | Creating
  | Submitted
  | Dispatched
  | Completed
  | Error
  | Timeout
  | Cancelling
  | Cancelled
  | Processing
  | Processed
  | Retried
  | Pending
  | Paused

primrec TaskStatus_as_i32 :: "TaskStatus \<Rightarrow> i32" where
    "TaskStatus_as_i32 TaskStatus.Unspecified = 0"
  | "TaskStatus_as_i32 TaskStatus.Creating = 1"
  | "TaskStatus_as_i32 TaskStatus.Submitted = 2"
  | "TaskStatus_as_i32 TaskStatus.Dispatched = 3"
  | "TaskStatus_as_i32 TaskStatus.Completed = 4"
  | "TaskStatus_as_i32 TaskStatus.Error = 5"
  | "TaskStatus_as_i32 TaskStatus.Timeout = 6"
  | "TaskStatus_as_i32 TaskStatus.Cancelling = 7"
  | "TaskStatus_as_i32 TaskStatus.Cancelled = 8"
  | "TaskStatus_as_i32 TaskStatus.Processing = 9"
  | "TaskStatus_as_i32 TaskStatus.Processed = 10"
  | "TaskStatus_as_i32 TaskStatus.Retried = 11"
  | "TaskStatus_as_i32 TaskStatus.Pending = 12"
  | "TaskStatus_as_i32 TaskStatus.Paused = 13"

definition TaskStatus_default :: TaskStatus where
  "TaskStatus_default = TaskStatus.Unspecified"

definition TaskStatus_of_i32 :: "i32 \<Rightarrow> TaskStatus" where
  "TaskStatus_of_i32 i =
    (if i = 0 then TaskStatus.Unspecified
     else if i = 1 then TaskStatus.Creating
     else if i = 2 then TaskStatus.Submitted
     else if i = 3 then TaskStatus.Dispatched
     else if i = 4 then TaskStatus.Completed
     else if i = 5 then TaskStatus.Error
     else if i = 6 then TaskStatus.Timeout
     else if i = 7 then TaskStatus.Cancelling
     else if i = 8 then TaskStatus.Cancelled
     else if i = 9 then TaskStatus.Processing
     else if i = 10 then TaskStatus.Processed
     else if i = 11 then TaskStatus.Retried
     else if i = 12 then TaskStatus.Pending
     else if i = 13 then TaskStatus.Paused
     else TaskStatus_default)"

datatype v3_task_status_TaskStatus =
    Unspecified
  | Creating
  | Submitted
  | Dispatched
  | Completed
  | Error
  | Timeout
  | Cancelling
  | Cancelled
  | Processing
  | Processed
  | Retried
  | Pending
  | Paused

primrec v3_task_status_TaskStatus_as_i32 :: "v3_task_status_TaskStatus \<Rightarrow> i32" where
    "v3_task_status_TaskStatus_as_i32 v3_task_status_TaskStatus.Unspecified = 0"
  | "v3_task_status_TaskStatus_as_i32 v3_task_status_TaskStatus.Creating = 1"
  | "v3_task_status_TaskStatus_as_i32 v3_task_status_TaskStatus.Submitted = 2"
  | "v3_task_status_TaskStatus_as_i32 v3_task_status_TaskStatus.Dispatched = 3"
  | "v3_task_status_TaskStatus_as_i32 v3_task_status_TaskStatus.Completed = 4"
  | "v3_task_status_TaskStatus_as_i32 v3_task_status_TaskStatus.Error = 5"
  | "v3_task_status_TaskStatus_as_i32 v3_task_status_TaskStatus.Timeout = 6"
  | "v3_task_status_TaskStatus_as_i32 v3_task_status_TaskStatus.Cancelling = 7"
  | "v3_task_status_TaskStatus_as_i32 v3_task_status_TaskStatus.Cancelled = 8"
  | "v3_task_status_TaskStatus_as_i32 v3_task_status_TaskStatus.Processing = 9"
  | "v3_task_status_TaskStatus_as_i32 v3_task_status_TaskStatus.Processed = 10"
  | "v3_task_status_TaskStatus_as_i32 v3_task_status_TaskStatus.Retried = 11"
  | "v3_task_status_TaskStatus_as_i32 v3_task_status_TaskStatus.Pending = 12"
  | "v3_task_status_TaskStatus_as_i32 v3_task_status_TaskStatus.Paused = 13"

primrec TaskStatus_to_v3 :: "TaskStatus \<Rightarrow> v3_task_status_TaskStatus" where
    "TaskStatus_to_v3 TaskStatus.Unspecified = v3_task_status_TaskStatus.Unspecified"
  | "TaskStatus_to_v3 TaskStatus.Creating = v3_task_status_TaskStatus.Creating"
  | "TaskStatus_to_v3 TaskStatus.Submitted = v3_task_status_TaskStatus.Submitted"
  | "TaskStatus_to_v3 TaskStatus.Dispatched = v3_task_status_TaskStatus.Dispatched"
  | "TaskStatus_to_v3 TaskStatus.Completed = v3_task_status_TaskStatus.Completed"
  | "TaskStatus_to_v3 TaskStatus.Error = v3_task_status_TaskStatus.Error"
  | "TaskStatus_to_v3 TaskStatus.Timeout = v3_task_status_TaskStatus.Timeout"
  | "TaskStatus_to_v3 TaskStatus.Cancelling = v3_task_status_TaskStatus.Cancelling"
  | "TaskStatus_to_v3 TaskStatus.Cancelled = v3_task_status_TaskStatus.Cancelled"
  | "TaskStatus_to_v3 TaskStatus.Processing = v3_task_status_TaskStatus.Processing"
  | "TaskStatus_to_v3 TaskStatus.Processed = v3_task_status_TaskStatus.Processed"
  | "TaskStatus_to_v3 TaskStatus.Retried = v3_task_status_TaskStatus.Retried"
  | "TaskStatus_to_v3 TaskStatus.Pending = v3_task_status_TaskStatus.Pending"
  | "TaskStatus_to_v3 TaskStatus.Paused = v3_task_status_TaskStatus.Paused"

primrec TaskStatus_of_v3 :: "v3_task_status_TaskStatus \<Rightarrow> TaskStatus" where
    "TaskStatus_of_v3 v3_task_status_TaskStatus.Unspecified = TaskStatus.Unspecified"
  | "TaskStatus_of_v3 v3_task_status_TaskStatus.Creating = TaskStatus.Creating"
  | "TaskStatus_of_v3 v3_task_status_TaskStatus.Submitted = TaskStatus.Submitted"
  | "TaskStatus_of_v3 v3_task_status_TaskStatus.Dispatched = TaskStatus.Dispatched"
  | "TaskStatus_of_v3 v3_task_status_TaskStatus.Completed = TaskStatus.Completed"
  | "TaskStatus_of_v3 v3_task_status_TaskStatus.Error = TaskStatus.Error"
  | "TaskStatus_of_v3 v3_task_status_TaskStatus.Timeout = TaskStatus.Timeout"
  | "TaskStatus_of_v3 v3_task_status_TaskStatus.Cancelling = TaskStatus.Cancelling"
  | "TaskStatus_of_v3 v3_task_status_TaskStatus.Cancelled = TaskStatus.Cancelled"
  | "TaskStatus_of_v3 v3_task_status_TaskStatus.Processing = TaskStatus.Processing"
  | "TaskStatus_of_v3 v3_task_status_TaskStatus.Processed = TaskStatus.Processed"
  | "TaskStatus_of_v3 v3_task_status_TaskStatus.Retried = TaskStatus.Retried"
  | "TaskStatus_of_v3 v3_task_status_TaskStatus.Pending = TaskStatus.Pending"
  | "TaskStatus_of_v3 v3_task_status_TaskStatus.Paused = TaskStatus.Paused"

interpretation TaskStatus_enum: mirrored_enum TaskStatus_as_i32 TaskStatus_of_i32 TaskStatus_default
    TaskStatus_to_v3 TaskStatus_of_v3 v3_task_status_TaskStatus_as_i32
proof unfold_locales
  fix e
  show "TaskStatus_of_i32 (TaskStatus_as_i32 e) = e" by (cases e) (simp_all add: TaskStatus_of_i32_def TaskStatus_default_def)
next
  fix i
  assume "TaskStatus_of_i32 i \<noteq> TaskStatus_default"
  then show "TaskStatus_as_i32 (TaskStatus_of_i32 i) = i"
    by (simp add: TaskStatus_of_i32_def TaskStatus_default_def split: if_splits)
next
  fix e
  show "TaskStatus_of_v3 (TaskStatus_to_v3 e) = e" by (cases e) simp_all
next
  fix w
  show "TaskStatus_to_v3 (TaskStatus_of_v3 w) = w" by (cases w) simp_all
next
  fix e
  show "v3_task_status_TaskStatus_as_i32 (TaskStatus_to_v3 e) = TaskStatus_as_i32 e" by (cases e) simp_all
qed

datatype ResultStatus =
    Unspecified
  | Created
  | Completed
  | Aborted
  | Deleted
  | NotFound

primrec ResultStatus_as_i32 :: "ResultStatus \<Rightarrow> i32" where
    "ResultStatus_as_i32 ResultStatus.Unspecified = 0"
  | "ResultStatus_as_i32 ResultStatus.Created = 1"
  | "ResultStatus_as_i32 ResultStatus.Completed = 2"
  | "ResultStatus_as_i32 ResultStatus.Aborted = 3"
  | "ResultStatus_as_i32 ResultStatus.Deleted = 4"
  | "ResultStatus_as_i32 ResultStatus.NotFound = 127"

definition ResultStatus_default :: ResultStatus where
  "ResultStatus_default = ResultStatus.Unspecified"

definition ResultStatus_of_i32 :: "i32 \<Rightarrow> ResultStatus" where
  "ResultStatus_of_i32 i =
    (if i = 0 then ResultStatus.Unspecified
     else if i = 1 then ResultStatus.Created
     else if i = 2 then ResultStatus.Completed
     else if i = 3 then ResultStatus.Aborted
     else if i = 4 then ResultStatus.Deleted
     else if i = 127 then ResultStatus.NotFound
     else ResultStatus_default)"

datatype v3_result_status_ResultStatus =
    Unspecified
  | Created
  | Completed
  | Aborted
  | Deleted
  | Notfound

primrec v3_result_status_ResultStatus_as_i32 :: "v3_result_status_ResultStatus \<Rightarrow> i32" where
    "v3_result_status_ResultStatus_as_i32 v3_result_status_ResultStatus.Unspecified = 0"
  | "v3_result_status_ResultStatus_as_i32 v3_result_status_ResultStatus.Created = 1"
  | "v3_result_status_ResultStatus_as_i32 v3_result_status_ResultStatus.Completed = 2"
  | "v3_result_status_ResultStatus_as_i32 v3_result_status_ResultStatus.Aborted = 3"
  | "v3_result_status_ResultStatus_as_i32 v3_result_status_ResultStatus.Deleted = 4"
  | "v3_result_status_ResultStatus_as_i32 v3_result_status_ResultStatus.Notfound = 127"

primrec ResultStatus_to_v3 :: "ResultStatus \<Rightarrow> v3_result_status_ResultStatus" where
    "ResultStatus_to_v3 ResultStatus.Unspecified = v3_result_status_ResultStatus.Unspecified"
  | "ResultStatus_to_v3 ResultStatus.Created = v3_result_status_ResultStatus.Created"
  | "ResultStatus_to_v3 ResultStatus.Completed = v3_result_status_ResultStatus.Completed"
  | "ResultStatus_to_v3 ResultStatus.Aborted = v3_result_status_ResultStatus.Aborted"
  | "ResultStatus_to_v3 ResultStatus.Deleted = v3_result_status_ResultStatus.Deleted"
  | "ResultStatus_to_v3 ResultStatus.NotFound = v3_result_status_ResultStatus.Notfound"

primrec ResultStatus_of_v3 :: "v3_result_status_ResultStatus \<Rightarrow> ResultStatus" where
    "ResultStatus_of_v3 v3_result_status_ResultStatus.Unspecified = ResultStatus.Unspecified"
  | "ResultStatus_of_v3 v3_result_status_ResultStatus.Created = ResultStatus.Created"
  | "ResultStatus_of_v3 v3_result_status_ResultStatus.Completed = ResultStatus.Completed"
  | "ResultStatus_of_v3 v3_result_status_ResultStatus.Aborted = ResultStatus.Aborted"
  | "ResultStatus_of_v3 v3_result_status_ResultStatus.Deleted = ResultStatus.Deleted"
  | "ResultStatus_of_v3 v3_result_status_ResultStatus.Notfound = ResultStatus.NotFound"

interpretation ResultStatus_enum: mirrored_enum ResultStatus_as_i32 ResultStatus_of_i32 ResultStatus_default
    ResultStatus_to_v3 ResultStatus_of_v3 v3_result_status_ResultStatus_as_i32
proof unfold_locales
  fix e
  show "ResultStatus_of_i32 (ResultStatus_as_i32 e) = e" by (cases e) (simp_all add: ResultStatus_of_i32_def ResultStatus_default_def)
next
  fix i
  assume "ResultStatus_of_i32 i \<noteq> ResultStatus_default"
  then show "ResultStatus_as_i32 (ResultStatus_of_i32 i) = i"
    by (simp add: ResultStatus_of_i32_def ResultStatus_default_def split: if_splits)
next
  fix e
  show "ResultStatus_of_v3 (ResultStatus_to_v3 e) = e" by (cases e) simp_all
next
  fix w
  show "ResultStatus_to_v3 (ResultStatus_of_v3 w) = w" by (cases w) simp_all
next
  fix e
  show "v3_result_status_ResultStatus_as_i32 (ResultStatus_to_v3 e) = ResultStatus_as_i32 e" by (cases e) simp_all
qed

datatype SessionStatus =
    Unspecified
  | Running
  | Cancelled
  | Paused
  | Closed
  | Purged
  | Deleted

primrec SessionStatus_as_i32 :: "SessionStatus \<Rightarrow> i32" where
    "SessionStatus_as_i32 SessionStatus.Unspecified = 0"
  | "SessionStatus_as_i32 SessionStatus.Running = 1"
  | "SessionStatus_as_i32 SessionStatus.Cancelled = 2"
  | "SessionStatus_as_i32 SessionStatus.Paused = 3"
  | "SessionStatus_as_i32 SessionStatus.Closed = 4"
  | "SessionStatus_as_i32 SessionStatus.Purged = 5"
  | "SessionStatus_as_i32 SessionStatus.Deleted = 6"

definition SessionStatus_default :: SessionStatus where
  "SessionStatus_default = SessionStatus.Unspecified"

definition SessionStatus_of_i32 :: "i32 \<Rightarrow> SessionStatus" where
  "SessionStatus_of_i32 i =
    (if i = 0 then SessionStatus.Unspecified
     else if i = 1 then SessionStatus.Running
     else if i = 2 then SessionStatus.Cancelled
     else if i = 3 then SessionStatus.Paused
     else if i = 4 then SessionStatus.Closed
     else if i = 5 then SessionStatus.Purged
     else if i = 6 then SessionStatus.Deleted
     else SessionStatus_default)"

datatype v3_session_status_SessionStatus =
    Unspecified
  | Running
  | Cancelled
  | Paused
  | Closed
  | Purged
  | Deleted

primrec v3_session_status_SessionStatus_as_i32 :: "v3_session_status_SessionStatus \<Rightarrow> i32" where
    "v3_session_status_SessionStatus_as_i32 v3_session_status_SessionStatus.Unspecified = 0"
  | "v3_session_status_SessionStatus_as_i32 v3_session_status_SessionStatus.Running = 1"
  | "v3_session_status_SessionStatus_as_i32 v3_session_status_SessionStatus.Cancelled = 2"
  | "v3_session_status_SessionStatus_as_i32 v3_session_status_SessionStatus.Paused = 3"
  | "v3_session_status_SessionStatus_as_i32 v3_session_status_SessionStatus.Closed = 4"
  | "v3_session_status_SessionStatus_as_i32 v3_session_status_SessionStatus.Purged = 5"
  | "v3_session_status_SessionStatus_as_i32 v3_session_status_SessionStatus.Deleted = 6"

primrec SessionStatus_to_v3 :: "SessionStatus \<Rightarrow> v3_session_status_SessionStatus" where
    "SessionStatus_to_v3 SessionStatus.Unspecified = v3_session_status_SessionStatus.Unspecified"
  | "SessionStatus_to_v3 SessionStatus.Running = v3_session_status_SessionStatus.Running"
  | "SessionStatus_to_v3 SessionStatus.Cancelled = v3_session_status_SessionStatus.Cancelled"
  | "SessionStatus_to_v3 SessionStatus.Paused = v3_session_status_SessionStatus.Paused"
  | "SessionStatus_to_v3 SessionStatus.Closed = v3_session_status_SessionStatus.Closed"
  | "SessionStatus_to_v3 SessionStatus.Purged = v3_session_status_SessionStatus.Purged"
  | "SessionStatus_to_v3 SessionStatus.Deleted = v3_session_status_SessionStatus.Deleted"

primrec SessionStatus_of_v3 :: "v3_session_status_SessionStatus \<Rightarrow> SessionStatus" where
    "SessionStatus_of_v3 v3_session_status_SessionStatus.Unspecified = SessionStatus.Unspecified"
  | "SessionStatus_of_v3 v3_session_status_SessionStatus.Running = SessionStatus.Running"
  | "SessionStatus_of_v3 v3_session_status_SessionStatus.Cancelled = SessionStatus.Cancelled"
  | "SessionStatus_of_v3 v3_session_status_SessionStatus.Paused = SessionStatus.Paused"
  | "SessionStatus_of_v3 v3_session_status_SessionStatus.Closed = SessionStatus.Closed"
  | "SessionStatus_of_v3 v3_session_status_SessionStatus.Purged = SessionStatus.Purged"
  | "SessionStatus_of_v3 v3_session_status_SessionStatus.Deleted = SessionStatus.Deleted"

interpretation SessionStatus_enum: mirrored_enum SessionStatus_as_i32 SessionStatus_of_i32 SessionStatus_default
    SessionStatus_to_v3 SessionStatus_of_v3 v3_session_status_SessionStatus_as_i32
proof unfold_locales
  fix e
  show "SessionStatus_of_i32 (SessionStatus_as_i32 e) = e" by (cases e) (simp_all add: SessionStatus_of_i32_def SessionStatus_default_def)
next
  fix i
  assume "SessionStatus_of_i32 i \<noteq> SessionStatus_default"
  then show "SessionStatus_as_i32 (SessionStatus_of_i32 i) = i"
    by (simp add: SessionStatus_of_i32_def SessionStatus_default_def split: if_splits)
next
  fix e
  show "SessionStatus_of_v3 (SessionStatus_to_v3 e) = e" by (cases e) simp_all
next
  fix w
  show "SessionStatus_to_v3 (SessionStatus_of_v3 w) = w" by (cases w) simp_all
next
  fix e
  show "v3_session_status_SessionStatus_as_i32 (SessionStatus_to_v3 e) = SessionStatus_as_i32 e" by (cases e) simp_all
qed

text \<open>Task statuses key the hash map of \<^verbatim>\<open>Count\<close>; their discriminants order them.\<close>

instantiation TaskStatus :: linorder
begin

definition less_eq_TaskStatus :: "TaskStatus \<Rightarrow> TaskStatus \<Rightarrow> bool" where
  "less_eq_TaskStatus a b \<longleftrightarrow> TaskStatus_as_i32 a \<le> TaskStatus_as_i32 b"

definition less_TaskStatus :: "TaskStatus \<Rightarrow> TaskStatus \<Rightarrow> bool" where
  "less_TaskStatus a b \<longleftrightarrow> TaskStatus_as_i32 a < TaskStatus_as_i32 b"

instance
  by standard (auto simp: less_eq_TaskStatus_def less_TaskStatus_def order.strict_iff_order)

end

section \<open>Sort direction\<close>

datatype SortDirection =
    Unspecified
  | Asc
  | Desc

primrec SortDirection_as_i32 :: "SortDirection \<Rightarrow> i32" where
    "SortDirection_as_i32 SortDirection.Unspecified = 0"
  | "SortDirection_as_i32 SortDirection.Asc = 1"
  | "SortDirection_as_i32 SortDirection.Desc = 2"

definition SortDirection_default :: SortDirection where
  "SortDirection_default = SortDirection.Asc"

definition SortDirection_of_i32 :: "i32 \<Rightarrow> SortDirection" where
  "SortDirection_of_i32 i =
    (if i = 0 then SortDirection.Unspecified
     else if i = 1 then SortDirection.Asc
     else if i = 2 then SortDirection.Desc
     else SortDirection.Unspecified)"

datatype v3_sort_direction_SortDirection =
    Unspecified
  | Asc
  | Desc

primrec v3_sort_direction_SortDirection_as_i32 :: "v3_sort_direction_SortDirection \<Rightarrow> i32" where
    "v3_sort_direction_SortDirection_as_i32 v3_sort_direction_SortDirection.Unspecified = 0"
  | "v3_sort_direction_SortDirection_as_i32 v3_sort_direction_SortDirection.Asc = 1"
  | "v3_sort_direction_SortDirection_as_i32 v3_sort_direction_SortDirection.Desc = 2"

primrec SortDirection_to_v3 :: "SortDirection \<Rightarrow> v3_sort_direction_SortDirection" where
    "SortDirection_to_v3 SortDirection.Unspecified = v3_sort_direction_SortDirection.Unspecified"
  | "SortDirection_to_v3 SortDirection.Asc = v3_sort_direction_SortDirection.Asc"
  | "SortDirection_to_v3 SortDirection.Desc = v3_sort_direction_SortDirection.Desc"

primrec SortDirection_of_v3 :: "v3_sort_direction_SortDirection \<Rightarrow> SortDirection" where
    "SortDirection_of_v3 v3_sort_direction_SortDirection.Unspecified = SortDirection.Unspecified"
  | "SortDirection_of_v3 v3_sort_direction_SortDirection.Asc = SortDirection.Asc"
  | "SortDirection_of_v3 v3_sort_direction_SortDirection.Desc = SortDirection.Desc"

interpretation SortDirection_enum: mirrored_enum SortDirection_as_i32 SortDirection_of_i32 SortDirection.Unspecified
    SortDirection_to_v3 SortDirection_of_v3 v3_sort_direction_SortDirection_as_i32
proof unfold_locales
  fix e
  show "SortDirection_of_i32 (SortDirection_as_i32 e) = e" by (cases e) (simp_all add: SortDirection_of_i32_def SortDirection_default_def)
next
  fix i
  assume "SortDirection_of_i32 i \<noteq> SortDirection.Unspecified"
  then show "SortDirection_as_i32 (SortDirection_of_i32 i) = i"
    by (simp add: SortDirection_of_i32_def SortDirection_default_def split: if_splits)
next
  fix e
  show "SortDirection_of_v3 (SortDirection_to_v3 e) = e" by (cases e) simp_all
next
  fix w
  show "SortDirection_to_v3 (SortDirection_of_v3 w) = w" by (cases w) simp_all
next
  fix e
  show "v3_sort_direction_SortDirection_as_i32 (SortDirection_to_v3 e) = SortDirection_as_i32 e" by (cases e) simp_all
qed

section \<open>Fields of the task options\<close>

datatype TaskOptionField =
    Unspecified
  | MaxDuration
  | MaxRetries
  | Priority
  | PartitionId
  | ApplicationName
  | ApplicationVersion
  | ApplicationNamespace
  | ApplicationService
  | ApplicationEngine

primrec TaskOptionField_as_i32 :: "TaskOptionField \<Rightarrow> i32" where
    "TaskOptionField_as_i32 TaskOptionField.Unspecified = 0"
  | "TaskOptionField_as_i32 TaskOptionField.MaxDuration = 1"
  | "TaskOptionField_as_i32 TaskOptionField.MaxRetries = 2"
  | "TaskOptionField_as_i32 TaskOptionField.Priority = 3"
  | "TaskOptionField_as_i32 TaskOptionField.PartitionId = 4"
  | "TaskOptionField_as_i32 TaskOptionField.ApplicationName = 5"
  | "TaskOptionField_as_i32 TaskOptionField.ApplicationVersion = 6"
  | "TaskOptionField_as_i32 TaskOptionField.ApplicationNamespace = 7"
  | "TaskOptionField_as_i32 TaskOptionField.ApplicationService = 8"
  | "TaskOptionField_as_i32 TaskOptionField.ApplicationEngine = 9"

definition TaskOptionField_default :: TaskOptionField where
  "TaskOptionField_default = TaskOptionField.Unspecified"

definition TaskOptionField_of_i32 :: "i32 \<Rightarrow> TaskOptionField" where
  "TaskOptionField_of_i32 i =
    (if i = 0 then TaskOptionField.Unspecified
     else if i = 1 then TaskOptionField.MaxDuration
     else if i = 2 then TaskOptionField.MaxRetries
     else if i = 3 then TaskOptionField.Priority
     else if i = 4 then TaskOptionField.PartitionId
     else if i = 5 then TaskOptionField.ApplicationName
     else if i = 6 then TaskOptionField.ApplicationVersion
     else if i = 7 then TaskOptionField.ApplicationNamespace
     else if i = 8 then TaskOptionField.ApplicationService
     else if i = 9 then TaskOptionField.ApplicationEngine
     else TaskOptionField.Unspecified)"

interpretation TaskOptionField_enum: proto_enum TaskOptionField_as_i32 TaskOptionField_of_i32 TaskOptionField.Unspecified
proof unfold_locales
  fix e
  show "TaskOptionField_of_i32 (TaskOptionField_as_i32 e) = e" by (cases e) (simp_all add: TaskOptionField_of_i32_def TaskOptionField_default_def)
next
  fix i
  assume "TaskOptionField_of_i32 i \<noteq> TaskOptionField.Unspecified"
  then show "TaskOptionField_as_i32 (TaskOptionField_of_i32 i) = i"
    by (simp add: TaskOptionField_of_i32_def TaskOptionField_default_def split: if_splits)
qed

section \<open>Filter operators\<close>

datatype FilterStringOperator =
    Equal
  | NotEqual
  | Contains
  | NotContains
  | StartsWith
  | EndsWith

primrec FilterStringOperator_as_i32 :: "FilterStringOperator \<Rightarrow> i32" where
    "FilterStringOperator_as_i32 FilterStringOperator.Equal = 0"
  | "FilterStringOperator_as_i32 FilterStringOperator.NotEqual = 1"
  | "FilterStringOperator_as_i32 FilterStringOperator.Contains = 2"
  | "FilterStringOperator_as_i32 FilterStringOperator.NotContains = 3"
  | "FilterStringOperator_as_i32 FilterStringOperator.StartsWith = 4"
  | "FilterStringOperator_as_i32 FilterStringOperator.EndsWith = 5"

definition FilterStringOperator_default :: FilterStringOperator where
  "FilterStringOperator_default = FilterStringOperator.Equal"

definition FilterStringOperator_of_i32 :: "i32 \<Rightarrow> FilterStringOperator" where
  "FilterStringOperator_of_i32 i =
    (if i = 0 then FilterStringOperator.Equal
     else if i = 1 then FilterStringOperator.NotEqual
     else if i = 2 then FilterStringOperator.Contains
     else if i = 3 then FilterStringOperator.NotContains
     else if i = 4 then FilterStringOperator.StartsWith
     else if i = 5 then FilterStringOperator.EndsWith
     else FilterStringOperator_default)"

datatype v3_FilterStringOperator =
    Equal
  | NotEqual
  | Contains
  | NotContains
  | StartsWith
  | EndsWith

primrec v3_FilterStringOperator_as_i32 :: "v3_FilterStringOperator \<Rightarrow> i32" where
    "v3_FilterStringOperator_as_i32 v3_FilterStringOperator.Equal = 0"
  | "v3_FilterStringOperator_as_i32 v3_FilterStringOperator.NotEqual = 1"
  | "v3_FilterStringOperator_as_i32 v3_FilterStringOperator.Contains = 2"
  | "v3_FilterStringOperator_as_i32 v3_FilterStringOperator.NotContains = 3"
  | "v3_FilterStringOperator_as_i32 v3_FilterStringOperator.StartsWith = 4"
  | "v3_FilterStringOperator_as_i32 v3_FilterStringOperator.EndsWith = 5"

primrec FilterStringOperator_to_v3 :: "FilterStringOperator \<Rightarrow> v3_FilterStringOperator" where
    "FilterStringOperator_to_v3 FilterStringOperator.Equal = v3_FilterStringOperator.Equal"
  | "FilterStringOperator_to_v3 FilterStringOperator.NotEqual = v3_FilterStringOperator.NotEqual"
  | "FilterStringOperator_to_v3 FilterStringOperator.Contains = v3_FilterStringOperator.Contains"
  | "FilterStringOperator_to_v3 FilterStringOperator.NotContains = v3_FilterStringOperator.NotContains"
  | "FilterStringOperator_to_v3 FilterStringOperator.StartsWith = v3_FilterStringOperator.StartsWith"
  | "FilterStringOperator_to_v3 FilterStringOperator.EndsWith = v3_FilterStringOperator.EndsWith"

primrec FilterStringOperator_of_v3 :: "v3_FilterStringOperator \<Rightarrow> FilterStringOperator" where
    "FilterStringOperator_of_v3 v3_FilterStringOperator.Equal = FilterStringOperator.Equal"
  | "FilterStringOperator_of_v3 v3_FilterStringOperator.NotEqual = FilterStringOperator.NotEqual"
  | "FilterStringOperator_of_v3 v3_FilterStringOperator.Contains = FilterStringOperator.Contains"
  | "FilterStringOperator_of_v3 v3_FilterStringOperator.NotContains = FilterStringOperator.NotContains"
  | "FilterStringOperator_of_v3 v3_FilterStringOperator.StartsWith = FilterStringOperator.StartsWith"
  | "FilterStringOperator_of_v3 v3_FilterStringOperator.EndsWith = FilterStringOperator.EndsWith"

interpretation FilterStringOperator_enum: mirrored_enum FilterStringOperator_as_i32 FilterStringOperator_of_i32 FilterStringOperator_default
    FilterStringOperator_to_v3 FilterStringOperator_of_v3 v3_FilterStringOperator_as_i32
proof unfold_locales
  fix e
  show "FilterStringOperator_of_i32 (FilterStringOperator_as_i32 e) = e" by (cases e) (simp_all add: FilterStringOperator_of_i32_def FilterStringOperator_default_def)
next
  fix i
  assume "FilterStringOperator_of_i32 i \<noteq> FilterStringOperator_default"
  then show "FilterStringOperator_as_i32 (FilterStringOperator_of_i32 i) = i"
    by (simp add: FilterStringOperator_of_i32_def FilterStringOperator_default_def split: if_splits)
next
  fix e
  show "FilterStringOperator_of_v3 (FilterStringOperator_to_v3 e) = e" by (cases e) simp_all
next
  fix w
  show "FilterStringOperator_to_v3 (FilterStringOperator_of_v3 w) = w" by (cases w) simp_all
next
  fix e
  show "v3_FilterStringOperator_as_i32 (FilterStringOperator_to_v3 e) = FilterStringOperator_as_i32 e" by (cases e) simp_all
qed

datatype FilterNumberOperator =
    Equal
  | NotEqual
  | LessThan
  | LessThanOrEqual
  | GreaterThanOrEqual
  | GreaterThan

primrec FilterNumberOperator_as_i32 :: "FilterNumberOperator \<Rightarrow> i32" where
    "FilterNumberOperator_as_i32 FilterNumberOperator.Equal = 0"
  | "FilterNumberOperator_as_i32 FilterNumberOperator.NotEqual = 1"
  | "FilterNumberOperator_as_i32 FilterNumberOperator.LessThan = 2"
  | "FilterNumberOperator_as_i32 FilterNumberOperator.LessThanOrEqual = 3"
  | "FilterNumberOperator_as_i32 FilterNumberOperator.GreaterThanOrEqual = 4"
  | "FilterNumberOperator_as_i32 FilterNumberOperator.GreaterThan = 5"

definition FilterNumberOperator_default :: FilterNumberOperator where
  "FilterNumberOperator_default = FilterNumberOperator.Equal"

definition FilterNumberOperator_of_i32 :: "i32 \<Rightarrow> FilterNumberOperator" where
  "FilterNumberOperator_of_i32 i =
    (if i = 0 then FilterNumberOperator.Equal
     else if i = 1 then FilterNumberOperator.NotEqual
     else if i = 2 then FilterNumberOperator.LessThan
     else if i = 3 then FilterNumberOperator.LessThanOrEqual
     else if i = 4 then FilterNumberOperator.GreaterThanOrEqual
     else if i = 5 then FilterNumberOperator.GreaterThan
     else FilterNumberOperator_default)"

datatype v3_FilterNumberOperator =
    Equal
  | NotEqual
  | LessThan
  | LessThanOrEqual
  | GreaterThanOrEqual
  | GreaterThan

primrec v3_FilterNumberOperator_as_i32 :: "v3_FilterNumberOperator \<Rightarrow> i32" where
    "v3_FilterNumberOperator_as_i32 v3_FilterNumberOperator.Equal = 0"
  | "v3_FilterNumberOperator_as_i32 v3_FilterNumberOperator.NotEqual = 1"
  | "v3_FilterNumberOperator_as_i32 v3_FilterNumberOperator.LessThan = 2"
  | "v3_FilterNumberOperator_as_i32 v3_FilterNumberOperator.LessThanOrEqual = 3"
  | "v3_FilterNumberOperator_as_i32 v3_FilterNumberOperator.GreaterThanOrEqual = 4"
  | "v3_FilterNumberOperator_as_i32 v3_FilterNumberOperator.GreaterThan = 5"

primrec FilterNumberOperator_to_v3 :: "FilterNumberOperator \<Rightarrow> v3_FilterNumberOperator" where
    "FilterNumberOperator_to_v3 FilterNumberOperator.Equal = v3_FilterNumberOperator.Equal"
  | "FilterNumberOperator_to_v3 FilterNumberOperator.NotEqual = v3_FilterNumberOperator.NotEqual"
  | "FilterNumberOperator_to_v3 FilterNumberOperator.LessThan = v3_FilterNumberOperator.LessThan"
  | "FilterNumberOperator_to_v3 FilterNumberOperator.LessThanOrEqual = v3_FilterNumberOperator.LessThanOrEqual"
  | "FilterNumberOperator_to_v3 FilterNumberOperator.GreaterThanOrEqual = v3_FilterNumberOperator.GreaterThanOrEqual"
  | "FilterNumberOperator_to_v3 FilterNumberOperator.GreaterThan = v3_FilterNumberOperator.GreaterThan"

primrec FilterNumberOperator_of_v3 :: "v3_FilterNumberOperator \<Rightarrow> FilterNumberOperator" where
    "FilterNumberOperator_of_v3 v3_FilterNumberOperator.Equal = FilterNumberOperator.Equal"
  | "FilterNumberOperator_of_v3 v3_FilterNumberOperator.NotEqual = FilterNumberOperator.NotEqual"
  | "FilterNumberOperator_of_v3 v3_FilterNumberOperator.LessThan = FilterNumberOperator.LessThan"
  | "FilterNumberOperator_of_v3 v3_FilterNumberOperator.LessThanOrEqual = FilterNumberOperator.LessThanOrEqual"
  | "FilterNumberOperator_of_v3 v3_FilterNumberOperator.GreaterThanOrEqual = FilterNumberOperator.GreaterThanOrEqual"
  | "FilterNumberOperator_of_v3 v3_FilterNumberOperator.GreaterThan = FilterNumberOperator.GreaterThan"

interpretation FilterNumberOperator_enum: mirrored_enum FilterNumberOperator_as_i32 FilterNumberOperator_of_i32 FilterNumberOperator_default
    FilterNumberOperator_to_v3 FilterNumberOperator_of_v3 v3_FilterNumberOperator_as_i32
proof unfold_locales
  fix e
  show "FilterNumberOperator_of_i32 (FilterNumberOperator_as_i32 e) = e" by (cases e) (simp_all add: FilterNumberOperator_of_i32_def FilterNumberOperator_default_def)
next
  fix i
  assume "FilterNumberOperator_of_i32 i \<noteq> FilterNumberOperator_default"
  then show "FilterNumberOperator_as_i32 (FilterNumberOperator_of_i32 i) = i"
    by (simp add: FilterNumberOperator_of_i32_def FilterNumberOperator_default_def split: if_splits)
next
  fix e
  show "FilterNumberOperator_of_v3 (FilterNumberOperator_to_v3 e) = e" by (cases e) simp_all
next
  fix w
  show "FilterNumberOperator_to_v3 (FilterNumberOperator_of_v3 w) = w" by (cases w) simp_all
next
  fix e
  show "v3_FilterNumberOperator_as_i32 (FilterNumberOperator_to_v3 e) = FilterNumberOperator_as_i32 e" by (cases e) simp_all
qed

datatype FilterArrayOperator =
    Contains
  | NotContains

primrec FilterArrayOperator_as_i32 :: "FilterArrayOperator \<Rightarrow> i32" where
    "FilterArrayOperator_as_i32 FilterArrayOperator.Contains = 0"
  | "FilterArrayOperator_as_i32 FilterArrayOperator.NotContains = 1"

definition FilterArrayOperator_default :: FilterArrayOperator where
  "FilterArrayOperator_default = FilterArrayOperator.Contains"

definition FilterArrayOperator_of_i32 :: "i32 \<Rightarrow> FilterArrayOperator" where
  "FilterArrayOperator_of_i32 i =
    (if i = 0 then FilterArrayOperator.Contains
     else if i = 1 then FilterArrayOperator.NotContains
     else FilterArrayOperator_default)"

datatype v3_FilterArrayOperator =
    Contains
  | NotContains

primrec v3_FilterArrayOperator_as_i32 :: "v3_FilterArrayOperator \<Rightarrow> i32" where
    "v3_FilterArrayOperator_as_i32 v3_FilterArrayOperator.Contains = 0"
  | "v3_FilterArrayOperator_as_i32 v3_FilterArrayOperator.NotContains = 1"

primrec FilterArrayOperator_to_v3 :: "FilterArrayOperator \<Rightarrow> v3_FilterArrayOperator" where
    "FilterArrayOperator_to_v3 FilterArrayOperator.Contains = v3_FilterArrayOperator.Contains"
  | "FilterArrayOperator_to_v3 FilterArrayOperator.NotContains = v3_FilterArrayOperator.NotContains"

primrec FilterArrayOperator_of_v3 :: "v3_FilterArrayOperator \<Rightarrow> FilterArrayOperator" where
    "FilterArrayOperator_of_v3 v3_FilterArrayOperator.Contains = FilterArrayOperator.Contains"
  | "FilterArrayOperator_of_v3 v3_FilterArrayOperator.NotContains = FilterArrayOperator.NotContains"

interpretation FilterArrayOperator_enum: mirrored_enum FilterArrayOperator_as_i32 FilterArrayOperator_of_i32 FilterArrayOperator_default
    FilterArrayOperator_to_v3 FilterArrayOperator_of_v3 v3_FilterArrayOperator_as_i32
proof unfold_locales
  fix e
  show "FilterArrayOperator_of_i32 (FilterArrayOperator_as_i32 e) = e" by (cases e) (simp_all add: FilterArrayOperator_of_i32_def FilterArrayOperator_default_def)
next
  fix i
  assume "FilterArrayOperator_of_i32 i \<noteq> FilterArrayOperator_default"
  then show "FilterArrayOperator_as_i32 (FilterArrayOperator_of_i32 i) = i"
    by (simp add: FilterArrayOperator_of_i32_def FilterArrayOperator_default_def split: if_splits)
next
  fix e
  show "FilterArrayOperator_of_v3 (FilterArrayOperator_to_v3 e) = e" by (cases e) simp_all
next
  fix w
  show "FilterArrayOperator_to_v3 (FilterArrayOperator_of_v3 w) = w" by (cases w) simp_all
next
  fix e
  show "v3_FilterArrayOperator_as_i32 (FilterArrayOperator_to_v3 e) = FilterArrayOperator_as_i32 e" by (cases e) simp_all
qed

datatype FilterBooleanOperator =
    Is

primrec FilterBooleanOperator_as_i32 :: "FilterBooleanOperator \<Rightarrow> i32" where
    "FilterBooleanOperator_as_i32 FilterBooleanOperator.Is = 0"

definition FilterBooleanOperator_default :: FilterBooleanOperator where
  "FilterBooleanOperator_default = FilterBooleanOperator.Is"

definition FilterBooleanOperator_of_i32 :: "i32 \<Rightarrow> FilterBooleanOperator" where
  "FilterBooleanOperator_of_i32 i =
    (if i = 0 then FilterBooleanOperator.Is
     else FilterBooleanOperator_default)"

datatype v3_FilterBooleanOperator =
    Is

primrec v3_FilterBooleanOperator_as_i32 :: "v3_FilterBooleanOperator \<Rightarrow> i32" where
    "v3_FilterBooleanOperator_as_i32 v3_FilterBooleanOperator.Is = 0"

primrec FilterBooleanOperator_to_v3 :: "FilterBooleanOperator \<Rightarrow> v3_FilterBooleanOperator" where
    "FilterBooleanOperator_to_v3 FilterBooleanOperator.Is = v3_FilterBooleanOperator.Is"

primrec FilterBooleanOperator_of_v3 :: "v3_FilterBooleanOperator \<Rightarrow> FilterBooleanOperator" where
    "FilterBooleanOperator_of_v3 v3_FilterBooleanOperator.Is = FilterBooleanOperator.Is"

interpretation FilterBooleanOperator_enum: mirrored_enum FilterBooleanOperator_as_i32 FilterBooleanOperator_of_i32 FilterBooleanOperator_default
    FilterBooleanOperator_to_v3 FilterBooleanOperator_of_v3 v3_FilterBooleanOperator_as_i32
proof unfold_locales
  fix e
  show "FilterBooleanOperator_of_i32 (FilterBooleanOperator_as_i32 e) = e" by (cases e) (simp_all add: FilterBooleanOperator_of_i32_def FilterBooleanOperator_default_def)
next
  fix i
  assume "FilterBooleanOperator_of_i32 i \<noteq> FilterBooleanOperator_default"
  then show "FilterBooleanOperator_as_i32 (FilterBooleanOperator_of_i32 i) = i"
    by (simp add: FilterBooleanOperator_of_i32_def FilterBooleanOperator_default_def split: if_splits)
next
  fix e
  show "FilterBooleanOperator_of_v3 (FilterBooleanOperator_to_v3 e) = e" by (cases e) simp_all
next
  fix w
  show "FilterBooleanOperator_to_v3 (FilterBooleanOperator_of_v3 w) = w" by (cases w) simp_all
next
  fix e
  show "v3_FilterBooleanOperator_as_i32 (FilterBooleanOperator_to_v3 e) = FilterBooleanOperator_as_i32 e" by (cases e) simp_all
qed

datatype FilterDateOperator =
    Equal
  | NotEqual
  | Before
  | BeforeOrEqual
  | AfterOrEqual
  | After

primrec FilterDateOperator_as_i32 :: "FilterDateOperator \<Rightarrow> i32" where
    "FilterDateOperator_as_i32 FilterDateOperator.Equal = 0"
  | "FilterDateOperator_as_i32 FilterDateOperator.NotEqual = 1"
  | "FilterDateOperator_as_i32 FilterDateOperator.Before = 2"
  | "FilterDateOperator_as_i32 FilterDateOperator.BeforeOrEqual = 3"
  | "FilterDateOperator_as_i32 FilterDateOperator.AfterOrEqual = 4"
  | "FilterDateOperator_as_i32 FilterDateOperator.After = 5"

definition FilterDateOperator_default :: FilterDateOperator where
  "FilterDateOperator_default = FilterDateOperator.Equal"

definition FilterDateOperator_of_i32 :: "i32 \<Rightarrow> FilterDateOperator" where
  "FilterDateOperator_of_i32 i =
    (if i = 0 then FilterDateOperator.Equal
     else if i = 1 then FilterDateOperator.NotEqual
     else if i = 2 then FilterDateOperator.Before
     else if i = 3 then FilterDateOperator.BeforeOrEqual
     else if i = 4 then FilterDateOperator.AfterOrEqual
     else if i = 5 then FilterDateOperator.After
     else FilterDateOperator_default)"

datatype v3_FilterDateOperator =
    Equal
  | NotEqual
  | Before
  | BeforeOrEqual
  | AfterOrEqual
  | After

primrec v3_FilterDateOperator_as_i32 :: "v3_FilterDateOperator \<Rightarrow> i32" where
    "v3_FilterDateOperator_as_i32 v3_FilterDateOperator.Equal = 0"
  | "v3_FilterDateOperator_as_i32 v3_FilterDateOperator.NotEqual = 1"
  | "v3_FilterDateOperator_as_i32 v3_FilterDateOperator.Before = 2"
  | "v3_FilterDateOperator_as_i32 v3_FilterDateOperator.BeforeOrEqual = 3"
  | "v3_FilterDateOperator_as_i32 v3_FilterDateOperator.AfterOrEqual = 4"
  | "v3_FilterDateOperator_as_i32 v3_FilterDateOperator.After = 5"

primrec FilterDateOperator_to_v3 :: "FilterDateOperator \<Rightarrow> v3_FilterDateOperator" where
    "FilterDateOperator_to_v3 FilterDateOperator.Equal = v3_FilterDateOperator.Equal"
  | "FilterDateOperator_to_v3 FilterDateOperator.NotEqual = v3_FilterDateOperator.NotEqual"
  | "FilterDateOperator_to_v3 FilterDateOperator.Before = v3_FilterDateOperator.Before"
  | "FilterDateOperator_to_v3 FilterDateOperator.BeforeOrEqual = v3_FilterDateOperator.BeforeOrEqual"
  | "FilterDateOperator_to_v3 FilterDateOperator.AfterOrEqual = v3_FilterDateOperator.AfterOrEqual"
  | "FilterDateOperator_to_v3 FilterDateOperator.After = v3_FilterDateOperator.After"

primrec FilterDateOperator_of_v3 :: "v3_FilterDateOperator \<Rightarrow> FilterDateOperator" where
    "FilterDateOperator_of_v3 v3_FilterDateOperator.Equal = FilterDateOperator.Equal"
  | "FilterDateOperator_of_v3 v3_FilterDateOperator.NotEqual = FilterDateOperator.NotEqual"
  | "FilterDateOperator_of_v3 v3_FilterDateOperator.Before = FilterDateOperator.Before"
  | "FilterDateOperator_of_v3 v3_FilterDateOperator.BeforeOrEqual = FilterDateOperator.BeforeOrEqual"
  | "FilterDateOperator_of_v3 v3_FilterDateOperator.AfterOrEqual = FilterDateOperator.AfterOrEqual"
  | "FilterDateOperator_of_v3 v3_FilterDateOperator.After = FilterDateOperator.After"

interpretation FilterDateOperator_enum: mirrored_enum FilterDateOperator_as_i32 FilterDateOperator_of_i32 FilterDateOperator_default
    FilterDateOperator_to_v3 FilterDateOperator_of_v3 v3_FilterDateOperator_as_i32
proof unfold_locales
  fix e
  show "FilterDateOperator_of_i32 (FilterDateOperator_as_i32 e) = e" by (cases e) (simp_all add: FilterDateOperator_of_i32_def FilterDateOperator_default_def)
next
  fix i
  assume "FilterDateOperator_of_i32 i \<noteq> FilterDateOperator_default"
  then show "FilterDateOperator_as_i32 (FilterDateOperator_of_i32 i) = i"
    by (simp add: FilterDateOperator_of_i32_def FilterDateOperator_default_def split: if_splits)
next
  fix e
  show "FilterDateOperator_of_v3 (FilterDateOperator_to_v3 e) = e" by (cases e) simp_all
next
  fix w
  show "FilterDateOperator_to_v3 (FilterDateOperator_of_v3 w) = w" by (cases w) simp_all
next
  fix e
  show "v3_FilterDateOperator_as_i32 (FilterDateOperator_to_v3 e) = FilterDateOperator_as_i32 e" by (cases e) simp_all
qed

datatype FilterDurationOperator =
    Equal
  | NotEqual
  | ShorterThan
  | ShorterThanOrEqual
  | LongerThanOrEqual
  | LongerThan

primrec FilterDurationOperator_as_i32 :: "FilterDurationOperator \<Rightarrow> i32" where
    "FilterDurationOperator_as_i32 FilterDurationOperator.Equal = 0"
  | "FilterDurationOperator_as_i32 FilterDurationOperator.NotEqual = 1"
  | "FilterDurationOperator_as_i32 FilterDurationOperator.ShorterThan = 2"
  | "FilterDurationOperator_as_i32 FilterDurationOperator.ShorterThanOrEqual = 3"
  | "FilterDurationOperator_as_i32 FilterDurationOperator.LongerThanOrEqual = 4"
  | "FilterDurationOperator_as_i32 FilterDurationOperator.LongerThan = 5"

definition FilterDurationOperator_default :: FilterDurationOperator where
  "FilterDurationOperator_default = FilterDurationOperator.Equal"

definition FilterDurationOperator_of_i32 :: "i32 \<Rightarrow> FilterDurationOperator" where
  "FilterDurationOperator_of_i32 i =
    (if i = 0 then FilterDurationOperator.Equal
     else if i = 1 then FilterDurationOperator.NotEqual
     else if i = 2 then FilterDurationOperator.ShorterThan
     else if i = 3 then FilterDurationOperator.ShorterThanOrEqual
     else if i = 4 then FilterDurationOperator.LongerThanOrEqual
     else if i = 5 then FilterDurationOperator.LongerThan
     else FilterDurationOperator_default)"

datatype v3_FilterDurationOperator =
    Equal
  | NotEqual
  | ShorterThan
  | ShorterThanOrEqual
  | LongerThanOrEqual
  | LongerThan

primrec v3_FilterDurationOperator_as_i32 :: "v3_FilterDurationOperator \<Rightarrow> i32" where
    "v3_FilterDurationOperator_as_i32 v3_FilterDurationOperator.Equal = 0"
  | "v3_FilterDurationOperator_as_i32 v3_FilterDurationOperator.NotEqual = 1"
  | "v3_FilterDurationOperator_as_i32 v3_FilterDurationOperator.ShorterThan = 2"
  | "v3_FilterDurationOperator_as_i32 v3_FilterDurationOperator.ShorterThanOrEqual = 3"
  | "v3_FilterDurationOperator_as_i32 v3_FilterDurationOperator.LongerThanOrEqual = 4"
  | "v3_FilterDurationOperator_as_i32 v3_FilterDurationOperator.LongerThan = 5"

primrec FilterDurationOperator_to_v3 :: "FilterDurationOperator \<Rightarrow> v3_FilterDurationOperator" where
    "FilterDurationOperator_to_v3 FilterDurationOperator.Equal = v3_FilterDurationOperator.Equal"
  | "FilterDurationOperator_to_v3 FilterDurationOperator.NotEqual = v3_FilterDurationOperator.NotEqual"
  | "FilterDurationOperator_to_v3 FilterDurationOperator.ShorterThan = v3_FilterDurationOperator.ShorterThan"
  | "FilterDurationOperator_to_v3 FilterDurationOperator.ShorterThanOrEqual = v3_FilterDurationOperator.ShorterThanOrEqual"
  | "FilterDurationOperator_to_v3 FilterDurationOperator.LongerThanOrEqual = v3_FilterDurationOperator.LongerThanOrEqual"
  | "FilterDurationOperator_to_v3 FilterDurationOperator.LongerThan = v3_FilterDurationOperator.LongerThan"

primrec FilterDurationOperator_of_v3 :: "v3_FilterDurationOperator \<Rightarrow> FilterDurationOperator" where
    "FilterDurationOperator_of_v3 v3_FilterDurationOperator.Equal = FilterDurationOperator.Equal"
  | "FilterDurationOperator_of_v3 v3_FilterDurationOperator.NotEqual = FilterDurationOperator.NotEqual"
  | "FilterDurationOperator_of_v3 v3_FilterDurationOperator.ShorterThan = FilterDurationOperator.ShorterThan"
  | "FilterDurationOperator_of_v3 v3_FilterDurationOperator.ShorterThanOrEqual = FilterDurationOperator.ShorterThanOrEqual"
  | "FilterDurationOperator_of_v3 v3_FilterDurationOperator.LongerThanOrEqual = FilterDurationOperator.LongerThanOrEqual"
  | "FilterDurationOperator_of_v3 v3_FilterDurationOperator.LongerThan = FilterDurationOperator.LongerThan"

interpretation FilterDurationOperator_enum: mirrored_enum FilterDurationOperator_as_i32 FilterDurationOperator_of_i32 FilterDurationOperator_default
    FilterDurationOperator_to_v3 FilterDurationOperator_of_v3 v3_FilterDurationOperator_as_i32
proof unfold_locales
  fix e
  show "FilterDurationOperator_of_i32 (FilterDurationOperator_as_i32 e) = e" by (cases e) (simp_all add: FilterDurationOperator_of_i32_def FilterDurationOperator_default_def)
next
  fix i
  assume "FilterDurationOperator_of_i32 i \<noteq> FilterDurationOperator_default"
  then show "FilterDurationOperator_as_i32 (FilterDurationOperator_of_i32 i) = i"
    by (simp add: FilterDurationOperator_of_i32_def FilterDurationOperator_default_def split: if_splits)
next
  fix e
  show "FilterDurationOperator_of_v3 (FilterDurationOperator_to_v3 e) = e" by (cases e) simp_all
next
  fix w
  show "FilterDurationOperator_to_v3 (FilterDurationOperator_of_v3 w) = w" by (cases w) simp_all
next
  fix e
  show "v3_FilterDurationOperator_as_i32 (FilterDurationOperator_to_v3 e) = FilterDurationOperator_as_i32 e" by (cases e) simp_all
qed

datatype FilterStatusOperator =
    Equal
  | NotEqual

primrec FilterStatusOperator_as_i32 :: "FilterStatusOperator \<Rightarrow> i32" where
    "FilterStatusOperator_as_i32 FilterStatusOperator.Equal = 0"
  | "FilterStatusOperator_as_i32 FilterStatusOperator.NotEqual = 1"

definition FilterStatusOperator_default :: FilterStatusOperator where
  "FilterStatusOperator_default = FilterStatusOperator.Equal"

definition FilterStatusOperator_of_i32 :: "i32 \<Rightarrow> FilterStatusOperator" where
  "FilterStatusOperator_of_i32 i =
    (if i = 0 then FilterStatusOperator.Equal
     else if i = 1 then FilterStatusOperator.NotEqual
     else FilterStatusOperator_default)"

datatype v3_FilterStatusOperator =
    Equal
  | NotEqual

primrec v3_FilterStatusOperator_as_i32 :: "v3_FilterStatusOperator \<Rightarrow> i32" where
    "v3_FilterStatusOperator_as_i32 v3_FilterStatusOperator.Equal = 0"
  | "v3_FilterStatusOperator_as_i32 v3_FilterStatusOperator.NotEqual = 1"

primrec FilterStatusOperator_to_v3 :: "FilterStatusOperator \<Rightarrow> v3_FilterStatusOperator" where
    "FilterStatusOperator_to_v3 FilterStatusOperator.Equal = v3_FilterStatusOperator.Equal"
  | "FilterStatusOperator_to_v3 FilterStatusOperator.NotEqual = v3_FilterStatusOperator.NotEqual"

primrec FilterStatusOperator_of_v3 :: "v3_FilterStatusOperator \<Rightarrow> FilterStatusOperator" where
    "FilterStatusOperator_of_v3 v3_FilterStatusOperator.Equal = FilterStatusOperator.Equal"
  | "FilterStatusOperator_of_v3 v3_FilterStatusOperator.NotEqual = FilterStatusOperator.NotEqual"

interpretation FilterStatusOperator_enum: mirrored_enum FilterStatusOperator_as_i32 FilterStatusOperator_of_i32 FilterStatusOperator_default
    FilterStatusOperator_to_v3 FilterStatusOperator_of_v3 v3_FilterStatusOperator_as_i32
proof unfold_locales
  fix e
  show "FilterStatusOperator_of_i32 (FilterStatusOperator_as_i32 e) = e" by (cases e) (simp_all add: FilterStatusOperator_of_i32_def FilterStatusOperator_default_def)
next
  fix i
  assume "FilterStatusOperator_of_i32 i \<noteq> FilterStatusOperator_default"
  then show "FilterStatusOperator_as_i32 (FilterStatusOperator_of_i32 i) = i"
    by (simp add: FilterStatusOperator_of_i32_def FilterStatusOperator_default_def split: if_splits)
next
  fix e
  show "FilterStatusOperator_of_v3 (FilterStatusOperator_to_v3 e) = e" by (cases e) simp_all
next
  fix w
  show "FilterStatusOperator_to_v3 (FilterStatusOperator_of_v3 w) = w" by (cases w) simp_all
next
  fix e
  show "v3_FilterStatusOperator_as_i32 (FilterStatusOperator_to_v3 e) = FilterStatusOperator_as_i32 e" by (cases e) simp_all
qed

end
