(* ===== verification/Common_Objects.thy ===== *)
theory Common_Objects
  imports Enums
begin

text \<open>
  The objects of \<^verbatim>\<open>armonik/src/objects\<close> that do not belong to one service. For each object: the
  message of the schema (record \<open>v3_*\<close>, as prost generates it: a message field is an option, a
  repeated field a list, an enum field a number, a oneof an option of a datatype), the Rust type, its
  \<^verbatim>\<open>Default\<close>, and the two conversions. Each conversion pair is interpreted as a \<open>wire_codec\<close>, so a
  value sent on the wire is read back unchanged.
\<close>

section \<open>Service configuration\<close>

record v3_Configuration =
  data_chunk_max_size :: i32

datatype v3_Empty = v3_Empty

record Configuration =
  data_chunk_max_size :: i32

definition Configuration_default :: Configuration where
  "Configuration_default = \<lparr>
     Configuration.data_chunk_max_size = 80 * 1024\<rparr>"

definition Configuration_to_v3 :: "Configuration \<Rightarrow> v3_Configuration" where
  "Configuration_to_v3 v = \<lparr>
     v3_Configuration.data_chunk_max_size = Configuration.data_chunk_max_size v\<rparr>"

definition Configuration_of_v3 :: "v3_Configuration \<Rightarrow> Configuration" where
  "Configuration_of_v3 v = \<lparr>
     Configuration.data_chunk_max_size = v3_Configuration.data_chunk_max_size v\<rparr>"

interpretation Configuration_codec: wire_codec Configuration_to_v3 Configuration_of_v3
  by unfold_locales (simp add: Configuration_to_v3_def Configuration_of_v3_def)

section \<open>Identifiers and small messages\<close>

record v3_Session =
  id :: string

record v3_TaskId =
  session :: string
  task :: string

record v3_TaskIdList =
  task_ids :: "string list"

record v3_TaskList =
  task_ids :: "v3_TaskId list"

record v3_TaskIdWithStatus =
  task_id :: "v3_TaskId option"
  status :: i32

record Session =
  session_id :: string

definition Session_default :: Session where
  "Session_default = \<lparr>
     Session.session_id = ''''\<rparr>"

definition Session_to_v3 :: "Session \<Rightarrow> v3_Session" where
  "Session_to_v3 v = \<lparr>
     v3_Session.id = Session.session_id v\<rparr>"

definition Session_of_v3 :: "v3_Session \<Rightarrow> Session" where
  "Session_of_v3 v = \<lparr>
     Session.session_id = v3_Session.id v\<rparr>"

interpretation Session_codec: wire_codec Session_to_v3 Session_of_v3
  by unfold_locales (simp add: Session_to_v3_def Session_of_v3_def)

record TaskId =
  session_id :: string
  task_id :: string

definition TaskId_default :: TaskId where
  "TaskId_default = \<lparr>
     TaskId.session_id = '''',
     TaskId.task_id = ''''\<rparr>"

definition TaskId_to_v3 :: "TaskId \<Rightarrow> v3_TaskId" where
  "TaskId_to_v3 v = \<lparr>
     v3_TaskId.session = TaskId.session_id v,
     v3_TaskId.task = TaskId.task_id v\<rparr>"

definition TaskId_of_v3 :: "v3_TaskId \<Rightarrow> TaskId" where
  "TaskId_of_v3 v = \<lparr>
     TaskId.session_id = v3_TaskId.session v,
     TaskId.task_id = v3_TaskId.task v\<rparr>"

interpretation TaskId_codec: wire_codec TaskId_to_v3 TaskId_of_v3
  by unfold_locales (simp add: TaskId_to_v3_def TaskId_of_v3_def)

record TaskIdList =
  task_ids :: "string list"

definition TaskIdList_default :: TaskIdList where
  "TaskIdList_default = \<lparr>
     TaskIdList.task_ids = []\<rparr>"

definition TaskIdList_to_v3 :: "TaskIdList \<Rightarrow> v3_TaskIdList" where
  "TaskIdList_to_v3 v = \<lparr>
     v3_TaskIdList.task_ids = TaskIdList.task_ids v\<rparr>"

definition TaskIdList_of_v3 :: "v3_TaskIdList \<Rightarrow> TaskIdList" where
  "TaskIdList_of_v3 v = \<lparr>
     TaskIdList.task_ids = v3_TaskIdList.task_ids v\<rparr>"

interpretation TaskIdList_codec: wire_codec TaskIdList_to_v3 TaskIdList_of_v3
  by unfold_locales (simp add: TaskIdList_to_v3_def TaskIdList_of_v3_def)

record TaskList =
  task_ids :: "TaskId list"

definition TaskList_default :: TaskList where
  "TaskList_default = \<lparr>
     TaskList.task_ids = []\<rparr>"

definition TaskList_to_v3 :: "TaskList \<Rightarrow> v3_TaskList" where
  "TaskList_to_v3 v = \<lparr>
     v3_TaskList.task_ids = into_collect TaskId_to_v3 (TaskList.task_ids v)\<rparr>"

definition TaskList_of_v3 :: "v3_TaskList \<Rightarrow> TaskList" where
  "TaskList_of_v3 v = \<lparr>
     TaskList.task_ids = into_collect TaskId_of_v3 (v3_TaskList.task_ids v)\<rparr>"

interpretation TaskList_codec: wire_codec TaskList_to_v3 TaskList_of_v3
  by unfold_locales (simp add: TaskList_to_v3_def TaskList_of_v3_def)

record TaskIdWithStatus =
  task_id :: TaskId
  status :: TaskStatus

definition TaskIdWithStatus_default :: TaskIdWithStatus where
  "TaskIdWithStatus_default = \<lparr>
     TaskIdWithStatus.task_id = TaskId_default,
     TaskIdWithStatus.status = TaskStatus_default\<rparr>"

definition TaskIdWithStatus_to_v3 :: "TaskIdWithStatus \<Rightarrow> v3_TaskIdWithStatus" where
  "TaskIdWithStatus_to_v3 v = \<lparr>
     v3_TaskIdWithStatus.task_id = Some (TaskId_to_v3 (TaskIdWithStatus.task_id v)),
     v3_TaskIdWithStatus.status = TaskStatus_as_i32 (TaskIdWithStatus.status v)\<rparr>"

definition TaskIdWithStatus_of_v3 :: "v3_TaskIdWithStatus \<Rightarrow> TaskIdWithStatus" where
  "TaskIdWithStatus_of_v3 v = \<lparr>
     TaskIdWithStatus.task_id = map_or_default TaskId_default TaskId_of_v3 (v3_TaskIdWithStatus.task_id v),
     TaskIdWithStatus.status = TaskStatus_of_i32 (v3_TaskIdWithStatus.status v)\<rparr>"

interpretation TaskIdWithStatus_codec: wire_codec TaskIdWithStatus_to_v3 TaskIdWithStatus_of_v3
  by unfold_locales (simp add: TaskIdWithStatus_to_v3_def TaskIdWithStatus_of_v3_def)

record v3_ResultRequest =
  session :: string
  result_id :: string

record v3_TaskOutputRequest =
  session :: string
  task_id :: string

record v3_TaskRequest =
  expected_output_keys :: "string list"
  data_dependencies :: "string list"
  payload :: "u8 list"
  payload_name :: string

record v3_TaskRequestHeader =
  expected_output_keys :: "string list"
  data_dependencies :: "string list"

record ResultRequest =
  session_id :: string
  result_id :: string

definition ResultRequest_default :: ResultRequest where
  "ResultRequest_default = \<lparr>
     ResultRequest.session_id = '''',
     ResultRequest.result_id = ''''\<rparr>"

definition ResultRequest_to_v3 :: "ResultRequest \<Rightarrow> v3_ResultRequest" where
  "ResultRequest_to_v3 v = \<lparr>
     v3_ResultRequest.session = ResultRequest.session_id v,
     v3_ResultRequest.result_id = ResultRequest.result_id v\<rparr>"

definition ResultRequest_of_v3 :: "v3_ResultRequest \<Rightarrow> ResultRequest" where
  "ResultRequest_of_v3 v = \<lparr>
     ResultRequest.session_id = v3_ResultRequest.session v,
     ResultRequest.result_id = v3_ResultRequest.result_id v\<rparr>"

interpretation ResultRequest_codec: wire_codec ResultRequest_to_v3 ResultRequest_of_v3
  by unfold_locales (simp add: ResultRequest_to_v3_def ResultRequest_of_v3_def)

record TaskOutputRequest =
  session_id :: string
  task_id :: string

definition TaskOutputRequest_default :: TaskOutputRequest where
  "TaskOutputRequest_default = \<lparr>
     TaskOutputRequest.session_id = '''',
     TaskOutputRequest.task_id = ''''\<rparr>"

definition TaskOutputRequest_to_v3 :: "TaskOutputRequest \<Rightarrow> v3_TaskOutputRequest" where
  "TaskOutputRequest_to_v3 v = \<lparr>
     v3_TaskOutputRequest.session = TaskOutputRequest.session_id v,
     v3_TaskOutputRequest.task_id = TaskOutputRequest.task_id v\<rparr>"

definition TaskOutputRequest_of_v3 :: "v3_TaskOutputRequest \<Rightarrow> TaskOutputRequest" where
  "TaskOutputRequest_of_v3 v = \<lparr>
     TaskOutputRequest.session_id = v3_TaskOutputRequest.session v,
     TaskOutputRequest.task_id = v3_TaskOutputRequest.task_id v\<rparr>"

interpretation TaskOutputRequest_codec: wire_codec TaskOutputRequest_to_v3 TaskOutputRequest_of_v3
  by unfold_locales (simp add: TaskOutputRequest_to_v3_def TaskOutputRequest_of_v3_def)

record TaskRequest =
  expected_output_keys :: "string list"
  data_dependencies :: "string list"
  payload :: "u8 list"
  payload_name :: string

definition TaskRequest_default :: TaskRequest where
  "TaskRequest_default = \<lparr>
     TaskRequest.expected_output_keys = [],
     TaskRequest.data_dependencies = [],
     TaskRequest.payload = [],
     TaskRequest.payload_name = ''''\<rparr>"

definition TaskRequest_to_v3 :: "TaskRequest \<Rightarrow> v3_TaskRequest" where
  "TaskRequest_to_v3 v = \<lparr>
     v3_TaskRequest.expected_output_keys = TaskRequest.expected_output_keys v,
     v3_TaskRequest.data_dependencies = TaskRequest.data_dependencies v,
     v3_TaskRequest.payload = TaskRequest.payload v,
     v3_TaskRequest.payload_name = TaskRequest.payload_name v\<rparr>"

definition TaskRequest_of_v3 :: "v3_TaskRequest \<Rightarrow> TaskRequest" where
  "TaskRequest_of_v3 v = \<lparr>
     TaskRequest.expected_output_keys = v3_TaskRequest.expected_output_keys v,
     TaskRequest.data_dependencies = v3_TaskRequest.data_dependencies v,
     TaskRequest.payload = v3_TaskRequest.payload v,
     TaskRequest.payload_name = v3_TaskRequest.payload_name v\<rparr>"

interpretation TaskRequest_codec: wire_codec TaskRequest_to_v3 TaskRequest_of_v3
  by unfold_locales (simp add: TaskRequest_to_v3_def TaskRequest_of_v3_def)

record TaskRequestHeader =
  expected_output_keys :: "string list"
  data_dependencies :: "string list"

definition TaskRequestHeader_default :: TaskRequestHeader where
  "TaskRequestHeader_default = \<lparr>
     TaskRequestHeader.expected_output_keys = [],
     TaskRequestHeader.data_dependencies = []\<rparr>"

definition TaskRequestHeader_to_v3 :: "TaskRequestHeader \<Rightarrow> v3_TaskRequestHeader" where
  "TaskRequestHeader_to_v3 v = \<lparr>
     v3_TaskRequestHeader.expected_output_keys = TaskRequestHeader.expected_output_keys v,
     v3_TaskRequestHeader.data_dependencies = TaskRequestHeader.data_dependencies v\<rparr>"

definition TaskRequestHeader_of_v3 :: "v3_TaskRequestHeader \<Rightarrow> TaskRequestHeader" where
  "TaskRequestHeader_of_v3 v = \<lparr>
     TaskRequestHeader.expected_output_keys = v3_TaskRequestHeader.expected_output_keys v,
     TaskRequestHeader.data_dependencies = v3_TaskRequestHeader.data_dependencies v\<rparr>"

interpretation TaskRequestHeader_codec: wire_codec TaskRequestHeader_to_v3 TaskRequestHeader_of_v3
  by unfold_locales (simp add: TaskRequestHeader_to_v3_def TaskRequestHeader_of_v3_def)

section \<open>Errors\<close>

record v3_Error =
  task_status :: i32
  detail :: string

record v3_TaskError =
  task_id :: string
  errors :: "v3_Error list"

record Error =
  task_status :: TaskStatus
  details :: string

definition Error_default :: Error where
  "Error_default = \<lparr>
     Error.task_status = TaskStatus_default,
     Error.details = ''''\<rparr>"

definition Error_to_v3 :: "Error \<Rightarrow> v3_Error" where
  "Error_to_v3 v = \<lparr>
     v3_Error.task_status = TaskStatus_as_i32 (Error.task_status v),
     v3_Error.detail = Error.details v\<rparr>"

definition Error_of_v3 :: "v3_Error \<Rightarrow> Error" where
  "Error_of_v3 v = \<lparr>
     Error.task_status = TaskStatus_of_i32 (v3_Error.task_status v),
     Error.details = v3_Error.detail v\<rparr>"

interpretation Error_codec: wire_codec Error_to_v3 Error_of_v3
  by unfold_locales (simp add: Error_to_v3_def Error_of_v3_def)

record TaskError =
  task_id :: string
  errors :: "Error list"

definition TaskError_default :: TaskError where
  "TaskError_default = \<lparr>
     TaskError.task_id = '''',
     TaskError.errors = []\<rparr>"

definition TaskError_to_v3 :: "TaskError \<Rightarrow> v3_TaskError" where
  "TaskError_to_v3 v = \<lparr>
     v3_TaskError.task_id = TaskError.task_id v,
     v3_TaskError.errors = into_collect Error_to_v3 (TaskError.errors v)\<rparr>"

definition TaskError_of_v3 :: "v3_TaskError \<Rightarrow> TaskError" where
  "TaskError_of_v3 v = \<lparr>
     TaskError.task_id = v3_TaskError.task_id v,
     TaskError.errors = into_collect Error_of_v3 (v3_TaskError.errors v)\<rparr>"

interpretation TaskError_codec: wire_codec TaskError_to_v3 TaskError_of_v3
  by unfold_locales (simp add: TaskError_to_v3_def TaskError_of_v3_def)

section \<open>Counts per status\<close>

record v3_StatusCount =
  status :: i32
  count :: i32

record v3_Count =
  "values" :: "v3_StatusCount list"

record StatusCount =
  status :: TaskStatus
  count :: i32

definition StatusCount_default :: StatusCount where
  "StatusCount_default = \<lparr>
     StatusCount.status = TaskStatus_default,
     StatusCount.count = 0\<rparr>"

definition StatusCount_to_v3 :: "StatusCount \<Rightarrow> v3_StatusCount" where
  "StatusCount_to_v3 v = \<lparr>
     v3_StatusCount.status = TaskStatus_as_i32 (StatusCount.status v),
     v3_StatusCount.count = StatusCount.count v\<rparr>"

definition StatusCount_of_v3 :: "v3_StatusCount \<Rightarrow> StatusCount" where
  "StatusCount_of_v3 v = \<lparr>
     StatusCount.status = TaskStatus_of_i32 (v3_StatusCount.status v),
     StatusCount.count = v3_StatusCount.count v\<rparr>"

interpretation StatusCount_codec: wire_codec StatusCount_to_v3 StatusCount_of_v3
  by unfold_locales (simp add: StatusCount_to_v3_def StatusCount_of_v3_def)

record Count =
  "values" :: "(TaskStatus, i32) fmap"

definition Count_default :: Count where
  "Count_default = \<lparr>
     Count.values = fmempty\<rparr>"

text \<open>\<open>it\<close> is the order in which the hash map is iterated.\<close>

definition Count_to_v3 ::
  "((TaskStatus, i32) fmap \<Rightarrow> (TaskStatus \<times> i32) list) \<Rightarrow> Count \<Rightarrow> v3_Count" where
  "Count_to_v3 it v = \<lparr>
     v3_Count.values = map (\<lambda>(status, count).
       \<lparr>v3_StatusCount.status = TaskStatus_as_i32 status, v3_StatusCount.count = count\<rparr>)
       (it (Count.values v))\<rparr>"

definition Count_of_v3 :: "v3_Count \<Rightarrow> Count" where
  "Count_of_v3 v = \<lparr>
     Count.values = hashmap_collect (map (\<lambda>sc.
       (TaskStatus_of_i32 (v3_StatusCount.status sc), v3_StatusCount.count sc))
       (v3_Count.values v))\<rparr>"

lemma Count_roundtrip: "iterates it \<Longrightarrow> Count_of_v3 (Count_to_v3 it c) = c"
  unfolding Count_of_v3_def Count_to_v3_def v3_Count.select_convs
  by (subst hashmap_entries_roundtrip) simp_all

section \<open>Data chunks and stream headers\<close>

datatype v3_data_chunk_Type =
    Data "u8 list"
  | DataComplete bool

record v3_DataChunk =
  oneof_type :: "v3_data_chunk_Type option"

datatype v3_init_keyed_data_stream_Type =
    Key string
  | LastResult bool

record v3_InitKeyedDataStream =
  oneof_type :: "v3_init_keyed_data_stream_Type option"

datatype v3_init_task_request_Type =
    Header v3_TaskRequestHeader
  | LastTask bool

record v3_InitTaskRequest =
  oneof_type :: "v3_init_task_request_Type option"

datatype DataChunk = Data "u8 list" | Complete

definition DataChunk_default :: DataChunk where
  "DataChunk_default = DataChunk.Data []"

primrec DataChunk_to_v3 :: "DataChunk \<Rightarrow> v3_DataChunk" where
    "DataChunk_to_v3 (DataChunk.Data data) =
       \<lparr>v3_DataChunk.oneof_type = Some (v3_data_chunk_Type.Data data)\<rparr>"
  | "DataChunk_to_v3 DataChunk.Complete =
       \<lparr>v3_DataChunk.oneof_type = Some (v3_data_chunk_Type.DataComplete True)\<rparr>"

definition DataChunk_of_v3 :: "v3_DataChunk \<Rightarrow> DataChunk" where
  "DataChunk_of_v3 v = (case v3_DataChunk.oneof_type v of
       Some (v3_data_chunk_Type.Data data) \<Rightarrow> DataChunk.Data data
     | Some (v3_data_chunk_Type.DataComplete _) \<Rightarrow> DataChunk.Complete
     | None \<Rightarrow> DataChunk_default)"

interpretation DataChunk_codec: wire_codec DataChunk_to_v3 DataChunk_of_v3
proof unfold_locales
  fix c
  show "DataChunk_of_v3 (DataChunk_to_v3 c) = c" by (cases c) (simp_all add: DataChunk_of_v3_def)
qed

datatype InitKeyedDataStream = Key string | LastResult

definition InitKeyedDataStream_default :: InitKeyedDataStream where
  "InitKeyedDataStream_default = InitKeyedDataStream.Key ''''"

primrec InitKeyedDataStream_to_v3 :: "InitKeyedDataStream \<Rightarrow> v3_InitKeyedDataStream" where
    "InitKeyedDataStream_to_v3 (InitKeyedDataStream.Key key) =
       \<lparr>v3_InitKeyedDataStream.oneof_type = Some (v3_init_keyed_data_stream_Type.Key key)\<rparr>"
  | "InitKeyedDataStream_to_v3 InitKeyedDataStream.LastResult =
       \<lparr>v3_InitKeyedDataStream.oneof_type = Some (v3_init_keyed_data_stream_Type.LastResult True)\<rparr>"

definition InitKeyedDataStream_of_v3 :: "v3_InitKeyedDataStream \<Rightarrow> InitKeyedDataStream" where
  "InitKeyedDataStream_of_v3 v = (case v3_InitKeyedDataStream.oneof_type v of
       Some (v3_init_keyed_data_stream_Type.Key key) \<Rightarrow> InitKeyedDataStream.Key key
     | Some (v3_init_keyed_data_stream_Type.LastResult _) \<Rightarrow> InitKeyedDataStream.LastResult
     | None \<Rightarrow> InitKeyedDataStream_default)"

interpretation InitKeyedDataStream_codec: wire_codec InitKeyedDataStream_to_v3 InitKeyedDataStream_of_v3
proof unfold_locales
  fix x
  show "InitKeyedDataStream_of_v3 (InitKeyedDataStream_to_v3 x) = x"
    by (cases x) (simp_all add: InitKeyedDataStream_of_v3_def)
qed

datatype InitTaskRequest = Header TaskRequestHeader | LastTask

definition InitTaskRequest_default :: InitTaskRequest where
  "InitTaskRequest_default = InitTaskRequest.Header TaskRequestHeader_default"

primrec InitTaskRequest_to_v3 :: "InitTaskRequest \<Rightarrow> v3_InitTaskRequest" where
    "InitTaskRequest_to_v3 (InitTaskRequest.Header header) =
       \<lparr>v3_InitTaskRequest.oneof_type =
          Some (v3_init_task_request_Type.Header (TaskRequestHeader_to_v3 header))\<rparr>"
  | "InitTaskRequest_to_v3 InitTaskRequest.LastTask =
       \<lparr>v3_InitTaskRequest.oneof_type = Some (v3_init_task_request_Type.LastTask True)\<rparr>"

definition InitTaskRequest_of_v3 :: "v3_InitTaskRequest \<Rightarrow> InitTaskRequest" where
  "InitTaskRequest_of_v3 v = (case v3_InitTaskRequest.oneof_type v of
       Some (v3_init_task_request_Type.Header header) \<Rightarrow>
         InitTaskRequest.Header (TaskRequestHeader_of_v3 header)
     | Some (v3_init_task_request_Type.LastTask _) \<Rightarrow> InitTaskRequest.LastTask
     | None \<Rightarrow> InitTaskRequest_default)"

interpretation InitTaskRequest_codec: wire_codec InitTaskRequest_to_v3 InitTaskRequest_of_v3
proof unfold_locales
  fix x
  show "InitTaskRequest_of_v3 (InitTaskRequest_to_v3 x) = x"
    by (cases x) (simp_all add: InitTaskRequest_of_v3_def)
qed

section \<open>Output of a task\<close>

record v3_output_Error =
  details :: string

datatype v3_output_Type =
    Ok v3_Empty
  | Error v3_output_Error

record v3_Output =
  oneof_type :: "v3_output_Type option"

datatype Output = Ok | Error string

definition Output_default :: Output where
  "Output_default = Output.Ok"

primrec Output_to_v3 :: "Output \<Rightarrow> v3_Output" where
    "Output_to_v3 Output.Ok = \<lparr>v3_Output.oneof_type = Some (v3_output_Type.Ok v3_Empty)\<rparr>"
  | "Output_to_v3 (Output.Error msg) =
       \<lparr>v3_Output.oneof_type = Some (v3_output_Type.Error \<lparr>v3_output_Error.details = msg\<rparr>)\<rparr>"

definition Output_of_v3 :: "v3_Output \<Rightarrow> Output" where
  "Output_of_v3 v = (case v3_Output.oneof_type v of
       Some (v3_output_Type.Ok _) \<Rightarrow> Output.Ok
     | Some (v3_output_Type.Error error) \<Rightarrow> Output.Error (v3_output_Error.details error)
     | None \<Rightarrow> Output_default)"

interpretation Output_codec: wire_codec Output_to_v3 Output_of_v3
proof unfold_locales
  fix x
  show "Output_of_v3 (Output_to_v3 x) = x" by (cases x) (simp_all add: Output_of_v3_def)
qed

section \<open>Task options\<close>

record v3_TaskOptions =
  options :: "(string, string) fmap"
  max_duration :: "prost_Duration option"
  max_retries :: i32
  priority :: i32
  partition_id :: string
  application_name :: string
  application_version :: string
  application_namespace :: string
  application_service :: string
  engine_type :: string

definition INFINITE_DURATION :: prost_Duration where
  "INFINITE_DURATION = \<lparr>prost_Duration.seconds = 315576000000, prost_Duration.nanos = 0\<rparr>"

record TaskOptions =
  options :: "(string, string) fmap"
  max_duration :: prost_Duration
  max_retries :: i32
  priority :: i32
  partition_id :: string
  application_name :: string
  application_version :: string
  application_namespace :: string
  application_service :: string
  engine_type :: string

definition TaskOptions_default :: TaskOptions where
  "TaskOptions_default = \<lparr>
     TaskOptions.options = fmempty,
     TaskOptions.max_duration = INFINITE_DURATION,
     TaskOptions.max_retries = 1,
     TaskOptions.priority = 1,
     TaskOptions.partition_id = '''',
     TaskOptions.application_name = '''',
     TaskOptions.application_version = '''',
     TaskOptions.application_namespace = '''',
     TaskOptions.application_service = '''',
     TaskOptions.engine_type = ''''\<rparr>"

text \<open>The hand-written \<^verbatim>\<open>PartialEq\<close> compares every field but \<open>options\<close>.\<close>

definition TaskOptions_eq :: "TaskOptions \<Rightarrow> TaskOptions \<Rightarrow> bool" where
  "TaskOptions_eq a b \<longleftrightarrow>
     prost_Duration.seconds (TaskOptions.max_duration a) = prost_Duration.seconds (TaskOptions.max_duration b)
   \<and> prost_Duration.nanos (TaskOptions.max_duration a) = prost_Duration.nanos (TaskOptions.max_duration b)
   \<and> TaskOptions.max_retries a = TaskOptions.max_retries b
   \<and> TaskOptions.priority a = TaskOptions.priority b
   \<and> TaskOptions.partition_id a = TaskOptions.partition_id b
   \<and> TaskOptions.application_name a = TaskOptions.application_name b
   \<and> TaskOptions.application_version a = TaskOptions.application_version b
   \<and> TaskOptions.application_namespace a = TaskOptions.application_namespace b
   \<and> TaskOptions.application_service a = TaskOptions.application_service b
   \<and> TaskOptions.engine_type a = TaskOptions.engine_type b"

definition TaskOptions_to_v3 :: "TaskOptions \<Rightarrow> v3_TaskOptions" where
  "TaskOptions_to_v3 v = \<lparr>
     v3_TaskOptions.options = TaskOptions.options v,
     v3_TaskOptions.max_duration = Some (TaskOptions.max_duration v),
     v3_TaskOptions.max_retries = TaskOptions.max_retries v,
     v3_TaskOptions.priority = TaskOptions.priority v,
     v3_TaskOptions.partition_id = TaskOptions.partition_id v,
     v3_TaskOptions.application_name = TaskOptions.application_name v,
     v3_TaskOptions.application_version = TaskOptions.application_version v,
     v3_TaskOptions.application_namespace = TaskOptions.application_namespace v,
     v3_TaskOptions.application_service = TaskOptions.application_service v,
     v3_TaskOptions.engine_type = TaskOptions.engine_type v\<rparr>"

definition TaskOptions_of_v3 :: "v3_TaskOptions \<Rightarrow> TaskOptions" where
  "TaskOptions_of_v3 v = \<lparr>
     TaskOptions.options = v3_TaskOptions.options v,
     TaskOptions.max_duration =
       (case v3_TaskOptions.max_duration v of None \<Rightarrow> INFINITE_DURATION | Some d \<Rightarrow> d),
     TaskOptions.max_retries = v3_TaskOptions.max_retries v,
     TaskOptions.priority = v3_TaskOptions.priority v,
     TaskOptions.partition_id = v3_TaskOptions.partition_id v,
     TaskOptions.application_name = v3_TaskOptions.application_name v,
     TaskOptions.application_version = v3_TaskOptions.application_version v,
     TaskOptions.application_namespace = v3_TaskOptions.application_namespace v,
     TaskOptions.application_service = v3_TaskOptions.application_service v,
     TaskOptions.engine_type = v3_TaskOptions.engine_type v\<rparr>"

interpretation TaskOptions_codec: wire_codec TaskOptions_to_v3 TaskOptions_of_v3
  by unfold_locales (simp add: TaskOptions_to_v3_def TaskOptions_of_v3_def)

text \<open>
  The schema has one enum and one message per service for a field of the task options; the two enums
  have the numbers of the Rust one.
\<close>

datatype v3_sessions_TaskOptionEnumField =
    Unspecified
  | MaxDuration
  | MaxRetries
  | Priority
  | PartitionId
  | ApplicationName
  | ApplicationVersion
  | ApplicationNamespace
  | ApplicationService
  | EngineType

primrec v3_sessions_TaskOptionEnumField_as_i32 :: "v3_sessions_TaskOptionEnumField \<Rightarrow> i32" where
    "v3_sessions_TaskOptionEnumField_as_i32 v3_sessions_TaskOptionEnumField.Unspecified = 0"
  | "v3_sessions_TaskOptionEnumField_as_i32 v3_sessions_TaskOptionEnumField.MaxDuration = 1"
  | "v3_sessions_TaskOptionEnumField_as_i32 v3_sessions_TaskOptionEnumField.MaxRetries = 2"
  | "v3_sessions_TaskOptionEnumField_as_i32 v3_sessions_TaskOptionEnumField.Priority = 3"
  | "v3_sessions_TaskOptionEnumField_as_i32 v3_sessions_TaskOptionEnumField.PartitionId = 4"
  | "v3_sessions_TaskOptionEnumField_as_i32 v3_sessions_TaskOptionEnumField.ApplicationName = 5"
  | "v3_sessions_TaskOptionEnumField_as_i32 v3_sessions_TaskOptionEnumField.ApplicationVersion = 6"
  | "v3_sessions_TaskOptionEnumField_as_i32 v3_sessions_TaskOptionEnumField.ApplicationNamespace = 7"
  | "v3_sessions_TaskOptionEnumField_as_i32 v3_sessions_TaskOptionEnumField.ApplicationService = 8"
  | "v3_sessions_TaskOptionEnumField_as_i32 v3_sessions_TaskOptionEnumField.EngineType = 9"

primrec TaskOptionField_schema_sessions :: "TaskOptionField \<Rightarrow> v3_sessions_TaskOptionEnumField" where
    "TaskOptionField_schema_sessions TaskOptionField.Unspecified = v3_sessions_TaskOptionEnumField.Unspecified"
  | "TaskOptionField_schema_sessions TaskOptionField.MaxDuration = v3_sessions_TaskOptionEnumField.MaxDuration"
  | "TaskOptionField_schema_sessions TaskOptionField.MaxRetries = v3_sessions_TaskOptionEnumField.MaxRetries"
  | "TaskOptionField_schema_sessions TaskOptionField.Priority = v3_sessions_TaskOptionEnumField.Priority"
  | "TaskOptionField_schema_sessions TaskOptionField.PartitionId = v3_sessions_TaskOptionEnumField.PartitionId"
  | "TaskOptionField_schema_sessions TaskOptionField.ApplicationName = v3_sessions_TaskOptionEnumField.ApplicationName"
  | "TaskOptionField_schema_sessions TaskOptionField.ApplicationVersion = v3_sessions_TaskOptionEnumField.ApplicationVersion"
  | "TaskOptionField_schema_sessions TaskOptionField.ApplicationNamespace = v3_sessions_TaskOptionEnumField.ApplicationNamespace"
  | "TaskOptionField_schema_sessions TaskOptionField.ApplicationService = v3_sessions_TaskOptionEnumField.ApplicationService"
  | "TaskOptionField_schema_sessions TaskOptionField.ApplicationEngine = v3_sessions_TaskOptionEnumField.EngineType"

interpretation TaskOptionField_numbers_sessions: schema_enum TaskOptionField_as_i32 TaskOptionField_of_i32 TaskOptionField.Unspecified
    TaskOptionField_schema_sessions v3_sessions_TaskOptionEnumField_as_i32
proof unfold_locales
  fix e
  show "v3_sessions_TaskOptionEnumField_as_i32 (TaskOptionField_schema_sessions e) = TaskOptionField_as_i32 e" by (cases e) simp_all
next
  have "w \<in> range TaskOptionField_schema_sessions" for w
    by (cases w) (metis rangeI TaskOptionField_schema_sessions.simps)+
  then show "surj TaskOptionField_schema_sessions" by blast
qed

datatype v3_tasks_TaskOptionEnumField =
    Unspecified
  | MaxDuration
  | MaxRetries
  | Priority
  | PartitionId
  | ApplicationName
  | ApplicationVersion
  | ApplicationNamespace
  | ApplicationService
  | EngineType

primrec v3_tasks_TaskOptionEnumField_as_i32 :: "v3_tasks_TaskOptionEnumField \<Rightarrow> i32" where
    "v3_tasks_TaskOptionEnumField_as_i32 v3_tasks_TaskOptionEnumField.Unspecified = 0"
  | "v3_tasks_TaskOptionEnumField_as_i32 v3_tasks_TaskOptionEnumField.MaxDuration = 1"
  | "v3_tasks_TaskOptionEnumField_as_i32 v3_tasks_TaskOptionEnumField.MaxRetries = 2"
  | "v3_tasks_TaskOptionEnumField_as_i32 v3_tasks_TaskOptionEnumField.Priority = 3"
  | "v3_tasks_TaskOptionEnumField_as_i32 v3_tasks_TaskOptionEnumField.PartitionId = 4"
  | "v3_tasks_TaskOptionEnumField_as_i32 v3_tasks_TaskOptionEnumField.ApplicationName = 5"
  | "v3_tasks_TaskOptionEnumField_as_i32 v3_tasks_TaskOptionEnumField.ApplicationVersion = 6"
  | "v3_tasks_TaskOptionEnumField_as_i32 v3_tasks_TaskOptionEnumField.ApplicationNamespace = 7"
  | "v3_tasks_TaskOptionEnumField_as_i32 v3_tasks_TaskOptionEnumField.ApplicationService = 8"
  | "v3_tasks_TaskOptionEnumField_as_i32 v3_tasks_TaskOptionEnumField.EngineType = 9"

primrec TaskOptionField_schema_tasks :: "TaskOptionField \<Rightarrow> v3_tasks_TaskOptionEnumField" where
    "TaskOptionField_schema_tasks TaskOptionField.Unspecified = v3_tasks_TaskOptionEnumField.Unspecified"
  | "TaskOptionField_schema_tasks TaskOptionField.MaxDuration = v3_tasks_TaskOptionEnumField.MaxDuration"
  | "TaskOptionField_schema_tasks TaskOptionField.MaxRetries = v3_tasks_TaskOptionEnumField.MaxRetries"
  | "TaskOptionField_schema_tasks TaskOptionField.Priority = v3_tasks_TaskOptionEnumField.Priority"
  | "TaskOptionField_schema_tasks TaskOptionField.PartitionId = v3_tasks_TaskOptionEnumField.PartitionId"
  | "TaskOptionField_schema_tasks TaskOptionField.ApplicationName = v3_tasks_TaskOptionEnumField.ApplicationName"
  | "TaskOptionField_schema_tasks TaskOptionField.ApplicationVersion = v3_tasks_TaskOptionEnumField.ApplicationVersion"
  | "TaskOptionField_schema_tasks TaskOptionField.ApplicationNamespace = v3_tasks_TaskOptionEnumField.ApplicationNamespace"
  | "TaskOptionField_schema_tasks TaskOptionField.ApplicationService = v3_tasks_TaskOptionEnumField.ApplicationService"
  | "TaskOptionField_schema_tasks TaskOptionField.ApplicationEngine = v3_tasks_TaskOptionEnumField.EngineType"

interpretation TaskOptionField_numbers_tasks: schema_enum TaskOptionField_as_i32 TaskOptionField_of_i32 TaskOptionField.Unspecified
    TaskOptionField_schema_tasks v3_tasks_TaskOptionEnumField_as_i32
proof unfold_locales
  fix e
  show "v3_tasks_TaskOptionEnumField_as_i32 (TaskOptionField_schema_tasks e) = TaskOptionField_as_i32 e" by (cases e) simp_all
next
  have "w \<in> range TaskOptionField_schema_tasks" for w
    by (cases w) (metis rangeI TaskOptionField_schema_tasks.simps)+
  then show "surj TaskOptionField_schema_tasks" by blast
qed

record v3_sessions_TaskOptionField =
  field :: i32

record v3_tasks_TaskOptionField =
  field :: i32

definition TaskOptionField_to_v3_sessions :: "TaskOptionField \<Rightarrow> v3_sessions_TaskOptionField" where
  "TaskOptionField_to_v3_sessions v = \<lparr>v3_sessions_TaskOptionField.field = TaskOptionField_as_i32 v\<rparr>"

definition TaskOptionField_to_v3_tasks :: "TaskOptionField \<Rightarrow> v3_tasks_TaskOptionField" where
  "TaskOptionField_to_v3_tasks v = \<lparr>v3_tasks_TaskOptionField.field = TaskOptionField_as_i32 v\<rparr>"

definition TaskOptionField_of_v3_sessions :: "v3_sessions_TaskOptionField \<Rightarrow> TaskOptionField" where
  "TaskOptionField_of_v3_sessions v = TaskOptionField_of_i32 (v3_sessions_TaskOptionField.field v)"

definition TaskOptionField_of_v3_tasks :: "v3_tasks_TaskOptionField \<Rightarrow> TaskOptionField" where
  "TaskOptionField_of_v3_tasks v = TaskOptionField_of_i32 (v3_tasks_TaskOptionField.field v)"

interpretation TaskOptionField_sessions_codec:
  wire_codec TaskOptionField_to_v3_sessions TaskOptionField_of_v3_sessions
  by unfold_locales (simp add: TaskOptionField_to_v3_sessions_def TaskOptionField_of_v3_sessions_def)

interpretation TaskOptionField_tasks_codec:
  wire_codec TaskOptionField_to_v3_tasks TaskOptionField_of_v3_tasks
  by unfold_locales (simp add: TaskOptionField_to_v3_tasks_def TaskOptionField_of_v3_tasks_def)

end
