(* ===== verification/Filters.thy ===== *)
theory Filters
  imports Common_Objects
begin

text \<open>
  Conditions, sort specifications and the generic shapes that every service's filter module reuses
  (\<^verbatim>\<open>objects/filters/filter.rs\<close>, \<^verbatim>\<open>objects/sort.rs\<close>). The disjunction/conjunction/field messages
  themselves are generated per service by the macro \<^verbatim>\<open>impl_filter!\<close> and live in the theories of the
  services.
\<close>

section \<open>Conditions\<close>

record v3_FilterString =
  "value" :: string
  operator :: i32

record FilterString =
  "value" :: string
  operator :: FilterStringOperator

definition FilterString_default :: FilterString where
  "FilterString_default = \<lparr>FilterString.value = '''', FilterString.operator = FilterStringOperator_default\<rparr>"

definition FilterString_to_v3 :: "FilterString \<Rightarrow> v3_FilterString" where
  "FilterString_to_v3 v = \<lparr>
     v3_FilterString.value = FilterString.value v,
     v3_FilterString.operator = v3_FilterStringOperator_as_i32 (FilterStringOperator_to_v3 (FilterString.operator v))\<rparr>"

definition FilterString_of_v3 :: "v3_FilterString \<Rightarrow> FilterString" where
  "FilterString_of_v3 v = \<lparr>
     FilterString.value = v3_FilterString.value v,
     FilterString.operator = FilterStringOperator_of_i32 (v3_FilterString.operator v)\<rparr>"

interpretation FilterString_codec: wire_codec FilterString_to_v3 FilterString_of_v3
  by unfold_locales (simp add: FilterString_to_v3_def FilterString_of_v3_def)

record v3_FilterNumber =
  "value" :: i64
  operator :: i32

record FilterNumber =
  "value" :: i64
  operator :: FilterNumberOperator

definition FilterNumber_default :: FilterNumber where
  "FilterNumber_default = \<lparr>FilterNumber.value = 0, FilterNumber.operator = FilterNumberOperator_default\<rparr>"

definition FilterNumber_to_v3 :: "FilterNumber \<Rightarrow> v3_FilterNumber" where
  "FilterNumber_to_v3 v = \<lparr>
     v3_FilterNumber.value = FilterNumber.value v,
     v3_FilterNumber.operator = v3_FilterNumberOperator_as_i32 (FilterNumberOperator_to_v3 (FilterNumber.operator v))\<rparr>"

definition FilterNumber_of_v3 :: "v3_FilterNumber \<Rightarrow> FilterNumber" where
  "FilterNumber_of_v3 v = \<lparr>
     FilterNumber.value = v3_FilterNumber.value v,
     FilterNumber.operator = FilterNumberOperator_of_i32 (v3_FilterNumber.operator v)\<rparr>"

interpretation FilterNumber_codec: wire_codec FilterNumber_to_v3 FilterNumber_of_v3
  by unfold_locales (simp add: FilterNumber_to_v3_def FilterNumber_of_v3_def)

record v3_FilterArray =
  "value" :: string
  operator :: i32

record FilterArray =
  "value" :: string
  operator :: FilterArrayOperator

definition FilterArray_default :: FilterArray where
  "FilterArray_default = \<lparr>FilterArray.value = '''', FilterArray.operator = FilterArrayOperator_default\<rparr>"

definition FilterArray_to_v3 :: "FilterArray \<Rightarrow> v3_FilterArray" where
  "FilterArray_to_v3 v = \<lparr>
     v3_FilterArray.value = FilterArray.value v,
     v3_FilterArray.operator = v3_FilterArrayOperator_as_i32 (FilterArrayOperator_to_v3 (FilterArray.operator v))\<rparr>"

definition FilterArray_of_v3 :: "v3_FilterArray \<Rightarrow> FilterArray" where
  "FilterArray_of_v3 v = \<lparr>
     FilterArray.value = v3_FilterArray.value v,
     FilterArray.operator = FilterArrayOperator_of_i32 (v3_FilterArray.operator v)\<rparr>"

interpretation FilterArray_codec: wire_codec FilterArray_to_v3 FilterArray_of_v3
  by unfold_locales (simp add: FilterArray_to_v3_def FilterArray_of_v3_def)

record v3_FilterBoolean =
  "value" :: bool
  operator :: i32

record FilterBoolean =
  "value" :: bool
  operator :: FilterBooleanOperator

definition FilterBoolean_default :: FilterBoolean where
  "FilterBoolean_default = \<lparr>FilterBoolean.value = False, FilterBoolean.operator = FilterBooleanOperator_default\<rparr>"

definition FilterBoolean_to_v3 :: "FilterBoolean \<Rightarrow> v3_FilterBoolean" where
  "FilterBoolean_to_v3 v = \<lparr>
     v3_FilterBoolean.value = FilterBoolean.value v,
     v3_FilterBoolean.operator = v3_FilterBooleanOperator_as_i32 (FilterBooleanOperator_to_v3 (FilterBoolean.operator v))\<rparr>"

definition FilterBoolean_of_v3 :: "v3_FilterBoolean \<Rightarrow> FilterBoolean" where
  "FilterBoolean_of_v3 v = \<lparr>
     FilterBoolean.value = v3_FilterBoolean.value v,
     FilterBoolean.operator = FilterBooleanOperator_of_i32 (v3_FilterBoolean.operator v)\<rparr>"

interpretation FilterBoolean_codec: wire_codec FilterBoolean_to_v3 FilterBoolean_of_v3
  by unfold_locales (simp add: FilterBoolean_to_v3_def FilterBoolean_of_v3_def)

record v3_FilterDate =
  "value" :: "Timestamp option"
  operator :: i32

record FilterDate =
  "value" :: Timestamp
  operator :: FilterDateOperator

definition FilterDate_default :: FilterDate where
  "FilterDate_default = \<lparr>FilterDate.value = Timestamp_default, FilterDate.operator = FilterDateOperator_default\<rparr>"

definition FilterDate_to_v3 :: "FilterDate \<Rightarrow> v3_FilterDate" where
  "FilterDate_to_v3 v = \<lparr>
     v3_FilterDate.value = Some (FilterDate.value v),
     v3_FilterDate.operator = v3_FilterDateOperator_as_i32 (FilterDateOperator_to_v3 (FilterDate.operator v))\<rparr>"

definition FilterDate_of_v3 :: "v3_FilterDate \<Rightarrow> FilterDate" where
  "FilterDate_of_v3 v = \<lparr>
     FilterDate.value = map_or_default Timestamp_default (\<lambda>x. x) (v3_FilterDate.value v),
     FilterDate.operator = FilterDateOperator_of_i32 (v3_FilterDate.operator v)\<rparr>"

interpretation FilterDate_codec: wire_codec FilterDate_to_v3 FilterDate_of_v3
  by unfold_locales (simp add: FilterDate_to_v3_def FilterDate_of_v3_def)

record v3_FilterDuration =
  "value" :: "prost_Duration option"
  operator :: i32

record FilterDuration =
  "value" :: prost_Duration
  operator :: FilterDurationOperator

definition FilterDuration_default :: FilterDuration where
  "FilterDuration_default = \<lparr>FilterDuration.value = prost_Duration_default, FilterDuration.operator = FilterDurationOperator_default\<rparr>"

definition FilterDuration_to_v3 :: "FilterDuration \<Rightarrow> v3_FilterDuration" where
  "FilterDuration_to_v3 v = \<lparr>
     v3_FilterDuration.value = Some (FilterDuration.value v),
     v3_FilterDuration.operator = v3_FilterDurationOperator_as_i32 (FilterDurationOperator_to_v3 (FilterDuration.operator v))\<rparr>"

definition FilterDuration_of_v3 :: "v3_FilterDuration \<Rightarrow> FilterDuration" where
  "FilterDuration_of_v3 v = \<lparr>
     FilterDuration.value = map_or_default prost_Duration_default (\<lambda>x. x) (v3_FilterDuration.value v),
     FilterDuration.operator = FilterDurationOperator_of_i32 (v3_FilterDuration.operator v)\<rparr>"

interpretation FilterDuration_codec: wire_codec FilterDuration_to_v3 FilterDuration_of_v3
  by unfold_locales (simp add: FilterDuration_to_v3_def FilterDuration_of_v3_def)

text \<open>A status condition is generic in the status it compares with.\<close>

record 'a FilterStatus =
  "value" :: 'a
  operator :: FilterStatusOperator

definition FilterStatus_default :: "'a \<Rightarrow> 'a FilterStatus" where
  "FilterStatus_default d = \<lparr>FilterStatus.value = d, FilterStatus.operator = FilterStatusOperator_default\<rparr>"

section \<open>Sort specifications\<close>

record 'a Sort =
  field :: 'a
  direction :: SortDirection

record 'a SortMany =
  sort_fields :: "'a list"
  direction :: SortDirection

text \<open>The derived defaults take the default of the field type.\<close>

definition Sort_default :: "'a \<Rightarrow> 'a Sort" where
  "Sort_default d = \<lparr>Sort.field = d, Sort.direction = SortDirection_default\<rparr>"

definition SortMany_default :: "'a SortMany" where
  "SortMany_default = \<lparr>SortMany.sort_fields = [], SortMany.direction = SortDirection_default\<rparr>"

end
