(* ===== verification/Tasks.thy ===== *)
theory Tasks
  imports Filters
begin

text \<open>
  Objects of the tasks service (\<^verbatim>\<open>objects/tasks\<close>). The summary of a task folds its output into one
  error string, so its codec is partial: the output \<open>Error ''''\<close> is the one value it loses.
\<close>

section \<open>Fields\<close>

datatype tasks_SummaryField =
    Unspecified
  | TaskId
  | SessionId
  | OwnerPodId
  | InitialTaskId
  | Status
  | CreatedAt
  | SubmittedAt
  | StartedAt
  | EndedAt
  | CreationToEndDuration
  | ProcessingToEndDuration
  | ReceivedToEndDuration
  | PodTtl
  | PodHostname
  | ReceivedAt
  | AcquiredAt
  | ProcessedAt
  | FetchedAt
  | Error
  | PayloadId
  | CreatedBy

primrec tasks_SummaryField_as_i32 :: "tasks_SummaryField \<Rightarrow> i32" where
    "tasks_SummaryField_as_i32 tasks_SummaryField.Unspecified = 0"
  | "tasks_SummaryField_as_i32 tasks_SummaryField.TaskId = 16"
  | "tasks_SummaryField_as_i32 tasks_SummaryField.SessionId = 1"
  | "tasks_SummaryField_as_i32 tasks_SummaryField.OwnerPodId = 9"
  | "tasks_SummaryField_as_i32 tasks_SummaryField.InitialTaskId = 10"
  | "tasks_SummaryField_as_i32 tasks_SummaryField.Status = 2"
  | "tasks_SummaryField_as_i32 tasks_SummaryField.CreatedAt = 3"
  | "tasks_SummaryField_as_i32 tasks_SummaryField.SubmittedAt = 11"
  | "tasks_SummaryField_as_i32 tasks_SummaryField.StartedAt = 4"
  | "tasks_SummaryField_as_i32 tasks_SummaryField.EndedAt = 5"
  | "tasks_SummaryField_as_i32 tasks_SummaryField.CreationToEndDuration = 6"
  | "tasks_SummaryField_as_i32 tasks_SummaryField.ProcessingToEndDuration = 7"
  | "tasks_SummaryField_as_i32 tasks_SummaryField.ReceivedToEndDuration = 18"
  | "tasks_SummaryField_as_i32 tasks_SummaryField.PodTtl = 12"
  | "tasks_SummaryField_as_i32 tasks_SummaryField.PodHostname = 13"
  | "tasks_SummaryField_as_i32 tasks_SummaryField.ReceivedAt = 14"
  | "tasks_SummaryField_as_i32 tasks_SummaryField.AcquiredAt = 15"
  | "tasks_SummaryField_as_i32 tasks_SummaryField.ProcessedAt = 17"
  | "tasks_SummaryField_as_i32 tasks_SummaryField.FetchedAt = 19"
  | "tasks_SummaryField_as_i32 tasks_SummaryField.Error = 8"
  | "tasks_SummaryField_as_i32 tasks_SummaryField.PayloadId = 20"
  | "tasks_SummaryField_as_i32 tasks_SummaryField.CreatedBy = 21"

definition tasks_SummaryField_default :: tasks_SummaryField where
  "tasks_SummaryField_default = tasks_SummaryField.TaskId"

definition tasks_SummaryField_of_i32 :: "i32 \<Rightarrow> tasks_SummaryField" where
  "tasks_SummaryField_of_i32 i =
    (if i = 0 then tasks_SummaryField.Unspecified
     else if i = 16 then tasks_SummaryField.TaskId
     else if i = 1 then tasks_SummaryField.SessionId
     else if i = 9 then tasks_SummaryField.OwnerPodId
     else if i = 10 then tasks_SummaryField.InitialTaskId
     else if i = 2 then tasks_SummaryField.Status
     else if i = 3 then tasks_SummaryField.CreatedAt
     else if i = 11 then tasks_SummaryField.SubmittedAt
     else if i = 4 then tasks_SummaryField.StartedAt
     else if i = 5 then tasks_SummaryField.EndedAt
     else if i = 6 then tasks_SummaryField.CreationToEndDuration
     else if i = 7 then tasks_SummaryField.ProcessingToEndDuration
     else if i = 18 then tasks_SummaryField.ReceivedToEndDuration
     else if i = 12 then tasks_SummaryField.PodTtl
     else if i = 13 then tasks_SummaryField.PodHostname
     else if i = 14 then tasks_SummaryField.ReceivedAt
     else if i = 15 then tasks_SummaryField.AcquiredAt
     else if i = 17 then tasks_SummaryField.ProcessedAt
     else if i = 19 then tasks_SummaryField.FetchedAt
     else if i = 8 then tasks_SummaryField.Error
     else if i = 20 then tasks_SummaryField.PayloadId
     else if i = 21 then tasks_SummaryField.CreatedBy
     else tasks_SummaryField.Unspecified)"

interpretation tasks_SummaryField_enum: proto_enum tasks_SummaryField_as_i32 tasks_SummaryField_of_i32 tasks_SummaryField.Unspecified
proof unfold_locales
  fix e
  show "tasks_SummaryField_of_i32 (tasks_SummaryField_as_i32 e) = e" by (cases e) (simp_all add: tasks_SummaryField_of_i32_def tasks_SummaryField_default_def)
next
  fix i
  assume "tasks_SummaryField_of_i32 i \<noteq> tasks_SummaryField.Unspecified"
  then show "tasks_SummaryField_as_i32 (tasks_SummaryField_of_i32 i) = i"
    by (simp add: tasks_SummaryField_of_i32_def tasks_SummaryField_default_def split: if_splits)
qed

text \<open>The numbers are those of the schema.\<close>

datatype v3_tasks_TaskSummaryEnumField =
    Unspecified
  | TaskId
  | SessionId
  | OwnerPodId
  | InitialTaskId
  | Status
  | CreatedAt
  | SubmittedAt
  | StartedAt
  | EndedAt
  | CreationToEndDuration
  | ProcessingToEndDuration
  | ReceivedToEndDuration
  | PodTtl
  | PodHostname
  | ReceivedAt
  | AcquiredAt
  | ProcessedAt
  | Error
  | FetchedAt
  | PayloadId
  | CreatedBy

primrec v3_tasks_TaskSummaryEnumField_as_i32 :: "v3_tasks_TaskSummaryEnumField \<Rightarrow> i32" where
    "v3_tasks_TaskSummaryEnumField_as_i32 v3_tasks_TaskSummaryEnumField.Unspecified = 0"
  | "v3_tasks_TaskSummaryEnumField_as_i32 v3_tasks_TaskSummaryEnumField.TaskId = 16"
  | "v3_tasks_TaskSummaryEnumField_as_i32 v3_tasks_TaskSummaryEnumField.SessionId = 1"
  | "v3_tasks_TaskSummaryEnumField_as_i32 v3_tasks_TaskSummaryEnumField.OwnerPodId = 9"
  | "v3_tasks_TaskSummaryEnumField_as_i32 v3_tasks_TaskSummaryEnumField.InitialTaskId = 10"
  | "v3_tasks_TaskSummaryEnumField_as_i32 v3_tasks_TaskSummaryEnumField.Status = 2"
  | "v3_tasks_TaskSummaryEnumField_as_i32 v3_tasks_TaskSummaryEnumField.CreatedAt = 3"
  | "v3_tasks_TaskSummaryEnumField_as_i32 v3_tasks_TaskSummaryEnumField.SubmittedAt = 11"
  | "v3_tasks_TaskSummaryEnumField_as_i32 v3_tasks_TaskSummaryEnumField.StartedAt = 4"
  | "v3_tasks_TaskSummaryEnumField_as_i32 v3_tasks_TaskSummaryEnumField.EndedAt = 5"
  | "v3_tasks_TaskSummaryEnumField_as_i32 v3_tasks_TaskSummaryEnumField.CreationToEndDuration = 6"
  | "v3_tasks_TaskSummaryEnumField_as_i32 v3_tasks_TaskSummaryEnumField.ProcessingToEndDuration = 7"
  | "v3_tasks_TaskSummaryEnumField_as_i32 v3_tasks_TaskSummaryEnumField.ReceivedToEndDuration = 18"
  | "v3_tasks_TaskSummaryEnumField_as_i32 v3_tasks_TaskSummaryEnumField.PodTtl = 12"
  | "v3_tasks_TaskSummaryEnumField_as_i32 v3_tasks_TaskSummaryEnumField.PodHostname = 13"
  | "v3_tasks_TaskSummaryEnumField_as_i32 v3_tasks_TaskSummaryEnumField.ReceivedAt = 14"
  | "v3_tasks_TaskSummaryEnumField_as_i32 v3_tasks_TaskSummaryEnumField.AcquiredAt = 15"
  | "v3_tasks_TaskSummaryEnumField_as_i32 v3_tasks_TaskSummaryEnumField.ProcessedAt = 17"
  | "v3_tasks_TaskSummaryEnumField_as_i32 v3_tasks_TaskSummaryEnumField.Error = 8"
  | "v3_tasks_TaskSummaryEnumField_as_i32 v3_tasks_TaskSummaryEnumField.FetchedAt = 19"
  | "v3_tasks_TaskSummaryEnumField_as_i32 v3_tasks_TaskSummaryEnumField.PayloadId = 20"
  | "v3_tasks_TaskSummaryEnumField_as_i32 v3_tasks_TaskSummaryEnumField.CreatedBy = 21"

primrec tasks_SummaryField_schema :: "tasks_SummaryField \<Rightarrow> v3_tasks_TaskSummaryEnumField" where
    "tasks_SummaryField_schema tasks_SummaryField.Unspecified = v3_tasks_TaskSummaryEnumField.Unspecified"
  | "tasks_SummaryField_schema tasks_SummaryField.TaskId = v3_tasks_TaskSummaryEnumField.TaskId"
  | "tasks_SummaryField_schema tasks_SummaryField.SessionId = v3_tasks_TaskSummaryEnumField.SessionId"
  | "tasks_SummaryField_schema tasks_SummaryField.OwnerPodId = v3_tasks_TaskSummaryEnumField.OwnerPodId"
  | "tasks_SummaryField_schema tasks_SummaryField.InitialTaskId = v3_tasks_TaskSummaryEnumField.InitialTaskId"
  | "tasks_SummaryField_schema tasks_SummaryField.Status = v3_tasks_TaskSummaryEnumField.Status"
  | "tasks_SummaryField_schema tasks_SummaryField.CreatedAt = v3_tasks_TaskSummaryEnumField.CreatedAt"
  | "tasks_SummaryField_schema tasks_SummaryField.SubmittedAt = v3_tasks_TaskSummaryEnumField.SubmittedAt"
  | "tasks_SummaryField_schema tasks_SummaryField.StartedAt = v3_tasks_TaskSummaryEnumField.StartedAt"
  | "tasks_SummaryField_schema tasks_SummaryField.EndedAt = v3_tasks_TaskSummaryEnumField.EndedAt"
  | "tasks_SummaryField_schema tasks_SummaryField.CreationToEndDuration = v3_tasks_TaskSummaryEnumField.CreationToEndDuration"
  | "tasks_SummaryField_schema tasks_SummaryField.ProcessingToEndDuration = v3_tasks_TaskSummaryEnumField.ProcessingToEndDuration"
  | "tasks_SummaryField_schema tasks_SummaryField.ReceivedToEndDuration = v3_tasks_TaskSummaryEnumField.ReceivedToEndDuration"
  | "tasks_SummaryField_schema tasks_SummaryField.PodTtl = v3_tasks_TaskSummaryEnumField.PodTtl"
  | "tasks_SummaryField_schema tasks_SummaryField.PodHostname = v3_tasks_TaskSummaryEnumField.PodHostname"
  | "tasks_SummaryField_schema tasks_SummaryField.ReceivedAt = v3_tasks_TaskSummaryEnumField.ReceivedAt"
  | "tasks_SummaryField_schema tasks_SummaryField.AcquiredAt = v3_tasks_TaskSummaryEnumField.AcquiredAt"
  | "tasks_SummaryField_schema tasks_SummaryField.ProcessedAt = v3_tasks_TaskSummaryEnumField.ProcessedAt"
  | "tasks_SummaryField_schema tasks_SummaryField.FetchedAt = v3_tasks_TaskSummaryEnumField.FetchedAt"
  | "tasks_SummaryField_schema tasks_SummaryField.Error = v3_tasks_TaskSummaryEnumField.Error"
  | "tasks_SummaryField_schema tasks_SummaryField.PayloadId = v3_tasks_TaskSummaryEnumField.PayloadId"
  | "tasks_SummaryField_schema tasks_SummaryField.CreatedBy = v3_tasks_TaskSummaryEnumField.CreatedBy"

interpretation tasks_SummaryField_numbers: schema_enum tasks_SummaryField_as_i32 tasks_SummaryField_of_i32 tasks_SummaryField.Unspecified
    tasks_SummaryField_schema v3_tasks_TaskSummaryEnumField_as_i32
proof unfold_locales
  fix e
  show "v3_tasks_TaskSummaryEnumField_as_i32 (tasks_SummaryField_schema e) = tasks_SummaryField_as_i32 e" by (cases e) simp_all
next
  have "w \<in> range tasks_SummaryField_schema" for w
    by (cases w) (metis rangeI tasks_SummaryField_schema.simps)+
  then show "surj tasks_SummaryField_schema" by blast
qed

record v3_tasks_TaskSummaryField =
  field :: i32

record v3_tasks_TaskOptionGenericField =
  field :: string

datatype v3_tasks_task_field_Field =
    TaskSummaryField v3_tasks_TaskSummaryField
  | TaskOptionField v3_tasks_TaskOptionField
  | TaskOptionGenericField v3_tasks_TaskOptionGenericField

record v3_tasks_TaskField =
  field :: "v3_tasks_task_field_Field option"

definition tasks_SummaryField_to_v3 :: "tasks_SummaryField \<Rightarrow> v3_tasks_TaskSummaryField" where
  "tasks_SummaryField_to_v3 v = \<lparr>v3_tasks_TaskSummaryField.field = tasks_SummaryField_as_i32 v\<rparr>"

definition tasks_SummaryField_of_v3 :: "v3_tasks_TaskSummaryField \<Rightarrow> tasks_SummaryField" where
  "tasks_SummaryField_of_v3 v = tasks_SummaryField_of_i32 (v3_tasks_TaskSummaryField.field v)"

interpretation tasks_SummaryField_codec: wire_codec tasks_SummaryField_to_v3 tasks_SummaryField_of_v3
  by unfold_locales (simp add: tasks_SummaryField_to_v3_def tasks_SummaryField_of_v3_def)

datatype tasks_Field =
    Summary tasks_SummaryField
  | Option TaskOptionField
  | OptionGeneric string

definition tasks_Field_default :: tasks_Field where
  "tasks_Field_default = tasks_Field.Summary tasks_SummaryField_default"

definition tasks_Field_to_v3 :: "tasks_Field \<Rightarrow> v3_tasks_TaskField" where
  "tasks_Field_to_v3 v = \<lparr>v3_tasks_TaskField.field = Some (case v of
       tasks_Field.Summary f \<Rightarrow> v3_tasks_task_field_Field.TaskSummaryField (tasks_SummaryField_to_v3 f)
     | tasks_Field.Option f \<Rightarrow> v3_tasks_task_field_Field.TaskOptionField (TaskOptionField_to_v3_tasks f)
     | tasks_Field.OptionGeneric f \<Rightarrow> v3_tasks_task_field_Field.TaskOptionGenericField (\<lparr>v3_tasks_TaskOptionGenericField.field = f\<rparr>))\<rparr>"

definition tasks_Field_of_v3 :: "v3_tasks_TaskField \<Rightarrow> tasks_Field" where
  "tasks_Field_of_v3 v = (case v3_tasks_TaskField.field v of
       Some (v3_tasks_task_field_Field.TaskSummaryField f) \<Rightarrow> tasks_Field.Summary (tasks_SummaryField_of_v3 f)
     | Some (v3_tasks_task_field_Field.TaskOptionField f) \<Rightarrow> tasks_Field.Option (TaskOptionField_of_v3_tasks f)
     | Some (v3_tasks_task_field_Field.TaskOptionGenericField f) \<Rightarrow> tasks_Field.OptionGeneric (v3_tasks_TaskOptionGenericField.field f)
     | None \<Rightarrow> tasks_Field_default)"

interpretation tasks_Field_codec: wire_codec tasks_Field_to_v3 tasks_Field_of_v3
proof unfold_locales
  fix x
  show "tasks_Field_of_v3 (tasks_Field_to_v3 x) = x" by (cases x) (simp_all add: tasks_Field_to_v3_def tasks_Field_of_v3_def)
qed

section \<open>Filters and sort\<close>

record v3_tasks_FilterStatus =
  "value" :: i32
  operator :: i32

datatype v3_tasks_filter_field_ValueCondition =
    FilterString v3_FilterString
  | FilterNumber v3_FilterNumber
  | FilterBoolean v3_FilterBoolean
  | FilterStatus v3_tasks_FilterStatus
  | FilterDate v3_FilterDate
  | FilterArray v3_FilterArray
  | FilterDuration v3_FilterDuration

record v3_tasks_FilterField =
  field :: "v3_tasks_TaskField option"
  value_condition :: "v3_tasks_filter_field_ValueCondition option"

record v3_tasks_FiltersAnd =
  and_fields :: "v3_tasks_FilterField list"

record v3_tasks_Filters =
  or_ands :: "v3_tasks_FiltersAnd list"

type_synonym tasks_filter_Status = "TaskStatus FilterStatus"

definition tasks_filter_Status_to_v3 :: "tasks_filter_Status \<Rightarrow> v3_tasks_FilterStatus" where
  "tasks_filter_Status_to_v3 v = \<lparr>
     v3_tasks_FilterStatus.value = TaskStatus_as_i32 (FilterStatus.value v),
     v3_tasks_FilterStatus.operator = FilterStatusOperator_as_i32 (FilterStatus.operator v)\<rparr>"

definition tasks_filter_Status_of_v3 :: "v3_tasks_FilterStatus \<Rightarrow> tasks_filter_Status" where
  "tasks_filter_Status_of_v3 v = \<lparr>
     FilterStatus.value = TaskStatus_of_i32 (v3_tasks_FilterStatus.value v),
     FilterStatus.operator = FilterStatusOperator_of_i32 (v3_tasks_FilterStatus.operator v)\<rparr>"

interpretation tasks_filter_Status_codec: wire_codec tasks_filter_Status_to_v3 tasks_filter_Status_of_v3
  by unfold_locales (simp add: tasks_filter_Status_to_v3_def tasks_filter_Status_of_v3_def)

datatype tasks_filter_Condition =
    String FilterString
  | Number FilterNumber
  | Boolean FilterBoolean
  | Status tasks_filter_Status
  | Date FilterDate
  | Duration FilterDuration
  | Array FilterArray

definition tasks_filter_Condition_default :: tasks_filter_Condition where
  "tasks_filter_Condition_default = tasks_filter_Condition.String FilterString_default"

primrec tasks_filter_Condition_to_v3 :: "tasks_filter_Condition \<Rightarrow> v3_tasks_filter_field_ValueCondition" where
    "tasks_filter_Condition_to_v3 (tasks_filter_Condition.String cond) = v3_tasks_filter_field_ValueCondition.FilterString (FilterString_to_v3 cond)"
  | "tasks_filter_Condition_to_v3 (tasks_filter_Condition.Number cond) = v3_tasks_filter_field_ValueCondition.FilterNumber (FilterNumber_to_v3 cond)"
  | "tasks_filter_Condition_to_v3 (tasks_filter_Condition.Boolean cond) = v3_tasks_filter_field_ValueCondition.FilterBoolean (FilterBoolean_to_v3 cond)"
  | "tasks_filter_Condition_to_v3 (tasks_filter_Condition.Status cond) = v3_tasks_filter_field_ValueCondition.FilterStatus (tasks_filter_Status_to_v3 cond)"
  | "tasks_filter_Condition_to_v3 (tasks_filter_Condition.Date cond) = v3_tasks_filter_field_ValueCondition.FilterDate (FilterDate_to_v3 cond)"
  | "tasks_filter_Condition_to_v3 (tasks_filter_Condition.Duration cond) = v3_tasks_filter_field_ValueCondition.FilterDuration (FilterDuration_to_v3 cond)"
  | "tasks_filter_Condition_to_v3 (tasks_filter_Condition.Array cond) = v3_tasks_filter_field_ValueCondition.FilterArray (FilterArray_to_v3 cond)"

primrec tasks_filter_Condition_of_v3 :: "v3_tasks_filter_field_ValueCondition \<Rightarrow> tasks_filter_Condition" where
    "tasks_filter_Condition_of_v3 (v3_tasks_filter_field_ValueCondition.FilterString cond) = tasks_filter_Condition.String (FilterString_of_v3 cond)"
  | "tasks_filter_Condition_of_v3 (v3_tasks_filter_field_ValueCondition.FilterNumber cond) = tasks_filter_Condition.Number (FilterNumber_of_v3 cond)"
  | "tasks_filter_Condition_of_v3 (v3_tasks_filter_field_ValueCondition.FilterBoolean cond) = tasks_filter_Condition.Boolean (FilterBoolean_of_v3 cond)"
  | "tasks_filter_Condition_of_v3 (v3_tasks_filter_field_ValueCondition.FilterStatus cond) = tasks_filter_Condition.Status (tasks_filter_Status_of_v3 cond)"
  | "tasks_filter_Condition_of_v3 (v3_tasks_filter_field_ValueCondition.FilterDate cond) = tasks_filter_Condition.Date (FilterDate_of_v3 cond)"
  | "tasks_filter_Condition_of_v3 (v3_tasks_filter_field_ValueCondition.FilterDuration cond) = tasks_filter_Condition.Duration (FilterDuration_of_v3 cond)"
  | "tasks_filter_Condition_of_v3 (v3_tasks_filter_field_ValueCondition.FilterArray cond) = tasks_filter_Condition.Array (FilterArray_of_v3 cond)"

interpretation tasks_filter_Condition_codec: wire_codec tasks_filter_Condition_to_v3 tasks_filter_Condition_of_v3
proof unfold_locales
  fix c
  show "tasks_filter_Condition_of_v3 (tasks_filter_Condition_to_v3 c) = c" by (cases c) simp_all
qed

record tasks_filter_Field =
  field :: tasks_Field
  condition :: tasks_filter_Condition

definition tasks_filter_Field_default :: tasks_filter_Field where
  "tasks_filter_Field_default = \<lparr>
     tasks_filter_Field.field = tasks_Field_default,
     tasks_filter_Field.condition = tasks_filter_Condition_default\<rparr>"

definition tasks_filter_Field_to_v3 :: "tasks_filter_Field \<Rightarrow> v3_tasks_FilterField" where
  "tasks_filter_Field_to_v3 v = \<lparr>
     v3_tasks_FilterField.field = Some (tasks_Field_to_v3 (tasks_filter_Field.field v)),
     v3_tasks_FilterField.value_condition = Some (tasks_filter_Condition_to_v3 (tasks_filter_Field.condition v))\<rparr>"

definition tasks_filter_Field_of_v3 :: "v3_tasks_FilterField \<Rightarrow> tasks_filter_Field" where
  "tasks_filter_Field_of_v3 v = \<lparr>
     tasks_filter_Field.field = map_or_default tasks_Field_default tasks_Field_of_v3 (v3_tasks_FilterField.field v),
     tasks_filter_Field.condition = map_or_default tasks_filter_Condition_default tasks_filter_Condition_of_v3 (v3_tasks_FilterField.value_condition v)\<rparr>"

interpretation tasks_filter_Field_codec: wire_codec tasks_filter_Field_to_v3 tasks_filter_Field_of_v3
  by unfold_locales (simp add: tasks_filter_Field_to_v3_def tasks_filter_Field_of_v3_def)

record tasks_filter_And =
  and_fields :: "tasks_filter_Field list"

definition tasks_filter_And_default :: tasks_filter_And where
  "tasks_filter_And_default = \<lparr>
     tasks_filter_And.and_fields = []\<rparr>"

definition tasks_filter_And_to_v3 :: "tasks_filter_And \<Rightarrow> v3_tasks_FiltersAnd" where
  "tasks_filter_And_to_v3 v = \<lparr>
     v3_tasks_FiltersAnd.and_fields = into_collect tasks_filter_Field_to_v3 (tasks_filter_And.and_fields v)\<rparr>"

definition tasks_filter_And_of_v3 :: "v3_tasks_FiltersAnd \<Rightarrow> tasks_filter_And" where
  "tasks_filter_And_of_v3 v = \<lparr>
     tasks_filter_And.and_fields = into_collect tasks_filter_Field_of_v3 (v3_tasks_FiltersAnd.and_fields v)\<rparr>"

interpretation tasks_filter_And_codec: wire_codec tasks_filter_And_to_v3 tasks_filter_And_of_v3
  by unfold_locales (simp add: tasks_filter_And_to_v3_def tasks_filter_And_of_v3_def)

record tasks_filter_Or =
  or_ands :: "tasks_filter_And list"

definition tasks_filter_Or_default :: tasks_filter_Or where
  "tasks_filter_Or_default = \<lparr>
     tasks_filter_Or.or_ands = []\<rparr>"

definition tasks_filter_Or_to_v3 :: "tasks_filter_Or \<Rightarrow> v3_tasks_Filters" where
  "tasks_filter_Or_to_v3 v = \<lparr>
     v3_tasks_Filters.or_ands = into_collect tasks_filter_And_to_v3 (tasks_filter_Or.or_ands v)\<rparr>"

definition tasks_filter_Or_of_v3 :: "v3_tasks_Filters \<Rightarrow> tasks_filter_Or" where
  "tasks_filter_Or_of_v3 v = \<lparr>
     tasks_filter_Or.or_ands = into_collect tasks_filter_And_of_v3 (v3_tasks_Filters.or_ands v)\<rparr>"

interpretation tasks_filter_Or_codec: wire_codec tasks_filter_Or_to_v3 tasks_filter_Or_of_v3
  by unfold_locales (simp add: tasks_filter_Or_to_v3_def tasks_filter_Or_of_v3_def)

text \<open>Both are wrappers of vectors: they collect from and iterate like their vector.\<close>

definition tasks_filter_And_from_iter :: "tasks_filter_Field list \<Rightarrow> tasks_filter_And" where
  "tasks_filter_And_from_iter xs = \<lparr>tasks_filter_And.and_fields = xs\<rparr>"

definition tasks_filter_And_into_iter :: "tasks_filter_And \<Rightarrow> tasks_filter_Field list" where
  "tasks_filter_And_into_iter v = tasks_filter_And.and_fields v"

interpretation tasks_filter_And_wrapper: vec_wrapper tasks_filter_And.and_fields tasks_filter_And.and_fields_update tasks_filter_And_from_iter
  by unfold_locales (simp_all add: tasks_filter_And_from_iter_def)

definition tasks_filter_Or_from_iter :: "tasks_filter_And list \<Rightarrow> tasks_filter_Or" where
  "tasks_filter_Or_from_iter xs = \<lparr>tasks_filter_Or.or_ands = xs\<rparr>"

definition tasks_filter_Or_into_iter :: "tasks_filter_Or \<Rightarrow> tasks_filter_And list" where
  "tasks_filter_Or_into_iter v = tasks_filter_Or.or_ands v"

interpretation tasks_filter_Or_wrapper: vec_wrapper tasks_filter_Or.or_ands tasks_filter_Or.or_ands_update tasks_filter_Or_from_iter
  by unfold_locales (simp_all add: tasks_filter_Or_from_iter_def)

text \<open>The lists of lists of conditions that the client methods accept.\<close>

definition tasks_filter_collect :: "tasks_filter_Field list list \<Rightarrow> tasks_filter_Or" where
  "tasks_filter_collect fss = tasks_filter_Or_from_iter (map (\<lambda>fs. tasks_filter_And_from_iter (map (\<lambda>f. f) fs)) fss)"

definition tasks_filter_lists :: "tasks_filter_Or \<Rightarrow> tasks_filter_Field list list" where
  "tasks_filter_lists v = map tasks_filter_And_into_iter (tasks_filter_Or_into_iter v)"

lemmas tasks_filter_wrapper_defs = tasks_filter_And_from_iter_def tasks_filter_And_into_iter_def tasks_filter_Or_from_iter_def tasks_filter_Or_into_iter_def
  tasks_filter_collect_def tasks_filter_lists_def

lemma tasks_filter_collect_lists [simp]: "tasks_filter_collect (tasks_filter_lists v) = v"
  by (cases v) (auto simp: tasks_filter_wrapper_defs intro!: map_idI)

record v3_tasks_list_tasks_request_Sort =
  field :: "v3_tasks_TaskField option"
  direction :: i32

record v3_tasks_ListTasksRequest =
  page :: i32
  page_size :: i32
  filters :: "v3_tasks_Filters option"
  sort :: "v3_tasks_list_tasks_request_Sort option"
  with_errors :: bool

type_synonym tasks_Sort = "tasks_Field Sort"

definition tasks_Sort_default :: tasks_Sort where
  "tasks_Sort_default = Sort_default tasks_Field_default"

definition tasks_Sort_to_v3 :: "tasks_Sort \<Rightarrow> v3_tasks_list_tasks_request_Sort" where
  "tasks_Sort_to_v3 v = \<lparr>
     v3_tasks_list_tasks_request_Sort.field = Some (tasks_Field_to_v3 (Sort.field v)),
     v3_tasks_list_tasks_request_Sort.direction = SortDirection_as_i32 (Sort.direction v)\<rparr>"

definition tasks_Sort_of_v3 :: "v3_tasks_list_tasks_request_Sort \<Rightarrow> tasks_Sort" where
  "tasks_Sort_of_v3 v = \<lparr>
     Sort.field = map_or_default tasks_Field_default tasks_Field_of_v3 (v3_tasks_list_tasks_request_Sort.field v),
     Sort.direction = SortDirection_of_i32 (v3_tasks_list_tasks_request_Sort.direction v)\<rparr>"

interpretation tasks_Sort_codec: wire_codec tasks_Sort_to_v3 tasks_Sort_of_v3
  by unfold_locales (simp add: tasks_Sort_to_v3_def tasks_Sort_of_v3_def)

section \<open>Detailed tasks\<close>

record v3_tasks_task_detailed_Output =
  success :: bool
  error :: string

record v3_tasks_TaskDetailed =
  id :: string
  session_id :: string
  owner_pod_id :: string
  initial_task_id :: string
  parent_task_ids :: "string list"
  data_dependencies :: "string list"
  expected_output_ids :: "string list"
  retry_of_ids :: "string list"
  status :: i32
  status_message :: string
  options :: "v3_TaskOptions option"
  created_at :: "Timestamp option"
  submitted_at :: "Timestamp option"
  received_at :: "Timestamp option"
  acquired_at :: "Timestamp option"
  fetched_at :: "Timestamp option"
  started_at :: "Timestamp option"
  processed_at :: "Timestamp option"
  ended_at :: "Timestamp option"
  pod_ttl :: "Timestamp option"
  creation_to_end_duration :: "prost_Duration option"
  processing_to_end_duration :: "prost_Duration option"
  received_to_end_duration :: "prost_Duration option"
  payload_id :: string
  created_by :: string
  "output" :: "v3_tasks_task_detailed_Output option"
  pod_hostname :: string

datatype tasks_Output = Success | Error string

definition tasks_Output_default :: tasks_Output where
  "tasks_Output_default = tasks_Output.Success"

definition v3_tasks_task_detailed_Output_default :: v3_tasks_task_detailed_Output where
  "v3_tasks_task_detailed_Output_default = \<lparr>
     v3_tasks_task_detailed_Output.success = False,
     v3_tasks_task_detailed_Output.error = ''''\<rparr>"

primrec tasks_Output_to_v3 :: "tasks_Output \<Rightarrow> v3_tasks_task_detailed_Output" where
    "tasks_Output_to_v3 tasks_Output.Success =
       v3_tasks_task_detailed_Output_default\<lparr>v3_tasks_task_detailed_Output.success := True\<rparr>"
  | "tasks_Output_to_v3 (tasks_Output.Error m) =
       v3_tasks_task_detailed_Output_default\<lparr>v3_tasks_task_detailed_Output.error := m\<rparr>"

definition tasks_Output_of_v3 :: "v3_tasks_task_detailed_Output \<Rightarrow> tasks_Output" where
  "tasks_Output_of_v3 v =
     (if v3_tasks_task_detailed_Output.success v then tasks_Output.Success
      else tasks_Output.Error (v3_tasks_task_detailed_Output.error v))"

interpretation tasks_Output_codec: wire_codec tasks_Output_to_v3 tasks_Output_of_v3
proof unfold_locales
  fix x
  show "tasks_Output_of_v3 (tasks_Output_to_v3 x) = x"
    by (cases x) (simp_all add: tasks_Output_of_v3_def v3_tasks_task_detailed_Output_default_def)
qed

record tasks_Raw =
  task_id :: string
  session_id :: string
  owner_pod_id :: string
  initial_task_id :: string
  parent_task_ids :: "string list"
  data_dependencies :: "string list"
  expected_output_ids :: "string list"
  retry_of_ids :: "string list"
  status :: TaskStatus
  status_message :: string
  options :: TaskOptions
  created_at :: "Timestamp option"
  submitted_at :: "Timestamp option"
  received_at :: "Timestamp option"
  acquired_at :: "Timestamp option"
  fetched_at :: "Timestamp option"
  started_at :: "Timestamp option"
  processed_at :: "Timestamp option"
  ended_at :: "Timestamp option"
  creation_to_end_duration :: "prost_Duration option"
  processing_to_end_duration :: "prost_Duration option"
  received_to_end_duration :: "prost_Duration option"
  pod_ttl :: "Timestamp option"
  "output" :: tasks_Output
  pod_hostname :: string
  payload_id :: string
  created_by :: string

definition tasks_Raw_default :: tasks_Raw where
  "tasks_Raw_default = \<lparr>
     tasks_Raw.task_id = '''',
     tasks_Raw.session_id = '''',
     tasks_Raw.owner_pod_id = '''',
     tasks_Raw.initial_task_id = '''',
     tasks_Raw.parent_task_ids = [],
     tasks_Raw.data_dependencies = [],
     tasks_Raw.expected_output_ids = [],
     tasks_Raw.retry_of_ids = [],
     tasks_Raw.status = TaskStatus_default,
     tasks_Raw.status_message = '''',
     tasks_Raw.options = TaskOptions_default,
     tasks_Raw.created_at = None,
     tasks_Raw.submitted_at = None,
     tasks_Raw.received_at = None,
     tasks_Raw.acquired_at = None,
     tasks_Raw.fetched_at = None,
     tasks_Raw.started_at = None,
     tasks_Raw.processed_at = None,
     tasks_Raw.ended_at = None,
     tasks_Raw.creation_to_end_duration = None,
     tasks_Raw.processing_to_end_duration = None,
     tasks_Raw.received_to_end_duration = None,
     tasks_Raw.pod_ttl = None,
     tasks_Raw.output = tasks_Output_default,
     tasks_Raw.pod_hostname = '''',
     tasks_Raw.payload_id = '''',
     tasks_Raw.created_by = ''''\<rparr>"

definition tasks_Raw_to_v3 :: "tasks_Raw \<Rightarrow> v3_tasks_TaskDetailed" where
  "tasks_Raw_to_v3 v = \<lparr>
     v3_tasks_TaskDetailed.id = tasks_Raw.task_id v,
     v3_tasks_TaskDetailed.session_id = tasks_Raw.session_id v,
     v3_tasks_TaskDetailed.owner_pod_id = tasks_Raw.owner_pod_id v,
     v3_tasks_TaskDetailed.initial_task_id = tasks_Raw.initial_task_id v,
     v3_tasks_TaskDetailed.parent_task_ids = tasks_Raw.parent_task_ids v,
     v3_tasks_TaskDetailed.data_dependencies = tasks_Raw.data_dependencies v,
     v3_tasks_TaskDetailed.expected_output_ids = tasks_Raw.expected_output_ids v,
     v3_tasks_TaskDetailed.retry_of_ids = tasks_Raw.retry_of_ids v,
     v3_tasks_TaskDetailed.status = TaskStatus_as_i32 (tasks_Raw.status v),
     v3_tasks_TaskDetailed.status_message = tasks_Raw.status_message v,
     v3_tasks_TaskDetailed.options = Some (TaskOptions_to_v3 (tasks_Raw.options v)),
     v3_tasks_TaskDetailed.created_at = tasks_Raw.created_at v,
     v3_tasks_TaskDetailed.submitted_at = tasks_Raw.submitted_at v,
     v3_tasks_TaskDetailed.received_at = tasks_Raw.received_at v,
     v3_tasks_TaskDetailed.acquired_at = tasks_Raw.acquired_at v,
     v3_tasks_TaskDetailed.fetched_at = tasks_Raw.fetched_at v,
     v3_tasks_TaskDetailed.started_at = tasks_Raw.started_at v,
     v3_tasks_TaskDetailed.processed_at = tasks_Raw.processed_at v,
     v3_tasks_TaskDetailed.ended_at = tasks_Raw.ended_at v,
     v3_tasks_TaskDetailed.pod_ttl = tasks_Raw.pod_ttl v,
     v3_tasks_TaskDetailed.creation_to_end_duration = tasks_Raw.creation_to_end_duration v,
     v3_tasks_TaskDetailed.processing_to_end_duration = tasks_Raw.processing_to_end_duration v,
     v3_tasks_TaskDetailed.received_to_end_duration = tasks_Raw.received_to_end_duration v,
     v3_tasks_TaskDetailed.payload_id = tasks_Raw.payload_id v,
     v3_tasks_TaskDetailed.created_by = tasks_Raw.created_by v,
     v3_tasks_TaskDetailed.output = Some (tasks_Output_to_v3 (tasks_Raw.output v)),
     v3_tasks_TaskDetailed.pod_hostname = tasks_Raw.pod_hostname v\<rparr>"

definition tasks_Raw_of_v3 :: "v3_tasks_TaskDetailed \<Rightarrow> tasks_Raw" where
  "tasks_Raw_of_v3 v = \<lparr>
     tasks_Raw.task_id = v3_tasks_TaskDetailed.id v,
     tasks_Raw.session_id = v3_tasks_TaskDetailed.session_id v,
     tasks_Raw.owner_pod_id = v3_tasks_TaskDetailed.owner_pod_id v,
     tasks_Raw.initial_task_id = v3_tasks_TaskDetailed.initial_task_id v,
     tasks_Raw.parent_task_ids = v3_tasks_TaskDetailed.parent_task_ids v,
     tasks_Raw.data_dependencies = v3_tasks_TaskDetailed.data_dependencies v,
     tasks_Raw.expected_output_ids = v3_tasks_TaskDetailed.expected_output_ids v,
     tasks_Raw.retry_of_ids = v3_tasks_TaskDetailed.retry_of_ids v,
     tasks_Raw.status = TaskStatus_of_i32 (v3_tasks_TaskDetailed.status v),
     tasks_Raw.status_message = v3_tasks_TaskDetailed.status_message v,
     tasks_Raw.options = map_or_default TaskOptions_default TaskOptions_of_v3 (v3_tasks_TaskDetailed.options v),
     tasks_Raw.created_at = v3_tasks_TaskDetailed.created_at v,
     tasks_Raw.submitted_at = v3_tasks_TaskDetailed.submitted_at v,
     tasks_Raw.received_at = v3_tasks_TaskDetailed.received_at v,
     tasks_Raw.acquired_at = v3_tasks_TaskDetailed.acquired_at v,
     tasks_Raw.fetched_at = v3_tasks_TaskDetailed.fetched_at v,
     tasks_Raw.started_at = v3_tasks_TaskDetailed.started_at v,
     tasks_Raw.processed_at = v3_tasks_TaskDetailed.processed_at v,
     tasks_Raw.ended_at = v3_tasks_TaskDetailed.ended_at v,
     tasks_Raw.creation_to_end_duration = v3_tasks_TaskDetailed.creation_to_end_duration v,
     tasks_Raw.processing_to_end_duration = v3_tasks_TaskDetailed.processing_to_end_duration v,
     tasks_Raw.received_to_end_duration = v3_tasks_TaskDetailed.received_to_end_duration v,
     tasks_Raw.pod_ttl = v3_tasks_TaskDetailed.pod_ttl v,
     tasks_Raw.output = map_or_default tasks_Output_default tasks_Output_of_v3 (v3_tasks_TaskDetailed.output v),
     tasks_Raw.pod_hostname = v3_tasks_TaskDetailed.pod_hostname v,
     tasks_Raw.payload_id = v3_tasks_TaskDetailed.payload_id v,
     tasks_Raw.created_by = v3_tasks_TaskDetailed.created_by v\<rparr>"

interpretation tasks_Raw_codec: wire_codec tasks_Raw_to_v3 tasks_Raw_of_v3
  by unfold_locales (simp add: tasks_Raw_to_v3_def tasks_Raw_of_v3_def)

section \<open>Task summaries\<close>

record v3_tasks_TaskSummary =
  id :: string
  session_id :: string
  owner_pod_id :: string
  initial_task_id :: string
  count_parent_task_ids :: i64
  count_data_dependencies :: i64
  count_expected_output_ids :: i64
  count_retry_of_ids :: i64
  status :: i32
  status_message :: string
  options :: "v3_TaskOptions option"
  created_at :: "Timestamp option"
  submitted_at :: "Timestamp option"
  received_at :: "Timestamp option"
  acquired_at :: "Timestamp option"
  fetched_at :: "Timestamp option"
  started_at :: "Timestamp option"
  processed_at :: "Timestamp option"
  ended_at :: "Timestamp option"
  pod_ttl :: "Timestamp option"
  creation_to_end_duration :: "prost_Duration option"
  processing_to_end_duration :: "prost_Duration option"
  received_to_end_duration :: "prost_Duration option"
  payload_id :: string
  created_by :: string
  error :: string
  pod_hostname :: string

record tasks_Summary =
  task_id :: string
  session_id :: string
  owner_pod_id :: string
  initial_task_id :: string
  count_parent_task_ids :: i64
  count_data_dependencies :: i64
  count_expected_output_ids :: i64
  count_retry_of_ids :: i64
  status :: TaskStatus
  status_message :: string
  options :: TaskOptions
  created_at :: "Timestamp option"
  submitted_at :: "Timestamp option"
  received_at :: "Timestamp option"
  acquired_at :: "Timestamp option"
  fetched_at :: "Timestamp option"
  started_at :: "Timestamp option"
  processed_at :: "Timestamp option"
  ended_at :: "Timestamp option"
  creation_to_end_duration :: "prost_Duration option"
  processing_to_end_duration :: "prost_Duration option"
  received_to_end_duration :: "prost_Duration option"
  pod_ttl :: "Timestamp option"
  "output" :: tasks_Output
  pod_hostname :: string
  payload_id :: string
  created_by :: string

definition tasks_Summary_default :: tasks_Summary where
  "tasks_Summary_default = \<lparr>
     tasks_Summary.task_id = '''',
     tasks_Summary.session_id = '''',
     tasks_Summary.owner_pod_id = '''',
     tasks_Summary.initial_task_id = '''',
     tasks_Summary.count_parent_task_ids = 0,
     tasks_Summary.count_data_dependencies = 0,
     tasks_Summary.count_expected_output_ids = 0,
     tasks_Summary.count_retry_of_ids = 0,
     tasks_Summary.status = TaskStatus_default,
     tasks_Summary.status_message = '''',
     tasks_Summary.options = TaskOptions_default,
     tasks_Summary.created_at = None,
     tasks_Summary.submitted_at = None,
     tasks_Summary.received_at = None,
     tasks_Summary.acquired_at = None,
     tasks_Summary.fetched_at = None,
     tasks_Summary.started_at = None,
     tasks_Summary.processed_at = None,
     tasks_Summary.ended_at = None,
     tasks_Summary.creation_to_end_duration = None,
     tasks_Summary.processing_to_end_duration = None,
     tasks_Summary.received_to_end_duration = None,
     tasks_Summary.pod_ttl = None,
     tasks_Summary.output = tasks_Output_default,
     tasks_Summary.pod_hostname = '''',
     tasks_Summary.payload_id = '''',
     tasks_Summary.created_by = ''''\<rparr>"

definition tasks_Summary_to_v3 :: "tasks_Summary \<Rightarrow> v3_tasks_TaskSummary" where
  "tasks_Summary_to_v3 v = \<lparr>
     v3_tasks_TaskSummary.id = tasks_Summary.task_id v,
     v3_tasks_TaskSummary.session_id = tasks_Summary.session_id v,
     v3_tasks_TaskSummary.owner_pod_id = tasks_Summary.owner_pod_id v,
     v3_tasks_TaskSummary.initial_task_id = tasks_Summary.initial_task_id v,
     v3_tasks_TaskSummary.count_parent_task_ids = tasks_Summary.count_parent_task_ids v,
     v3_tasks_TaskSummary.count_data_dependencies = tasks_Summary.count_data_dependencies v,
     v3_tasks_TaskSummary.count_expected_output_ids = tasks_Summary.count_expected_output_ids v,
     v3_tasks_TaskSummary.count_retry_of_ids = tasks_Summary.count_retry_of_ids v,
     v3_tasks_TaskSummary.status = TaskStatus_as_i32 (tasks_Summary.status v),
     v3_tasks_TaskSummary.status_message = tasks_Summary.status_message v,
     v3_tasks_TaskSummary.options = Some (TaskOptions_to_v3 (tasks_Summary.options v)),
     v3_tasks_TaskSummary.created_at = tasks_Summary.created_at v,
     v3_tasks_TaskSummary.submitted_at = tasks_Summary.submitted_at v,
     v3_tasks_TaskSummary.received_at = tasks_Summary.received_at v,
     v3_tasks_TaskSummary.acquired_at = tasks_Summary.acquired_at v,
     v3_tasks_TaskSummary.fetched_at = tasks_Summary.fetched_at v,
     v3_tasks_TaskSummary.started_at = tasks_Summary.started_at v,
     v3_tasks_TaskSummary.processed_at = tasks_Summary.processed_at v,
     v3_tasks_TaskSummary.ended_at = tasks_Summary.ended_at v,
     v3_tasks_TaskSummary.pod_ttl = tasks_Summary.pod_ttl v,
     v3_tasks_TaskSummary.creation_to_end_duration = tasks_Summary.creation_to_end_duration v,
     v3_tasks_TaskSummary.processing_to_end_duration = tasks_Summary.processing_to_end_duration v,
     v3_tasks_TaskSummary.received_to_end_duration = tasks_Summary.received_to_end_duration v,
     v3_tasks_TaskSummary.payload_id = tasks_Summary.payload_id v,
     v3_tasks_TaskSummary.created_by = tasks_Summary.created_by v,
     v3_tasks_TaskSummary.error = (case tasks_Summary.output v of tasks_Output.Success \<Rightarrow> '''' | tasks_Output.Error m \<Rightarrow> m),
     v3_tasks_TaskSummary.pod_hostname = tasks_Summary.pod_hostname v\<rparr>"

definition tasks_Summary_of_v3 :: "v3_tasks_TaskSummary \<Rightarrow> tasks_Summary" where
  "tasks_Summary_of_v3 v = \<lparr>
     tasks_Summary.task_id = v3_tasks_TaskSummary.id v,
     tasks_Summary.session_id = v3_tasks_TaskSummary.session_id v,
     tasks_Summary.owner_pod_id = v3_tasks_TaskSummary.owner_pod_id v,
     tasks_Summary.initial_task_id = v3_tasks_TaskSummary.initial_task_id v,
     tasks_Summary.count_parent_task_ids = v3_tasks_TaskSummary.count_parent_task_ids v,
     tasks_Summary.count_data_dependencies = v3_tasks_TaskSummary.count_data_dependencies v,
     tasks_Summary.count_expected_output_ids = v3_tasks_TaskSummary.count_expected_output_ids v,
     tasks_Summary.count_retry_of_ids = v3_tasks_TaskSummary.count_retry_of_ids v,
     tasks_Summary.status = TaskStatus_of_i32 (v3_tasks_TaskSummary.status v),
     tasks_Summary.status_message = v3_tasks_TaskSummary.status_message v,
     tasks_Summary.options = map_or_default TaskOptions_default TaskOptions_of_v3 (v3_tasks_TaskSummary.options v),
     tasks_Summary.created_at = v3_tasks_TaskSummary.created_at v,
     tasks_Summary.submitted_at = v3_tasks_TaskSummary.submitted_at v,
     tasks_Summary.received_at = v3_tasks_TaskSummary.received_at v,
     tasks_Summary.acquired_at = v3_tasks_TaskSummary.acquired_at v,
     tasks_Summary.fetched_at = v3_tasks_TaskSummary.fetched_at v,
     tasks_Summary.started_at = v3_tasks_TaskSummary.started_at v,
     tasks_Summary.processed_at = v3_tasks_TaskSummary.processed_at v,
     tasks_Summary.ended_at = v3_tasks_TaskSummary.ended_at v,
     tasks_Summary.creation_to_end_duration = v3_tasks_TaskSummary.creation_to_end_duration v,
     tasks_Summary.processing_to_end_duration = v3_tasks_TaskSummary.processing_to_end_duration v,
     tasks_Summary.received_to_end_duration = v3_tasks_TaskSummary.received_to_end_duration v,
     tasks_Summary.pod_ttl = v3_tasks_TaskSummary.pod_ttl v,
     tasks_Summary.output = (if v3_tasks_TaskSummary.error v = '''' then tasks_Output.Success else tasks_Output.Error (v3_tasks_TaskSummary.error v)),
     tasks_Summary.pod_hostname = v3_tasks_TaskSummary.pod_hostname v,
     tasks_Summary.payload_id = v3_tasks_TaskSummary.payload_id v,
     tasks_Summary.created_by = v3_tasks_TaskSummary.created_by v\<rparr>"

definition tasks_Summary_faithful :: "tasks_Summary \<Rightarrow> bool" where
  "tasks_Summary_faithful s \<longleftrightarrow> tasks_Summary.output s \<noteq> tasks_Output.Error ''''"

lemma tasks_Summary_normalised:
  "tasks_Summary_of_v3 (tasks_Summary_to_v3 s) =
     (if tasks_Summary_faithful s then s else s\<lparr>tasks_Summary.output := tasks_Output.Success\<rparr>)"
  by (cases "tasks_Summary.output s")
    (auto simp: tasks_Summary_of_v3_def tasks_Summary_to_v3_def tasks_Summary_faithful_def)

interpretation tasks_Summary_codec:
  partial_codec tasks_Summary_to_v3 tasks_Summary_of_v3 tasks_Summary_faithful
  by unfold_locales (simp add: tasks_Summary_normalised)

section \<open>Requests and responses\<close>

record v3_tasks_GetTaskRequest =
  task_id :: string

record v3_tasks_GetTaskResponse =
  task :: "v3_tasks_TaskDetailed option"

record v3_tasks_CancelTasksRequest =
  task_ids :: "string list"

record v3_tasks_CancelTasksResponse =
  tasks :: "v3_tasks_TaskSummary list"

record tasks_get_Request =
  task_id :: string

definition tasks_get_Request_default :: tasks_get_Request where
  "tasks_get_Request_default = \<lparr>
     tasks_get_Request.task_id = ''''\<rparr>"

definition tasks_get_Request_to_v3 :: "tasks_get_Request \<Rightarrow> v3_tasks_GetTaskRequest" where
  "tasks_get_Request_to_v3 v = \<lparr>
     v3_tasks_GetTaskRequest.task_id = tasks_get_Request.task_id v\<rparr>"

definition tasks_get_Request_of_v3 :: "v3_tasks_GetTaskRequest \<Rightarrow> tasks_get_Request" where
  "tasks_get_Request_of_v3 v = \<lparr>
     tasks_get_Request.task_id = v3_tasks_GetTaskRequest.task_id v\<rparr>"

interpretation tasks_get_Request_codec: wire_codec tasks_get_Request_to_v3 tasks_get_Request_of_v3
  by unfold_locales (simp add: tasks_get_Request_to_v3_def tasks_get_Request_of_v3_def)

record tasks_get_Response =
  task :: tasks_Raw

definition tasks_get_Response_default :: tasks_get_Response where
  "tasks_get_Response_default = \<lparr>
     tasks_get_Response.task = tasks_Raw_default\<rparr>"

definition tasks_get_Response_to_v3 :: "tasks_get_Response \<Rightarrow> v3_tasks_GetTaskResponse" where
  "tasks_get_Response_to_v3 v = \<lparr>
     v3_tasks_GetTaskResponse.task = Some (tasks_Raw_to_v3 (tasks_get_Response.task v))\<rparr>"

definition tasks_get_Response_of_v3 :: "v3_tasks_GetTaskResponse \<Rightarrow> tasks_get_Response" where
  "tasks_get_Response_of_v3 v = \<lparr>
     tasks_get_Response.task = map_or_default tasks_Raw_default tasks_Raw_of_v3 (v3_tasks_GetTaskResponse.task v)\<rparr>"

interpretation tasks_get_Response_codec: wire_codec tasks_get_Response_to_v3 tasks_get_Response_of_v3
  by unfold_locales (simp add: tasks_get_Response_to_v3_def tasks_get_Response_of_v3_def)

record tasks_cancel_Request =
  task_ids :: "string list"

definition tasks_cancel_Request_default :: tasks_cancel_Request where
  "tasks_cancel_Request_default = \<lparr>
     tasks_cancel_Request.task_ids = []\<rparr>"

definition tasks_cancel_Request_to_v3 :: "tasks_cancel_Request \<Rightarrow> v3_tasks_CancelTasksRequest" where
  "tasks_cancel_Request_to_v3 v = \<lparr>
     v3_tasks_CancelTasksRequest.task_ids = tasks_cancel_Request.task_ids v\<rparr>"

definition tasks_cancel_Request_of_v3 :: "v3_tasks_CancelTasksRequest \<Rightarrow> tasks_cancel_Request" where
  "tasks_cancel_Request_of_v3 v = \<lparr>
     tasks_cancel_Request.task_ids = v3_tasks_CancelTasksRequest.task_ids v\<rparr>"

interpretation tasks_cancel_Request_codec: wire_codec tasks_cancel_Request_to_v3 tasks_cancel_Request_of_v3
  by unfold_locales (simp add: tasks_cancel_Request_to_v3_def tasks_cancel_Request_of_v3_def)

record tasks_cancel_Response =
  tasks :: "tasks_Summary list"

definition tasks_cancel_Response_default :: tasks_cancel_Response where
  "tasks_cancel_Response_default = \<lparr>
     tasks_cancel_Response.tasks = []\<rparr>"

definition tasks_cancel_Response_to_v3 :: "tasks_cancel_Response \<Rightarrow> v3_tasks_CancelTasksResponse" where
  "tasks_cancel_Response_to_v3 v = \<lparr>
     v3_tasks_CancelTasksResponse.tasks = into_collect tasks_Summary_to_v3 (tasks_cancel_Response.tasks v)\<rparr>"

definition tasks_cancel_Response_of_v3 :: "v3_tasks_CancelTasksResponse \<Rightarrow> tasks_cancel_Response" where
  "tasks_cancel_Response_of_v3 v = \<lparr>
     tasks_cancel_Response.tasks = into_collect tasks_Summary_of_v3 (v3_tasks_CancelTasksResponse.tasks v)\<rparr>"

interpretation tasks_cancel_Response_codec: partial_codec tasks_cancel_Response_to_v3
    tasks_cancel_Response_of_v3 "\<lambda>r. list_all tasks_Summary_faithful (tasks_cancel_Response.tasks r)"
  by unfold_locales (simp add: tasks_cancel_Response_to_v3_def tasks_cancel_Response_of_v3_def
      tasks_Summary_codec.collect_faithful)

record v3_tasks_ListTasksResponse =
  tasks :: "v3_tasks_TaskSummary list"
  page :: i32
  page_size :: i32
  total :: i32

record v3_tasks_ListTasksDetailedResponse =
  tasks :: "v3_tasks_TaskDetailed list"
  page :: i32
  page_size :: i32
  total :: i32

record tasks_list_Request =
  page :: i32
  page_size :: i32
  filters :: tasks_filter_Or
  sort :: tasks_Sort
  with_errors :: bool

definition tasks_list_Request_default :: tasks_list_Request where
  "tasks_list_Request_default = \<lparr>
     tasks_list_Request.page = 0,
     tasks_list_Request.page_size = 100,
     tasks_list_Request.filters = tasks_filter_Or_default,
     tasks_list_Request.sort = tasks_Sort_default,
     tasks_list_Request.with_errors = False\<rparr>"

definition tasks_list_Request_to_v3 :: "tasks_list_Request \<Rightarrow> v3_tasks_ListTasksRequest" where
  "tasks_list_Request_to_v3 v = \<lparr>
     v3_tasks_ListTasksRequest.page = tasks_list_Request.page v,
     v3_tasks_ListTasksRequest.page_size = tasks_list_Request.page_size v,
     v3_tasks_ListTasksRequest.filters = Some (tasks_filter_Or_to_v3 (tasks_list_Request.filters v)),
     v3_tasks_ListTasksRequest.sort = Some (tasks_Sort_to_v3 (tasks_list_Request.sort v)),
     v3_tasks_ListTasksRequest.with_errors = tasks_list_Request.with_errors v\<rparr>"

definition tasks_list_Request_of_v3 :: "v3_tasks_ListTasksRequest \<Rightarrow> tasks_list_Request" where
  "tasks_list_Request_of_v3 v = \<lparr>
     tasks_list_Request.page = v3_tasks_ListTasksRequest.page v,
     tasks_list_Request.page_size = v3_tasks_ListTasksRequest.page_size v,
     tasks_list_Request.filters = map_or_default tasks_filter_Or_default tasks_filter_Or_of_v3 (v3_tasks_ListTasksRequest.filters v),
     tasks_list_Request.sort = map_or_default tasks_Sort_default tasks_Sort_of_v3 (v3_tasks_ListTasksRequest.sort v),
     tasks_list_Request.with_errors = v3_tasks_ListTasksRequest.with_errors v\<rparr>"

interpretation tasks_list_Request_codec: wire_codec tasks_list_Request_to_v3 tasks_list_Request_of_v3
  by unfold_locales (simp add: tasks_list_Request_to_v3_def tasks_list_Request_of_v3_def)

record tasks_list_Response =
  tasks :: "tasks_Summary list"
  page :: i32
  page_size :: i32
  total :: i32

definition tasks_list_Response_default :: tasks_list_Response where
  "tasks_list_Response_default = \<lparr>
     tasks_list_Response.tasks = [],
     tasks_list_Response.page = 0,
     tasks_list_Response.page_size = 100,
     tasks_list_Response.total = 0\<rparr>"

definition tasks_list_Response_to_v3 :: "tasks_list_Response \<Rightarrow> v3_tasks_ListTasksResponse" where
  "tasks_list_Response_to_v3 v = \<lparr>
     v3_tasks_ListTasksResponse.tasks = into_collect tasks_Summary_to_v3 (tasks_list_Response.tasks v),
     v3_tasks_ListTasksResponse.page = tasks_list_Response.page v,
     v3_tasks_ListTasksResponse.page_size = tasks_list_Response.page_size v,
     v3_tasks_ListTasksResponse.total = tasks_list_Response.total v\<rparr>"

definition tasks_list_Response_of_v3 :: "v3_tasks_ListTasksResponse \<Rightarrow> tasks_list_Response" where
  "tasks_list_Response_of_v3 v = \<lparr>
     tasks_list_Response.tasks = into_collect tasks_Summary_of_v3 (v3_tasks_ListTasksResponse.tasks v),
     tasks_list_Response.page = v3_tasks_ListTasksResponse.page v,
     tasks_list_Response.page_size = v3_tasks_ListTasksResponse.page_size v,
     tasks_list_Response.total = v3_tasks_ListTasksResponse.total v\<rparr>"

interpretation tasks_list_Response_codec: partial_codec tasks_list_Response_to_v3
    tasks_list_Response_of_v3 "\<lambda>r. list_all tasks_Summary_faithful (tasks_list_Response.tasks r)"
  by unfold_locales (simp add: tasks_list_Response_to_v3_def tasks_list_Response_of_v3_def
      tasks_Summary_codec.collect_faithful)

record tasks_list_detailed_Request =
  page :: i32
  page_size :: i32
  filters :: tasks_filter_Or
  sort :: tasks_Sort
  with_errors :: bool

definition tasks_list_detailed_Request_default :: tasks_list_detailed_Request where
  "tasks_list_detailed_Request_default = \<lparr>
     tasks_list_detailed_Request.page = 0,
     tasks_list_detailed_Request.page_size = 100,
     tasks_list_detailed_Request.filters = tasks_filter_Or_default,
     tasks_list_detailed_Request.sort = tasks_Sort_default,
     tasks_list_detailed_Request.with_errors = False\<rparr>"

definition tasks_list_detailed_Request_to_v3 :: "tasks_list_detailed_Request \<Rightarrow> v3_tasks_ListTasksRequest" where
  "tasks_list_detailed_Request_to_v3 v = \<lparr>
     v3_tasks_ListTasksRequest.page = tasks_list_detailed_Request.page v,
     v3_tasks_ListTasksRequest.page_size = tasks_list_detailed_Request.page_size v,
     v3_tasks_ListTasksRequest.filters = Some (tasks_filter_Or_to_v3 (tasks_list_detailed_Request.filters v)),
     v3_tasks_ListTasksRequest.sort = Some (tasks_Sort_to_v3 (tasks_list_detailed_Request.sort v)),
     v3_tasks_ListTasksRequest.with_errors = tasks_list_detailed_Request.with_errors v\<rparr>"

definition tasks_list_detailed_Request_of_v3 :: "v3_tasks_ListTasksRequest \<Rightarrow> tasks_list_detailed_Request" where
  "tasks_list_detailed_Request_of_v3 v = \<lparr>
     tasks_list_detailed_Request.page = v3_tasks_ListTasksRequest.page v,
     tasks_list_detailed_Request.page_size = v3_tasks_ListTasksRequest.page_size v,
     tasks_list_detailed_Request.filters = map_or_default tasks_filter_Or_default tasks_filter_Or_of_v3 (v3_tasks_ListTasksRequest.filters v),
     tasks_list_detailed_Request.sort = map_or_default tasks_Sort_default tasks_Sort_of_v3 (v3_tasks_ListTasksRequest.sort v),
     tasks_list_detailed_Request.with_errors = v3_tasks_ListTasksRequest.with_errors v\<rparr>"

interpretation tasks_list_detailed_Request_codec: wire_codec tasks_list_detailed_Request_to_v3 tasks_list_detailed_Request_of_v3
  by unfold_locales (simp add: tasks_list_detailed_Request_to_v3_def tasks_list_detailed_Request_of_v3_def)

record tasks_list_detailed_Response =
  tasks :: "tasks_Raw list"
  page :: i32
  page_size :: i32
  total :: i32

definition tasks_list_detailed_Response_default :: tasks_list_detailed_Response where
  "tasks_list_detailed_Response_default = \<lparr>
     tasks_list_detailed_Response.tasks = [],
     tasks_list_detailed_Response.page = 0,
     tasks_list_detailed_Response.page_size = 100,
     tasks_list_detailed_Response.total = 0\<rparr>"

definition tasks_list_detailed_Response_to_v3 :: "tasks_list_detailed_Response \<Rightarrow> v3_tasks_ListTasksDetailedResponse" where
  "tasks_list_detailed_Response_to_v3 v = \<lparr>
     v3_tasks_ListTasksDetailedResponse.tasks = into_collect tasks_Raw_to_v3 (tasks_list_detailed_Response.tasks v),
     v3_tasks_ListTasksDetailedResponse.page = tasks_list_detailed_Response.page v,
     v3_tasks_ListTasksDetailedResponse.page_size = tasks_list_detailed_Response.page_size v,
     v3_tasks_ListTasksDetailedResponse.total = tasks_list_detailed_Response.total v\<rparr>"

definition tasks_list_detailed_Response_of_v3 :: "v3_tasks_ListTasksDetailedResponse \<Rightarrow> tasks_list_detailed_Response" where
  "tasks_list_detailed_Response_of_v3 v = \<lparr>
     tasks_list_detailed_Response.tasks = into_collect tasks_Raw_of_v3 (v3_tasks_ListTasksDetailedResponse.tasks v),
     tasks_list_detailed_Response.page = v3_tasks_ListTasksDetailedResponse.page v,
     tasks_list_detailed_Response.page_size = v3_tasks_ListTasksDetailedResponse.page_size v,
     tasks_list_detailed_Response.total = v3_tasks_ListTasksDetailedResponse.total v\<rparr>"

interpretation tasks_list_detailed_Response_codec: wire_codec tasks_list_detailed_Response_to_v3 tasks_list_detailed_Response_of_v3
  by unfold_locales (simp add: tasks_list_detailed_Response_to_v3_def tasks_list_detailed_Response_of_v3_def)

record v3_tasks_CountTasksByStatusRequest =
  filters :: "v3_tasks_Filters option"

record v3_tasks_CountTasksByStatusResponse =
  status :: "v3_StatusCount list"

record tasks_count_status_Request =
  filters :: tasks_filter_Or

definition tasks_count_status_Request_default :: tasks_count_status_Request where
  "tasks_count_status_Request_default = \<lparr>
     tasks_count_status_Request.filters = tasks_filter_Or_default\<rparr>"

definition tasks_count_status_Request_to_v3 :: "tasks_count_status_Request \<Rightarrow> v3_tasks_CountTasksByStatusRequest" where
  "tasks_count_status_Request_to_v3 v = \<lparr>
     v3_tasks_CountTasksByStatusRequest.filters = Some (tasks_filter_Or_to_v3 (tasks_count_status_Request.filters v))\<rparr>"

definition tasks_count_status_Request_of_v3 :: "v3_tasks_CountTasksByStatusRequest \<Rightarrow> tasks_count_status_Request" where
  "tasks_count_status_Request_of_v3 v = \<lparr>
     tasks_count_status_Request.filters = map_or_default tasks_filter_Or_default tasks_filter_Or_of_v3 (v3_tasks_CountTasksByStatusRequest.filters v)\<rparr>"

interpretation tasks_count_status_Request_codec: wire_codec tasks_count_status_Request_to_v3 tasks_count_status_Request_of_v3
  by unfold_locales (simp add: tasks_count_status_Request_to_v3_def tasks_count_status_Request_of_v3_def)

record tasks_count_status_Response =
  status :: "StatusCount list"

definition tasks_count_status_Response_default :: tasks_count_status_Response where
  "tasks_count_status_Response_default = \<lparr>
     tasks_count_status_Response.status = []\<rparr>"

definition tasks_count_status_Response_to_v3 :: "tasks_count_status_Response \<Rightarrow> v3_tasks_CountTasksByStatusResponse" where
  "tasks_count_status_Response_to_v3 v = \<lparr>
     v3_tasks_CountTasksByStatusResponse.status = into_collect StatusCount_to_v3 (tasks_count_status_Response.status v)\<rparr>"

definition tasks_count_status_Response_of_v3 :: "v3_tasks_CountTasksByStatusResponse \<Rightarrow> tasks_count_status_Response" where
  "tasks_count_status_Response_of_v3 v = \<lparr>
     tasks_count_status_Response.status = into_collect StatusCount_of_v3 (v3_tasks_CountTasksByStatusResponse.status v)\<rparr>"

interpretation tasks_count_status_Response_codec: wire_codec tasks_count_status_Response_to_v3 tasks_count_status_Response_of_v3
  by unfold_locales (simp add: tasks_count_status_Response_to_v3_def tasks_count_status_Response_of_v3_def)

record v3_tasks_GetResultIdsRequest =
  task_id :: "string list"

record v3_tasks_get_result_ids_response_MapTaskResult =
  task_id :: string
  result_ids :: "string list"

record v3_tasks_GetResultIdsResponse =
  task_results :: "v3_tasks_get_result_ids_response_MapTaskResult list"

record tasks_get_result_ids_Request =
  task_ids :: "string list"

definition tasks_get_result_ids_Request_default :: tasks_get_result_ids_Request where
  "tasks_get_result_ids_Request_default = \<lparr>
     tasks_get_result_ids_Request.task_ids = []\<rparr>"

definition tasks_get_result_ids_Request_to_v3 :: "tasks_get_result_ids_Request \<Rightarrow> v3_tasks_GetResultIdsRequest" where
  "tasks_get_result_ids_Request_to_v3 v = \<lparr>
     v3_tasks_GetResultIdsRequest.task_id = into_collect (\<lambda>x. x) (tasks_get_result_ids_Request.task_ids v)\<rparr>"

definition tasks_get_result_ids_Request_of_v3 :: "v3_tasks_GetResultIdsRequest \<Rightarrow> tasks_get_result_ids_Request" where
  "tasks_get_result_ids_Request_of_v3 v = \<lparr>
     tasks_get_result_ids_Request.task_ids = into_collect (\<lambda>x. x) (v3_tasks_GetResultIdsRequest.task_id v)\<rparr>"

interpretation tasks_get_result_ids_Request_codec: wire_codec tasks_get_result_ids_Request_to_v3 tasks_get_result_ids_Request_of_v3
  by unfold_locales (simp add: tasks_get_result_ids_Request_to_v3_def tasks_get_result_ids_Request_of_v3_def)

record tasks_get_result_ids_Response =
  task_results :: "(string, string list) fmap"

definition tasks_get_result_ids_Response_default :: tasks_get_result_ids_Response where
  "tasks_get_result_ids_Response_default = \<lparr>
     tasks_get_result_ids_Response.task_results = fmempty\<rparr>"

definition tasks_get_result_ids_Response_to_v3 ::
  "((string, string list) fmap \<Rightarrow> (string \<times> string list) list) \<Rightarrow> tasks_get_result_ids_Response
   \<Rightarrow> v3_tasks_GetResultIdsResponse" where
  "tasks_get_result_ids_Response_to_v3 it v = \<lparr>
     v3_tasks_GetResultIdsResponse.task_results = map (\<lambda>(t, rs).
       \<lparr>v3_tasks_get_result_ids_response_MapTaskResult.task_id = t,
        v3_tasks_get_result_ids_response_MapTaskResult.result_ids = rs\<rparr>)
       (it (tasks_get_result_ids_Response.task_results v))\<rparr>"

definition tasks_get_result_ids_Response_of_v3 ::
  "v3_tasks_GetResultIdsResponse \<Rightarrow> tasks_get_result_ids_Response" where
  "tasks_get_result_ids_Response_of_v3 v = \<lparr>
     tasks_get_result_ids_Response.task_results = hashmap_collect (map (\<lambda>p.
       (v3_tasks_get_result_ids_response_MapTaskResult.task_id p,
        v3_tasks_get_result_ids_response_MapTaskResult.result_ids p))
       (v3_tasks_GetResultIdsResponse.task_results v))\<rparr>"

lemma tasks_get_result_ids_Response_roundtrip:
  "iterates it \<Longrightarrow>
   tasks_get_result_ids_Response_of_v3 (tasks_get_result_ids_Response_to_v3 it x) = x"
  unfolding tasks_get_result_ids_Response_of_v3_def tasks_get_result_ids_Response_to_v3_def
    v3_tasks_GetResultIdsResponse.select_convs
  by (subst hashmap_entries_roundtrip) simp_all

section \<open>Submission\<close>

record v3_tasks_submit_tasks_request_TaskCreation =
  expected_output_keys :: "string list"
  data_dependencies :: "string list"
  payload_id :: string
  task_options :: "v3_TaskOptions option"

record v3_tasks_SubmitTasksRequest =
  session_id :: string
  task_options :: "v3_TaskOptions option"
  task_creations :: "v3_tasks_submit_tasks_request_TaskCreation list"

record v3_tasks_submit_tasks_response_TaskInfo =
  task_id :: string
  expected_output_ids :: "string list"
  data_dependencies :: "string list"
  payload_id :: string

record v3_tasks_SubmitTasksResponse =
  task_infos :: "v3_tasks_submit_tasks_response_TaskInfo list"

record tasks_submit_RequestItem =
  expected_output_keys :: "string list"
  data_dependencies :: "string list"
  payload_id :: string
  task_options :: "TaskOptions option"

definition tasks_submit_RequestItem_default :: tasks_submit_RequestItem where
  "tasks_submit_RequestItem_default = \<lparr>
     tasks_submit_RequestItem.expected_output_keys = [],
     tasks_submit_RequestItem.data_dependencies = [],
     tasks_submit_RequestItem.payload_id = '''',
     tasks_submit_RequestItem.task_options = None\<rparr>"

definition tasks_submit_RequestItem_to_v3 :: "tasks_submit_RequestItem \<Rightarrow> v3_tasks_submit_tasks_request_TaskCreation" where
  "tasks_submit_RequestItem_to_v3 v = \<lparr>
     v3_tasks_submit_tasks_request_TaskCreation.expected_output_keys = tasks_submit_RequestItem.expected_output_keys v,
     v3_tasks_submit_tasks_request_TaskCreation.data_dependencies = tasks_submit_RequestItem.data_dependencies v,
     v3_tasks_submit_tasks_request_TaskCreation.payload_id = tasks_submit_RequestItem.payload_id v,
     v3_tasks_submit_tasks_request_TaskCreation.task_options = map_option TaskOptions_to_v3 (tasks_submit_RequestItem.task_options v)\<rparr>"

definition tasks_submit_RequestItem_of_v3 :: "v3_tasks_submit_tasks_request_TaskCreation \<Rightarrow> tasks_submit_RequestItem" where
  "tasks_submit_RequestItem_of_v3 v = \<lparr>
     tasks_submit_RequestItem.expected_output_keys = v3_tasks_submit_tasks_request_TaskCreation.expected_output_keys v,
     tasks_submit_RequestItem.data_dependencies = v3_tasks_submit_tasks_request_TaskCreation.data_dependencies v,
     tasks_submit_RequestItem.payload_id = v3_tasks_submit_tasks_request_TaskCreation.payload_id v,
     tasks_submit_RequestItem.task_options = map_option TaskOptions_of_v3 (v3_tasks_submit_tasks_request_TaskCreation.task_options v)\<rparr>"

interpretation tasks_submit_RequestItem_codec: wire_codec tasks_submit_RequestItem_to_v3 tasks_submit_RequestItem_of_v3
  by unfold_locales (simp add: tasks_submit_RequestItem_to_v3_def tasks_submit_RequestItem_of_v3_def)

record tasks_submit_Request =
  session_id :: string
  task_options :: "TaskOptions option"
  items :: "tasks_submit_RequestItem list"

definition tasks_submit_Request_default :: tasks_submit_Request where
  "tasks_submit_Request_default = \<lparr>
     tasks_submit_Request.session_id = '''',
     tasks_submit_Request.task_options = None,
     tasks_submit_Request.items = []\<rparr>"

definition tasks_submit_Request_to_v3 :: "tasks_submit_Request \<Rightarrow> v3_tasks_SubmitTasksRequest" where
  "tasks_submit_Request_to_v3 v = \<lparr>
     v3_tasks_SubmitTasksRequest.session_id = tasks_submit_Request.session_id v,
     v3_tasks_SubmitTasksRequest.task_options = map_option TaskOptions_to_v3 (tasks_submit_Request.task_options v),
     v3_tasks_SubmitTasksRequest.task_creations = into_collect tasks_submit_RequestItem_to_v3 (tasks_submit_Request.items v)\<rparr>"

definition tasks_submit_Request_of_v3 :: "v3_tasks_SubmitTasksRequest \<Rightarrow> tasks_submit_Request" where
  "tasks_submit_Request_of_v3 v = \<lparr>
     tasks_submit_Request.session_id = v3_tasks_SubmitTasksRequest.session_id v,
     tasks_submit_Request.task_options = map_option TaskOptions_of_v3 (v3_tasks_SubmitTasksRequest.task_options v),
     tasks_submit_Request.items = into_collect tasks_submit_RequestItem_of_v3 (v3_tasks_SubmitTasksRequest.task_creations v)\<rparr>"

interpretation tasks_submit_Request_codec: wire_codec tasks_submit_Request_to_v3 tasks_submit_Request_of_v3
  by unfold_locales (simp add: tasks_submit_Request_to_v3_def tasks_submit_Request_of_v3_def)

record tasks_submit_ResponseItem =
  task_id :: string
  expected_output_ids :: "string list"
  data_dependencies :: "string list"
  payload_id :: string

definition tasks_submit_ResponseItem_default :: tasks_submit_ResponseItem where
  "tasks_submit_ResponseItem_default = \<lparr>
     tasks_submit_ResponseItem.task_id = '''',
     tasks_submit_ResponseItem.expected_output_ids = [],
     tasks_submit_ResponseItem.data_dependencies = [],
     tasks_submit_ResponseItem.payload_id = ''''\<rparr>"

definition tasks_submit_ResponseItem_to_v3 :: "tasks_submit_ResponseItem \<Rightarrow> v3_tasks_submit_tasks_response_TaskInfo" where
  "tasks_submit_ResponseItem_to_v3 v = \<lparr>
     v3_tasks_submit_tasks_response_TaskInfo.task_id = tasks_submit_ResponseItem.task_id v,
     v3_tasks_submit_tasks_response_TaskInfo.expected_output_ids = tasks_submit_ResponseItem.expected_output_ids v,
     v3_tasks_submit_tasks_response_TaskInfo.data_dependencies = tasks_submit_ResponseItem.data_dependencies v,
     v3_tasks_submit_tasks_response_TaskInfo.payload_id = tasks_submit_ResponseItem.payload_id v\<rparr>"

definition tasks_submit_ResponseItem_of_v3 :: "v3_tasks_submit_tasks_response_TaskInfo \<Rightarrow> tasks_submit_ResponseItem" where
  "tasks_submit_ResponseItem_of_v3 v = \<lparr>
     tasks_submit_ResponseItem.task_id = v3_tasks_submit_tasks_response_TaskInfo.task_id v,
     tasks_submit_ResponseItem.expected_output_ids = v3_tasks_submit_tasks_response_TaskInfo.expected_output_ids v,
     tasks_submit_ResponseItem.data_dependencies = v3_tasks_submit_tasks_response_TaskInfo.data_dependencies v,
     tasks_submit_ResponseItem.payload_id = v3_tasks_submit_tasks_response_TaskInfo.payload_id v\<rparr>"

interpretation tasks_submit_ResponseItem_codec: wire_codec tasks_submit_ResponseItem_to_v3 tasks_submit_ResponseItem_of_v3
  by unfold_locales (simp add: tasks_submit_ResponseItem_to_v3_def tasks_submit_ResponseItem_of_v3_def)

record tasks_submit_Response =
  items :: "tasks_submit_ResponseItem list"

definition tasks_submit_Response_default :: tasks_submit_Response where
  "tasks_submit_Response_default = \<lparr>
     tasks_submit_Response.items = []\<rparr>"

definition tasks_submit_Response_to_v3 :: "tasks_submit_Response \<Rightarrow> v3_tasks_SubmitTasksResponse" where
  "tasks_submit_Response_to_v3 v = \<lparr>
     v3_tasks_SubmitTasksResponse.task_infos = into_collect tasks_submit_ResponseItem_to_v3 (tasks_submit_Response.items v)\<rparr>"

definition tasks_submit_Response_of_v3 :: "v3_tasks_SubmitTasksResponse \<Rightarrow> tasks_submit_Response" where
  "tasks_submit_Response_of_v3 v = \<lparr>
     tasks_submit_Response.items = into_collect tasks_submit_ResponseItem_of_v3 (v3_tasks_SubmitTasksResponse.task_infos v)\<rparr>"

interpretation tasks_submit_Response_codec: wire_codec tasks_submit_Response_to_v3 tasks_submit_Response_of_v3
  by unfold_locales (simp add: tasks_submit_Response_to_v3_def tasks_submit_Response_of_v3_def)

end
