(* ===== verification/Results.thy ===== *)
theory Results
  imports Filters
begin

text \<open>
  Objects of the results service (\<^verbatim>\<open>objects/results\<close>). Three responses and one request carry a hash
  map that the wire represents as a repeated message: their conversions take the iteration order as
  a parameter.
\<close>

section \<open>Fields\<close>

datatype results_Field =
    Unspecified
  | SessionId
  | Name
  | OwnerTaskId
  | Status
  | CreatedAt
  | CompletedAt
  | ResultId
  | Size
  | CreatedBy
  | OpaqueId
  | ManualDeletion

primrec results_Field_as_i32 :: "results_Field \<Rightarrow> i32" where
    "results_Field_as_i32 results_Field.Unspecified = 0"
  | "results_Field_as_i32 results_Field.SessionId = 1"
  | "results_Field_as_i32 results_Field.Name = 2"
  | "results_Field_as_i32 results_Field.OwnerTaskId = 3"
  | "results_Field_as_i32 results_Field.Status = 4"
  | "results_Field_as_i32 results_Field.CreatedAt = 5"
  | "results_Field_as_i32 results_Field.CompletedAt = 6"
  | "results_Field_as_i32 results_Field.ResultId = 7"
  | "results_Field_as_i32 results_Field.Size = 8"
  | "results_Field_as_i32 results_Field.CreatedBy = 9"
  | "results_Field_as_i32 results_Field.OpaqueId = 10"
  | "results_Field_as_i32 results_Field.ManualDeletion = 11"

definition results_Field_default :: results_Field where
  "results_Field_default = results_Field.ResultId"

definition results_Field_of_i32 :: "i32 \<Rightarrow> results_Field" where
  "results_Field_of_i32 i =
    (if i = 0 then results_Field.Unspecified
     else if i = 1 then results_Field.SessionId
     else if i = 2 then results_Field.Name
     else if i = 3 then results_Field.OwnerTaskId
     else if i = 4 then results_Field.Status
     else if i = 5 then results_Field.CreatedAt
     else if i = 6 then results_Field.CompletedAt
     else if i = 7 then results_Field.ResultId
     else if i = 8 then results_Field.Size
     else if i = 9 then results_Field.CreatedBy
     else if i = 10 then results_Field.OpaqueId
     else if i = 11 then results_Field.ManualDeletion
     else results_Field.Unspecified)"

interpretation results_Field_enum: proto_enum results_Field_as_i32 results_Field_of_i32 results_Field.Unspecified
proof unfold_locales
  fix e
  show "results_Field_of_i32 (results_Field_as_i32 e) = e" by (cases e) (simp_all add: results_Field_of_i32_def results_Field_default_def)
next
  fix i
  assume "results_Field_of_i32 i \<noteq> results_Field.Unspecified"
  then show "results_Field_as_i32 (results_Field_of_i32 i) = i"
    by (simp add: results_Field_of_i32_def results_Field_default_def split: if_splits)
qed

text \<open>The numbers are those of the schema.\<close>

datatype v3_results_ResultRawEnumField =
    Unspecified
  | SessionId
  | Name
  | OwnerTaskId
  | Status
  | CreatedAt
  | CompletedAt
  | ResultId
  | Size
  | CreatedBy
  | OpaqueId
  | ManualDeletion

primrec v3_results_ResultRawEnumField_as_i32 :: "v3_results_ResultRawEnumField \<Rightarrow> i32" where
    "v3_results_ResultRawEnumField_as_i32 v3_results_ResultRawEnumField.Unspecified = 0"
  | "v3_results_ResultRawEnumField_as_i32 v3_results_ResultRawEnumField.SessionId = 1"
  | "v3_results_ResultRawEnumField_as_i32 v3_results_ResultRawEnumField.Name = 2"
  | "v3_results_ResultRawEnumField_as_i32 v3_results_ResultRawEnumField.OwnerTaskId = 3"
  | "v3_results_ResultRawEnumField_as_i32 v3_results_ResultRawEnumField.Status = 4"
  | "v3_results_ResultRawEnumField_as_i32 v3_results_ResultRawEnumField.CreatedAt = 5"
  | "v3_results_ResultRawEnumField_as_i32 v3_results_ResultRawEnumField.CompletedAt = 6"
  | "v3_results_ResultRawEnumField_as_i32 v3_results_ResultRawEnumField.ResultId = 7"
  | "v3_results_ResultRawEnumField_as_i32 v3_results_ResultRawEnumField.Size = 8"
  | "v3_results_ResultRawEnumField_as_i32 v3_results_ResultRawEnumField.CreatedBy = 9"
  | "v3_results_ResultRawEnumField_as_i32 v3_results_ResultRawEnumField.OpaqueId = 10"
  | "v3_results_ResultRawEnumField_as_i32 v3_results_ResultRawEnumField.ManualDeletion = 11"

primrec results_Field_schema :: "results_Field \<Rightarrow> v3_results_ResultRawEnumField" where
    "results_Field_schema results_Field.Unspecified = v3_results_ResultRawEnumField.Unspecified"
  | "results_Field_schema results_Field.SessionId = v3_results_ResultRawEnumField.SessionId"
  | "results_Field_schema results_Field.Name = v3_results_ResultRawEnumField.Name"
  | "results_Field_schema results_Field.OwnerTaskId = v3_results_ResultRawEnumField.OwnerTaskId"
  | "results_Field_schema results_Field.Status = v3_results_ResultRawEnumField.Status"
  | "results_Field_schema results_Field.CreatedAt = v3_results_ResultRawEnumField.CreatedAt"
  | "results_Field_schema results_Field.CompletedAt = v3_results_ResultRawEnumField.CompletedAt"
  | "results_Field_schema results_Field.ResultId = v3_results_ResultRawEnumField.ResultId"
  | "results_Field_schema results_Field.Size = v3_results_ResultRawEnumField.Size"
  | "results_Field_schema results_Field.CreatedBy = v3_results_ResultRawEnumField.CreatedBy"
  | "results_Field_schema results_Field.OpaqueId = v3_results_ResultRawEnumField.OpaqueId"
  | "results_Field_schema results_Field.ManualDeletion = v3_results_ResultRawEnumField.ManualDeletion"

interpretation results_Field_numbers: schema_enum results_Field_as_i32 results_Field_of_i32 results_Field.Unspecified
    results_Field_schema v3_results_ResultRawEnumField_as_i32
proof unfold_locales
  fix e
  show "v3_results_ResultRawEnumField_as_i32 (results_Field_schema e) = results_Field_as_i32 e" by (cases e) simp_all
next
  have "w \<in> range results_Field_schema" for w
    by (cases w) (metis rangeI results_Field_schema.simps)+
  then show "surj results_Field_schema" by blast
qed

record v3_results_ResultRawField =
  field :: i32

datatype v3_results_result_field_Field =
    ResultRawField v3_results_ResultRawField

record v3_results_ResultField =
  field :: "v3_results_result_field_Field option"

definition results_Field_to_v3 :: "results_Field \<Rightarrow> v3_results_ResultField" where
  "results_Field_to_v3 v =
     \<lparr>v3_results_ResultField.field =
        Some (v3_results_result_field_Field.ResultRawField
          \<lparr>v3_results_ResultRawField.field = results_Field_as_i32 v\<rparr>)\<rparr>"

definition results_Field_of_v3 :: "v3_results_ResultField \<Rightarrow> results_Field" where
  "results_Field_of_v3 v = (case v3_results_ResultField.field v of
       Some (v3_results_result_field_Field.ResultRawField f) \<Rightarrow>
         results_Field_of_i32 (v3_results_ResultRawField.field f)
     | None \<Rightarrow> results_Field.Unspecified)"

interpretation results_Field_codec: wire_codec results_Field_to_v3 results_Field_of_v3
  by unfold_locales (simp add: results_Field_to_v3_def results_Field_of_v3_def)

section \<open>Filters and sort\<close>

record v3_results_FilterStatus =
  "value" :: i32
  operator :: i32

datatype v3_results_filter_field_ValueCondition =
    FilterString v3_FilterString
  | FilterDate v3_FilterDate
  | FilterArray v3_FilterArray
  | FilterStatus v3_results_FilterStatus
  | FilterNumber v3_FilterNumber

record v3_results_FilterField =
  field :: "v3_results_ResultField option"
  value_condition :: "v3_results_filter_field_ValueCondition option"

record v3_results_FiltersAnd =
  and_fields :: "v3_results_FilterField list"

record v3_results_Filters =
  or_ands :: "v3_results_FiltersAnd list"

type_synonym results_filter_Status = "ResultStatus FilterStatus"

definition results_filter_Status_to_v3 :: "results_filter_Status \<Rightarrow> v3_results_FilterStatus" where
  "results_filter_Status_to_v3 v = \<lparr>
     v3_results_FilterStatus.value = ResultStatus_as_i32 (FilterStatus.value v),
     v3_results_FilterStatus.operator = FilterStatusOperator_as_i32 (FilterStatus.operator v)\<rparr>"

definition results_filter_Status_of_v3 :: "v3_results_FilterStatus \<Rightarrow> results_filter_Status" where
  "results_filter_Status_of_v3 v = \<lparr>
     FilterStatus.value = ResultStatus_of_i32 (v3_results_FilterStatus.value v),
     FilterStatus.operator = FilterStatusOperator_of_i32 (v3_results_FilterStatus.operator v)\<rparr>"

interpretation results_filter_Status_codec: wire_codec results_filter_Status_to_v3 results_filter_Status_of_v3
  by unfold_locales (simp add: results_filter_Status_to_v3_def results_filter_Status_of_v3_def)

datatype results_filter_Condition =
    String FilterString
  | Date FilterDate
  | Array FilterArray
  | Status results_filter_Status
  | Number FilterNumber

definition results_filter_Condition_default :: results_filter_Condition where
  "results_filter_Condition_default = results_filter_Condition.String FilterString_default"

primrec results_filter_Condition_to_v3 :: "results_filter_Condition \<Rightarrow> v3_results_filter_field_ValueCondition" where
    "results_filter_Condition_to_v3 (results_filter_Condition.String cond) = v3_results_filter_field_ValueCondition.FilterString (FilterString_to_v3 cond)"
  | "results_filter_Condition_to_v3 (results_filter_Condition.Date cond) = v3_results_filter_field_ValueCondition.FilterDate (FilterDate_to_v3 cond)"
  | "results_filter_Condition_to_v3 (results_filter_Condition.Array cond) = v3_results_filter_field_ValueCondition.FilterArray (FilterArray_to_v3 cond)"
  | "results_filter_Condition_to_v3 (results_filter_Condition.Status cond) = v3_results_filter_field_ValueCondition.FilterStatus (results_filter_Status_to_v3 cond)"
  | "results_filter_Condition_to_v3 (results_filter_Condition.Number cond) = v3_results_filter_field_ValueCondition.FilterNumber (FilterNumber_to_v3 cond)"

primrec results_filter_Condition_of_v3 :: "v3_results_filter_field_ValueCondition \<Rightarrow> results_filter_Condition" where
    "results_filter_Condition_of_v3 (v3_results_filter_field_ValueCondition.FilterString cond) = results_filter_Condition.String (FilterString_of_v3 cond)"
  | "results_filter_Condition_of_v3 (v3_results_filter_field_ValueCondition.FilterDate cond) = results_filter_Condition.Date (FilterDate_of_v3 cond)"
  | "results_filter_Condition_of_v3 (v3_results_filter_field_ValueCondition.FilterArray cond) = results_filter_Condition.Array (FilterArray_of_v3 cond)"
  | "results_filter_Condition_of_v3 (v3_results_filter_field_ValueCondition.FilterStatus cond) = results_filter_Condition.Status (results_filter_Status_of_v3 cond)"
  | "results_filter_Condition_of_v3 (v3_results_filter_field_ValueCondition.FilterNumber cond) = results_filter_Condition.Number (FilterNumber_of_v3 cond)"

interpretation results_filter_Condition_codec: wire_codec results_filter_Condition_to_v3 results_filter_Condition_of_v3
proof unfold_locales
  fix c
  show "results_filter_Condition_of_v3 (results_filter_Condition_to_v3 c) = c" by (cases c) simp_all
qed

record results_filter_Field =
  field :: results_Field
  condition :: results_filter_Condition

definition results_filter_Field_default :: results_filter_Field where
  "results_filter_Field_default = \<lparr>
     results_filter_Field.field = results_Field_default,
     results_filter_Field.condition = results_filter_Condition_default\<rparr>"

definition results_filter_Field_to_v3 :: "results_filter_Field \<Rightarrow> v3_results_FilterField" where
  "results_filter_Field_to_v3 v = \<lparr>
     v3_results_FilterField.field = Some (results_Field_to_v3 (results_filter_Field.field v)),
     v3_results_FilterField.value_condition = Some (results_filter_Condition_to_v3 (results_filter_Field.condition v))\<rparr>"

definition results_filter_Field_of_v3 :: "v3_results_FilterField \<Rightarrow> results_filter_Field" where
  "results_filter_Field_of_v3 v = \<lparr>
     results_filter_Field.field = map_or_default results_Field_default results_Field_of_v3 (v3_results_FilterField.field v),
     results_filter_Field.condition = map_or_default results_filter_Condition_default results_filter_Condition_of_v3 (v3_results_FilterField.value_condition v)\<rparr>"

interpretation results_filter_Field_codec: wire_codec results_filter_Field_to_v3 results_filter_Field_of_v3
  by unfold_locales (simp add: results_filter_Field_to_v3_def results_filter_Field_of_v3_def)

record results_filter_And =
  and_fields :: "results_filter_Field list"

definition results_filter_And_default :: results_filter_And where
  "results_filter_And_default = \<lparr>
     results_filter_And.and_fields = []\<rparr>"

definition results_filter_And_to_v3 :: "results_filter_And \<Rightarrow> v3_results_FiltersAnd" where
  "results_filter_And_to_v3 v = \<lparr>
     v3_results_FiltersAnd.and_fields = into_collect results_filter_Field_to_v3 (results_filter_And.and_fields v)\<rparr>"

definition results_filter_And_of_v3 :: "v3_results_FiltersAnd \<Rightarrow> results_filter_And" where
  "results_filter_And_of_v3 v = \<lparr>
     results_filter_And.and_fields = into_collect results_filter_Field_of_v3 (v3_results_FiltersAnd.and_fields v)\<rparr>"

interpretation results_filter_And_codec: wire_codec results_filter_And_to_v3 results_filter_And_of_v3
  by unfold_locales (simp add: results_filter_And_to_v3_def results_filter_And_of_v3_def)

record results_filter_Or =
  or_ands :: "results_filter_And list"

definition results_filter_Or_default :: results_filter_Or where
  "results_filter_Or_default = \<lparr>
     results_filter_Or.or_ands = []\<rparr>"

definition results_filter_Or_to_v3 :: "results_filter_Or \<Rightarrow> v3_results_Filters" where
  "results_filter_Or_to_v3 v = \<lparr>
     v3_results_Filters.or_ands = into_collect results_filter_And_to_v3 (results_filter_Or.or_ands v)\<rparr>"

definition results_filter_Or_of_v3 :: "v3_results_Filters \<Rightarrow> results_filter_Or" where
  "results_filter_Or_of_v3 v = \<lparr>
     results_filter_Or.or_ands = into_collect results_filter_And_of_v3 (v3_results_Filters.or_ands v)\<rparr>"

interpretation results_filter_Or_codec: wire_codec results_filter_Or_to_v3 results_filter_Or_of_v3
  by unfold_locales (simp add: results_filter_Or_to_v3_def results_filter_Or_of_v3_def)

text \<open>Both are wrappers of vectors: they collect from and iterate like their vector.\<close>

definition results_filter_And_from_iter :: "results_filter_Field list \<Rightarrow> results_filter_And" where
  "results_filter_And_from_iter xs = \<lparr>results_filter_And.and_fields = xs\<rparr>"

definition results_filter_And_into_iter :: "results_filter_And \<Rightarrow> results_filter_Field list" where
  "results_filter_And_into_iter v = results_filter_And.and_fields v"

interpretation results_filter_And_wrapper: vec_wrapper results_filter_And.and_fields results_filter_And.and_fields_update results_filter_And_from_iter
  by unfold_locales (simp_all add: results_filter_And_from_iter_def)

definition results_filter_Or_from_iter :: "results_filter_And list \<Rightarrow> results_filter_Or" where
  "results_filter_Or_from_iter xs = \<lparr>results_filter_Or.or_ands = xs\<rparr>"

definition results_filter_Or_into_iter :: "results_filter_Or \<Rightarrow> results_filter_And list" where
  "results_filter_Or_into_iter v = results_filter_Or.or_ands v"

interpretation results_filter_Or_wrapper: vec_wrapper results_filter_Or.or_ands results_filter_Or.or_ands_update results_filter_Or_from_iter
  by unfold_locales (simp_all add: results_filter_Or_from_iter_def)

text \<open>The lists of lists of conditions that the client methods accept.\<close>

definition results_filter_collect :: "results_filter_Field list list \<Rightarrow> results_filter_Or" where
  "results_filter_collect fss = results_filter_Or_from_iter (map (\<lambda>fs. results_filter_And_from_iter (map (\<lambda>f. f) fs)) fss)"

definition results_filter_lists :: "results_filter_Or \<Rightarrow> results_filter_Field list list" where
  "results_filter_lists v = map results_filter_And_into_iter (results_filter_Or_into_iter v)"

lemmas results_filter_wrapper_defs = results_filter_And_from_iter_def results_filter_And_into_iter_def results_filter_Or_from_iter_def results_filter_Or_into_iter_def
  results_filter_collect_def results_filter_lists_def

lemma results_filter_collect_lists [simp]: "results_filter_collect (results_filter_lists v) = v"
  by (cases v) (auto simp: results_filter_wrapper_defs intro!: map_idI)

record v3_results_list_results_request_Sort =
  field :: "v3_results_ResultField option"
  direction :: i32

record v3_results_ListResultsRequest =
  page :: i32
  page_size :: i32
  filters :: "v3_results_Filters option"
  sort :: "v3_results_list_results_request_Sort option"

record v3_results_ResultRaw =
  session_id :: string
  name :: string
  owner_task_id :: string
  status :: i32
  created_at :: "Timestamp option"
  completed_at :: "Timestamp option"
  result_id :: string
  size :: i64
  created_by :: string
  opaque_id :: "u8 list"
  manual_deletion :: bool

record v3_results_ListResultsResponse =
  results :: "v3_results_ResultRaw list"
  page :: i32
  page_size :: i32
  total :: i32

type_synonym results_Sort = "results_Field Sort"

definition results_Sort_default :: results_Sort where
  "results_Sort_default = Sort_default results_Field_default"

definition results_Sort_to_v3 :: "results_Sort \<Rightarrow> v3_results_list_results_request_Sort" where
  "results_Sort_to_v3 v = \<lparr>
     v3_results_list_results_request_Sort.field = Some (results_Field_to_v3 (Sort.field v)),
     v3_results_list_results_request_Sort.direction = SortDirection_as_i32 (Sort.direction v)\<rparr>"

definition results_Sort_of_v3 :: "v3_results_list_results_request_Sort \<Rightarrow> results_Sort" where
  "results_Sort_of_v3 v = \<lparr>
     Sort.field = map_or_default results_Field_default results_Field_of_v3 (v3_results_list_results_request_Sort.field v),
     Sort.direction = SortDirection_of_i32 (v3_results_list_results_request_Sort.direction v)\<rparr>"

interpretation results_Sort_codec: wire_codec results_Sort_to_v3 results_Sort_of_v3
  by unfold_locales (simp add: results_Sort_to_v3_def results_Sort_of_v3_def)

section \<open>Results\<close>

record results_Raw =
  session_id :: string
  name :: string
  owner_task_id :: string
  status :: ResultStatus
  created_at :: "Timestamp option"
  completed_at :: "Timestamp option"
  result_id :: string
  size :: i64
  created_by :: string
  opaque_id :: "u8 list"
  manual_deletion :: bool

definition results_Raw_default :: results_Raw where
  "results_Raw_default = \<lparr>
     results_Raw.session_id = '''',
     results_Raw.name = '''',
     results_Raw.owner_task_id = '''',
     results_Raw.status = ResultStatus_default,
     results_Raw.created_at = None,
     results_Raw.completed_at = None,
     results_Raw.result_id = '''',
     results_Raw.size = 0,
     results_Raw.created_by = '''',
     results_Raw.opaque_id = [],
     results_Raw.manual_deletion = False\<rparr>"

definition results_Raw_to_v3 :: "results_Raw \<Rightarrow> v3_results_ResultRaw" where
  "results_Raw_to_v3 v = \<lparr>
     v3_results_ResultRaw.session_id = results_Raw.session_id v,
     v3_results_ResultRaw.name = results_Raw.name v,
     v3_results_ResultRaw.owner_task_id = results_Raw.owner_task_id v,
     v3_results_ResultRaw.status = ResultStatus_as_i32 (results_Raw.status v),
     v3_results_ResultRaw.created_at = results_Raw.created_at v,
     v3_results_ResultRaw.completed_at = results_Raw.completed_at v,
     v3_results_ResultRaw.result_id = results_Raw.result_id v,
     v3_results_ResultRaw.size = results_Raw.size v,
     v3_results_ResultRaw.created_by = results_Raw.created_by v,
     v3_results_ResultRaw.opaque_id = results_Raw.opaque_id v,
     v3_results_ResultRaw.manual_deletion = results_Raw.manual_deletion v\<rparr>"

definition results_Raw_of_v3 :: "v3_results_ResultRaw \<Rightarrow> results_Raw" where
  "results_Raw_of_v3 v = \<lparr>
     results_Raw.session_id = v3_results_ResultRaw.session_id v,
     results_Raw.name = v3_results_ResultRaw.name v,
     results_Raw.owner_task_id = v3_results_ResultRaw.owner_task_id v,
     results_Raw.status = ResultStatus_of_i32 (v3_results_ResultRaw.status v),
     results_Raw.created_at = v3_results_ResultRaw.created_at v,
     results_Raw.completed_at = v3_results_ResultRaw.completed_at v,
     results_Raw.result_id = v3_results_ResultRaw.result_id v,
     results_Raw.size = v3_results_ResultRaw.size v,
     results_Raw.created_by = v3_results_ResultRaw.created_by v,
     results_Raw.opaque_id = v3_results_ResultRaw.opaque_id v,
     results_Raw.manual_deletion = v3_results_ResultRaw.manual_deletion v\<rparr>"

interpretation results_Raw_codec: wire_codec results_Raw_to_v3 results_Raw_of_v3
  by unfold_locales (simp add: results_Raw_to_v3_def results_Raw_of_v3_def)

record v3_results_GetResultRequest =
  result_id :: string

record v3_results_GetResultResponse =
  result :: "v3_results_ResultRaw option"

record results_get_Request =
  id :: string

definition results_get_Request_default :: results_get_Request where
  "results_get_Request_default = \<lparr>
     results_get_Request.id = ''''\<rparr>"

definition results_get_Request_to_v3 :: "results_get_Request \<Rightarrow> v3_results_GetResultRequest" where
  "results_get_Request_to_v3 v = \<lparr>
     v3_results_GetResultRequest.result_id = results_get_Request.id v\<rparr>"

definition results_get_Request_of_v3 :: "v3_results_GetResultRequest \<Rightarrow> results_get_Request" where
  "results_get_Request_of_v3 v = \<lparr>
     results_get_Request.id = v3_results_GetResultRequest.result_id v\<rparr>"

interpretation results_get_Request_codec: wire_codec results_get_Request_to_v3 results_get_Request_of_v3
  by unfold_locales (simp add: results_get_Request_to_v3_def results_get_Request_of_v3_def)

record results_get_Response =
  result :: results_Raw

definition results_get_Response_default :: results_get_Response where
  "results_get_Response_default = \<lparr>
     results_get_Response.result = results_Raw_default\<rparr>"

definition results_get_Response_to_v3 :: "results_get_Response \<Rightarrow> v3_results_GetResultResponse" where
  "results_get_Response_to_v3 v = \<lparr>
     v3_results_GetResultResponse.result = Some (results_Raw_to_v3 (results_get_Response.result v))\<rparr>"

definition results_get_Response_of_v3 :: "v3_results_GetResultResponse \<Rightarrow> results_get_Response" where
  "results_get_Response_of_v3 v = \<lparr>
     results_get_Response.result = map_or_default results_Raw_default results_Raw_of_v3 (v3_results_GetResultResponse.result v)\<rparr>"

interpretation results_get_Response_codec: wire_codec results_get_Response_to_v3 results_get_Response_of_v3
  by unfold_locales (simp add: results_get_Response_to_v3_def results_get_Response_of_v3_def)

record results_list_Request =
  page :: i32
  page_size :: i32
  filters :: results_filter_Or
  sort :: results_Sort

definition results_list_Request_default :: results_list_Request where
  "results_list_Request_default = \<lparr>
     results_list_Request.page = 0,
     results_list_Request.page_size = 100,
     results_list_Request.filters = results_filter_Or_default,
     results_list_Request.sort = results_Sort_default\<rparr>"

definition results_list_Request_to_v3 :: "results_list_Request \<Rightarrow> v3_results_ListResultsRequest" where
  "results_list_Request_to_v3 v = \<lparr>
     v3_results_ListResultsRequest.page = results_list_Request.page v,
     v3_results_ListResultsRequest.page_size = results_list_Request.page_size v,
     v3_results_ListResultsRequest.filters = Some (results_filter_Or_to_v3 (results_list_Request.filters v)),
     v3_results_ListResultsRequest.sort = Some (results_Sort_to_v3 (results_list_Request.sort v))\<rparr>"

definition results_list_Request_of_v3 :: "v3_results_ListResultsRequest \<Rightarrow> results_list_Request" where
  "results_list_Request_of_v3 v = \<lparr>
     results_list_Request.page = v3_results_ListResultsRequest.page v,
     results_list_Request.page_size = v3_results_ListResultsRequest.page_size v,
     results_list_Request.filters = map_or_default results_filter_Or_default results_filter_Or_of_v3 (v3_results_ListResultsRequest.filters v),
     results_list_Request.sort = map_or_default results_Sort_default results_Sort_of_v3 (v3_results_ListResultsRequest.sort v)\<rparr>"

interpretation results_list_Request_codec: wire_codec results_list_Request_to_v3 results_list_Request_of_v3
  by unfold_locales (simp add: results_list_Request_to_v3_def results_list_Request_of_v3_def)

record results_list_Response =
  results :: "results_Raw list"
  page :: i32
  page_size :: i32
  total :: i32

definition results_list_Response_default :: results_list_Response where
  "results_list_Response_default = \<lparr>
     results_list_Response.results = [],
     results_list_Response.page = 0,
     results_list_Response.page_size = 100,
     results_list_Response.total = 0\<rparr>"

definition results_list_Response_to_v3 :: "results_list_Response \<Rightarrow> v3_results_ListResultsResponse" where
  "results_list_Response_to_v3 v = \<lparr>
     v3_results_ListResultsResponse.results = into_collect results_Raw_to_v3 (results_list_Response.results v),
     v3_results_ListResultsResponse.page = results_list_Response.page v,
     v3_results_ListResultsResponse.page_size = results_list_Response.page_size v,
     v3_results_ListResultsResponse.total = results_list_Response.total v\<rparr>"

definition results_list_Response_of_v3 :: "v3_results_ListResultsResponse \<Rightarrow> results_list_Response" where
  "results_list_Response_of_v3 v = \<lparr>
     results_list_Response.results = into_collect results_Raw_of_v3 (v3_results_ListResultsResponse.results v),
     results_list_Response.page = v3_results_ListResultsResponse.page v,
     results_list_Response.page_size = v3_results_ListResultsResponse.page_size v,
     results_list_Response.total = v3_results_ListResultsResponse.total v\<rparr>"

interpretation results_list_Response_codec: wire_codec results_list_Response_to_v3 results_list_Response_of_v3
  by unfold_locales (simp add: results_list_Response_to_v3_def results_list_Response_of_v3_def)

section \<open>Creation\<close>

record v3_results_create_results_request_ResultCreate =
  name :: string
  data :: "u8 list"
  manual_deletion :: bool

record v3_results_CreateResultsRequest =
  results :: "v3_results_create_results_request_ResultCreate list"
  session_id :: string

record v3_results_CreateResultsResponse =
  results :: "v3_results_ResultRaw list"

record v3_results_create_results_meta_data_request_ResultCreate =
  name :: string
  manual_deletion :: bool

record v3_results_CreateResultsMetaDataRequest =
  results :: "v3_results_create_results_meta_data_request_ResultCreate list"
  session_id :: string

record v3_results_CreateResultsMetaDataResponse =
  results :: "v3_results_ResultRaw list"

record results_create_RequestItem =
  name :: string
  data :: "u8 list"
  manual_deletion :: bool

definition results_create_RequestItem_default :: results_create_RequestItem where
  "results_create_RequestItem_default = \<lparr>
     results_create_RequestItem.name = '''',
     results_create_RequestItem.data = [],
     results_create_RequestItem.manual_deletion = False\<rparr>"

definition results_create_RequestItem_from :: "string \<times> u8 list \<Rightarrow> results_create_RequestItem" where
  "results_create_RequestItem_from p = (case p of (n, d) \<Rightarrow>
     \<lparr>results_create_RequestItem.name = n,
      results_create_RequestItem.data = d,
      results_create_RequestItem.manual_deletion = False\<rparr>)"

definition results_create_RequestItem_to_v3 :: "results_create_RequestItem \<Rightarrow> v3_results_create_results_request_ResultCreate" where
  "results_create_RequestItem_to_v3 v = \<lparr>
     v3_results_create_results_request_ResultCreate.name = results_create_RequestItem.name v,
     v3_results_create_results_request_ResultCreate.data = results_create_RequestItem.data v,
     v3_results_create_results_request_ResultCreate.manual_deletion = results_create_RequestItem.manual_deletion v\<rparr>"

definition results_create_RequestItem_of_v3 :: "v3_results_create_results_request_ResultCreate \<Rightarrow> results_create_RequestItem" where
  "results_create_RequestItem_of_v3 v = \<lparr>
     results_create_RequestItem.name = v3_results_create_results_request_ResultCreate.name v,
     results_create_RequestItem.data = v3_results_create_results_request_ResultCreate.data v,
     results_create_RequestItem.manual_deletion = v3_results_create_results_request_ResultCreate.manual_deletion v\<rparr>"

interpretation results_create_RequestItem_codec: wire_codec results_create_RequestItem_to_v3 results_create_RequestItem_of_v3
  by unfold_locales (simp add: results_create_RequestItem_to_v3_def results_create_RequestItem_of_v3_def)

record results_create_Request =
  results :: "results_create_RequestItem list"
  session_id :: string

definition results_create_Request_default :: results_create_Request where
  "results_create_Request_default = \<lparr>
     results_create_Request.results = [],
     results_create_Request.session_id = ''''\<rparr>"

definition results_create_Request_to_v3 :: "results_create_Request \<Rightarrow> v3_results_CreateResultsRequest" where
  "results_create_Request_to_v3 v = \<lparr>
     v3_results_CreateResultsRequest.results = into_collect results_create_RequestItem_to_v3 (results_create_Request.results v),
     v3_results_CreateResultsRequest.session_id = results_create_Request.session_id v\<rparr>"

definition results_create_Request_of_v3 :: "v3_results_CreateResultsRequest \<Rightarrow> results_create_Request" where
  "results_create_Request_of_v3 v = \<lparr>
     results_create_Request.results = into_collect results_create_RequestItem_of_v3 (v3_results_CreateResultsRequest.results v),
     results_create_Request.session_id = v3_results_CreateResultsRequest.session_id v\<rparr>"

interpretation results_create_Request_codec: wire_codec results_create_Request_to_v3 results_create_Request_of_v3
  by unfold_locales (simp add: results_create_Request_to_v3_def results_create_Request_of_v3_def)

record results_create_Response =
  results :: "results_Raw list"

definition results_create_Response_default :: results_create_Response where
  "results_create_Response_default = \<lparr>
     results_create_Response.results = []\<rparr>"

definition results_create_Response_to_v3 :: "results_create_Response \<Rightarrow> v3_results_CreateResultsResponse" where
  "results_create_Response_to_v3 v = \<lparr>
     v3_results_CreateResultsResponse.results = into_collect results_Raw_to_v3 (results_create_Response.results v)\<rparr>"

definition results_create_Response_of_v3 :: "v3_results_CreateResultsResponse \<Rightarrow> results_create_Response" where
  "results_create_Response_of_v3 v = \<lparr>
     results_create_Response.results = into_collect results_Raw_of_v3 (v3_results_CreateResultsResponse.results v)\<rparr>"

interpretation results_create_Response_codec: wire_codec results_create_Response_to_v3 results_create_Response_of_v3
  by unfold_locales (simp add: results_create_Response_to_v3_def results_create_Response_of_v3_def)

record results_create_metadata_RequestItem =
  name :: string
  manual_deletion :: bool

definition results_create_metadata_RequestItem_default :: results_create_metadata_RequestItem where
  "results_create_metadata_RequestItem_default = \<lparr>
     results_create_metadata_RequestItem.name = '''',
     results_create_metadata_RequestItem.manual_deletion = False\<rparr>"

definition results_create_metadata_RequestItem_from :: "string \<Rightarrow> results_create_metadata_RequestItem" where
  "results_create_metadata_RequestItem_from n =
     \<lparr>results_create_metadata_RequestItem.name = n,
      results_create_metadata_RequestItem.manual_deletion = False\<rparr>"

definition results_create_metadata_RequestItem_to_v3 :: "results_create_metadata_RequestItem \<Rightarrow> v3_results_create_results_meta_data_request_ResultCreate" where
  "results_create_metadata_RequestItem_to_v3 v = \<lparr>
     v3_results_create_results_meta_data_request_ResultCreate.name = results_create_metadata_RequestItem.name v,
     v3_results_create_results_meta_data_request_ResultCreate.manual_deletion = results_create_metadata_RequestItem.manual_deletion v\<rparr>"

definition results_create_metadata_RequestItem_of_v3 :: "v3_results_create_results_meta_data_request_ResultCreate \<Rightarrow> results_create_metadata_RequestItem" where
  "results_create_metadata_RequestItem_of_v3 v = \<lparr>
     results_create_metadata_RequestItem.name = v3_results_create_results_meta_data_request_ResultCreate.name v,
     results_create_metadata_RequestItem.manual_deletion = v3_results_create_results_meta_data_request_ResultCreate.manual_deletion v\<rparr>"

interpretation results_create_metadata_RequestItem_codec: wire_codec results_create_metadata_RequestItem_to_v3 results_create_metadata_RequestItem_of_v3
  by unfold_locales (simp add: results_create_metadata_RequestItem_to_v3_def results_create_metadata_RequestItem_of_v3_def)

record results_create_metadata_Request =
  results :: "results_create_metadata_RequestItem list"
  session_id :: string

definition results_create_metadata_Request_default :: results_create_metadata_Request where
  "results_create_metadata_Request_default = \<lparr>
     results_create_metadata_Request.results = [],
     results_create_metadata_Request.session_id = ''''\<rparr>"

definition results_create_metadata_Request_to_v3 :: "results_create_metadata_Request \<Rightarrow> v3_results_CreateResultsMetaDataRequest" where
  "results_create_metadata_Request_to_v3 v = \<lparr>
     v3_results_CreateResultsMetaDataRequest.results = into_collect results_create_metadata_RequestItem_to_v3 (results_create_metadata_Request.results v),
     v3_results_CreateResultsMetaDataRequest.session_id = results_create_metadata_Request.session_id v\<rparr>"

definition results_create_metadata_Request_of_v3 :: "v3_results_CreateResultsMetaDataRequest \<Rightarrow> results_create_metadata_Request" where
  "results_create_metadata_Request_of_v3 v = \<lparr>
     results_create_metadata_Request.results = into_collect results_create_metadata_RequestItem_of_v3 (v3_results_CreateResultsMetaDataRequest.results v),
     results_create_metadata_Request.session_id = v3_results_CreateResultsMetaDataRequest.session_id v\<rparr>"

interpretation results_create_metadata_Request_codec: wire_codec results_create_metadata_Request_to_v3 results_create_metadata_Request_of_v3
  by unfold_locales (simp add: results_create_metadata_Request_to_v3_def results_create_metadata_Request_of_v3_def)

record results_create_metadata_Response =
  results :: "results_Raw list"

definition results_create_metadata_Response_default :: results_create_metadata_Response where
  "results_create_metadata_Response_default = \<lparr>
     results_create_metadata_Response.results = []\<rparr>"

definition results_create_metadata_Response_to_v3 :: "results_create_metadata_Response \<Rightarrow> v3_results_CreateResultsMetaDataResponse" where
  "results_create_metadata_Response_to_v3 v = \<lparr>
     v3_results_CreateResultsMetaDataResponse.results = into_collect results_Raw_to_v3 (results_create_metadata_Response.results v)\<rparr>"

definition results_create_metadata_Response_of_v3 :: "v3_results_CreateResultsMetaDataResponse \<Rightarrow> results_create_metadata_Response" where
  "results_create_metadata_Response_of_v3 v = \<lparr>
     results_create_metadata_Response.results = into_collect results_Raw_of_v3 (v3_results_CreateResultsMetaDataResponse.results v)\<rparr>"

interpretation results_create_metadata_Response_codec: wire_codec results_create_metadata_Response_to_v3 results_create_metadata_Response_of_v3
  by unfold_locales (simp add: results_create_metadata_Response_to_v3_def results_create_metadata_Response_of_v3_def)

section \<open>Deletion, download and configuration\<close>

record v3_results_DeleteResultsDataRequest =
  session_id :: string
  result_id :: "string list"

record v3_results_DeleteResultsDataResponse =
  session_id :: string
  result_id :: "string list"

record v3_results_DownloadResultDataRequest =
  session_id :: string
  result_id :: string

record v3_results_DownloadResultDataResponse =
  data_chunk :: "u8 list"

record v3_results_ResultsServiceConfigurationResponse =
  data_chunk_max_size :: i32

record results_delete_data_Request =
  session_id :: string
  result_ids :: "string list"

definition results_delete_data_Request_default :: results_delete_data_Request where
  "results_delete_data_Request_default = \<lparr>
     results_delete_data_Request.session_id = '''',
     results_delete_data_Request.result_ids = []\<rparr>"

definition results_delete_data_Request_to_v3 :: "results_delete_data_Request \<Rightarrow> v3_results_DeleteResultsDataRequest" where
  "results_delete_data_Request_to_v3 v = \<lparr>
     v3_results_DeleteResultsDataRequest.session_id = results_delete_data_Request.session_id v,
     v3_results_DeleteResultsDataRequest.result_id = results_delete_data_Request.result_ids v\<rparr>"

definition results_delete_data_Request_of_v3 :: "v3_results_DeleteResultsDataRequest \<Rightarrow> results_delete_data_Request" where
  "results_delete_data_Request_of_v3 v = \<lparr>
     results_delete_data_Request.session_id = v3_results_DeleteResultsDataRequest.session_id v,
     results_delete_data_Request.result_ids = v3_results_DeleteResultsDataRequest.result_id v\<rparr>"

interpretation results_delete_data_Request_codec: wire_codec results_delete_data_Request_to_v3 results_delete_data_Request_of_v3
  by unfold_locales (simp add: results_delete_data_Request_to_v3_def results_delete_data_Request_of_v3_def)

record results_delete_data_Response =
  session_id :: string
  result_ids :: "string list"

definition results_delete_data_Response_default :: results_delete_data_Response where
  "results_delete_data_Response_default = \<lparr>
     results_delete_data_Response.session_id = '''',
     results_delete_data_Response.result_ids = []\<rparr>"

definition results_delete_data_Response_to_v3 :: "results_delete_data_Response \<Rightarrow> v3_results_DeleteResultsDataResponse" where
  "results_delete_data_Response_to_v3 v = \<lparr>
     v3_results_DeleteResultsDataResponse.session_id = results_delete_data_Response.session_id v,
     v3_results_DeleteResultsDataResponse.result_id = results_delete_data_Response.result_ids v\<rparr>"

definition results_delete_data_Response_of_v3 :: "v3_results_DeleteResultsDataResponse \<Rightarrow> results_delete_data_Response" where
  "results_delete_data_Response_of_v3 v = \<lparr>
     results_delete_data_Response.session_id = v3_results_DeleteResultsDataResponse.session_id v,
     results_delete_data_Response.result_ids = v3_results_DeleteResultsDataResponse.result_id v\<rparr>"

interpretation results_delete_data_Response_codec: wire_codec results_delete_data_Response_to_v3 results_delete_data_Response_of_v3
  by unfold_locales (simp add: results_delete_data_Response_to_v3_def results_delete_data_Response_of_v3_def)

record results_download_Request =
  session_id :: string
  result_id :: string

definition results_download_Request_default :: results_download_Request where
  "results_download_Request_default = \<lparr>
     results_download_Request.session_id = '''',
     results_download_Request.result_id = ''''\<rparr>"

definition results_download_Request_to_v3 :: "results_download_Request \<Rightarrow> v3_results_DownloadResultDataRequest" where
  "results_download_Request_to_v3 v = \<lparr>
     v3_results_DownloadResultDataRequest.session_id = results_download_Request.session_id v,
     v3_results_DownloadResultDataRequest.result_id = results_download_Request.result_id v\<rparr>"

definition results_download_Request_of_v3 :: "v3_results_DownloadResultDataRequest \<Rightarrow> results_download_Request" where
  "results_download_Request_of_v3 v = \<lparr>
     results_download_Request.session_id = v3_results_DownloadResultDataRequest.session_id v,
     results_download_Request.result_id = v3_results_DownloadResultDataRequest.result_id v\<rparr>"

interpretation results_download_Request_codec: wire_codec results_download_Request_to_v3 results_download_Request_of_v3
  by unfold_locales (simp add: results_download_Request_to_v3_def results_download_Request_of_v3_def)

record results_download_Response =
  data_chunk :: "u8 list"

definition results_download_Response_default :: results_download_Response where
  "results_download_Response_default = \<lparr>
     results_download_Response.data_chunk = []\<rparr>"

definition results_download_Response_to_v3 :: "results_download_Response \<Rightarrow> v3_results_DownloadResultDataResponse" where
  "results_download_Response_to_v3 v = \<lparr>
     v3_results_DownloadResultDataResponse.data_chunk = results_download_Response.data_chunk v\<rparr>"

definition results_download_Response_of_v3 :: "v3_results_DownloadResultDataResponse \<Rightarrow> results_download_Response" where
  "results_download_Response_of_v3 v = \<lparr>
     results_download_Response.data_chunk = v3_results_DownloadResultDataResponse.data_chunk v\<rparr>"

interpretation results_download_Response_codec: wire_codec results_download_Response_to_v3 results_download_Response_of_v3
  by unfold_locales (simp add: results_download_Response_to_v3_def results_download_Response_of_v3_def)

datatype results_get_service_configuration_Request = results_get_service_configuration_Request

definition results_get_service_configuration_Request_default :: results_get_service_configuration_Request where
  "results_get_service_configuration_Request_default = results_get_service_configuration_Request"

definition results_get_service_configuration_Request_to_v3 :: "results_get_service_configuration_Request \<Rightarrow> v3_Empty" where
  "results_get_service_configuration_Request_to_v3 v = v3_Empty"

definition results_get_service_configuration_Request_of_v3 :: "v3_Empty \<Rightarrow> results_get_service_configuration_Request" where
  "results_get_service_configuration_Request_of_v3 v = results_get_service_configuration_Request"

interpretation results_get_service_configuration_Request_codec: wire_codec results_get_service_configuration_Request_to_v3 results_get_service_configuration_Request_of_v3
  by unfold_locales (metis results_get_service_configuration_Request.exhaust results_get_service_configuration_Request_of_v3_def)

record results_get_service_configuration_Response =
  data_chunk_max_size :: i32

definition results_get_service_configuration_Response_default :: results_get_service_configuration_Response where
  "results_get_service_configuration_Response_default = \<lparr>
     results_get_service_configuration_Response.data_chunk_max_size = 64 * 1024\<rparr>"

definition results_get_service_configuration_Response_to_v3 :: "results_get_service_configuration_Response \<Rightarrow> v3_results_ResultsServiceConfigurationResponse" where
  "results_get_service_configuration_Response_to_v3 v = \<lparr>
     v3_results_ResultsServiceConfigurationResponse.data_chunk_max_size = results_get_service_configuration_Response.data_chunk_max_size v\<rparr>"

definition results_get_service_configuration_Response_of_v3 :: "v3_results_ResultsServiceConfigurationResponse \<Rightarrow> results_get_service_configuration_Response" where
  "results_get_service_configuration_Response_of_v3 v = \<lparr>
     results_get_service_configuration_Response.data_chunk_max_size = v3_results_ResultsServiceConfigurationResponse.data_chunk_max_size v\<rparr>"

interpretation results_get_service_configuration_Response_codec: wire_codec results_get_service_configuration_Response_to_v3 results_get_service_configuration_Response_of_v3
  by unfold_locales (simp add: results_get_service_configuration_Response_to_v3_def results_get_service_configuration_Response_of_v3_def)

section \<open>Upload\<close>

text \<open>An upload is a stream: the identifier of the result, then its chunks.\<close>

record v3_results_upload_result_data_request_ResultIdentifier =
  session_id :: string
  result_id :: string

datatype v3_results_upload_result_data_request_Type =
    Id v3_results_upload_result_data_request_ResultIdentifier
  | DataChunk "u8 list"

record v3_results_UploadResultDataRequest =
  oneof_type :: "v3_results_upload_result_data_request_Type option"

record v3_results_UploadResultDataResponse =
  result :: "v3_results_ResultRaw option"

datatype results_upload_Request =
    Identifier string string
  | DataChunk "u8 list"

definition results_upload_Request_default :: results_upload_Request where
  "results_upload_Request_default = results_upload_Request.Identifier [] []"

primrec results_upload_Request_to_v3 :: "results_upload_Request \<Rightarrow> v3_results_UploadResultDataRequest" where
    "results_upload_Request_to_v3 (results_upload_Request.Identifier s r) =
       \<lparr>v3_results_UploadResultDataRequest.oneof_type =
          Some (v3_results_upload_result_data_request_Type.Id
            \<lparr>v3_results_upload_result_data_request_ResultIdentifier.session_id = s,
             v3_results_upload_result_data_request_ResultIdentifier.result_id = r\<rparr>)\<rparr>"
  | "results_upload_Request_to_v3 (results_upload_Request.DataChunk d) =
       \<lparr>v3_results_UploadResultDataRequest.oneof_type =
          Some (v3_results_upload_result_data_request_Type.DataChunk d)\<rparr>"

definition results_upload_Request_of_v3 :: "v3_results_UploadResultDataRequest \<Rightarrow> results_upload_Request" where
  "results_upload_Request_of_v3 v = (case v3_results_UploadResultDataRequest.oneof_type v of
       Some (v3_results_upload_result_data_request_Type.Id i) \<Rightarrow>
         results_upload_Request.Identifier
           (v3_results_upload_result_data_request_ResultIdentifier.session_id i)
           (v3_results_upload_result_data_request_ResultIdentifier.result_id i)
     | Some (v3_results_upload_result_data_request_Type.DataChunk d) \<Rightarrow>
         results_upload_Request.DataChunk d
     | None \<Rightarrow> results_upload_Request_default)"

interpretation results_upload_Request_codec:
  wire_codec results_upload_Request_to_v3 results_upload_Request_of_v3
proof unfold_locales
  fix x
  show "results_upload_Request_of_v3 (results_upload_Request_to_v3 x) = x"
    by (cases x) (simp_all add: results_upload_Request_of_v3_def)
qed

record results_upload_Response =
  result :: results_Raw

definition results_upload_Response_default :: results_upload_Response where
  "results_upload_Response_default = \<lparr>
     results_upload_Response.result = results_Raw_default\<rparr>"

definition results_upload_Response_to_v3 :: "results_upload_Response \<Rightarrow> v3_results_UploadResultDataResponse" where
  "results_upload_Response_to_v3 v = \<lparr>
     v3_results_UploadResultDataResponse.result = Some (results_Raw_to_v3 (results_upload_Response.result v))\<rparr>"

definition results_upload_Response_of_v3 :: "v3_results_UploadResultDataResponse \<Rightarrow> results_upload_Response" where
  "results_upload_Response_of_v3 v = \<lparr>
     results_upload_Response.result = map_or_default results_Raw_default results_Raw_of_v3 (v3_results_UploadResultDataResponse.result v)\<rparr>"

interpretation results_upload_Response_codec: wire_codec results_upload_Response_to_v3 results_upload_Response_of_v3
  by unfold_locales (simp add: results_upload_Response_to_v3_def results_upload_Response_of_v3_def)

section \<open>Owner tasks\<close>

record v3_results_GetOwnerTaskIdRequest =
  session_id :: string
  result_id :: "string list"

record v3_results_get_owner_task_id_response_MapResultTask =
  result_id :: string
  task_id :: string

record v3_results_GetOwnerTaskIdResponse =
  result_task :: "v3_results_get_owner_task_id_response_MapResultTask list"
  session_id :: string

record results_get_owner_task_id_Request =
  session_id :: string
  result_ids :: "string list"

definition results_get_owner_task_id_Request_default :: results_get_owner_task_id_Request where
  "results_get_owner_task_id_Request_default = \<lparr>
     results_get_owner_task_id_Request.session_id = '''',
     results_get_owner_task_id_Request.result_ids = []\<rparr>"

definition results_get_owner_task_id_Request_to_v3 :: "results_get_owner_task_id_Request \<Rightarrow> v3_results_GetOwnerTaskIdRequest" where
  "results_get_owner_task_id_Request_to_v3 v = \<lparr>
     v3_results_GetOwnerTaskIdRequest.session_id = results_get_owner_task_id_Request.session_id v,
     v3_results_GetOwnerTaskIdRequest.result_id = into_collect (\<lambda>x. x) (results_get_owner_task_id_Request.result_ids v)\<rparr>"

definition results_get_owner_task_id_Request_of_v3 :: "v3_results_GetOwnerTaskIdRequest \<Rightarrow> results_get_owner_task_id_Request" where
  "results_get_owner_task_id_Request_of_v3 v = \<lparr>
     results_get_owner_task_id_Request.session_id = v3_results_GetOwnerTaskIdRequest.session_id v,
     results_get_owner_task_id_Request.result_ids = into_collect (\<lambda>x. x) (v3_results_GetOwnerTaskIdRequest.result_id v)\<rparr>"

interpretation results_get_owner_task_id_Request_codec: wire_codec results_get_owner_task_id_Request_to_v3 results_get_owner_task_id_Request_of_v3
  by unfold_locales (simp add: results_get_owner_task_id_Request_to_v3_def results_get_owner_task_id_Request_of_v3_def)

record results_get_owner_task_id_Response =
  result_task :: "(string, string) fmap"
  session_id :: string

definition results_get_owner_task_id_Response_default :: results_get_owner_task_id_Response where
  "results_get_owner_task_id_Response_default = \<lparr>
     results_get_owner_task_id_Response.result_task = fmempty,
     results_get_owner_task_id_Response.session_id = ''''\<rparr>"

definition results_get_owner_task_id_Response_to_v3 ::
  "((string, string) fmap \<Rightarrow> (string \<times> string) list) \<Rightarrow> results_get_owner_task_id_Response
   \<Rightarrow> v3_results_GetOwnerTaskIdResponse" where
  "results_get_owner_task_id_Response_to_v3 it v = \<lparr>
     v3_results_GetOwnerTaskIdResponse.result_task = map (\<lambda>(r, t).
       \<lparr>v3_results_get_owner_task_id_response_MapResultTask.result_id = r,
        v3_results_get_owner_task_id_response_MapResultTask.task_id = t\<rparr>)
       (it (results_get_owner_task_id_Response.result_task v)),
     v3_results_GetOwnerTaskIdResponse.session_id = results_get_owner_task_id_Response.session_id v\<rparr>"

definition results_get_owner_task_id_Response_of_v3 ::
  "v3_results_GetOwnerTaskIdResponse \<Rightarrow> results_get_owner_task_id_Response" where
  "results_get_owner_task_id_Response_of_v3 v = \<lparr>
     results_get_owner_task_id_Response.result_task = hashmap_collect (map (\<lambda>p.
       (v3_results_get_owner_task_id_response_MapResultTask.result_id p,
        v3_results_get_owner_task_id_response_MapResultTask.task_id p))
       (v3_results_GetOwnerTaskIdResponse.result_task v)),
     results_get_owner_task_id_Response.session_id = v3_results_GetOwnerTaskIdResponse.session_id v\<rparr>"

lemma results_get_owner_task_id_Response_roundtrip:
  "iterates it \<Longrightarrow>
   results_get_owner_task_id_Response_of_v3 (results_get_owner_task_id_Response_to_v3 it x) = x"
  unfolding results_get_owner_task_id_Response_of_v3_def results_get_owner_task_id_Response_to_v3_def
    v3_results_GetOwnerTaskIdResponse.select_convs
  by (subst hashmap_entries_roundtrip) simp_all

section \<open>Import\<close>

record v3_results_import_results_data_request_ResultOpaqueId =
  result_id :: string
  opaque_id :: "u8 list"

record v3_results_ImportResultsDataRequest =
  session_id :: string
  results :: "v3_results_import_results_data_request_ResultOpaqueId list"

record v3_results_ImportResultsDataResponse =
  results :: "v3_results_ResultRaw list"

record results_import_Request =
  results :: "(string, u8 list) fmap"
  session_id :: string

definition results_import_Request_default :: results_import_Request where
  "results_import_Request_default = \<lparr>
     results_import_Request.results = fmempty,
     results_import_Request.session_id = ''''\<rparr>"

definition results_import_Request_to_v3 ::
  "((string, u8 list) fmap \<Rightarrow> (string \<times> u8 list) list) \<Rightarrow> results_import_Request
   \<Rightarrow> v3_results_ImportResultsDataRequest" where
  "results_import_Request_to_v3 it v = \<lparr>
     v3_results_ImportResultsDataRequest.session_id = results_import_Request.session_id v,
     v3_results_ImportResultsDataRequest.results = map (\<lambda>(r, oid).
       \<lparr>v3_results_import_results_data_request_ResultOpaqueId.result_id = r,
        v3_results_import_results_data_request_ResultOpaqueId.opaque_id = oid\<rparr>)
       (it (results_import_Request.results v))\<rparr>"

definition results_import_Request_of_v3 ::
  "v3_results_ImportResultsDataRequest \<Rightarrow> results_import_Request" where
  "results_import_Request_of_v3 v = \<lparr>
     results_import_Request.results = hashmap_collect (map (\<lambda>r.
       (v3_results_import_results_data_request_ResultOpaqueId.result_id r,
        v3_results_import_results_data_request_ResultOpaqueId.opaque_id r))
       (v3_results_ImportResultsDataRequest.results v)),
     results_import_Request.session_id = v3_results_ImportResultsDataRequest.session_id v\<rparr>"

lemma results_import_Request_roundtrip:
  "iterates it \<Longrightarrow> results_import_Request_of_v3 (results_import_Request_to_v3 it x) = x"
  unfolding results_import_Request_of_v3_def results_import_Request_to_v3_def
    v3_results_ImportResultsDataRequest.select_convs
  by (subst hashmap_entries_roundtrip) simp_all

record results_import_Response =
  results :: "(string, results_Raw) fmap"

definition results_import_Response_default :: results_import_Response where
  "results_import_Response_default = \<lparr>
     results_import_Response.results = fmempty\<rparr>"

definition results_import_Response_to_v3 ::
  "((string, results_Raw) fmap \<Rightarrow> (string \<times> results_Raw) list) \<Rightarrow> results_import_Response
   \<Rightarrow> v3_results_ImportResultsDataResponse" where
  "results_import_Response_to_v3 it v = \<lparr>
     v3_results_ImportResultsDataResponse.results =
       map (\<lambda>(k, r). results_Raw_to_v3 r) (it (results_import_Response.results v))\<rparr>"

definition results_import_Response_of_v3 ::
  "v3_results_ImportResultsDataResponse \<Rightarrow> results_import_Response" where
  "results_import_Response_of_v3 v = \<lparr>
     results_import_Response.results = hashmap_collect (map (\<lambda>r.
       (v3_results_ResultRaw.name r, results_Raw_of_v3 r))
       (v3_results_ImportResultsDataResponse.results v))\<rparr>"

text \<open>
  The keys of the response are not sent: decoding files every result under its name. So the map
  survives exactly when it is keyed by the names of its results.
\<close>

definition keyed_by_name :: "results_import_Response \<Rightarrow> bool" where
  "keyed_by_name v = fmpred (\<lambda>k r. results_Raw.name r = k) (results_import_Response.results v)"

lemma v3_name_of_Raw [simp]: "v3_results_ResultRaw.name (results_Raw_to_v3 r) = results_Raw.name r"
  by (simp add: results_Raw_to_v3_def)

lemma results_import_Response_decoded:
  "results_import_Response.results (results_import_Response_of_v3 (results_import_Response_to_v3 it v)) =
     hashmap_collect (map (\<lambda>(k, r). (results_Raw.name r, r)) (it (results_import_Response.results v)))"
  by (simp add: results_import_Response_of_v3_def results_import_Response_to_v3_def o_def
      split_def)

lemma hashmap_collect_keyed:
  "fmlookup (hashmap_collect (map (\<lambda>r. (f r, r)) rs)) k = Some r \<Longrightarrow> f r = k"
  by (auto simp: fmlookup_hashmap_collect rev_map [symmetric] dest!: map_of_SomeD)

lemma results_import_Response_roundtrip_iff:
  assumes "iterates it"
  shows "results_import_Response_of_v3 (results_import_Response_to_v3 it v) = v \<longleftrightarrow> keyed_by_name v"
proof
  assume "keyed_by_name v"
  then have "map (\<lambda>(k, r). (results_Raw.name r, r)) (it (results_import_Response.results v))
      = it (results_import_Response.results v)"
    using assms by (intro map_idI) (auto simp: keyed_by_name_def iterates_def fmpred_iff)
  then show "results_import_Response_of_v3 (results_import_Response_to_v3 it v) = v"
    using results_import_Response_decoded [of it v] by (simp add: hashmap_collect_iterates [OF assms])
next
  let ?rs = "map snd (it (results_import_Response.results v))"
  assume "results_import_Response_of_v3 (results_import_Response_to_v3 it v) = v"
  then have "results_import_Response.results v = hashmap_collect (map (\<lambda>r. (results_Raw.name r, r)) ?rs)"
    using results_import_Response_decoded [of it v] by (simp add: o_def split_def)
  then have "results_Raw.name r = k" if "fmlookup (results_import_Response.results v) k = Some r" for k r
    using that hashmap_collect_keyed by metis
  then show "keyed_by_name v" by (simp add: keyed_by_name_def fmpred_iff)
qed

end
