(* ===== verification/Events.thy ===== *)
theory Events
  imports Tasks Results
begin

text \<open>Objects of the events service (\<^verbatim>\<open>objects/events\<close>).\<close>

section \<open>Kinds of events\<close>

datatype events_EventsEnum =
    Unspecified
  | NewTask
  | TaskStatusUpdate
  | NewResult
  | ResultStatusUpdate
  | ResultOwnerUpdate

primrec events_EventsEnum_as_i32 :: "events_EventsEnum \<Rightarrow> i32" where
    "events_EventsEnum_as_i32 events_EventsEnum.Unspecified = 0"
  | "events_EventsEnum_as_i32 events_EventsEnum.NewTask = 1"
  | "events_EventsEnum_as_i32 events_EventsEnum.TaskStatusUpdate = 2"
  | "events_EventsEnum_as_i32 events_EventsEnum.NewResult = 3"
  | "events_EventsEnum_as_i32 events_EventsEnum.ResultStatusUpdate = 4"
  | "events_EventsEnum_as_i32 events_EventsEnum.ResultOwnerUpdate = 5"

definition events_EventsEnum_default :: events_EventsEnum where
  "events_EventsEnum_default = events_EventsEnum.Unspecified"

definition events_EventsEnum_of_i32 :: "i32 \<Rightarrow> events_EventsEnum" where
  "events_EventsEnum_of_i32 i =
    (if i = 0 then events_EventsEnum.Unspecified
     else if i = 1 then events_EventsEnum.NewTask
     else if i = 2 then events_EventsEnum.TaskStatusUpdate
     else if i = 3 then events_EventsEnum.NewResult
     else if i = 4 then events_EventsEnum.ResultStatusUpdate
     else if i = 5 then events_EventsEnum.ResultOwnerUpdate
     else events_EventsEnum_default)"

datatype v3_events_EventsEnum =
    Unspecified
  | NewTask
  | TaskStatusUpdate
  | NewResult
  | ResultStatusUpdate
  | ResultOwnerUpdate

primrec v3_events_EventsEnum_as_i32 :: "v3_events_EventsEnum \<Rightarrow> i32" where
    "v3_events_EventsEnum_as_i32 v3_events_EventsEnum.Unspecified = 0"
  | "v3_events_EventsEnum_as_i32 v3_events_EventsEnum.NewTask = 1"
  | "v3_events_EventsEnum_as_i32 v3_events_EventsEnum.TaskStatusUpdate = 2"
  | "v3_events_EventsEnum_as_i32 v3_events_EventsEnum.NewResult = 3"
  | "v3_events_EventsEnum_as_i32 v3_events_EventsEnum.ResultStatusUpdate = 4"
  | "v3_events_EventsEnum_as_i32 v3_events_EventsEnum.ResultOwnerUpdate = 5"

primrec events_EventsEnum_to_v3 :: "events_EventsEnum \<Rightarrow> v3_events_EventsEnum" where
    "events_EventsEnum_to_v3 events_EventsEnum.Unspecified = v3_events_EventsEnum.Unspecified"
  | "events_EventsEnum_to_v3 events_EventsEnum.NewTask = v3_events_EventsEnum.NewTask"
  | "events_EventsEnum_to_v3 events_EventsEnum.TaskStatusUpdate = v3_events_EventsEnum.TaskStatusUpdate"
  | "events_EventsEnum_to_v3 events_EventsEnum.NewResult = v3_events_EventsEnum.NewResult"
  | "events_EventsEnum_to_v3 events_EventsEnum.ResultStatusUpdate = v3_events_EventsEnum.ResultStatusUpdate"
  | "events_EventsEnum_to_v3 events_EventsEnum.ResultOwnerUpdate = v3_events_EventsEnum.ResultOwnerUpdate"

primrec events_EventsEnum_of_v3 :: "v3_events_EventsEnum \<Rightarrow> events_EventsEnum" where
    "events_EventsEnum_of_v3 v3_events_EventsEnum.Unspecified = events_EventsEnum.Unspecified"
  | "events_EventsEnum_of_v3 v3_events_EventsEnum.NewTask = events_EventsEnum.NewTask"
  | "events_EventsEnum_of_v3 v3_events_EventsEnum.TaskStatusUpdate = events_EventsEnum.TaskStatusUpdate"
  | "events_EventsEnum_of_v3 v3_events_EventsEnum.NewResult = events_EventsEnum.NewResult"
  | "events_EventsEnum_of_v3 v3_events_EventsEnum.ResultStatusUpdate = events_EventsEnum.ResultStatusUpdate"
  | "events_EventsEnum_of_v3 v3_events_EventsEnum.ResultOwnerUpdate = events_EventsEnum.ResultOwnerUpdate"

interpretation events_EventsEnum_enum: mirrored_enum events_EventsEnum_as_i32 events_EventsEnum_of_i32 events_EventsEnum_default
    events_EventsEnum_to_v3 events_EventsEnum_of_v3 v3_events_EventsEnum_as_i32
proof unfold_locales
  fix e
  show "events_EventsEnum_of_i32 (events_EventsEnum_as_i32 e) = e" by (cases e) (simp_all add: events_EventsEnum_of_i32_def events_EventsEnum_default_def)
next
  fix i
  assume "events_EventsEnum_of_i32 i \<noteq> events_EventsEnum_default"
  then show "events_EventsEnum_as_i32 (events_EventsEnum_of_i32 i) = i"
    by (simp add: events_EventsEnum_of_i32_def events_EventsEnum_default_def split: if_splits)
next
  fix e
  show "events_EventsEnum_of_v3 (events_EventsEnum_to_v3 e) = e" by (cases e) simp_all
next
  fix w
  show "events_EventsEnum_to_v3 (events_EventsEnum_of_v3 w) = w" by (cases w) simp_all
next
  fix e
  show "v3_events_EventsEnum_as_i32 (events_EventsEnum_to_v3 e) = events_EventsEnum_as_i32 e" by (cases e) simp_all
qed

section \<open>Updates\<close>

record v3_events_EventSubscriptionRequest =
  session_id :: string
  tasks_filters :: "v3_tasks_Filters option"
  results_filters :: "v3_results_Filters option"
  returned_events :: "i32 list"

record v3_events_event_subscription_response_TaskStatusUpdate =
  task_id :: string
  status :: i32

record v3_events_event_subscription_response_ResultStatusUpdate =
  result_id :: string
  status :: i32

record v3_events_event_subscription_response_ResultOwnerUpdate =
  result_id :: string
  previous_owner_id :: string
  current_owner_id :: string

record v3_events_event_subscription_response_NewTask =
  task_id :: string
  payload_id :: string
  origin_task_id :: string
  status :: i32
  expected_output_keys :: "string list"
  data_dependencies :: "string list"
  retry_of_ids :: "string list"
  parent_task_ids :: "string list"

record v3_events_event_subscription_response_NewResult =
  result_id :: string
  owner_id :: string
  status :: i32

datatype v3_events_event_subscription_response_Update =
    TaskStatusUpdate v3_events_event_subscription_response_TaskStatusUpdate
  | ResultStatusUpdate v3_events_event_subscription_response_ResultStatusUpdate
  | ResultOwnerUpdate v3_events_event_subscription_response_ResultOwnerUpdate
  | NewTask v3_events_event_subscription_response_NewTask
  | NewResult v3_events_event_subscription_response_NewResult

record v3_events_EventSubscriptionResponse =
  session_id :: string
  update :: "v3_events_event_subscription_response_Update option"

record events_NewTask =
  task_id :: string
  payload_id :: string
  origin_task_id :: string
  status :: TaskStatus
  expected_output_keys :: "string list"
  data_dependencies :: "string list"
  retry_of_ids :: "string list"
  parent_task_ids :: "string list"

definition events_NewTask_default :: events_NewTask where
  "events_NewTask_default = \<lparr>
     events_NewTask.task_id = '''',
     events_NewTask.payload_id = '''',
     events_NewTask.origin_task_id = '''',
     events_NewTask.status = TaskStatus_default,
     events_NewTask.expected_output_keys = [],
     events_NewTask.data_dependencies = [],
     events_NewTask.retry_of_ids = [],
     events_NewTask.parent_task_ids = []\<rparr>"

definition events_NewTask_to_v3 :: "events_NewTask \<Rightarrow> v3_events_event_subscription_response_NewTask" where
  "events_NewTask_to_v3 v = \<lparr>
     v3_events_event_subscription_response_NewTask.task_id = events_NewTask.task_id v,
     v3_events_event_subscription_response_NewTask.payload_id = events_NewTask.payload_id v,
     v3_events_event_subscription_response_NewTask.origin_task_id = events_NewTask.origin_task_id v,
     v3_events_event_subscription_response_NewTask.status = TaskStatus_as_i32 (events_NewTask.status v),
     v3_events_event_subscription_response_NewTask.expected_output_keys = events_NewTask.expected_output_keys v,
     v3_events_event_subscription_response_NewTask.data_dependencies = events_NewTask.data_dependencies v,
     v3_events_event_subscription_response_NewTask.retry_of_ids = events_NewTask.retry_of_ids v,
     v3_events_event_subscription_response_NewTask.parent_task_ids = events_NewTask.parent_task_ids v\<rparr>"

definition events_NewTask_of_v3 :: "v3_events_event_subscription_response_NewTask \<Rightarrow> events_NewTask" where
  "events_NewTask_of_v3 v = \<lparr>
     events_NewTask.task_id = v3_events_event_subscription_response_NewTask.task_id v,
     events_NewTask.payload_id = v3_events_event_subscription_response_NewTask.payload_id v,
     events_NewTask.origin_task_id = v3_events_event_subscription_response_NewTask.origin_task_id v,
     events_NewTask.status = TaskStatus_of_i32 (v3_events_event_subscription_response_NewTask.status v),
     events_NewTask.expected_output_keys = v3_events_event_subscription_response_NewTask.expected_output_keys v,
     events_NewTask.data_dependencies = v3_events_event_subscription_response_NewTask.data_dependencies v,
     events_NewTask.retry_of_ids = v3_events_event_subscription_response_NewTask.retry_of_ids v,
     events_NewTask.parent_task_ids = v3_events_event_subscription_response_NewTask.parent_task_ids v\<rparr>"

interpretation events_NewTask_codec: wire_codec events_NewTask_to_v3 events_NewTask_of_v3
  by unfold_locales (simp add: events_NewTask_to_v3_def events_NewTask_of_v3_def)

record events_NewResult =
  result_id :: string
  owner_id :: string
  status :: ResultStatus

definition events_NewResult_default :: events_NewResult where
  "events_NewResult_default = \<lparr>
     events_NewResult.result_id = '''',
     events_NewResult.owner_id = '''',
     events_NewResult.status = ResultStatus_default\<rparr>"

definition events_NewResult_to_v3 :: "events_NewResult \<Rightarrow> v3_events_event_subscription_response_NewResult" where
  "events_NewResult_to_v3 v = \<lparr>
     v3_events_event_subscription_response_NewResult.result_id = events_NewResult.result_id v,
     v3_events_event_subscription_response_NewResult.owner_id = events_NewResult.owner_id v,
     v3_events_event_subscription_response_NewResult.status = ResultStatus_as_i32 (events_NewResult.status v)\<rparr>"

definition events_NewResult_of_v3 :: "v3_events_event_subscription_response_NewResult \<Rightarrow> events_NewResult" where
  "events_NewResult_of_v3 v = \<lparr>
     events_NewResult.result_id = v3_events_event_subscription_response_NewResult.result_id v,
     events_NewResult.owner_id = v3_events_event_subscription_response_NewResult.owner_id v,
     events_NewResult.status = ResultStatus_of_i32 (v3_events_event_subscription_response_NewResult.status v)\<rparr>"

interpretation events_NewResult_codec: wire_codec events_NewResult_to_v3 events_NewResult_of_v3
  by unfold_locales (simp add: events_NewResult_to_v3_def events_NewResult_of_v3_def)

record events_TaskStatusUpdate =
  task_id :: string
  status :: TaskStatus

definition events_TaskStatusUpdate_default :: events_TaskStatusUpdate where
  "events_TaskStatusUpdate_default = \<lparr>
     events_TaskStatusUpdate.task_id = '''',
     events_TaskStatusUpdate.status = TaskStatus_default\<rparr>"

definition events_TaskStatusUpdate_to_v3 :: "events_TaskStatusUpdate \<Rightarrow> v3_events_event_subscription_response_TaskStatusUpdate" where
  "events_TaskStatusUpdate_to_v3 v = \<lparr>
     v3_events_event_subscription_response_TaskStatusUpdate.task_id = events_TaskStatusUpdate.task_id v,
     v3_events_event_subscription_response_TaskStatusUpdate.status = TaskStatus_as_i32 (events_TaskStatusUpdate.status v)\<rparr>"

definition events_TaskStatusUpdate_of_v3 :: "v3_events_event_subscription_response_TaskStatusUpdate \<Rightarrow> events_TaskStatusUpdate" where
  "events_TaskStatusUpdate_of_v3 v = \<lparr>
     events_TaskStatusUpdate.task_id = v3_events_event_subscription_response_TaskStatusUpdate.task_id v,
     events_TaskStatusUpdate.status = TaskStatus_of_i32 (v3_events_event_subscription_response_TaskStatusUpdate.status v)\<rparr>"

interpretation events_TaskStatusUpdate_codec: wire_codec events_TaskStatusUpdate_to_v3 events_TaskStatusUpdate_of_v3
  by unfold_locales (simp add: events_TaskStatusUpdate_to_v3_def events_TaskStatusUpdate_of_v3_def)

record events_ResultStatusUpdate =
  result_id :: string
  status :: ResultStatus

definition events_ResultStatusUpdate_default :: events_ResultStatusUpdate where
  "events_ResultStatusUpdate_default = \<lparr>
     events_ResultStatusUpdate.result_id = '''',
     events_ResultStatusUpdate.status = ResultStatus_default\<rparr>"

definition events_ResultStatusUpdate_to_v3 :: "events_ResultStatusUpdate \<Rightarrow> v3_events_event_subscription_response_ResultStatusUpdate" where
  "events_ResultStatusUpdate_to_v3 v = \<lparr>
     v3_events_event_subscription_response_ResultStatusUpdate.result_id = events_ResultStatusUpdate.result_id v,
     v3_events_event_subscription_response_ResultStatusUpdate.status = ResultStatus_as_i32 (events_ResultStatusUpdate.status v)\<rparr>"

definition events_ResultStatusUpdate_of_v3 :: "v3_events_event_subscription_response_ResultStatusUpdate \<Rightarrow> events_ResultStatusUpdate" where
  "events_ResultStatusUpdate_of_v3 v = \<lparr>
     events_ResultStatusUpdate.result_id = v3_events_event_subscription_response_ResultStatusUpdate.result_id v,
     events_ResultStatusUpdate.status = ResultStatus_of_i32 (v3_events_event_subscription_response_ResultStatusUpdate.status v)\<rparr>"

interpretation events_ResultStatusUpdate_codec: wire_codec events_ResultStatusUpdate_to_v3 events_ResultStatusUpdate_of_v3
  by unfold_locales (simp add: events_ResultStatusUpdate_to_v3_def events_ResultStatusUpdate_of_v3_def)

record events_ResultOwnerUpdate =
  result_id :: string
  previous_owner_id :: string
  current_owner_id :: string

definition events_ResultOwnerUpdate_default :: events_ResultOwnerUpdate where
  "events_ResultOwnerUpdate_default = \<lparr>
     events_ResultOwnerUpdate.result_id = '''',
     events_ResultOwnerUpdate.previous_owner_id = '''',
     events_ResultOwnerUpdate.current_owner_id = ''''\<rparr>"

definition events_ResultOwnerUpdate_to_v3 :: "events_ResultOwnerUpdate \<Rightarrow> v3_events_event_subscription_response_ResultOwnerUpdate" where
  "events_ResultOwnerUpdate_to_v3 v = \<lparr>
     v3_events_event_subscription_response_ResultOwnerUpdate.result_id = events_ResultOwnerUpdate.result_id v,
     v3_events_event_subscription_response_ResultOwnerUpdate.previous_owner_id = events_ResultOwnerUpdate.previous_owner_id v,
     v3_events_event_subscription_response_ResultOwnerUpdate.current_owner_id = events_ResultOwnerUpdate.current_owner_id v\<rparr>"

definition events_ResultOwnerUpdate_of_v3 :: "v3_events_event_subscription_response_ResultOwnerUpdate \<Rightarrow> events_ResultOwnerUpdate" where
  "events_ResultOwnerUpdate_of_v3 v = \<lparr>
     events_ResultOwnerUpdate.result_id = v3_events_event_subscription_response_ResultOwnerUpdate.result_id v,
     events_ResultOwnerUpdate.previous_owner_id = v3_events_event_subscription_response_ResultOwnerUpdate.previous_owner_id v,
     events_ResultOwnerUpdate.current_owner_id = v3_events_event_subscription_response_ResultOwnerUpdate.current_owner_id v\<rparr>"

interpretation events_ResultOwnerUpdate_codec: wire_codec events_ResultOwnerUpdate_to_v3 events_ResultOwnerUpdate_of_v3
  by unfold_locales (simp add: events_ResultOwnerUpdate_to_v3_def events_ResultOwnerUpdate_of_v3_def)

datatype events_Update =
    Invalid
  | TaskStatusUpdate events_TaskStatusUpdate
  | ResultStatusUpdate events_ResultStatusUpdate
  | ResultOwnerUpdate events_ResultOwnerUpdate
  | NewTask events_NewTask
  | NewResult events_NewResult

definition events_Update_default :: events_Update where
  "events_Update_default = events_Update.Invalid"

primrec events_Update_to_v3 ::
  "events_Update \<Rightarrow> v3_events_event_subscription_response_Update option" where
    "events_Update_to_v3 events_Update.Invalid = None"
  | "events_Update_to_v3 (events_Update.TaskStatusUpdate u) =
       Some (v3_events_event_subscription_response_Update.TaskStatusUpdate (events_TaskStatusUpdate_to_v3 u))"
  | "events_Update_to_v3 (events_Update.ResultStatusUpdate u) =
       Some (v3_events_event_subscription_response_Update.ResultStatusUpdate (events_ResultStatusUpdate_to_v3 u))"
  | "events_Update_to_v3 (events_Update.ResultOwnerUpdate u) =
       Some (v3_events_event_subscription_response_Update.ResultOwnerUpdate (events_ResultOwnerUpdate_to_v3 u))"
  | "events_Update_to_v3 (events_Update.NewTask u) =
       Some (v3_events_event_subscription_response_Update.NewTask (events_NewTask_to_v3 u))"
  | "events_Update_to_v3 (events_Update.NewResult u) =
       Some (v3_events_event_subscription_response_Update.NewResult (events_NewResult_to_v3 u))"

definition events_Update_of_v3 ::
  "v3_events_event_subscription_response_Update option \<Rightarrow> events_Update" where
  "events_Update_of_v3 v = (case v of
       Some (v3_events_event_subscription_response_Update.TaskStatusUpdate u) \<Rightarrow>
         events_Update.TaskStatusUpdate (events_TaskStatusUpdate_of_v3 u)
     | Some (v3_events_event_subscription_response_Update.ResultStatusUpdate u) \<Rightarrow>
         events_Update.ResultStatusUpdate (events_ResultStatusUpdate_of_v3 u)
     | Some (v3_events_event_subscription_response_Update.ResultOwnerUpdate u) \<Rightarrow>
         events_Update.ResultOwnerUpdate (events_ResultOwnerUpdate_of_v3 u)
     | Some (v3_events_event_subscription_response_Update.NewTask u) \<Rightarrow>
         events_Update.NewTask (events_NewTask_of_v3 u)
     | Some (v3_events_event_subscription_response_Update.NewResult u) \<Rightarrow>
         events_Update.NewResult (events_NewResult_of_v3 u)
     | None \<Rightarrow> events_Update.Invalid)"

interpretation events_Update_codec: wire_codec events_Update_to_v3 events_Update_of_v3
proof unfold_locales
  fix x
  show "events_Update_of_v3 (events_Update_to_v3 x) = x"
    by (cases x) (simp_all add: events_Update_of_v3_def)
qed

section \<open>Subscription\<close>

record events_subscribe_Request =
  session_id :: string
  task_filters :: tasks_filter_Or
  result_filters :: results_filter_Or
  returned_events :: "events_EventsEnum list"

definition events_subscribe_Request_default :: events_subscribe_Request where
  "events_subscribe_Request_default = \<lparr>
     events_subscribe_Request.session_id = '''',
     events_subscribe_Request.task_filters = tasks_filter_Or_default,
     events_subscribe_Request.result_filters = results_filter_Or_default,
     events_subscribe_Request.returned_events = []\<rparr>"

definition v3_tasks_Filters_default :: v3_tasks_Filters where
  "v3_tasks_Filters_default = \<lparr>
     v3_tasks_Filters.or_ands = []\<rparr>"

definition v3_results_Filters_default :: v3_results_Filters where
  "v3_results_Filters_default = \<lparr>
     v3_results_Filters.or_ands = []\<rparr>"

definition events_subscribe_Request_to_v3 ::
  "events_subscribe_Request \<Rightarrow> v3_events_EventSubscriptionRequest" where
  "events_subscribe_Request_to_v3 v = \<lparr>
     v3_events_EventSubscriptionRequest.session_id = events_subscribe_Request.session_id v,
     v3_events_EventSubscriptionRequest.tasks_filters =
       Some (tasks_filter_Or_to_v3 (events_subscribe_Request.task_filters v)),
     v3_events_EventSubscriptionRequest.results_filters =
       Some (results_filter_Or_to_v3 (events_subscribe_Request.result_filters v)),
     v3_events_EventSubscriptionRequest.returned_events =
       map events_EventsEnum_as_i32 (events_subscribe_Request.returned_events v)\<rparr>"

definition events_subscribe_Request_of_v3 ::
  "v3_events_EventSubscriptionRequest \<Rightarrow> events_subscribe_Request" where
  "events_subscribe_Request_of_v3 v = \<lparr>
     events_subscribe_Request.session_id = v3_events_EventSubscriptionRequest.session_id v,
     events_subscribe_Request.task_filters = tasks_filter_Or_of_v3
       (case v3_events_EventSubscriptionRequest.tasks_filters v of
          None \<Rightarrow> v3_tasks_Filters_default | Some f \<Rightarrow> f),
     events_subscribe_Request.result_filters = results_filter_Or_of_v3
       (case v3_events_EventSubscriptionRequest.results_filters v of
          None \<Rightarrow> v3_results_Filters_default | Some f \<Rightarrow> f),
     events_subscribe_Request.returned_events =
       into_collect events_EventsEnum_of_i32 (v3_events_EventSubscriptionRequest.returned_events v)\<rparr>"

interpretation events_subscribe_Request_codec:
  wire_codec events_subscribe_Request_to_v3 events_subscribe_Request_of_v3
  by unfold_locales (simp add: events_subscribe_Request_to_v3_def events_subscribe_Request_of_v3_def
      into_collect_def o_def)

record events_subscribe_Response =
  session_id :: string
  update :: events_Update

definition events_subscribe_Response_default :: events_subscribe_Response where
  "events_subscribe_Response_default = \<lparr>
     events_subscribe_Response.session_id = '''',
     events_subscribe_Response.update = events_Update_default\<rparr>"

definition events_subscribe_Response_to_v3 :: "events_subscribe_Response \<Rightarrow> v3_events_EventSubscriptionResponse" where
  "events_subscribe_Response_to_v3 v = \<lparr>
     v3_events_EventSubscriptionResponse.session_id = events_subscribe_Response.session_id v,
     v3_events_EventSubscriptionResponse.update = events_Update_to_v3 (events_subscribe_Response.update v)\<rparr>"

definition events_subscribe_Response_of_v3 :: "v3_events_EventSubscriptionResponse \<Rightarrow> events_subscribe_Response" where
  "events_subscribe_Response_of_v3 v = \<lparr>
     events_subscribe_Response.session_id = v3_events_EventSubscriptionResponse.session_id v,
     events_subscribe_Response.update = events_Update_of_v3 (v3_events_EventSubscriptionResponse.update v)\<rparr>"

interpretation events_subscribe_Response_codec: wire_codec events_subscribe_Response_to_v3 events_subscribe_Response_of_v3
  by unfold_locales (simp add: events_subscribe_Response_to_v3_def events_subscribe_Response_of_v3_def)

end
