(* ===== verification/Events_Service.thy ===== *)
theory Events_Service
  imports Request_Count Events
begin

text \<open>
  The events service: the client (\<^verbatim>\<open>client/events.rs\<close>) and the server glue (\<^verbatim>\<open>server/events.rs\<close>) around
  the generated stub and trait, and the composition of the two.
\<close>

section \<open>The generated stub\<close>

record 'c v3_events_EventsClient =
  get_events :: "(v3_events_EventSubscriptionRequest, 'c, (tonic_Status + v3_events_EventSubscriptionResponse) Stream) stub"

text \<open>A stub that also records which procedures are called.\<close>

definition events_recording :: "'c v3_events_EventsClient \<Rightarrow> 'c recording v3_events_EventsClient" where
  "events_recording cl = \<lparr>
     v3_events_EventsClient.get_events = recorded ''Events'' ''GetEvents'' (v3_events_EventsClient.get_events cl)\<rparr>"

section \<open>Client\<close>

subsection \<open>Raw calls\<close>

subsection \<open>Methods\<close>

definition Events_subscribe ::
  "'c v3_events_EventsClient \<Rightarrow> string \<Rightarrow> tasks_filter_Field list list \<Rightarrow> results_filter_Field list list
   \<Rightarrow> events_EventsEnum list \<Rightarrow> 'c \<Rightarrow> (RequestError + (RequestError + events_subscribe_Response) Stream) \<times> 'c" where
  "Events_subscribe cl session_id' task_filters' result_filters' returned_events' c =
     server_stream_call events_subscribe_Request_to_v3 events_subscribe_Response_of_v3
       (v3_events_EventsClient.get_events cl)
       \<lparr>events_subscribe_Request.session_id = session_id',
        events_subscribe_Request.task_filters = tasks_filter_collect task_filters',
        events_subscribe_Request.result_filters = results_filter_collect result_filters',
        events_subscribe_Request.returned_events = into_collect (\<lambda>x. x) returned_events'\<rparr> c"

text \<open>The raw call takes the request apart and calls the method.\<close>

definition Events_call_subscribe ::
  "'c v3_events_EventsClient \<Rightarrow> events_subscribe_Request \<Rightarrow> 'c
   \<Rightarrow> (RequestError + (RequestError + events_subscribe_Response) Stream) \<times> 'c" where
  "Events_call_subscribe cl req c =
     Events_subscribe cl (events_subscribe_Request.session_id req)
       (tasks_filter_lists (events_subscribe_Request.task_filters req))
       (results_filter_lists (events_subscribe_Request.result_filters req))
       (events_subscribe_Request.returned_events req) c"

lemmas events_client_defs =
  Events_subscribe_def Events_call_subscribe_def

section \<open>Server\<close>

record ('h, 'e, 's) EventsService =
  subscribe :: "(events_subscribe_Request, 'h, 'e, 's, (tonic_Status + events_subscribe_Response) Stream) handler"

definition EventsService_get_events :: "('m \<Rightarrow> 'h) \<Rightarrow> ('h, 'e, 's) EventsService
    \<Rightarrow> ('m, 'e, v3_events_EventSubscriptionRequest) tonic_Request \<Rightarrow> 's \<Rightarrow> (tonic_Status + (tonic_Status + v3_events_EventSubscriptionResponse) Stream) \<times> 's" where
  "EventsService_get_events ih svc =
     server_stream_server ih events_subscribe_Request_of_v3 events_subscribe_Response_to_v3 (EventsService.subscribe svc)"

section \<open>A client connected to a server\<close>

definition events_loopback :: "('m \<Rightarrow> 'h) \<Rightarrow> 'm \<Rightarrow> 'e \<Rightarrow> ('h, 'e, 's) EventsService \<Rightarrow> 's v3_events_EventsClient" where
  "events_loopback ih m e svc = \<lparr>
     v3_events_EventsClient.get_events = (\<lambda>w. EventsService_get_events ih svc (direct_request m e w))\<rparr>"

text \<open>The contract of each remote procedure.\<close>

interpretation events_subscribe_rpc: total_rpc_link
    events_subscribe_Request_to_v3 events_subscribe_Request_of_v3
    events_subscribe_Response_to_v3 events_subscribe_Response_of_v3
  by unfold_locales

lemmas events_link_defs = events_loopback_def events_client_defs
  EventsService_get_events_def

lemma Events_call_subscribe_transparent:
  "Events_call_subscribe (events_loopback ih m e svc) r s =
     in_process_stream (EventsService.subscribe svc r (direct_context ih m e) s)"
  by (cases r) (simp add: events_link_defs)

lemma events_methods_call_once:
  "calls (Events_call_subscribe (events_recording cl) req (l, c)) = l @ [(''Events'', ''GetEvents'')]"
  "calls (Events_subscribe (events_recording cl) sid tf rf es (l, c)) = l @ [(''Events'', ''GetEvents'')]"
  by (simp_all add: events_client_defs events_recording_def)

end
