(* ===== verification/Events_Tests.thy ===== *)
theory Events_Tests
  imports Events_Service
begin

text \<open>
  The unit tests of \<^verbatim>\<open>client/events.rs\<close>: each is the counter it reads and the call it makes, with the arguments of the
  source. Against the mock server a test passes exactly when the answer to its call is the one it expects.
\<close>

definition Events_test_subscribe :: "('c v3_events_EventsClient, 'c) client_test" where
  "Events_test_subscribe = \<lparr>
     client_test.counter_service = ''Events'', client_test.counter_rpc = ''GetEvents'',
     client_test.test_call = (\<lambda>cl c. unwrap_collect (Events_subscribe cl ''session-id'' (tasks_filter_lists \<lparr>tasks_filter_Or.or_ands = []\<rparr>) (results_filter_lists \<lparr>results_filter_Or.or_ands = []\<rparr>) [events_EventsEnum.Unspecified] c))\<rparr>"

definition Events_test_subscribe_call :: "('c v3_events_EventsClient, 'c) client_test" where
  "Events_test_subscribe_call = \<lparr>
     client_test.counter_service = ''Events'', client_test.counter_rpc = ''GetEvents'',
     client_test.test_call = (\<lambda>cl c. unwrap_collect (Events_call_subscribe cl \<lparr>events_subscribe_Request.session_id = ''session-id'', events_subscribe_Request.task_filters = \<lparr>tasks_filter_Or.or_ands = []\<rparr>, events_subscribe_Request.result_filters = \<lparr>results_filter_Or.or_ands = []\<rparr>, events_subscribe_Request.returned_events = []\<rparr> c))\<rparr>"

definition Events_tests :: "('c v3_events_EventsClient, 'c) client_test list" where
  "Events_tests = [
     Events_test_subscribe,
     Events_test_subscribe_call]"

section \<open>The answers of the mock server\<close>

text \<open>
  The class of the mock server that implements the service, as the stub of a client connected to it. A field that is not set
  has its default. Its methods keep no state; one that is sent a stream reads it to its end, which the streams of the tests
  have.
\<close>

definition events_mock :: "'c v3_events_EventsClient" where
  "events_mock = \<lparr>
     v3_events_EventsClient.get_events = (\<lambda>r c. (Inr (SCons (Inr \<lparr>v3_events_EventSubscriptionResponse.session_id = ''session-id'', v3_events_EventSubscriptionResponse.update = Some (v3_events_event_subscription_response_Update.NewResult \<lparr>v3_events_event_subscription_response_NewResult.result_id = ''result-id'', v3_events_event_subscription_response_NewResult.owner_id = ''owner-id'', v3_events_event_subscription_response_NewResult.status = 1\<rparr>)\<rparr>) SNil), c))\<rparr>"

section \<open>When the tests pass\<close>

lemma Events_test_subscribe_iff:
  "length l < 2 ^ 63 - 1 \<Longrightarrow> counted mock_counter (\<lambda>_. Some (events_recording cl)) Events_test_subscribe (l, c) \<longleftrightarrow>
     fst (test_call Events_test_subscribe cl c)"
  by (rule counted_iff [where rec = events_recording and svc = "''Events''" and rpc = "''GetEvents''"])
    (simp_all add: Events_test_subscribe_def events_client_defs events_recording_def logged_simps counts_simps)

lemma Events_test_subscribe_call_iff:
  "length l < 2 ^ 63 - 1 \<Longrightarrow> counted mock_counter (\<lambda>_. Some (events_recording cl)) Events_test_subscribe_call (l, c) \<longleftrightarrow>
     fst (test_call Events_test_subscribe_call cl c)"
  by (rule counted_iff [where rec = events_recording and svc = "''Events''" and rpc = "''GetEvents''"])
    (simp_all add: Events_test_subscribe_call_def events_client_defs events_recording_def logged_simps counts_simps)

lemma Events_tests_iff:
  "length l < 2 ^ 63 - 1 \<Longrightarrow>
     map (\<lambda>t. counted mock_counter (\<lambda>_. Some (events_recording cl)) t (l, c)) Events_tests =
     map (\<lambda>t. fst (test_call t cl c)) Events_tests"
  by (simp add: Events_tests_def
      Events_test_subscribe_iff
      Events_test_subscribe_call_iff)

text \<open>The mock server answers all of them as they expect.\<close>

lemma events_mock_answers: "list_all (\<lambda>t. fst (test_call t events_mock c)) Events_tests"
  by (simp add: Events_tests_def events_mock_def mock_simps events_client_defs
      Events_test_subscribe_def
      Events_test_subscribe_call_def)

lemma Events_tests_pass:
  "length l < 2 ^ 63 - 1 \<Longrightarrow>
     list_all (\<lambda>t. counted mock_counter (\<lambda>_. Some (events_recording events_mock)) t (l, c)) Events_tests"
  by (rule list_all_decided [OF _ events_mock_answers]) (rule Events_tests_iff)

section \<open>The integration tests\<close>

text \<open>
  \<^verbatim>\<open>tests/events.rs\<close>: the service that the test starts without a wait, which answers a stream without end. The test itself
  drops the stream and waits for the service to notice, and is not modelled; what a subscriber receives is.
\<close>

primcorec events_test_stream :: "tonic_Status option \<Rightarrow> string \<Rightarrow> (tonic_Status + events_subscribe_Response) Stream" where
  "events_test_stream fails session_id' = SCons
     (case fails of
        Some failure \<Rightarrow> Inl failure
      | None \<Rightarrow> Inr \<lparr>events_subscribe_Response.session_id = session_id',
          events_subscribe_Response.update = events_Update.NewResult (events_NewResult_default\<lparr>
            events_NewResult.result_id := ''rpc-subscribe-output''\<rparr>)\<rparr>)
     (if fails = None then events_test_stream fails session_id' else SNil)"

text \<open>Without a failure the stream goes on for ever with the same event.\<close>

lemma stake_events_test_stream:
  "stake n (events_test_stream None sid) = replicate n (Inr \<lparr>events_subscribe_Response.session_id = sid,
     events_subscribe_Response.update = events_Update.NewResult (events_NewResult_default\<lparr>
       events_NewResult.result_id := ''rpc-subscribe-output''\<rparr>)\<rparr>)"
proof (induction n)
  case (Suc n)
  then show ?case by (subst events_test_stream.code) simp
qed simp

definition events_test_service :: "tonic_Status option \<Rightarrow> ('h, 'e, 's) EventsService" where
  "events_test_service fails = \<lparr>
     EventsService.subscribe = (\<lambda>r ctx s. (Inr (events_test_stream fails (events_subscribe_Request.session_id r)), s))\<rparr>"

lemma Events_subscribe_in_process:
  "Events_subscribe (events_loopback ih m e svc) sid tf rf evs s =
     in_process_stream (EventsService.subscribe svc
       \<lparr>events_subscribe_Request.session_id = sid,
        events_subscribe_Request.task_filters = tasks_filter_collect tf,
        events_subscribe_Request.result_filters = results_filter_collect rf,
        events_subscribe_Request.returned_events = evs\<rparr> (direct_context ih m e) s)"
  by (simp add: events_link_defs)

text \<open>The first \<open>n\<close> events of a subscription are the event of the session, \<open>n\<close> times.\<close>

lemma events_test_subscription:
  "map_ok (stake n) (Events_subscribe (events_loopback ih m e (events_test_service None)) sid tf rf evs s) =
     (Inr (replicate n (Inr \<lparr>events_subscribe_Response.session_id = sid,
        events_subscribe_Response.update = events_Update.NewResult (events_NewResult_default\<lparr>
          events_NewResult.result_id := ''rpc-subscribe-output''\<rparr>)\<rparr>)), s)"
  by (simp add: Events_subscribe_in_process events_test_service_def in_process_stream_def map_ok_def stake_map
      stake_events_test_stream)

end
