(* ===== verification/Sessions.thy ===== *)
theory Sessions
  imports Filters
begin

text \<open>Objects of the sessions service (\<^verbatim>\<open>objects/sessions\<close>).\<close>

section \<open>Fields\<close>

datatype sessions_RawField =
    Unspecified
  | SessionId
  | Status
  | ClientSubmission
  | WorkerSubmission
  | PartitionIds
  | Options
  | CreatedAt
  | CancelledAt
  | ClosedAt
  | PurgedAt
  | DeletedAt
  | Duration

primrec sessions_RawField_as_i32 :: "sessions_RawField \<Rightarrow> i32" where
    "sessions_RawField_as_i32 sessions_RawField.Unspecified = 0"
  | "sessions_RawField_as_i32 sessions_RawField.SessionId = 1"
  | "sessions_RawField_as_i32 sessions_RawField.Status = 2"
  | "sessions_RawField_as_i32 sessions_RawField.ClientSubmission = 8"
  | "sessions_RawField_as_i32 sessions_RawField.WorkerSubmission = 9"
  | "sessions_RawField_as_i32 sessions_RawField.PartitionIds = 3"
  | "sessions_RawField_as_i32 sessions_RawField.Options = 4"
  | "sessions_RawField_as_i32 sessions_RawField.CreatedAt = 5"
  | "sessions_RawField_as_i32 sessions_RawField.CancelledAt = 6"
  | "sessions_RawField_as_i32 sessions_RawField.ClosedAt = 12"
  | "sessions_RawField_as_i32 sessions_RawField.PurgedAt = 10"
  | "sessions_RawField_as_i32 sessions_RawField.DeletedAt = 11"
  | "sessions_RawField_as_i32 sessions_RawField.Duration = 7"

definition sessions_RawField_default :: sessions_RawField where
  "sessions_RawField_default = sessions_RawField.SessionId"

definition sessions_RawField_of_i32 :: "i32 \<Rightarrow> sessions_RawField" where
  "sessions_RawField_of_i32 i =
    (if i = 0 then sessions_RawField.Unspecified
     else if i = 1 then sessions_RawField.SessionId
     else if i = 2 then sessions_RawField.Status
     else if i = 8 then sessions_RawField.ClientSubmission
     else if i = 9 then sessions_RawField.WorkerSubmission
     else if i = 3 then sessions_RawField.PartitionIds
     else if i = 4 then sessions_RawField.Options
     else if i = 5 then sessions_RawField.CreatedAt
     else if i = 6 then sessions_RawField.CancelledAt
     else if i = 12 then sessions_RawField.ClosedAt
     else if i = 10 then sessions_RawField.PurgedAt
     else if i = 11 then sessions_RawField.DeletedAt
     else if i = 7 then sessions_RawField.Duration
     else sessions_RawField.Unspecified)"

interpretation sessions_RawField_enum: proto_enum sessions_RawField_as_i32 sessions_RawField_of_i32 sessions_RawField.Unspecified
proof unfold_locales
  fix e
  show "sessions_RawField_of_i32 (sessions_RawField_as_i32 e) = e" by (cases e) (simp_all add: sessions_RawField_of_i32_def sessions_RawField_default_def)
next
  fix i
  assume "sessions_RawField_of_i32 i \<noteq> sessions_RawField.Unspecified"
  then show "sessions_RawField_as_i32 (sessions_RawField_of_i32 i) = i"
    by (simp add: sessions_RawField_of_i32_def sessions_RawField_default_def split: if_splits)
qed

text \<open>
  The schema's value of the same name. Unlike for the other enumerations the numbers do not all
  agree: five fields are numbered differently (\<open>sessions_RawField_renumbered\<close>).
\<close>

datatype v3_sessions_SessionRawEnumField =
    Unspecified
  | SessionId
  | Status
  | PartitionIds
  | Options
  | CreatedAt
  | CancelledAt
  | ClosedAt
  | PurgedAt
  | DeletedAt
  | Duration
  | WorkerSubmission
  | ClientSubmission

primrec v3_sessions_SessionRawEnumField_as_i32 :: "v3_sessions_SessionRawEnumField \<Rightarrow> i32" where
    "v3_sessions_SessionRawEnumField_as_i32 v3_sessions_SessionRawEnumField.Unspecified = 0"
  | "v3_sessions_SessionRawEnumField_as_i32 v3_sessions_SessionRawEnumField.SessionId = 1"
  | "v3_sessions_SessionRawEnumField_as_i32 v3_sessions_SessionRawEnumField.Status = 2"
  | "v3_sessions_SessionRawEnumField_as_i32 v3_sessions_SessionRawEnumField.PartitionIds = 3"
  | "v3_sessions_SessionRawEnumField_as_i32 v3_sessions_SessionRawEnumField.Options = 4"
  | "v3_sessions_SessionRawEnumField_as_i32 v3_sessions_SessionRawEnumField.CreatedAt = 5"
  | "v3_sessions_SessionRawEnumField_as_i32 v3_sessions_SessionRawEnumField.CancelledAt = 6"
  | "v3_sessions_SessionRawEnumField_as_i32 v3_sessions_SessionRawEnumField.ClosedAt = 8"
  | "v3_sessions_SessionRawEnumField_as_i32 v3_sessions_SessionRawEnumField.PurgedAt = 9"
  | "v3_sessions_SessionRawEnumField_as_i32 v3_sessions_SessionRawEnumField.DeletedAt = 10"
  | "v3_sessions_SessionRawEnumField_as_i32 v3_sessions_SessionRawEnumField.Duration = 7"
  | "v3_sessions_SessionRawEnumField_as_i32 v3_sessions_SessionRawEnumField.WorkerSubmission = 11"
  | "v3_sessions_SessionRawEnumField_as_i32 v3_sessions_SessionRawEnumField.ClientSubmission = 12"

primrec sessions_RawField_schema :: "sessions_RawField \<Rightarrow> v3_sessions_SessionRawEnumField" where
    "sessions_RawField_schema sessions_RawField.Unspecified = v3_sessions_SessionRawEnumField.Unspecified"
  | "sessions_RawField_schema sessions_RawField.SessionId = v3_sessions_SessionRawEnumField.SessionId"
  | "sessions_RawField_schema sessions_RawField.Status = v3_sessions_SessionRawEnumField.Status"
  | "sessions_RawField_schema sessions_RawField.ClientSubmission = v3_sessions_SessionRawEnumField.ClientSubmission"
  | "sessions_RawField_schema sessions_RawField.WorkerSubmission = v3_sessions_SessionRawEnumField.WorkerSubmission"
  | "sessions_RawField_schema sessions_RawField.PartitionIds = v3_sessions_SessionRawEnumField.PartitionIds"
  | "sessions_RawField_schema sessions_RawField.Options = v3_sessions_SessionRawEnumField.Options"
  | "sessions_RawField_schema sessions_RawField.CreatedAt = v3_sessions_SessionRawEnumField.CreatedAt"
  | "sessions_RawField_schema sessions_RawField.CancelledAt = v3_sessions_SessionRawEnumField.CancelledAt"
  | "sessions_RawField_schema sessions_RawField.ClosedAt = v3_sessions_SessionRawEnumField.ClosedAt"
  | "sessions_RawField_schema sessions_RawField.PurgedAt = v3_sessions_SessionRawEnumField.PurgedAt"
  | "sessions_RawField_schema sessions_RawField.DeletedAt = v3_sessions_SessionRawEnumField.DeletedAt"
  | "sessions_RawField_schema sessions_RawField.Duration = v3_sessions_SessionRawEnumField.Duration"

definition sessions_RawField_renumbered :: "sessions_RawField set" where
  "sessions_RawField_renumbered = {sessions_RawField.ClientSubmission, sessions_RawField.WorkerSubmission,
     sessions_RawField.ClosedAt, sessions_RawField.PurgedAt, sessions_RawField.DeletedAt}"

lemma sessions_RawField_number_agrees_iff:
  "v3_sessions_SessionRawEnumField_as_i32 (sessions_RawField_schema f) = sessions_RawField_as_i32 f
   \<longleftrightarrow> f \<notin> sessions_RawField_renumbered"
  by (cases f) (simp_all add: sessions_RawField_renumbered_def)

record v3_sessions_SessionRawField =
  field :: i32

record v3_sessions_TaskOptionGenericField =
  field :: string

datatype v3_sessions_session_field_Field =
    SessionRawField v3_sessions_SessionRawField
  | TaskOptionField v3_sessions_TaskOptionField
  | TaskOptionGenericField v3_sessions_TaskOptionGenericField

record v3_sessions_SessionField =
  field :: "v3_sessions_session_field_Field option"

definition sessions_RawField_to_v3 :: "sessions_RawField \<Rightarrow> v3_sessions_SessionRawField" where
  "sessions_RawField_to_v3 v = \<lparr>v3_sessions_SessionRawField.field = sessions_RawField_as_i32 v\<rparr>"

definition sessions_RawField_of_v3 :: "v3_sessions_SessionRawField \<Rightarrow> sessions_RawField" where
  "sessions_RawField_of_v3 v = sessions_RawField_of_i32 (v3_sessions_SessionRawField.field v)"

interpretation sessions_RawField_codec: wire_codec sessions_RawField_to_v3 sessions_RawField_of_v3
  by unfold_locales (simp add: sessions_RawField_to_v3_def sessions_RawField_of_v3_def)

datatype sessions_Field =
    Raw sessions_RawField
  | TaskOption TaskOptionField
  | TaskOptionGeneric string

definition sessions_Field_default :: sessions_Field where
  "sessions_Field_default = sessions_Field.Raw sessions_RawField_default"

definition sessions_Field_to_v3 :: "sessions_Field \<Rightarrow> v3_sessions_SessionField" where
  "sessions_Field_to_v3 v = \<lparr>v3_sessions_SessionField.field = Some (case v of
       sessions_Field.Raw f \<Rightarrow> v3_sessions_session_field_Field.SessionRawField (sessions_RawField_to_v3 f)
     | sessions_Field.TaskOption f \<Rightarrow> v3_sessions_session_field_Field.TaskOptionField (TaskOptionField_to_v3_sessions f)
     | sessions_Field.TaskOptionGeneric f \<Rightarrow> v3_sessions_session_field_Field.TaskOptionGenericField (\<lparr>v3_sessions_TaskOptionGenericField.field = f\<rparr>))\<rparr>"

definition sessions_Field_of_v3 :: "v3_sessions_SessionField \<Rightarrow> sessions_Field" where
  "sessions_Field_of_v3 v = (case v3_sessions_SessionField.field v of
       Some (v3_sessions_session_field_Field.SessionRawField f) \<Rightarrow> sessions_Field.Raw (sessions_RawField_of_v3 f)
     | Some (v3_sessions_session_field_Field.TaskOptionField f) \<Rightarrow> sessions_Field.TaskOption (TaskOptionField_of_v3_sessions f)
     | Some (v3_sessions_session_field_Field.TaskOptionGenericField f) \<Rightarrow> sessions_Field.TaskOptionGeneric (v3_sessions_TaskOptionGenericField.field f)
     | None \<Rightarrow> sessions_Field_default)"

interpretation sessions_Field_codec: wire_codec sessions_Field_to_v3 sessions_Field_of_v3
proof unfold_locales
  fix x
  show "sessions_Field_of_v3 (sessions_Field_to_v3 x) = x" by (cases x) (simp_all add: sessions_Field_to_v3_def sessions_Field_of_v3_def)
qed

section \<open>Filters and sort\<close>

record v3_sessions_FilterStatus =
  "value" :: i32
  operator :: i32

datatype v3_sessions_filter_field_ValueCondition =
    FilterString v3_FilterString
  | FilterNumber v3_FilterNumber
  | FilterBoolean v3_FilterBoolean
  | FilterStatus v3_sessions_FilterStatus
  | FilterDate v3_FilterDate
  | FilterArray v3_FilterArray
  | FilterDuration v3_FilterDuration

record v3_sessions_FilterField =
  field :: "v3_sessions_SessionField option"
  value_condition :: "v3_sessions_filter_field_ValueCondition option"

record v3_sessions_FiltersAnd =
  and_fields :: "v3_sessions_FilterField list"

record v3_sessions_Filters =
  or_ands :: "v3_sessions_FiltersAnd list"

type_synonym sessions_filter_Status = "SessionStatus FilterStatus"

definition sessions_filter_Status_to_v3 :: "sessions_filter_Status \<Rightarrow> v3_sessions_FilterStatus" where
  "sessions_filter_Status_to_v3 v = \<lparr>
     v3_sessions_FilterStatus.value = SessionStatus_as_i32 (FilterStatus.value v),
     v3_sessions_FilterStatus.operator = FilterStatusOperator_as_i32 (FilterStatus.operator v)\<rparr>"

definition sessions_filter_Status_of_v3 :: "v3_sessions_FilterStatus \<Rightarrow> sessions_filter_Status" where
  "sessions_filter_Status_of_v3 v = \<lparr>
     FilterStatus.value = SessionStatus_of_i32 (v3_sessions_FilterStatus.value v),
     FilterStatus.operator = FilterStatusOperator_of_i32 (v3_sessions_FilterStatus.operator v)\<rparr>"

interpretation sessions_filter_Status_codec: wire_codec sessions_filter_Status_to_v3 sessions_filter_Status_of_v3
  by unfold_locales (simp add: sessions_filter_Status_to_v3_def sessions_filter_Status_of_v3_def)

datatype sessions_filter_Condition =
    String FilterString
  | Number FilterNumber
  | Boolean FilterBoolean
  | Status sessions_filter_Status
  | Date FilterDate
  | Duration FilterDuration
  | Array FilterArray

definition sessions_filter_Condition_default :: sessions_filter_Condition where
  "sessions_filter_Condition_default = sessions_filter_Condition.String FilterString_default"

primrec sessions_filter_Condition_to_v3 :: "sessions_filter_Condition \<Rightarrow> v3_sessions_filter_field_ValueCondition" where
    "sessions_filter_Condition_to_v3 (sessions_filter_Condition.String cond) = v3_sessions_filter_field_ValueCondition.FilterString (FilterString_to_v3 cond)"
  | "sessions_filter_Condition_to_v3 (sessions_filter_Condition.Number cond) = v3_sessions_filter_field_ValueCondition.FilterNumber (FilterNumber_to_v3 cond)"
  | "sessions_filter_Condition_to_v3 (sessions_filter_Condition.Boolean cond) = v3_sessions_filter_field_ValueCondition.FilterBoolean (FilterBoolean_to_v3 cond)"
  | "sessions_filter_Condition_to_v3 (sessions_filter_Condition.Status cond) = v3_sessions_filter_field_ValueCondition.FilterStatus (sessions_filter_Status_to_v3 cond)"
  | "sessions_filter_Condition_to_v3 (sessions_filter_Condition.Date cond) = v3_sessions_filter_field_ValueCondition.FilterDate (FilterDate_to_v3 cond)"
  | "sessions_filter_Condition_to_v3 (sessions_filter_Condition.Duration cond) = v3_sessions_filter_field_ValueCondition.FilterDuration (FilterDuration_to_v3 cond)"
  | "sessions_filter_Condition_to_v3 (sessions_filter_Condition.Array cond) = v3_sessions_filter_field_ValueCondition.FilterArray (FilterArray_to_v3 cond)"

primrec sessions_filter_Condition_of_v3 :: "v3_sessions_filter_field_ValueCondition \<Rightarrow> sessions_filter_Condition" where
    "sessions_filter_Condition_of_v3 (v3_sessions_filter_field_ValueCondition.FilterString cond) = sessions_filter_Condition.String (FilterString_of_v3 cond)"
  | "sessions_filter_Condition_of_v3 (v3_sessions_filter_field_ValueCondition.FilterNumber cond) = sessions_filter_Condition.Number (FilterNumber_of_v3 cond)"
  | "sessions_filter_Condition_of_v3 (v3_sessions_filter_field_ValueCondition.FilterBoolean cond) = sessions_filter_Condition.Boolean (FilterBoolean_of_v3 cond)"
  | "sessions_filter_Condition_of_v3 (v3_sessions_filter_field_ValueCondition.FilterStatus cond) = sessions_filter_Condition.Status (sessions_filter_Status_of_v3 cond)"
  | "sessions_filter_Condition_of_v3 (v3_sessions_filter_field_ValueCondition.FilterDate cond) = sessions_filter_Condition.Date (FilterDate_of_v3 cond)"
  | "sessions_filter_Condition_of_v3 (v3_sessions_filter_field_ValueCondition.FilterArray cond) = sessions_filter_Condition.Array (FilterArray_of_v3 cond)"
  | "sessions_filter_Condition_of_v3 (v3_sessions_filter_field_ValueCondition.FilterDuration cond) = sessions_filter_Condition.Duration (FilterDuration_of_v3 cond)"

interpretation sessions_filter_Condition_codec: wire_codec sessions_filter_Condition_to_v3 sessions_filter_Condition_of_v3
proof unfold_locales
  fix c
  show "sessions_filter_Condition_of_v3 (sessions_filter_Condition_to_v3 c) = c" by (cases c) simp_all
qed

record sessions_filter_Field =
  field :: sessions_Field
  condition :: sessions_filter_Condition

definition sessions_filter_Field_default :: sessions_filter_Field where
  "sessions_filter_Field_default = \<lparr>
     sessions_filter_Field.field = sessions_Field_default,
     sessions_filter_Field.condition = sessions_filter_Condition_default\<rparr>"

definition sessions_filter_Field_to_v3 :: "sessions_filter_Field \<Rightarrow> v3_sessions_FilterField" where
  "sessions_filter_Field_to_v3 v = \<lparr>
     v3_sessions_FilterField.field = Some (sessions_Field_to_v3 (sessions_filter_Field.field v)),
     v3_sessions_FilterField.value_condition = Some (sessions_filter_Condition_to_v3 (sessions_filter_Field.condition v))\<rparr>"

definition sessions_filter_Field_of_v3 :: "v3_sessions_FilterField \<Rightarrow> sessions_filter_Field" where
  "sessions_filter_Field_of_v3 v = \<lparr>
     sessions_filter_Field.field = map_or_default sessions_Field_default sessions_Field_of_v3 (v3_sessions_FilterField.field v),
     sessions_filter_Field.condition = map_or_default sessions_filter_Condition_default sessions_filter_Condition_of_v3 (v3_sessions_FilterField.value_condition v)\<rparr>"

interpretation sessions_filter_Field_codec: wire_codec sessions_filter_Field_to_v3 sessions_filter_Field_of_v3
  by unfold_locales (simp add: sessions_filter_Field_to_v3_def sessions_filter_Field_of_v3_def)

record sessions_filter_And =
  and_fields :: "sessions_filter_Field list"

definition sessions_filter_And_default :: sessions_filter_And where
  "sessions_filter_And_default = \<lparr>
     sessions_filter_And.and_fields = []\<rparr>"

definition sessions_filter_And_to_v3 :: "sessions_filter_And \<Rightarrow> v3_sessions_FiltersAnd" where
  "sessions_filter_And_to_v3 v = \<lparr>
     v3_sessions_FiltersAnd.and_fields = into_collect sessions_filter_Field_to_v3 (sessions_filter_And.and_fields v)\<rparr>"

definition sessions_filter_And_of_v3 :: "v3_sessions_FiltersAnd \<Rightarrow> sessions_filter_And" where
  "sessions_filter_And_of_v3 v = \<lparr>
     sessions_filter_And.and_fields = into_collect sessions_filter_Field_of_v3 (v3_sessions_FiltersAnd.and_fields v)\<rparr>"

interpretation sessions_filter_And_codec: wire_codec sessions_filter_And_to_v3 sessions_filter_And_of_v3
  by unfold_locales (simp add: sessions_filter_And_to_v3_def sessions_filter_And_of_v3_def)

record sessions_filter_Or =
  or_ands :: "sessions_filter_And list"

definition sessions_filter_Or_default :: sessions_filter_Or where
  "sessions_filter_Or_default = \<lparr>
     sessions_filter_Or.or_ands = []\<rparr>"

definition sessions_filter_Or_to_v3 :: "sessions_filter_Or \<Rightarrow> v3_sessions_Filters" where
  "sessions_filter_Or_to_v3 v = \<lparr>
     v3_sessions_Filters.or_ands = into_collect sessions_filter_And_to_v3 (sessions_filter_Or.or_ands v)\<rparr>"

definition sessions_filter_Or_of_v3 :: "v3_sessions_Filters \<Rightarrow> sessions_filter_Or" where
  "sessions_filter_Or_of_v3 v = \<lparr>
     sessions_filter_Or.or_ands = into_collect sessions_filter_And_of_v3 (v3_sessions_Filters.or_ands v)\<rparr>"

interpretation sessions_filter_Or_codec: wire_codec sessions_filter_Or_to_v3 sessions_filter_Or_of_v3
  by unfold_locales (simp add: sessions_filter_Or_to_v3_def sessions_filter_Or_of_v3_def)

text \<open>Both are wrappers of vectors: they collect from and iterate like their vector.\<close>

definition sessions_filter_And_from_iter :: "sessions_filter_Field list \<Rightarrow> sessions_filter_And" where
  "sessions_filter_And_from_iter xs = \<lparr>sessions_filter_And.and_fields = xs\<rparr>"

definition sessions_filter_And_into_iter :: "sessions_filter_And \<Rightarrow> sessions_filter_Field list" where
  "sessions_filter_And_into_iter v = sessions_filter_And.and_fields v"

interpretation sessions_filter_And_wrapper: vec_wrapper sessions_filter_And.and_fields sessions_filter_And.and_fields_update sessions_filter_And_from_iter
  by unfold_locales (simp_all add: sessions_filter_And_from_iter_def)

definition sessions_filter_Or_from_iter :: "sessions_filter_And list \<Rightarrow> sessions_filter_Or" where
  "sessions_filter_Or_from_iter xs = \<lparr>sessions_filter_Or.or_ands = xs\<rparr>"

definition sessions_filter_Or_into_iter :: "sessions_filter_Or \<Rightarrow> sessions_filter_And list" where
  "sessions_filter_Or_into_iter v = sessions_filter_Or.or_ands v"

interpretation sessions_filter_Or_wrapper: vec_wrapper sessions_filter_Or.or_ands sessions_filter_Or.or_ands_update sessions_filter_Or_from_iter
  by unfold_locales (simp_all add: sessions_filter_Or_from_iter_def)

text \<open>The lists of lists of conditions that the client methods accept.\<close>

definition sessions_filter_collect :: "sessions_filter_Field list list \<Rightarrow> sessions_filter_Or" where
  "sessions_filter_collect fss = sessions_filter_Or_from_iter (map (\<lambda>fs. sessions_filter_And_from_iter (map (\<lambda>f. f) fs)) fss)"

definition sessions_filter_lists :: "sessions_filter_Or \<Rightarrow> sessions_filter_Field list list" where
  "sessions_filter_lists v = map sessions_filter_And_into_iter (sessions_filter_Or_into_iter v)"

lemmas sessions_filter_wrapper_defs = sessions_filter_And_from_iter_def sessions_filter_And_into_iter_def sessions_filter_Or_from_iter_def sessions_filter_Or_into_iter_def
  sessions_filter_collect_def sessions_filter_lists_def

lemma sessions_filter_collect_lists [simp]: "sessions_filter_collect (sessions_filter_lists v) = v"
  by (cases v) (auto simp: sessions_filter_wrapper_defs intro!: map_idI)

record v3_sessions_list_sessions_request_Sort =
  field :: "v3_sessions_SessionField option"
  direction :: i32

record v3_sessions_ListSessionsRequest =
  page :: i32
  page_size :: i32
  filters :: "v3_sessions_Filters option"
  sort :: "v3_sessions_list_sessions_request_Sort option"
  with_task_options :: bool

record v3_sessions_SessionRaw =
  session_id :: string
  status :: i32
  client_submission :: bool
  worker_submission :: bool
  partition_ids :: "string list"
  options :: "v3_TaskOptions option"
  created_at :: "Timestamp option"
  cancelled_at :: "Timestamp option"
  closed_at :: "Timestamp option"
  purged_at :: "Timestamp option"
  deleted_at :: "Timestamp option"
  duration :: "prost_Duration option"

record v3_sessions_ListSessionsResponse =
  sessions :: "v3_sessions_SessionRaw list"
  page :: i32
  page_size :: i32
  total :: i32

type_synonym sessions_Sort = "sessions_Field Sort"

definition sessions_Sort_default :: sessions_Sort where
  "sessions_Sort_default = Sort_default sessions_Field_default"

definition sessions_Sort_to_v3 :: "sessions_Sort \<Rightarrow> v3_sessions_list_sessions_request_Sort" where
  "sessions_Sort_to_v3 v = \<lparr>
     v3_sessions_list_sessions_request_Sort.field = Some (sessions_Field_to_v3 (Sort.field v)),
     v3_sessions_list_sessions_request_Sort.direction = SortDirection_as_i32 (Sort.direction v)\<rparr>"

definition sessions_Sort_of_v3 :: "v3_sessions_list_sessions_request_Sort \<Rightarrow> sessions_Sort" where
  "sessions_Sort_of_v3 v = \<lparr>
     Sort.field = map_or_default sessions_Field_default sessions_Field_of_v3 (v3_sessions_list_sessions_request_Sort.field v),
     Sort.direction = SortDirection_of_i32 (v3_sessions_list_sessions_request_Sort.direction v)\<rparr>"

interpretation sessions_Sort_codec: wire_codec sessions_Sort_to_v3 sessions_Sort_of_v3
  by unfold_locales (simp add: sessions_Sort_to_v3_def sessions_Sort_of_v3_def)

section \<open>Sessions\<close>

record sessions_Raw =
  session_id :: string
  status :: SessionStatus
  client_submission :: bool
  worker_submission :: bool
  partition_ids :: "string list"
  default_task_options :: TaskOptions
  created_at :: "Timestamp option"
  cancelled_at :: "Timestamp option"
  closed_at :: "Timestamp option"
  purged_at :: "Timestamp option"
  deleted_at :: "Timestamp option"
  duration :: "prost_Duration option"

definition sessions_Raw_default :: sessions_Raw where
  "sessions_Raw_default = \<lparr>
     sessions_Raw.session_id = '''',
     sessions_Raw.status = SessionStatus_default,
     sessions_Raw.client_submission = False,
     sessions_Raw.worker_submission = False,
     sessions_Raw.partition_ids = [],
     sessions_Raw.default_task_options = TaskOptions_default,
     sessions_Raw.created_at = None,
     sessions_Raw.cancelled_at = None,
     sessions_Raw.closed_at = None,
     sessions_Raw.purged_at = None,
     sessions_Raw.deleted_at = None,
     sessions_Raw.duration = None\<rparr>"

definition sessions_Raw_to_v3 :: "sessions_Raw \<Rightarrow> v3_sessions_SessionRaw" where
  "sessions_Raw_to_v3 v = \<lparr>
     v3_sessions_SessionRaw.session_id = sessions_Raw.session_id v,
     v3_sessions_SessionRaw.status = SessionStatus_as_i32 (sessions_Raw.status v),
     v3_sessions_SessionRaw.client_submission = sessions_Raw.client_submission v,
     v3_sessions_SessionRaw.worker_submission = sessions_Raw.worker_submission v,
     v3_sessions_SessionRaw.partition_ids = sessions_Raw.partition_ids v,
     v3_sessions_SessionRaw.options = Some (TaskOptions_to_v3 (sessions_Raw.default_task_options v)),
     v3_sessions_SessionRaw.created_at = sessions_Raw.created_at v,
     v3_sessions_SessionRaw.cancelled_at = sessions_Raw.cancelled_at v,
     v3_sessions_SessionRaw.closed_at = sessions_Raw.closed_at v,
     v3_sessions_SessionRaw.purged_at = sessions_Raw.purged_at v,
     v3_sessions_SessionRaw.deleted_at = sessions_Raw.deleted_at v,
     v3_sessions_SessionRaw.duration = sessions_Raw.duration v\<rparr>"

definition sessions_Raw_of_v3 :: "v3_sessions_SessionRaw \<Rightarrow> sessions_Raw" where
  "sessions_Raw_of_v3 v = \<lparr>
     sessions_Raw.session_id = v3_sessions_SessionRaw.session_id v,
     sessions_Raw.status = SessionStatus_of_i32 (v3_sessions_SessionRaw.status v),
     sessions_Raw.client_submission = v3_sessions_SessionRaw.client_submission v,
     sessions_Raw.worker_submission = v3_sessions_SessionRaw.worker_submission v,
     sessions_Raw.partition_ids = v3_sessions_SessionRaw.partition_ids v,
     sessions_Raw.default_task_options = map_or_default TaskOptions_default TaskOptions_of_v3 (v3_sessions_SessionRaw.options v),
     sessions_Raw.created_at = v3_sessions_SessionRaw.created_at v,
     sessions_Raw.cancelled_at = v3_sessions_SessionRaw.cancelled_at v,
     sessions_Raw.closed_at = v3_sessions_SessionRaw.closed_at v,
     sessions_Raw.purged_at = v3_sessions_SessionRaw.purged_at v,
     sessions_Raw.deleted_at = v3_sessions_SessionRaw.deleted_at v,
     sessions_Raw.duration = v3_sessions_SessionRaw.duration v\<rparr>"

interpretation sessions_Raw_codec: wire_codec sessions_Raw_to_v3 sessions_Raw_of_v3
  by unfold_locales (simp add: sessions_Raw_to_v3_def sessions_Raw_of_v3_def)

record sessions_list_Request =
  page :: i32
  page_size :: i32
  filters :: sessions_filter_Or
  sort :: sessions_Sort
  with_task_options :: bool

definition sessions_list_Request_default :: sessions_list_Request where
  "sessions_list_Request_default = \<lparr>
     sessions_list_Request.page = 0,
     sessions_list_Request.page_size = 100,
     sessions_list_Request.filters = sessions_filter_Or_default,
     sessions_list_Request.sort = sessions_Sort_default,
     sessions_list_Request.with_task_options = False\<rparr>"

definition sessions_list_Request_to_v3 :: "sessions_list_Request \<Rightarrow> v3_sessions_ListSessionsRequest" where
  "sessions_list_Request_to_v3 v = \<lparr>
     v3_sessions_ListSessionsRequest.page = sessions_list_Request.page v,
     v3_sessions_ListSessionsRequest.page_size = sessions_list_Request.page_size v,
     v3_sessions_ListSessionsRequest.filters = Some (sessions_filter_Or_to_v3 (sessions_list_Request.filters v)),
     v3_sessions_ListSessionsRequest.sort = Some (sessions_Sort_to_v3 (sessions_list_Request.sort v)),
     v3_sessions_ListSessionsRequest.with_task_options = sessions_list_Request.with_task_options v\<rparr>"

definition sessions_list_Request_of_v3 :: "v3_sessions_ListSessionsRequest \<Rightarrow> sessions_list_Request" where
  "sessions_list_Request_of_v3 v = \<lparr>
     sessions_list_Request.page = v3_sessions_ListSessionsRequest.page v,
     sessions_list_Request.page_size = v3_sessions_ListSessionsRequest.page_size v,
     sessions_list_Request.filters = map_or_default sessions_filter_Or_default sessions_filter_Or_of_v3 (v3_sessions_ListSessionsRequest.filters v),
     sessions_list_Request.sort = map_or_default sessions_Sort_default sessions_Sort_of_v3 (v3_sessions_ListSessionsRequest.sort v),
     sessions_list_Request.with_task_options = v3_sessions_ListSessionsRequest.with_task_options v\<rparr>"

interpretation sessions_list_Request_codec: wire_codec sessions_list_Request_to_v3 sessions_list_Request_of_v3
  by unfold_locales (simp add: sessions_list_Request_to_v3_def sessions_list_Request_of_v3_def)

record sessions_list_Response =
  sessions :: "sessions_Raw list"
  page :: i32
  page_size :: i32
  total :: i32

definition sessions_list_Response_default :: sessions_list_Response where
  "sessions_list_Response_default = \<lparr>
     sessions_list_Response.sessions = [],
     sessions_list_Response.page = 0,
     sessions_list_Response.page_size = 100,
     sessions_list_Response.total = 0\<rparr>"

definition sessions_list_Response_to_v3 :: "sessions_list_Response \<Rightarrow> v3_sessions_ListSessionsResponse" where
  "sessions_list_Response_to_v3 v = \<lparr>
     v3_sessions_ListSessionsResponse.sessions = into_collect sessions_Raw_to_v3 (sessions_list_Response.sessions v),
     v3_sessions_ListSessionsResponse.page = sessions_list_Response.page v,
     v3_sessions_ListSessionsResponse.page_size = sessions_list_Response.page_size v,
     v3_sessions_ListSessionsResponse.total = sessions_list_Response.total v\<rparr>"

definition sessions_list_Response_of_v3 :: "v3_sessions_ListSessionsResponse \<Rightarrow> sessions_list_Response" where
  "sessions_list_Response_of_v3 v = \<lparr>
     sessions_list_Response.sessions = into_collect sessions_Raw_of_v3 (v3_sessions_ListSessionsResponse.sessions v),
     sessions_list_Response.page = v3_sessions_ListSessionsResponse.page v,
     sessions_list_Response.page_size = v3_sessions_ListSessionsResponse.page_size v,
     sessions_list_Response.total = v3_sessions_ListSessionsResponse.total v\<rparr>"

interpretation sessions_list_Response_codec: wire_codec sessions_list_Response_to_v3 sessions_list_Response_of_v3
  by unfold_locales (simp add: sessions_list_Response_to_v3_def sessions_list_Response_of_v3_def)

record v3_sessions_CreateSessionRequest =
  default_task_option :: "v3_TaskOptions option"
  partition_ids :: "string list"

record v3_sessions_CreateSessionReply =
  session_id :: string

record sessions_create_Request =
  default_task_options :: TaskOptions
  partition_ids :: "string list"

definition sessions_create_Request_default :: sessions_create_Request where
  "sessions_create_Request_default = \<lparr>
     sessions_create_Request.default_task_options = TaskOptions_default,
     sessions_create_Request.partition_ids = []\<rparr>"

definition sessions_create_Request_to_v3 :: "sessions_create_Request \<Rightarrow> v3_sessions_CreateSessionRequest" where
  "sessions_create_Request_to_v3 v = \<lparr>
     v3_sessions_CreateSessionRequest.default_task_option = Some (TaskOptions_to_v3 (sessions_create_Request.default_task_options v)),
     v3_sessions_CreateSessionRequest.partition_ids = sessions_create_Request.partition_ids v\<rparr>"

definition sessions_create_Request_of_v3 :: "v3_sessions_CreateSessionRequest \<Rightarrow> sessions_create_Request" where
  "sessions_create_Request_of_v3 v = \<lparr>
     sessions_create_Request.default_task_options = map_or_default TaskOptions_default TaskOptions_of_v3 (v3_sessions_CreateSessionRequest.default_task_option v),
     sessions_create_Request.partition_ids = v3_sessions_CreateSessionRequest.partition_ids v\<rparr>"

interpretation sessions_create_Request_codec: wire_codec sessions_create_Request_to_v3 sessions_create_Request_of_v3
  by unfold_locales (simp add: sessions_create_Request_to_v3_def sessions_create_Request_of_v3_def)

record sessions_create_Response =
  session_id :: string

definition sessions_create_Response_default :: sessions_create_Response where
  "sessions_create_Response_default = \<lparr>
     sessions_create_Response.session_id = ''''\<rparr>"

definition sessions_create_Response_to_v3 :: "sessions_create_Response \<Rightarrow> v3_sessions_CreateSessionReply" where
  "sessions_create_Response_to_v3 v = \<lparr>
     v3_sessions_CreateSessionReply.session_id = sessions_create_Response.session_id v\<rparr>"

definition sessions_create_Response_of_v3 :: "v3_sessions_CreateSessionReply \<Rightarrow> sessions_create_Response" where
  "sessions_create_Response_of_v3 v = \<lparr>
     sessions_create_Response.session_id = v3_sessions_CreateSessionReply.session_id v\<rparr>"

interpretation sessions_create_Response_codec: wire_codec sessions_create_Response_to_v3 sessions_create_Response_of_v3
  by unfold_locales (simp add: sessions_create_Response_to_v3_def sessions_create_Response_of_v3_def)

record v3_sessions_GetSessionRequest =
  session_id :: string

record v3_sessions_GetSessionResponse =
  session :: "v3_sessions_SessionRaw option"

record v3_sessions_CancelSessionRequest =
  session_id :: string

record v3_sessions_CancelSessionResponse =
  session :: "v3_sessions_SessionRaw option"

record sessions_get_Request =
  session_id :: string

definition sessions_get_Request_default :: sessions_get_Request where
  "sessions_get_Request_default = \<lparr>
     sessions_get_Request.session_id = ''''\<rparr>"

definition sessions_get_Request_to_v3 :: "sessions_get_Request \<Rightarrow> v3_sessions_GetSessionRequest" where
  "sessions_get_Request_to_v3 v = \<lparr>
     v3_sessions_GetSessionRequest.session_id = sessions_get_Request.session_id v\<rparr>"

definition sessions_get_Request_of_v3 :: "v3_sessions_GetSessionRequest \<Rightarrow> sessions_get_Request" where
  "sessions_get_Request_of_v3 v = \<lparr>
     sessions_get_Request.session_id = v3_sessions_GetSessionRequest.session_id v\<rparr>"

interpretation sessions_get_Request_codec: wire_codec sessions_get_Request_to_v3 sessions_get_Request_of_v3
  by unfold_locales (simp add: sessions_get_Request_to_v3_def sessions_get_Request_of_v3_def)

record sessions_get_Response =
  session :: sessions_Raw

definition sessions_get_Response_default :: sessions_get_Response where
  "sessions_get_Response_default = \<lparr>
     sessions_get_Response.session = sessions_Raw_default\<rparr>"

definition sessions_get_Response_to_v3 :: "sessions_get_Response \<Rightarrow> v3_sessions_GetSessionResponse" where
  "sessions_get_Response_to_v3 v = \<lparr>
     v3_sessions_GetSessionResponse.session = Some (sessions_Raw_to_v3 (sessions_get_Response.session v))\<rparr>"

definition sessions_get_Response_of_v3 :: "v3_sessions_GetSessionResponse \<Rightarrow> sessions_get_Response" where
  "sessions_get_Response_of_v3 v = \<lparr>
     sessions_get_Response.session = map_or_default sessions_Raw_default sessions_Raw_of_v3 (v3_sessions_GetSessionResponse.session v)\<rparr>"

interpretation sessions_get_Response_codec: wire_codec sessions_get_Response_to_v3 sessions_get_Response_of_v3
  by unfold_locales (simp add: sessions_get_Response_to_v3_def sessions_get_Response_of_v3_def)

record sessions_cancel_Request =
  session_id :: string

definition sessions_cancel_Request_default :: sessions_cancel_Request where
  "sessions_cancel_Request_default = \<lparr>
     sessions_cancel_Request.session_id = ''''\<rparr>"

definition sessions_cancel_Request_to_v3 :: "sessions_cancel_Request \<Rightarrow> v3_sessions_CancelSessionRequest" where
  "sessions_cancel_Request_to_v3 v = \<lparr>
     v3_sessions_CancelSessionRequest.session_id = sessions_cancel_Request.session_id v\<rparr>"

definition sessions_cancel_Request_of_v3 :: "v3_sessions_CancelSessionRequest \<Rightarrow> sessions_cancel_Request" where
  "sessions_cancel_Request_of_v3 v = \<lparr>
     sessions_cancel_Request.session_id = v3_sessions_CancelSessionRequest.session_id v\<rparr>"

interpretation sessions_cancel_Request_codec: wire_codec sessions_cancel_Request_to_v3 sessions_cancel_Request_of_v3
  by unfold_locales (simp add: sessions_cancel_Request_to_v3_def sessions_cancel_Request_of_v3_def)

record sessions_cancel_Response =
  session :: sessions_Raw

definition sessions_cancel_Response_default :: sessions_cancel_Response where
  "sessions_cancel_Response_default = \<lparr>
     sessions_cancel_Response.session = sessions_Raw_default\<rparr>"

definition sessions_cancel_Response_to_v3 :: "sessions_cancel_Response \<Rightarrow> v3_sessions_CancelSessionResponse" where
  "sessions_cancel_Response_to_v3 v = \<lparr>
     v3_sessions_CancelSessionResponse.session = Some (sessions_Raw_to_v3 (sessions_cancel_Response.session v))\<rparr>"

definition sessions_cancel_Response_of_v3 :: "v3_sessions_CancelSessionResponse \<Rightarrow> sessions_cancel_Response" where
  "sessions_cancel_Response_of_v3 v = \<lparr>
     sessions_cancel_Response.session = map_or_default sessions_Raw_default sessions_Raw_of_v3 (v3_sessions_CancelSessionResponse.session v)\<rparr>"

interpretation sessions_cancel_Response_codec: wire_codec sessions_cancel_Response_to_v3 sessions_cancel_Response_of_v3
  by unfold_locales (simp add: sessions_cancel_Response_to_v3_def sessions_cancel_Response_of_v3_def)

section \<open>Life cycle of a session\<close>

record v3_sessions_CloseSessionRequest =
  session_id :: string

record v3_sessions_CloseSessionResponse =
  session :: "v3_sessions_SessionRaw option"

record v3_sessions_PauseSessionRequest =
  session_id :: string

record v3_sessions_PauseSessionResponse =
  session :: "v3_sessions_SessionRaw option"

record sessions_close_Request =
  session_id :: string

definition sessions_close_Request_default :: sessions_close_Request where
  "sessions_close_Request_default = \<lparr>
     sessions_close_Request.session_id = ''''\<rparr>"

definition sessions_close_Request_to_v3 :: "sessions_close_Request \<Rightarrow> v3_sessions_CloseSessionRequest" where
  "sessions_close_Request_to_v3 v = \<lparr>
     v3_sessions_CloseSessionRequest.session_id = sessions_close_Request.session_id v\<rparr>"

definition sessions_close_Request_of_v3 :: "v3_sessions_CloseSessionRequest \<Rightarrow> sessions_close_Request" where
  "sessions_close_Request_of_v3 v = \<lparr>
     sessions_close_Request.session_id = v3_sessions_CloseSessionRequest.session_id v\<rparr>"

interpretation sessions_close_Request_codec: wire_codec sessions_close_Request_to_v3 sessions_close_Request_of_v3
  by unfold_locales (simp add: sessions_close_Request_to_v3_def sessions_close_Request_of_v3_def)

record sessions_close_Response =
  session :: sessions_Raw

definition sessions_close_Response_default :: sessions_close_Response where
  "sessions_close_Response_default = \<lparr>
     sessions_close_Response.session = sessions_Raw_default\<rparr>"

definition sessions_close_Response_to_v3 :: "sessions_close_Response \<Rightarrow> v3_sessions_CloseSessionResponse" where
  "sessions_close_Response_to_v3 v = \<lparr>
     v3_sessions_CloseSessionResponse.session = Some (sessions_Raw_to_v3 (sessions_close_Response.session v))\<rparr>"

definition sessions_close_Response_of_v3 :: "v3_sessions_CloseSessionResponse \<Rightarrow> sessions_close_Response" where
  "sessions_close_Response_of_v3 v = \<lparr>
     sessions_close_Response.session = map_or_default sessions_Raw_default sessions_Raw_of_v3 (v3_sessions_CloseSessionResponse.session v)\<rparr>"

interpretation sessions_close_Response_codec: wire_codec sessions_close_Response_to_v3 sessions_close_Response_of_v3
  by unfold_locales (simp add: sessions_close_Response_to_v3_def sessions_close_Response_of_v3_def)

record sessions_pause_Request =
  session_id :: string

definition sessions_pause_Request_default :: sessions_pause_Request where
  "sessions_pause_Request_default = \<lparr>
     sessions_pause_Request.session_id = ''''\<rparr>"

definition sessions_pause_Request_to_v3 :: "sessions_pause_Request \<Rightarrow> v3_sessions_PauseSessionRequest" where
  "sessions_pause_Request_to_v3 v = \<lparr>
     v3_sessions_PauseSessionRequest.session_id = sessions_pause_Request.session_id v\<rparr>"

definition sessions_pause_Request_of_v3 :: "v3_sessions_PauseSessionRequest \<Rightarrow> sessions_pause_Request" where
  "sessions_pause_Request_of_v3 v = \<lparr>
     sessions_pause_Request.session_id = v3_sessions_PauseSessionRequest.session_id v\<rparr>"

interpretation sessions_pause_Request_codec: wire_codec sessions_pause_Request_to_v3 sessions_pause_Request_of_v3
  by unfold_locales (simp add: sessions_pause_Request_to_v3_def sessions_pause_Request_of_v3_def)

record sessions_pause_Response =
  session :: sessions_Raw

definition sessions_pause_Response_default :: sessions_pause_Response where
  "sessions_pause_Response_default = \<lparr>
     sessions_pause_Response.session = sessions_Raw_default\<rparr>"

definition sessions_pause_Response_to_v3 :: "sessions_pause_Response \<Rightarrow> v3_sessions_PauseSessionResponse" where
  "sessions_pause_Response_to_v3 v = \<lparr>
     v3_sessions_PauseSessionResponse.session = Some (sessions_Raw_to_v3 (sessions_pause_Response.session v))\<rparr>"

definition sessions_pause_Response_of_v3 :: "v3_sessions_PauseSessionResponse \<Rightarrow> sessions_pause_Response" where
  "sessions_pause_Response_of_v3 v = \<lparr>
     sessions_pause_Response.session = map_or_default sessions_Raw_default sessions_Raw_of_v3 (v3_sessions_PauseSessionResponse.session v)\<rparr>"

interpretation sessions_pause_Response_codec: wire_codec sessions_pause_Response_to_v3 sessions_pause_Response_of_v3
  by unfold_locales (simp add: sessions_pause_Response_to_v3_def sessions_pause_Response_of_v3_def)

record v3_sessions_ResumeSessionRequest =
  session_id :: string

record v3_sessions_ResumeSessionResponse =
  session :: "v3_sessions_SessionRaw option"

record v3_sessions_PurgeSessionRequest =
  session_id :: string

record v3_sessions_PurgeSessionResponse =
  session :: "v3_sessions_SessionRaw option"

record sessions_resume_Request =
  session_id :: string

definition sessions_resume_Request_default :: sessions_resume_Request where
  "sessions_resume_Request_default = \<lparr>
     sessions_resume_Request.session_id = ''''\<rparr>"

definition sessions_resume_Request_to_v3 :: "sessions_resume_Request \<Rightarrow> v3_sessions_ResumeSessionRequest" where
  "sessions_resume_Request_to_v3 v = \<lparr>
     v3_sessions_ResumeSessionRequest.session_id = sessions_resume_Request.session_id v\<rparr>"

definition sessions_resume_Request_of_v3 :: "v3_sessions_ResumeSessionRequest \<Rightarrow> sessions_resume_Request" where
  "sessions_resume_Request_of_v3 v = \<lparr>
     sessions_resume_Request.session_id = v3_sessions_ResumeSessionRequest.session_id v\<rparr>"

interpretation sessions_resume_Request_codec: wire_codec sessions_resume_Request_to_v3 sessions_resume_Request_of_v3
  by unfold_locales (simp add: sessions_resume_Request_to_v3_def sessions_resume_Request_of_v3_def)

record sessions_resume_Response =
  session :: sessions_Raw

definition sessions_resume_Response_default :: sessions_resume_Response where
  "sessions_resume_Response_default = \<lparr>
     sessions_resume_Response.session = sessions_Raw_default\<rparr>"

definition sessions_resume_Response_to_v3 :: "sessions_resume_Response \<Rightarrow> v3_sessions_ResumeSessionResponse" where
  "sessions_resume_Response_to_v3 v = \<lparr>
     v3_sessions_ResumeSessionResponse.session = Some (sessions_Raw_to_v3 (sessions_resume_Response.session v))\<rparr>"

definition sessions_resume_Response_of_v3 :: "v3_sessions_ResumeSessionResponse \<Rightarrow> sessions_resume_Response" where
  "sessions_resume_Response_of_v3 v = \<lparr>
     sessions_resume_Response.session = map_or_default sessions_Raw_default sessions_Raw_of_v3 (v3_sessions_ResumeSessionResponse.session v)\<rparr>"

interpretation sessions_resume_Response_codec: wire_codec sessions_resume_Response_to_v3 sessions_resume_Response_of_v3
  by unfold_locales (simp add: sessions_resume_Response_to_v3_def sessions_resume_Response_of_v3_def)

record sessions_purge_Request =
  session_id :: string

definition sessions_purge_Request_default :: sessions_purge_Request where
  "sessions_purge_Request_default = \<lparr>
     sessions_purge_Request.session_id = ''''\<rparr>"

definition sessions_purge_Request_to_v3 :: "sessions_purge_Request \<Rightarrow> v3_sessions_PurgeSessionRequest" where
  "sessions_purge_Request_to_v3 v = \<lparr>
     v3_sessions_PurgeSessionRequest.session_id = sessions_purge_Request.session_id v\<rparr>"

definition sessions_purge_Request_of_v3 :: "v3_sessions_PurgeSessionRequest \<Rightarrow> sessions_purge_Request" where
  "sessions_purge_Request_of_v3 v = \<lparr>
     sessions_purge_Request.session_id = v3_sessions_PurgeSessionRequest.session_id v\<rparr>"

interpretation sessions_purge_Request_codec: wire_codec sessions_purge_Request_to_v3 sessions_purge_Request_of_v3
  by unfold_locales (simp add: sessions_purge_Request_to_v3_def sessions_purge_Request_of_v3_def)

record sessions_purge_Response =
  session :: sessions_Raw

definition sessions_purge_Response_default :: sessions_purge_Response where
  "sessions_purge_Response_default = \<lparr>
     sessions_purge_Response.session = sessions_Raw_default\<rparr>"

definition sessions_purge_Response_to_v3 :: "sessions_purge_Response \<Rightarrow> v3_sessions_PurgeSessionResponse" where
  "sessions_purge_Response_to_v3 v = \<lparr>
     v3_sessions_PurgeSessionResponse.session = Some (sessions_Raw_to_v3 (sessions_purge_Response.session v))\<rparr>"

definition sessions_purge_Response_of_v3 :: "v3_sessions_PurgeSessionResponse \<Rightarrow> sessions_purge_Response" where
  "sessions_purge_Response_of_v3 v = \<lparr>
     sessions_purge_Response.session = map_or_default sessions_Raw_default sessions_Raw_of_v3 (v3_sessions_PurgeSessionResponse.session v)\<rparr>"

interpretation sessions_purge_Response_codec: wire_codec sessions_purge_Response_to_v3 sessions_purge_Response_of_v3
  by unfold_locales (simp add: sessions_purge_Response_to_v3_def sessions_purge_Response_of_v3_def)

record v3_sessions_DeleteSessionRequest =
  session_id :: string

record v3_sessions_DeleteSessionResponse =
  session :: "v3_sessions_SessionRaw option"

record v3_sessions_StopSubmissionRequest =
  session_id :: string
  client :: bool
  worker :: bool

record v3_sessions_StopSubmissionResponse =
  session :: "v3_sessions_SessionRaw option"

record sessions_delete_Request =
  session_id :: string

definition sessions_delete_Request_default :: sessions_delete_Request where
  "sessions_delete_Request_default = \<lparr>
     sessions_delete_Request.session_id = ''''\<rparr>"

definition sessions_delete_Request_to_v3 :: "sessions_delete_Request \<Rightarrow> v3_sessions_DeleteSessionRequest" where
  "sessions_delete_Request_to_v3 v = \<lparr>
     v3_sessions_DeleteSessionRequest.session_id = sessions_delete_Request.session_id v\<rparr>"

definition sessions_delete_Request_of_v3 :: "v3_sessions_DeleteSessionRequest \<Rightarrow> sessions_delete_Request" where
  "sessions_delete_Request_of_v3 v = \<lparr>
     sessions_delete_Request.session_id = v3_sessions_DeleteSessionRequest.session_id v\<rparr>"

interpretation sessions_delete_Request_codec: wire_codec sessions_delete_Request_to_v3 sessions_delete_Request_of_v3
  by unfold_locales (simp add: sessions_delete_Request_to_v3_def sessions_delete_Request_of_v3_def)

record sessions_delete_Response =
  session :: sessions_Raw

definition sessions_delete_Response_default :: sessions_delete_Response where
  "sessions_delete_Response_default = \<lparr>
     sessions_delete_Response.session = sessions_Raw_default\<rparr>"

definition sessions_delete_Response_to_v3 :: "sessions_delete_Response \<Rightarrow> v3_sessions_DeleteSessionResponse" where
  "sessions_delete_Response_to_v3 v = \<lparr>
     v3_sessions_DeleteSessionResponse.session = Some (sessions_Raw_to_v3 (sessions_delete_Response.session v))\<rparr>"

definition sessions_delete_Response_of_v3 :: "v3_sessions_DeleteSessionResponse \<Rightarrow> sessions_delete_Response" where
  "sessions_delete_Response_of_v3 v = \<lparr>
     sessions_delete_Response.session = map_or_default sessions_Raw_default sessions_Raw_of_v3 (v3_sessions_DeleteSessionResponse.session v)\<rparr>"

interpretation sessions_delete_Response_codec: wire_codec sessions_delete_Response_to_v3 sessions_delete_Response_of_v3
  by unfold_locales (simp add: sessions_delete_Response_to_v3_def sessions_delete_Response_of_v3_def)

record sessions_stop_submission_Request =
  session_id :: string
  client :: bool
  worker :: bool

definition sessions_stop_submission_Request_default :: sessions_stop_submission_Request where
  "sessions_stop_submission_Request_default = \<lparr>
     sessions_stop_submission_Request.session_id = '''',
     sessions_stop_submission_Request.client = False,
     sessions_stop_submission_Request.worker = False\<rparr>"

definition sessions_stop_submission_Request_to_v3 :: "sessions_stop_submission_Request \<Rightarrow> v3_sessions_StopSubmissionRequest" where
  "sessions_stop_submission_Request_to_v3 v = \<lparr>
     v3_sessions_StopSubmissionRequest.session_id = sessions_stop_submission_Request.session_id v,
     v3_sessions_StopSubmissionRequest.client = sessions_stop_submission_Request.client v,
     v3_sessions_StopSubmissionRequest.worker = sessions_stop_submission_Request.worker v\<rparr>"

definition sessions_stop_submission_Request_of_v3 :: "v3_sessions_StopSubmissionRequest \<Rightarrow> sessions_stop_submission_Request" where
  "sessions_stop_submission_Request_of_v3 v = \<lparr>
     sessions_stop_submission_Request.session_id = v3_sessions_StopSubmissionRequest.session_id v,
     sessions_stop_submission_Request.client = v3_sessions_StopSubmissionRequest.client v,
     sessions_stop_submission_Request.worker = v3_sessions_StopSubmissionRequest.worker v\<rparr>"

interpretation sessions_stop_submission_Request_codec: wire_codec sessions_stop_submission_Request_to_v3 sessions_stop_submission_Request_of_v3
  by unfold_locales (simp add: sessions_stop_submission_Request_to_v3_def sessions_stop_submission_Request_of_v3_def)

record sessions_stop_submission_Response =
  session :: sessions_Raw

definition sessions_stop_submission_Response_default :: sessions_stop_submission_Response where
  "sessions_stop_submission_Response_default = \<lparr>
     sessions_stop_submission_Response.session = sessions_Raw_default\<rparr>"

definition sessions_stop_submission_Response_to_v3 :: "sessions_stop_submission_Response \<Rightarrow> v3_sessions_StopSubmissionResponse" where
  "sessions_stop_submission_Response_to_v3 v = \<lparr>
     v3_sessions_StopSubmissionResponse.session = Some (sessions_Raw_to_v3 (sessions_stop_submission_Response.session v))\<rparr>"

definition sessions_stop_submission_Response_of_v3 :: "v3_sessions_StopSubmissionResponse \<Rightarrow> sessions_stop_submission_Response" where
  "sessions_stop_submission_Response_of_v3 v = \<lparr>
     sessions_stop_submission_Response.session = map_or_default sessions_Raw_default sessions_Raw_of_v3 (v3_sessions_StopSubmissionResponse.session v)\<rparr>"

interpretation sessions_stop_submission_Response_codec: wire_codec sessions_stop_submission_Response_to_v3 sessions_stop_submission_Response_of_v3
  by unfold_locales (simp add: sessions_stop_submission_Response_to_v3_def sessions_stop_submission_Response_of_v3_def)

end
