(* ===== verification/Sessions_Service.thy ===== *)
theory Sessions_Service
  imports Request_Count Sessions
begin

text \<open>
  The sessions service: the client (\<^verbatim>\<open>client/sessions.rs\<close>) and the server glue (\<^verbatim>\<open>server/sessions.rs\<close>) around
  the generated stub and trait, and the composition of the two.
\<close>

section \<open>The generated stub\<close>

record 'c v3_sessions_SessionsClient =
  list_sessions :: "(v3_sessions_ListSessionsRequest, 'c, v3_sessions_ListSessionsResponse) stub"
  get_session :: "(v3_sessions_GetSessionRequest, 'c, v3_sessions_GetSessionResponse) stub"
  cancel_session :: "(v3_sessions_CancelSessionRequest, 'c, v3_sessions_CancelSessionResponse) stub"
  create_session :: "(v3_sessions_CreateSessionRequest, 'c, v3_sessions_CreateSessionReply) stub"
  pause_session :: "(v3_sessions_PauseSessionRequest, 'c, v3_sessions_PauseSessionResponse) stub"
  resume_session :: "(v3_sessions_ResumeSessionRequest, 'c, v3_sessions_ResumeSessionResponse) stub"
  close_session :: "(v3_sessions_CloseSessionRequest, 'c, v3_sessions_CloseSessionResponse) stub"
  purge_session :: "(v3_sessions_PurgeSessionRequest, 'c, v3_sessions_PurgeSessionResponse) stub"
  delete_session :: "(v3_sessions_DeleteSessionRequest, 'c, v3_sessions_DeleteSessionResponse) stub"
  stop_submission :: "(v3_sessions_StopSubmissionRequest, 'c, v3_sessions_StopSubmissionResponse) stub"

text \<open>A stub that also records which procedures are called.\<close>

definition sessions_recording :: "'c v3_sessions_SessionsClient \<Rightarrow> 'c recording v3_sessions_SessionsClient" where
  "sessions_recording cl = \<lparr>
     v3_sessions_SessionsClient.list_sessions = recorded ''Sessions'' ''ListSessions'' (v3_sessions_SessionsClient.list_sessions cl),
     v3_sessions_SessionsClient.get_session = recorded ''Sessions'' ''GetSession'' (v3_sessions_SessionsClient.get_session cl),
     v3_sessions_SessionsClient.cancel_session = recorded ''Sessions'' ''CancelSession'' (v3_sessions_SessionsClient.cancel_session cl),
     v3_sessions_SessionsClient.create_session = recorded ''Sessions'' ''CreateSession'' (v3_sessions_SessionsClient.create_session cl),
     v3_sessions_SessionsClient.pause_session = recorded ''Sessions'' ''PauseSession'' (v3_sessions_SessionsClient.pause_session cl),
     v3_sessions_SessionsClient.resume_session = recorded ''Sessions'' ''ResumeSession'' (v3_sessions_SessionsClient.resume_session cl),
     v3_sessions_SessionsClient.close_session = recorded ''Sessions'' ''CloseSession'' (v3_sessions_SessionsClient.close_session cl),
     v3_sessions_SessionsClient.purge_session = recorded ''Sessions'' ''PurgeSession'' (v3_sessions_SessionsClient.purge_session cl),
     v3_sessions_SessionsClient.delete_session = recorded ''Sessions'' ''DeleteSession'' (v3_sessions_SessionsClient.delete_session cl),
     v3_sessions_SessionsClient.stop_submission = recorded ''Sessions'' ''StopSubmission'' (v3_sessions_SessionsClient.stop_submission cl)\<rparr>"

section \<open>Client\<close>

subsection \<open>Raw calls\<close>

definition Sessions_call_list :: "'c v3_sessions_SessionsClient \<Rightarrow> sessions_list_Request \<Rightarrow> 'c \<Rightarrow> (RequestError + sessions_list_Response) \<times> 'c" where
  "Sessions_call_list cl req c =
     unary_call sessions_list_Request_to_v3 sessions_list_Response_of_v3 (v3_sessions_SessionsClient.list_sessions cl) req c"

definition Sessions_call_get :: "'c v3_sessions_SessionsClient \<Rightarrow> sessions_get_Request \<Rightarrow> 'c \<Rightarrow> (RequestError + sessions_get_Response) \<times> 'c" where
  "Sessions_call_get cl req c =
     unary_call sessions_get_Request_to_v3 sessions_get_Response_of_v3 (v3_sessions_SessionsClient.get_session cl) req c"

definition Sessions_call_cancel :: "'c v3_sessions_SessionsClient \<Rightarrow> sessions_cancel_Request \<Rightarrow> 'c \<Rightarrow> (RequestError + sessions_cancel_Response) \<times> 'c" where
  "Sessions_call_cancel cl req c =
     unary_call sessions_cancel_Request_to_v3 sessions_cancel_Response_of_v3 (v3_sessions_SessionsClient.cancel_session cl) req c"

definition Sessions_call_create :: "'c v3_sessions_SessionsClient \<Rightarrow> sessions_create_Request \<Rightarrow> 'c \<Rightarrow> (RequestError + sessions_create_Response) \<times> 'c" where
  "Sessions_call_create cl req c =
     unary_call sessions_create_Request_to_v3 sessions_create_Response_of_v3 (v3_sessions_SessionsClient.create_session cl) req c"

definition Sessions_call_pause :: "'c v3_sessions_SessionsClient \<Rightarrow> sessions_pause_Request \<Rightarrow> 'c \<Rightarrow> (RequestError + sessions_pause_Response) \<times> 'c" where
  "Sessions_call_pause cl req c =
     unary_call sessions_pause_Request_to_v3 sessions_pause_Response_of_v3 (v3_sessions_SessionsClient.pause_session cl) req c"

definition Sessions_call_resume :: "'c v3_sessions_SessionsClient \<Rightarrow> sessions_resume_Request \<Rightarrow> 'c \<Rightarrow> (RequestError + sessions_resume_Response) \<times> 'c" where
  "Sessions_call_resume cl req c =
     unary_call sessions_resume_Request_to_v3 sessions_resume_Response_of_v3 (v3_sessions_SessionsClient.resume_session cl) req c"

definition Sessions_call_close :: "'c v3_sessions_SessionsClient \<Rightarrow> sessions_close_Request \<Rightarrow> 'c \<Rightarrow> (RequestError + sessions_close_Response) \<times> 'c" where
  "Sessions_call_close cl req c =
     unary_call sessions_close_Request_to_v3 sessions_close_Response_of_v3 (v3_sessions_SessionsClient.close_session cl) req c"

definition Sessions_call_purge :: "'c v3_sessions_SessionsClient \<Rightarrow> sessions_purge_Request \<Rightarrow> 'c \<Rightarrow> (RequestError + sessions_purge_Response) \<times> 'c" where
  "Sessions_call_purge cl req c =
     unary_call sessions_purge_Request_to_v3 sessions_purge_Response_of_v3 (v3_sessions_SessionsClient.purge_session cl) req c"

definition Sessions_call_delete :: "'c v3_sessions_SessionsClient \<Rightarrow> sessions_delete_Request \<Rightarrow> 'c \<Rightarrow> (RequestError + sessions_delete_Response) \<times> 'c" where
  "Sessions_call_delete cl req c =
     unary_call sessions_delete_Request_to_v3 sessions_delete_Response_of_v3 (v3_sessions_SessionsClient.delete_session cl) req c"

definition Sessions_call_stop_submission :: "'c v3_sessions_SessionsClient \<Rightarrow> sessions_stop_submission_Request \<Rightarrow> 'c \<Rightarrow> (RequestError + sessions_stop_submission_Response) \<times> 'c" where
  "Sessions_call_stop_submission cl req c =
     unary_call sessions_stop_submission_Request_to_v3 sessions_stop_submission_Response_of_v3 (v3_sessions_SessionsClient.stop_submission cl) req c"

subsection \<open>Methods\<close>

definition Sessions_list :: "'c v3_sessions_SessionsClient \<Rightarrow> (sessions_filter_Field list) list \<Rightarrow> sessions_Sort \<Rightarrow> bool \<Rightarrow> i32 \<Rightarrow> i32 \<Rightarrow> 'c \<Rightarrow> (RequestError + sessions_list_Response) \<times> 'c" where
  "Sessions_list cl filters' sort' with_task_options' page' page_size' c =
     Sessions_call_list cl \<lparr>sessions_list_Request.page = page', sessions_list_Request.page_size = page_size', sessions_list_Request.filters = sessions_filter_collect filters', sessions_list_Request.sort = sort', sessions_list_Request.with_task_options = with_task_options'\<rparr> c"

definition Sessions_get :: "'c v3_sessions_SessionsClient \<Rightarrow> string \<Rightarrow> 'c \<Rightarrow> (RequestError + sessions_Raw) \<times> 'c" where
  "Sessions_get cl session_id' c =
     map_ok sessions_get_Response.session (Sessions_call_get cl \<lparr>sessions_get_Request.session_id = session_id'\<rparr> c)"

definition Sessions_cancel :: "'c v3_sessions_SessionsClient \<Rightarrow> string \<Rightarrow> 'c \<Rightarrow> (RequestError + sessions_Raw) \<times> 'c" where
  "Sessions_cancel cl session_id' c =
     map_ok sessions_cancel_Response.session (Sessions_call_cancel cl \<lparr>sessions_cancel_Request.session_id = session_id'\<rparr> c)"

definition Sessions_create :: "'c v3_sessions_SessionsClient \<Rightarrow> string list \<Rightarrow> TaskOptions \<Rightarrow> 'c \<Rightarrow> (RequestError + string) \<times> 'c" where
  "Sessions_create cl partitions' default_task_options' c =
     map_ok sessions_create_Response.session_id (Sessions_call_create cl \<lparr>sessions_create_Request.default_task_options = default_task_options', sessions_create_Request.partition_ids = into_collect (\<lambda>x. x) partitions'\<rparr> c)"

definition Sessions_pause :: "'c v3_sessions_SessionsClient \<Rightarrow> string \<Rightarrow> 'c \<Rightarrow> (RequestError + sessions_Raw) \<times> 'c" where
  "Sessions_pause cl session_id' c =
     map_ok sessions_pause_Response.session (Sessions_call_pause cl \<lparr>sessions_pause_Request.session_id = session_id'\<rparr> c)"

definition Sessions_resume :: "'c v3_sessions_SessionsClient \<Rightarrow> string \<Rightarrow> 'c \<Rightarrow> (RequestError + sessions_Raw) \<times> 'c" where
  "Sessions_resume cl session_id' c =
     map_ok sessions_resume_Response.session (Sessions_call_resume cl \<lparr>sessions_resume_Request.session_id = session_id'\<rparr> c)"

definition Sessions_close :: "'c v3_sessions_SessionsClient \<Rightarrow> string \<Rightarrow> 'c \<Rightarrow> (RequestError + sessions_Raw) \<times> 'c" where
  "Sessions_close cl session_id' c =
     map_ok sessions_close_Response.session (Sessions_call_close cl \<lparr>sessions_close_Request.session_id = session_id'\<rparr> c)"

definition Sessions_purge :: "'c v3_sessions_SessionsClient \<Rightarrow> string \<Rightarrow> 'c \<Rightarrow> (RequestError + sessions_Raw) \<times> 'c" where
  "Sessions_purge cl session_id' c =
     map_ok sessions_purge_Response.session (Sessions_call_purge cl \<lparr>sessions_purge_Request.session_id = session_id'\<rparr> c)"

definition Sessions_delete :: "'c v3_sessions_SessionsClient \<Rightarrow> string \<Rightarrow> 'c \<Rightarrow> (RequestError + sessions_Raw) \<times> 'c" where
  "Sessions_delete cl session_id' c =
     map_ok sessions_delete_Response.session (Sessions_call_delete cl \<lparr>sessions_delete_Request.session_id = session_id'\<rparr> c)"

definition Sessions_stop_submission :: "'c v3_sessions_SessionsClient \<Rightarrow> string \<Rightarrow> bool \<Rightarrow> bool \<Rightarrow> 'c \<Rightarrow> (RequestError + sessions_Raw) \<times> 'c" where
  "Sessions_stop_submission cl session_id' stop_client' stop_worker' c =
     map_ok sessions_stop_submission_Response.session (Sessions_call_stop_submission cl \<lparr>sessions_stop_submission_Request.session_id = session_id', sessions_stop_submission_Request.client = stop_client', sessions_stop_submission_Request.worker = stop_worker'\<rparr> c)"

lemmas sessions_client_defs =
  Sessions_call_list_def Sessions_call_get_def Sessions_call_cancel_def Sessions_call_create_def Sessions_call_pause_def Sessions_call_resume_def Sessions_call_close_def Sessions_call_purge_def Sessions_call_delete_def Sessions_call_stop_submission_def Sessions_list_def Sessions_get_def Sessions_cancel_def Sessions_create_def Sessions_pause_def Sessions_resume_def Sessions_close_def Sessions_purge_def Sessions_delete_def Sessions_stop_submission_def

section \<open>Server\<close>

record ('h, 'e, 's) SessionsService =
  list :: "(sessions_list_Request, 'h, 'e, 's, sessions_list_Response) handler"
  get :: "(sessions_get_Request, 'h, 'e, 's, sessions_get_Response) handler"
  cancel :: "(sessions_cancel_Request, 'h, 'e, 's, sessions_cancel_Response) handler"
  create :: "(sessions_create_Request, 'h, 'e, 's, sessions_create_Response) handler"
  pause :: "(sessions_pause_Request, 'h, 'e, 's, sessions_pause_Response) handler"
  resume :: "(sessions_resume_Request, 'h, 'e, 's, sessions_resume_Response) handler"
  close :: "(sessions_close_Request, 'h, 'e, 's, sessions_close_Response) handler"
  purge :: "(sessions_purge_Request, 'h, 'e, 's, sessions_purge_Response) handler"
  delete :: "(sessions_delete_Request, 'h, 'e, 's, sessions_delete_Response) handler"
  stop_submission :: "(sessions_stop_submission_Request, 'h, 'e, 's, sessions_stop_submission_Response) handler"

definition SessionsService_list_sessions :: "('m \<Rightarrow> 'h) \<Rightarrow> ('h, 'e, 's) SessionsService
    \<Rightarrow> ('m, 'e, v3_sessions_ListSessionsRequest) tonic_Request \<Rightarrow> 's \<Rightarrow> (tonic_Status + v3_sessions_ListSessionsResponse) \<times> 's" where
  "SessionsService_list_sessions ih svc =
     unary_server ih sessions_list_Request_of_v3 sessions_list_Response_to_v3 (SessionsService.list svc)"

definition SessionsService_get_session :: "('m \<Rightarrow> 'h) \<Rightarrow> ('h, 'e, 's) SessionsService
    \<Rightarrow> ('m, 'e, v3_sessions_GetSessionRequest) tonic_Request \<Rightarrow> 's \<Rightarrow> (tonic_Status + v3_sessions_GetSessionResponse) \<times> 's" where
  "SessionsService_get_session ih svc =
     unary_server ih sessions_get_Request_of_v3 sessions_get_Response_to_v3 (SessionsService.get svc)"

definition SessionsService_cancel_session :: "('m \<Rightarrow> 'h) \<Rightarrow> ('h, 'e, 's) SessionsService
    \<Rightarrow> ('m, 'e, v3_sessions_CancelSessionRequest) tonic_Request \<Rightarrow> 's \<Rightarrow> (tonic_Status + v3_sessions_CancelSessionResponse) \<times> 's" where
  "SessionsService_cancel_session ih svc =
     unary_server ih sessions_cancel_Request_of_v3 sessions_cancel_Response_to_v3 (SessionsService.cancel svc)"

definition SessionsService_create_session :: "('m \<Rightarrow> 'h) \<Rightarrow> ('h, 'e, 's) SessionsService
    \<Rightarrow> ('m, 'e, v3_sessions_CreateSessionRequest) tonic_Request \<Rightarrow> 's \<Rightarrow> (tonic_Status + v3_sessions_CreateSessionReply) \<times> 's" where
  "SessionsService_create_session ih svc =
     unary_server ih sessions_create_Request_of_v3 sessions_create_Response_to_v3 (SessionsService.create svc)"

definition SessionsService_pause_session :: "('m \<Rightarrow> 'h) \<Rightarrow> ('h, 'e, 's) SessionsService
    \<Rightarrow> ('m, 'e, v3_sessions_PauseSessionRequest) tonic_Request \<Rightarrow> 's \<Rightarrow> (tonic_Status + v3_sessions_PauseSessionResponse) \<times> 's" where
  "SessionsService_pause_session ih svc =
     unary_server ih sessions_pause_Request_of_v3 sessions_pause_Response_to_v3 (SessionsService.pause svc)"

definition SessionsService_resume_session :: "('m \<Rightarrow> 'h) \<Rightarrow> ('h, 'e, 's) SessionsService
    \<Rightarrow> ('m, 'e, v3_sessions_ResumeSessionRequest) tonic_Request \<Rightarrow> 's \<Rightarrow> (tonic_Status + v3_sessions_ResumeSessionResponse) \<times> 's" where
  "SessionsService_resume_session ih svc =
     unary_server ih sessions_resume_Request_of_v3 sessions_resume_Response_to_v3 (SessionsService.resume svc)"

definition SessionsService_close_session :: "('m \<Rightarrow> 'h) \<Rightarrow> ('h, 'e, 's) SessionsService
    \<Rightarrow> ('m, 'e, v3_sessions_CloseSessionRequest) tonic_Request \<Rightarrow> 's \<Rightarrow> (tonic_Status + v3_sessions_CloseSessionResponse) \<times> 's" where
  "SessionsService_close_session ih svc =
     unary_server ih sessions_close_Request_of_v3 sessions_close_Response_to_v3 (SessionsService.close svc)"

definition SessionsService_purge_session :: "('m \<Rightarrow> 'h) \<Rightarrow> ('h, 'e, 's) SessionsService
    \<Rightarrow> ('m, 'e, v3_sessions_PurgeSessionRequest) tonic_Request \<Rightarrow> 's \<Rightarrow> (tonic_Status + v3_sessions_PurgeSessionResponse) \<times> 's" where
  "SessionsService_purge_session ih svc =
     unary_server ih sessions_purge_Request_of_v3 sessions_purge_Response_to_v3 (SessionsService.purge svc)"

definition SessionsService_delete_session :: "('m \<Rightarrow> 'h) \<Rightarrow> ('h, 'e, 's) SessionsService
    \<Rightarrow> ('m, 'e, v3_sessions_DeleteSessionRequest) tonic_Request \<Rightarrow> 's \<Rightarrow> (tonic_Status + v3_sessions_DeleteSessionResponse) \<times> 's" where
  "SessionsService_delete_session ih svc =
     unary_server ih sessions_delete_Request_of_v3 sessions_delete_Response_to_v3 (SessionsService.delete svc)"

definition SessionsService_stop_submission :: "('m \<Rightarrow> 'h) \<Rightarrow> ('h, 'e, 's) SessionsService
    \<Rightarrow> ('m, 'e, v3_sessions_StopSubmissionRequest) tonic_Request \<Rightarrow> 's \<Rightarrow> (tonic_Status + v3_sessions_StopSubmissionResponse) \<times> 's" where
  "SessionsService_stop_submission ih svc =
     unary_server ih sessions_stop_submission_Request_of_v3 sessions_stop_submission_Response_to_v3 (SessionsService.stop_submission svc)"

section \<open>A client connected to a server\<close>

definition sessions_loopback :: "('m \<Rightarrow> 'h) \<Rightarrow> 'm \<Rightarrow> 'e \<Rightarrow> ('h, 'e, 's) SessionsService \<Rightarrow> 's v3_sessions_SessionsClient" where
  "sessions_loopback ih m e svc = \<lparr>
     v3_sessions_SessionsClient.list_sessions = (\<lambda>w. SessionsService_list_sessions ih svc (direct_request m e w)),
     v3_sessions_SessionsClient.get_session = (\<lambda>w. SessionsService_get_session ih svc (direct_request m e w)),
     v3_sessions_SessionsClient.cancel_session = (\<lambda>w. SessionsService_cancel_session ih svc (direct_request m e w)),
     v3_sessions_SessionsClient.create_session = (\<lambda>w. SessionsService_create_session ih svc (direct_request m e w)),
     v3_sessions_SessionsClient.pause_session = (\<lambda>w. SessionsService_pause_session ih svc (direct_request m e w)),
     v3_sessions_SessionsClient.resume_session = (\<lambda>w. SessionsService_resume_session ih svc (direct_request m e w)),
     v3_sessions_SessionsClient.close_session = (\<lambda>w. SessionsService_close_session ih svc (direct_request m e w)),
     v3_sessions_SessionsClient.purge_session = (\<lambda>w. SessionsService_purge_session ih svc (direct_request m e w)),
     v3_sessions_SessionsClient.delete_session = (\<lambda>w. SessionsService_delete_session ih svc (direct_request m e w)),
     v3_sessions_SessionsClient.stop_submission = (\<lambda>w. SessionsService_stop_submission ih svc (direct_request m e w))\<rparr>"

text \<open>The contract of each remote procedure.\<close>

interpretation sessions_list_rpc: total_rpc_link
    sessions_list_Request_to_v3 sessions_list_Request_of_v3
    sessions_list_Response_to_v3 sessions_list_Response_of_v3
  by unfold_locales

interpretation sessions_get_rpc: total_rpc_link
    sessions_get_Request_to_v3 sessions_get_Request_of_v3
    sessions_get_Response_to_v3 sessions_get_Response_of_v3
  by unfold_locales

interpretation sessions_cancel_rpc: total_rpc_link
    sessions_cancel_Request_to_v3 sessions_cancel_Request_of_v3
    sessions_cancel_Response_to_v3 sessions_cancel_Response_of_v3
  by unfold_locales

interpretation sessions_create_rpc: total_rpc_link
    sessions_create_Request_to_v3 sessions_create_Request_of_v3
    sessions_create_Response_to_v3 sessions_create_Response_of_v3
  by unfold_locales

interpretation sessions_pause_rpc: total_rpc_link
    sessions_pause_Request_to_v3 sessions_pause_Request_of_v3
    sessions_pause_Response_to_v3 sessions_pause_Response_of_v3
  by unfold_locales

interpretation sessions_resume_rpc: total_rpc_link
    sessions_resume_Request_to_v3 sessions_resume_Request_of_v3
    sessions_resume_Response_to_v3 sessions_resume_Response_of_v3
  by unfold_locales

interpretation sessions_close_rpc: total_rpc_link
    sessions_close_Request_to_v3 sessions_close_Request_of_v3
    sessions_close_Response_to_v3 sessions_close_Response_of_v3
  by unfold_locales

interpretation sessions_purge_rpc: total_rpc_link
    sessions_purge_Request_to_v3 sessions_purge_Request_of_v3
    sessions_purge_Response_to_v3 sessions_purge_Response_of_v3
  by unfold_locales

interpretation sessions_delete_rpc: total_rpc_link
    sessions_delete_Request_to_v3 sessions_delete_Request_of_v3
    sessions_delete_Response_to_v3 sessions_delete_Response_of_v3
  by unfold_locales

interpretation sessions_stop_submission_rpc: total_rpc_link
    sessions_stop_submission_Request_to_v3 sessions_stop_submission_Request_of_v3
    sessions_stop_submission_Response_to_v3 sessions_stop_submission_Response_of_v3
  by unfold_locales

lemmas sessions_link_defs = sessions_loopback_def sessions_client_defs
  SessionsService_list_sessions_def SessionsService_get_session_def SessionsService_cancel_session_def SessionsService_create_session_def SessionsService_pause_session_def SessionsService_resume_session_def SessionsService_close_session_def SessionsService_purge_session_def SessionsService_delete_session_def SessionsService_stop_submission_def

lemma Sessions_call_list_transparent:
  "Sessions_call_list (sessions_loopback ih m e svc) r s =
     in_process (SessionsService.list svc r (direct_context ih m e) s)"
  by (simp add: sessions_link_defs)

lemma Sessions_call_get_transparent:
  "Sessions_call_get (sessions_loopback ih m e svc) r s =
     in_process (SessionsService.get svc r (direct_context ih m e) s)"
  by (simp add: sessions_link_defs)

lemma Sessions_call_cancel_transparent:
  "Sessions_call_cancel (sessions_loopback ih m e svc) r s =
     in_process (SessionsService.cancel svc r (direct_context ih m e) s)"
  by (simp add: sessions_link_defs)

lemma Sessions_call_create_transparent:
  "Sessions_call_create (sessions_loopback ih m e svc) r s =
     in_process (SessionsService.create svc r (direct_context ih m e) s)"
  by (simp add: sessions_link_defs)

lemma Sessions_call_pause_transparent:
  "Sessions_call_pause (sessions_loopback ih m e svc) r s =
     in_process (SessionsService.pause svc r (direct_context ih m e) s)"
  by (simp add: sessions_link_defs)

lemma Sessions_call_resume_transparent:
  "Sessions_call_resume (sessions_loopback ih m e svc) r s =
     in_process (SessionsService.resume svc r (direct_context ih m e) s)"
  by (simp add: sessions_link_defs)

lemma Sessions_call_close_transparent:
  "Sessions_call_close (sessions_loopback ih m e svc) r s =
     in_process (SessionsService.close svc r (direct_context ih m e) s)"
  by (simp add: sessions_link_defs)

lemma Sessions_call_purge_transparent:
  "Sessions_call_purge (sessions_loopback ih m e svc) r s =
     in_process (SessionsService.purge svc r (direct_context ih m e) s)"
  by (simp add: sessions_link_defs)

lemma Sessions_call_delete_transparent:
  "Sessions_call_delete (sessions_loopback ih m e svc) r s =
     in_process (SessionsService.delete svc r (direct_context ih m e) s)"
  by (simp add: sessions_link_defs)

lemma Sessions_call_stop_submission_transparent:
  "Sessions_call_stop_submission (sessions_loopback ih m e svc) r s =
     in_process (SessionsService.stop_submission svc r (direct_context ih m e) s)"
  by (simp add: sessions_link_defs)

lemma sessions_raw_calls_once:
  "calls (Sessions_call_list (sessions_recording cl) req0 (l, c)) = l @ [(''Sessions'', ''ListSessions'')]"
  "calls (Sessions_call_get (sessions_recording cl) req1 (l, c)) = l @ [(''Sessions'', ''GetSession'')]"
  "calls (Sessions_call_cancel (sessions_recording cl) req2 (l, c)) = l @ [(''Sessions'', ''CancelSession'')]"
  "calls (Sessions_call_create (sessions_recording cl) req3 (l, c)) = l @ [(''Sessions'', ''CreateSession'')]"
  "calls (Sessions_call_pause (sessions_recording cl) req4 (l, c)) = l @ [(''Sessions'', ''PauseSession'')]"
  "calls (Sessions_call_resume (sessions_recording cl) req5 (l, c)) = l @ [(''Sessions'', ''ResumeSession'')]"
  "calls (Sessions_call_close (sessions_recording cl) req6 (l, c)) = l @ [(''Sessions'', ''CloseSession'')]"
  "calls (Sessions_call_purge (sessions_recording cl) req7 (l, c)) = l @ [(''Sessions'', ''PurgeSession'')]"
  "calls (Sessions_call_delete (sessions_recording cl) req8 (l, c)) = l @ [(''Sessions'', ''DeleteSession'')]"
  "calls (Sessions_call_stop_submission (sessions_recording cl) req9 (l, c)) = l @ [(''Sessions'', ''StopSubmission'')]"
  by (simp_all add: sessions_client_defs sessions_recording_def)

lemma sessions_methods_call_once:
  "calls (Sessions_list (sessions_recording cl) filters0 sort0 with_task_options0 page0 page_size0 (l, c)) = l @ [(''Sessions'', ''ListSessions'')]"
  "calls (Sessions_get (sessions_recording cl) session_id1 (l, c)) = l @ [(''Sessions'', ''GetSession'')]"
  "calls (Sessions_cancel (sessions_recording cl) session_id2 (l, c)) = l @ [(''Sessions'', ''CancelSession'')]"
  "calls (Sessions_create (sessions_recording cl) partitions3 default_task_options3 (l, c)) = l @ [(''Sessions'', ''CreateSession'')]"
  "calls (Sessions_pause (sessions_recording cl) session_id4 (l, c)) = l @ [(''Sessions'', ''PauseSession'')]"
  "calls (Sessions_resume (sessions_recording cl) session_id5 (l, c)) = l @ [(''Sessions'', ''ResumeSession'')]"
  "calls (Sessions_close (sessions_recording cl) session_id6 (l, c)) = l @ [(''Sessions'', ''CloseSession'')]"
  "calls (Sessions_purge (sessions_recording cl) session_id7 (l, c)) = l @ [(''Sessions'', ''PurgeSession'')]"
  "calls (Sessions_delete (sessions_recording cl) session_id8 (l, c)) = l @ [(''Sessions'', ''DeleteSession'')]"
  "calls (Sessions_stop_submission (sessions_recording cl) session_id9 stop_client9 stop_worker9 (l, c)) = l @ [(''Sessions'', ''StopSubmission'')]"
  by (simp_all add: sessions_client_defs sessions_recording_def)

end
