(* ===== verification/Sessions_Tests.thy ===== *)
theory Sessions_Tests
  imports Sessions_Service
begin

text \<open>
  The unit tests of \<^verbatim>\<open>client/sessions.rs\<close>: each is the counter it reads and the call it makes, with the arguments of the
  source. Against the mock server a test passes exactly when the answer to its call is the one it expects.
\<close>

definition Sessions_test_list :: "('c v3_sessions_SessionsClient, 'c) client_test" where
  "Sessions_test_list = \<lparr>
     client_test.counter_service = ''Sessions'', client_test.counter_rpc = ''ListSessions'',
     client_test.test_call = (\<lambda>cl c. unwrap (Sessions_list cl (sessions_filter_lists \<lparr>sessions_filter_Or.or_ands = [\<lparr>sessions_filter_And.and_fields = []\<rparr>]\<rparr>) sessions_Sort_default True 0 10 c))\<rparr>"

definition Sessions_test_get :: "('c v3_sessions_SessionsClient, 'c) client_test" where
  "Sessions_test_get = \<lparr>
     client_test.counter_service = ''Sessions'', client_test.counter_rpc = ''GetSession'',
     client_test.test_call = (\<lambda>cl c. unwrap (Sessions_get cl ''session-id'' c))\<rparr>"

definition Sessions_test_cancel :: "('c v3_sessions_SessionsClient, 'c) client_test" where
  "Sessions_test_cancel = \<lparr>
     client_test.counter_service = ''Sessions'', client_test.counter_rpc = ''CancelSession'',
     client_test.test_call = (\<lambda>cl c. unwrap (Sessions_cancel cl ''session-id'' c))\<rparr>"

definition Sessions_test_create :: "('c v3_sessions_SessionsClient, 'c) client_test" where
  "Sessions_test_create = \<lparr>
     client_test.counter_service = ''Sessions'', client_test.counter_rpc = ''CreateSession'',
     client_test.test_call = (\<lambda>cl c. unwrap (Sessions_create cl [''part1'', ''part2''] (TaskOptions_default\<lparr>TaskOptions.partition_id := ''part1''\<rparr>) c))\<rparr>"

definition Sessions_test_pause :: "('c v3_sessions_SessionsClient, 'c) client_test" where
  "Sessions_test_pause = \<lparr>
     client_test.counter_service = ''Sessions'', client_test.counter_rpc = ''PauseSession'',
     client_test.test_call = (\<lambda>cl c. unwrap (Sessions_pause cl ''session-id'' c))\<rparr>"

definition Sessions_test_resume :: "('c v3_sessions_SessionsClient, 'c) client_test" where
  "Sessions_test_resume = \<lparr>
     client_test.counter_service = ''Sessions'', client_test.counter_rpc = ''ResumeSession'',
     client_test.test_call = (\<lambda>cl c. unwrap (Sessions_resume cl ''session-id'' c))\<rparr>"

definition Sessions_test_close :: "('c v3_sessions_SessionsClient, 'c) client_test" where
  "Sessions_test_close = \<lparr>
     client_test.counter_service = ''Sessions'', client_test.counter_rpc = ''CloseSession'',
     client_test.test_call = (\<lambda>cl c. unwrap (Sessions_close cl ''session-id'' c))\<rparr>"

definition Sessions_test_purge :: "('c v3_sessions_SessionsClient, 'c) client_test" where
  "Sessions_test_purge = \<lparr>
     client_test.counter_service = ''Sessions'', client_test.counter_rpc = ''PurgeSession'',
     client_test.test_call = (\<lambda>cl c. unwrap (Sessions_purge cl ''session-id'' c))\<rparr>"

definition Sessions_test_delete :: "('c v3_sessions_SessionsClient, 'c) client_test" where
  "Sessions_test_delete = \<lparr>
     client_test.counter_service = ''Sessions'', client_test.counter_rpc = ''DeleteSession'',
     client_test.test_call = (\<lambda>cl c. unwrap (Sessions_delete cl ''session-id'' c))\<rparr>"

definition Sessions_test_stop_submission :: "('c v3_sessions_SessionsClient, 'c) client_test" where
  "Sessions_test_stop_submission = \<lparr>
     client_test.counter_service = ''Sessions'', client_test.counter_rpc = ''StopSubmission'',
     client_test.test_call = (\<lambda>cl c. unwrap (Sessions_stop_submission cl ''session-id'' True True c))\<rparr>"

definition Sessions_test_list_call :: "('c v3_sessions_SessionsClient, 'c) client_test" where
  "Sessions_test_list_call = \<lparr>
     client_test.counter_service = ''Sessions'', client_test.counter_rpc = ''ListSessions'',
     client_test.test_call = (\<lambda>cl c. unwrap (Sessions_call_list cl (sessions_list_Request_default\<lparr>sessions_list_Request.page_size := 10\<rparr>) c))\<rparr>"

definition Sessions_test_get_call :: "('c v3_sessions_SessionsClient, 'c) client_test" where
  "Sessions_test_get_call = \<lparr>
     client_test.counter_service = ''Sessions'', client_test.counter_rpc = ''GetSession'',
     client_test.test_call = (\<lambda>cl c. unwrap (Sessions_call_get cl \<lparr>sessions_get_Request.session_id = ''session-id''\<rparr> c))\<rparr>"

definition Sessions_test_cancel_call :: "('c v3_sessions_SessionsClient, 'c) client_test" where
  "Sessions_test_cancel_call = \<lparr>
     client_test.counter_service = ''Sessions'', client_test.counter_rpc = ''CancelSession'',
     client_test.test_call = (\<lambda>cl c. unwrap (Sessions_call_cancel cl \<lparr>sessions_cancel_Request.session_id = ''session-id''\<rparr> c))\<rparr>"

definition Sessions_test_create_call :: "('c v3_sessions_SessionsClient, 'c) client_test" where
  "Sessions_test_create_call = \<lparr>
     client_test.counter_service = ''Sessions'', client_test.counter_rpc = ''CreateSession'',
     client_test.test_call = (\<lambda>cl c. unwrap (Sessions_call_create cl \<lparr>sessions_create_Request.default_task_options = (TaskOptions_default\<lparr>TaskOptions.partition_id := ''part1''\<rparr>), sessions_create_Request.partition_ids = [''part1'', ''part2'']\<rparr> c))\<rparr>"

definition Sessions_test_pause_call :: "('c v3_sessions_SessionsClient, 'c) client_test" where
  "Sessions_test_pause_call = \<lparr>
     client_test.counter_service = ''Sessions'', client_test.counter_rpc = ''PauseSession'',
     client_test.test_call = (\<lambda>cl c. unwrap (Sessions_call_pause cl \<lparr>sessions_pause_Request.session_id = ''session-id''\<rparr> c))\<rparr>"

definition Sessions_test_resume_call :: "('c v3_sessions_SessionsClient, 'c) client_test" where
  "Sessions_test_resume_call = \<lparr>
     client_test.counter_service = ''Sessions'', client_test.counter_rpc = ''ResumeSession'',
     client_test.test_call = (\<lambda>cl c. unwrap (Sessions_call_resume cl \<lparr>sessions_resume_Request.session_id = ''session-id''\<rparr> c))\<rparr>"

definition Sessions_test_close_call :: "('c v3_sessions_SessionsClient, 'c) client_test" where
  "Sessions_test_close_call = \<lparr>
     client_test.counter_service = ''Sessions'', client_test.counter_rpc = ''CloseSession'',
     client_test.test_call = (\<lambda>cl c. unwrap (Sessions_call_close cl \<lparr>sessions_close_Request.session_id = ''session-id''\<rparr> c))\<rparr>"

definition Sessions_test_purge_call :: "('c v3_sessions_SessionsClient, 'c) client_test" where
  "Sessions_test_purge_call = \<lparr>
     client_test.counter_service = ''Sessions'', client_test.counter_rpc = ''PurgeSession'',
     client_test.test_call = (\<lambda>cl c. unwrap (Sessions_call_purge cl \<lparr>sessions_purge_Request.session_id = ''session-id''\<rparr> c))\<rparr>"

definition Sessions_test_delete_call :: "('c v3_sessions_SessionsClient, 'c) client_test" where
  "Sessions_test_delete_call = \<lparr>
     client_test.counter_service = ''Sessions'', client_test.counter_rpc = ''DeleteSession'',
     client_test.test_call = (\<lambda>cl c. unwrap (Sessions_call_delete cl \<lparr>sessions_delete_Request.session_id = ''session-id''\<rparr> c))\<rparr>"

definition Sessions_test_stop_submission_call :: "('c v3_sessions_SessionsClient, 'c) client_test" where
  "Sessions_test_stop_submission_call = \<lparr>
     client_test.counter_service = ''Sessions'', client_test.counter_rpc = ''StopSubmission'',
     client_test.test_call = (\<lambda>cl c. unwrap (Sessions_call_stop_submission cl \<lparr>sessions_stop_submission_Request.session_id = ''session-id'', sessions_stop_submission_Request.client = True, sessions_stop_submission_Request.worker = True\<rparr> c))\<rparr>"

definition Sessions_tests :: "('c v3_sessions_SessionsClient, 'c) client_test list" where
  "Sessions_tests = [
     Sessions_test_list,
     Sessions_test_get,
     Sessions_test_cancel,
     Sessions_test_create,
     Sessions_test_pause,
     Sessions_test_resume,
     Sessions_test_close,
     Sessions_test_purge,
     Sessions_test_delete,
     Sessions_test_stop_submission,
     Sessions_test_list_call,
     Sessions_test_get_call,
     Sessions_test_cancel_call,
     Sessions_test_create_call,
     Sessions_test_pause_call,
     Sessions_test_resume_call,
     Sessions_test_close_call,
     Sessions_test_purge_call,
     Sessions_test_delete_call,
     Sessions_test_stop_submission_call]"

section \<open>The answers of the mock server\<close>

text \<open>
  The class of the mock server that implements the service, as the stub of a client connected to it. A field that is not set
  has its default. Its methods keep no state; one that is sent a stream reads it to its end, which the streams of the tests
  have.
\<close>

definition sessions_mock_session :: v3_sessions_SessionRaw where
  "sessions_mock_session = \<lparr>v3_sessions_SessionRaw.session_id = ''session-id'', v3_sessions_SessionRaw.status = 2, v3_sessions_SessionRaw.client_submission = False, v3_sessions_SessionRaw.worker_submission = False, v3_sessions_SessionRaw.partition_ids = [], v3_sessions_SessionRaw.options = None, v3_sessions_SessionRaw.created_at = None, v3_sessions_SessionRaw.cancelled_at = None, v3_sessions_SessionRaw.closed_at = None, v3_sessions_SessionRaw.purged_at = None, v3_sessions_SessionRaw.deleted_at = None, v3_sessions_SessionRaw.duration = None\<rparr>"

definition sessions_mock :: "'c v3_sessions_SessionsClient" where
  "sessions_mock = \<lparr>
     v3_sessions_SessionsClient.list_sessions = (\<lambda>r c. (Inr \<lparr>v3_sessions_ListSessionsResponse.sessions = [], v3_sessions_ListSessionsResponse.page = 0, v3_sessions_ListSessionsResponse.page_size = v3_sessions_ListSessionsRequest.page_size r, v3_sessions_ListSessionsResponse.total = 0\<rparr>, c)),
     v3_sessions_SessionsClient.get_session = (\<lambda>r c. (Inr \<lparr>v3_sessions_GetSessionResponse.session = Some sessions_mock_session\<rparr>, c)),
     v3_sessions_SessionsClient.cancel_session = (\<lambda>r c. (Inr \<lparr>v3_sessions_CancelSessionResponse.session = Some sessions_mock_session\<rparr>, c)),
     v3_sessions_SessionsClient.create_session = (\<lambda>r c. (Inr \<lparr>v3_sessions_CreateSessionReply.session_id = v3_sessions_SessionRaw.session_id sessions_mock_session\<rparr>, c)),
     v3_sessions_SessionsClient.pause_session = (\<lambda>r c. (Inr \<lparr>v3_sessions_PauseSessionResponse.session = Some sessions_mock_session\<rparr>, c)),
     v3_sessions_SessionsClient.resume_session = (\<lambda>r c. (Inr \<lparr>v3_sessions_ResumeSessionResponse.session = Some sessions_mock_session\<rparr>, c)),
     v3_sessions_SessionsClient.close_session = (\<lambda>r c. (Inr \<lparr>v3_sessions_CloseSessionResponse.session = Some sessions_mock_session\<rparr>, c)),
     v3_sessions_SessionsClient.purge_session = (\<lambda>r c. (Inr \<lparr>v3_sessions_PurgeSessionResponse.session = Some sessions_mock_session\<rparr>, c)),
     v3_sessions_SessionsClient.delete_session = (\<lambda>r c. (Inr \<lparr>v3_sessions_DeleteSessionResponse.session = Some sessions_mock_session\<rparr>, c)),
     v3_sessions_SessionsClient.stop_submission = (\<lambda>r c. (Inr \<lparr>v3_sessions_StopSubmissionResponse.session = Some sessions_mock_session\<rparr>, c))\<rparr>"

section \<open>When the tests pass\<close>

lemma Sessions_test_list_iff:
  "length l < 2 ^ 63 - 1 \<Longrightarrow> counted mock_counter (\<lambda>_. Some (sessions_recording cl)) Sessions_test_list (l, c) \<longleftrightarrow>
     fst (test_call Sessions_test_list cl c)"
  by (rule counted_iff [where rec = sessions_recording and svc = "''Sessions''" and rpc = "''ListSessions''"])
    (simp_all add: Sessions_test_list_def sessions_client_defs sessions_recording_def logged_simps counts_simps)

lemma Sessions_test_get_iff:
  "length l < 2 ^ 63 - 1 \<Longrightarrow> counted mock_counter (\<lambda>_. Some (sessions_recording cl)) Sessions_test_get (l, c) \<longleftrightarrow>
     fst (test_call Sessions_test_get cl c)"
  by (rule counted_iff [where rec = sessions_recording and svc = "''Sessions''" and rpc = "''GetSession''"])
    (simp_all add: Sessions_test_get_def sessions_client_defs sessions_recording_def logged_simps counts_simps)

lemma Sessions_test_cancel_iff:
  "length l < 2 ^ 63 - 1 \<Longrightarrow> counted mock_counter (\<lambda>_. Some (sessions_recording cl)) Sessions_test_cancel (l, c) \<longleftrightarrow>
     fst (test_call Sessions_test_cancel cl c)"
  by (rule counted_iff [where rec = sessions_recording and svc = "''Sessions''" and rpc = "''CancelSession''"])
    (simp_all add: Sessions_test_cancel_def sessions_client_defs sessions_recording_def logged_simps counts_simps)

lemma Sessions_test_create_iff:
  "length l < 2 ^ 63 - 1 \<Longrightarrow> counted mock_counter (\<lambda>_. Some (sessions_recording cl)) Sessions_test_create (l, c) \<longleftrightarrow>
     fst (test_call Sessions_test_create cl c)"
  by (rule counted_iff [where rec = sessions_recording and svc = "''Sessions''" and rpc = "''CreateSession''"])
    (simp_all add: Sessions_test_create_def sessions_client_defs sessions_recording_def logged_simps counts_simps)

lemma Sessions_test_pause_iff:
  "length l < 2 ^ 63 - 1 \<Longrightarrow> counted mock_counter (\<lambda>_. Some (sessions_recording cl)) Sessions_test_pause (l, c) \<longleftrightarrow>
     fst (test_call Sessions_test_pause cl c)"
  by (rule counted_iff [where rec = sessions_recording and svc = "''Sessions''" and rpc = "''PauseSession''"])
    (simp_all add: Sessions_test_pause_def sessions_client_defs sessions_recording_def logged_simps counts_simps)

lemma Sessions_test_resume_iff:
  "length l < 2 ^ 63 - 1 \<Longrightarrow> counted mock_counter (\<lambda>_. Some (sessions_recording cl)) Sessions_test_resume (l, c) \<longleftrightarrow>
     fst (test_call Sessions_test_resume cl c)"
  by (rule counted_iff [where rec = sessions_recording and svc = "''Sessions''" and rpc = "''ResumeSession''"])
    (simp_all add: Sessions_test_resume_def sessions_client_defs sessions_recording_def logged_simps counts_simps)

lemma Sessions_test_close_iff:
  "length l < 2 ^ 63 - 1 \<Longrightarrow> counted mock_counter (\<lambda>_. Some (sessions_recording cl)) Sessions_test_close (l, c) \<longleftrightarrow>
     fst (test_call Sessions_test_close cl c)"
  by (rule counted_iff [where rec = sessions_recording and svc = "''Sessions''" and rpc = "''CloseSession''"])
    (simp_all add: Sessions_test_close_def sessions_client_defs sessions_recording_def logged_simps counts_simps)

lemma Sessions_test_purge_iff:
  "length l < 2 ^ 63 - 1 \<Longrightarrow> counted mock_counter (\<lambda>_. Some (sessions_recording cl)) Sessions_test_purge (l, c) \<longleftrightarrow>
     fst (test_call Sessions_test_purge cl c)"
  by (rule counted_iff [where rec = sessions_recording and svc = "''Sessions''" and rpc = "''PurgeSession''"])
    (simp_all add: Sessions_test_purge_def sessions_client_defs sessions_recording_def logged_simps counts_simps)

lemma Sessions_test_delete_iff:
  "length l < 2 ^ 63 - 1 \<Longrightarrow> counted mock_counter (\<lambda>_. Some (sessions_recording cl)) Sessions_test_delete (l, c) \<longleftrightarrow>
     fst (test_call Sessions_test_delete cl c)"
  by (rule counted_iff [where rec = sessions_recording and svc = "''Sessions''" and rpc = "''DeleteSession''"])
    (simp_all add: Sessions_test_delete_def sessions_client_defs sessions_recording_def logged_simps counts_simps)

lemma Sessions_test_stop_submission_iff:
  "length l < 2 ^ 63 - 1 \<Longrightarrow> counted mock_counter (\<lambda>_. Some (sessions_recording cl)) Sessions_test_stop_submission (l, c) \<longleftrightarrow>
     fst (test_call Sessions_test_stop_submission cl c)"
  by (rule counted_iff [where rec = sessions_recording and svc = "''Sessions''" and rpc = "''StopSubmission''"])
    (simp_all add: Sessions_test_stop_submission_def sessions_client_defs sessions_recording_def logged_simps counts_simps)

lemma Sessions_test_list_call_iff:
  "length l < 2 ^ 63 - 1 \<Longrightarrow> counted mock_counter (\<lambda>_. Some (sessions_recording cl)) Sessions_test_list_call (l, c) \<longleftrightarrow>
     fst (test_call Sessions_test_list_call cl c)"
  by (rule counted_iff [where rec = sessions_recording and svc = "''Sessions''" and rpc = "''ListSessions''"])
    (simp_all add: Sessions_test_list_call_def sessions_client_defs sessions_recording_def logged_simps counts_simps)

lemma Sessions_test_get_call_iff:
  "length l < 2 ^ 63 - 1 \<Longrightarrow> counted mock_counter (\<lambda>_. Some (sessions_recording cl)) Sessions_test_get_call (l, c) \<longleftrightarrow>
     fst (test_call Sessions_test_get_call cl c)"
  by (rule counted_iff [where rec = sessions_recording and svc = "''Sessions''" and rpc = "''GetSession''"])
    (simp_all add: Sessions_test_get_call_def sessions_client_defs sessions_recording_def logged_simps counts_simps)

lemma Sessions_test_cancel_call_iff:
  "length l < 2 ^ 63 - 1 \<Longrightarrow> counted mock_counter (\<lambda>_. Some (sessions_recording cl)) Sessions_test_cancel_call (l, c) \<longleftrightarrow>
     fst (test_call Sessions_test_cancel_call cl c)"
  by (rule counted_iff [where rec = sessions_recording and svc = "''Sessions''" and rpc = "''CancelSession''"])
    (simp_all add: Sessions_test_cancel_call_def sessions_client_defs sessions_recording_def logged_simps counts_simps)

lemma Sessions_test_create_call_iff:
  "length l < 2 ^ 63 - 1 \<Longrightarrow> counted mock_counter (\<lambda>_. Some (sessions_recording cl)) Sessions_test_create_call (l, c) \<longleftrightarrow>
     fst (test_call Sessions_test_create_call cl c)"
  by (rule counted_iff [where rec = sessions_recording and svc = "''Sessions''" and rpc = "''CreateSession''"])
    (simp_all add: Sessions_test_create_call_def sessions_client_defs sessions_recording_def logged_simps counts_simps)

lemma Sessions_test_pause_call_iff:
  "length l < 2 ^ 63 - 1 \<Longrightarrow> counted mock_counter (\<lambda>_. Some (sessions_recording cl)) Sessions_test_pause_call (l, c) \<longleftrightarrow>
     fst (test_call Sessions_test_pause_call cl c)"
  by (rule counted_iff [where rec = sessions_recording and svc = "''Sessions''" and rpc = "''PauseSession''"])
    (simp_all add: Sessions_test_pause_call_def sessions_client_defs sessions_recording_def logged_simps counts_simps)

lemma Sessions_test_resume_call_iff:
  "length l < 2 ^ 63 - 1 \<Longrightarrow> counted mock_counter (\<lambda>_. Some (sessions_recording cl)) Sessions_test_resume_call (l, c) \<longleftrightarrow>
     fst (test_call Sessions_test_resume_call cl c)"
  by (rule counted_iff [where rec = sessions_recording and svc = "''Sessions''" and rpc = "''ResumeSession''"])
    (simp_all add: Sessions_test_resume_call_def sessions_client_defs sessions_recording_def logged_simps counts_simps)

lemma Sessions_test_close_call_iff:
  "length l < 2 ^ 63 - 1 \<Longrightarrow> counted mock_counter (\<lambda>_. Some (sessions_recording cl)) Sessions_test_close_call (l, c) \<longleftrightarrow>
     fst (test_call Sessions_test_close_call cl c)"
  by (rule counted_iff [where rec = sessions_recording and svc = "''Sessions''" and rpc = "''CloseSession''"])
    (simp_all add: Sessions_test_close_call_def sessions_client_defs sessions_recording_def logged_simps counts_simps)

lemma Sessions_test_purge_call_iff:
  "length l < 2 ^ 63 - 1 \<Longrightarrow> counted mock_counter (\<lambda>_. Some (sessions_recording cl)) Sessions_test_purge_call (l, c) \<longleftrightarrow>
     fst (test_call Sessions_test_purge_call cl c)"
  by (rule counted_iff [where rec = sessions_recording and svc = "''Sessions''" and rpc = "''PurgeSession''"])
    (simp_all add: Sessions_test_purge_call_def sessions_client_defs sessions_recording_def logged_simps counts_simps)

lemma Sessions_test_delete_call_iff:
  "length l < 2 ^ 63 - 1 \<Longrightarrow> counted mock_counter (\<lambda>_. Some (sessions_recording cl)) Sessions_test_delete_call (l, c) \<longleftrightarrow>
     fst (test_call Sessions_test_delete_call cl c)"
  by (rule counted_iff [where rec = sessions_recording and svc = "''Sessions''" and rpc = "''DeleteSession''"])
    (simp_all add: Sessions_test_delete_call_def sessions_client_defs sessions_recording_def logged_simps counts_simps)

lemma Sessions_test_stop_submission_call_iff:
  "length l < 2 ^ 63 - 1 \<Longrightarrow> counted mock_counter (\<lambda>_. Some (sessions_recording cl)) Sessions_test_stop_submission_call (l, c) \<longleftrightarrow>
     fst (test_call Sessions_test_stop_submission_call cl c)"
  by (rule counted_iff [where rec = sessions_recording and svc = "''Sessions''" and rpc = "''StopSubmission''"])
    (simp_all add: Sessions_test_stop_submission_call_def sessions_client_defs sessions_recording_def logged_simps counts_simps)

lemma Sessions_tests_iff:
  "length l < 2 ^ 63 - 1 \<Longrightarrow>
     map (\<lambda>t. counted mock_counter (\<lambda>_. Some (sessions_recording cl)) t (l, c)) Sessions_tests =
     map (\<lambda>t. fst (test_call t cl c)) Sessions_tests"
  by (simp add: Sessions_tests_def
      Sessions_test_list_iff
      Sessions_test_get_iff
      Sessions_test_cancel_iff
      Sessions_test_create_iff
      Sessions_test_pause_iff
      Sessions_test_resume_iff
      Sessions_test_close_iff
      Sessions_test_purge_iff
      Sessions_test_delete_iff
      Sessions_test_stop_submission_iff
      Sessions_test_list_call_iff
      Sessions_test_get_call_iff
      Sessions_test_cancel_call_iff
      Sessions_test_create_call_iff
      Sessions_test_pause_call_iff
      Sessions_test_resume_call_iff
      Sessions_test_close_call_iff
      Sessions_test_purge_call_iff
      Sessions_test_delete_call_iff
      Sessions_test_stop_submission_call_iff)

text \<open>The mock server answers all of them as they expect.\<close>

lemma sessions_mock_answers: "list_all (\<lambda>t. fst (test_call t sessions_mock c)) Sessions_tests"
  by (simp add: Sessions_tests_def sessions_mock_def mock_simps sessions_client_defs
      Sessions_test_list_def
      Sessions_test_get_def
      Sessions_test_cancel_def
      Sessions_test_create_def
      Sessions_test_pause_def
      Sessions_test_resume_def
      Sessions_test_close_def
      Sessions_test_purge_def
      Sessions_test_delete_def
      Sessions_test_stop_submission_def
      Sessions_test_list_call_def
      Sessions_test_get_call_def
      Sessions_test_cancel_call_def
      Sessions_test_create_call_def
      Sessions_test_pause_call_def
      Sessions_test_resume_call_def
      Sessions_test_close_call_def
      Sessions_test_purge_call_def
      Sessions_test_delete_call_def
      Sessions_test_stop_submission_call_def)

lemma Sessions_tests_pass:
  "length l < 2 ^ 63 - 1 \<Longrightarrow>
     list_all (\<lambda>t. counted mock_counter (\<lambda>_. Some (sessions_recording sessions_mock)) t (l, c)) Sessions_tests"
  by (rule list_all_decided [OF _ sessions_mock_answers]) (rule Sessions_tests_iff)

section \<open>The integration tests\<close>

text \<open>
  \<^verbatim>\<open>tests/sessions.rs\<close>: the service that the tests start, and the tests, each on a client
  \<open>cl\<close> connected to it.
\<close>

definition sessions_test_service ::
  "tonic_Status option \<Rightarrow> ('h, 'e, 's) SessionsService" where
  "sessions_test_service fails = \<lparr>
     SessionsService.list = (\<lambda>r ctx. unary_rpc_impl fails \<lparr>sessions_list_Response.sessions = [(sessions_Raw_default\<lparr>sessions_Raw.session_id := ''rpc-list-output''\<rparr>)], sessions_list_Response.page = sessions_list_Request.page r, sessions_list_Response.page_size = sessions_list_Request.page_size r, sessions_list_Response.total = 1337\<rparr>),
     SessionsService.get = (\<lambda>r ctx. unary_rpc_impl fails \<lparr>sessions_get_Response.session = (sessions_Raw_default\<lparr>sessions_Raw.session_id := sessions_get_Request.session_id r, sessions_Raw.partition_ids := [''rpc-get-output'']\<rparr>)\<rparr>),
     SessionsService.cancel = (\<lambda>r ctx. unary_rpc_impl fails \<lparr>sessions_cancel_Response.session = (sessions_Raw_default\<lparr>sessions_Raw.session_id := sessions_cancel_Request.session_id r, sessions_Raw.partition_ids := [''rpc-cancel-output'']\<rparr>)\<rparr>),
     SessionsService.create = (\<lambda>r ctx. unary_rpc_impl fails \<lparr>sessions_create_Response.session_id = ''rpc-create-output''\<rparr>),
     SessionsService.pause = (\<lambda>r ctx. unary_rpc_impl fails \<lparr>sessions_pause_Response.session = (sessions_Raw_default\<lparr>sessions_Raw.session_id := sessions_pause_Request.session_id r, sessions_Raw.partition_ids := [''rpc-pause-output'']\<rparr>)\<rparr>),
     SessionsService.resume = (\<lambda>r ctx. unary_rpc_impl fails \<lparr>sessions_resume_Response.session = (sessions_Raw_default\<lparr>sessions_Raw.session_id := sessions_resume_Request.session_id r, sessions_Raw.partition_ids := [''rpc-resume-output'']\<rparr>)\<rparr>),
     SessionsService.close = (\<lambda>r ctx. unary_rpc_impl fails \<lparr>sessions_close_Response.session = (sessions_Raw_default\<lparr>sessions_Raw.session_id := sessions_close_Request.session_id r, sessions_Raw.partition_ids := [''rpc-close-output'']\<rparr>)\<rparr>),
     SessionsService.purge = (\<lambda>r ctx. unary_rpc_impl fails \<lparr>sessions_purge_Response.session = (sessions_Raw_default\<lparr>sessions_Raw.session_id := sessions_purge_Request.session_id r, sessions_Raw.partition_ids := [''rpc-purge-output'']\<rparr>)\<rparr>),
     SessionsService.delete = (\<lambda>r ctx. unary_rpc_impl fails \<lparr>sessions_delete_Response.session = (sessions_Raw_default\<lparr>sessions_Raw.session_id := sessions_delete_Request.session_id r, sessions_Raw.partition_ids := [''rpc-delete-output'']\<rparr>)\<rparr>),
     SessionsService.stop_submission = (\<lambda>r ctx. unary_rpc_impl fails \<lparr>sessions_stop_submission_Response.session = (sessions_Raw_default\<lparr>sessions_Raw.session_id := sessions_stop_submission_Request.session_id r, sessions_Raw.partition_ids := [''rpc-stop-output'']\<rparr>)\<rparr>)\<rparr>"

definition Sessions_integration_list :: "'c v3_sessions_SessionsClient \<Rightarrow> 'c \<Rightarrow> bool" where
  "Sessions_integration_list cl s \<longleftrightarrow> expects (\<lambda>p.
       sessions_list_Response.page p = 3 \<and> sessions_list_Response.page_size p = 12 \<and> sessions_list_Response.total p = 1337
     \<and> indexed 0 (\<lambda>x. sessions_Raw.session_id x = ''rpc-list-output'') (sessions_list_Response.sessions p))
     (Sessions_list cl (sessions_filter_lists sessions_filter_Or_default) sessions_Sort_default True 3 12 s)"

definition Sessions_integration_get :: "'c v3_sessions_SessionsClient \<Rightarrow> 'c \<Rightarrow> bool" where
  "Sessions_integration_get cl s \<longleftrightarrow> expects (\<lambda>p.
       sessions_Raw.session_id p = ''rpc-get-input'' \<and> indexed 0 (\<lambda>x. x = ''rpc-get-output'') (sessions_Raw.partition_ids p))
     (Sessions_get cl ''rpc-get-input'' s)"

definition Sessions_integration_cancel :: "'c v3_sessions_SessionsClient \<Rightarrow> 'c \<Rightarrow> bool" where
  "Sessions_integration_cancel cl s \<longleftrightarrow> expects (\<lambda>p.
       sessions_Raw.session_id p = ''rpc-cancel-input'' \<and> indexed 0 (\<lambda>x. x = ''rpc-cancel-output'') (sessions_Raw.partition_ids p))
     (Sessions_cancel cl ''rpc-cancel-input'' s)"

definition Sessions_integration_create :: "'c v3_sessions_SessionsClient \<Rightarrow> 'c \<Rightarrow> bool" where
  "Sessions_integration_create cl s \<longleftrightarrow> expects (\<lambda>p.
       p = ''rpc-create-output'')
     (Sessions_create cl [''rpc-create-input''] TaskOptions_default s)"

definition Sessions_integration_pause :: "'c v3_sessions_SessionsClient \<Rightarrow> 'c \<Rightarrow> bool" where
  "Sessions_integration_pause cl s \<longleftrightarrow> expects (\<lambda>p.
       sessions_Raw.session_id p = ''rpc-pause-input'' \<and> indexed 0 (\<lambda>x. x = ''rpc-pause-output'') (sessions_Raw.partition_ids p))
     (Sessions_pause cl ''rpc-pause-input'' s)"

definition Sessions_integration_resume :: "'c v3_sessions_SessionsClient \<Rightarrow> 'c \<Rightarrow> bool" where
  "Sessions_integration_resume cl s \<longleftrightarrow> expects (\<lambda>p.
       sessions_Raw.session_id p = ''rpc-resume-input'' \<and> indexed 0 (\<lambda>x. x = ''rpc-resume-output'') (sessions_Raw.partition_ids p))
     (Sessions_resume cl ''rpc-resume-input'' s)"

definition Sessions_integration_close :: "'c v3_sessions_SessionsClient \<Rightarrow> 'c \<Rightarrow> bool" where
  "Sessions_integration_close cl s \<longleftrightarrow> expects (\<lambda>p.
       sessions_Raw.session_id p = ''rpc-close-input'' \<and> indexed 0 (\<lambda>x. x = ''rpc-close-output'') (sessions_Raw.partition_ids p))
     (Sessions_close cl ''rpc-close-input'' s)"

definition Sessions_integration_purge :: "'c v3_sessions_SessionsClient \<Rightarrow> 'c \<Rightarrow> bool" where
  "Sessions_integration_purge cl s \<longleftrightarrow> expects (\<lambda>p.
       sessions_Raw.session_id p = ''rpc-purge-input'' \<and> indexed 0 (\<lambda>x. x = ''rpc-purge-output'') (sessions_Raw.partition_ids p))
     (Sessions_purge cl ''rpc-purge-input'' s)"

definition Sessions_integration_delete :: "'c v3_sessions_SessionsClient \<Rightarrow> 'c \<Rightarrow> bool" where
  "Sessions_integration_delete cl s \<longleftrightarrow> expects (\<lambda>p.
       sessions_Raw.session_id p = ''rpc-delete-input'' \<and> indexed 0 (\<lambda>x. x = ''rpc-delete-output'') (sessions_Raw.partition_ids p))
     (Sessions_delete cl ''rpc-delete-input'' s)"

definition Sessions_integration_stop_submission :: "'c v3_sessions_SessionsClient \<Rightarrow> 'c \<Rightarrow> bool" where
  "Sessions_integration_stop_submission cl s \<longleftrightarrow> expects (\<lambda>p.
       sessions_Raw.session_id p = ''rpc-stop-input'' \<and> indexed 0 (\<lambda>x. x = ''rpc-stop-output'') (sessions_Raw.partition_ids p))
     (Sessions_stop_submission cl ''rpc-stop-input'' True True s)"

definition Sessions_integration :: "('c v3_sessions_SessionsClient \<Rightarrow> 'c \<Rightarrow> bool) list" where
  "Sessions_integration = [
     Sessions_integration_list,
     Sessions_integration_get,
     Sessions_integration_cancel,
     Sessions_integration_create,
     Sessions_integration_pause,
     Sessions_integration_resume,
     Sessions_integration_close,
     Sessions_integration_purge,
     Sessions_integration_delete,
     Sessions_integration_stop_submission]"

text \<open>They pass, whatever the state of the service.\<close>

lemmas sessions_integration_defs = Sessions_integration_def sessions_test_service_def indexed_def
  Sessions_integration_list_def
  Sessions_integration_get_def
  Sessions_integration_cancel_def
  Sessions_integration_create_def
  Sessions_integration_pause_def
  Sessions_integration_resume_def
  Sessions_integration_close_def
  Sessions_integration_purge_def
  Sessions_integration_delete_def
  Sessions_integration_stop_submission_def

lemma Sessions_integration_passes:
  "list_all (\<lambda>t. t (sessions_loopback ih m e (sessions_test_service None)) s) (Sessions_integration)"
  by (simp add: sessions_integration_defs 
    Sessions_cancel_def Sessions_close_def Sessions_create_def Sessions_delete_def Sessions_get_def Sessions_list_def Sessions_pause_def Sessions_purge_def Sessions_resume_def Sessions_stop_submission_def
    Sessions_call_cancel_transparent Sessions_call_close_transparent Sessions_call_create_transparent Sessions_call_delete_transparent Sessions_call_get_transparent Sessions_call_list_transparent Sessions_call_pause_transparent Sessions_call_purge_transparent Sessions_call_resume_transparent Sessions_call_stop_submission_transparent)

end
