(* ===== verification/Tasks_Service.thy ===== *)
theory Tasks_Service
  imports Request_Count Tasks
begin

text \<open>
  The tasks service: the client (\<^verbatim>\<open>client/tasks.rs\<close>) and the server glue (\<^verbatim>\<open>server/tasks.rs\<close>) around
  the generated stub and trait, and the composition of the two.
\<close>

section \<open>The generated stub\<close>

record 'c v3_tasks_TasksClient =
  list_tasks :: "(v3_tasks_ListTasksRequest, 'c, v3_tasks_ListTasksResponse) stub"
  list_tasks_detailed :: "(v3_tasks_ListTasksRequest, 'c, v3_tasks_ListTasksDetailedResponse) stub"
  get_task :: "(v3_tasks_GetTaskRequest, 'c, v3_tasks_GetTaskResponse) stub"
  cancel_tasks :: "(v3_tasks_CancelTasksRequest, 'c, v3_tasks_CancelTasksResponse) stub"
  get_result_ids :: "(v3_tasks_GetResultIdsRequest, 'c, v3_tasks_GetResultIdsResponse) stub"
  count_tasks_by_status :: "(v3_tasks_CountTasksByStatusRequest, 'c, v3_tasks_CountTasksByStatusResponse) stub"
  submit_tasks :: "(v3_tasks_SubmitTasksRequest, 'c, v3_tasks_SubmitTasksResponse) stub"

text \<open>A stub that also records which procedures are called.\<close>

definition tasks_recording :: "'c v3_tasks_TasksClient \<Rightarrow> 'c recording v3_tasks_TasksClient" where
  "tasks_recording cl = \<lparr>
     v3_tasks_TasksClient.list_tasks = recorded ''Tasks'' ''ListTasks'' (v3_tasks_TasksClient.list_tasks cl),
     v3_tasks_TasksClient.list_tasks_detailed = recorded ''Tasks'' ''ListTasksDetailed'' (v3_tasks_TasksClient.list_tasks_detailed cl),
     v3_tasks_TasksClient.get_task = recorded ''Tasks'' ''GetTask'' (v3_tasks_TasksClient.get_task cl),
     v3_tasks_TasksClient.cancel_tasks = recorded ''Tasks'' ''CancelTasks'' (v3_tasks_TasksClient.cancel_tasks cl),
     v3_tasks_TasksClient.get_result_ids = recorded ''Tasks'' ''GetResultIds'' (v3_tasks_TasksClient.get_result_ids cl),
     v3_tasks_TasksClient.count_tasks_by_status = recorded ''Tasks'' ''CountTasksByStatus'' (v3_tasks_TasksClient.count_tasks_by_status cl),
     v3_tasks_TasksClient.submit_tasks = recorded ''Tasks'' ''SubmitTasks'' (v3_tasks_TasksClient.submit_tasks cl)\<rparr>"

section \<open>Client\<close>

subsection \<open>Raw calls\<close>

definition Tasks_call_list :: "'c v3_tasks_TasksClient \<Rightarrow> tasks_list_Request \<Rightarrow> 'c \<Rightarrow> (RequestError + tasks_list_Response) \<times> 'c" where
  "Tasks_call_list cl req c =
     unary_call tasks_list_Request_to_v3 tasks_list_Response_of_v3 (v3_tasks_TasksClient.list_tasks cl) req c"

definition Tasks_call_list_detailed :: "'c v3_tasks_TasksClient \<Rightarrow> tasks_list_detailed_Request \<Rightarrow> 'c \<Rightarrow> (RequestError + tasks_list_detailed_Response) \<times> 'c" where
  "Tasks_call_list_detailed cl req c =
     unary_call tasks_list_detailed_Request_to_v3 tasks_list_detailed_Response_of_v3 (v3_tasks_TasksClient.list_tasks_detailed cl) req c"

definition Tasks_call_get :: "'c v3_tasks_TasksClient \<Rightarrow> tasks_get_Request \<Rightarrow> 'c \<Rightarrow> (RequestError + tasks_get_Response) \<times> 'c" where
  "Tasks_call_get cl req c =
     unary_call tasks_get_Request_to_v3 tasks_get_Response_of_v3 (v3_tasks_TasksClient.get_task cl) req c"

definition Tasks_call_cancel :: "'c v3_tasks_TasksClient \<Rightarrow> tasks_cancel_Request \<Rightarrow> 'c \<Rightarrow> (RequestError + tasks_cancel_Response) \<times> 'c" where
  "Tasks_call_cancel cl req c =
     unary_call tasks_cancel_Request_to_v3 tasks_cancel_Response_of_v3 (v3_tasks_TasksClient.cancel_tasks cl) req c"

definition Tasks_call_get_result_ids :: "'c v3_tasks_TasksClient \<Rightarrow> tasks_get_result_ids_Request \<Rightarrow> 'c \<Rightarrow> (RequestError + tasks_get_result_ids_Response) \<times> 'c" where
  "Tasks_call_get_result_ids cl req c =
     unary_call tasks_get_result_ids_Request_to_v3 tasks_get_result_ids_Response_of_v3 (v3_tasks_TasksClient.get_result_ids cl) req c"

definition Tasks_call_count_status :: "'c v3_tasks_TasksClient \<Rightarrow> tasks_count_status_Request \<Rightarrow> 'c \<Rightarrow> (RequestError + tasks_count_status_Response) \<times> 'c" where
  "Tasks_call_count_status cl req c =
     unary_call tasks_count_status_Request_to_v3 tasks_count_status_Response_of_v3 (v3_tasks_TasksClient.count_tasks_by_status cl) req c"

definition Tasks_call_submit :: "'c v3_tasks_TasksClient \<Rightarrow> tasks_submit_Request \<Rightarrow> 'c \<Rightarrow> (RequestError + tasks_submit_Response) \<times> 'c" where
  "Tasks_call_submit cl req c =
     unary_call tasks_submit_Request_to_v3 tasks_submit_Response_of_v3 (v3_tasks_TasksClient.submit_tasks cl) req c"

subsection \<open>Methods\<close>

definition Tasks_list :: "'c v3_tasks_TasksClient \<Rightarrow> (tasks_filter_Field list) list \<Rightarrow> tasks_Sort \<Rightarrow> bool \<Rightarrow> i32 \<Rightarrow> i32 \<Rightarrow> 'c \<Rightarrow> (RequestError + tasks_list_Response) \<times> 'c" where
  "Tasks_list cl filters' sort' with_errors' page' page_size' c =
     Tasks_call_list cl \<lparr>tasks_list_Request.page = page', tasks_list_Request.page_size = page_size', tasks_list_Request.filters = tasks_filter_collect filters', tasks_list_Request.sort = sort', tasks_list_Request.with_errors = with_errors'\<rparr> c"

definition Tasks_list_detailed :: "'c v3_tasks_TasksClient \<Rightarrow> (tasks_filter_Field list) list \<Rightarrow> tasks_Sort \<Rightarrow> bool \<Rightarrow> i32 \<Rightarrow> i32 \<Rightarrow> 'c \<Rightarrow> (RequestError + tasks_list_detailed_Response) \<times> 'c" where
  "Tasks_list_detailed cl filters' sort' with_errors' page' page_size' c =
     Tasks_call_list_detailed cl \<lparr>tasks_list_detailed_Request.page = page', tasks_list_detailed_Request.page_size = page_size', tasks_list_detailed_Request.filters = tasks_filter_collect filters', tasks_list_detailed_Request.sort = sort', tasks_list_detailed_Request.with_errors = with_errors'\<rparr> c"

definition Tasks_get :: "'c v3_tasks_TasksClient \<Rightarrow> string \<Rightarrow> 'c \<Rightarrow> (RequestError + tasks_Raw) \<times> 'c" where
  "Tasks_get cl task_id' c =
     map_ok tasks_get_Response.task (Tasks_call_get cl \<lparr>tasks_get_Request.task_id = task_id'\<rparr> c)"

definition Tasks_cancel :: "'c v3_tasks_TasksClient \<Rightarrow> string list \<Rightarrow> 'c \<Rightarrow> (RequestError + tasks_Summary list) \<times> 'c" where
  "Tasks_cancel cl task_ids' c =
     map_ok tasks_cancel_Response.tasks (Tasks_call_cancel cl \<lparr>tasks_cancel_Request.task_ids = into_collect (\<lambda>x. x) task_ids'\<rparr> c)"

definition Tasks_get_result_ids :: "'c v3_tasks_TasksClient \<Rightarrow> string list \<Rightarrow> 'c \<Rightarrow> (RequestError + (string, string list) fmap) \<times> 'c" where
  "Tasks_get_result_ids cl task_ids' c =
     map_ok tasks_get_result_ids_Response.task_results (Tasks_call_get_result_ids cl \<lparr>tasks_get_result_ids_Request.task_ids = into_collect (\<lambda>x. x) task_ids'\<rparr> c)"

definition Tasks_count_status :: "'c v3_tasks_TasksClient \<Rightarrow> tasks_filter_Or \<Rightarrow> 'c \<Rightarrow> (RequestError + StatusCount list) \<times> 'c" where
  "Tasks_count_status cl filters' c =
     map_ok tasks_count_status_Response.status (Tasks_call_count_status cl \<lparr>tasks_count_status_Request.filters = filters'\<rparr> c)"

definition Tasks_submit :: "'c v3_tasks_TasksClient \<Rightarrow> string \<Rightarrow> TaskOptions option \<Rightarrow> tasks_submit_RequestItem list \<Rightarrow> 'c \<Rightarrow> (RequestError + tasks_submit_ResponseItem list) \<times> 'c" where
  "Tasks_submit cl session_id' task_options' items' c =
     map_ok tasks_submit_Response.items (Tasks_call_submit cl \<lparr>tasks_submit_Request.session_id = session_id', tasks_submit_Request.task_options = task_options', tasks_submit_Request.items = into_collect (\<lambda>x. x) items'\<rparr> c)"

lemmas tasks_client_defs =
  Tasks_call_list_def Tasks_call_list_detailed_def Tasks_call_get_def Tasks_call_cancel_def Tasks_call_get_result_ids_def Tasks_call_count_status_def Tasks_call_submit_def Tasks_list_def Tasks_list_detailed_def Tasks_get_def Tasks_cancel_def Tasks_get_result_ids_def Tasks_count_status_def Tasks_submit_def

section \<open>Server\<close>

record ('h, 'e, 's) TasksService =
  list :: "(tasks_list_Request, 'h, 'e, 's, tasks_list_Response) handler"
  list_detailed :: "(tasks_list_detailed_Request, 'h, 'e, 's, tasks_list_detailed_Response) handler"
  get :: "(tasks_get_Request, 'h, 'e, 's, tasks_get_Response) handler"
  cancel :: "(tasks_cancel_Request, 'h, 'e, 's, tasks_cancel_Response) handler"
  get_result_ids :: "(tasks_get_result_ids_Request, 'h, 'e, 's, tasks_get_result_ids_Response) handler"
  count_status :: "(tasks_count_status_Request, 'h, 'e, 's, tasks_count_status_Response) handler"
  submit :: "(tasks_submit_Request, 'h, 'e, 's, tasks_submit_Response) handler"

definition TasksService_list_tasks :: "('m \<Rightarrow> 'h) \<Rightarrow> ('h, 'e, 's) TasksService
    \<Rightarrow> ('m, 'e, v3_tasks_ListTasksRequest) tonic_Request \<Rightarrow> 's \<Rightarrow> (tonic_Status + v3_tasks_ListTasksResponse) \<times> 's" where
  "TasksService_list_tasks ih svc =
     unary_server ih tasks_list_Request_of_v3 tasks_list_Response_to_v3 (TasksService.list svc)"

definition TasksService_list_tasks_detailed :: "('m \<Rightarrow> 'h) \<Rightarrow> ('h, 'e, 's) TasksService
    \<Rightarrow> ('m, 'e, v3_tasks_ListTasksRequest) tonic_Request \<Rightarrow> 's \<Rightarrow> (tonic_Status + v3_tasks_ListTasksDetailedResponse) \<times> 's" where
  "TasksService_list_tasks_detailed ih svc =
     unary_server ih tasks_list_detailed_Request_of_v3 tasks_list_detailed_Response_to_v3 (TasksService.list_detailed svc)"

definition TasksService_get_task :: "('m \<Rightarrow> 'h) \<Rightarrow> ('h, 'e, 's) TasksService
    \<Rightarrow> ('m, 'e, v3_tasks_GetTaskRequest) tonic_Request \<Rightarrow> 's \<Rightarrow> (tonic_Status + v3_tasks_GetTaskResponse) \<times> 's" where
  "TasksService_get_task ih svc =
     unary_server ih tasks_get_Request_of_v3 tasks_get_Response_to_v3 (TasksService.get svc)"

definition TasksService_cancel_tasks :: "('m \<Rightarrow> 'h) \<Rightarrow> ('h, 'e, 's) TasksService
    \<Rightarrow> ('m, 'e, v3_tasks_CancelTasksRequest) tonic_Request \<Rightarrow> 's \<Rightarrow> (tonic_Status + v3_tasks_CancelTasksResponse) \<times> 's" where
  "TasksService_cancel_tasks ih svc =
     unary_server ih tasks_cancel_Request_of_v3 tasks_cancel_Response_to_v3 (TasksService.cancel svc)"

definition TasksService_get_result_ids :: "('m \<Rightarrow> 'h) \<Rightarrow> ((string, string list) fmap \<Rightarrow> (string \<times> string list) list) \<Rightarrow> ('h, 'e, 's) TasksService
    \<Rightarrow> ('m, 'e, v3_tasks_GetResultIdsRequest) tonic_Request \<Rightarrow> 's \<Rightarrow> (tonic_Status + v3_tasks_GetResultIdsResponse) \<times> 's" where
  "TasksService_get_result_ids ih it_ids svc =
     unary_server ih tasks_get_result_ids_Request_of_v3 (tasks_get_result_ids_Response_to_v3 it_ids) (TasksService.get_result_ids svc)"

definition TasksService_count_tasks_by_status :: "('m \<Rightarrow> 'h) \<Rightarrow> ('h, 'e, 's) TasksService
    \<Rightarrow> ('m, 'e, v3_tasks_CountTasksByStatusRequest) tonic_Request \<Rightarrow> 's \<Rightarrow> (tonic_Status + v3_tasks_CountTasksByStatusResponse) \<times> 's" where
  "TasksService_count_tasks_by_status ih svc =
     unary_server ih tasks_count_status_Request_of_v3 tasks_count_status_Response_to_v3 (TasksService.count_status svc)"

definition TasksService_submit_tasks :: "('m \<Rightarrow> 'h) \<Rightarrow> ('h, 'e, 's) TasksService
    \<Rightarrow> ('m, 'e, v3_tasks_SubmitTasksRequest) tonic_Request \<Rightarrow> 's \<Rightarrow> (tonic_Status + v3_tasks_SubmitTasksResponse) \<times> 's" where
  "TasksService_submit_tasks ih svc =
     unary_server ih tasks_submit_Request_of_v3 tasks_submit_Response_to_v3 (TasksService.submit svc)"

section \<open>A client connected to a server\<close>

definition tasks_loopback :: "('m \<Rightarrow> 'h) \<Rightarrow> ((string, string list) fmap \<Rightarrow> (string \<times> string list) list)
    \<Rightarrow> 'm \<Rightarrow> 'e \<Rightarrow> ('h, 'e, 's) TasksService \<Rightarrow> 's v3_tasks_TasksClient" where
  "tasks_loopback ih it_ids m e svc = \<lparr>
     v3_tasks_TasksClient.list_tasks = (\<lambda>w. TasksService_list_tasks ih svc (direct_request m e w)),
     v3_tasks_TasksClient.list_tasks_detailed = (\<lambda>w. TasksService_list_tasks_detailed ih svc (direct_request m e w)),
     v3_tasks_TasksClient.get_task = (\<lambda>w. TasksService_get_task ih svc (direct_request m e w)),
     v3_tasks_TasksClient.cancel_tasks = (\<lambda>w. TasksService_cancel_tasks ih svc (direct_request m e w)),
     v3_tasks_TasksClient.get_result_ids = (\<lambda>w. TasksService_get_result_ids ih it_ids svc (direct_request m e w)),
     v3_tasks_TasksClient.count_tasks_by_status = (\<lambda>w. TasksService_count_tasks_by_status ih svc (direct_request m e w)),
     v3_tasks_TasksClient.submit_tasks = (\<lambda>w. TasksService_submit_tasks ih svc (direct_request m e w))\<rparr>"

text \<open>The contract of each remote procedure.\<close>

interpretation tasks_list_rpc: rpc_link
    tasks_list_Request_to_v3 tasks_list_Request_of_v3 "\<lambda>_. True"
    tasks_list_Response_to_v3 tasks_list_Response_of_v3 "\<lambda>r. list_all tasks_Summary_faithful (tasks_list_Response.tasks r)"
  by unfold_locales

interpretation tasks_list_detailed_rpc: total_rpc_link
    tasks_list_detailed_Request_to_v3 tasks_list_detailed_Request_of_v3
    tasks_list_detailed_Response_to_v3 tasks_list_detailed_Response_of_v3
  by unfold_locales

interpretation tasks_get_rpc: total_rpc_link
    tasks_get_Request_to_v3 tasks_get_Request_of_v3
    tasks_get_Response_to_v3 tasks_get_Response_of_v3
  by unfold_locales

interpretation tasks_cancel_rpc: rpc_link
    tasks_cancel_Request_to_v3 tasks_cancel_Request_of_v3 "\<lambda>_. True"
    tasks_cancel_Response_to_v3 tasks_cancel_Response_of_v3 "\<lambda>r. list_all tasks_Summary_faithful (tasks_cancel_Response.tasks r)"
  by unfold_locales

interpretation tasks_get_result_ids_rpc: rpc_link
    tasks_get_result_ids_Request_to_v3 tasks_get_result_ids_Request_of_v3 "\<lambda>_. True"
    "tasks_get_result_ids_Response_to_v3 it_ids" tasks_get_result_ids_Response_of_v3 "\<lambda>_. iterates it_ids"
  for it_ids
  by unfold_locales (simp_all add: tasks_get_result_ids_Response_roundtrip)

interpretation tasks_count_status_rpc: total_rpc_link
    tasks_count_status_Request_to_v3 tasks_count_status_Request_of_v3
    tasks_count_status_Response_to_v3 tasks_count_status_Response_of_v3
  by unfold_locales

interpretation tasks_submit_rpc: total_rpc_link
    tasks_submit_Request_to_v3 tasks_submit_Request_of_v3
    tasks_submit_Response_to_v3 tasks_submit_Response_of_v3
  by unfold_locales

lemmas tasks_link_defs = tasks_loopback_def tasks_client_defs
  TasksService_list_tasks_def TasksService_list_tasks_detailed_def TasksService_get_task_def TasksService_cancel_tasks_def TasksService_get_result_ids_def TasksService_count_tasks_by_status_def TasksService_submit_tasks_def

lemma Tasks_call_list_detailed_transparent:
  "Tasks_call_list_detailed (tasks_loopback ih it_ids m e svc) r s =
     in_process (TasksService.list_detailed svc r (direct_context ih m e) s)"
  by (simp add: tasks_link_defs)

lemma Tasks_call_get_transparent:
  "Tasks_call_get (tasks_loopback ih it_ids m e svc) r s =
     in_process (TasksService.get svc r (direct_context ih m e) s)"
  by (simp add: tasks_link_defs)

lemma Tasks_call_count_status_transparent:
  "Tasks_call_count_status (tasks_loopback ih it_ids m e svc) r s =
     in_process (TasksService.count_status svc r (direct_context ih m e) s)"
  by (simp add: tasks_link_defs)

lemma Tasks_call_submit_transparent:
  "Tasks_call_submit (tasks_loopback ih it_ids m e svc) r s =
     in_process (TasksService.submit svc r (direct_context ih m e) s)"
  by (simp add: tasks_link_defs)

lemma tasks_raw_calls_once:
  "calls (Tasks_call_list (tasks_recording cl) req0 (l, c)) = l @ [(''Tasks'', ''ListTasks'')]"
  "calls (Tasks_call_list_detailed (tasks_recording cl) req1 (l, c)) = l @ [(''Tasks'', ''ListTasksDetailed'')]"
  "calls (Tasks_call_get (tasks_recording cl) req2 (l, c)) = l @ [(''Tasks'', ''GetTask'')]"
  "calls (Tasks_call_cancel (tasks_recording cl) req3 (l, c)) = l @ [(''Tasks'', ''CancelTasks'')]"
  "calls (Tasks_call_get_result_ids (tasks_recording cl) req4 (l, c)) = l @ [(''Tasks'', ''GetResultIds'')]"
  "calls (Tasks_call_count_status (tasks_recording cl) req5 (l, c)) = l @ [(''Tasks'', ''CountTasksByStatus'')]"
  "calls (Tasks_call_submit (tasks_recording cl) req6 (l, c)) = l @ [(''Tasks'', ''SubmitTasks'')]"
  by (simp_all add: tasks_client_defs tasks_recording_def)

lemma tasks_methods_call_once:
  "calls (Tasks_list (tasks_recording cl) filters0 sort0 with_errors0 page0 page_size0 (l, c)) = l @ [(''Tasks'', ''ListTasks'')]"
  "calls (Tasks_list_detailed (tasks_recording cl) filters1 sort1 with_errors1 page1 page_size1 (l, c)) = l @ [(''Tasks'', ''ListTasksDetailed'')]"
  "calls (Tasks_get (tasks_recording cl) task_id2 (l, c)) = l @ [(''Tasks'', ''GetTask'')]"
  "calls (Tasks_cancel (tasks_recording cl) task_ids3 (l, c)) = l @ [(''Tasks'', ''CancelTasks'')]"
  "calls (Tasks_get_result_ids (tasks_recording cl) task_ids4 (l, c)) = l @ [(''Tasks'', ''GetResultIds'')]"
  "calls (Tasks_count_status (tasks_recording cl) filters5 (l, c)) = l @ [(''Tasks'', ''CountTasksByStatus'')]"
  "calls (Tasks_submit (tasks_recording cl) session_id6 task_options6 items6 (l, c)) = l @ [(''Tasks'', ''SubmitTasks'')]"
  by (simp_all add: tasks_client_defs tasks_recording_def)

text \<open>Summaries survive unless their output is the empty error.\<close>

lemma Tasks_call_list_transparent:
  assumes "\<And>p s'. TasksService.list svc r (direct_context ih m e) s = (Inr p, s') \<Longrightarrow>
    list_all tasks_Summary_faithful (tasks_list_Response.tasks p)"
  shows "Tasks_call_list (tasks_loopback ih it_ids m e svc) r s =
    in_process (TasksService.list svc r (direct_context ih m e) s)"
  using assms by (simp add: tasks_link_defs tasks_list_rpc.unary_transparent)

text \<open>Summaries survive unless their output is the empty error.\<close>

lemma Tasks_call_cancel_transparent:
  assumes "\<And>p s'. TasksService.cancel svc r (direct_context ih m e) s = (Inr p, s') \<Longrightarrow>
    list_all tasks_Summary_faithful (tasks_cancel_Response.tasks p)"
  shows "Tasks_call_cancel (tasks_loopback ih it_ids m e svc) r s =
    in_process (TasksService.cancel svc r (direct_context ih m e) s)"
  using assms by (simp add: tasks_link_defs tasks_cancel_rpc.unary_transparent)

text \<open>In general the summaries arrive with the empty error replaced by a success.\<close>

definition tasks_Summary_normal :: "tasks_Summary \<Rightarrow> tasks_Summary" where
  "tasks_Summary_normal t = (if tasks_Summary_faithful t then t else t\<lparr>tasks_Summary.output := tasks_Output.Success\<rparr>)"

lemma tasks_Summary_decoded: "tasks_Summary_of_v3 (tasks_Summary_to_v3 t) = tasks_Summary_normal t"
  by (simp add: tasks_Summary_normalised tasks_Summary_normal_def)

lemma tasks_list_Response_decoded:
  "tasks_list_Response_of_v3 (tasks_list_Response_to_v3 p) =
     p\<lparr>tasks_list_Response.tasks := map tasks_Summary_normal (tasks_list_Response.tasks p)\<rparr>"
  by (cases p) (simp add: tasks_list_Response_of_v3_def tasks_list_Response_to_v3_def into_collect_def
      o_def tasks_Summary_decoded)

lemma Tasks_call_list_normalised:
  "Tasks_call_list (tasks_loopback ih it_ids m e svc) r s =
     in_process (map_ok (\<lambda>p. p\<lparr>tasks_list_Response.tasks := map tasks_Summary_normal (tasks_list_Response.tasks p)\<rparr>)
       (TasksService.list svc r (direct_context ih m e) s))"
  by (simp add: tasks_link_defs unary_loopback tasks_list_Response_decoded)

lemma tasks_cancel_Response_decoded:
  "tasks_cancel_Response_of_v3 (tasks_cancel_Response_to_v3 p) =
     p\<lparr>tasks_cancel_Response.tasks := map tasks_Summary_normal (tasks_cancel_Response.tasks p)\<rparr>"
  by (cases p) (simp add: tasks_cancel_Response_of_v3_def tasks_cancel_Response_to_v3_def into_collect_def
      o_def tasks_Summary_decoded)

lemma Tasks_call_cancel_normalised:
  "Tasks_call_cancel (tasks_loopback ih it_ids m e svc) r s =
     in_process (map_ok (\<lambda>p. p\<lparr>tasks_cancel_Response.tasks := map tasks_Summary_normal (tasks_cancel_Response.tasks p)\<rparr>)
       (TasksService.cancel svc r (direct_context ih m e) s))"
  by (simp add: tasks_link_defs unary_loopback tasks_cancel_Response_decoded)

lemma Tasks_call_get_result_ids_transparent:
  assumes "iterates it_ids"
  shows "Tasks_call_get_result_ids (tasks_loopback ih it_ids m e svc) r s =
    in_process (TasksService.get_result_ids svc r (direct_context ih m e) s)"
  using assms by (simp add: tasks_link_defs tasks_get_result_ids_rpc.unary_transparent)

end
