(* ===== verification/Tasks_Tests.thy ===== *)
theory Tasks_Tests
  imports Tasks_Service
begin

text \<open>
  The unit tests of \<^verbatim>\<open>client/tasks.rs\<close>: each is the counter it reads and the call it makes, with the arguments of the
  source. Against the mock server a test passes exactly when the answer to its call is the one it expects.
\<close>

definition Tasks_test_list :: "('c v3_tasks_TasksClient, 'c) client_test" where
  "Tasks_test_list = \<lparr>
     client_test.counter_service = ''Tasks'', client_test.counter_rpc = ''ListTasks'',
     client_test.test_call = (\<lambda>cl c. unwrap (Tasks_list cl (tasks_filter_lists \<lparr>tasks_filter_Or.or_ands = [\<lparr>tasks_filter_And.and_fields = []\<rparr>]\<rparr>) tasks_Sort_default True 0 10 c))\<rparr>"

definition Tasks_test_list_detailed :: "('c v3_tasks_TasksClient, 'c) client_test" where
  "Tasks_test_list_detailed = \<lparr>
     client_test.counter_service = ''Tasks'', client_test.counter_rpc = ''ListTasksDetailed'',
     client_test.test_call = (\<lambda>cl c. unwrap (Tasks_list_detailed cl (tasks_filter_lists \<lparr>tasks_filter_Or.or_ands = [\<lparr>tasks_filter_And.and_fields = []\<rparr>]\<rparr>) tasks_Sort_default True 0 10 c))\<rparr>"

definition Tasks_test_get :: "('c v3_tasks_TasksClient, 'c) client_test" where
  "Tasks_test_get = \<lparr>
     client_test.counter_service = ''Tasks'', client_test.counter_rpc = ''GetTask'',
     client_test.test_call = (\<lambda>cl c. unwrap (Tasks_get cl ''task-id'' c))\<rparr>"

definition Tasks_test_cancel :: "('c v3_tasks_TasksClient, 'c) client_test" where
  "Tasks_test_cancel = \<lparr>
     client_test.counter_service = ''Tasks'', client_test.counter_rpc = ''CancelTasks'',
     client_test.test_call = (\<lambda>cl c. unwrap (Tasks_cancel cl [''task1'', ''task2''] c))\<rparr>"

definition Tasks_test_get_result_ids :: "('c v3_tasks_TasksClient, 'c) client_test" where
  "Tasks_test_get_result_ids = \<lparr>
     client_test.counter_service = ''Tasks'', client_test.counter_rpc = ''GetResultIds'',
     client_test.test_call = (\<lambda>cl c. unwrap (Tasks_get_result_ids cl [''task1'', ''task2''] c))\<rparr>"

definition Tasks_test_count_status :: "('c v3_tasks_TasksClient, 'c) client_test" where
  "Tasks_test_count_status = \<lparr>
     client_test.counter_service = ''Tasks'', client_test.counter_rpc = ''CountTasksByStatus'',
     client_test.test_call = (\<lambda>cl c. unwrap (Tasks_count_status cl \<lparr>tasks_filter_Or.or_ands = [\<lparr>tasks_filter_And.and_fields = []\<rparr>]\<rparr> c))\<rparr>"

definition Tasks_test_submit :: "('c v3_tasks_TasksClient, 'c) client_test" where
  "Tasks_test_submit = \<lparr>
     client_test.counter_service = ''Tasks'', client_test.counter_rpc = ''SubmitTasks'',
     client_test.test_call = (\<lambda>cl c. unwrap (Tasks_submit cl ''session-id'' None [] c))\<rparr>"

definition Tasks_test_list_call :: "('c v3_tasks_TasksClient, 'c) client_test" where
  "Tasks_test_list_call = \<lparr>
     client_test.counter_service = ''Tasks'', client_test.counter_rpc = ''ListTasks'',
     client_test.test_call = (\<lambda>cl c. unwrap (Tasks_call_list cl (tasks_list_Request_default\<lparr>tasks_list_Request.page_size := 10\<rparr>) c))\<rparr>"

definition Tasks_test_list_detailed_call :: "('c v3_tasks_TasksClient, 'c) client_test" where
  "Tasks_test_list_detailed_call = \<lparr>
     client_test.counter_service = ''Tasks'', client_test.counter_rpc = ''ListTasksDetailed'',
     client_test.test_call = (\<lambda>cl c. unwrap (Tasks_call_list_detailed cl (tasks_list_detailed_Request_default\<lparr>tasks_list_detailed_Request.page_size := 10\<rparr>) c))\<rparr>"

definition Tasks_test_get_call :: "('c v3_tasks_TasksClient, 'c) client_test" where
  "Tasks_test_get_call = \<lparr>
     client_test.counter_service = ''Tasks'', client_test.counter_rpc = ''GetTask'',
     client_test.test_call = (\<lambda>cl c. unwrap (Tasks_call_get cl \<lparr>tasks_get_Request.task_id = ''task-id''\<rparr> c))\<rparr>"

definition Tasks_test_cancel_call :: "('c v3_tasks_TasksClient, 'c) client_test" where
  "Tasks_test_cancel_call = \<lparr>
     client_test.counter_service = ''Tasks'', client_test.counter_rpc = ''CancelTasks'',
     client_test.test_call = (\<lambda>cl c. unwrap (Tasks_call_cancel cl \<lparr>tasks_cancel_Request.task_ids = [''task1'', ''task2'']\<rparr> c))\<rparr>"

definition Tasks_test_get_result_ids_call :: "('c v3_tasks_TasksClient, 'c) client_test" where
  "Tasks_test_get_result_ids_call = \<lparr>
     client_test.counter_service = ''Tasks'', client_test.counter_rpc = ''GetResultIds'',
     client_test.test_call = (\<lambda>cl c. unwrap (Tasks_call_get_result_ids cl \<lparr>tasks_get_result_ids_Request.task_ids = [''task1'', ''task2'']\<rparr> c))\<rparr>"

definition Tasks_test_count_status_call :: "('c v3_tasks_TasksClient, 'c) client_test" where
  "Tasks_test_count_status_call = \<lparr>
     client_test.counter_service = ''Tasks'', client_test.counter_rpc = ''CountTasksByStatus'',
     client_test.test_call = (\<lambda>cl c. unwrap (Tasks_call_count_status cl \<lparr>tasks_count_status_Request.filters = \<lparr>tasks_filter_Or.or_ands = [\<lparr>tasks_filter_And.and_fields = []\<rparr>]\<rparr>\<rparr> c))\<rparr>"

definition Tasks_test_submit_call :: "('c v3_tasks_TasksClient, 'c) client_test" where
  "Tasks_test_submit_call = \<lparr>
     client_test.counter_service = ''Tasks'', client_test.counter_rpc = ''SubmitTasks'',
     client_test.test_call = (\<lambda>cl c. unwrap (Tasks_call_submit cl \<lparr>tasks_submit_Request.session_id = ''session-id'', tasks_submit_Request.task_options = None, tasks_submit_Request.items = []\<rparr> c))\<rparr>"

definition Tasks_tests :: "('c v3_tasks_TasksClient, 'c) client_test list" where
  "Tasks_tests = [
     Tasks_test_list,
     Tasks_test_list_detailed,
     Tasks_test_get,
     Tasks_test_cancel,
     Tasks_test_get_result_ids,
     Tasks_test_count_status,
     Tasks_test_submit,
     Tasks_test_list_call,
     Tasks_test_list_detailed_call,
     Tasks_test_get_call,
     Tasks_test_cancel_call,
     Tasks_test_get_result_ids_call,
     Tasks_test_count_status_call,
     Tasks_test_submit_call]"

section \<open>The answers of the mock server\<close>

text \<open>
  The class of the mock server that implements the service, as the stub of a client connected to it. A field that is not set
  has its default. Its methods keep no state; one that is sent a stream reads it to its end, which the streams of the tests
  have.
\<close>

definition tasks_mock_task :: v3_tasks_TaskDetailed where
  "tasks_mock_task = \<lparr>v3_tasks_TaskDetailed.id = ''task-id'', v3_tasks_TaskDetailed.session_id = ''session-id'', v3_tasks_TaskDetailed.owner_pod_id = [], v3_tasks_TaskDetailed.initial_task_id = [], v3_tasks_TaskDetailed.parent_task_ids = [], v3_tasks_TaskDetailed.data_dependencies = [], v3_tasks_TaskDetailed.expected_output_ids = [], v3_tasks_TaskDetailed.retry_of_ids = [], v3_tasks_TaskDetailed.status = 4, v3_tasks_TaskDetailed.status_message = [], v3_tasks_TaskDetailed.options = Some \<lparr>v3_TaskOptions.options = fmempty, v3_TaskOptions.max_duration = Some \<lparr>prost_Duration.seconds = 1, prost_Duration.nanos = 0\<rparr>, v3_TaskOptions.max_retries = 1, v3_TaskOptions.priority = 1, v3_TaskOptions.partition_id = ''partition-id'', v3_TaskOptions.application_name = ''application-name'', v3_TaskOptions.application_version = ''application-version'', v3_TaskOptions.application_namespace = ''application-namespace'', v3_TaskOptions.application_service = ''application-service'', v3_TaskOptions.engine_type = ''engine-type''\<rparr>, v3_tasks_TaskDetailed.created_at = None, v3_tasks_TaskDetailed.submitted_at = None, v3_tasks_TaskDetailed.received_at = None, v3_tasks_TaskDetailed.acquired_at = None, v3_tasks_TaskDetailed.fetched_at = None, v3_tasks_TaskDetailed.started_at = None, v3_tasks_TaskDetailed.processed_at = None, v3_tasks_TaskDetailed.ended_at = None, v3_tasks_TaskDetailed.pod_ttl = None, v3_tasks_TaskDetailed.creation_to_end_duration = None, v3_tasks_TaskDetailed.processing_to_end_duration = None, v3_tasks_TaskDetailed.received_to_end_duration = None, v3_tasks_TaskDetailed.payload_id = [], v3_tasks_TaskDetailed.created_by = [], v3_tasks_TaskDetailed.output = None, v3_tasks_TaskDetailed.pod_hostname = []\<rparr>"

definition tasks_mock :: "'c v3_tasks_TasksClient" where
  "tasks_mock = \<lparr>
     v3_tasks_TasksClient.list_tasks = (\<lambda>r c. (Inr \<lparr>v3_tasks_ListTasksResponse.tasks = [], v3_tasks_ListTasksResponse.page = 1, v3_tasks_ListTasksResponse.page_size = v3_tasks_ListTasksRequest.page_size r, v3_tasks_ListTasksResponse.total = 1\<rparr>, c)),
     v3_tasks_TasksClient.list_tasks_detailed = (\<lambda>r c. (Inr \<lparr>v3_tasks_ListTasksDetailedResponse.tasks = [tasks_mock_task], v3_tasks_ListTasksDetailedResponse.page = 0, v3_tasks_ListTasksDetailedResponse.page_size = v3_tasks_ListTasksRequest.page_size r, v3_tasks_ListTasksDetailedResponse.total = 1\<rparr>, c)),
     v3_tasks_TasksClient.get_task = (\<lambda>r c. (Inr \<lparr>v3_tasks_GetTaskResponse.task = Some tasks_mock_task\<rparr>, c)),
     v3_tasks_TasksClient.cancel_tasks = (\<lambda>r c. (Inr \<lparr>v3_tasks_CancelTasksResponse.tasks = []\<rparr>, c)),
     v3_tasks_TasksClient.get_result_ids = (\<lambda>r c. (Inr \<lparr>v3_tasks_GetResultIdsResponse.task_results = []\<rparr>, c)),
     v3_tasks_TasksClient.count_tasks_by_status = (\<lambda>r c. (Inr \<lparr>v3_tasks_CountTasksByStatusResponse.status = [\<lparr>v3_StatusCount.status = 4, v3_StatusCount.count = 2\<rparr>, \<lparr>v3_StatusCount.status = 2, v3_StatusCount.count = 5\<rparr>]\<rparr>, c)),
     v3_tasks_TasksClient.submit_tasks = (\<lambda>r c. (Inr \<lparr>v3_tasks_SubmitTasksResponse.task_infos = []\<rparr>, c))\<rparr>"

section \<open>When the tests pass\<close>

lemma Tasks_test_list_iff:
  "length l < 2 ^ 63 - 1 \<Longrightarrow> counted mock_counter (\<lambda>_. Some (tasks_recording cl)) Tasks_test_list (l, c) \<longleftrightarrow>
     fst (test_call Tasks_test_list cl c)"
  by (rule counted_iff [where rec = tasks_recording and svc = "''Tasks''" and rpc = "''ListTasks''"])
    (simp_all add: Tasks_test_list_def tasks_client_defs tasks_recording_def logged_simps counts_simps)

lemma Tasks_test_list_detailed_iff:
  "length l < 2 ^ 63 - 1 \<Longrightarrow> counted mock_counter (\<lambda>_. Some (tasks_recording cl)) Tasks_test_list_detailed (l, c) \<longleftrightarrow>
     fst (test_call Tasks_test_list_detailed cl c)"
  by (rule counted_iff [where rec = tasks_recording and svc = "''Tasks''" and rpc = "''ListTasksDetailed''"])
    (simp_all add: Tasks_test_list_detailed_def tasks_client_defs tasks_recording_def logged_simps counts_simps)

lemma Tasks_test_get_iff:
  "length l < 2 ^ 63 - 1 \<Longrightarrow> counted mock_counter (\<lambda>_. Some (tasks_recording cl)) Tasks_test_get (l, c) \<longleftrightarrow>
     fst (test_call Tasks_test_get cl c)"
  by (rule counted_iff [where rec = tasks_recording and svc = "''Tasks''" and rpc = "''GetTask''"])
    (simp_all add: Tasks_test_get_def tasks_client_defs tasks_recording_def logged_simps counts_simps)

lemma Tasks_test_cancel_iff:
  "length l < 2 ^ 63 - 1 \<Longrightarrow> counted mock_counter (\<lambda>_. Some (tasks_recording cl)) Tasks_test_cancel (l, c) \<longleftrightarrow>
     fst (test_call Tasks_test_cancel cl c)"
  by (rule counted_iff [where rec = tasks_recording and svc = "''Tasks''" and rpc = "''CancelTasks''"])
    (simp_all add: Tasks_test_cancel_def tasks_client_defs tasks_recording_def logged_simps counts_simps)

lemma Tasks_test_get_result_ids_iff:
  "length l < 2 ^ 63 - 1 \<Longrightarrow> counted mock_counter (\<lambda>_. Some (tasks_recording cl)) Tasks_test_get_result_ids (l, c) \<longleftrightarrow>
     fst (test_call Tasks_test_get_result_ids cl c)"
  by (rule counted_iff [where rec = tasks_recording and svc = "''Tasks''" and rpc = "''GetResultIds''"])
    (simp_all add: Tasks_test_get_result_ids_def tasks_client_defs tasks_recording_def logged_simps counts_simps)

lemma Tasks_test_count_status_iff:
  "length l < 2 ^ 63 - 1 \<Longrightarrow> counted mock_counter (\<lambda>_. Some (tasks_recording cl)) Tasks_test_count_status (l, c) \<longleftrightarrow>
     fst (test_call Tasks_test_count_status cl c)"
  by (rule counted_iff [where rec = tasks_recording and svc = "''Tasks''" and rpc = "''CountTasksByStatus''"])
    (simp_all add: Tasks_test_count_status_def tasks_client_defs tasks_recording_def logged_simps counts_simps)

lemma Tasks_test_submit_iff:
  "length l < 2 ^ 63 - 1 \<Longrightarrow> counted mock_counter (\<lambda>_. Some (tasks_recording cl)) Tasks_test_submit (l, c) \<longleftrightarrow>
     fst (test_call Tasks_test_submit cl c)"
  by (rule counted_iff [where rec = tasks_recording and svc = "''Tasks''" and rpc = "''SubmitTasks''"])
    (simp_all add: Tasks_test_submit_def tasks_client_defs tasks_recording_def logged_simps counts_simps)

lemma Tasks_test_list_call_iff:
  "length l < 2 ^ 63 - 1 \<Longrightarrow> counted mock_counter (\<lambda>_. Some (tasks_recording cl)) Tasks_test_list_call (l, c) \<longleftrightarrow>
     fst (test_call Tasks_test_list_call cl c)"
  by (rule counted_iff [where rec = tasks_recording and svc = "''Tasks''" and rpc = "''ListTasks''"])
    (simp_all add: Tasks_test_list_call_def tasks_client_defs tasks_recording_def logged_simps counts_simps)

lemma Tasks_test_list_detailed_call_iff:
  "length l < 2 ^ 63 - 1 \<Longrightarrow> counted mock_counter (\<lambda>_. Some (tasks_recording cl)) Tasks_test_list_detailed_call (l, c) \<longleftrightarrow>
     fst (test_call Tasks_test_list_detailed_call cl c)"
  by (rule counted_iff [where rec = tasks_recording and svc = "''Tasks''" and rpc = "''ListTasksDetailed''"])
    (simp_all add: Tasks_test_list_detailed_call_def tasks_client_defs tasks_recording_def logged_simps counts_simps)

lemma Tasks_test_get_call_iff:
  "length l < 2 ^ 63 - 1 \<Longrightarrow> counted mock_counter (\<lambda>_. Some (tasks_recording cl)) Tasks_test_get_call (l, c) \<longleftrightarrow>
     fst (test_call Tasks_test_get_call cl c)"
  by (rule counted_iff [where rec = tasks_recording and svc = "''Tasks''" and rpc = "''GetTask''"])
    (simp_all add: Tasks_test_get_call_def tasks_client_defs tasks_recording_def logged_simps counts_simps)

lemma Tasks_test_cancel_call_iff:
  "length l < 2 ^ 63 - 1 \<Longrightarrow> counted mock_counter (\<lambda>_. Some (tasks_recording cl)) Tasks_test_cancel_call (l, c) \<longleftrightarrow>
     fst (test_call Tasks_test_cancel_call cl c)"
  by (rule counted_iff [where rec = tasks_recording and svc = "''Tasks''" and rpc = "''CancelTasks''"])
    (simp_all add: Tasks_test_cancel_call_def tasks_client_defs tasks_recording_def logged_simps counts_simps)

lemma Tasks_test_get_result_ids_call_iff:
  "length l < 2 ^ 63 - 1 \<Longrightarrow> counted mock_counter (\<lambda>_. Some (tasks_recording cl)) Tasks_test_get_result_ids_call (l, c) \<longleftrightarrow>
     fst (test_call Tasks_test_get_result_ids_call cl c)"
  by (rule counted_iff [where rec = tasks_recording and svc = "''Tasks''" and rpc = "''GetResultIds''"])
    (simp_all add: Tasks_test_get_result_ids_call_def tasks_client_defs tasks_recording_def logged_simps counts_simps)

lemma Tasks_test_count_status_call_iff:
  "length l < 2 ^ 63 - 1 \<Longrightarrow> counted mock_counter (\<lambda>_. Some (tasks_recording cl)) Tasks_test_count_status_call (l, c) \<longleftrightarrow>
     fst (test_call Tasks_test_count_status_call cl c)"
  by (rule counted_iff [where rec = tasks_recording and svc = "''Tasks''" and rpc = "''CountTasksByStatus''"])
    (simp_all add: Tasks_test_count_status_call_def tasks_client_defs tasks_recording_def logged_simps counts_simps)

lemma Tasks_test_submit_call_iff:
  "length l < 2 ^ 63 - 1 \<Longrightarrow> counted mock_counter (\<lambda>_. Some (tasks_recording cl)) Tasks_test_submit_call (l, c) \<longleftrightarrow>
     fst (test_call Tasks_test_submit_call cl c)"
  by (rule counted_iff [where rec = tasks_recording and svc = "''Tasks''" and rpc = "''SubmitTasks''"])
    (simp_all add: Tasks_test_submit_call_def tasks_client_defs tasks_recording_def logged_simps counts_simps)

lemma Tasks_tests_iff:
  "length l < 2 ^ 63 - 1 \<Longrightarrow>
     map (\<lambda>t. counted mock_counter (\<lambda>_. Some (tasks_recording cl)) t (l, c)) Tasks_tests =
     map (\<lambda>t. fst (test_call t cl c)) Tasks_tests"
  by (simp add: Tasks_tests_def
      Tasks_test_list_iff
      Tasks_test_list_detailed_iff
      Tasks_test_get_iff
      Tasks_test_cancel_iff
      Tasks_test_get_result_ids_iff
      Tasks_test_count_status_iff
      Tasks_test_submit_iff
      Tasks_test_list_call_iff
      Tasks_test_list_detailed_call_iff
      Tasks_test_get_call_iff
      Tasks_test_cancel_call_iff
      Tasks_test_get_result_ids_call_iff
      Tasks_test_count_status_call_iff
      Tasks_test_submit_call_iff)

text \<open>The mock server answers all of them as they expect.\<close>

lemma tasks_mock_answers: "list_all (\<lambda>t. fst (test_call t tasks_mock c)) Tasks_tests"
  by (simp add: Tasks_tests_def tasks_mock_def mock_simps tasks_client_defs
      Tasks_test_list_def
      Tasks_test_list_detailed_def
      Tasks_test_get_def
      Tasks_test_cancel_def
      Tasks_test_get_result_ids_def
      Tasks_test_count_status_def
      Tasks_test_submit_def
      Tasks_test_list_call_def
      Tasks_test_list_detailed_call_def
      Tasks_test_get_call_def
      Tasks_test_cancel_call_def
      Tasks_test_get_result_ids_call_def
      Tasks_test_count_status_call_def
      Tasks_test_submit_call_def)

lemma Tasks_tests_pass:
  "length l < 2 ^ 63 - 1 \<Longrightarrow>
     list_all (\<lambda>t. counted mock_counter (\<lambda>_. Some (tasks_recording tasks_mock)) t (l, c)) Tasks_tests"
  by (rule list_all_decided [OF _ tasks_mock_answers]) (rule Tasks_tests_iff)

section \<open>The integration tests\<close>

text \<open>
  \<^verbatim>\<open>tests/tasks.rs\<close>: the service that the tests start, and the tests, each on a client
  \<open>cl\<close> connected to it.
\<close>

definition tasks_test_service ::
  "tonic_Status option \<Rightarrow> ('h, 'e, 's) TasksService" where
  "tasks_test_service fails = \<lparr>
     TasksService.list = (\<lambda>r ctx. unary_rpc_impl fails \<lparr>tasks_list_Response.tasks = [(tasks_Summary_default\<lparr>tasks_Summary.task_id := ''rpc-list-output''\<rparr>)], tasks_list_Response.page = tasks_list_Request.page r, tasks_list_Response.page_size = tasks_list_Request.page_size r, tasks_list_Response.total = 1337\<rparr>),
     TasksService.list_detailed = (\<lambda>r ctx. unary_rpc_impl fails \<lparr>tasks_list_detailed_Response.tasks = [(tasks_Raw_default\<lparr>tasks_Raw.task_id := ''rpc-list-detailed-output''\<rparr>)], tasks_list_detailed_Response.page = tasks_list_detailed_Request.page r, tasks_list_detailed_Response.page_size = tasks_list_detailed_Request.page_size r, tasks_list_detailed_Response.total = 1338\<rparr>),
     TasksService.get = (\<lambda>r ctx. unary_rpc_impl fails \<lparr>tasks_get_Response.task = (tasks_Raw_default\<lparr>tasks_Raw.session_id := ''rpc-get-output'', tasks_Raw.task_id := tasks_get_Request.task_id r\<rparr>)\<rparr>),
     TasksService.cancel = (\<lambda>r ctx. unary_rpc_impl fails \<lparr>tasks_cancel_Response.tasks = map (\<lambda>k. (tasks_Summary_default\<lparr>tasks_Summary.session_id := ''rpc-cancel-output'', tasks_Summary.task_id := k\<rparr>)) (tasks_cancel_Request.task_ids r)\<rparr>),
     TasksService.get_result_ids = (\<lambda>r ctx. unary_rpc_impl fails \<lparr>tasks_get_result_ids_Response.task_results = hashmap_collect (map (\<lambda>k. (k, [''rpc-get-result-ids-output''])) (tasks_get_result_ids_Request.task_ids r))\<rparr>),
     TasksService.count_status = (\<lambda>r ctx. unary_rpc_impl fails \<lparr>tasks_count_status_Response.status = [\<lparr>StatusCount.status = TaskStatus.Creating, StatusCount.count = 1337\<rparr>]\<rparr>),
     TasksService.submit = (\<lambda>r ctx. unary_rpc_impl fails \<lparr>tasks_submit_Response.items = map (\<lambda>i. (tasks_submit_ResponseItem_default\<lparr>tasks_submit_ResponseItem.task_id := ''rpc-submit-output'', tasks_submit_ResponseItem.payload_id := tasks_submit_RequestItem.payload_id i\<rparr>)) (tasks_submit_Request.items r)\<rparr>)\<rparr>"

definition Tasks_integration_list :: "'c v3_tasks_TasksClient \<Rightarrow> 'c \<Rightarrow> bool" where
  "Tasks_integration_list cl s \<longleftrightarrow> expects (\<lambda>p.
       tasks_list_Response.page p = 3 \<and> tasks_list_Response.page_size p = 12 \<and> tasks_list_Response.total p = 1337
     \<and> indexed 0 (\<lambda>x. tasks_Summary.task_id x = ''rpc-list-output'') (tasks_list_Response.tasks p))
     (Tasks_list cl (tasks_filter_lists tasks_filter_Or_default) tasks_Sort_default False 3 12 s)"

definition Tasks_integration_list_detailed :: "'c v3_tasks_TasksClient \<Rightarrow> 'c \<Rightarrow> bool" where
  "Tasks_integration_list_detailed cl s \<longleftrightarrow> expects (\<lambda>p.
       tasks_list_detailed_Response.page p = 3 \<and> tasks_list_detailed_Response.page_size p = 12 \<and> tasks_list_detailed_Response.total p = 1338
     \<and> indexed 0 (\<lambda>x. tasks_Raw.task_id x = ''rpc-list-detailed-output'') (tasks_list_detailed_Response.tasks p))
     (Tasks_list_detailed cl (tasks_filter_lists tasks_filter_Or_default) tasks_Sort_default False 3 12 s)"

definition Tasks_integration_get :: "'c v3_tasks_TasksClient \<Rightarrow> 'c \<Rightarrow> bool" where
  "Tasks_integration_get cl s \<longleftrightarrow> expects (\<lambda>p.
       tasks_Raw.task_id p = ''rpc-get-input'' \<and> tasks_Raw.session_id p = ''rpc-get-output'')
     (Tasks_get cl ''rpc-get-input'' s)"

definition Tasks_integration_cancel :: "'c v3_tasks_TasksClient \<Rightarrow> 'c \<Rightarrow> bool" where
  "Tasks_integration_cancel cl s \<longleftrightarrow> expects (\<lambda>p.
       indexed 0 (\<lambda>x. tasks_Summary.task_id x = ''rpc-cancel-input'') p
     \<and> indexed 0 (\<lambda>x. tasks_Summary.session_id x = ''rpc-cancel-output'') p)
     (Tasks_cancel cl [''rpc-cancel-input''] s)"

definition Tasks_integration_get_result_ids :: "'c v3_tasks_TasksClient \<Rightarrow> 'c \<Rightarrow> bool" where
  "Tasks_integration_get_result_ids cl s \<longleftrightarrow> expects (\<lambda>p.
       (case fmlookup p ''rpc-get-result-ids-input'' of None \<Rightarrow> False
         | Some xs \<Rightarrow> indexed 0 (\<lambda>x. x = ''rpc-get-result-ids-output'') xs))
     (Tasks_get_result_ids cl [''rpc-get-result-ids-input''] s)"

definition Tasks_integration_count_status :: "'c v3_tasks_TasksClient \<Rightarrow> 'c \<Rightarrow> bool" where
  "Tasks_integration_count_status cl s \<longleftrightarrow> expects (\<lambda>p.
       indexed 0 (\<lambda>x. StatusCount.count x = 1337) p)
     (Tasks_count_status cl tasks_filter_Or_default s)"

definition Tasks_integration_submit :: "'c v3_tasks_TasksClient \<Rightarrow> 'c \<Rightarrow> bool" where
  "Tasks_integration_submit cl s \<longleftrightarrow> expects (\<lambda>p.
       indexed 0 (\<lambda>x. tasks_submit_ResponseItem.payload_id x = ''rpc-submit-input'') p
     \<and> indexed 0 (\<lambda>x. tasks_submit_ResponseItem.task_id x = ''rpc-submit-output'') p)
     (Tasks_submit cl ''session-id'' None [(tasks_submit_RequestItem_default\<lparr>tasks_submit_RequestItem.payload_id := ''rpc-submit-input''\<rparr>)] s)"

definition Tasks_integration :: "('c v3_tasks_TasksClient \<Rightarrow> 'c \<Rightarrow> bool) list" where
  "Tasks_integration = [
     Tasks_integration_list,
     Tasks_integration_list_detailed,
     Tasks_integration_get,
     Tasks_integration_cancel,
     Tasks_integration_get_result_ids,
     Tasks_integration_count_status,
     Tasks_integration_submit]"

text \<open>They pass, whatever the state of the service.\<close>

lemmas tasks_integration_defs = Tasks_integration_def tasks_test_service_def indexed_def
  Tasks_integration_list_def
  Tasks_integration_list_detailed_def
  Tasks_integration_get_def
  Tasks_integration_cancel_def
  Tasks_integration_get_result_ids_def
  Tasks_integration_count_status_def
  Tasks_integration_submit_def

lemma Tasks_integration_passes:
  assumes "iterates it_ids"
  shows "list_all (\<lambda>t. t (tasks_loopback ih it_ids m e (tasks_test_service None)) s) (Tasks_integration)"
  by (simp add: tasks_integration_defs tasks_Summary_normal_def hashmap_collect_def Tasks_call_list_normalised Tasks_call_cancel_normalised Tasks_call_get_result_ids_transparent [OF assms]
    Tasks_cancel_def Tasks_count_status_def Tasks_get_def Tasks_get_result_ids_def Tasks_list_def Tasks_list_detailed_def Tasks_submit_def
    Tasks_call_cancel_transparent Tasks_call_count_status_transparent Tasks_call_get_transparent Tasks_call_list_detailed_transparent Tasks_call_list_transparent Tasks_call_submit_transparent)

end
