(* ===== verification/Results_Service.thy ===== *)
theory Results_Service
  imports Request_Count Results
begin

text \<open>
  The results service: the client (\<^verbatim>\<open>client/results.rs\<close>) and the server glue (\<^verbatim>\<open>server/results.rs\<close>) around
  the generated stub and trait, and the composition of the two.
\<close>

section \<open>The generated stub\<close>

record v3_results_WatchResultRequest =
  fetch_statuses :: "i32 list"
  watch_statuses :: "i32 list"
  result_ids :: "string list"

record v3_results_WatchResultResponse =
  status :: i32
  result_ids :: "string list"

record 'c v3_results_ResultsClient =
  list_results :: "(v3_results_ListResultsRequest, 'c, v3_results_ListResultsResponse) stub"
  get_result :: "(v3_results_GetResultRequest, 'c, v3_results_GetResultResponse) stub"
  get_owner_task_id :: "(v3_results_GetOwnerTaskIdRequest, 'c, v3_results_GetOwnerTaskIdResponse) stub"
  create_results_meta_data :: "(v3_results_CreateResultsMetaDataRequest, 'c, v3_results_CreateResultsMetaDataResponse) stub"
  create_results :: "(v3_results_CreateResultsRequest, 'c, v3_results_CreateResultsResponse) stub"
  upload_result_data :: "(v3_results_UploadResultDataRequest Stream, 'c, v3_results_UploadResultDataResponse) stub"
  download_result_data :: "(v3_results_DownloadResultDataRequest, 'c, (tonic_Status + v3_results_DownloadResultDataResponse) Stream) stub"
  delete_results_data :: "(v3_results_DeleteResultsDataRequest, 'c, v3_results_DeleteResultsDataResponse) stub"
  import_results_data :: "(v3_results_ImportResultsDataRequest, 'c, v3_results_ImportResultsDataResponse) stub"
  get_service_configuration :: "(v3_Empty, 'c, v3_results_ResultsServiceConfigurationResponse) stub"
  watch_results :: "(v3_results_WatchResultRequest Stream, 'c, (tonic_Status + v3_results_WatchResultResponse) Stream) stub"

text \<open>A stub that also records which procedures are called.\<close>

definition results_recording :: "'c v3_results_ResultsClient \<Rightarrow> 'c recording v3_results_ResultsClient" where
  "results_recording cl = \<lparr>
     v3_results_ResultsClient.list_results = recorded ''Results'' ''ListResults'' (v3_results_ResultsClient.list_results cl),
     v3_results_ResultsClient.get_result = recorded ''Results'' ''GetResult'' (v3_results_ResultsClient.get_result cl),
     v3_results_ResultsClient.get_owner_task_id = recorded ''Results'' ''GetOwnerTaskId'' (v3_results_ResultsClient.get_owner_task_id cl),
     v3_results_ResultsClient.create_results_meta_data = recorded ''Results'' ''CreateResultsMetaData'' (v3_results_ResultsClient.create_results_meta_data cl),
     v3_results_ResultsClient.create_results = recorded ''Results'' ''CreateResults'' (v3_results_ResultsClient.create_results cl),
     v3_results_ResultsClient.upload_result_data = recorded ''Results'' ''UploadResultData'' (v3_results_ResultsClient.upload_result_data cl),
     v3_results_ResultsClient.download_result_data = recorded ''Results'' ''DownloadResultData'' (v3_results_ResultsClient.download_result_data cl),
     v3_results_ResultsClient.delete_results_data = recorded ''Results'' ''DeleteResultsData'' (v3_results_ResultsClient.delete_results_data cl),
     v3_results_ResultsClient.import_results_data = recorded ''Results'' ''ImportResultsData'' (v3_results_ResultsClient.import_results_data cl),
     v3_results_ResultsClient.get_service_configuration = recorded ''Results'' ''GetServiceConfiguration'' (v3_results_ResultsClient.get_service_configuration cl),
     v3_results_ResultsClient.watch_results = recorded ''Results'' ''WatchResults'' (v3_results_ResultsClient.watch_results cl)\<rparr>"

section \<open>Client\<close>

subsection \<open>Raw calls\<close>

definition Results_call_list :: "'c v3_results_ResultsClient \<Rightarrow> results_list_Request \<Rightarrow> 'c \<Rightarrow> (RequestError + results_list_Response) \<times> 'c" where
  "Results_call_list cl req c =
     unary_call results_list_Request_to_v3 results_list_Response_of_v3 (v3_results_ResultsClient.list_results cl) req c"

definition Results_call_get :: "'c v3_results_ResultsClient \<Rightarrow> results_get_Request \<Rightarrow> 'c \<Rightarrow> (RequestError + results_get_Response) \<times> 'c" where
  "Results_call_get cl req c =
     unary_call results_get_Request_to_v3 results_get_Response_of_v3 (v3_results_ResultsClient.get_result cl) req c"

definition Results_call_get_owner_task_id :: "'c v3_results_ResultsClient \<Rightarrow> results_get_owner_task_id_Request \<Rightarrow> 'c \<Rightarrow> (RequestError + results_get_owner_task_id_Response) \<times> 'c" where
  "Results_call_get_owner_task_id cl req c =
     unary_call results_get_owner_task_id_Request_to_v3 results_get_owner_task_id_Response_of_v3 (v3_results_ResultsClient.get_owner_task_id cl) req c"

definition Results_call_create_metadata :: "'c v3_results_ResultsClient \<Rightarrow> results_create_metadata_Request \<Rightarrow> 'c \<Rightarrow> (RequestError + results_create_metadata_Response) \<times> 'c" where
  "Results_call_create_metadata cl req c =
     unary_call results_create_metadata_Request_to_v3 results_create_metadata_Response_of_v3 (v3_results_ResultsClient.create_results_meta_data cl) req c"

definition Results_call_create :: "'c v3_results_ResultsClient \<Rightarrow> results_create_Request \<Rightarrow> 'c \<Rightarrow> (RequestError + results_create_Response) \<times> 'c" where
  "Results_call_create cl req c =
     unary_call results_create_Request_to_v3 results_create_Response_of_v3 (v3_results_ResultsClient.create_results cl) req c"

definition Results_call_delete_data :: "'c v3_results_ResultsClient \<Rightarrow> results_delete_data_Request \<Rightarrow> 'c \<Rightarrow> (RequestError + results_delete_data_Response) \<times> 'c" where
  "Results_call_delete_data cl req c =
     unary_call results_delete_data_Request_to_v3 results_delete_data_Response_of_v3 (v3_results_ResultsClient.delete_results_data cl) req c"

definition Results_call_get_service_configuration :: "'c v3_results_ResultsClient \<Rightarrow> results_get_service_configuration_Request \<Rightarrow> 'c \<Rightarrow> (RequestError + results_get_service_configuration_Response) \<times> 'c" where
  "Results_call_get_service_configuration cl req c =
     unary_call results_get_service_configuration_Request_to_v3 results_get_service_configuration_Response_of_v3 (v3_results_ResultsClient.get_service_configuration cl) req c"

definition Results_call_import :: "((string, u8 list) fmap \<Rightarrow> (string \<times> u8 list) list) \<Rightarrow> 'c v3_results_ResultsClient \<Rightarrow> results_import_Request \<Rightarrow> 'c \<Rightarrow> (RequestError + results_import_Response) \<times> 'c" where
  "Results_call_import it_opaque cl req c =
     unary_call (results_import_Request_to_v3 it_opaque) results_import_Response_of_v3 (v3_results_ResultsClient.import_results_data cl) req c"

definition Results_call_download :: "'c v3_results_ResultsClient \<Rightarrow> results_download_Request \<Rightarrow> 'c \<Rightarrow> (RequestError + (RequestError + results_download_Response) Stream) \<times> 'c" where
  "Results_call_download cl req c =
     server_stream_call results_download_Request_to_v3 results_download_Response_of_v3 (v3_results_ResultsClient.download_result_data cl) req c"

definition Results_call_upload :: "'c v3_results_ResultsClient \<Rightarrow> results_upload_Request Stream \<Rightarrow> 'c \<Rightarrow> (RequestError + results_upload_Response) \<times> 'c" where
  "Results_call_upload cl req c =
     client_stream_call results_upload_Request_to_v3 results_upload_Response_of_v3 (v3_results_ResultsClient.upload_result_data cl) req c"

subsection \<open>Methods\<close>

definition Results_list :: "'c v3_results_ResultsClient \<Rightarrow> (results_filter_Field list) list \<Rightarrow> results_Sort \<Rightarrow> i32 \<Rightarrow> i32 \<Rightarrow> 'c \<Rightarrow> (RequestError + results_list_Response) \<times> 'c" where
  "Results_list cl filters' sort' page' page_size' c =
     Results_call_list cl \<lparr>results_list_Request.page = page', results_list_Request.page_size = page_size', results_list_Request.filters = results_filter_collect filters', results_list_Request.sort = sort'\<rparr> c"

definition Results_get :: "'c v3_results_ResultsClient \<Rightarrow> string \<Rightarrow> 'c \<Rightarrow> (RequestError + results_Raw) \<times> 'c" where
  "Results_get cl result_id' c =
     map_ok results_get_Response.result (Results_call_get cl \<lparr>results_get_Request.id = result_id'\<rparr> c)"

definition Results_get_owner_task_id :: "'c v3_results_ResultsClient \<Rightarrow> string \<Rightarrow> string list \<Rightarrow> 'c \<Rightarrow> (RequestError + (string, string) fmap) \<times> 'c" where
  "Results_get_owner_task_id cl session_id' result_ids' c =
     map_ok results_get_owner_task_id_Response.result_task (Results_call_get_owner_task_id cl \<lparr>results_get_owner_task_id_Request.session_id = session_id', results_get_owner_task_id_Request.result_ids = into_collect (\<lambda>x. x) result_ids'\<rparr> c)"

definition Results_create_metadata :: "'c v3_results_ResultsClient \<Rightarrow> string \<Rightarrow> results_create_metadata_RequestItem list \<Rightarrow> 'c \<Rightarrow> (RequestError + results_Raw list) \<times> 'c" where
  "Results_create_metadata cl session_id' results' c =
     map_ok results_create_metadata_Response.results (Results_call_create_metadata cl \<lparr>results_create_metadata_Request.results = into_collect (\<lambda>x. x) results', results_create_metadata_Request.session_id = session_id'\<rparr> c)"

definition Results_create :: "'c v3_results_ResultsClient \<Rightarrow> string \<Rightarrow> results_create_RequestItem list \<Rightarrow> 'c \<Rightarrow> (RequestError + results_Raw list) \<times> 'c" where
  "Results_create cl session_id' results' c =
     map_ok results_create_Response.results (Results_call_create cl \<lparr>results_create_Request.results = into_collect (\<lambda>x. x) results', results_create_Request.session_id = session_id'\<rparr> c)"

definition Results_delete_data :: "'c v3_results_ResultsClient \<Rightarrow> string \<Rightarrow> string list \<Rightarrow> 'c \<Rightarrow> (RequestError + string list) \<times> 'c" where
  "Results_delete_data cl session_id' result_ids' c =
     map_ok results_delete_data_Response.result_ids (Results_call_delete_data cl \<lparr>results_delete_data_Request.session_id = session_id', results_delete_data_Request.result_ids = into_collect (\<lambda>x. x) result_ids'\<rparr> c)"

definition Results_get_service_configuration :: "'c v3_results_ResultsClient \<Rightarrow> 'c \<Rightarrow> (RequestError + results_get_service_configuration_Response) \<times> 'c" where
  "Results_get_service_configuration cl c =
     Results_call_get_service_configuration cl results_get_service_configuration_Request c"

definition Results_import ::
  "((string, u8 list) fmap \<Rightarrow> (string \<times> u8 list) list) \<Rightarrow> 'c v3_results_ResultsClient \<Rightarrow> string
   \<Rightarrow> (string \<times> u8 list) list \<Rightarrow> 'c \<Rightarrow> (RequestError + (string, results_Raw) fmap) \<times> 'c" where
  "Results_import it_opaque cl session_id' results' c =
     map_ok results_import_Response.results (Results_call_import it_opaque cl
       \<lparr>results_import_Request.results = hashmap_collect (map (\<lambda>(result_id', opaque_id'). (result_id', opaque_id')) results'),
        results_import_Request.session_id = session_id'\<rparr> c)"

text \<open>An upload sends the identifier of the result, then every chunk in order.\<close>

definition Results_upload ::
  "'c v3_results_ResultsClient \<Rightarrow> string \<Rightarrow> string \<Rightarrow> u8 list Stream \<Rightarrow> 'c \<Rightarrow> (RequestError + results_Raw) \<times> 'c" where
  "Results_upload cl session_id' result_id' data' c =
     (let request = stream_iter [results_upload_Request_to_v3 (results_upload_Request.Identifier session_id' result_id')];
          request' = chain request
            (map_Stream (\<lambda>chunk. results_upload_Request_to_v3 (results_upload_Request.DataChunk chunk)) data')
      in case v3_results_ResultsClient.upload_result_data cl request' c of
           (r, c') \<Rightarrow> (map_sum Grpc (\<lambda>resp. map_or_default results_Raw_default results_Raw_of_v3
                        (v3_results_UploadResultDataResponse.result resp)) r, c'))"

definition Results_download ::
  "'c v3_results_ResultsClient \<Rightarrow> string \<Rightarrow> string \<Rightarrow> 'c \<Rightarrow> (RequestError + (RequestError + u8 list) Stream) \<times> 'c" where
  "Results_download cl session_id' result_id' c =
     server_stream_call results_download_Request_to_v3 v3_results_DownloadResultDataResponse.data_chunk
       (v3_results_ResultsClient.download_result_data cl)
       \<lparr>results_download_Request.session_id = session_id', results_download_Request.result_id = result_id'\<rparr> c"

lemmas results_client_defs =
  Results_call_list_def Results_call_get_def Results_call_get_owner_task_id_def Results_call_create_metadata_def Results_call_create_def Results_call_delete_data_def Results_call_get_service_configuration_def Results_call_import_def Results_call_download_def Results_call_upload_def Results_list_def Results_get_def Results_get_owner_task_id_def Results_create_metadata_def Results_create_def Results_delete_data_def Results_get_service_configuration_def Results_import_def Results_upload_def Results_download_def

section \<open>Server\<close>

record ('h, 'e, 's) ResultsService =
  list :: "(results_list_Request, 'h, 'e, 's, results_list_Response) handler"
  get :: "(results_get_Request, 'h, 'e, 's, results_get_Response) handler"
  get_owner_task_id :: "(results_get_owner_task_id_Request, 'h, 'e, 's, results_get_owner_task_id_Response) handler"
  create_metadata :: "(results_create_metadata_Request, 'h, 'e, 's, results_create_metadata_Response) handler"
  create :: "(results_create_Request, 'h, 'e, 's, results_create_Response) handler"
  import :: "(results_import_Request, 'h, 'e, 's, results_import_Response) handler"
  delete_data :: "(results_delete_data_Request, 'h, 'e, 's, results_delete_data_Response) handler"
  get_service_configuration :: "(results_get_service_configuration_Request, 'h, 'e, 's, results_get_service_configuration_Response) handler"
  download :: "(results_download_Request, 'h, 'e, 's, (tonic_Status + results_download_Response) Stream) handler"
  upload :: "((tonic_Status + results_upload_Request) Stream, 'h, 'e, 's, results_upload_Response) handler"

definition ResultsService_list_results :: "('m \<Rightarrow> 'h) \<Rightarrow> ('h, 'e, 's) ResultsService
    \<Rightarrow> ('m, 'e, v3_results_ListResultsRequest) tonic_Request \<Rightarrow> 's \<Rightarrow> (tonic_Status + v3_results_ListResultsResponse) \<times> 's" where
  "ResultsService_list_results ih svc =
     unary_server ih results_list_Request_of_v3 results_list_Response_to_v3 (ResultsService.list svc)"

definition ResultsService_get_result :: "('m \<Rightarrow> 'h) \<Rightarrow> ('h, 'e, 's) ResultsService
    \<Rightarrow> ('m, 'e, v3_results_GetResultRequest) tonic_Request \<Rightarrow> 's \<Rightarrow> (tonic_Status + v3_results_GetResultResponse) \<times> 's" where
  "ResultsService_get_result ih svc =
     unary_server ih results_get_Request_of_v3 results_get_Response_to_v3 (ResultsService.get svc)"

definition ResultsService_get_owner_task_id :: "('m \<Rightarrow> 'h) \<Rightarrow> ((string, string) fmap \<Rightarrow> (string \<times> string) list) \<Rightarrow> ('h, 'e, 's) ResultsService
    \<Rightarrow> ('m, 'e, v3_results_GetOwnerTaskIdRequest) tonic_Request \<Rightarrow> 's \<Rightarrow> (tonic_Status + v3_results_GetOwnerTaskIdResponse) \<times> 's" where
  "ResultsService_get_owner_task_id ih it_owner svc =
     unary_server ih results_get_owner_task_id_Request_of_v3 (results_get_owner_task_id_Response_to_v3 it_owner) (ResultsService.get_owner_task_id svc)"

definition ResultsService_create_results_meta_data :: "('m \<Rightarrow> 'h) \<Rightarrow> ('h, 'e, 's) ResultsService
    \<Rightarrow> ('m, 'e, v3_results_CreateResultsMetaDataRequest) tonic_Request \<Rightarrow> 's \<Rightarrow> (tonic_Status + v3_results_CreateResultsMetaDataResponse) \<times> 's" where
  "ResultsService_create_results_meta_data ih svc =
     unary_server ih results_create_metadata_Request_of_v3 results_create_metadata_Response_to_v3 (ResultsService.create_metadata svc)"

definition ResultsService_create_results :: "('m \<Rightarrow> 'h) \<Rightarrow> ('h, 'e, 's) ResultsService
    \<Rightarrow> ('m, 'e, v3_results_CreateResultsRequest) tonic_Request \<Rightarrow> 's \<Rightarrow> (tonic_Status + v3_results_CreateResultsResponse) \<times> 's" where
  "ResultsService_create_results ih svc =
     unary_server ih results_create_Request_of_v3 results_create_Response_to_v3 (ResultsService.create svc)"

definition ResultsService_import_results_data :: "('m \<Rightarrow> 'h) \<Rightarrow> ((string, results_Raw) fmap \<Rightarrow> (string \<times> results_Raw) list) \<Rightarrow> ('h, 'e, 's) ResultsService
    \<Rightarrow> ('m, 'e, v3_results_ImportResultsDataRequest) tonic_Request \<Rightarrow> 's \<Rightarrow> (tonic_Status + v3_results_ImportResultsDataResponse) \<times> 's" where
  "ResultsService_import_results_data ih it_raw svc =
     unary_server ih results_import_Request_of_v3 (results_import_Response_to_v3 it_raw) (ResultsService.import svc)"

definition ResultsService_delete_results_data :: "('m \<Rightarrow> 'h) \<Rightarrow> ('h, 'e, 's) ResultsService
    \<Rightarrow> ('m, 'e, v3_results_DeleteResultsDataRequest) tonic_Request \<Rightarrow> 's \<Rightarrow> (tonic_Status + v3_results_DeleteResultsDataResponse) \<times> 's" where
  "ResultsService_delete_results_data ih svc =
     unary_server ih results_delete_data_Request_of_v3 results_delete_data_Response_to_v3 (ResultsService.delete_data svc)"

definition ResultsService_get_service_configuration :: "('m \<Rightarrow> 'h) \<Rightarrow> ('h, 'e, 's) ResultsService
    \<Rightarrow> ('m, 'e, v3_Empty) tonic_Request \<Rightarrow> 's \<Rightarrow> (tonic_Status + v3_results_ResultsServiceConfigurationResponse) \<times> 's" where
  "ResultsService_get_service_configuration ih svc =
     unary_server ih results_get_service_configuration_Request_of_v3 results_get_service_configuration_Response_to_v3 (ResultsService.get_service_configuration svc)"

definition ResultsService_upload_result_data :: "('m \<Rightarrow> 'h) \<Rightarrow> ('h, 'e, 's) ResultsService
    \<Rightarrow> ('m, 'e, (tonic_Status + v3_results_UploadResultDataRequest) Stream) tonic_Request \<Rightarrow> 's \<Rightarrow> (tonic_Status + v3_results_UploadResultDataResponse) \<times> 's" where
  "ResultsService_upload_result_data ih svc =
     client_stream_server ih results_upload_Request_of_v3 results_upload_Response_to_v3 (ResultsService.upload svc)"

definition ResultsService_download_result_data :: "('m \<Rightarrow> 'h) \<Rightarrow> ('h, 'e, 's) ResultsService
    \<Rightarrow> ('m, 'e, v3_results_DownloadResultDataRequest) tonic_Request \<Rightarrow> 's \<Rightarrow> (tonic_Status + (tonic_Status + v3_results_DownloadResultDataResponse) Stream) \<times> 's" where
  "ResultsService_download_result_data ih svc =
     server_stream_server ih results_download_Request_of_v3 results_download_Response_to_v3 (ResultsService.download svc)"

definition ResultsService_watch_results ::
  "('m, 'e, (tonic_Status + v3_results_WatchResultRequest) Stream) tonic_Request \<Rightarrow> 's
   \<Rightarrow> (tonic_Status + (tonic_Status + v3_results_WatchResultResponse) Stream) \<times> 's" where
  "ResultsService_watch_results req s = (Inl (Status_unimplemented ''Results::WatchResults is not implemented''), s)"

section \<open>A client connected to a server\<close>

definition results_loopback :: "('m \<Rightarrow> 'h) \<Rightarrow> ((string, string) fmap \<Rightarrow> (string \<times> string) list)
    \<Rightarrow> ((string, results_Raw) fmap \<Rightarrow> (string \<times> results_Raw) list)
    \<Rightarrow> 'm \<Rightarrow> 'e \<Rightarrow> ('h, 'e, 's) ResultsService \<Rightarrow> 's v3_results_ResultsClient" where
  "results_loopback ih it_owner it_raw m e svc = \<lparr>
     v3_results_ResultsClient.list_results = (\<lambda>w. ResultsService_list_results ih svc (direct_request m e w)),
     v3_results_ResultsClient.get_result = (\<lambda>w. ResultsService_get_result ih svc (direct_request m e w)),
     v3_results_ResultsClient.get_owner_task_id = (\<lambda>w. ResultsService_get_owner_task_id ih it_owner svc (direct_request m e w)),
     v3_results_ResultsClient.create_results_meta_data = (\<lambda>w. ResultsService_create_results_meta_data ih svc (direct_request m e w)),
     v3_results_ResultsClient.create_results = (\<lambda>w. ResultsService_create_results ih svc (direct_request m e w)),
     v3_results_ResultsClient.upload_result_data = (\<lambda>ws. ResultsService_upload_result_data ih svc (direct_request m e (as_received ws))),
     v3_results_ResultsClient.download_result_data = (\<lambda>w. ResultsService_download_result_data ih svc (direct_request m e w)),
     v3_results_ResultsClient.delete_results_data = (\<lambda>w. ResultsService_delete_results_data ih svc (direct_request m e w)),
     v3_results_ResultsClient.import_results_data = (\<lambda>w. ResultsService_import_results_data ih it_raw svc (direct_request m e w)),
     v3_results_ResultsClient.get_service_configuration = (\<lambda>w. ResultsService_get_service_configuration ih svc (direct_request m e w)),
     v3_results_ResultsClient.watch_results = (\<lambda>ws. ResultsService_watch_results (direct_request m e (as_received ws)))\<rparr>"

text \<open>The contract of each remote procedure.\<close>

interpretation results_list_rpc: total_rpc_link
    results_list_Request_to_v3 results_list_Request_of_v3
    results_list_Response_to_v3 results_list_Response_of_v3
  by unfold_locales

interpretation results_get_rpc: total_rpc_link
    results_get_Request_to_v3 results_get_Request_of_v3
    results_get_Response_to_v3 results_get_Response_of_v3
  by unfold_locales

interpretation results_get_owner_task_id_rpc: rpc_link
    results_get_owner_task_id_Request_to_v3 results_get_owner_task_id_Request_of_v3 "\<lambda>_. True"
    "results_get_owner_task_id_Response_to_v3 it_owner" results_get_owner_task_id_Response_of_v3 "\<lambda>_. iterates it_owner"
  for it_owner
  by unfold_locales (simp_all add: results_get_owner_task_id_Response_roundtrip)

interpretation results_create_metadata_rpc: total_rpc_link
    results_create_metadata_Request_to_v3 results_create_metadata_Request_of_v3
    results_create_metadata_Response_to_v3 results_create_metadata_Response_of_v3
  by unfold_locales

interpretation results_create_rpc: total_rpc_link
    results_create_Request_to_v3 results_create_Request_of_v3
    results_create_Response_to_v3 results_create_Response_of_v3
  by unfold_locales

interpretation results_import_rpc: rpc_link
    "results_import_Request_to_v3 it_opaque" results_import_Request_of_v3 "\<lambda>_. iterates it_opaque"
    "results_import_Response_to_v3 it_raw" results_import_Response_of_v3 "\<lambda>r. iterates it_raw \<and> keyed_by_name r"
  for it_opaque and it_raw
  by unfold_locales (simp_all add: results_import_Response_roundtrip_iff results_import_Request_roundtrip)

interpretation results_delete_data_rpc: total_rpc_link
    results_delete_data_Request_to_v3 results_delete_data_Request_of_v3
    results_delete_data_Response_to_v3 results_delete_data_Response_of_v3
  by unfold_locales

interpretation results_get_service_configuration_rpc: total_rpc_link
    results_get_service_configuration_Request_to_v3 results_get_service_configuration_Request_of_v3
    results_get_service_configuration_Response_to_v3 results_get_service_configuration_Response_of_v3
  by unfold_locales

interpretation results_upload_rpc: total_rpc_link
    results_upload_Request_to_v3 results_upload_Request_of_v3
    results_upload_Response_to_v3 results_upload_Response_of_v3
  by unfold_locales

interpretation results_download_rpc: total_rpc_link
    results_download_Request_to_v3 results_download_Request_of_v3
    results_download_Response_to_v3 results_download_Response_of_v3
  by unfold_locales

lemmas results_link_defs = results_loopback_def results_client_defs
  ResultsService_list_results_def ResultsService_get_result_def ResultsService_get_owner_task_id_def ResultsService_create_results_meta_data_def ResultsService_create_results_def ResultsService_import_results_data_def ResultsService_delete_results_data_def ResultsService_get_service_configuration_def ResultsService_upload_result_data_def ResultsService_download_result_data_def

lemma Results_call_list_transparent:
  "Results_call_list (results_loopback ih it_owner it_raw m e svc) r s =
     in_process (ResultsService.list svc r (direct_context ih m e) s)"
  by (simp add: results_link_defs)

lemma Results_call_get_transparent:
  "Results_call_get (results_loopback ih it_owner it_raw m e svc) r s =
     in_process (ResultsService.get svc r (direct_context ih m e) s)"
  by (simp add: results_link_defs)

lemma Results_call_create_metadata_transparent:
  "Results_call_create_metadata (results_loopback ih it_owner it_raw m e svc) r s =
     in_process (ResultsService.create_metadata svc r (direct_context ih m e) s)"
  by (simp add: results_link_defs)

lemma Results_call_create_transparent:
  "Results_call_create (results_loopback ih it_owner it_raw m e svc) r s =
     in_process (ResultsService.create svc r (direct_context ih m e) s)"
  by (simp add: results_link_defs)

lemma Results_call_delete_data_transparent:
  "Results_call_delete_data (results_loopback ih it_owner it_raw m e svc) r s =
     in_process (ResultsService.delete_data svc r (direct_context ih m e) s)"
  by (simp add: results_link_defs)

lemma Results_call_get_service_configuration_transparent:
  "Results_call_get_service_configuration (results_loopback ih it_owner it_raw m e svc) r s =
     in_process (ResultsService.get_service_configuration svc r (direct_context ih m e) s)"
  by (simp add: results_link_defs)

lemma Results_call_upload_transparent:
  "Results_call_upload (results_loopback ih it_owner it_raw m e svc) r s =
     in_process (ResultsService.upload svc (as_received r) (direct_context ih m e) s)"
  by (simp add: results_link_defs)

lemma Results_call_download_transparent:
  "Results_call_download (results_loopback ih it_owner it_raw m e svc) r s =
     in_process_stream (ResultsService.download svc r (direct_context ih m e) s)"
  by (simp add: results_link_defs)

lemma results_raw_calls_once:
  "calls (Results_call_list (results_recording cl) req0 (l, c)) = l @ [(''Results'', ''ListResults'')]"
  "calls (Results_call_get (results_recording cl) req1 (l, c)) = l @ [(''Results'', ''GetResult'')]"
  "calls (Results_call_get_owner_task_id (results_recording cl) req2 (l, c)) = l @ [(''Results'', ''GetOwnerTaskId'')]"
  "calls (Results_call_create_metadata (results_recording cl) req3 (l, c)) = l @ [(''Results'', ''CreateResultsMetaData'')]"
  "calls (Results_call_create (results_recording cl) req4 (l, c)) = l @ [(''Results'', ''CreateResults'')]"
  "calls (Results_call_delete_data (results_recording cl) req5 (l, c)) = l @ [(''Results'', ''DeleteResultsData'')]"
  "calls (Results_call_get_service_configuration (results_recording cl) req6 (l, c)) = l @ [(''Results'', ''GetServiceConfiguration'')]"
  "calls (Results_call_import it_opaque (results_recording cl) req7 (l, c)) = l @ [(''Results'', ''ImportResultsData'')]"
  "calls (Results_call_download (results_recording cl) req8 (l, c)) = l @ [(''Results'', ''DownloadResultData'')]"
  "calls (Results_call_upload (results_recording cl) req9 (l, c)) = l @ [(''Results'', ''UploadResultData'')]"
  by (simp_all add: results_client_defs results_recording_def)

lemma results_methods_call_once:
  "calls (Results_list (results_recording cl) filters0 sort0 page0 page_size0 (l, c)) = l @ [(''Results'', ''ListResults'')]"
  "calls (Results_get (results_recording cl) result_id1 (l, c)) = l @ [(''Results'', ''GetResult'')]"
  "calls (Results_get_owner_task_id (results_recording cl) session_id2 result_ids2 (l, c)) = l @ [(''Results'', ''GetOwnerTaskId'')]"
  "calls (Results_create_metadata (results_recording cl) session_id3 results3 (l, c)) = l @ [(''Results'', ''CreateResultsMetaData'')]"
  "calls (Results_create (results_recording cl) session_id4 results4 (l, c)) = l @ [(''Results'', ''CreateResults'')]"
  "calls (Results_delete_data (results_recording cl) session_id5 result_ids5 (l, c)) = l @ [(''Results'', ''DeleteResultsData'')]"
  "calls (Results_get_service_configuration (results_recording cl) (l, c)) = l @ [(''Results'', ''GetServiceConfiguration'')]"
  by (simp_all add: results_client_defs results_recording_def)

lemma Results_upload_eq:
  "Results_upload cl sid rid chunks c =
     map_ok results_upload_Response.result (Results_call_upload cl
       (SCons (results_upload_Request.Identifier sid rid) (map_Stream results_upload_Request.DataChunk chunks)) c)"
  by (simp add: Results_upload_def Results_call_upload_def client_stream_call_def map_ok_def Let_def
      Stream.map_comp sum.map_comp o_def results_upload_Response_of_v3_def split: prod.split)

lemma Results_download_eq:
  "Results_download cl sid rid c =
     map_ok (map_Stream (map_sum (\<lambda>e. e) results_download_Response.data_chunk)) (Results_call_download cl
       \<lparr>results_download_Request.session_id = sid, results_download_Request.result_id = rid\<rparr> c)"
  by (simp add: Results_download_def Results_call_download_def server_stream_call_def map_ok_def
      Stream.map_comp sum.map_comp o_def results_download_Response_of_v3_def split: prod.split)

lemma Results_call_get_owner_task_id_transparent:
  assumes "iterates it_owner"
  shows "Results_call_get_owner_task_id (results_loopback ih it_owner it_raw m e svc) r s =
    in_process (ResultsService.get_owner_task_id svc r (direct_context ih m e) s)"
  using assms by (simp add: results_link_defs results_get_owner_task_id_rpc.unary_transparent)

lemma Results_call_import_transparent:
  assumes "iterates it_opaque" and "iterates it_raw"
    and "\<And>p s'. ResultsService.import svc r (direct_context ih m e) s = (Inr p, s') \<Longrightarrow> keyed_by_name p"
  shows "Results_call_import it_opaque (results_loopback ih it_owner it_raw m e svc) r s =
    in_process (ResultsService.import svc r (direct_context ih m e) s)"
  using assms by (simp add: results_link_defs results_import_rpc.unary_transparent)

lemma results_other_methods_call_once:
  "calls (Results_import it_opaque (results_recording cl) sid1 rs (l, c)) = l @ [(''Results'', ''ImportResultsData'')]"
  "calls (Results_upload (results_recording cl) sid2 rid chunks (l, c)) = l @ [(''Results'', ''UploadResultData'')]"
  "calls (Results_download (results_recording cl) sid3 rid3 (l, c)) = l @ [(''Results'', ''DownloadResultData'')]"
  by (simp_all add: Results_upload_eq Results_import_def Results_call_import_def Results_call_upload_def
      Results_download_def results_recording_def)

end
