(* ===== verification/Results_Tests.thy ===== *)
theory Results_Tests
  imports Results_Service
begin

text \<open>
  The unit tests of \<^verbatim>\<open>client/results.rs\<close>: each is the counter it reads and the call it makes, with the arguments of the
  source. Against the mock server a test passes exactly when the answer to its call is the one it expects.
\<close>

definition Results_test_list :: "('c v3_results_ResultsClient, 'c) client_test" where
  "Results_test_list = \<lparr>
     client_test.counter_service = ''Results'', client_test.counter_rpc = ''ListResults'',
     client_test.test_call = (\<lambda>cl c. unwrap (Results_list cl (results_filter_lists \<lparr>results_filter_Or.or_ands = [\<lparr>results_filter_And.and_fields = []\<rparr>]\<rparr>) results_Sort_default 0 10 c))\<rparr>"

definition Results_test_get :: "('c v3_results_ResultsClient, 'c) client_test" where
  "Results_test_get = \<lparr>
     client_test.counter_service = ''Results'', client_test.counter_rpc = ''GetResult'',
     client_test.test_call = (\<lambda>cl c. unwrap (Results_get cl ''result-id'' c))\<rparr>"

definition Results_test_get_owner_task_id :: "('c v3_results_ResultsClient, 'c) client_test" where
  "Results_test_get_owner_task_id = \<lparr>
     client_test.counter_service = ''Results'', client_test.counter_rpc = ''GetOwnerTaskId'',
     client_test.test_call = (\<lambda>cl c. unwrap (Results_get_owner_task_id cl ''session-id'' [''result1'', ''result2''] c))\<rparr>"

definition Results_test_create_metadata :: "('c v3_results_ResultsClient, 'c) client_test" where
  "Results_test_create_metadata = \<lparr>
     client_test.counter_service = ''Results'', client_test.counter_rpc = ''CreateResultsMetaData'',
     client_test.test_call = (\<lambda>cl c. unwrap (Results_create_metadata cl ''session-id'' [\<lparr>results_create_metadata_RequestItem.name = ''result'', results_create_metadata_RequestItem.manual_deletion = False\<rparr>] c))\<rparr>"

definition Results_test_create :: "('c v3_results_ResultsClient, 'c) client_test" where
  "Results_test_create = \<lparr>
     client_test.counter_service = ''Results'', client_test.counter_rpc = ''CreateResults'',
     client_test.test_call = (\<lambda>cl c. unwrap (Results_create cl ''session-id'' [\<lparr>results_create_RequestItem.name = ''result1'', results_create_RequestItem.data = map of_char ''data1'', results_create_RequestItem.manual_deletion = False\<rparr>, \<lparr>results_create_RequestItem.name = ''result2'', results_create_RequestItem.data = map of_char ''data2'', results_create_RequestItem.manual_deletion = False\<rparr>] c))\<rparr>"

definition Results_test_upload :: "('c v3_results_ResultsClient, 'c) client_test" where
  "Results_test_upload = \<lparr>
     client_test.counter_service = ''Results'', client_test.counter_rpc = ''UploadResultData'',
     client_test.test_call = (\<lambda>cl c. unwrap (Results_upload cl ''session-id'' ''result-id'' (stream_iter [[]]) c))\<rparr>"

definition Results_test_download :: "('c v3_results_ResultsClient, 'c) client_test" where
  "Results_test_download = \<lparr>
     client_test.counter_service = ''Results'', client_test.counter_rpc = ''DownloadResultData'',
     client_test.test_call = (\<lambda>cl c. unwrap_collect (Results_download cl ''session-id'' ''result-id'' c))\<rparr>"

definition Results_test_delete_data :: "('c v3_results_ResultsClient, 'c) client_test" where
  "Results_test_delete_data = \<lparr>
     client_test.counter_service = ''Results'', client_test.counter_rpc = ''DeleteResultsData'',
     client_test.test_call = (\<lambda>cl c. unwrap (Results_delete_data cl ''session-id'' [''result1'', ''result2''] c))\<rparr>"

definition Results_test_import :: "((string, u8 list) fmap \<Rightarrow> (string \<times> u8 list) list) \<Rightarrow> ('c v3_results_ResultsClient, 'c) client_test" where
  "Results_test_import it_opaque = \<lparr>
     client_test.counter_service = ''Results'', client_test.counter_rpc = ''ImportResultsData'',
     client_test.test_call = (\<lambda>cl c. unwrap (Results_import it_opaque cl ''session-id'' [(''result'', map of_char ''opaque-id'')] c))\<rparr>"

definition Results_test_get_service_configuration :: "('c v3_results_ResultsClient, 'c) client_test" where
  "Results_test_get_service_configuration = \<lparr>
     client_test.counter_service = ''Results'', client_test.counter_rpc = ''GetServiceConfiguration'',
     client_test.test_call = (\<lambda>cl c. unwrap (Results_get_service_configuration cl c))\<rparr>"

definition Results_test_list_call :: "('c v3_results_ResultsClient, 'c) client_test" where
  "Results_test_list_call = \<lparr>
     client_test.counter_service = ''Results'', client_test.counter_rpc = ''ListResults'',
     client_test.test_call = (\<lambda>cl c. unwrap (Results_call_list cl (results_list_Request_default\<lparr>results_list_Request.page_size := 10\<rparr>) c))\<rparr>"

definition Results_test_get_call :: "('c v3_results_ResultsClient, 'c) client_test" where
  "Results_test_get_call = \<lparr>
     client_test.counter_service = ''Results'', client_test.counter_rpc = ''GetResult'',
     client_test.test_call = (\<lambda>cl c. unwrap (Results_call_get cl \<lparr>results_get_Request.id = ''result-id''\<rparr> c))\<rparr>"

definition Results_test_get_owner_task_id_call :: "('c v3_results_ResultsClient, 'c) client_test" where
  "Results_test_get_owner_task_id_call = \<lparr>
     client_test.counter_service = ''Results'', client_test.counter_rpc = ''GetOwnerTaskId'',
     client_test.test_call = (\<lambda>cl c. unwrap (Results_call_get_owner_task_id cl \<lparr>results_get_owner_task_id_Request.session_id = ''session-id'', results_get_owner_task_id_Request.result_ids = []\<rparr> c))\<rparr>"

definition Results_test_create_metadata_call :: "('c v3_results_ResultsClient, 'c) client_test" where
  "Results_test_create_metadata_call = \<lparr>
     client_test.counter_service = ''Results'', client_test.counter_rpc = ''CreateResultsMetaData'',
     client_test.test_call = (\<lambda>cl c. unwrap (Results_call_create_metadata cl \<lparr>results_create_metadata_Request.results = [], results_create_metadata_Request.session_id = ''session-id''\<rparr> c))\<rparr>"

definition Results_test_create_call :: "('c v3_results_ResultsClient, 'c) client_test" where
  "Results_test_create_call = \<lparr>
     client_test.counter_service = ''Results'', client_test.counter_rpc = ''CreateResults'',
     client_test.test_call = (\<lambda>cl c. unwrap (Results_call_create cl \<lparr>results_create_Request.results = [], results_create_Request.session_id = ''session-id''\<rparr> c))\<rparr>"

definition Results_test_delete_data_call :: "('c v3_results_ResultsClient, 'c) client_test" where
  "Results_test_delete_data_call = \<lparr>
     client_test.counter_service = ''Results'', client_test.counter_rpc = ''DeleteResultsData'',
     client_test.test_call = (\<lambda>cl c. unwrap (Results_call_delete_data cl \<lparr>results_delete_data_Request.session_id = ''session-id'', results_delete_data_Request.result_ids = [''result-id'']\<rparr> c))\<rparr>"

definition Results_test_get_service_configuration_call :: "('c v3_results_ResultsClient, 'c) client_test" where
  "Results_test_get_service_configuration_call = \<lparr>
     client_test.counter_service = ''Results'', client_test.counter_rpc = ''GetServiceConfiguration'',
     client_test.test_call = (\<lambda>cl c. unwrap (Results_call_get_service_configuration cl results_get_service_configuration_Request c))\<rparr>"

definition Results_test_download_call :: "('c v3_results_ResultsClient, 'c) client_test" where
  "Results_test_download_call = \<lparr>
     client_test.counter_service = ''Results'', client_test.counter_rpc = ''DownloadResultData'',
     client_test.test_call = (\<lambda>cl c. unwrap_collect (Results_call_download cl \<lparr>results_download_Request.session_id = ''session-id'', results_download_Request.result_id = ''result-id''\<rparr> c))\<rparr>"

definition Results_test_upload_call :: "('c v3_results_ResultsClient, 'c) client_test" where
  "Results_test_upload_call = \<lparr>
     client_test.counter_service = ''Results'', client_test.counter_rpc = ''UploadResultData'',
     client_test.test_call = (\<lambda>cl c. unwrap (Results_call_upload cl (stream_iter [results_upload_Request.Identifier ''session-id'' ''result-id'']) c))\<rparr>"

definition Results_tests :: "((string, u8 list) fmap \<Rightarrow> (string \<times> u8 list) list) \<Rightarrow> ('c v3_results_ResultsClient, 'c) client_test list" where
  "Results_tests it_opaque = [
     Results_test_list,
     Results_test_get,
     Results_test_get_owner_task_id,
     Results_test_create_metadata,
     Results_test_create,
     Results_test_upload,
     Results_test_download,
     Results_test_delete_data,
     Results_test_import it_opaque,
     Results_test_get_service_configuration,
     Results_test_list_call,
     Results_test_get_call,
     Results_test_get_owner_task_id_call,
     Results_test_create_metadata_call,
     Results_test_create_call,
     Results_test_delete_data_call,
     Results_test_get_service_configuration_call,
     Results_test_download_call,
     Results_test_upload_call]"

section \<open>The answers of the mock server\<close>

text \<open>
  The class of the mock server that implements the service, as the stub of a client connected to it. A field that is not set
  has its default. Its methods keep no state; one that is sent a stream reads it to its end, which the streams of the tests
  have.
\<close>

definition results_mock_result :: v3_results_ResultRaw where
  "results_mock_result = \<lparr>v3_results_ResultRaw.session_id = ''session-id'', v3_results_ResultRaw.name = ''result-name'', v3_results_ResultRaw.owner_task_id = ''owner-task-id'', v3_results_ResultRaw.status = 2, v3_results_ResultRaw.created_at = None, v3_results_ResultRaw.completed_at = None, v3_results_ResultRaw.result_id = ''result-id'', v3_results_ResultRaw.size = 0, v3_results_ResultRaw.created_by = [], v3_results_ResultRaw.opaque_id = map of_char ''opaque-id'', v3_results_ResultRaw.manual_deletion = False\<rparr>"

definition results_mock :: "'c v3_results_ResultsClient" where
  "results_mock = \<lparr>
     v3_results_ResultsClient.list_results = (\<lambda>r c. (Inr \<lparr>v3_results_ListResultsResponse.results = [], v3_results_ListResultsResponse.page = 0, v3_results_ListResultsResponse.page_size = v3_results_ListResultsRequest.page_size r, v3_results_ListResultsResponse.total = 0\<rparr>, c)),
     v3_results_ResultsClient.get_result = (\<lambda>r c. (Inr \<lparr>v3_results_GetResultResponse.result = Some results_mock_result\<rparr>, c)),
     v3_results_ResultsClient.get_owner_task_id = (\<lambda>r c. (Inr \<lparr>v3_results_GetOwnerTaskIdResponse.result_task = [], v3_results_GetOwnerTaskIdResponse.session_id = ''session-id''\<rparr>, c)),
     v3_results_ResultsClient.create_results_meta_data = (\<lambda>r c. (Inr \<lparr>v3_results_CreateResultsMetaDataResponse.results = []\<rparr>, c)),
     v3_results_ResultsClient.create_results = (\<lambda>r c. (Inr \<lparr>v3_results_CreateResultsResponse.results = []\<rparr>, c)),
     v3_results_ResultsClient.upload_result_data = (\<lambda>r c. (Inr \<lparr>v3_results_UploadResultDataResponse.result = Some results_mock_result\<rparr>, c)),
     v3_results_ResultsClient.download_result_data = (\<lambda>r c. (Inr SNil, c)),
     v3_results_ResultsClient.delete_results_data = (\<lambda>r c. (Inr \<lparr>v3_results_DeleteResultsDataResponse.session_id = ''session-id'', v3_results_DeleteResultsDataResponse.result_id = []\<rparr>, c)),
     v3_results_ResultsClient.import_results_data = (\<lambda>r c. (Inr \<lparr>v3_results_ImportResultsDataResponse.results = [results_mock_result]\<rparr>, c)),
     v3_results_ResultsClient.get_service_configuration = (\<lambda>r c. (Inr \<lparr>v3_results_ResultsServiceConfigurationResponse.data_chunk_max_size = 80 * 1024\<rparr>, c)),
     v3_results_ResultsClient.watch_results = (\<lambda>r c. (Inr (map_Stream (\<lambda>_. Inr \<lparr>v3_results_WatchResultResponse.status = 0, v3_results_WatchResultResponse.result_ids = []\<rparr>) r), c))\<rparr>"

section \<open>When the tests pass\<close>

text \<open>The call \<^verbatim>\<open>upload\<close> handles the answer of its procedure itself.\<close>

lemma logged_answer [logged_simps]:
  "(case logged svc rpc l rc of (r, x) \<Rightarrow> (f r, x)) = logged svc rpc l (case rc of (r, x) \<Rightarrow> (f r, x))"
  by (cases rc) (simp add: logged_def)

lemma Results_test_list_iff:
  "length l < 2 ^ 63 - 1 \<Longrightarrow> counted mock_counter (\<lambda>_. Some (results_recording cl)) Results_test_list (l, c) \<longleftrightarrow>
     fst (test_call Results_test_list cl c)"
  by (rule counted_iff [where rec = results_recording and svc = "''Results''" and rpc = "''ListResults''"])
    (simp_all add: Results_test_list_def results_client_defs results_recording_def logged_simps counts_simps)

lemma Results_test_get_iff:
  "length l < 2 ^ 63 - 1 \<Longrightarrow> counted mock_counter (\<lambda>_. Some (results_recording cl)) Results_test_get (l, c) \<longleftrightarrow>
     fst (test_call Results_test_get cl c)"
  by (rule counted_iff [where rec = results_recording and svc = "''Results''" and rpc = "''GetResult''"])
    (simp_all add: Results_test_get_def results_client_defs results_recording_def logged_simps counts_simps)

lemma Results_test_get_owner_task_id_iff:
  "length l < 2 ^ 63 - 1 \<Longrightarrow> counted mock_counter (\<lambda>_. Some (results_recording cl)) Results_test_get_owner_task_id (l, c) \<longleftrightarrow>
     fst (test_call Results_test_get_owner_task_id cl c)"
  by (rule counted_iff [where rec = results_recording and svc = "''Results''" and rpc = "''GetOwnerTaskId''"])
    (simp_all add: Results_test_get_owner_task_id_def results_client_defs results_recording_def logged_simps counts_simps)

lemma Results_test_create_metadata_iff:
  "length l < 2 ^ 63 - 1 \<Longrightarrow> counted mock_counter (\<lambda>_. Some (results_recording cl)) Results_test_create_metadata (l, c) \<longleftrightarrow>
     fst (test_call Results_test_create_metadata cl c)"
  by (rule counted_iff [where rec = results_recording and svc = "''Results''" and rpc = "''CreateResultsMetaData''"])
    (simp_all add: Results_test_create_metadata_def results_client_defs results_recording_def logged_simps counts_simps)

lemma Results_test_create_iff:
  "length l < 2 ^ 63 - 1 \<Longrightarrow> counted mock_counter (\<lambda>_. Some (results_recording cl)) Results_test_create (l, c) \<longleftrightarrow>
     fst (test_call Results_test_create cl c)"
  by (rule counted_iff [where rec = results_recording and svc = "''Results''" and rpc = "''CreateResults''"])
    (simp_all add: Results_test_create_def results_client_defs results_recording_def logged_simps counts_simps)

lemma Results_test_upload_iff:
  "length l < 2 ^ 63 - 1 \<Longrightarrow> counted mock_counter (\<lambda>_. Some (results_recording cl)) Results_test_upload (l, c) \<longleftrightarrow>
     fst (test_call Results_test_upload cl c)"
  by (rule counted_iff [where rec = results_recording and svc = "''Results''" and rpc = "''UploadResultData''"])
    (simp_all add: Results_test_upload_def results_client_defs results_recording_def logged_simps counts_simps)

lemma Results_test_download_iff:
  "length l < 2 ^ 63 - 1 \<Longrightarrow> counted mock_counter (\<lambda>_. Some (results_recording cl)) Results_test_download (l, c) \<longleftrightarrow>
     fst (test_call Results_test_download cl c)"
  by (rule counted_iff [where rec = results_recording and svc = "''Results''" and rpc = "''DownloadResultData''"])
    (simp_all add: Results_test_download_def results_client_defs results_recording_def logged_simps counts_simps)

lemma Results_test_delete_data_iff:
  "length l < 2 ^ 63 - 1 \<Longrightarrow> counted mock_counter (\<lambda>_. Some (results_recording cl)) Results_test_delete_data (l, c) \<longleftrightarrow>
     fst (test_call Results_test_delete_data cl c)"
  by (rule counted_iff [where rec = results_recording and svc = "''Results''" and rpc = "''DeleteResultsData''"])
    (simp_all add: Results_test_delete_data_def results_client_defs results_recording_def logged_simps counts_simps)

lemma Results_test_import_iff:
  "length l < 2 ^ 63 - 1 \<Longrightarrow> counted mock_counter (\<lambda>_. Some (results_recording cl)) (Results_test_import it_opaque) (l, c) \<longleftrightarrow>
     fst (test_call (Results_test_import it_opaque) cl c)"
  by (rule counted_iff [where rec = results_recording and svc = "''Results''" and rpc = "''ImportResultsData''"])
    (simp_all add: Results_test_import_def results_client_defs results_recording_def logged_simps counts_simps)

lemma Results_test_get_service_configuration_iff:
  "length l < 2 ^ 63 - 1 \<Longrightarrow> counted mock_counter (\<lambda>_. Some (results_recording cl)) Results_test_get_service_configuration (l, c) \<longleftrightarrow>
     fst (test_call Results_test_get_service_configuration cl c)"
  by (rule counted_iff [where rec = results_recording and svc = "''Results''" and rpc = "''GetServiceConfiguration''"])
    (simp_all add: Results_test_get_service_configuration_def results_client_defs results_recording_def logged_simps counts_simps)

lemma Results_test_list_call_iff:
  "length l < 2 ^ 63 - 1 \<Longrightarrow> counted mock_counter (\<lambda>_. Some (results_recording cl)) Results_test_list_call (l, c) \<longleftrightarrow>
     fst (test_call Results_test_list_call cl c)"
  by (rule counted_iff [where rec = results_recording and svc = "''Results''" and rpc = "''ListResults''"])
    (simp_all add: Results_test_list_call_def results_client_defs results_recording_def logged_simps counts_simps)

lemma Results_test_get_call_iff:
  "length l < 2 ^ 63 - 1 \<Longrightarrow> counted mock_counter (\<lambda>_. Some (results_recording cl)) Results_test_get_call (l, c) \<longleftrightarrow>
     fst (test_call Results_test_get_call cl c)"
  by (rule counted_iff [where rec = results_recording and svc = "''Results''" and rpc = "''GetResult''"])
    (simp_all add: Results_test_get_call_def results_client_defs results_recording_def logged_simps counts_simps)

lemma Results_test_get_owner_task_id_call_iff:
  "length l < 2 ^ 63 - 1 \<Longrightarrow> counted mock_counter (\<lambda>_. Some (results_recording cl)) Results_test_get_owner_task_id_call (l, c) \<longleftrightarrow>
     fst (test_call Results_test_get_owner_task_id_call cl c)"
  by (rule counted_iff [where rec = results_recording and svc = "''Results''" and rpc = "''GetOwnerTaskId''"])
    (simp_all add: Results_test_get_owner_task_id_call_def results_client_defs results_recording_def logged_simps counts_simps)

lemma Results_test_create_metadata_call_iff:
  "length l < 2 ^ 63 - 1 \<Longrightarrow> counted mock_counter (\<lambda>_. Some (results_recording cl)) Results_test_create_metadata_call (l, c) \<longleftrightarrow>
     fst (test_call Results_test_create_metadata_call cl c)"
  by (rule counted_iff [where rec = results_recording and svc = "''Results''" and rpc = "''CreateResultsMetaData''"])
    (simp_all add: Results_test_create_metadata_call_def results_client_defs results_recording_def logged_simps counts_simps)

lemma Results_test_create_call_iff:
  "length l < 2 ^ 63 - 1 \<Longrightarrow> counted mock_counter (\<lambda>_. Some (results_recording cl)) Results_test_create_call (l, c) \<longleftrightarrow>
     fst (test_call Results_test_create_call cl c)"
  by (rule counted_iff [where rec = results_recording and svc = "''Results''" and rpc = "''CreateResults''"])
    (simp_all add: Results_test_create_call_def results_client_defs results_recording_def logged_simps counts_simps)

lemma Results_test_delete_data_call_iff:
  "length l < 2 ^ 63 - 1 \<Longrightarrow> counted mock_counter (\<lambda>_. Some (results_recording cl)) Results_test_delete_data_call (l, c) \<longleftrightarrow>
     fst (test_call Results_test_delete_data_call cl c)"
  by (rule counted_iff [where rec = results_recording and svc = "''Results''" and rpc = "''DeleteResultsData''"])
    (simp_all add: Results_test_delete_data_call_def results_client_defs results_recording_def logged_simps counts_simps)

lemma Results_test_get_service_configuration_call_iff:
  "length l < 2 ^ 63 - 1 \<Longrightarrow> counted mock_counter (\<lambda>_. Some (results_recording cl)) Results_test_get_service_configuration_call (l, c) \<longleftrightarrow>
     fst (test_call Results_test_get_service_configuration_call cl c)"
  by (rule counted_iff [where rec = results_recording and svc = "''Results''" and rpc = "''GetServiceConfiguration''"])
    (simp_all add: Results_test_get_service_configuration_call_def results_client_defs results_recording_def logged_simps counts_simps)

lemma Results_test_download_call_iff:
  "length l < 2 ^ 63 - 1 \<Longrightarrow> counted mock_counter (\<lambda>_. Some (results_recording cl)) Results_test_download_call (l, c) \<longleftrightarrow>
     fst (test_call Results_test_download_call cl c)"
  by (rule counted_iff [where rec = results_recording and svc = "''Results''" and rpc = "''DownloadResultData''"])
    (simp_all add: Results_test_download_call_def results_client_defs results_recording_def logged_simps counts_simps)

lemma Results_test_upload_call_iff:
  "length l < 2 ^ 63 - 1 \<Longrightarrow> counted mock_counter (\<lambda>_. Some (results_recording cl)) Results_test_upload_call (l, c) \<longleftrightarrow>
     fst (test_call Results_test_upload_call cl c)"
  by (rule counted_iff [where rec = results_recording and svc = "''Results''" and rpc = "''UploadResultData''"])
    (simp_all add: Results_test_upload_call_def results_client_defs results_recording_def logged_simps counts_simps)

lemma Results_tests_iff:
  "length l < 2 ^ 63 - 1 \<Longrightarrow>
     map (\<lambda>t. counted mock_counter (\<lambda>_. Some (results_recording cl)) t (l, c)) (Results_tests it_opaque) =
     map (\<lambda>t. fst (test_call t cl c)) (Results_tests it_opaque)"
  by (simp add: Results_tests_def
      Results_test_list_iff
      Results_test_get_iff
      Results_test_get_owner_task_id_iff
      Results_test_create_metadata_iff
      Results_test_create_iff
      Results_test_upload_iff
      Results_test_download_iff
      Results_test_delete_data_iff
      Results_test_import_iff
      Results_test_get_service_configuration_iff
      Results_test_list_call_iff
      Results_test_get_call_iff
      Results_test_get_owner_task_id_call_iff
      Results_test_create_metadata_call_iff
      Results_test_create_call_iff
      Results_test_delete_data_call_iff
      Results_test_get_service_configuration_call_iff
      Results_test_download_call_iff
      Results_test_upload_call_iff)

text \<open>The mock server answers all of them as they expect.\<close>

lemma results_mock_answers: "list_all (\<lambda>t. fst (test_call t results_mock c)) (Results_tests it_opaque)"
  by (simp add: Results_tests_def results_mock_def mock_simps results_client_defs
      Results_test_list_def
      Results_test_get_def
      Results_test_get_owner_task_id_def
      Results_test_create_metadata_def
      Results_test_create_def
      Results_test_upload_def
      Results_test_download_def
      Results_test_delete_data_def
      Results_test_import_def
      Results_test_get_service_configuration_def
      Results_test_list_call_def
      Results_test_get_call_def
      Results_test_get_owner_task_id_call_def
      Results_test_create_metadata_call_def
      Results_test_create_call_def
      Results_test_delete_data_call_def
      Results_test_get_service_configuration_call_def
      Results_test_download_call_def
      Results_test_upload_call_def)

lemma Results_tests_pass:
  "length l < 2 ^ 63 - 1 \<Longrightarrow>
     list_all (\<lambda>t. counted mock_counter (\<lambda>_. Some (results_recording results_mock)) t (l, c)) (Results_tests it_opaque)"
  by (rule list_all_decided [OF _ results_mock_answers]) (rule Results_tests_iff)

section \<open>The integration tests\<close>

text \<open>
  \<^verbatim>\<open>tests/results.rs\<close>: the service that the tests start, and the tests that depend on no
  clock, each on a client \<open>cl\<close> connected to it. The handler of \<^verbatim>\<open>upload\<close>, where
  the stream never ends, is the one of \<open>svc\<close>. So is the handler of \<^verbatim>\<open>delete_data\<close>
  on an empty list, where the code panics.
\<close>

partial_function (option) results_read_upload ::
  "bool \<Rightarrow> tonic_Status option \<Rightarrow> string option \<Rightarrow> u64 \<Rightarrow> (tonic_Status + results_upload_Request) Stream
   \<Rightarrow> (tonic_Status + string option \<times> u64) option" where
  "results_read_upload early fails sess size' rs =
     (case (if early \<or> sess \<noteq> None then fails else None) of
        Some st \<Rightarrow> Some (Inl st)
      | None \<Rightarrow> (case rs of
            SNil \<Rightarrow> Some (Inr (sess, size'))
          | SCons (Inl err) _ \<Rightarrow> Some (Inl err)
          | SCons (Inr (results_upload_Request.Identifier session_id' _)) rs' \<Rightarrow>
              results_read_upload early fails (Some session_id') size' rs'
          | SCons (Inr (results_upload_Request.DataChunk chunk)) rs' \<Rightarrow>
              results_read_upload early fails sess (size' + of_nat (length chunk)) rs'))"

lemma results_read_upload_no_failure [simp]:
  "results_read_upload early None sess n SNil = Some (Inr (sess, n))"
  "results_read_upload early None sess n (SCons (Inl err) rs) = Some (Inl err)"
  "results_read_upload early None sess n (SCons (Inr (results_upload_Request.Identifier sid rid)) rs) =
     results_read_upload early None (Some sid) n rs"
  "results_read_upload early None sess n (SCons (Inr (results_upload_Request.DataChunk chunk)) rs) =
     results_read_upload early None sess (n + of_nat (length chunk)) rs"
  by (subst results_read_upload.simps, simp)+

text \<open>A failure is returned at once when it is early, and after the identifier otherwise, even if the stream never ends.\<close>

lemma results_read_upload_failure [simp]:
  "results_read_upload True (Some st) sess n rs = Some (Inl st)"
  "results_read_upload early (Some st) (Some sid) n rs = Some (Inl st)"
  "results_read_upload False (Some st) None n SNil = Some (Inr (None, n))"
  by (subst results_read_upload.simps, simp)+

lemma results_read_upload_failure_late [simp]:
  "results_read_upload early (Some st) sess n (SCons (Inr (results_upload_Request.Identifier sid rid)) rs) = Some (Inl st)"
  by (subst results_read_upload.simps) (simp split: option.split)

text \<open>A stream of chunks that ends is read to its end, and the sizes add up.\<close>

lemma results_read_upload_chunks:
  "results_read_upload early None sess n (stream_iter (map (\<lambda>c. Inr (results_upload_Request.DataChunk c)) chunks)) =
     Some (Inr (sess, n + of_nat (length (concat chunks))))"
  by (induction chunks arbitrary: n) (simp_all add: add.assoc)

definition results_test_service ::
  "bool \<Rightarrow> tonic_Status option \<Rightarrow> ('h, 'e, 's) ResultsService \<Rightarrow> ('h, 'e, 's) ResultsService" where
  "results_test_service early fails svc = svc\<lparr>
     ResultsService.list := (\<lambda>r ctx. unary_rpc_impl fails \<lparr>results_list_Response.results = [(results_Raw_default\<lparr>results_Raw.name := ''rpc-list-output''\<rparr>)], results_list_Response.page = results_list_Request.page r, results_list_Response.page_size = results_list_Request.page_size r, results_list_Response.total = 1337\<rparr>),
     ResultsService.get := (\<lambda>r ctx. unary_rpc_impl fails \<lparr>results_get_Response.result = (results_Raw_default\<lparr>results_Raw.result_id := results_get_Request.id r, results_Raw.name := ''rpc-get-output''\<rparr>)\<rparr>),
     ResultsService.get_owner_task_id := (\<lambda>r ctx. unary_rpc_impl fails \<lparr>results_get_owner_task_id_Response.result_task = hashmap_collect (map (\<lambda>k. (k, ''rpc-get-owner-task-id-output'')) (results_get_owner_task_id_Request.result_ids r)), results_get_owner_task_id_Response.session_id = results_get_owner_task_id_Request.session_id r\<rparr>),
     ResultsService.create_metadata := (\<lambda>r ctx. unary_rpc_impl fails \<lparr>results_create_metadata_Response.results = map (\<lambda>i. (results_Raw_default\<lparr>results_Raw.session_id := results_create_metadata_Request.session_id r, results_Raw.result_id := ''rpc-create-metadata-output'', results_Raw.name := results_create_metadata_RequestItem.name i\<rparr>)) (results_create_metadata_Request.results r)\<rparr>),
     ResultsService.create := (\<lambda>r ctx. unary_rpc_impl fails \<lparr>results_create_Response.results = map (\<lambda>i. (results_Raw_default\<lparr>results_Raw.session_id := results_create_Request.session_id r, results_Raw.result_id := ''rpc-create-output'', results_Raw.name := results_create_RequestItem.name i\<rparr>)) (results_create_Request.results r)\<rparr>),
     ResultsService.import := (\<lambda>r ctx. unary_rpc_impl fails \<lparr>results_import_Response.results = fmmap_keys (\<lambda>n opq. (results_Raw_default\<lparr>results_Raw.session_id := results_import_Request.session_id r, results_Raw.result_id := ''rpc-create-output'', results_Raw.name := n, results_Raw.opaque_id := opq\<rparr>)) (results_import_Request.results r)\<rparr>),
     ResultsService.delete_data := (\<lambda>r ctx s. if fails = None \<and> results_delete_data_Request.result_ids r = [] then ResultsService.delete_data svc r ctx s
       else unary_rpc_impl fails \<lparr>results_delete_data_Response.session_id = results_delete_data_Request.session_id r, results_delete_data_Response.result_ids = [hd (results_delete_data_Request.result_ids r), ''rpc-delete-data-output'']\<rparr> s),
     ResultsService.get_service_configuration := (\<lambda>r ctx. unary_rpc_impl fails \<lparr>results_get_service_configuration_Response.data_chunk_max_size = 1337\<rparr>),
     ResultsService.download := (\<lambda>r ctx s. case fails of
         Some st \<Rightarrow> if early then (Inl st, s) else (Inr (SCons (Inl st) SNil), s)
       | None \<Rightarrow> (Inr (stream_iter (map (\<lambda>chunk. Inr \<lparr>results_download_Response.data_chunk = map of_char chunk\<rparr>)
           [results_download_Request.result_id r, ''rpc-download-output-0'', ''rpc-download-output-1''])), s)),
     ResultsService.upload := (\<lambda>rs ctx s. case results_read_upload early fails None 0 rs of
         None \<Rightarrow> ResultsService.upload svc rs ctx s
       | Some (Inl err) \<Rightarrow> (Inl err, s)
       | Some (Inr (sess, size')) \<Rightarrow> unary_rpc_impl fails \<lparr>results_upload_Response.result = (results_Raw_default\<lparr>
           results_Raw.session_id := (case sess of None \<Rightarrow> [] | Some sid \<Rightarrow> sid), results_Raw.result_id := ''rpc-upload-output'',
           results_Raw.size := size'\<rparr>)\<rparr> s)\<rparr>"

definition Results_integration_list :: "'c v3_results_ResultsClient \<Rightarrow> 'c \<Rightarrow> bool" where
  "Results_integration_list cl s \<longleftrightarrow> expects (\<lambda>p.
       results_list_Response.page p = 3 \<and> results_list_Response.page_size p = 12 \<and> results_list_Response.total p = 1337
     \<and> indexed 0 (\<lambda>x. results_Raw.name x = ''rpc-list-output'') (results_list_Response.results p))
     (Results_list cl (results_filter_lists results_filter_Or_default) results_Sort_default 3 12 s)"

definition Results_integration_get :: "'c v3_results_ResultsClient \<Rightarrow> 'c \<Rightarrow> bool" where
  "Results_integration_get cl s \<longleftrightarrow> expects (\<lambda>p.
       results_Raw.result_id p = ''rpc-get-input'' \<and> results_Raw.name p = ''rpc-get-output'')
     (Results_get cl ''rpc-get-input'' s)"

definition Results_integration_get_owner_task_id :: "'c v3_results_ResultsClient \<Rightarrow> 'c \<Rightarrow> bool" where
  "Results_integration_get_owner_task_id cl s \<longleftrightarrow> expects (\<lambda>p.
       fmlookup p ''rpc-get-owner-task-id-input'' = Some ''rpc-get-owner-task-id-output'')
     (Results_get_owner_task_id cl ''session-id'' [''rpc-get-owner-task-id-input''] s)"

definition Results_integration_create_metadata :: "'c v3_results_ResultsClient \<Rightarrow> 'c \<Rightarrow> bool" where
  "Results_integration_create_metadata cl s \<longleftrightarrow> expects (\<lambda>p.
       indexed 0 (\<lambda>x. results_Raw.result_id x = ''rpc-create-metadata-output'') p)
     (Results_create_metadata cl ''session-id'' [(results_create_metadata_RequestItem_default\<lparr>results_create_metadata_RequestItem.name := ''rpc-create-metadata-input''\<rparr>)] s)"

definition Results_integration_create :: "'c v3_results_ResultsClient \<Rightarrow> 'c \<Rightarrow> bool" where
  "Results_integration_create cl s \<longleftrightarrow> expects (\<lambda>p.
       indexed 0 (\<lambda>x. results_Raw.result_id x = ''rpc-create-output'') p)
     (Results_create cl ''session-id'' [(results_create_RequestItem_default\<lparr>results_create_RequestItem.name := ''rpc-create-input'', results_create_RequestItem.data := map of_char ''payload''\<rparr>)] s)"

definition Results_integration_import :: "((string, u8 list) fmap \<Rightarrow> (string \<times> u8 list) list) \<Rightarrow> 'c v3_results_ResultsClient \<Rightarrow> 'c \<Rightarrow> bool" where
  "Results_integration_import it_opaque cl s \<longleftrightarrow> expects (\<lambda>p.
       (case fmlookup p ''rpc-import-input'' of None \<Rightarrow> False
         | Some x \<Rightarrow> results_Raw.result_id x = ''rpc-create-output'' \<and> results_Raw.opaque_id x = map of_char ''opaque-id''))
     (Results_import it_opaque cl ''session-id'' [(''rpc-import-input'', map of_char ''opaque-id'')] s)"

definition Results_integration_delete_data :: "'c v3_results_ResultsClient \<Rightarrow> 'c \<Rightarrow> bool" where
  "Results_integration_delete_data cl s \<longleftrightarrow> expects (\<lambda>p.
       indexed 0 (\<lambda>x. x = ''rpc-delete-data-input'') p
     \<and> indexed 1 (\<lambda>x. x = ''rpc-delete-data-output'') p)
     (Results_delete_data cl ''session-id'' [''rpc-delete-data-input''] s)"

definition Results_integration_get_service_configuration :: "'c v3_results_ResultsClient \<Rightarrow> 'c \<Rightarrow> bool" where
  "Results_integration_get_service_configuration cl s \<longleftrightarrow> expects (\<lambda>p.
       results_get_service_configuration_Response.data_chunk_max_size p = 1337)
     (Results_get_service_configuration cl s)"

definition Results_integration_download :: "'c v3_results_ResultsClient \<Rightarrow> 'c \<Rightarrow> bool" where
  "Results_integration_download cl s \<longleftrightarrow> expects (\<lambda>p.
       p = stream_iter (map (\<lambda>chunk. Inr (map of_char chunk)) [''rpc-download-input'', ''rpc-download-output-0'', ''rpc-download-output-1'']))
     (Results_download cl ''session-id'' ''rpc-download-input'' s)"

definition Results_integration_upload :: "'c v3_results_ResultsClient \<Rightarrow> 'c \<Rightarrow> bool" where
  "Results_integration_upload cl s \<longleftrightarrow> expects (\<lambda>p.
       results_Raw.session_id p = ''rpc-upload-input'' \<and> results_Raw.result_id p = ''rpc-upload-output'' \<and> results_Raw.size p = 23)
     (Results_upload cl ''rpc-upload-input'' ''result-id'' (stream_iter [map of_char ''first chunk'', map of_char ''second chunk'']) s)"

definition Results_integration :: "((string, u8 list) fmap \<Rightarrow> (string \<times> u8 list) list) \<Rightarrow> ('c v3_results_ResultsClient \<Rightarrow> 'c \<Rightarrow> bool) list" where
  "Results_integration it_opaque = [
     Results_integration_list,
     Results_integration_get,
     Results_integration_get_owner_task_id,
     Results_integration_create_metadata,
     Results_integration_create,
     Results_integration_import it_opaque,
     Results_integration_delete_data,
     Results_integration_get_service_configuration,
     Results_integration_download,
     Results_integration_upload]"

definition Results_integration_get_failure :: "'c v3_results_ResultsClient \<Rightarrow> 'c \<Rightarrow> bool" where
  "Results_integration_get_failure cl s \<longleftrightarrow> (case fst (Results_get cl ''result-id'' s) of
       Inr _ \<Rightarrow> False
     | Inl (Grpc st) \<Rightarrow> tonic_Status.code st = Code.InvalidArgument \<and> tonic_Status.message st = ''rpc-get-error'')"

definition Results_integration_download_failure_early :: "'c v3_results_ResultsClient \<Rightarrow> 'c \<Rightarrow> bool" where
  "Results_integration_download_failure_early cl s \<longleftrightarrow> (case fst (Results_download cl ''session-id'' ''result-id'' s) of
       Inr _ \<Rightarrow> False
     | Inl (Grpc st) \<Rightarrow> tonic_Status.code st = Code.InvalidArgument \<and> tonic_Status.message st = ''rpc-download-early-error'')"

definition Results_integration_download_failure_late :: "'c v3_results_ResultsClient \<Rightarrow> 'c \<Rightarrow> bool" where
  "Results_integration_download_failure_late cl s \<longleftrightarrow> (case fst (Results_download cl ''session-id'' ''result-id'' s) of
       Inr (SCons (Inl (Grpc st)) _) \<Rightarrow> tonic_Status.code st = Code.InvalidArgument
         \<and> tonic_Status.message st = ''rpc-download-late-error''
     | _ \<Rightarrow> False)"

text \<open>The import of the service keys its results by their names.\<close>

lemma results_test_service_keyed:
  "ResultsService.import (results_test_service early None svc) r ctx s = (Inr p, s') \<Longrightarrow> keyed_by_name p"
  by (auto simp: results_test_service_def unary_rpc_impl_def keyed_by_name_def fmpred_iff)

lemma Results_integration_import_passes:
  assumes "iterates it_raw" and "iterates it_opaque"
  shows "Results_integration_import it_opaque (results_loopback ih it_owner it_raw m e (results_test_service False None svc)) s"
  by (simp add: Results_integration_import_def Results_import_def
      Results_call_import_transparent [OF assms(2,1) results_test_service_keyed])
    (simp add: results_test_service_def expects_def in_process_def unary_rpc_impl_def hashmap_collect_def)

definition Results_integration_upload_failure_end :: "'c v3_results_ResultsClient \<Rightarrow> 'c \<Rightarrow> bool" where
  "Results_integration_upload_failure_end cl s \<longleftrightarrow> (case fst (Results_call_upload cl
       (stream_iter []) s) of
       Inr _ \<Rightarrow> False
     | Inl (Grpc st) \<Rightarrow> tonic_Status.code st = Code.InvalidArgument \<and> tonic_Status.message st = ''rpc-download-late-error'')"

text \<open>They pass, whatever the state of the service.\<close>

lemmas results_integration_defs = Results_integration_def results_test_service_def indexed_def
  Results_integration_list_def
  Results_integration_get_def
  Results_integration_get_owner_task_id_def
  Results_integration_create_metadata_def
  Results_integration_create_def
  Results_integration_delete_data_def
  Results_integration_get_service_configuration_def
  Results_integration_download_def
  Results_integration_upload_def

lemma Results_integration_passes:
  assumes "iterates it_owner" and "iterates it_raw" and "iterates it_opaque"
  shows "list_all (\<lambda>t. t (results_loopback ih it_owner it_raw m e (results_test_service False None svc)) s) (Results_integration it_opaque)"
  using Results_integration_import_passes [OF assms(2,3), where svc = svc] by (simp add: results_integration_defs hashmap_collect_def in_process_def unary_rpc_impl_def Results_call_get_owner_task_id_transparent [OF assms(1)] as_received_def Results_upload_eq
    Results_create_def Results_create_metadata_def Results_delete_data_def Results_download_eq in_process_stream_def expects_def Results_get_def Results_get_owner_task_id_def Results_get_service_configuration_def Results_import_def Results_list_def
    Results_call_create_metadata_transparent Results_call_create_transparent Results_call_delete_data_transparent Results_call_download_transparent Results_call_get_service_configuration_transparent Results_call_get_transparent Results_call_list_transparent Results_call_upload_transparent)

lemma Results_integration_failures_pass:
  "Results_integration_get_failure (results_loopback ih it_owner it_raw m e (results_test_service early (Some \<lparr>tonic_Status.code = Code.InvalidArgument, tonic_Status.message = ''rpc-get-error''\<rparr>) svc)) s"
  "Results_integration_download_failure_early (results_loopback ih it_owner it_raw m e (results_test_service True (Some \<lparr>tonic_Status.code = Code.InvalidArgument, tonic_Status.message = ''rpc-download-early-error''\<rparr>) svc)) s"
  "Results_integration_download_failure_late (results_loopback ih it_owner it_raw m e (results_test_service False (Some \<lparr>tonic_Status.code = Code.InvalidArgument, tonic_Status.message = ''rpc-download-late-error''\<rparr>) svc)) s"
  "Results_integration_upload_failure_end (results_loopback ih it_owner it_raw m e (results_test_service False (Some \<lparr>tonic_Status.code = Code.InvalidArgument, tonic_Status.message = ''rpc-download-late-error''\<rparr>) svc)) s"
  by (simp_all add: Results_integration_upload_failure_end_def Results_call_upload_transparent as_received_def
      Results_integration_get_failure_def Results_integration_download_failure_early_def
      Results_integration_download_failure_late_def results_test_service_def unary_rpc_impl_def in_process_def
      Results_get_def Results_call_get_transparent Results_download_eq Results_call_download_transparent in_process_stream_def)

end
