(* ===== verification/Submitter.thy ===== *)
theory Submitter
  imports Common_Objects
begin

text \<open>
  Objects of the deprecated submitter service (\<^verbatim>\<open>objects/submitter\<close>). The filters of this service do
  not survive the wire: the encoder of the status filters swaps \<^verbatim>\<open>Include\<close> and \<^verbatim>\<open>Exclude\<close> and the
  decoder does not. The model keeps the code's behaviour and the lemmas state it.
\<close>

section \<open>Task filters\<close>

record v3_submitter_task_filter_IdsRequest =
  ids :: "string list"

record v3_submitter_task_filter_StatusesRequest =
  statuses :: "i32 list"

datatype v3_submitter_task_filter_Ids =
    Session v3_submitter_task_filter_IdsRequest
  | Task v3_submitter_task_filter_IdsRequest

datatype v3_submitter_task_filter_Statuses =
    Included v3_submitter_task_filter_StatusesRequest
  | Excluded v3_submitter_task_filter_StatusesRequest

record v3_submitter_TaskFilter =
  ids :: "v3_submitter_task_filter_Ids option"
  statuses :: "v3_submitter_task_filter_Statuses option"

record v3_submitter_session_filter_StatusesRequest =
  statuses :: "i32 list"

datatype v3_submitter_session_filter_Statuses =
    Included v3_submitter_session_filter_StatusesRequest
  | Excluded v3_submitter_session_filter_StatusesRequest

record v3_submitter_SessionFilter =
  sessions :: "string list"
  statuses :: "v3_submitter_session_filter_Statuses option"

datatype submitter_TaskFilterIds =
    Sessions "string list"
  | Tasks "string list"

definition submitter_TaskFilterIds_default :: submitter_TaskFilterIds where
  "submitter_TaskFilterIds_default = submitter_TaskFilterIds.Sessions []"

primrec submitter_TaskFilterIds_to_v3 ::
  "submitter_TaskFilterIds \<Rightarrow> v3_submitter_task_filter_Ids" where
    "submitter_TaskFilterIds_to_v3 (submitter_TaskFilterIds.Sessions xs) =
       v3_submitter_task_filter_Ids.Session \<lparr>v3_submitter_task_filter_IdsRequest.ids = xs\<rparr>"
  | "submitter_TaskFilterIds_to_v3 (submitter_TaskFilterIds.Tasks xs) =
       v3_submitter_task_filter_Ids.Task \<lparr>v3_submitter_task_filter_IdsRequest.ids = xs\<rparr>"

primrec submitter_TaskFilterIds_of_v3 ::
  "v3_submitter_task_filter_Ids \<Rightarrow> submitter_TaskFilterIds" where
    "submitter_TaskFilterIds_of_v3 (v3_submitter_task_filter_Ids.Session r) =
       submitter_TaskFilterIds.Sessions (v3_submitter_task_filter_IdsRequest.ids r)"
  | "submitter_TaskFilterIds_of_v3 (v3_submitter_task_filter_Ids.Task r) =
       submitter_TaskFilterIds.Tasks (v3_submitter_task_filter_IdsRequest.ids r)"

interpretation submitter_TaskFilterIds_codec:
  wire_codec submitter_TaskFilterIds_to_v3 submitter_TaskFilterIds_of_v3
proof unfold_locales
  fix x
  show "submitter_TaskFilterIds_of_v3 (submitter_TaskFilterIds_to_v3 x) = x" by (cases x) simp_all
qed

datatype submitter_TaskFilterStatuses =
    Include "TaskStatus list"
  | Exclude "TaskStatus list"

definition submitter_TaskFilterStatuses_default :: submitter_TaskFilterStatuses where
  "submitter_TaskFilterStatuses_default = submitter_TaskFilterStatuses.Exclude []"

primrec submitter_TaskFilterStatuses_to_v3 ::
  "submitter_TaskFilterStatuses \<Rightarrow> v3_submitter_task_filter_Statuses" where
    "submitter_TaskFilterStatuses_to_v3 (submitter_TaskFilterStatuses.Include ss) =
       v3_submitter_task_filter_Statuses.Excluded
         \<lparr>v3_submitter_task_filter_StatusesRequest.statuses = map TaskStatus_as_i32 ss\<rparr>"
  | "submitter_TaskFilterStatuses_to_v3 (submitter_TaskFilterStatuses.Exclude ss) =
       v3_submitter_task_filter_Statuses.Included
         \<lparr>v3_submitter_task_filter_StatusesRequest.statuses = map TaskStatus_as_i32 ss\<rparr>"

primrec submitter_TaskFilterStatuses_of_v3 ::
  "v3_submitter_task_filter_Statuses \<Rightarrow> submitter_TaskFilterStatuses" where
    "submitter_TaskFilterStatuses_of_v3 (v3_submitter_task_filter_Statuses.Excluded r) =
       submitter_TaskFilterStatuses.Exclude (into_collect TaskStatus_of_i32 (v3_submitter_task_filter_StatusesRequest.statuses r))"
  | "submitter_TaskFilterStatuses_of_v3 (v3_submitter_task_filter_Statuses.Included r) =
       submitter_TaskFilterStatuses.Include (into_collect TaskStatus_of_i32 (v3_submitter_task_filter_StatusesRequest.statuses r))"

text \<open>The encoder swaps the two constructors and the decoder does not.\<close>

primrec TaskFilterStatuses_flip :: "submitter_TaskFilterStatuses \<Rightarrow> submitter_TaskFilterStatuses" where
    "TaskFilterStatuses_flip (submitter_TaskFilterStatuses.Include ss) = submitter_TaskFilterStatuses.Exclude ss"
  | "TaskFilterStatuses_flip (submitter_TaskFilterStatuses.Exclude ss) = submitter_TaskFilterStatuses.Include ss"

lemma TaskFilterStatuses_flipped [simp]: "submitter_TaskFilterStatuses_of_v3 (submitter_TaskFilterStatuses_to_v3 s) = TaskFilterStatuses_flip s"
  by (cases s) (simp_all add: into_collect_def o_def)

lemma TaskFilterStatuses_flip_involution [simp]: "TaskFilterStatuses_flip (TaskFilterStatuses_flip s) = s"
  by (cases s) simp_all

lemma TaskFilterStatuses_flip_neq [simp]: "TaskFilterStatuses_flip s \<noteq> s"
  by (cases s) simp_all

record submitter_TaskFilter =
  ids :: submitter_TaskFilterIds
  statuses :: submitter_TaskFilterStatuses

definition submitter_TaskFilter_default :: submitter_TaskFilter where
  "submitter_TaskFilter_default = \<lparr>
     submitter_TaskFilter.ids = submitter_TaskFilterIds_default,
     submitter_TaskFilter.statuses = submitter_TaskFilterStatuses_default\<rparr>"

definition submitter_TaskFilter_to_v3 :: "submitter_TaskFilter \<Rightarrow> v3_submitter_TaskFilter" where
  "submitter_TaskFilter_to_v3 v = \<lparr>
     v3_submitter_TaskFilter.ids = Some (submitter_TaskFilterIds_to_v3 (submitter_TaskFilter.ids v)),
     v3_submitter_TaskFilter.statuses = Some (submitter_TaskFilterStatuses_to_v3 (submitter_TaskFilter.statuses v))\<rparr>"

definition submitter_TaskFilter_of_v3 :: "v3_submitter_TaskFilter \<Rightarrow> submitter_TaskFilter" where
  "submitter_TaskFilter_of_v3 v = \<lparr>
     submitter_TaskFilter.ids = map_or_default submitter_TaskFilterIds_default submitter_TaskFilterIds_of_v3 (v3_submitter_TaskFilter.ids v),
     submitter_TaskFilter.statuses = map_or_default submitter_TaskFilterStatuses_default submitter_TaskFilterStatuses_of_v3 (v3_submitter_TaskFilter.statuses v)\<rparr>"

lemma submitter_TaskFilter_flipped [simp]:
  "submitter_TaskFilter_of_v3 (submitter_TaskFilter_to_v3 f) =
     f\<lparr>submitter_TaskFilter.statuses := TaskFilterStatuses_flip (submitter_TaskFilter.statuses f)\<rparr>"
  by (simp add: submitter_TaskFilter_of_v3_def submitter_TaskFilter_to_v3_def)

section \<open>Session filters\<close>

datatype submitter_SessionFilterStatuses =
    Include "SessionStatus list"
  | Exclude "SessionStatus list"

definition submitter_SessionFilterStatuses_default :: submitter_SessionFilterStatuses where
  "submitter_SessionFilterStatuses_default = submitter_SessionFilterStatuses.Exclude []"

primrec submitter_SessionFilterStatuses_to_v3 ::
  "submitter_SessionFilterStatuses \<Rightarrow> v3_submitter_session_filter_Statuses" where
    "submitter_SessionFilterStatuses_to_v3 (submitter_SessionFilterStatuses.Include ss) =
       v3_submitter_session_filter_Statuses.Excluded
         \<lparr>v3_submitter_session_filter_StatusesRequest.statuses = map SessionStatus_as_i32 ss\<rparr>"
  | "submitter_SessionFilterStatuses_to_v3 (submitter_SessionFilterStatuses.Exclude ss) =
       v3_submitter_session_filter_Statuses.Included
         \<lparr>v3_submitter_session_filter_StatusesRequest.statuses = map SessionStatus_as_i32 ss\<rparr>"

primrec submitter_SessionFilterStatuses_of_v3 ::
  "v3_submitter_session_filter_Statuses \<Rightarrow> submitter_SessionFilterStatuses" where
    "submitter_SessionFilterStatuses_of_v3 (v3_submitter_session_filter_Statuses.Excluded r) =
       submitter_SessionFilterStatuses.Exclude (into_collect SessionStatus_of_i32 (v3_submitter_session_filter_StatusesRequest.statuses r))"
  | "submitter_SessionFilterStatuses_of_v3 (v3_submitter_session_filter_Statuses.Included r) =
       submitter_SessionFilterStatuses.Include (into_collect SessionStatus_of_i32 (v3_submitter_session_filter_StatusesRequest.statuses r))"

text \<open>The encoder swaps the two constructors and the decoder does not.\<close>

primrec SessionFilterStatuses_flip :: "submitter_SessionFilterStatuses \<Rightarrow> submitter_SessionFilterStatuses" where
    "SessionFilterStatuses_flip (submitter_SessionFilterStatuses.Include ss) = submitter_SessionFilterStatuses.Exclude ss"
  | "SessionFilterStatuses_flip (submitter_SessionFilterStatuses.Exclude ss) = submitter_SessionFilterStatuses.Include ss"

lemma SessionFilterStatuses_flipped [simp]: "submitter_SessionFilterStatuses_of_v3 (submitter_SessionFilterStatuses_to_v3 s) = SessionFilterStatuses_flip s"
  by (cases s) (simp_all add: into_collect_def o_def)

lemma SessionFilterStatuses_flip_involution [simp]: "SessionFilterStatuses_flip (SessionFilterStatuses_flip s) = s"
  by (cases s) simp_all

lemma SessionFilterStatuses_flip_neq [simp]: "SessionFilterStatuses_flip s \<noteq> s"
  by (cases s) simp_all

record submitter_SessionFilter =
  ids :: "string list"
  statuses :: submitter_SessionFilterStatuses

definition submitter_SessionFilter_default :: submitter_SessionFilter where
  "submitter_SessionFilter_default = \<lparr>
     submitter_SessionFilter.ids = [],
     submitter_SessionFilter.statuses = submitter_SessionFilterStatuses_default\<rparr>"

definition submitter_SessionFilter_to_v3 :: "submitter_SessionFilter \<Rightarrow> v3_submitter_SessionFilter" where
  "submitter_SessionFilter_to_v3 v = \<lparr>
     v3_submitter_SessionFilter.sessions = into_collect (\<lambda>x. x) (submitter_SessionFilter.ids v),
     v3_submitter_SessionFilter.statuses = Some (submitter_SessionFilterStatuses_to_v3 (submitter_SessionFilter.statuses v))\<rparr>"

definition submitter_SessionFilter_of_v3 :: "v3_submitter_SessionFilter \<Rightarrow> submitter_SessionFilter" where
  "submitter_SessionFilter_of_v3 v = \<lparr>
     submitter_SessionFilter.ids = into_collect (\<lambda>x. x) (v3_submitter_SessionFilter.sessions v),
     submitter_SessionFilter.statuses = map_or_default submitter_SessionFilterStatuses_default submitter_SessionFilterStatuses_of_v3 (v3_submitter_SessionFilter.statuses v)\<rparr>"

lemma submitter_SessionFilter_flipped [simp]:
  "submitter_SessionFilter_of_v3 (submitter_SessionFilter_to_v3 f) =
     f\<lparr>submitter_SessionFilter.statuses := SessionFilterStatuses_flip (submitter_SessionFilter.statuses f)\<rparr>"
  by (simp add: submitter_SessionFilter_of_v3_def submitter_SessionFilter_to_v3_def)

section \<open>Requests that carry a filter\<close>

record submitter_cancel_tasks_Request =
  filter :: submitter_TaskFilter

definition submitter_cancel_tasks_Request_default :: submitter_cancel_tasks_Request where
  "submitter_cancel_tasks_Request_default = \<lparr>
     submitter_cancel_tasks_Request.filter = submitter_TaskFilter_default\<rparr>"

definition submitter_cancel_tasks_Request_to_v3 :: "submitter_cancel_tasks_Request \<Rightarrow> v3_submitter_TaskFilter" where
  "submitter_cancel_tasks_Request_to_v3 v = submitter_TaskFilter_to_v3 (submitter_cancel_tasks_Request.filter v)"

definition submitter_cancel_tasks_Request_of_v3 :: "v3_submitter_TaskFilter \<Rightarrow> submitter_cancel_tasks_Request" where
  "submitter_cancel_tasks_Request_of_v3 v = \<lparr>submitter_cancel_tasks_Request.filter = submitter_TaskFilter_of_v3 v\<rparr>"

record submitter_count_tasks_Request =
  filter :: submitter_TaskFilter

definition submitter_count_tasks_Request_default :: submitter_count_tasks_Request where
  "submitter_count_tasks_Request_default = \<lparr>
     submitter_count_tasks_Request.filter = submitter_TaskFilter_default\<rparr>"

definition submitter_count_tasks_Request_to_v3 :: "submitter_count_tasks_Request \<Rightarrow> v3_submitter_TaskFilter" where
  "submitter_count_tasks_Request_to_v3 v = submitter_TaskFilter_to_v3 (submitter_count_tasks_Request.filter v)"

definition submitter_count_tasks_Request_of_v3 :: "v3_submitter_TaskFilter \<Rightarrow> submitter_count_tasks_Request" where
  "submitter_count_tasks_Request_of_v3 v = \<lparr>submitter_count_tasks_Request.filter = submitter_TaskFilter_of_v3 v\<rparr>"

record submitter_list_tasks_Request =
  filter :: submitter_TaskFilter

definition submitter_list_tasks_Request_default :: submitter_list_tasks_Request where
  "submitter_list_tasks_Request_default = \<lparr>
     submitter_list_tasks_Request.filter = submitter_TaskFilter_default\<rparr>"

definition submitter_list_tasks_Request_to_v3 :: "submitter_list_tasks_Request \<Rightarrow> v3_submitter_TaskFilter" where
  "submitter_list_tasks_Request_to_v3 v = submitter_TaskFilter_to_v3 (submitter_list_tasks_Request.filter v)"

definition submitter_list_tasks_Request_of_v3 :: "v3_submitter_TaskFilter \<Rightarrow> submitter_list_tasks_Request" where
  "submitter_list_tasks_Request_of_v3 v = \<lparr>submitter_list_tasks_Request.filter = submitter_TaskFilter_of_v3 v\<rparr>"

record submitter_list_sessions_Request =
  filter :: submitter_SessionFilter

definition submitter_list_sessions_Request_default :: submitter_list_sessions_Request where
  "submitter_list_sessions_Request_default = \<lparr>
     submitter_list_sessions_Request.filter = submitter_SessionFilter_default\<rparr>"

definition submitter_list_sessions_Request_to_v3 :: "submitter_list_sessions_Request \<Rightarrow> v3_submitter_SessionFilter" where
  "submitter_list_sessions_Request_to_v3 v = submitter_SessionFilter_to_v3 (submitter_list_sessions_Request.filter v)"

definition submitter_list_sessions_Request_of_v3 :: "v3_submitter_SessionFilter \<Rightarrow> submitter_list_sessions_Request" where
  "submitter_list_sessions_Request_of_v3 v = \<lparr>submitter_list_sessions_Request.filter = submitter_SessionFilter_of_v3 v\<rparr>"

record v3_submitter_WaitRequest =
  filter :: "v3_submitter_TaskFilter option"
  stop_on_first_task_error :: bool
  stop_on_first_task_cancellation :: bool

record v3_submitter_SessionIdList =
  session_ids :: "string list"

record submitter_wait_for_completion_Request =
  filter :: submitter_TaskFilter
  stop_on_first_task_error :: bool
  stop_on_first_task_cancellation :: bool

definition submitter_wait_for_completion_Request_default :: submitter_wait_for_completion_Request where
  "submitter_wait_for_completion_Request_default = \<lparr>
     submitter_wait_for_completion_Request.filter = submitter_TaskFilter_default,
     submitter_wait_for_completion_Request.stop_on_first_task_error = False,
     submitter_wait_for_completion_Request.stop_on_first_task_cancellation = False\<rparr>"

definition submitter_wait_for_completion_Request_to_v3 :: "submitter_wait_for_completion_Request \<Rightarrow> v3_submitter_WaitRequest" where
  "submitter_wait_for_completion_Request_to_v3 v = \<lparr>
     v3_submitter_WaitRequest.filter = Some (submitter_TaskFilter_to_v3 (submitter_wait_for_completion_Request.filter v)),
     v3_submitter_WaitRequest.stop_on_first_task_error = submitter_wait_for_completion_Request.stop_on_first_task_error v,
     v3_submitter_WaitRequest.stop_on_first_task_cancellation = submitter_wait_for_completion_Request.stop_on_first_task_cancellation v\<rparr>"

definition submitter_wait_for_completion_Request_of_v3 :: "v3_submitter_WaitRequest \<Rightarrow> submitter_wait_for_completion_Request" where
  "submitter_wait_for_completion_Request_of_v3 v = \<lparr>
     submitter_wait_for_completion_Request.filter = map_or_default submitter_TaskFilter_default submitter_TaskFilter_of_v3 (v3_submitter_WaitRequest.filter v),
     submitter_wait_for_completion_Request.stop_on_first_task_error = v3_submitter_WaitRequest.stop_on_first_task_error v,
     submitter_wait_for_completion_Request.stop_on_first_task_cancellation = v3_submitter_WaitRequest.stop_on_first_task_cancellation v\<rparr>"

lemmas submitter_filter_request_defs =
  submitter_cancel_tasks_Request_to_v3_def submitter_cancel_tasks_Request_of_v3_def
  submitter_count_tasks_Request_to_v3_def submitter_count_tasks_Request_of_v3_def
  submitter_list_tasks_Request_to_v3_def submitter_list_tasks_Request_of_v3_def
  submitter_list_sessions_Request_to_v3_def submitter_list_sessions_Request_of_v3_def
  submitter_wait_for_completion_Request_to_v3_def submitter_wait_for_completion_Request_of_v3_def

text \<open>Their responses.\<close>

type_synonym submitter_count_tasks_Response = Count
type_synonym submitter_wait_for_completion_Response = Count

datatype submitter_cancel_tasks_Response = submitter_cancel_tasks_Response

definition submitter_cancel_tasks_Response_default :: submitter_cancel_tasks_Response where
  "submitter_cancel_tasks_Response_default = submitter_cancel_tasks_Response"

definition submitter_cancel_tasks_Response_to_v3 :: "submitter_cancel_tasks_Response \<Rightarrow> v3_Empty" where
  "submitter_cancel_tasks_Response_to_v3 v = v3_Empty"

definition submitter_cancel_tasks_Response_of_v3 :: "v3_Empty \<Rightarrow> submitter_cancel_tasks_Response" where
  "submitter_cancel_tasks_Response_of_v3 v = submitter_cancel_tasks_Response"

interpretation submitter_cancel_tasks_Response_codec: wire_codec submitter_cancel_tasks_Response_to_v3 submitter_cancel_tasks_Response_of_v3
  by unfold_locales (metis submitter_cancel_tasks_Response.exhaust submitter_cancel_tasks_Response_of_v3_def)

record submitter_list_sessions_Response =
  session_ids :: "string list"

definition submitter_list_sessions_Response_default :: submitter_list_sessions_Response where
  "submitter_list_sessions_Response_default = \<lparr>
     submitter_list_sessions_Response.session_ids = []\<rparr>"

definition submitter_list_sessions_Response_to_v3 :: "submitter_list_sessions_Response \<Rightarrow> v3_submitter_SessionIdList" where
  "submitter_list_sessions_Response_to_v3 v = \<lparr>
     v3_submitter_SessionIdList.session_ids = into_collect (\<lambda>x. x) (submitter_list_sessions_Response.session_ids v)\<rparr>"

definition submitter_list_sessions_Response_of_v3 :: "v3_submitter_SessionIdList \<Rightarrow> submitter_list_sessions_Response" where
  "submitter_list_sessions_Response_of_v3 v = \<lparr>
     submitter_list_sessions_Response.session_ids = into_collect (\<lambda>x. x) (v3_submitter_SessionIdList.session_ids v)\<rparr>"

interpretation submitter_list_sessions_Response_codec: wire_codec submitter_list_sessions_Response_to_v3 submitter_list_sessions_Response_of_v3
  by unfold_locales (simp add: submitter_list_sessions_Response_to_v3_def submitter_list_sessions_Response_of_v3_def)

record submitter_list_tasks_Response =
  task_ids :: "string list"

definition submitter_list_tasks_Response_default :: submitter_list_tasks_Response where
  "submitter_list_tasks_Response_default = \<lparr>
     submitter_list_tasks_Response.task_ids = []\<rparr>"

definition submitter_list_tasks_Response_to_v3 :: "submitter_list_tasks_Response \<Rightarrow> v3_TaskIdList" where
  "submitter_list_tasks_Response_to_v3 v = \<lparr>
     v3_TaskIdList.task_ids = into_collect (\<lambda>x. x) (submitter_list_tasks_Response.task_ids v)\<rparr>"

definition submitter_list_tasks_Response_of_v3 :: "v3_TaskIdList \<Rightarrow> submitter_list_tasks_Response" where
  "submitter_list_tasks_Response_of_v3 v = \<lparr>
     submitter_list_tasks_Response.task_ids = into_collect (\<lambda>x. x) (v3_TaskIdList.task_ids v)\<rparr>"

interpretation submitter_list_tasks_Response_codec: wire_codec submitter_list_tasks_Response_to_v3 submitter_list_tasks_Response_of_v3
  by unfold_locales (simp add: submitter_list_tasks_Response_to_v3_def submitter_list_tasks_Response_of_v3_def)

section \<open>Sessions\<close>

record v3_submitter_CreateSessionRequest =
  default_task_option :: "v3_TaskOptions option"
  partition_ids :: "string list"

record v3_submitter_CreateSessionReply =
  session_id :: string

record submitter_create_session_Request =
  default_task_options :: TaskOptions
  partition_ids :: "string list"

definition submitter_create_session_Request_default :: submitter_create_session_Request where
  "submitter_create_session_Request_default = \<lparr>
     submitter_create_session_Request.default_task_options = TaskOptions_default,
     submitter_create_session_Request.partition_ids = []\<rparr>"

definition submitter_create_session_Request_to_v3 :: "submitter_create_session_Request \<Rightarrow> v3_submitter_CreateSessionRequest" where
  "submitter_create_session_Request_to_v3 v = \<lparr>
     v3_submitter_CreateSessionRequest.default_task_option = Some (TaskOptions_to_v3 (submitter_create_session_Request.default_task_options v)),
     v3_submitter_CreateSessionRequest.partition_ids = submitter_create_session_Request.partition_ids v\<rparr>"

definition submitter_create_session_Request_of_v3 :: "v3_submitter_CreateSessionRequest \<Rightarrow> submitter_create_session_Request" where
  "submitter_create_session_Request_of_v3 v = \<lparr>
     submitter_create_session_Request.default_task_options = map_or_default TaskOptions_default TaskOptions_of_v3 (v3_submitter_CreateSessionRequest.default_task_option v),
     submitter_create_session_Request.partition_ids = v3_submitter_CreateSessionRequest.partition_ids v\<rparr>"

interpretation submitter_create_session_Request_codec: wire_codec submitter_create_session_Request_to_v3 submitter_create_session_Request_of_v3
  by unfold_locales (simp add: submitter_create_session_Request_to_v3_def submitter_create_session_Request_of_v3_def)

record submitter_create_session_Response =
  session_id :: string

definition submitter_create_session_Response_default :: submitter_create_session_Response where
  "submitter_create_session_Response_default = \<lparr>
     submitter_create_session_Response.session_id = ''''\<rparr>"

definition submitter_create_session_Response_to_v3 :: "submitter_create_session_Response \<Rightarrow> v3_submitter_CreateSessionReply" where
  "submitter_create_session_Response_to_v3 v = \<lparr>
     v3_submitter_CreateSessionReply.session_id = submitter_create_session_Response.session_id v\<rparr>"

definition submitter_create_session_Response_of_v3 :: "v3_submitter_CreateSessionReply \<Rightarrow> submitter_create_session_Response" where
  "submitter_create_session_Response_of_v3 v = \<lparr>
     submitter_create_session_Response.session_id = v3_submitter_CreateSessionReply.session_id v\<rparr>"

interpretation submitter_create_session_Response_codec: wire_codec submitter_create_session_Response_to_v3 submitter_create_session_Response_of_v3
  by unfold_locales (simp add: submitter_create_session_Response_to_v3_def submitter_create_session_Response_of_v3_def)

record submitter_cancel_session_Request =
  session_id :: string

definition submitter_cancel_session_Request_default :: submitter_cancel_session_Request where
  "submitter_cancel_session_Request_default = \<lparr>
     submitter_cancel_session_Request.session_id = ''''\<rparr>"

definition submitter_cancel_session_Request_to_v3 :: "submitter_cancel_session_Request \<Rightarrow> v3_Session" where
  "submitter_cancel_session_Request_to_v3 v = \<lparr>
     v3_Session.id = submitter_cancel_session_Request.session_id v\<rparr>"

definition submitter_cancel_session_Request_of_v3 :: "v3_Session \<Rightarrow> submitter_cancel_session_Request" where
  "submitter_cancel_session_Request_of_v3 v = \<lparr>
     submitter_cancel_session_Request.session_id = v3_Session.id v\<rparr>"

interpretation submitter_cancel_session_Request_codec: wire_codec submitter_cancel_session_Request_to_v3 submitter_cancel_session_Request_of_v3
  by unfold_locales (simp add: submitter_cancel_session_Request_to_v3_def submitter_cancel_session_Request_of_v3_def)

datatype submitter_cancel_session_Response = submitter_cancel_session_Response

definition submitter_cancel_session_Response_default :: submitter_cancel_session_Response where
  "submitter_cancel_session_Response_default = submitter_cancel_session_Response"

definition submitter_cancel_session_Response_to_v3 :: "submitter_cancel_session_Response \<Rightarrow> v3_Empty" where
  "submitter_cancel_session_Response_to_v3 v = v3_Empty"

definition submitter_cancel_session_Response_of_v3 :: "v3_Empty \<Rightarrow> submitter_cancel_session_Response" where
  "submitter_cancel_session_Response_of_v3 v = submitter_cancel_session_Response"

interpretation submitter_cancel_session_Response_codec: wire_codec submitter_cancel_session_Response_to_v3 submitter_cancel_session_Response_of_v3
  by unfold_locales (metis submitter_cancel_session_Response.exhaust submitter_cancel_session_Response_of_v3_def)

section \<open>Service configuration\<close>

datatype submitter_get_service_configuration_Request = submitter_get_service_configuration_Request

definition submitter_get_service_configuration_Request_default :: submitter_get_service_configuration_Request where
  "submitter_get_service_configuration_Request_default = submitter_get_service_configuration_Request"

definition submitter_get_service_configuration_Request_to_v3 :: "submitter_get_service_configuration_Request \<Rightarrow> v3_Empty" where
  "submitter_get_service_configuration_Request_to_v3 v = v3_Empty"

definition submitter_get_service_configuration_Request_of_v3 :: "v3_Empty \<Rightarrow> submitter_get_service_configuration_Request" where
  "submitter_get_service_configuration_Request_of_v3 v = submitter_get_service_configuration_Request"

interpretation submitter_get_service_configuration_Request_codec: wire_codec submitter_get_service_configuration_Request_to_v3 submitter_get_service_configuration_Request_of_v3
  by unfold_locales (metis submitter_get_service_configuration_Request.exhaust submitter_get_service_configuration_Request_of_v3_def)

type_synonym submitter_get_service_configuration_Response = Configuration

section \<open>Statuses of results and tasks\<close>

record v3_submitter_GetResultStatusRequest =
  result_ids :: "string list"
  session_id :: string

record v3_submitter_get_result_status_reply_IdStatus =
  result_id :: string
  status :: i32

record v3_submitter_GetResultStatusReply =
  id_statuses :: "v3_submitter_get_result_status_reply_IdStatus list"

record v3_submitter_GetTaskStatusRequest =
  task_ids :: "string list"

record v3_submitter_get_task_status_reply_IdStatus =
  task_id :: string
  status :: i32

record v3_submitter_GetTaskStatusReply =
  id_statuses :: "v3_submitter_get_task_status_reply_IdStatus list"

record submitter_result_status_Request =
  session_id :: string
  result_ids :: "string list"

definition submitter_result_status_Request_default :: submitter_result_status_Request where
  "submitter_result_status_Request_default = \<lparr>
     submitter_result_status_Request.session_id = '''',
     submitter_result_status_Request.result_ids = []\<rparr>"

definition submitter_result_status_Request_to_v3 :: "submitter_result_status_Request \<Rightarrow> v3_submitter_GetResultStatusRequest" where
  "submitter_result_status_Request_to_v3 v = \<lparr>
     v3_submitter_GetResultStatusRequest.result_ids = into_collect (\<lambda>x. x) (submitter_result_status_Request.result_ids v),
     v3_submitter_GetResultStatusRequest.session_id = submitter_result_status_Request.session_id v\<rparr>"

definition submitter_result_status_Request_of_v3 :: "v3_submitter_GetResultStatusRequest \<Rightarrow> submitter_result_status_Request" where
  "submitter_result_status_Request_of_v3 v = \<lparr>
     submitter_result_status_Request.session_id = v3_submitter_GetResultStatusRequest.session_id v,
     submitter_result_status_Request.result_ids = into_collect (\<lambda>x. x) (v3_submitter_GetResultStatusRequest.result_ids v)\<rparr>"

interpretation submitter_result_status_Request_codec: wire_codec submitter_result_status_Request_to_v3 submitter_result_status_Request_of_v3
  by unfold_locales (simp add: submitter_result_status_Request_to_v3_def submitter_result_status_Request_of_v3_def)

record submitter_result_status_Response =
  statuses :: "(string, ResultStatus) fmap"

definition submitter_result_status_Response_default :: submitter_result_status_Response where
  "submitter_result_status_Response_default = \<lparr>
     submitter_result_status_Response.statuses = fmempty\<rparr>"

definition submitter_result_status_Response_to_v3 ::
  "((string, ResultStatus) fmap \<Rightarrow> (string \<times> ResultStatus) list) \<Rightarrow> submitter_result_status_Response
   \<Rightarrow> v3_submitter_GetResultStatusReply" where
  "submitter_result_status_Response_to_v3 it v = \<lparr>
     v3_submitter_GetResultStatusReply.id_statuses = map (\<lambda>(i, s).
       \<lparr>v3_submitter_get_result_status_reply_IdStatus.result_id = i,
        v3_submitter_get_result_status_reply_IdStatus.status = ResultStatus_as_i32 s\<rparr>)
       (it (submitter_result_status_Response.statuses v))\<rparr>"

definition submitter_result_status_Response_of_v3 :: "v3_submitter_GetResultStatusReply \<Rightarrow> submitter_result_status_Response" where
  "submitter_result_status_Response_of_v3 v = \<lparr>
     submitter_result_status_Response.statuses = hashmap_collect (map (\<lambda>p.
       (v3_submitter_get_result_status_reply_IdStatus.result_id p,
        ResultStatus_of_i32 (v3_submitter_get_result_status_reply_IdStatus.status p)))
       (v3_submitter_GetResultStatusReply.id_statuses v))\<rparr>"

lemma submitter_result_status_Response_roundtrip:
  "iterates it \<Longrightarrow> submitter_result_status_Response_of_v3 (submitter_result_status_Response_to_v3 it x) = x"
  unfolding submitter_result_status_Response_of_v3_def submitter_result_status_Response_to_v3_def v3_submitter_GetResultStatusReply.select_convs
  by (subst hashmap_entries_roundtrip) simp_all

record submitter_task_status_Request =
  task_ids :: "string list"

definition submitter_task_status_Request_default :: submitter_task_status_Request where
  "submitter_task_status_Request_default = \<lparr>
     submitter_task_status_Request.task_ids = []\<rparr>"

definition submitter_task_status_Request_to_v3 :: "submitter_task_status_Request \<Rightarrow> v3_submitter_GetTaskStatusRequest" where
  "submitter_task_status_Request_to_v3 v = \<lparr>
     v3_submitter_GetTaskStatusRequest.task_ids = into_collect (\<lambda>x. x) (submitter_task_status_Request.task_ids v)\<rparr>"

definition submitter_task_status_Request_of_v3 :: "v3_submitter_GetTaskStatusRequest \<Rightarrow> submitter_task_status_Request" where
  "submitter_task_status_Request_of_v3 v = \<lparr>
     submitter_task_status_Request.task_ids = into_collect (\<lambda>x. x) (v3_submitter_GetTaskStatusRequest.task_ids v)\<rparr>"

interpretation submitter_task_status_Request_codec: wire_codec submitter_task_status_Request_to_v3 submitter_task_status_Request_of_v3
  by unfold_locales (simp add: submitter_task_status_Request_to_v3_def submitter_task_status_Request_of_v3_def)

record submitter_task_status_Response =
  statuses :: "(string, TaskStatus) fmap"

definition submitter_task_status_Response_default :: submitter_task_status_Response where
  "submitter_task_status_Response_default = \<lparr>
     submitter_task_status_Response.statuses = fmempty\<rparr>"

definition submitter_task_status_Response_to_v3 ::
  "((string, TaskStatus) fmap \<Rightarrow> (string \<times> TaskStatus) list) \<Rightarrow> submitter_task_status_Response
   \<Rightarrow> v3_submitter_GetTaskStatusReply" where
  "submitter_task_status_Response_to_v3 it v = \<lparr>
     v3_submitter_GetTaskStatusReply.id_statuses = map (\<lambda>(i, s).
       \<lparr>v3_submitter_get_task_status_reply_IdStatus.task_id = i,
        v3_submitter_get_task_status_reply_IdStatus.status = TaskStatus_as_i32 s\<rparr>)
       (it (submitter_task_status_Response.statuses v))\<rparr>"

definition submitter_task_status_Response_of_v3 :: "v3_submitter_GetTaskStatusReply \<Rightarrow> submitter_task_status_Response" where
  "submitter_task_status_Response_of_v3 v = \<lparr>
     submitter_task_status_Response.statuses = hashmap_collect (map (\<lambda>p.
       (v3_submitter_get_task_status_reply_IdStatus.task_id p,
        TaskStatus_of_i32 (v3_submitter_get_task_status_reply_IdStatus.status p)))
       (v3_submitter_GetTaskStatusReply.id_statuses v))\<rparr>"

lemma submitter_task_status_Response_roundtrip:
  "iterates it \<Longrightarrow> submitter_task_status_Response_of_v3 (submitter_task_status_Response_to_v3 it x) = x"
  unfolding submitter_task_status_Response_of_v3_def submitter_task_status_Response_to_v3_def v3_submitter_GetTaskStatusReply.select_convs
  by (subst hashmap_entries_roundtrip) simp_all

section \<open>Outputs and results\<close>

record submitter_try_get_task_output_Request =
  session_id :: string
  task_id :: string

definition submitter_try_get_task_output_Request_default :: submitter_try_get_task_output_Request where
  "submitter_try_get_task_output_Request_default = \<lparr>
     submitter_try_get_task_output_Request.session_id = '''',
     submitter_try_get_task_output_Request.task_id = ''''\<rparr>"

definition submitter_try_get_task_output_Request_to_v3 :: "submitter_try_get_task_output_Request \<Rightarrow> v3_TaskOutputRequest" where
  "submitter_try_get_task_output_Request_to_v3 v = \<lparr>
     v3_TaskOutputRequest.session = submitter_try_get_task_output_Request.session_id v,
     v3_TaskOutputRequest.task_id = submitter_try_get_task_output_Request.task_id v\<rparr>"

definition submitter_try_get_task_output_Request_of_v3 :: "v3_TaskOutputRequest \<Rightarrow> submitter_try_get_task_output_Request" where
  "submitter_try_get_task_output_Request_of_v3 v = \<lparr>
     submitter_try_get_task_output_Request.session_id = v3_TaskOutputRequest.session v,
     submitter_try_get_task_output_Request.task_id = v3_TaskOutputRequest.task_id v\<rparr>"

interpretation submitter_try_get_task_output_Request_codec: wire_codec submitter_try_get_task_output_Request_to_v3 submitter_try_get_task_output_Request_of_v3
  by unfold_locales (simp add: submitter_try_get_task_output_Request_to_v3_def submitter_try_get_task_output_Request_of_v3_def)

type_synonym submitter_try_get_task_output_Response = Output

datatype v3_submitter_result_reply_Type =
    Result v3_DataChunk
  | Error v3_TaskError
  | NotCompletedTask string

record v3_submitter_ResultReply =
  oneof_type :: "v3_submitter_result_reply_Type option"

datatype v3_submitter_availability_reply_Type =
    Ok v3_Empty
  | Error v3_TaskError
  | NotCompletedTask string

record v3_submitter_AvailabilityReply =
  oneof_type :: "v3_submitter_availability_reply_Type option"

record submitter_try_get_result_Request =
  session_id :: string
  result_id :: string

definition submitter_try_get_result_Request_default :: submitter_try_get_result_Request where
  "submitter_try_get_result_Request_default = \<lparr>
     submitter_try_get_result_Request.session_id = '''',
     submitter_try_get_result_Request.result_id = ''''\<rparr>"

definition submitter_try_get_result_Request_to_v3 :: "submitter_try_get_result_Request \<Rightarrow> v3_ResultRequest" where
  "submitter_try_get_result_Request_to_v3 v = \<lparr>
     v3_ResultRequest.session = submitter_try_get_result_Request.session_id v,
     v3_ResultRequest.result_id = submitter_try_get_result_Request.result_id v\<rparr>"

definition submitter_try_get_result_Request_of_v3 :: "v3_ResultRequest \<Rightarrow> submitter_try_get_result_Request" where
  "submitter_try_get_result_Request_of_v3 v = \<lparr>
     submitter_try_get_result_Request.session_id = v3_ResultRequest.session v,
     submitter_try_get_result_Request.result_id = v3_ResultRequest.result_id v\<rparr>"

interpretation submitter_try_get_result_Request_codec: wire_codec submitter_try_get_result_Request_to_v3 submitter_try_get_result_Request_of_v3
  by unfold_locales (simp add: submitter_try_get_result_Request_to_v3_def submitter_try_get_result_Request_of_v3_def)

datatype submitter_try_get_result_Response =
    DataChunk DataChunk
  | TaskError TaskError
  | NotCompleted string

definition submitter_try_get_result_Response_default :: submitter_try_get_result_Response where
  "submitter_try_get_result_Response_default = submitter_try_get_result_Response.NotCompleted ''''"

primrec submitter_try_get_result_Response_to_v3 :: "submitter_try_get_result_Response \<Rightarrow> v3_submitter_ResultReply" where
    "submitter_try_get_result_Response_to_v3 (submitter_try_get_result_Response.DataChunk x) =
       \<lparr>v3_submitter_ResultReply.oneof_type = Some (v3_submitter_result_reply_Type.Result (DataChunk_to_v3 x))\<rparr>"
  | "submitter_try_get_result_Response_to_v3 (submitter_try_get_result_Response.TaskError x) =
       \<lparr>v3_submitter_ResultReply.oneof_type = Some (v3_submitter_result_reply_Type.Error (TaskError_to_v3 x))\<rparr>"
  | "submitter_try_get_result_Response_to_v3 (submitter_try_get_result_Response.NotCompleted x) =
       \<lparr>v3_submitter_ResultReply.oneof_type = Some (v3_submitter_result_reply_Type.NotCompletedTask x)\<rparr>"

definition submitter_try_get_result_Response_of_v3 :: "v3_submitter_ResultReply \<Rightarrow> submitter_try_get_result_Response" where
  "submitter_try_get_result_Response_of_v3 v = (case v3_submitter_ResultReply.oneof_type v of
       Some (v3_submitter_result_reply_Type.Result x) \<Rightarrow> submitter_try_get_result_Response.DataChunk (DataChunk_of_v3 x)
     | Some (v3_submitter_result_reply_Type.Error x) \<Rightarrow> submitter_try_get_result_Response.TaskError (TaskError_of_v3 x)
     | Some (v3_submitter_result_reply_Type.NotCompletedTask x) \<Rightarrow> submitter_try_get_result_Response.NotCompleted x
     | None \<Rightarrow> submitter_try_get_result_Response_default)"

interpretation submitter_try_get_result_Response_codec: wire_codec submitter_try_get_result_Response_to_v3 submitter_try_get_result_Response_of_v3
proof unfold_locales
  fix x
  show "submitter_try_get_result_Response_of_v3 (submitter_try_get_result_Response_to_v3 x) = x"
    by (cases x) (simp_all add: submitter_try_get_result_Response_of_v3_def)
qed

record submitter_wait_for_availability_Request =
  session_id :: string
  result_id :: string

definition submitter_wait_for_availability_Request_default :: submitter_wait_for_availability_Request where
  "submitter_wait_for_availability_Request_default = \<lparr>
     submitter_wait_for_availability_Request.session_id = '''',
     submitter_wait_for_availability_Request.result_id = ''''\<rparr>"

definition submitter_wait_for_availability_Request_to_v3 :: "submitter_wait_for_availability_Request \<Rightarrow> v3_ResultRequest" where
  "submitter_wait_for_availability_Request_to_v3 v = \<lparr>
     v3_ResultRequest.session = submitter_wait_for_availability_Request.session_id v,
     v3_ResultRequest.result_id = submitter_wait_for_availability_Request.result_id v\<rparr>"

definition submitter_wait_for_availability_Request_of_v3 :: "v3_ResultRequest \<Rightarrow> submitter_wait_for_availability_Request" where
  "submitter_wait_for_availability_Request_of_v3 v = \<lparr>
     submitter_wait_for_availability_Request.session_id = v3_ResultRequest.session v,
     submitter_wait_for_availability_Request.result_id = v3_ResultRequest.result_id v\<rparr>"

interpretation submitter_wait_for_availability_Request_codec: wire_codec submitter_wait_for_availability_Request_to_v3 submitter_wait_for_availability_Request_of_v3
  by unfold_locales (simp add: submitter_wait_for_availability_Request_to_v3_def submitter_wait_for_availability_Request_of_v3_def)

datatype submitter_wait_for_availability_Response =
    Ok
  | TaskError TaskError
  | NotCompleted string

definition submitter_wait_for_availability_Response_default :: submitter_wait_for_availability_Response where
  "submitter_wait_for_availability_Response_default = submitter_wait_for_availability_Response.NotCompleted ''''"

primrec submitter_wait_for_availability_Response_to_v3 :: "submitter_wait_for_availability_Response \<Rightarrow> v3_submitter_AvailabilityReply" where
    "submitter_wait_for_availability_Response_to_v3 submitter_wait_for_availability_Response.Ok =
       \<lparr>v3_submitter_AvailabilityReply.oneof_type = Some (v3_submitter_availability_reply_Type.Ok v3_Empty)\<rparr>"
  | "submitter_wait_for_availability_Response_to_v3 (submitter_wait_for_availability_Response.TaskError x) =
       \<lparr>v3_submitter_AvailabilityReply.oneof_type = Some (v3_submitter_availability_reply_Type.Error (TaskError_to_v3 x))\<rparr>"
  | "submitter_wait_for_availability_Response_to_v3 (submitter_wait_for_availability_Response.NotCompleted x) =
       \<lparr>v3_submitter_AvailabilityReply.oneof_type = Some (v3_submitter_availability_reply_Type.NotCompletedTask x)\<rparr>"

definition submitter_wait_for_availability_Response_of_v3 :: "v3_submitter_AvailabilityReply \<Rightarrow> submitter_wait_for_availability_Response" where
  "submitter_wait_for_availability_Response_of_v3 v = (case v3_submitter_AvailabilityReply.oneof_type v of
       Some (v3_submitter_availability_reply_Type.Ok _) \<Rightarrow> submitter_wait_for_availability_Response.Ok
     | Some (v3_submitter_availability_reply_Type.Error x) \<Rightarrow> submitter_wait_for_availability_Response.TaskError (TaskError_of_v3 x)
     | Some (v3_submitter_availability_reply_Type.NotCompletedTask x) \<Rightarrow> submitter_wait_for_availability_Response.NotCompleted x
     | None \<Rightarrow> submitter_wait_for_availability_Response_default)"

interpretation submitter_wait_for_availability_Response_codec: wire_codec submitter_wait_for_availability_Response_to_v3 submitter_wait_for_availability_Response_of_v3
proof unfold_locales
  fix x
  show "submitter_wait_for_availability_Response_of_v3 (submitter_wait_for_availability_Response_to_v3 x) = x"
    by (cases x) (simp_all add: submitter_wait_for_availability_Response_of_v3_def)
qed

section \<open>Task creation\<close>

record v3_submitter_CreateSmallTaskRequest =
  session_id :: string
  task_options :: "v3_TaskOptions option"
  task_requests :: "v3_TaskRequest list"

record v3_submitter_create_large_task_request_InitRequest =
  session_id :: string
  task_options :: "v3_TaskOptions option"

datatype v3_submitter_create_large_task_request_Type =
    InitRequest v3_submitter_create_large_task_request_InitRequest
  | InitTask v3_InitTaskRequest
  | TaskPayload v3_DataChunk

record v3_submitter_CreateLargeTaskRequest =
  oneof_type :: "v3_submitter_create_large_task_request_Type option"

record v3_submitter_create_task_reply_TaskInfo =
  task_id :: string
  expected_output_keys :: "string list"
  data_dependencies :: "string list"
  payload_id :: string

datatype v3_submitter_create_task_reply_creation_status_Status =
    TaskInfo v3_submitter_create_task_reply_TaskInfo
  | Error string

record v3_submitter_create_task_reply_CreationStatus =
  status :: "v3_submitter_create_task_reply_creation_status_Status option"

record v3_submitter_create_task_reply_CreationStatusList =
  creation_statuses :: "v3_submitter_create_task_reply_CreationStatus list"

datatype v3_submitter_create_task_reply_Response =
    CreationStatusList v3_submitter_create_task_reply_CreationStatusList
  | Error string

record v3_submitter_CreateTaskReply =
  response :: "v3_submitter_create_task_reply_Response option"

record submitter_create_tasks_SmallRequest =
  session_id :: string
  task_options :: "TaskOptions option"
  task_requests :: "TaskRequest list"

definition submitter_create_tasks_SmallRequest_default :: submitter_create_tasks_SmallRequest where
  "submitter_create_tasks_SmallRequest_default = \<lparr>
     submitter_create_tasks_SmallRequest.session_id = '''',
     submitter_create_tasks_SmallRequest.task_options = None,
     submitter_create_tasks_SmallRequest.task_requests = []\<rparr>"

definition submitter_create_tasks_SmallRequest_to_v3 :: "submitter_create_tasks_SmallRequest \<Rightarrow> v3_submitter_CreateSmallTaskRequest" where
  "submitter_create_tasks_SmallRequest_to_v3 v = \<lparr>
     v3_submitter_CreateSmallTaskRequest.session_id = submitter_create_tasks_SmallRequest.session_id v,
     v3_submitter_CreateSmallTaskRequest.task_options = map_option TaskOptions_to_v3 (submitter_create_tasks_SmallRequest.task_options v),
     v3_submitter_CreateSmallTaskRequest.task_requests = into_collect TaskRequest_to_v3 (submitter_create_tasks_SmallRequest.task_requests v)\<rparr>"

definition submitter_create_tasks_SmallRequest_of_v3 :: "v3_submitter_CreateSmallTaskRequest \<Rightarrow> submitter_create_tasks_SmallRequest" where
  "submitter_create_tasks_SmallRequest_of_v3 v = \<lparr>
     submitter_create_tasks_SmallRequest.session_id = v3_submitter_CreateSmallTaskRequest.session_id v,
     submitter_create_tasks_SmallRequest.task_options = map_option TaskOptions_of_v3 (v3_submitter_CreateSmallTaskRequest.task_options v),
     submitter_create_tasks_SmallRequest.task_requests = into_collect TaskRequest_of_v3 (v3_submitter_CreateSmallTaskRequest.task_requests v)\<rparr>"

interpretation submitter_create_tasks_SmallRequest_codec: wire_codec submitter_create_tasks_SmallRequest_to_v3 submitter_create_tasks_SmallRequest_of_v3
  by unfold_locales (simp add: submitter_create_tasks_SmallRequest_to_v3_def submitter_create_tasks_SmallRequest_of_v3_def)

record submitter_create_tasks_InitRequest =
  session_id :: string
  task_options :: "TaskOptions option"

definition submitter_create_tasks_InitRequest_default :: submitter_create_tasks_InitRequest where
  "submitter_create_tasks_InitRequest_default = \<lparr>
     submitter_create_tasks_InitRequest.session_id = '''',
     submitter_create_tasks_InitRequest.task_options = None\<rparr>"

definition submitter_create_tasks_InitRequest_to_v3 :: "submitter_create_tasks_InitRequest \<Rightarrow> v3_submitter_create_large_task_request_InitRequest" where
  "submitter_create_tasks_InitRequest_to_v3 v = \<lparr>
     v3_submitter_create_large_task_request_InitRequest.session_id = submitter_create_tasks_InitRequest.session_id v,
     v3_submitter_create_large_task_request_InitRequest.task_options = map_option TaskOptions_to_v3 (submitter_create_tasks_InitRequest.task_options v)\<rparr>"

definition submitter_create_tasks_InitRequest_of_v3 :: "v3_submitter_create_large_task_request_InitRequest \<Rightarrow> submitter_create_tasks_InitRequest" where
  "submitter_create_tasks_InitRequest_of_v3 v = \<lparr>
     submitter_create_tasks_InitRequest.session_id = v3_submitter_create_large_task_request_InitRequest.session_id v,
     submitter_create_tasks_InitRequest.task_options = map_option TaskOptions_of_v3 (v3_submitter_create_large_task_request_InitRequest.task_options v)\<rparr>"

interpretation submitter_create_tasks_InitRequest_codec: wire_codec submitter_create_tasks_InitRequest_to_v3 submitter_create_tasks_InitRequest_of_v3
  by unfold_locales (simp add: submitter_create_tasks_InitRequest_to_v3_def submitter_create_tasks_InitRequest_of_v3_def)

datatype submitter_create_tasks_LargeRequest =
    Invalid
  | InitRequest submitter_create_tasks_InitRequest
  | InitTaskRequest InitTaskRequest
  | DataChunk DataChunk

definition submitter_create_tasks_LargeRequest_default :: submitter_create_tasks_LargeRequest where
  "submitter_create_tasks_LargeRequest_default = submitter_create_tasks_LargeRequest.Invalid"

primrec submitter_create_tasks_LargeRequest_to_v3 ::
  "submitter_create_tasks_LargeRequest \<Rightarrow> v3_submitter_CreateLargeTaskRequest" where
    "submitter_create_tasks_LargeRequest_to_v3 submitter_create_tasks_LargeRequest.Invalid =
       \<lparr>v3_submitter_CreateLargeTaskRequest.oneof_type = None\<rparr>"
  | "submitter_create_tasks_LargeRequest_to_v3 (submitter_create_tasks_LargeRequest.InitRequest r) =
       \<lparr>v3_submitter_CreateLargeTaskRequest.oneof_type =
          Some (v3_submitter_create_large_task_request_Type.InitRequest
            (submitter_create_tasks_InitRequest_to_v3 r))\<rparr>"
  | "submitter_create_tasks_LargeRequest_to_v3 (submitter_create_tasks_LargeRequest.InitTaskRequest r) =
       \<lparr>v3_submitter_CreateLargeTaskRequest.oneof_type =
          Some (v3_submitter_create_large_task_request_Type.InitTask (InitTaskRequest_to_v3 r))\<rparr>"
  | "submitter_create_tasks_LargeRequest_to_v3 (submitter_create_tasks_LargeRequest.DataChunk c) =
       \<lparr>v3_submitter_CreateLargeTaskRequest.oneof_type =
          Some (v3_submitter_create_large_task_request_Type.TaskPayload (DataChunk_to_v3 c))\<rparr>"

definition submitter_create_tasks_LargeRequest_of_v3 ::
  "v3_submitter_CreateLargeTaskRequest \<Rightarrow> submitter_create_tasks_LargeRequest" where
  "submitter_create_tasks_LargeRequest_of_v3 v =
     (case v3_submitter_CreateLargeTaskRequest.oneof_type v of
       Some (v3_submitter_create_large_task_request_Type.InitRequest r) \<Rightarrow>
         submitter_create_tasks_LargeRequest.InitRequest (submitter_create_tasks_InitRequest_of_v3 r)
     | Some (v3_submitter_create_large_task_request_Type.InitTask r) \<Rightarrow>
         submitter_create_tasks_LargeRequest.InitTaskRequest (InitTaskRequest_of_v3 r)
     | Some (v3_submitter_create_large_task_request_Type.TaskPayload c) \<Rightarrow>
         submitter_create_tasks_LargeRequest.DataChunk (DataChunk_of_v3 c)
     | None \<Rightarrow> submitter_create_tasks_LargeRequest.Invalid)"

interpretation submitter_create_tasks_LargeRequest_codec:
  wire_codec submitter_create_tasks_LargeRequest_to_v3 submitter_create_tasks_LargeRequest_of_v3
proof unfold_locales
  fix x
  show "submitter_create_tasks_LargeRequest_of_v3 (submitter_create_tasks_LargeRequest_to_v3 x) = x"
    by (cases x) (simp_all add: submitter_create_tasks_LargeRequest_of_v3_def)
qed

datatype submitter_create_tasks_Status =
    TaskInfo string "string list" "string list" string
  | Error string

definition submitter_create_tasks_Status_default :: submitter_create_tasks_Status where
  "submitter_create_tasks_Status_default = submitter_create_tasks_Status.Error ''''"

primrec submitter_create_tasks_Status_to_v3 ::
  "submitter_create_tasks_Status \<Rightarrow> v3_submitter_create_task_reply_CreationStatus" where
    "submitter_create_tasks_Status_to_v3 (submitter_create_tasks_Status.TaskInfo t ks ds p) =
       \<lparr>v3_submitter_create_task_reply_CreationStatus.status = Some (v3_submitter_create_task_reply_creation_status_Status.TaskInfo
          \<lparr>v3_submitter_create_task_reply_TaskInfo.task_id = t,
           v3_submitter_create_task_reply_TaskInfo.expected_output_keys = ks,
           v3_submitter_create_task_reply_TaskInfo.data_dependencies = ds,
           v3_submitter_create_task_reply_TaskInfo.payload_id = p\<rparr>)\<rparr>"
  | "submitter_create_tasks_Status_to_v3 (submitter_create_tasks_Status.Error m) =
       \<lparr>v3_submitter_create_task_reply_CreationStatus.status = Some (v3_submitter_create_task_reply_creation_status_Status.Error m)\<rparr>"

definition submitter_create_tasks_Status_of_v3 ::
  "v3_submitter_create_task_reply_CreationStatus \<Rightarrow> submitter_create_tasks_Status" where
  "submitter_create_tasks_Status_of_v3 v = (case v3_submitter_create_task_reply_CreationStatus.status v of
       Some (v3_submitter_create_task_reply_creation_status_Status.TaskInfo i) \<Rightarrow>
         submitter_create_tasks_Status.TaskInfo
           (v3_submitter_create_task_reply_TaskInfo.task_id i)
           (v3_submitter_create_task_reply_TaskInfo.expected_output_keys i)
           (v3_submitter_create_task_reply_TaskInfo.data_dependencies i)
           (v3_submitter_create_task_reply_TaskInfo.payload_id i)
     | Some (v3_submitter_create_task_reply_creation_status_Status.Error m) \<Rightarrow> submitter_create_tasks_Status.Error m
     | None \<Rightarrow> submitter_create_tasks_Status_default)"

interpretation submitter_create_tasks_Status_codec: wire_codec submitter_create_tasks_Status_to_v3 submitter_create_tasks_Status_of_v3
proof unfold_locales
  fix x
  show "submitter_create_tasks_Status_of_v3 (submitter_create_tasks_Status_to_v3 x) = x"
    by (cases x) (simp_all add: submitter_create_tasks_Status_of_v3_def)
qed

datatype submitter_create_tasks_Response =
    Status "submitter_create_tasks_Status list"
  | Error string

definition submitter_create_tasks_Response_default :: submitter_create_tasks_Response where
  "submitter_create_tasks_Response_default = submitter_create_tasks_Response.Status []"

primrec submitter_create_tasks_Response_to_v3 ::
  "submitter_create_tasks_Response \<Rightarrow> v3_submitter_CreateTaskReply" where
    "submitter_create_tasks_Response_to_v3 (submitter_create_tasks_Response.Status ss) =
       \<lparr>v3_submitter_CreateTaskReply.response =
          Some (v3_submitter_create_task_reply_Response.CreationStatusList
            \<lparr>v3_submitter_create_task_reply_CreationStatusList.creation_statuses =
               into_collect submitter_create_tasks_Status_to_v3 ss\<rparr>)\<rparr>"
  | "submitter_create_tasks_Response_to_v3 (submitter_create_tasks_Response.Error m) =
       \<lparr>v3_submitter_CreateTaskReply.response = Some (v3_submitter_create_task_reply_Response.Error m)\<rparr>"

definition submitter_create_tasks_Response_of_v3 ::
  "v3_submitter_CreateTaskReply \<Rightarrow> submitter_create_tasks_Response" where
  "submitter_create_tasks_Response_of_v3 v = (case v3_submitter_CreateTaskReply.response v of
       Some (v3_submitter_create_task_reply_Response.CreationStatusList s) \<Rightarrow>
         submitter_create_tasks_Response.Status (into_collect submitter_create_tasks_Status_of_v3
           (v3_submitter_create_task_reply_CreationStatusList.creation_statuses s))
     | Some (v3_submitter_create_task_reply_Response.Error m) \<Rightarrow> submitter_create_tasks_Response.Error m
     | None \<Rightarrow> submitter_create_tasks_Response_default)"

interpretation submitter_create_tasks_Response_codec:
  wire_codec submitter_create_tasks_Response_to_v3 submitter_create_tasks_Response_of_v3
proof unfold_locales
  fix x
  show "submitter_create_tasks_Response_of_v3 (submitter_create_tasks_Response_to_v3 x) = x"
    by (cases x) (simp_all add: submitter_create_tasks_Response_of_v3_def)
qed

end
