(* ===== verification/Submitter_Service.thy ===== *)
theory Submitter_Service
  imports Request_Count Submitter
begin

text \<open>
  The submitter service: the client (\<^verbatim>\<open>client/submitter.rs\<close>) and the server glue (\<^verbatim>\<open>server/submitter.rs\<close>) around
  the generated stub and trait, and the composition of the two.
\<close>

section \<open>The generated stub\<close>

record v3_submitter_WatchResultRequest =
  fetch_statuses :: "i32 list"
  watch_statuses :: "i32 list"
  result_ids :: "string list"

record v3_submitter_WatchResultStream =
  status :: i32
  result_ids :: "string list"

record 'c v3_submitter_SubmitterClient =
  get_service_configuration :: "(v3_Empty, 'c, v3_Configuration) stub"
  create_session :: "(v3_submitter_CreateSessionRequest, 'c, v3_submitter_CreateSessionReply) stub"
  cancel_session :: "(v3_Session, 'c, v3_Empty) stub"
  create_small_tasks :: "(v3_submitter_CreateSmallTaskRequest, 'c, v3_submitter_CreateTaskReply) stub"
  create_large_tasks :: "(v3_submitter_CreateLargeTaskRequest Stream, 'c, v3_submitter_CreateTaskReply) stub"
  list_tasks :: "(v3_submitter_TaskFilter, 'c, v3_TaskIdList) stub"
  list_sessions :: "(v3_submitter_SessionFilter, 'c, v3_submitter_SessionIdList) stub"
  count_tasks :: "(v3_submitter_TaskFilter, 'c, v3_Count) stub"
  try_get_result_stream :: "(v3_ResultRequest, 'c, (tonic_Status + v3_submitter_ResultReply) Stream) stub"
  try_get_task_output :: "(v3_TaskOutputRequest, 'c, v3_Output) stub"
  wait_for_availability :: "(v3_ResultRequest, 'c, v3_submitter_AvailabilityReply) stub"
  wait_for_completion :: "(v3_submitter_WaitRequest, 'c, v3_Count) stub"
  cancel_tasks :: "(v3_submitter_TaskFilter, 'c, v3_Empty) stub"
  get_task_status :: "(v3_submitter_GetTaskStatusRequest, 'c, v3_submitter_GetTaskStatusReply) stub"
  get_result_status :: "(v3_submitter_GetResultStatusRequest, 'c, v3_submitter_GetResultStatusReply) stub"
  watch_results :: "(v3_submitter_WatchResultRequest Stream, 'c, (tonic_Status + v3_submitter_WatchResultStream) Stream) stub"

text \<open>A stub that also records which procedures are called.\<close>

definition submitter_recording :: "'c v3_submitter_SubmitterClient \<Rightarrow> 'c recording v3_submitter_SubmitterClient" where
  "submitter_recording cl = \<lparr>
     v3_submitter_SubmitterClient.get_service_configuration = recorded ''Submitter'' ''GetServiceConfiguration'' (v3_submitter_SubmitterClient.get_service_configuration cl),
     v3_submitter_SubmitterClient.create_session = recorded ''Submitter'' ''CreateSession'' (v3_submitter_SubmitterClient.create_session cl),
     v3_submitter_SubmitterClient.cancel_session = recorded ''Submitter'' ''CancelSession'' (v3_submitter_SubmitterClient.cancel_session cl),
     v3_submitter_SubmitterClient.create_small_tasks = recorded ''Submitter'' ''CreateSmallTasks'' (v3_submitter_SubmitterClient.create_small_tasks cl),
     v3_submitter_SubmitterClient.create_large_tasks = recorded ''Submitter'' ''CreateLargeTasks'' (v3_submitter_SubmitterClient.create_large_tasks cl),
     v3_submitter_SubmitterClient.list_tasks = recorded ''Submitter'' ''ListTasks'' (v3_submitter_SubmitterClient.list_tasks cl),
     v3_submitter_SubmitterClient.list_sessions = recorded ''Submitter'' ''ListSessions'' (v3_submitter_SubmitterClient.list_sessions cl),
     v3_submitter_SubmitterClient.count_tasks = recorded ''Submitter'' ''CountTasks'' (v3_submitter_SubmitterClient.count_tasks cl),
     v3_submitter_SubmitterClient.try_get_result_stream = recorded ''Submitter'' ''TryGetResultStream'' (v3_submitter_SubmitterClient.try_get_result_stream cl),
     v3_submitter_SubmitterClient.try_get_task_output = recorded ''Submitter'' ''TryGetTaskOutput'' (v3_submitter_SubmitterClient.try_get_task_output cl),
     v3_submitter_SubmitterClient.wait_for_availability = recorded ''Submitter'' ''WaitForAvailability'' (v3_submitter_SubmitterClient.wait_for_availability cl),
     v3_submitter_SubmitterClient.wait_for_completion = recorded ''Submitter'' ''WaitForCompletion'' (v3_submitter_SubmitterClient.wait_for_completion cl),
     v3_submitter_SubmitterClient.cancel_tasks = recorded ''Submitter'' ''CancelTasks'' (v3_submitter_SubmitterClient.cancel_tasks cl),
     v3_submitter_SubmitterClient.get_task_status = recorded ''Submitter'' ''GetTaskStatus'' (v3_submitter_SubmitterClient.get_task_status cl),
     v3_submitter_SubmitterClient.get_result_status = recorded ''Submitter'' ''GetResultStatus'' (v3_submitter_SubmitterClient.get_result_status cl),
     v3_submitter_SubmitterClient.watch_results = recorded ''Submitter'' ''WatchResults'' (v3_submitter_SubmitterClient.watch_results cl)\<rparr>"

section \<open>Client\<close>

subsection \<open>Raw calls\<close>

definition Submitter_call_get_service_configuration :: "'c v3_submitter_SubmitterClient \<Rightarrow> submitter_get_service_configuration_Request \<Rightarrow> 'c \<Rightarrow> (RequestError + Configuration) \<times> 'c" where
  "Submitter_call_get_service_configuration cl req c =
     unary_call submitter_get_service_configuration_Request_to_v3 Configuration_of_v3 (v3_submitter_SubmitterClient.get_service_configuration cl) req c"

definition Submitter_call_create_session :: "'c v3_submitter_SubmitterClient \<Rightarrow> submitter_create_session_Request \<Rightarrow> 'c \<Rightarrow> (RequestError + submitter_create_session_Response) \<times> 'c" where
  "Submitter_call_create_session cl req c =
     unary_call submitter_create_session_Request_to_v3 submitter_create_session_Response_of_v3 (v3_submitter_SubmitterClient.create_session cl) req c"

definition Submitter_call_cancel_session :: "'c v3_submitter_SubmitterClient \<Rightarrow> submitter_cancel_session_Request \<Rightarrow> 'c \<Rightarrow> (RequestError + submitter_cancel_session_Response) \<times> 'c" where
  "Submitter_call_cancel_session cl req c =
     unary_call submitter_cancel_session_Request_to_v3 submitter_cancel_session_Response_of_v3 (v3_submitter_SubmitterClient.cancel_session cl) req c"

definition Submitter_call_create_small_tasks :: "'c v3_submitter_SubmitterClient \<Rightarrow> submitter_create_tasks_SmallRequest \<Rightarrow> 'c \<Rightarrow> (RequestError + submitter_create_tasks_Response) \<times> 'c" where
  "Submitter_call_create_small_tasks cl req c =
     unary_call submitter_create_tasks_SmallRequest_to_v3 submitter_create_tasks_Response_of_v3 (v3_submitter_SubmitterClient.create_small_tasks cl) req c"

definition Submitter_call_list_tasks :: "'c v3_submitter_SubmitterClient \<Rightarrow> submitter_list_tasks_Request \<Rightarrow> 'c \<Rightarrow> (RequestError + submitter_list_tasks_Response) \<times> 'c" where
  "Submitter_call_list_tasks cl req c =
     unary_call submitter_list_tasks_Request_to_v3 submitter_list_tasks_Response_of_v3 (v3_submitter_SubmitterClient.list_tasks cl) req c"

definition Submitter_call_list_sessions :: "'c v3_submitter_SubmitterClient \<Rightarrow> submitter_list_sessions_Request \<Rightarrow> 'c \<Rightarrow> (RequestError + submitter_list_sessions_Response) \<times> 'c" where
  "Submitter_call_list_sessions cl req c =
     unary_call submitter_list_sessions_Request_to_v3 submitter_list_sessions_Response_of_v3 (v3_submitter_SubmitterClient.list_sessions cl) req c"

definition Submitter_call_count_tasks :: "'c v3_submitter_SubmitterClient \<Rightarrow> submitter_count_tasks_Request \<Rightarrow> 'c \<Rightarrow> (RequestError + Count) \<times> 'c" where
  "Submitter_call_count_tasks cl req c =
     unary_call submitter_count_tasks_Request_to_v3 Count_of_v3 (v3_submitter_SubmitterClient.count_tasks cl) req c"

definition Submitter_call_try_get_result :: "'c v3_submitter_SubmitterClient \<Rightarrow> submitter_try_get_result_Request \<Rightarrow> 'c \<Rightarrow> (RequestError + (tonic_Status + submitter_try_get_result_Response) Stream) \<times> 'c" where
  "Submitter_call_try_get_result cl req c =
     server_stream_call_raw submitter_try_get_result_Request_to_v3 submitter_try_get_result_Response_of_v3 (v3_submitter_SubmitterClient.try_get_result_stream cl) req c"

definition Submitter_call_try_get_task_output :: "'c v3_submitter_SubmitterClient \<Rightarrow> submitter_try_get_task_output_Request \<Rightarrow> 'c \<Rightarrow> (RequestError + Output) \<times> 'c" where
  "Submitter_call_try_get_task_output cl req c =
     unary_call submitter_try_get_task_output_Request_to_v3 Output_of_v3 (v3_submitter_SubmitterClient.try_get_task_output cl) req c"

definition Submitter_call_wait_for_availability :: "'c v3_submitter_SubmitterClient \<Rightarrow> submitter_wait_for_availability_Request \<Rightarrow> 'c \<Rightarrow> (RequestError + submitter_wait_for_availability_Response) \<times> 'c" where
  "Submitter_call_wait_for_availability cl req c =
     unary_call submitter_wait_for_availability_Request_to_v3 submitter_wait_for_availability_Response_of_v3 (v3_submitter_SubmitterClient.wait_for_availability cl) req c"

definition Submitter_call_wait_for_completion :: "'c v3_submitter_SubmitterClient \<Rightarrow> submitter_wait_for_completion_Request \<Rightarrow> 'c \<Rightarrow> (RequestError + Count) \<times> 'c" where
  "Submitter_call_wait_for_completion cl req c =
     unary_call submitter_wait_for_completion_Request_to_v3 Count_of_v3 (v3_submitter_SubmitterClient.wait_for_completion cl) req c"

definition Submitter_call_cancel_tasks :: "'c v3_submitter_SubmitterClient \<Rightarrow> submitter_cancel_tasks_Request \<Rightarrow> 'c \<Rightarrow> (RequestError + submitter_cancel_tasks_Response) \<times> 'c" where
  "Submitter_call_cancel_tasks cl req c =
     unary_call submitter_cancel_tasks_Request_to_v3 submitter_cancel_tasks_Response_of_v3 (v3_submitter_SubmitterClient.cancel_tasks cl) req c"

definition Submitter_call_task_status :: "'c v3_submitter_SubmitterClient \<Rightarrow> submitter_task_status_Request \<Rightarrow> 'c \<Rightarrow> (RequestError + submitter_task_status_Response) \<times> 'c" where
  "Submitter_call_task_status cl req c =
     unary_call submitter_task_status_Request_to_v3 submitter_task_status_Response_of_v3 (v3_submitter_SubmitterClient.get_task_status cl) req c"

definition Submitter_call_result_status :: "'c v3_submitter_SubmitterClient \<Rightarrow> submitter_result_status_Request \<Rightarrow> 'c \<Rightarrow> (RequestError + submitter_result_status_Response) \<times> 'c" where
  "Submitter_call_result_status cl req c =
     unary_call submitter_result_status_Request_to_v3 submitter_result_status_Response_of_v3 (v3_submitter_SubmitterClient.get_result_status cl) req c"

definition Submitter_call_create_large_tasks :: "'c v3_submitter_SubmitterClient \<Rightarrow> submitter_create_tasks_LargeRequest Stream \<Rightarrow> 'c \<Rightarrow> (RequestError + submitter_create_tasks_Response) \<times> 'c" where
  "Submitter_call_create_large_tasks cl req c =
     client_stream_call submitter_create_tasks_LargeRequest_to_v3 submitter_create_tasks_Response_of_v3 (v3_submitter_SubmitterClient.create_large_tasks cl) req c"

subsection \<open>Methods\<close>

definition Submitter_get_service_configuration :: "'c v3_submitter_SubmitterClient \<Rightarrow> 'c \<Rightarrow> (RequestError + Configuration) \<times> 'c" where
  "Submitter_get_service_configuration cl c =
     Submitter_call_get_service_configuration cl submitter_get_service_configuration_Request c"

definition Submitter_create_session :: "'c v3_submitter_SubmitterClient \<Rightarrow> string list \<Rightarrow> TaskOptions \<Rightarrow> 'c \<Rightarrow> (RequestError + string) \<times> 'c" where
  "Submitter_create_session cl partitions' default_task_options' c =
     map_ok submitter_create_session_Response.session_id (Submitter_call_create_session cl \<lparr>submitter_create_session_Request.default_task_options = default_task_options', submitter_create_session_Request.partition_ids = into_collect (\<lambda>x. x) partitions'\<rparr> c)"

definition Submitter_cancel_session :: "'c v3_submitter_SubmitterClient \<Rightarrow> string \<Rightarrow> 'c \<Rightarrow> (RequestError + unit) \<times> 'c" where
  "Submitter_cancel_session cl session_id' c =
     map_ok (\<lambda>_. ()) (Submitter_call_cancel_session cl \<lparr>submitter_cancel_session_Request.session_id = session_id'\<rparr> c)"

definition Submitter_list_tasks :: "'c v3_submitter_SubmitterClient \<Rightarrow> submitter_TaskFilter \<Rightarrow> 'c \<Rightarrow> (RequestError + string list) \<times> 'c" where
  "Submitter_list_tasks cl filter' c =
     map_ok submitter_list_tasks_Response.task_ids (Submitter_call_list_tasks cl \<lparr>submitter_list_tasks_Request.filter = filter'\<rparr> c)"

definition Submitter_list_sessions :: "'c v3_submitter_SubmitterClient \<Rightarrow> submitter_SessionFilter \<Rightarrow> 'c \<Rightarrow> (RequestError + string list) \<times> 'c" where
  "Submitter_list_sessions cl filter' c =
     map_ok submitter_list_sessions_Response.session_ids (Submitter_call_list_sessions cl \<lparr>submitter_list_sessions_Request.filter = filter'\<rparr> c)"

definition Submitter_count_tasks :: "'c v3_submitter_SubmitterClient \<Rightarrow> submitter_TaskFilter \<Rightarrow> 'c \<Rightarrow> (RequestError + (TaskStatus, i32) fmap) \<times> 'c" where
  "Submitter_count_tasks cl filter' c =
     map_ok Count.values (Submitter_call_count_tasks cl \<lparr>submitter_count_tasks_Request.filter = filter'\<rparr> c)"

definition Submitter_wait_for_availability :: "'c v3_submitter_SubmitterClient \<Rightarrow> string \<Rightarrow> string \<Rightarrow> 'c \<Rightarrow> (RequestError + submitter_wait_for_availability_Response) \<times> 'c" where
  "Submitter_wait_for_availability cl session_id' result_id' c =
     Submitter_call_wait_for_availability cl \<lparr>submitter_wait_for_availability_Request.session_id = session_id', submitter_wait_for_availability_Request.result_id = result_id'\<rparr> c"

definition Submitter_wait_for_completion :: "'c v3_submitter_SubmitterClient \<Rightarrow> submitter_TaskFilter \<Rightarrow> bool \<Rightarrow> bool \<Rightarrow> 'c \<Rightarrow> (RequestError + (TaskStatus, i32) fmap) \<times> 'c" where
  "Submitter_wait_for_completion cl filter' stop_on_first_task_error' stop_on_first_task_cancellation' c =
     map_ok Count.values (Submitter_call_wait_for_completion cl \<lparr>submitter_wait_for_completion_Request.filter = filter', submitter_wait_for_completion_Request.stop_on_first_task_error = stop_on_first_task_error', submitter_wait_for_completion_Request.stop_on_first_task_cancellation = stop_on_first_task_cancellation'\<rparr> c)"

definition Submitter_cancel_tasks :: "'c v3_submitter_SubmitterClient \<Rightarrow> submitter_TaskFilter \<Rightarrow> 'c \<Rightarrow> (RequestError + unit) \<times> 'c" where
  "Submitter_cancel_tasks cl filter' c =
     map_ok (\<lambda>_. ()) (Submitter_call_cancel_tasks cl \<lparr>submitter_cancel_tasks_Request.filter = filter'\<rparr> c)"

definition Submitter_task_status :: "'c v3_submitter_SubmitterClient \<Rightarrow> string list \<Rightarrow> 'c \<Rightarrow> (RequestError + (string, TaskStatus) fmap) \<times> 'c" where
  "Submitter_task_status cl task_ids' c =
     map_ok submitter_task_status_Response.statuses (Submitter_call_task_status cl \<lparr>submitter_task_status_Request.task_ids = into_collect (\<lambda>x. x) task_ids'\<rparr> c)"

definition Submitter_result_status :: "'c v3_submitter_SubmitterClient \<Rightarrow> string \<Rightarrow> string list \<Rightarrow> 'c \<Rightarrow> (RequestError + (string, ResultStatus) fmap) \<times> 'c" where
  "Submitter_result_status cl session_id' result_ids' c =
     map_ok submitter_result_status_Response.statuses (Submitter_call_result_status cl \<lparr>submitter_result_status_Request.session_id = session_id', submitter_result_status_Request.result_ids = into_collect (\<lambda>x. x) result_ids'\<rparr> c)"

text \<open>The reply to a creation is its list of statuses, or an error that becomes an internal status.\<close>

definition creation_statuses_of ::
  "submitter_create_tasks_Response \<Rightarrow> RequestError + submitter_create_tasks_Status list" where
  "creation_statuses_of reply = (case reply of
       submitter_create_tasks_Response.Status sts \<Rightarrow> Inr sts
     | submitter_create_tasks_Response.Error msg \<Rightarrow> Inl (Grpc (Status_internal msg)))"

definition Submitter_create_small_tasks ::
  "'c v3_submitter_SubmitterClient \<Rightarrow> string \<Rightarrow> TaskOptions option \<Rightarrow> TaskRequest list \<Rightarrow> 'c
   \<Rightarrow> (RequestError + submitter_create_tasks_Status list) \<times> 'c" where
  "Submitter_create_small_tasks cl session_id' task_options' tasks' c =
     and_then (Submitter_call_create_small_tasks cl
       \<lparr>submitter_create_tasks_SmallRequest.session_id = session_id',
        submitter_create_tasks_SmallRequest.task_options = task_options',
        submitter_create_tasks_SmallRequest.task_requests = into_collect (\<lambda>x. x) tasks'\<rparr> c) creation_statuses_of"

definition Submitter_create_large_tasks ::
  "'c v3_submitter_SubmitterClient \<Rightarrow> submitter_create_tasks_LargeRequest Stream \<Rightarrow> 'c
   \<Rightarrow> (RequestError + submitter_create_tasks_Status list) \<times> 'c" where
  "Submitter_create_large_tasks cl reqs c =
     and_then (Submitter_call_create_large_tasks cl reqs c) creation_statuses_of"

definition Submitter_try_get_result ::
  "'c v3_submitter_SubmitterClient \<Rightarrow> string \<Rightarrow> string \<Rightarrow> 'c
   \<Rightarrow> (RequestError + (RequestError + submitter_try_get_result_Response) Stream) \<times> 'c" where
  "Submitter_try_get_result cl session_id' result_id' c =
     server_stream_call submitter_try_get_result_Request_to_v3 submitter_try_get_result_Response_of_v3
       (v3_submitter_SubmitterClient.try_get_result_stream cl)
       \<lparr>submitter_try_get_result_Request.session_id = session_id',
        submitter_try_get_result_Request.result_id = result_id'\<rparr> c"

definition Submitter_try_get_task_output ::
  "'c v3_submitter_SubmitterClient \<Rightarrow> string \<Rightarrow> string \<Rightarrow> 'c \<Rightarrow> (RequestError + unit) \<times> 'c" where
  "Submitter_try_get_task_output cl session_id' task_id' c =
     and_then (Submitter_call_try_get_task_output cl
       \<lparr>submitter_try_get_task_output_Request.session_id = session_id',
        submitter_try_get_task_output_Request.task_id = task_id'\<rparr> c)
       (\<lambda>response. case response of
          Output.Ok \<Rightarrow> Inr ()
        | Output.Error details' \<Rightarrow> Inl (Grpc (Status_internal details')))"

lemmas submitter_client_defs =
  Submitter_call_get_service_configuration_def Submitter_call_create_session_def Submitter_call_cancel_session_def Submitter_call_create_small_tasks_def Submitter_call_list_tasks_def Submitter_call_list_sessions_def Submitter_call_count_tasks_def Submitter_call_try_get_result_def Submitter_call_try_get_task_output_def Submitter_call_wait_for_availability_def Submitter_call_wait_for_completion_def Submitter_call_cancel_tasks_def Submitter_call_task_status_def Submitter_call_result_status_def Submitter_call_create_large_tasks_def Submitter_get_service_configuration_def Submitter_create_session_def Submitter_cancel_session_def Submitter_list_tasks_def Submitter_list_sessions_def Submitter_count_tasks_def Submitter_wait_for_availability_def Submitter_wait_for_completion_def Submitter_cancel_tasks_def Submitter_task_status_def Submitter_result_status_def Submitter_create_small_tasks_def Submitter_create_large_tasks_def Submitter_try_get_result_def Submitter_try_get_task_output_def creation_statuses_of_def

section \<open>Server\<close>

record ('h, 'e, 's) SubmitterService =
  get_service_configuration :: "(submitter_get_service_configuration_Request, 'h, 'e, 's, Configuration) handler"
  create_session :: "(submitter_create_session_Request, 'h, 'e, 's, submitter_create_session_Response) handler"
  cancel_session :: "(submitter_cancel_session_Request, 'h, 'e, 's, submitter_cancel_session_Response) handler"
  list_tasks :: "(submitter_list_tasks_Request, 'h, 'e, 's, submitter_list_tasks_Response) handler"
  list_sessions :: "(submitter_list_sessions_Request, 'h, 'e, 's, submitter_list_sessions_Response) handler"
  count_tasks :: "(submitter_count_tasks_Request, 'h, 'e, 's, Count) handler"
  try_get_task_output :: "(submitter_try_get_task_output_Request, 'h, 'e, 's, Output) handler"
  wait_for_availability :: "(submitter_wait_for_availability_Request, 'h, 'e, 's, submitter_wait_for_availability_Response) handler"
  wait_for_completion :: "(submitter_wait_for_completion_Request, 'h, 'e, 's, Count) handler"
  cancel_tasks :: "(submitter_cancel_tasks_Request, 'h, 'e, 's, submitter_cancel_tasks_Response) handler"
  task_status :: "(submitter_task_status_Request, 'h, 'e, 's, submitter_task_status_Response) handler"
  result_status :: "(submitter_result_status_Request, 'h, 'e, 's, submitter_result_status_Response) handler"
  try_get_result :: "(submitter_try_get_result_Request, 'h, 'e, 's, (tonic_Status + submitter_try_get_result_Response) Stream) handler"
  create_small_tasks :: "(submitter_create_tasks_SmallRequest, 'h, 'e, 's, submitter_create_tasks_Response) handler"
  create_large_tasks :: "((tonic_Status + submitter_create_tasks_LargeRequest) Stream, 'h, 'e, 's, submitter_create_tasks_Response) handler"

definition SubmitterService_get_service_configuration :: "('m \<Rightarrow> 'h) \<Rightarrow> ('h, 'e, 's) SubmitterService
    \<Rightarrow> ('m, 'e, v3_Empty) tonic_Request \<Rightarrow> 's \<Rightarrow> (tonic_Status + v3_Configuration) \<times> 's" where
  "SubmitterService_get_service_configuration ih svc =
     unary_server ih submitter_get_service_configuration_Request_of_v3 Configuration_to_v3 (SubmitterService.get_service_configuration svc)"

definition SubmitterService_create_session :: "('m \<Rightarrow> 'h) \<Rightarrow> ('h, 'e, 's) SubmitterService
    \<Rightarrow> ('m, 'e, v3_submitter_CreateSessionRequest) tonic_Request \<Rightarrow> 's \<Rightarrow> (tonic_Status + v3_submitter_CreateSessionReply) \<times> 's" where
  "SubmitterService_create_session ih svc =
     unary_server ih submitter_create_session_Request_of_v3 submitter_create_session_Response_to_v3 (SubmitterService.create_session svc)"

definition SubmitterService_cancel_session :: "('m \<Rightarrow> 'h) \<Rightarrow> ('h, 'e, 's) SubmitterService
    \<Rightarrow> ('m, 'e, v3_Session) tonic_Request \<Rightarrow> 's \<Rightarrow> (tonic_Status + v3_Empty) \<times> 's" where
  "SubmitterService_cancel_session ih svc =
     unary_server ih submitter_cancel_session_Request_of_v3 submitter_cancel_session_Response_to_v3 (SubmitterService.cancel_session svc)"

definition SubmitterService_create_small_tasks :: "('m \<Rightarrow> 'h) \<Rightarrow> ('h, 'e, 's) SubmitterService
    \<Rightarrow> ('m, 'e, v3_submitter_CreateSmallTaskRequest) tonic_Request \<Rightarrow> 's \<Rightarrow> (tonic_Status + v3_submitter_CreateTaskReply) \<times> 's" where
  "SubmitterService_create_small_tasks ih svc =
     unary_server ih submitter_create_tasks_SmallRequest_of_v3 submitter_create_tasks_Response_to_v3 (SubmitterService.create_small_tasks svc)"

definition SubmitterService_list_tasks :: "('m \<Rightarrow> 'h) \<Rightarrow> ('h, 'e, 's) SubmitterService
    \<Rightarrow> ('m, 'e, v3_submitter_TaskFilter) tonic_Request \<Rightarrow> 's \<Rightarrow> (tonic_Status + v3_TaskIdList) \<times> 's" where
  "SubmitterService_list_tasks ih svc =
     unary_server ih submitter_list_tasks_Request_of_v3 submitter_list_tasks_Response_to_v3 (SubmitterService.list_tasks svc)"

definition SubmitterService_list_sessions :: "('m \<Rightarrow> 'h) \<Rightarrow> ('h, 'e, 's) SubmitterService
    \<Rightarrow> ('m, 'e, v3_submitter_SessionFilter) tonic_Request \<Rightarrow> 's \<Rightarrow> (tonic_Status + v3_submitter_SessionIdList) \<times> 's" where
  "SubmitterService_list_sessions ih svc =
     unary_server ih submitter_list_sessions_Request_of_v3 submitter_list_sessions_Response_to_v3 (SubmitterService.list_sessions svc)"

definition SubmitterService_count_tasks :: "('m \<Rightarrow> 'h) \<Rightarrow> ((TaskStatus, i32) fmap \<Rightarrow> (TaskStatus \<times> i32) list) \<Rightarrow> ('h, 'e, 's) SubmitterService
    \<Rightarrow> ('m, 'e, v3_submitter_TaskFilter) tonic_Request \<Rightarrow> 's \<Rightarrow> (tonic_Status + v3_Count) \<times> 's" where
  "SubmitterService_count_tasks ih it_count svc =
     unary_server ih submitter_count_tasks_Request_of_v3 (Count_to_v3 it_count) (SubmitterService.count_tasks svc)"

definition SubmitterService_try_get_task_output :: "('m \<Rightarrow> 'h) \<Rightarrow> ('h, 'e, 's) SubmitterService
    \<Rightarrow> ('m, 'e, v3_TaskOutputRequest) tonic_Request \<Rightarrow> 's \<Rightarrow> (tonic_Status + v3_Output) \<times> 's" where
  "SubmitterService_try_get_task_output ih svc =
     unary_server ih submitter_try_get_task_output_Request_of_v3 Output_to_v3 (SubmitterService.try_get_task_output svc)"

definition SubmitterService_wait_for_availability :: "('m \<Rightarrow> 'h) \<Rightarrow> ('h, 'e, 's) SubmitterService
    \<Rightarrow> ('m, 'e, v3_ResultRequest) tonic_Request \<Rightarrow> 's \<Rightarrow> (tonic_Status + v3_submitter_AvailabilityReply) \<times> 's" where
  "SubmitterService_wait_for_availability ih svc =
     unary_server ih submitter_wait_for_availability_Request_of_v3 submitter_wait_for_availability_Response_to_v3 (SubmitterService.wait_for_availability svc)"

definition SubmitterService_wait_for_completion :: "('m \<Rightarrow> 'h) \<Rightarrow> ((TaskStatus, i32) fmap \<Rightarrow> (TaskStatus \<times> i32) list) \<Rightarrow> ('h, 'e, 's) SubmitterService
    \<Rightarrow> ('m, 'e, v3_submitter_WaitRequest) tonic_Request \<Rightarrow> 's \<Rightarrow> (tonic_Status + v3_Count) \<times> 's" where
  "SubmitterService_wait_for_completion ih it_count svc =
     unary_server ih submitter_wait_for_completion_Request_of_v3 (Count_to_v3 it_count) (SubmitterService.wait_for_completion svc)"

definition SubmitterService_cancel_tasks :: "('m \<Rightarrow> 'h) \<Rightarrow> ('h, 'e, 's) SubmitterService
    \<Rightarrow> ('m, 'e, v3_submitter_TaskFilter) tonic_Request \<Rightarrow> 's \<Rightarrow> (tonic_Status + v3_Empty) \<times> 's" where
  "SubmitterService_cancel_tasks ih svc =
     unary_server ih submitter_cancel_tasks_Request_of_v3 submitter_cancel_tasks_Response_to_v3 (SubmitterService.cancel_tasks svc)"

definition SubmitterService_get_task_status :: "('m \<Rightarrow> 'h) \<Rightarrow> ((string, TaskStatus) fmap \<Rightarrow> (string \<times> TaskStatus) list) \<Rightarrow> ('h, 'e, 's) SubmitterService
    \<Rightarrow> ('m, 'e, v3_submitter_GetTaskStatusRequest) tonic_Request \<Rightarrow> 's \<Rightarrow> (tonic_Status + v3_submitter_GetTaskStatusReply) \<times> 's" where
  "SubmitterService_get_task_status ih it_ts svc =
     unary_server ih submitter_task_status_Request_of_v3 (submitter_task_status_Response_to_v3 it_ts) (SubmitterService.task_status svc)"

definition SubmitterService_get_result_status :: "('m \<Rightarrow> 'h) \<Rightarrow> ((string, ResultStatus) fmap \<Rightarrow> (string \<times> ResultStatus) list) \<Rightarrow> ('h, 'e, 's) SubmitterService
    \<Rightarrow> ('m, 'e, v3_submitter_GetResultStatusRequest) tonic_Request \<Rightarrow> 's \<Rightarrow> (tonic_Status + v3_submitter_GetResultStatusReply) \<times> 's" where
  "SubmitterService_get_result_status ih it_rs svc =
     unary_server ih submitter_result_status_Request_of_v3 (submitter_result_status_Response_to_v3 it_rs) (SubmitterService.result_status svc)"

definition SubmitterService_create_large_tasks :: "('m \<Rightarrow> 'h) \<Rightarrow> ('h, 'e, 's) SubmitterService
    \<Rightarrow> ('m, 'e, (tonic_Status + v3_submitter_CreateLargeTaskRequest) Stream) tonic_Request \<Rightarrow> 's \<Rightarrow> (tonic_Status + v3_submitter_CreateTaskReply) \<times> 's" where
  "SubmitterService_create_large_tasks ih svc =
     client_stream_server ih submitter_create_tasks_LargeRequest_of_v3 submitter_create_tasks_Response_to_v3 (SubmitterService.create_large_tasks svc)"

definition SubmitterService_try_get_result_stream :: "('m \<Rightarrow> 'h) \<Rightarrow> ('h, 'e, 's) SubmitterService
    \<Rightarrow> ('m, 'e, v3_ResultRequest) tonic_Request \<Rightarrow> 's \<Rightarrow> (tonic_Status + (tonic_Status + v3_submitter_ResultReply) Stream) \<times> 's" where
  "SubmitterService_try_get_result_stream ih svc =
     server_stream_server ih submitter_try_get_result_Request_of_v3 submitter_try_get_result_Response_to_v3 (SubmitterService.try_get_result svc)"

definition SubmitterService_watch_results ::
  "('m, 'e, (tonic_Status + v3_submitter_WatchResultRequest) Stream) tonic_Request \<Rightarrow> 's
   \<Rightarrow> (tonic_Status + (tonic_Status + v3_submitter_WatchResultStream) Stream) \<times> 's" where
  "SubmitterService_watch_results req s = (Inl (Status_unimplemented ''Submitter::WatchResults is not implemented''), s)"

section \<open>A client connected to a server\<close>

definition submitter_loopback :: "('m \<Rightarrow> 'h) \<Rightarrow> ((TaskStatus, i32) fmap \<Rightarrow> (TaskStatus \<times> i32) list)
    \<Rightarrow> ((string, TaskStatus) fmap \<Rightarrow> (string \<times> TaskStatus) list)
    \<Rightarrow> ((string, ResultStatus) fmap \<Rightarrow> (string \<times> ResultStatus) list)
    \<Rightarrow> 'm \<Rightarrow> 'e \<Rightarrow> ('h, 'e, 's) SubmitterService \<Rightarrow> 's v3_submitter_SubmitterClient" where
  "submitter_loopback ih it_count it_ts it_rs m e svc = \<lparr>
     v3_submitter_SubmitterClient.get_service_configuration = (\<lambda>w. SubmitterService_get_service_configuration ih svc (direct_request m e w)),
     v3_submitter_SubmitterClient.create_session = (\<lambda>w. SubmitterService_create_session ih svc (direct_request m e w)),
     v3_submitter_SubmitterClient.cancel_session = (\<lambda>w. SubmitterService_cancel_session ih svc (direct_request m e w)),
     v3_submitter_SubmitterClient.create_small_tasks = (\<lambda>w. SubmitterService_create_small_tasks ih svc (direct_request m e w)),
     v3_submitter_SubmitterClient.create_large_tasks = (\<lambda>ws. SubmitterService_create_large_tasks ih svc (direct_request m e (as_received ws))),
     v3_submitter_SubmitterClient.list_tasks = (\<lambda>w. SubmitterService_list_tasks ih svc (direct_request m e w)),
     v3_submitter_SubmitterClient.list_sessions = (\<lambda>w. SubmitterService_list_sessions ih svc (direct_request m e w)),
     v3_submitter_SubmitterClient.count_tasks = (\<lambda>w. SubmitterService_count_tasks ih it_count svc (direct_request m e w)),
     v3_submitter_SubmitterClient.try_get_result_stream = (\<lambda>w. SubmitterService_try_get_result_stream ih svc (direct_request m e w)),
     v3_submitter_SubmitterClient.try_get_task_output = (\<lambda>w. SubmitterService_try_get_task_output ih svc (direct_request m e w)),
     v3_submitter_SubmitterClient.wait_for_availability = (\<lambda>w. SubmitterService_wait_for_availability ih svc (direct_request m e w)),
     v3_submitter_SubmitterClient.wait_for_completion = (\<lambda>w. SubmitterService_wait_for_completion ih it_count svc (direct_request m e w)),
     v3_submitter_SubmitterClient.cancel_tasks = (\<lambda>w. SubmitterService_cancel_tasks ih svc (direct_request m e w)),
     v3_submitter_SubmitterClient.get_task_status = (\<lambda>w. SubmitterService_get_task_status ih it_ts svc (direct_request m e w)),
     v3_submitter_SubmitterClient.get_result_status = (\<lambda>w. SubmitterService_get_result_status ih it_rs svc (direct_request m e w)),
     v3_submitter_SubmitterClient.watch_results = (\<lambda>ws. SubmitterService_watch_results (direct_request m e (as_received ws)))\<rparr>"

text \<open>The contract of each remote procedure.\<close>

interpretation submitter_get_service_configuration_rpc: total_rpc_link
    submitter_get_service_configuration_Request_to_v3 submitter_get_service_configuration_Request_of_v3
    Configuration_to_v3 Configuration_of_v3
  by unfold_locales

interpretation submitter_create_session_rpc: total_rpc_link
    submitter_create_session_Request_to_v3 submitter_create_session_Request_of_v3
    submitter_create_session_Response_to_v3 submitter_create_session_Response_of_v3
  by unfold_locales

interpretation submitter_cancel_session_rpc: total_rpc_link
    submitter_cancel_session_Request_to_v3 submitter_cancel_session_Request_of_v3
    submitter_cancel_session_Response_to_v3 submitter_cancel_session_Response_of_v3
  by unfold_locales

interpretation submitter_create_small_tasks_rpc: total_rpc_link
    submitter_create_tasks_SmallRequest_to_v3 submitter_create_tasks_SmallRequest_of_v3
    submitter_create_tasks_Response_to_v3 submitter_create_tasks_Response_of_v3
  by unfold_locales

interpretation submitter_try_get_task_output_rpc: total_rpc_link
    submitter_try_get_task_output_Request_to_v3 submitter_try_get_task_output_Request_of_v3
    Output_to_v3 Output_of_v3
  by unfold_locales

interpretation submitter_wait_for_availability_rpc: total_rpc_link
    submitter_wait_for_availability_Request_to_v3 submitter_wait_for_availability_Request_of_v3
    submitter_wait_for_availability_Response_to_v3 submitter_wait_for_availability_Response_of_v3
  by unfold_locales

interpretation submitter_task_status_rpc: rpc_link
    submitter_task_status_Request_to_v3 submitter_task_status_Request_of_v3 "\<lambda>_. True"
    "submitter_task_status_Response_to_v3 it_ts" submitter_task_status_Response_of_v3 "\<lambda>_. iterates it_ts"
  for it_ts
  by unfold_locales (simp_all add: submitter_task_status_Response_roundtrip)

interpretation submitter_result_status_rpc: rpc_link
    submitter_result_status_Request_to_v3 submitter_result_status_Request_of_v3 "\<lambda>_. True"
    "submitter_result_status_Response_to_v3 it_rs" submitter_result_status_Response_of_v3 "\<lambda>_. iterates it_rs"
  for it_rs
  by unfold_locales (simp_all add: submitter_result_status_Response_roundtrip)

interpretation submitter_create_large_tasks_rpc: total_rpc_link
    submitter_create_tasks_LargeRequest_to_v3 submitter_create_tasks_LargeRequest_of_v3
    submitter_create_tasks_Response_to_v3 submitter_create_tasks_Response_of_v3
  by unfold_locales

interpretation submitter_try_get_result_rpc: total_rpc_link
    submitter_try_get_result_Request_to_v3 submitter_try_get_result_Request_of_v3
    submitter_try_get_result_Response_to_v3 submitter_try_get_result_Response_of_v3
  by unfold_locales

lemmas submitter_link_defs = submitter_loopback_def submitter_client_defs
  SubmitterService_get_service_configuration_def SubmitterService_create_session_def SubmitterService_cancel_session_def SubmitterService_create_small_tasks_def SubmitterService_list_tasks_def SubmitterService_list_sessions_def SubmitterService_count_tasks_def SubmitterService_try_get_task_output_def SubmitterService_wait_for_availability_def SubmitterService_wait_for_completion_def SubmitterService_cancel_tasks_def SubmitterService_get_task_status_def SubmitterService_get_result_status_def SubmitterService_create_large_tasks_def SubmitterService_try_get_result_stream_def

lemma Submitter_call_get_service_configuration_transparent:
  "Submitter_call_get_service_configuration (submitter_loopback ih it_count it_ts it_rs m e svc) r s =
     in_process (SubmitterService.get_service_configuration svc r (direct_context ih m e) s)"
  by (simp add: submitter_link_defs)

lemma Submitter_call_create_session_transparent:
  "Submitter_call_create_session (submitter_loopback ih it_count it_ts it_rs m e svc) r s =
     in_process (SubmitterService.create_session svc r (direct_context ih m e) s)"
  by (simp add: submitter_link_defs)

lemma Submitter_call_cancel_session_transparent:
  "Submitter_call_cancel_session (submitter_loopback ih it_count it_ts it_rs m e svc) r s =
     in_process (SubmitterService.cancel_session svc r (direct_context ih m e) s)"
  by (simp add: submitter_link_defs)

lemma Submitter_call_create_small_tasks_transparent:
  "Submitter_call_create_small_tasks (submitter_loopback ih it_count it_ts it_rs m e svc) r s =
     in_process (SubmitterService.create_small_tasks svc r (direct_context ih m e) s)"
  by (simp add: submitter_link_defs)

lemma Submitter_call_try_get_task_output_transparent:
  "Submitter_call_try_get_task_output (submitter_loopback ih it_count it_ts it_rs m e svc) r s =
     in_process (SubmitterService.try_get_task_output svc r (direct_context ih m e) s)"
  by (simp add: submitter_link_defs)

lemma Submitter_call_wait_for_availability_transparent:
  "Submitter_call_wait_for_availability (submitter_loopback ih it_count it_ts it_rs m e svc) r s =
     in_process (SubmitterService.wait_for_availability svc r (direct_context ih m e) s)"
  by (simp add: submitter_link_defs)

lemma Submitter_call_create_large_tasks_transparent:
  "Submitter_call_create_large_tasks (submitter_loopback ih it_count it_ts it_rs m e svc) r s =
     in_process (SubmitterService.create_large_tasks svc (as_received r) (direct_context ih m e) s)"
  by (simp add: submitter_link_defs)

lemma submitter_raw_calls_once:
  "calls (Submitter_call_get_service_configuration (submitter_recording cl) req0 (l, c)) = l @ [(''Submitter'', ''GetServiceConfiguration'')]"
  "calls (Submitter_call_create_session (submitter_recording cl) req1 (l, c)) = l @ [(''Submitter'', ''CreateSession'')]"
  "calls (Submitter_call_cancel_session (submitter_recording cl) req2 (l, c)) = l @ [(''Submitter'', ''CancelSession'')]"
  "calls (Submitter_call_create_small_tasks (submitter_recording cl) req3 (l, c)) = l @ [(''Submitter'', ''CreateSmallTasks'')]"
  "calls (Submitter_call_list_tasks (submitter_recording cl) req4 (l, c)) = l @ [(''Submitter'', ''ListTasks'')]"
  "calls (Submitter_call_list_sessions (submitter_recording cl) req5 (l, c)) = l @ [(''Submitter'', ''ListSessions'')]"
  "calls (Submitter_call_count_tasks (submitter_recording cl) req6 (l, c)) = l @ [(''Submitter'', ''CountTasks'')]"
  "calls (Submitter_call_try_get_result (submitter_recording cl) req7 (l, c)) = l @ [(''Submitter'', ''TryGetResultStream'')]"
  "calls (Submitter_call_try_get_task_output (submitter_recording cl) req8 (l, c)) = l @ [(''Submitter'', ''TryGetTaskOutput'')]"
  "calls (Submitter_call_wait_for_availability (submitter_recording cl) req9 (l, c)) = l @ [(''Submitter'', ''WaitForAvailability'')]"
  "calls (Submitter_call_wait_for_completion (submitter_recording cl) req10 (l, c)) = l @ [(''Submitter'', ''WaitForCompletion'')]"
  "calls (Submitter_call_cancel_tasks (submitter_recording cl) req11 (l, c)) = l @ [(''Submitter'', ''CancelTasks'')]"
  "calls (Submitter_call_task_status (submitter_recording cl) req12 (l, c)) = l @ [(''Submitter'', ''GetTaskStatus'')]"
  "calls (Submitter_call_result_status (submitter_recording cl) req13 (l, c)) = l @ [(''Submitter'', ''GetResultStatus'')]"
  "calls (Submitter_call_create_large_tasks (submitter_recording cl) req14 (l, c)) = l @ [(''Submitter'', ''CreateLargeTasks'')]"
  by (simp_all add: submitter_client_defs submitter_recording_def)

lemma submitter_methods_call_once:
  "calls (Submitter_get_service_configuration (submitter_recording cl) (l, c)) = l @ [(''Submitter'', ''GetServiceConfiguration'')]"
  "calls (Submitter_create_session (submitter_recording cl) partitions1 default_task_options1 (l, c)) = l @ [(''Submitter'', ''CreateSession'')]"
  "calls (Submitter_cancel_session (submitter_recording cl) session_id2 (l, c)) = l @ [(''Submitter'', ''CancelSession'')]"
  "calls (Submitter_list_tasks (submitter_recording cl) filter3 (l, c)) = l @ [(''Submitter'', ''ListTasks'')]"
  "calls (Submitter_list_sessions (submitter_recording cl) filter4 (l, c)) = l @ [(''Submitter'', ''ListSessions'')]"
  "calls (Submitter_count_tasks (submitter_recording cl) filter5 (l, c)) = l @ [(''Submitter'', ''CountTasks'')]"
  "calls (Submitter_wait_for_availability (submitter_recording cl) session_id6 result_id6 (l, c)) = l @ [(''Submitter'', ''WaitForAvailability'')]"
  "calls (Submitter_wait_for_completion (submitter_recording cl) filter7 stop_on_first_task_error7 stop_on_first_task_cancellation7 (l, c)) = l @ [(''Submitter'', ''WaitForCompletion'')]"
  "calls (Submitter_cancel_tasks (submitter_recording cl) filter8 (l, c)) = l @ [(''Submitter'', ''CancelTasks'')]"
  "calls (Submitter_task_status (submitter_recording cl) task_ids9 (l, c)) = l @ [(''Submitter'', ''GetTaskStatus'')]"
  "calls (Submitter_result_status (submitter_recording cl) session_id10 result_ids10 (l, c)) = l @ [(''Submitter'', ''GetResultStatus'')]"
  by (simp_all add: submitter_client_defs submitter_recording_def)

lemma Submitter_call_task_status_transparent:
  assumes "iterates it_ts"
  shows "Submitter_call_task_status (submitter_loopback ih it_count it_ts it_rs m e svc) r s =
    in_process (SubmitterService.task_status svc r (direct_context ih m e) s)"
  using assms by (simp add: submitter_link_defs submitter_task_status_rpc.unary_transparent)

lemma Submitter_call_result_status_transparent:
  assumes "iterates it_rs"
  shows "Submitter_call_result_status (submitter_loopback ih it_count it_ts it_rs m e svc) r s =
    in_process (SubmitterService.result_status svc r (direct_context ih m e) s)"
  using assms by (simp add: submitter_link_defs submitter_result_status_rpc.unary_transparent)

text \<open>The requests that carry a filter reach the service with the filter flipped.\<close>

lemma Submitter_call_list_tasks_flipped:
  "Submitter_call_list_tasks (submitter_loopback ih it_count it_ts it_rs m e svc) r s =
     in_process (SubmitterService.list_tasks svc (r\<lparr>submitter_list_tasks_Request.filter := (submitter_list_tasks_Request.filter r)
       \<lparr>submitter_TaskFilter.statuses := TaskFilterStatuses_flip (submitter_TaskFilter.statuses (submitter_list_tasks_Request.filter r))\<rparr>\<rparr>)
       (direct_context ih m e) s)"
  by (cases r) (simp add: submitter_link_defs unary_loopback submitter_filter_request_defs)

lemma Submitter_call_list_sessions_flipped:
  "Submitter_call_list_sessions (submitter_loopback ih it_count it_ts it_rs m e svc) r s =
     in_process (SubmitterService.list_sessions svc (r\<lparr>submitter_list_sessions_Request.filter := (submitter_list_sessions_Request.filter r)
       \<lparr>submitter_SessionFilter.statuses := SessionFilterStatuses_flip (submitter_SessionFilter.statuses (submitter_list_sessions_Request.filter r))\<rparr>\<rparr>)
       (direct_context ih m e) s)"
  by (cases r) (simp add: submitter_link_defs unary_loopback submitter_filter_request_defs)

lemma Submitter_call_cancel_tasks_flipped:
  "Submitter_call_cancel_tasks (submitter_loopback ih it_count it_ts it_rs m e svc) r s =
     in_process (SubmitterService.cancel_tasks svc (r\<lparr>submitter_cancel_tasks_Request.filter := (submitter_cancel_tasks_Request.filter r)
       \<lparr>submitter_TaskFilter.statuses := TaskFilterStatuses_flip (submitter_TaskFilter.statuses (submitter_cancel_tasks_Request.filter r))\<rparr>\<rparr>)
       (direct_context ih m e) s)"
  by (cases r) (simp add: submitter_link_defs unary_loopback submitter_filter_request_defs)

lemma Submitter_call_count_tasks_flipped:
  assumes "iterates it_count"
  shows "Submitter_call_count_tasks (submitter_loopback ih it_count it_ts it_rs m e svc) r s =
     in_process (SubmitterService.count_tasks svc (r\<lparr>submitter_count_tasks_Request.filter := (submitter_count_tasks_Request.filter r)
       \<lparr>submitter_TaskFilter.statuses := TaskFilterStatuses_flip (submitter_TaskFilter.statuses (submitter_count_tasks_Request.filter r))\<rparr>\<rparr>)
       (direct_context ih m e) s)"
  by (cases r) (simp add: submitter_link_defs unary_loopback submitter_filter_request_defs Count_roundtrip [OF assms])

lemma Submitter_call_wait_for_completion_flipped:
  assumes "iterates it_count"
  shows "Submitter_call_wait_for_completion (submitter_loopback ih it_count it_ts it_rs m e svc) r s =
     in_process (SubmitterService.wait_for_completion svc (r\<lparr>submitter_wait_for_completion_Request.filter := (submitter_wait_for_completion_Request.filter r)
       \<lparr>submitter_TaskFilter.statuses := TaskFilterStatuses_flip (submitter_TaskFilter.statuses (submitter_wait_for_completion_Request.filter r))\<rparr>\<rparr>)
       (direct_context ih m e) s)"
  by (cases r) (simp add: submitter_link_defs unary_loopback submitter_filter_request_defs Count_roundtrip [OF assms])

lemma submitter_other_methods_call_once:
  "calls (Submitter_create_small_tasks (submitter_recording cl) sid1 opts ts (l, c)) = l @ [(''Submitter'', ''CreateSmallTasks'')]"
  "calls (Submitter_create_large_tasks (submitter_recording cl) reqs (l, c)) = l @ [(''Submitter'', ''CreateLargeTasks'')]"
  "calls (Submitter_try_get_result (submitter_recording cl) sid2 rid (l, c)) = l @ [(''Submitter'', ''TryGetResultStream'')]"
  "calls (Submitter_try_get_task_output (submitter_recording cl) sid3 tid (l, c)) = l @ [(''Submitter'', ''TryGetTaskOutput'')]"
  by (simp_all add: submitter_client_defs submitter_recording_def)

end
