(* ===== verification/Submitter_Tests.thy ===== *)
theory Submitter_Tests
  imports Submitter_Service
begin

text \<open>
  The unit tests of \<^verbatim>\<open>client/submitter.rs\<close>: each is the counter it reads and the call it makes, with the arguments of the
  source. Against the mock server a test passes exactly when the answer to its call is the one it expects.
\<close>

definition Submitter_test_get_service_configuration :: "('c v3_submitter_SubmitterClient, 'c) client_test" where
  "Submitter_test_get_service_configuration = \<lparr>
     client_test.counter_service = ''Submitter'', client_test.counter_rpc = ''GetServiceConfiguration'',
     client_test.test_call = (\<lambda>cl c. unwrap (Submitter_get_service_configuration cl c))\<rparr>"

definition Submitter_test_create_session :: "('c v3_submitter_SubmitterClient, 'c) client_test" where
  "Submitter_test_create_session = \<lparr>
     client_test.counter_service = ''Submitter'', client_test.counter_rpc = ''CreateSession'',
     client_test.test_call = (\<lambda>cl c. unwrap (Submitter_create_session cl [''part1'', ''part2''] (TaskOptions_default\<lparr>TaskOptions.partition_id := ''part1''\<rparr>) c))\<rparr>"

definition Submitter_test_cancel_session :: "('c v3_submitter_SubmitterClient, 'c) client_test" where
  "Submitter_test_cancel_session = \<lparr>
     client_test.counter_service = ''Submitter'', client_test.counter_rpc = ''CancelSession'',
     client_test.test_call = (\<lambda>cl c. unwrap (Submitter_cancel_session cl ''session-id'' c))\<rparr>"

definition Submitter_test_create_small_tasks :: "('c v3_submitter_SubmitterClient, 'c) client_test" where
  "Submitter_test_create_small_tasks = \<lparr>
     client_test.counter_service = ''Submitter'', client_test.counter_rpc = ''CreateSmallTasks'',
     client_test.test_call = (\<lambda>cl c. tolerate (Submitter_create_small_tasks cl ''session-id'' None [] c))\<rparr>"

definition Submitter_test_create_large_tasks :: "('c v3_submitter_SubmitterClient, 'c) client_test" where
  "Submitter_test_create_large_tasks = \<lparr>
     client_test.counter_service = ''Submitter'', client_test.counter_rpc = ''CreateLargeTasks'',
     client_test.test_call = (\<lambda>cl c. tolerate (Submitter_create_large_tasks cl (stream_iter [submitter_create_tasks_LargeRequest.Invalid]) c))\<rparr>"

definition Submitter_test_list_tasks :: "('c v3_submitter_SubmitterClient, 'c) client_test" where
  "Submitter_test_list_tasks = \<lparr>
     client_test.counter_service = ''Submitter'', client_test.counter_rpc = ''ListTasks'',
     client_test.test_call = (\<lambda>cl c. unwrap (Submitter_list_tasks cl \<lparr>submitter_TaskFilter.ids = (submitter_TaskFilterIds.Sessions [''session-id'']), submitter_TaskFilter.statuses = (submitter_TaskFilterStatuses.Exclude [])\<rparr> c))\<rparr>"

definition Submitter_test_list_sessions :: "('c v3_submitter_SubmitterClient, 'c) client_test" where
  "Submitter_test_list_sessions = \<lparr>
     client_test.counter_service = ''Submitter'', client_test.counter_rpc = ''ListSessions'',
     client_test.test_call = (\<lambda>cl c. unwrap (Submitter_list_sessions cl \<lparr>submitter_SessionFilter.ids = [''session-id''], submitter_SessionFilter.statuses = (submitter_SessionFilterStatuses.Exclude [])\<rparr> c))\<rparr>"

definition Submitter_test_count_tasks :: "('c v3_submitter_SubmitterClient, 'c) client_test" where
  "Submitter_test_count_tasks = \<lparr>
     client_test.counter_service = ''Submitter'', client_test.counter_rpc = ''CountTasks'',
     client_test.test_call = (\<lambda>cl c. unwrap (Submitter_count_tasks cl \<lparr>submitter_TaskFilter.ids = (submitter_TaskFilterIds.Sessions [''session-id'']), submitter_TaskFilter.statuses = (submitter_TaskFilterStatuses.Exclude [])\<rparr> c))\<rparr>"

definition Submitter_test_try_get_result :: "('c v3_submitter_SubmitterClient, 'c) client_test" where
  "Submitter_test_try_get_result = \<lparr>
     client_test.counter_service = ''Submitter'', client_test.counter_rpc = ''TryGetResultStream'',
     client_test.test_call = (\<lambda>cl c. unwrap_collect (Submitter_try_get_result cl ''session-id'' ''result-id'' c))\<rparr>"

definition Submitter_test_try_get_task_output :: "('c v3_submitter_SubmitterClient, 'c) client_test" where
  "Submitter_test_try_get_task_output = \<lparr>
     client_test.counter_service = ''Submitter'', client_test.counter_rpc = ''TryGetTaskOutput'',
     client_test.test_call = (\<lambda>cl c. unwrap (Submitter_try_get_task_output cl ''session-id'' ''task_id'' c))\<rparr>"

definition Submitter_test_wait_for_availability :: "('c v3_submitter_SubmitterClient, 'c) client_test" where
  "Submitter_test_wait_for_availability = \<lparr>
     client_test.counter_service = ''Submitter'', client_test.counter_rpc = ''WaitForAvailability'',
     client_test.test_call = (\<lambda>cl c. unwrap (Submitter_wait_for_availability cl ''session-id'' ''result-id'' c))\<rparr>"

definition Submitter_test_wait_for_completion :: "('c v3_submitter_SubmitterClient, 'c) client_test" where
  "Submitter_test_wait_for_completion = \<lparr>
     client_test.counter_service = ''Submitter'', client_test.counter_rpc = ''WaitForCompletion'',
     client_test.test_call = (\<lambda>cl c. unwrap (Submitter_wait_for_completion cl \<lparr>submitter_TaskFilter.ids = (submitter_TaskFilterIds.Sessions [''session-id'']), submitter_TaskFilter.statuses = (submitter_TaskFilterStatuses.Exclude [])\<rparr> True True c))\<rparr>"

definition Submitter_test_cancel_tasks :: "('c v3_submitter_SubmitterClient, 'c) client_test" where
  "Submitter_test_cancel_tasks = \<lparr>
     client_test.counter_service = ''Submitter'', client_test.counter_rpc = ''CancelTasks'',
     client_test.test_call = (\<lambda>cl c. unwrap (Submitter_cancel_tasks cl \<lparr>submitter_TaskFilter.ids = (submitter_TaskFilterIds.Sessions [''session-id'']), submitter_TaskFilter.statuses = (submitter_TaskFilterStatuses.Exclude [])\<rparr> c))\<rparr>"

definition Submitter_test_task_status :: "('c v3_submitter_SubmitterClient, 'c) client_test" where
  "Submitter_test_task_status = \<lparr>
     client_test.counter_service = ''Submitter'', client_test.counter_rpc = ''GetTaskStatus'',
     client_test.test_call = (\<lambda>cl c. unwrap (Submitter_task_status cl [''task1'', ''task2''] c))\<rparr>"

definition Submitter_test_result_status :: "('c v3_submitter_SubmitterClient, 'c) client_test" where
  "Submitter_test_result_status = \<lparr>
     client_test.counter_service = ''Submitter'', client_test.counter_rpc = ''GetResultStatus'',
     client_test.test_call = (\<lambda>cl c. unwrap (Submitter_result_status cl ''session-id'' [''result1'', ''result2''] c))\<rparr>"

definition Submitter_test_get_service_configuration_call :: "('c v3_submitter_SubmitterClient, 'c) client_test" where
  "Submitter_test_get_service_configuration_call = \<lparr>
     client_test.counter_service = ''Submitter'', client_test.counter_rpc = ''GetServiceConfiguration'',
     client_test.test_call = (\<lambda>cl c. unwrap (Submitter_call_get_service_configuration cl submitter_get_service_configuration_Request c))\<rparr>"

definition Submitter_test_create_session_call :: "('c v3_submitter_SubmitterClient, 'c) client_test" where
  "Submitter_test_create_session_call = \<lparr>
     client_test.counter_service = ''Submitter'', client_test.counter_rpc = ''CreateSession'',
     client_test.test_call = (\<lambda>cl c. unwrap (Submitter_call_create_session cl \<lparr>submitter_create_session_Request.default_task_options = (TaskOptions_default\<lparr>TaskOptions.partition_id := ''part1''\<rparr>), submitter_create_session_Request.partition_ids = [''part1'', ''part2'']\<rparr> c))\<rparr>"

definition Submitter_test_cancel_session_call :: "('c v3_submitter_SubmitterClient, 'c) client_test" where
  "Submitter_test_cancel_session_call = \<lparr>
     client_test.counter_service = ''Submitter'', client_test.counter_rpc = ''CancelSession'',
     client_test.test_call = (\<lambda>cl c. unwrap (Submitter_call_cancel_session cl \<lparr>submitter_cancel_session_Request.session_id = ''session-id''\<rparr> c))\<rparr>"

definition Submitter_test_create_small_tasks_call :: "('c v3_submitter_SubmitterClient, 'c) client_test" where
  "Submitter_test_create_small_tasks_call = \<lparr>
     client_test.counter_service = ''Submitter'', client_test.counter_rpc = ''CreateSmallTasks'',
     client_test.test_call = (\<lambda>cl c. tolerate (Submitter_call_create_small_tasks cl \<lparr>submitter_create_tasks_SmallRequest.session_id = ''session-id'', submitter_create_tasks_SmallRequest.task_options = None, submitter_create_tasks_SmallRequest.task_requests = []\<rparr> c))\<rparr>"

definition Submitter_test_create_large_tasks_call :: "('c v3_submitter_SubmitterClient, 'c) client_test" where
  "Submitter_test_create_large_tasks_call = \<lparr>
     client_test.counter_service = ''Submitter'', client_test.counter_rpc = ''CreateLargeTasks'',
     client_test.test_call = (\<lambda>cl c. tolerate (Submitter_call_create_large_tasks cl (stream_iter [submitter_create_tasks_LargeRequest.Invalid]) c))\<rparr>"

definition Submitter_test_list_tasks_call :: "('c v3_submitter_SubmitterClient, 'c) client_test" where
  "Submitter_test_list_tasks_call = \<lparr>
     client_test.counter_service = ''Submitter'', client_test.counter_rpc = ''ListTasks'',
     client_test.test_call = (\<lambda>cl c. unwrap (Submitter_call_list_tasks cl \<lparr>submitter_list_tasks_Request.filter = \<lparr>submitter_TaskFilter.ids = (submitter_TaskFilterIds.Sessions [''session-id'']), submitter_TaskFilter.statuses = (submitter_TaskFilterStatuses.Exclude [])\<rparr>\<rparr> c))\<rparr>"

definition Submitter_test_list_sessions_call :: "('c v3_submitter_SubmitterClient, 'c) client_test" where
  "Submitter_test_list_sessions_call = \<lparr>
     client_test.counter_service = ''Submitter'', client_test.counter_rpc = ''ListSessions'',
     client_test.test_call = (\<lambda>cl c. unwrap (Submitter_call_list_sessions cl \<lparr>submitter_list_sessions_Request.filter = \<lparr>submitter_SessionFilter.ids = [''session-id''], submitter_SessionFilter.statuses = (submitter_SessionFilterStatuses.Exclude [])\<rparr>\<rparr> c))\<rparr>"

definition Submitter_test_count_tasks_call :: "('c v3_submitter_SubmitterClient, 'c) client_test" where
  "Submitter_test_count_tasks_call = \<lparr>
     client_test.counter_service = ''Submitter'', client_test.counter_rpc = ''CountTasks'',
     client_test.test_call = (\<lambda>cl c. unwrap (Submitter_call_count_tasks cl \<lparr>submitter_count_tasks_Request.filter = \<lparr>submitter_TaskFilter.ids = (submitter_TaskFilterIds.Sessions [''session-id'']), submitter_TaskFilter.statuses = (submitter_TaskFilterStatuses.Exclude [])\<rparr>\<rparr> c))\<rparr>"

definition Submitter_test_try_get_result_call :: "('c v3_submitter_SubmitterClient, 'c) client_test" where
  "Submitter_test_try_get_result_call = \<lparr>
     client_test.counter_service = ''Submitter'', client_test.counter_rpc = ''TryGetResultStream'',
     client_test.test_call = (\<lambda>cl c. unwrap_collect (Submitter_call_try_get_result cl \<lparr>submitter_try_get_result_Request.session_id = ''session-id'', submitter_try_get_result_Request.result_id = ''result-id''\<rparr> c))\<rparr>"

definition Submitter_test_try_get_task_output_call :: "('c v3_submitter_SubmitterClient, 'c) client_test" where
  "Submitter_test_try_get_task_output_call = \<lparr>
     client_test.counter_service = ''Submitter'', client_test.counter_rpc = ''TryGetTaskOutput'',
     client_test.test_call = (\<lambda>cl c. unwrap (Submitter_call_try_get_task_output cl \<lparr>submitter_try_get_task_output_Request.session_id = ''session-id'', submitter_try_get_task_output_Request.task_id = ''task-id''\<rparr> c))\<rparr>"

definition Submitter_test_wait_for_availability_call :: "('c v3_submitter_SubmitterClient, 'c) client_test" where
  "Submitter_test_wait_for_availability_call = \<lparr>
     client_test.counter_service = ''Submitter'', client_test.counter_rpc = ''WaitForAvailability'',
     client_test.test_call = (\<lambda>cl c. unwrap (Submitter_call_wait_for_availability cl \<lparr>submitter_wait_for_availability_Request.session_id = ''session-id'', submitter_wait_for_availability_Request.result_id = ''result-id''\<rparr> c))\<rparr>"

definition Submitter_test_wait_for_completion_call :: "('c v3_submitter_SubmitterClient, 'c) client_test" where
  "Submitter_test_wait_for_completion_call = \<lparr>
     client_test.counter_service = ''Submitter'', client_test.counter_rpc = ''WaitForCompletion'',
     client_test.test_call = (\<lambda>cl c. unwrap (Submitter_call_wait_for_completion cl \<lparr>submitter_wait_for_completion_Request.filter = \<lparr>submitter_TaskFilter.ids = (submitter_TaskFilterIds.Sessions [''session-id'']), submitter_TaskFilter.statuses = (submitter_TaskFilterStatuses.Exclude [])\<rparr>, submitter_wait_for_completion_Request.stop_on_first_task_error = True, submitter_wait_for_completion_Request.stop_on_first_task_cancellation = True\<rparr> c))\<rparr>"

definition Submitter_test_cancel_tasks_call :: "('c v3_submitter_SubmitterClient, 'c) client_test" where
  "Submitter_test_cancel_tasks_call = \<lparr>
     client_test.counter_service = ''Submitter'', client_test.counter_rpc = ''CancelTasks'',
     client_test.test_call = (\<lambda>cl c. unwrap (Submitter_call_cancel_tasks cl \<lparr>submitter_cancel_tasks_Request.filter = \<lparr>submitter_TaskFilter.ids = (submitter_TaskFilterIds.Sessions [''session-id'']), submitter_TaskFilter.statuses = (submitter_TaskFilterStatuses.Exclude [])\<rparr>\<rparr> c))\<rparr>"

definition Submitter_test_task_status_call :: "('c v3_submitter_SubmitterClient, 'c) client_test" where
  "Submitter_test_task_status_call = \<lparr>
     client_test.counter_service = ''Submitter'', client_test.counter_rpc = ''GetTaskStatus'',
     client_test.test_call = (\<lambda>cl c. unwrap (Submitter_call_task_status cl \<lparr>submitter_task_status_Request.task_ids = []\<rparr> c))\<rparr>"

definition Submitter_test_result_status_call :: "('c v3_submitter_SubmitterClient, 'c) client_test" where
  "Submitter_test_result_status_call = \<lparr>
     client_test.counter_service = ''Submitter'', client_test.counter_rpc = ''GetResultStatus'',
     client_test.test_call = (\<lambda>cl c. unwrap (Submitter_call_result_status cl \<lparr>submitter_result_status_Request.session_id = ''session-id'', submitter_result_status_Request.result_ids = []\<rparr> c))\<rparr>"

definition Submitter_tests :: "('c v3_submitter_SubmitterClient, 'c) client_test list" where
  "Submitter_tests = [
     Submitter_test_get_service_configuration,
     Submitter_test_create_session,
     Submitter_test_cancel_session,
     Submitter_test_create_small_tasks,
     Submitter_test_create_large_tasks,
     Submitter_test_list_tasks,
     Submitter_test_list_sessions,
     Submitter_test_count_tasks,
     Submitter_test_try_get_result,
     Submitter_test_try_get_task_output,
     Submitter_test_wait_for_availability,
     Submitter_test_wait_for_completion,
     Submitter_test_cancel_tasks,
     Submitter_test_task_status,
     Submitter_test_result_status,
     Submitter_test_get_service_configuration_call,
     Submitter_test_create_session_call,
     Submitter_test_cancel_session_call,
     Submitter_test_create_small_tasks_call,
     Submitter_test_create_large_tasks_call,
     Submitter_test_list_tasks_call,
     Submitter_test_list_sessions_call,
     Submitter_test_count_tasks_call,
     Submitter_test_try_get_result_call,
     Submitter_test_try_get_task_output_call,
     Submitter_test_wait_for_availability_call,
     Submitter_test_wait_for_completion_call,
     Submitter_test_cancel_tasks_call,
     Submitter_test_task_status_call,
     Submitter_test_result_status_call]"

section \<open>The answers of the mock server\<close>

text \<open>
  The class of the mock server that implements the service, as the stub of a client connected to it. A field that is not set
  has its default. Its methods keep no state; one that is sent a stream reads it to its end, which the streams of the tests
  have.
\<close>

definition submitter_mock :: "'c v3_submitter_SubmitterClient" where
  "submitter_mock = \<lparr>
     v3_submitter_SubmitterClient.get_service_configuration = (\<lambda>r c. (Inr \<lparr>v3_Configuration.data_chunk_max_size = 80 * 1024\<rparr>, c)),
     v3_submitter_SubmitterClient.create_session = (\<lambda>r c. (Inr \<lparr>v3_submitter_CreateSessionReply.session_id = ''session-id''\<rparr>, c)),
     v3_submitter_SubmitterClient.cancel_session = (\<lambda>r c. (Inr v3_Empty, c)),
     v3_submitter_SubmitterClient.create_small_tasks = (\<lambda>r c. (Inr \<lparr>v3_submitter_CreateTaskReply.response = Some (v3_submitter_create_task_reply_Response.Error [])\<rparr>, c)),
     v3_submitter_SubmitterClient.create_large_tasks = (\<lambda>r c. (Inr \<lparr>v3_submitter_CreateTaskReply.response = Some (v3_submitter_create_task_reply_Response.Error [])\<rparr>, c)),
     v3_submitter_SubmitterClient.list_tasks = (\<lambda>r c. (Inr \<lparr>v3_TaskIdList.task_ids = []\<rparr>, c)),
     v3_submitter_SubmitterClient.list_sessions = (\<lambda>r c. (Inr \<lparr>v3_submitter_SessionIdList.session_ids = []\<rparr>, c)),
     v3_submitter_SubmitterClient.count_tasks = (\<lambda>r c. (Inr \<lparr>v3_Count.values = []\<rparr>, c)),
     v3_submitter_SubmitterClient.try_get_result_stream = (\<lambda>r c. (Inr (SCons (Inr \<lparr>v3_submitter_ResultReply.oneof_type = Some (v3_submitter_result_reply_Type.Result \<lparr>v3_DataChunk.oneof_type = Some (v3_data_chunk_Type.DataComplete True)\<rparr>)\<rparr>) SNil), c)),
     v3_submitter_SubmitterClient.try_get_task_output = (\<lambda>r c. (Inr \<lparr>v3_Output.oneof_type = Some (v3_output_Type.Ok v3_Empty)\<rparr>, c)),
     v3_submitter_SubmitterClient.wait_for_availability = (\<lambda>r c. (Inr \<lparr>v3_submitter_AvailabilityReply.oneof_type = Some (v3_submitter_availability_reply_Type.Ok v3_Empty)\<rparr>, c)),
     v3_submitter_SubmitterClient.wait_for_completion = (\<lambda>r c. (Inr \<lparr>v3_Count.values = []\<rparr>, c)),
     v3_submitter_SubmitterClient.cancel_tasks = (\<lambda>r c. (Inr v3_Empty, c)),
     v3_submitter_SubmitterClient.get_task_status = (\<lambda>r c. (Inr \<lparr>v3_submitter_GetTaskStatusReply.id_statuses = []\<rparr>, c)),
     v3_submitter_SubmitterClient.get_result_status = (\<lambda>r c. (Inr \<lparr>v3_submitter_GetResultStatusReply.id_statuses = []\<rparr>, c)),
     v3_submitter_SubmitterClient.watch_results = (\<lambda>r c. (Inr (map_Stream (\<lambda>_. Inr \<lparr>v3_submitter_WatchResultStream.status = 0, v3_submitter_WatchResultStream.result_ids = []\<rparr>) r), c))\<rparr>"

section \<open>When the tests pass\<close>

lemma Submitter_test_get_service_configuration_iff:
  "length l < 2 ^ 63 - 1 \<Longrightarrow> counted mock_counter (\<lambda>_. Some (submitter_recording cl)) Submitter_test_get_service_configuration (l, c) \<longleftrightarrow>
     fst (test_call Submitter_test_get_service_configuration cl c)"
  by (rule counted_iff [where rec = submitter_recording and svc = "''Submitter''" and rpc = "''GetServiceConfiguration''"])
    (simp_all add: Submitter_test_get_service_configuration_def submitter_client_defs submitter_recording_def logged_simps counts_simps)

lemma Submitter_test_create_session_iff:
  "length l < 2 ^ 63 - 1 \<Longrightarrow> counted mock_counter (\<lambda>_. Some (submitter_recording cl)) Submitter_test_create_session (l, c) \<longleftrightarrow>
     fst (test_call Submitter_test_create_session cl c)"
  by (rule counted_iff [where rec = submitter_recording and svc = "''Submitter''" and rpc = "''CreateSession''"])
    (simp_all add: Submitter_test_create_session_def submitter_client_defs submitter_recording_def logged_simps counts_simps)

lemma Submitter_test_cancel_session_iff:
  "length l < 2 ^ 63 - 1 \<Longrightarrow> counted mock_counter (\<lambda>_. Some (submitter_recording cl)) Submitter_test_cancel_session (l, c) \<longleftrightarrow>
     fst (test_call Submitter_test_cancel_session cl c)"
  by (rule counted_iff [where rec = submitter_recording and svc = "''Submitter''" and rpc = "''CancelSession''"])
    (simp_all add: Submitter_test_cancel_session_def submitter_client_defs submitter_recording_def logged_simps counts_simps)

lemma Submitter_test_create_small_tasks_iff:
  "length l < 2 ^ 63 - 1 \<Longrightarrow> counted mock_counter (\<lambda>_. Some (submitter_recording cl)) Submitter_test_create_small_tasks (l, c) \<longleftrightarrow>
     fst (test_call Submitter_test_create_small_tasks cl c)"
  by (rule counted_iff [where rec = submitter_recording and svc = "''Submitter''" and rpc = "''CreateSmallTasks''"])
    (simp_all add: Submitter_test_create_small_tasks_def submitter_client_defs submitter_recording_def logged_simps counts_simps)

lemma Submitter_test_create_large_tasks_iff:
  "length l < 2 ^ 63 - 1 \<Longrightarrow> counted mock_counter (\<lambda>_. Some (submitter_recording cl)) Submitter_test_create_large_tasks (l, c) \<longleftrightarrow>
     fst (test_call Submitter_test_create_large_tasks cl c)"
  by (rule counted_iff [where rec = submitter_recording and svc = "''Submitter''" and rpc = "''CreateLargeTasks''"])
    (simp_all add: Submitter_test_create_large_tasks_def submitter_client_defs submitter_recording_def logged_simps counts_simps)

lemma Submitter_test_list_tasks_iff:
  "length l < 2 ^ 63 - 1 \<Longrightarrow> counted mock_counter (\<lambda>_. Some (submitter_recording cl)) Submitter_test_list_tasks (l, c) \<longleftrightarrow>
     fst (test_call Submitter_test_list_tasks cl c)"
  by (rule counted_iff [where rec = submitter_recording and svc = "''Submitter''" and rpc = "''ListTasks''"])
    (simp_all add: Submitter_test_list_tasks_def submitter_client_defs submitter_recording_def logged_simps counts_simps)

lemma Submitter_test_list_sessions_iff:
  "length l < 2 ^ 63 - 1 \<Longrightarrow> counted mock_counter (\<lambda>_. Some (submitter_recording cl)) Submitter_test_list_sessions (l, c) \<longleftrightarrow>
     fst (test_call Submitter_test_list_sessions cl c)"
  by (rule counted_iff [where rec = submitter_recording and svc = "''Submitter''" and rpc = "''ListSessions''"])
    (simp_all add: Submitter_test_list_sessions_def submitter_client_defs submitter_recording_def logged_simps counts_simps)

lemma Submitter_test_count_tasks_iff:
  "length l < 2 ^ 63 - 1 \<Longrightarrow> counted mock_counter (\<lambda>_. Some (submitter_recording cl)) Submitter_test_count_tasks (l, c) \<longleftrightarrow>
     fst (test_call Submitter_test_count_tasks cl c)"
  by (rule counted_iff [where rec = submitter_recording and svc = "''Submitter''" and rpc = "''CountTasks''"])
    (simp_all add: Submitter_test_count_tasks_def submitter_client_defs submitter_recording_def logged_simps counts_simps)

lemma Submitter_test_try_get_result_iff:
  "length l < 2 ^ 63 - 1 \<Longrightarrow> counted mock_counter (\<lambda>_. Some (submitter_recording cl)) Submitter_test_try_get_result (l, c) \<longleftrightarrow>
     fst (test_call Submitter_test_try_get_result cl c)"
  by (rule counted_iff [where rec = submitter_recording and svc = "''Submitter''" and rpc = "''TryGetResultStream''"])
    (simp_all add: Submitter_test_try_get_result_def submitter_client_defs submitter_recording_def logged_simps counts_simps)

lemma Submitter_test_try_get_task_output_iff:
  "length l < 2 ^ 63 - 1 \<Longrightarrow> counted mock_counter (\<lambda>_. Some (submitter_recording cl)) Submitter_test_try_get_task_output (l, c) \<longleftrightarrow>
     fst (test_call Submitter_test_try_get_task_output cl c)"
  by (rule counted_iff [where rec = submitter_recording and svc = "''Submitter''" and rpc = "''TryGetTaskOutput''"])
    (simp_all add: Submitter_test_try_get_task_output_def submitter_client_defs submitter_recording_def logged_simps counts_simps)

lemma Submitter_test_wait_for_availability_iff:
  "length l < 2 ^ 63 - 1 \<Longrightarrow> counted mock_counter (\<lambda>_. Some (submitter_recording cl)) Submitter_test_wait_for_availability (l, c) \<longleftrightarrow>
     fst (test_call Submitter_test_wait_for_availability cl c)"
  by (rule counted_iff [where rec = submitter_recording and svc = "''Submitter''" and rpc = "''WaitForAvailability''"])
    (simp_all add: Submitter_test_wait_for_availability_def submitter_client_defs submitter_recording_def logged_simps counts_simps)

lemma Submitter_test_wait_for_completion_iff:
  "length l < 2 ^ 63 - 1 \<Longrightarrow> counted mock_counter (\<lambda>_. Some (submitter_recording cl)) Submitter_test_wait_for_completion (l, c) \<longleftrightarrow>
     fst (test_call Submitter_test_wait_for_completion cl c)"
  by (rule counted_iff [where rec = submitter_recording and svc = "''Submitter''" and rpc = "''WaitForCompletion''"])
    (simp_all add: Submitter_test_wait_for_completion_def submitter_client_defs submitter_recording_def logged_simps counts_simps)

lemma Submitter_test_cancel_tasks_iff:
  "length l < 2 ^ 63 - 1 \<Longrightarrow> counted mock_counter (\<lambda>_. Some (submitter_recording cl)) Submitter_test_cancel_tasks (l, c) \<longleftrightarrow>
     fst (test_call Submitter_test_cancel_tasks cl c)"
  by (rule counted_iff [where rec = submitter_recording and svc = "''Submitter''" and rpc = "''CancelTasks''"])
    (simp_all add: Submitter_test_cancel_tasks_def submitter_client_defs submitter_recording_def logged_simps counts_simps)

lemma Submitter_test_task_status_iff:
  "length l < 2 ^ 63 - 1 \<Longrightarrow> counted mock_counter (\<lambda>_. Some (submitter_recording cl)) Submitter_test_task_status (l, c) \<longleftrightarrow>
     fst (test_call Submitter_test_task_status cl c)"
  by (rule counted_iff [where rec = submitter_recording and svc = "''Submitter''" and rpc = "''GetTaskStatus''"])
    (simp_all add: Submitter_test_task_status_def submitter_client_defs submitter_recording_def logged_simps counts_simps)

lemma Submitter_test_result_status_iff:
  "length l < 2 ^ 63 - 1 \<Longrightarrow> counted mock_counter (\<lambda>_. Some (submitter_recording cl)) Submitter_test_result_status (l, c) \<longleftrightarrow>
     fst (test_call Submitter_test_result_status cl c)"
  by (rule counted_iff [where rec = submitter_recording and svc = "''Submitter''" and rpc = "''GetResultStatus''"])
    (simp_all add: Submitter_test_result_status_def submitter_client_defs submitter_recording_def logged_simps counts_simps)

lemma Submitter_test_get_service_configuration_call_iff:
  "length l < 2 ^ 63 - 1 \<Longrightarrow> counted mock_counter (\<lambda>_. Some (submitter_recording cl)) Submitter_test_get_service_configuration_call (l, c) \<longleftrightarrow>
     fst (test_call Submitter_test_get_service_configuration_call cl c)"
  by (rule counted_iff [where rec = submitter_recording and svc = "''Submitter''" and rpc = "''GetServiceConfiguration''"])
    (simp_all add: Submitter_test_get_service_configuration_call_def submitter_client_defs submitter_recording_def logged_simps counts_simps)

lemma Submitter_test_create_session_call_iff:
  "length l < 2 ^ 63 - 1 \<Longrightarrow> counted mock_counter (\<lambda>_. Some (submitter_recording cl)) Submitter_test_create_session_call (l, c) \<longleftrightarrow>
     fst (test_call Submitter_test_create_session_call cl c)"
  by (rule counted_iff [where rec = submitter_recording and svc = "''Submitter''" and rpc = "''CreateSession''"])
    (simp_all add: Submitter_test_create_session_call_def submitter_client_defs submitter_recording_def logged_simps counts_simps)

lemma Submitter_test_cancel_session_call_iff:
  "length l < 2 ^ 63 - 1 \<Longrightarrow> counted mock_counter (\<lambda>_. Some (submitter_recording cl)) Submitter_test_cancel_session_call (l, c) \<longleftrightarrow>
     fst (test_call Submitter_test_cancel_session_call cl c)"
  by (rule counted_iff [where rec = submitter_recording and svc = "''Submitter''" and rpc = "''CancelSession''"])
    (simp_all add: Submitter_test_cancel_session_call_def submitter_client_defs submitter_recording_def logged_simps counts_simps)

lemma Submitter_test_create_small_tasks_call_iff:
  "length l < 2 ^ 63 - 1 \<Longrightarrow> counted mock_counter (\<lambda>_. Some (submitter_recording cl)) Submitter_test_create_small_tasks_call (l, c) \<longleftrightarrow>
     fst (test_call Submitter_test_create_small_tasks_call cl c)"
  by (rule counted_iff [where rec = submitter_recording and svc = "''Submitter''" and rpc = "''CreateSmallTasks''"])
    (simp_all add: Submitter_test_create_small_tasks_call_def submitter_client_defs submitter_recording_def logged_simps counts_simps)

lemma Submitter_test_create_large_tasks_call_iff:
  "length l < 2 ^ 63 - 1 \<Longrightarrow> counted mock_counter (\<lambda>_. Some (submitter_recording cl)) Submitter_test_create_large_tasks_call (l, c) \<longleftrightarrow>
     fst (test_call Submitter_test_create_large_tasks_call cl c)"
  by (rule counted_iff [where rec = submitter_recording and svc = "''Submitter''" and rpc = "''CreateLargeTasks''"])
    (simp_all add: Submitter_test_create_large_tasks_call_def submitter_client_defs submitter_recording_def logged_simps counts_simps)

lemma Submitter_test_list_tasks_call_iff:
  "length l < 2 ^ 63 - 1 \<Longrightarrow> counted mock_counter (\<lambda>_. Some (submitter_recording cl)) Submitter_test_list_tasks_call (l, c) \<longleftrightarrow>
     fst (test_call Submitter_test_list_tasks_call cl c)"
  by (rule counted_iff [where rec = submitter_recording and svc = "''Submitter''" and rpc = "''ListTasks''"])
    (simp_all add: Submitter_test_list_tasks_call_def submitter_client_defs submitter_recording_def logged_simps counts_simps)

lemma Submitter_test_list_sessions_call_iff:
  "length l < 2 ^ 63 - 1 \<Longrightarrow> counted mock_counter (\<lambda>_. Some (submitter_recording cl)) Submitter_test_list_sessions_call (l, c) \<longleftrightarrow>
     fst (test_call Submitter_test_list_sessions_call cl c)"
  by (rule counted_iff [where rec = submitter_recording and svc = "''Submitter''" and rpc = "''ListSessions''"])
    (simp_all add: Submitter_test_list_sessions_call_def submitter_client_defs submitter_recording_def logged_simps counts_simps)

lemma Submitter_test_count_tasks_call_iff:
  "length l < 2 ^ 63 - 1 \<Longrightarrow> counted mock_counter (\<lambda>_. Some (submitter_recording cl)) Submitter_test_count_tasks_call (l, c) \<longleftrightarrow>
     fst (test_call Submitter_test_count_tasks_call cl c)"
  by (rule counted_iff [where rec = submitter_recording and svc = "''Submitter''" and rpc = "''CountTasks''"])
    (simp_all add: Submitter_test_count_tasks_call_def submitter_client_defs submitter_recording_def logged_simps counts_simps)

lemma Submitter_test_try_get_result_call_iff:
  "length l < 2 ^ 63 - 1 \<Longrightarrow> counted mock_counter (\<lambda>_. Some (submitter_recording cl)) Submitter_test_try_get_result_call (l, c) \<longleftrightarrow>
     fst (test_call Submitter_test_try_get_result_call cl c)"
  by (rule counted_iff [where rec = submitter_recording and svc = "''Submitter''" and rpc = "''TryGetResultStream''"])
    (simp_all add: Submitter_test_try_get_result_call_def submitter_client_defs submitter_recording_def logged_simps counts_simps)

lemma Submitter_test_try_get_task_output_call_iff:
  "length l < 2 ^ 63 - 1 \<Longrightarrow> counted mock_counter (\<lambda>_. Some (submitter_recording cl)) Submitter_test_try_get_task_output_call (l, c) \<longleftrightarrow>
     fst (test_call Submitter_test_try_get_task_output_call cl c)"
  by (rule counted_iff [where rec = submitter_recording and svc = "''Submitter''" and rpc = "''TryGetTaskOutput''"])
    (simp_all add: Submitter_test_try_get_task_output_call_def submitter_client_defs submitter_recording_def logged_simps counts_simps)

lemma Submitter_test_wait_for_availability_call_iff:
  "length l < 2 ^ 63 - 1 \<Longrightarrow> counted mock_counter (\<lambda>_. Some (submitter_recording cl)) Submitter_test_wait_for_availability_call (l, c) \<longleftrightarrow>
     fst (test_call Submitter_test_wait_for_availability_call cl c)"
  by (rule counted_iff [where rec = submitter_recording and svc = "''Submitter''" and rpc = "''WaitForAvailability''"])
    (simp_all add: Submitter_test_wait_for_availability_call_def submitter_client_defs submitter_recording_def logged_simps counts_simps)

lemma Submitter_test_wait_for_completion_call_iff:
  "length l < 2 ^ 63 - 1 \<Longrightarrow> counted mock_counter (\<lambda>_. Some (submitter_recording cl)) Submitter_test_wait_for_completion_call (l, c) \<longleftrightarrow>
     fst (test_call Submitter_test_wait_for_completion_call cl c)"
  by (rule counted_iff [where rec = submitter_recording and svc = "''Submitter''" and rpc = "''WaitForCompletion''"])
    (simp_all add: Submitter_test_wait_for_completion_call_def submitter_client_defs submitter_recording_def logged_simps counts_simps)

lemma Submitter_test_cancel_tasks_call_iff:
  "length l < 2 ^ 63 - 1 \<Longrightarrow> counted mock_counter (\<lambda>_. Some (submitter_recording cl)) Submitter_test_cancel_tasks_call (l, c) \<longleftrightarrow>
     fst (test_call Submitter_test_cancel_tasks_call cl c)"
  by (rule counted_iff [where rec = submitter_recording and svc = "''Submitter''" and rpc = "''CancelTasks''"])
    (simp_all add: Submitter_test_cancel_tasks_call_def submitter_client_defs submitter_recording_def logged_simps counts_simps)

lemma Submitter_test_task_status_call_iff:
  "length l < 2 ^ 63 - 1 \<Longrightarrow> counted mock_counter (\<lambda>_. Some (submitter_recording cl)) Submitter_test_task_status_call (l, c) \<longleftrightarrow>
     fst (test_call Submitter_test_task_status_call cl c)"
  by (rule counted_iff [where rec = submitter_recording and svc = "''Submitter''" and rpc = "''GetTaskStatus''"])
    (simp_all add: Submitter_test_task_status_call_def submitter_client_defs submitter_recording_def logged_simps counts_simps)

lemma Submitter_test_result_status_call_iff:
  "length l < 2 ^ 63 - 1 \<Longrightarrow> counted mock_counter (\<lambda>_. Some (submitter_recording cl)) Submitter_test_result_status_call (l, c) \<longleftrightarrow>
     fst (test_call Submitter_test_result_status_call cl c)"
  by (rule counted_iff [where rec = submitter_recording and svc = "''Submitter''" and rpc = "''GetResultStatus''"])
    (simp_all add: Submitter_test_result_status_call_def submitter_client_defs submitter_recording_def logged_simps counts_simps)

lemma Submitter_tests_iff:
  "length l < 2 ^ 63 - 1 \<Longrightarrow>
     map (\<lambda>t. counted mock_counter (\<lambda>_. Some (submitter_recording cl)) t (l, c)) Submitter_tests =
     map (\<lambda>t. fst (test_call t cl c)) Submitter_tests"
  by (simp add: Submitter_tests_def
      Submitter_test_get_service_configuration_iff
      Submitter_test_create_session_iff
      Submitter_test_cancel_session_iff
      Submitter_test_create_small_tasks_iff
      Submitter_test_create_large_tasks_iff
      Submitter_test_list_tasks_iff
      Submitter_test_list_sessions_iff
      Submitter_test_count_tasks_iff
      Submitter_test_try_get_result_iff
      Submitter_test_try_get_task_output_iff
      Submitter_test_wait_for_availability_iff
      Submitter_test_wait_for_completion_iff
      Submitter_test_cancel_tasks_iff
      Submitter_test_task_status_iff
      Submitter_test_result_status_iff
      Submitter_test_get_service_configuration_call_iff
      Submitter_test_create_session_call_iff
      Submitter_test_cancel_session_call_iff
      Submitter_test_create_small_tasks_call_iff
      Submitter_test_create_large_tasks_call_iff
      Submitter_test_list_tasks_call_iff
      Submitter_test_list_sessions_call_iff
      Submitter_test_count_tasks_call_iff
      Submitter_test_try_get_result_call_iff
      Submitter_test_try_get_task_output_call_iff
      Submitter_test_wait_for_availability_call_iff
      Submitter_test_wait_for_completion_call_iff
      Submitter_test_cancel_tasks_call_iff
      Submitter_test_task_status_call_iff
      Submitter_test_result_status_call_iff)

text \<open>The mock server answers all of them as they expect.\<close>

lemma submitter_mock_answers: "list_all (\<lambda>t. fst (test_call t submitter_mock c)) Submitter_tests"
  by (simp add: Submitter_tests_def submitter_mock_def creation_statuses_of_def submitter_create_tasks_Response_of_v3_def Status_internal_def Output_of_v3_def mock_simps submitter_client_defs
      Submitter_test_get_service_configuration_def
      Submitter_test_create_session_def
      Submitter_test_cancel_session_def
      Submitter_test_create_small_tasks_def
      Submitter_test_create_large_tasks_def
      Submitter_test_list_tasks_def
      Submitter_test_list_sessions_def
      Submitter_test_count_tasks_def
      Submitter_test_try_get_result_def
      Submitter_test_try_get_task_output_def
      Submitter_test_wait_for_availability_def
      Submitter_test_wait_for_completion_def
      Submitter_test_cancel_tasks_def
      Submitter_test_task_status_def
      Submitter_test_result_status_def
      Submitter_test_get_service_configuration_call_def
      Submitter_test_create_session_call_def
      Submitter_test_cancel_session_call_def
      Submitter_test_create_small_tasks_call_def
      Submitter_test_create_large_tasks_call_def
      Submitter_test_list_tasks_call_def
      Submitter_test_list_sessions_call_def
      Submitter_test_count_tasks_call_def
      Submitter_test_try_get_result_call_def
      Submitter_test_try_get_task_output_call_def
      Submitter_test_wait_for_availability_call_def
      Submitter_test_wait_for_completion_call_def
      Submitter_test_cancel_tasks_call_def
      Submitter_test_task_status_call_def
      Submitter_test_result_status_call_def)

lemma Submitter_tests_pass:
  "length l < 2 ^ 63 - 1 \<Longrightarrow>
     list_all (\<lambda>t. counted mock_counter (\<lambda>_. Some (submitter_recording submitter_mock)) t (l, c)) Submitter_tests"
  by (rule list_all_decided [OF _ submitter_mock_answers]) (rule Submitter_tests_iff)

section \<open>The integration tests\<close>

text \<open>
  \<^verbatim>\<open>tests/submitter.rs\<close>: the service that the tests start, whose state is the name of the last procedure called, and the
  tests, each with the value that the service asserts of the request. Where an assertion of the service fails, or the stream
  of the client never ends, the handler is the one of \<open>svc\<close>. The assertions look at identifiers only, never at the statuses of
  a filter.
\<close>

partial_function (option) submitter_drain :: "(tonic_Status + submitter_create_tasks_LargeRequest) Stream \<Rightarrow> unit option" where
  "submitter_drain rs = (case rs of SCons (Inr _) rs' \<Rightarrow> submitter_drain rs' | _ \<Rightarrow> Some ())"

lemma submitter_drain_simps [simp]:
  "submitter_drain SNil = Some ()"
  "submitter_drain (SCons (Inl err) rs) = Some ()"
  "submitter_drain (SCons (Inr r) rs) = submitter_drain rs"
  by (subst submitter_drain.simps, simp)+

text \<open>A stream that ends is read to its end or to its first error.\<close>

lemma submitter_drain_returns: "submitter_drain (stream_iter rs) = Some ()"
proof (induction rs)
  case (Cons x rs)
  then show ?case by (cases x) simp_all
qed simp

definition asserted :: "'a option \<Rightarrow> ('a \<Rightarrow> bool) \<Rightarrow> bool" where
  "asserted expected P \<longleftrightarrow> (case expected of None \<Rightarrow> True | Some x \<Rightarrow> P x)"

definition expects_called :: "string \<Rightarrow> ('a \<Rightarrow> bool) \<Rightarrow> ('e + 'a) \<times> string option \<Rightarrow> bool" where
  "expects_called name P rs \<longleftrightarrow> snd rs = Some name \<and> expects P rs"

definition submitter_test_service ::
  "string option \<Rightarrow> ('h, 'e, string option) SubmitterService \<Rightarrow> ('h, 'e, string option) SubmitterService" where
  "submitter_test_service expected svc = \<lparr>
     SubmitterService.get_service_configuration = (\<lambda>r ctx s. (Inr \<lparr>Configuration.data_chunk_max_size = 1337\<rparr>, Some ''get-service-configuration'')),
     SubmitterService.create_session = (\<lambda>r ctx s. if asserted expected (\<lambda>x. indexed 0 (\<lambda>y. y = x) (submitter_create_session_Request.partition_ids r)) then (Inr \<lparr>submitter_create_session_Response.session_id = ''create-session-output''\<rparr>, Some ''create-session'')
       else SubmitterService.create_session svc r ctx (Some ''create-session'')),
     SubmitterService.cancel_session = (\<lambda>r ctx s. if asserted expected (\<lambda>x. submitter_cancel_session_Request.session_id r = x) then (Inr submitter_cancel_session_Response, Some ''cancel-session'')
       else SubmitterService.cancel_session svc r ctx (Some ''cancel-session'')),
     SubmitterService.list_tasks = (\<lambda>r ctx s. if asserted expected (\<lambda>x. (case submitter_TaskFilter.ids (submitter_list_tasks_Request.filter r) of
           submitter_TaskFilterIds.Sessions v \<Rightarrow> indexed 0 (\<lambda>y. y = x) v | submitter_TaskFilterIds.Tasks _ \<Rightarrow> False)) then (Inr \<lparr>submitter_list_tasks_Response.task_ids = [''list-tasks-output'']\<rparr>, Some ''list-tasks'')
       else SubmitterService.list_tasks svc r ctx (Some ''list-tasks'')),
     SubmitterService.list_sessions = (\<lambda>r ctx s. if asserted expected (\<lambda>x. indexed 0 (\<lambda>y. y = x) (submitter_SessionFilter.ids (submitter_list_sessions_Request.filter r))) then (Inr \<lparr>submitter_list_sessions_Response.session_ids = [''list-sessions-output'']\<rparr>, Some ''list-sessions'')
       else SubmitterService.list_sessions svc r ctx (Some ''list-sessions'')),
     SubmitterService.count_tasks = (\<lambda>r ctx s. if asserted expected (\<lambda>x. (case submitter_TaskFilter.ids (submitter_count_tasks_Request.filter r) of
           submitter_TaskFilterIds.Sessions v \<Rightarrow> indexed 0 (\<lambda>y. y = x) v | submitter_TaskFilterIds.Tasks _ \<Rightarrow> False)) then (Inr \<lparr>Count.values = hashmap_collect [(TaskStatus.Creating, 1337)]\<rparr>, Some ''count-tasks'')
       else SubmitterService.count_tasks svc r ctx (Some ''count-tasks'')),
     SubmitterService.try_get_task_output = (\<lambda>r ctx s. if asserted expected (\<lambda>x. submitter_try_get_task_output_Request.session_id r = x) then (Inr Output.Ok, Some ''try-get-task-output'')
       else SubmitterService.try_get_task_output svc r ctx (Some ''try-get-task-output'')),
     SubmitterService.wait_for_availability = (\<lambda>r ctx s. if asserted expected (\<lambda>x. submitter_wait_for_availability_Request.session_id r = x) then (Inr (submitter_wait_for_availability_Response.NotCompleted ''wait-for-availability-output''), Some ''wait-for-availability'')
       else SubmitterService.wait_for_availability svc r ctx (Some ''wait-for-availability'')),
     SubmitterService.wait_for_completion = (\<lambda>r ctx s. if asserted expected (\<lambda>x. (case submitter_TaskFilter.ids (submitter_wait_for_completion_Request.filter r) of
           submitter_TaskFilterIds.Sessions v \<Rightarrow> indexed 0 (\<lambda>y. y = x) v | submitter_TaskFilterIds.Tasks _ \<Rightarrow> False)) then (Inr \<lparr>Count.values = hashmap_collect [(TaskStatus.Creating, 1337)]\<rparr>, Some ''wait-for-completion'')
       else SubmitterService.wait_for_completion svc r ctx (Some ''wait-for-completion'')),
     SubmitterService.cancel_tasks = (\<lambda>r ctx s. if asserted expected (\<lambda>x. (case submitter_TaskFilter.ids (submitter_cancel_tasks_Request.filter r) of
           submitter_TaskFilterIds.Sessions v \<Rightarrow> indexed 0 (\<lambda>y. y = x) v | submitter_TaskFilterIds.Tasks _ \<Rightarrow> False)) then (Inr submitter_cancel_tasks_Response, Some ''cancel-tasks'')
       else SubmitterService.cancel_tasks svc r ctx (Some ''cancel-tasks'')),
     SubmitterService.task_status = (\<lambda>r ctx s. if asserted expected (\<lambda>x. indexed 0 (\<lambda>y. y = x) (submitter_task_status_Request.task_ids r)) then (Inr \<lparr>submitter_task_status_Response.statuses = hashmap_collect [(''task-status-output'', TaskStatus.Creating)]\<rparr>, Some ''task-status'')
       else SubmitterService.task_status svc r ctx (Some ''task-status'')),
     SubmitterService.result_status = (\<lambda>r ctx s. if asserted expected (\<lambda>x. submitter_result_status_Request.session_id r = x) then (Inr \<lparr>submitter_result_status_Response.statuses = hashmap_collect [(''result-status-output'', ResultStatus.Created)]\<rparr>, Some ''result-status'')
       else SubmitterService.result_status svc r ctx (Some ''result-status'')),
     SubmitterService.try_get_result = (\<lambda>r ctx s. if asserted expected (\<lambda>x. submitter_try_get_result_Request.session_id r = x) then (Inr (stream_iter [Inr submitter_try_get_result_Response_default]), Some ''try-get-result'')
       else SubmitterService.try_get_result svc r ctx (Some ''try-get-result'')),
     SubmitterService.create_small_tasks = (\<lambda>r ctx s. if asserted expected (\<lambda>x. submitter_create_tasks_SmallRequest.session_id r = x) then (Inr (submitter_create_tasks_Response.Status [submitter_create_tasks_Status.TaskInfo ''create-small-tasks-output'' [] [] []]), Some ''create-small-tasks'')
       else SubmitterService.create_small_tasks svc r ctx (Some ''create-small-tasks'')),
     SubmitterService.create_large_tasks = (\<lambda>rs ctx s.
       case (case expected of
               None \<Rightarrow> Some rs
             | Some x \<Rightarrow> (case rs of
                   SCons (Inr (submitter_create_tasks_LargeRequest.InitRequest i)) rs' \<Rightarrow>
                     if submitter_create_tasks_InitRequest.session_id i = x then Some rs' else None
                 | _ \<Rightarrow> None)) of
         None \<Rightarrow> SubmitterService.create_large_tasks svc rs ctx (Some ''create-large-tasks'')
       | Some rs' \<Rightarrow> (case submitter_drain rs' of
             None \<Rightarrow> SubmitterService.create_large_tasks svc rs ctx (Some ''create-large-tasks'')
           | Some _ \<Rightarrow> (Inr (submitter_create_tasks_Response.Status [submitter_create_tasks_Status.TaskInfo ''create-large-tasks-output'' [] [] []]), Some ''create-large-tasks'')))\<rparr>"

definition Submitter_integration_get_service_configuration :: "string option v3_submitter_SubmitterClient \<Rightarrow> string option \<Rightarrow> bool" where
  "Submitter_integration_get_service_configuration cl s \<longleftrightarrow> expects_called ''get-service-configuration'' (\<lambda>p. Configuration.data_chunk_max_size p = 1337)
     (Submitter_get_service_configuration cl s)"

definition Submitter_integration_create_session :: "string option v3_submitter_SubmitterClient \<Rightarrow> string option \<Rightarrow> bool" where
  "Submitter_integration_create_session cl s \<longleftrightarrow> expects_called ''create-session'' (\<lambda>p. p = ''create-session-output'')
     (Submitter_create_session cl [''create-session-input''] TaskOptions_default s)"

definition Submitter_integration_cancel_session :: "string option v3_submitter_SubmitterClient \<Rightarrow> string option \<Rightarrow> bool" where
  "Submitter_integration_cancel_session cl s \<longleftrightarrow> expects_called ''cancel-session'' (\<lambda>p. True)
     (Submitter_cancel_session cl ''cancel-session-input'' s)"

definition Submitter_integration_list_tasks :: "string option v3_submitter_SubmitterClient \<Rightarrow> string option \<Rightarrow> bool" where
  "Submitter_integration_list_tasks cl s \<longleftrightarrow> expects_called ''list-tasks'' (\<lambda>p. indexed 0 (\<lambda>x. x = ''list-tasks-output'') p)
     (Submitter_list_tasks cl \<lparr>submitter_TaskFilter.ids = submitter_TaskFilterIds.Sessions [''list-tasks-input''], submitter_TaskFilter.statuses = submitter_TaskFilterStatuses_default\<rparr> s)"

definition Submitter_integration_list_sessions :: "string option v3_submitter_SubmitterClient \<Rightarrow> string option \<Rightarrow> bool" where
  "Submitter_integration_list_sessions cl s \<longleftrightarrow> expects_called ''list-sessions'' (\<lambda>p. indexed 0 (\<lambda>x. x = ''list-sessions-output'') p)
     (Submitter_list_sessions cl (submitter_SessionFilter_default\<lparr>submitter_SessionFilter.ids := [''list-sessions-input'']\<rparr>) s)"

definition Submitter_integration_count_tasks :: "string option v3_submitter_SubmitterClient \<Rightarrow> string option \<Rightarrow> bool" where
  "Submitter_integration_count_tasks cl s \<longleftrightarrow> expects_called ''count-tasks'' (\<lambda>p. fmlookup p TaskStatus.Creating = Some 1337)
     (Submitter_count_tasks cl \<lparr>submitter_TaskFilter.ids = submitter_TaskFilterIds.Sessions [''count-tasks-input''], submitter_TaskFilter.statuses = submitter_TaskFilterStatuses_default\<rparr> s)"

definition Submitter_integration_try_get_task_output :: "string option v3_submitter_SubmitterClient \<Rightarrow> string option \<Rightarrow> bool" where
  "Submitter_integration_try_get_task_output cl s \<longleftrightarrow> expects_called ''try-get-task-output'' (\<lambda>p. True)
     (Submitter_try_get_task_output cl ''try-get-task-output-input'' ''task-id'' s)"

definition Submitter_integration_wait_for_availability :: "string option v3_submitter_SubmitterClient \<Rightarrow> string option \<Rightarrow> bool" where
  "Submitter_integration_wait_for_availability cl s \<longleftrightarrow> expects_called ''wait-for-availability'' (\<lambda>p. (case p of submitter_wait_for_availability_Response.NotCompleted res \<Rightarrow> res = ''wait-for-availability-output'' | _ \<Rightarrow> False))
     (Submitter_wait_for_availability cl ''wait-for-availability-input'' ''result-id'' s)"

definition Submitter_integration_wait_for_completion :: "string option v3_submitter_SubmitterClient \<Rightarrow> string option \<Rightarrow> bool" where
  "Submitter_integration_wait_for_completion cl s \<longleftrightarrow> expects_called ''wait-for-completion'' (\<lambda>p. fmlookup p TaskStatus.Creating = Some 1337)
     (Submitter_wait_for_completion cl \<lparr>submitter_TaskFilter.ids = submitter_TaskFilterIds.Sessions [''wait-for-completion-input''], submitter_TaskFilter.statuses = submitter_TaskFilterStatuses_default\<rparr> False False s)"

definition Submitter_integration_cancel_tasks :: "string option v3_submitter_SubmitterClient \<Rightarrow> string option \<Rightarrow> bool" where
  "Submitter_integration_cancel_tasks cl s \<longleftrightarrow> expects_called ''cancel-tasks'' (\<lambda>p. True)
     (Submitter_cancel_tasks cl \<lparr>submitter_TaskFilter.ids = submitter_TaskFilterIds.Sessions [''cancel-tasks-input''], submitter_TaskFilter.statuses = submitter_TaskFilterStatuses_default\<rparr> s)"

definition Submitter_integration_task_status :: "((string, TaskStatus) fmap \<Rightarrow> (string \<times> TaskStatus) list) \<Rightarrow> string option v3_submitter_SubmitterClient \<Rightarrow> string option \<Rightarrow> bool" where
  "Submitter_integration_task_status it_ts cl s \<longleftrightarrow> expects_called ''task-status'' (\<lambda>p. (case it_ts p of [] \<Rightarrow> False | kv # _ \<Rightarrow> fst kv = ''task-status-output''))
     (Submitter_task_status cl [''task-status-input''] s)"

definition Submitter_integration_result_status :: "((string, ResultStatus) fmap \<Rightarrow> (string \<times> ResultStatus) list) \<Rightarrow> string option v3_submitter_SubmitterClient \<Rightarrow> string option \<Rightarrow> bool" where
  "Submitter_integration_result_status it_rs cl s \<longleftrightarrow> expects_called ''result-status'' (\<lambda>p. (case it_rs p of [] \<Rightarrow> False | kv # _ \<Rightarrow> fst kv = ''result-status-output''))
     (Submitter_result_status cl ''result-status-input'' [''result-id''] s)"

definition Submitter_integration_try_get_result :: "string option v3_submitter_SubmitterClient \<Rightarrow> string option \<Rightarrow> bool" where
  "Submitter_integration_try_get_result cl s \<longleftrightarrow> expects_called ''try-get-result'' (\<lambda>p. True)
     (Submitter_try_get_result cl ''try-get-result-input'' ''result-id'' s)"

definition Submitter_integration_create_small_tasks :: "string option v3_submitter_SubmitterClient \<Rightarrow> string option \<Rightarrow> bool" where
  "Submitter_integration_create_small_tasks cl s \<longleftrightarrow> expects_called ''create-small-tasks'' (\<lambda>p. indexed 0 (\<lambda>x. case x of submitter_create_tasks_Status.TaskInfo task_id' _ _ _ \<Rightarrow> task_id' = ''create-small-tasks-output'' | submitter_create_tasks_Status.Error _ \<Rightarrow> False) p)
     (Submitter_create_small_tasks cl ''create-small-tasks-input'' None [TaskRequest_default] s)"

definition Submitter_integration_create_large_tasks :: "string option v3_submitter_SubmitterClient \<Rightarrow> string option \<Rightarrow> bool" where
  "Submitter_integration_create_large_tasks cl s \<longleftrightarrow> expects_called ''create-large-tasks'' (\<lambda>p. indexed 0 (\<lambda>x. case x of submitter_create_tasks_Status.TaskInfo task_id' _ _ _ \<Rightarrow> task_id' = ''create-large-tasks-output'' | submitter_create_tasks_Status.Error _ \<Rightarrow> False) p)
     (Submitter_create_large_tasks cl (stream_iter [submitter_create_tasks_LargeRequest.InitRequest (submitter_create_tasks_InitRequest_default\<lparr>submitter_create_tasks_InitRequest.session_id := ''create-large-tasks-input''\<rparr>),
       submitter_create_tasks_LargeRequest.Invalid, submitter_create_tasks_LargeRequest.Invalid]) s)"

definition Submitter_integration ::
  "((string, TaskStatus) fmap \<Rightarrow> (string \<times> TaskStatus) list)
   \<Rightarrow> ((string, ResultStatus) fmap \<Rightarrow> (string \<times> ResultStatus) list)
   \<Rightarrow> (string option \<times> (string option v3_submitter_SubmitterClient \<Rightarrow> string option \<Rightarrow> bool)) list" where
  "Submitter_integration it_ts it_rs = [
     (None, Submitter_integration_get_service_configuration),
     (Some ''create-session-input'', Submitter_integration_create_session),
     (Some ''cancel-session-input'', Submitter_integration_cancel_session),
     (Some ''list-tasks-input'', Submitter_integration_list_tasks),
     (Some ''list-sessions-input'', Submitter_integration_list_sessions),
     (Some ''count-tasks-input'', Submitter_integration_count_tasks),
     (Some ''try-get-task-output-input'', Submitter_integration_try_get_task_output),
     (Some ''wait-for-availability-input'', Submitter_integration_wait_for_availability),
     (Some ''wait-for-completion-input'', Submitter_integration_wait_for_completion),
     (Some ''cancel-tasks-input'', Submitter_integration_cancel_tasks),
     (Some ''task-status-input'', Submitter_integration_task_status it_ts),
     (Some ''result-status-input'', Submitter_integration_result_status it_rs),
     (Some ''try-get-result-input'', Submitter_integration_try_get_result),
     (Some ''create-small-tasks-input'', Submitter_integration_create_small_tasks),
     (Some ''create-large-tasks-input'', Submitter_integration_create_large_tasks)]"

lemmas submitter_integration_defs = Submitter_integration_def submitter_test_service_def indexed_def expects_called_def expects_def
  asserted_def hashmap_collect_def as_received_def in_process_def in_process_stream_def map_ok_def and_then_def
  Submitter_integration_get_service_configuration_def
  Submitter_integration_create_session_def
  Submitter_integration_cancel_session_def
  Submitter_integration_list_tasks_def
  Submitter_integration_list_sessions_def
  Submitter_integration_count_tasks_def
  Submitter_integration_try_get_task_output_def
  Submitter_integration_wait_for_availability_def
  Submitter_integration_wait_for_completion_def
  Submitter_integration_cancel_tasks_def
  Submitter_integration_task_status_def
  Submitter_integration_result_status_def
  Submitter_integration_try_get_result_def
  Submitter_integration_create_small_tasks_def
  Submitter_integration_create_large_tasks_def

text \<open>They pass, whatever the state of the service.\<close>

lemma Submitter_try_get_result_in_process:
  "Submitter_try_get_result (submitter_loopback ih it_count it_ts it_rs m e svc) sid rid s =
     in_process_stream (SubmitterService.try_get_result svc
       \<lparr>submitter_try_get_result_Request.session_id = sid, submitter_try_get_result_Request.result_id = rid\<rparr>
       (direct_context ih m e) s)"
  by (simp add: submitter_link_defs)

lemma Submitter_integration_passes:
  assumes "iterates it_count" and "iterates it_ts" and "iterates it_rs"
  shows "list_all (\<lambda>(expected, t). t (submitter_loopback ih it_count it_ts it_rs m e (submitter_test_service expected svc)) s)
    (Submitter_integration it_ts it_rs)"
  by (simp add: submitter_integration_defs iterates_singleton [OF assms(2)] iterates_singleton [OF assms(3)]
    Submitter_call_get_service_configuration_transparent Submitter_call_create_session_transparent Submitter_call_cancel_session_transparent Submitter_call_create_small_tasks_transparent Submitter_call_try_get_task_output_transparent Submitter_call_wait_for_availability_transparent Submitter_call_create_large_tasks_transparent Submitter_call_list_tasks_flipped Submitter_call_list_sessions_flipped Submitter_call_cancel_tasks_flipped Submitter_call_count_tasks_flipped [OF assms(1)] Submitter_call_wait_for_completion_flipped [OF assms(1)] Submitter_call_task_status_transparent [OF assms(2)] Submitter_call_result_status_transparent [OF assms(3)] creation_statuses_of_def Submitter_get_service_configuration_def Submitter_create_session_def Submitter_cancel_session_def Submitter_list_tasks_def Submitter_list_sessions_def Submitter_count_tasks_def Submitter_try_get_task_output_def Submitter_wait_for_availability_def Submitter_wait_for_completion_def Submitter_cancel_tasks_def Submitter_task_status_def Submitter_result_status_def Submitter_create_small_tasks_def Submitter_create_large_tasks_def Submitter_try_get_result_in_process)

end
