(* ===== verification/Agent.thy ===== *)
theory Agent
  imports Common_Objects
begin

text \<open>
  Objects of the agent service (\<^verbatim>\<open>objects/agent\<close>), which a worker calls while it processes a task.
\<close>

section \<open>Results\<close>

record v3_agent_create_results_request_ResultCreate =
  name :: string
  data :: "u8 list"

record v3_agent_CreateResultsRequest =
  results :: "v3_agent_create_results_request_ResultCreate list"
  session_id :: string
  communication_token :: string

record v3_agent_ResultMetaData =
  session_id :: string
  result_id :: string
  name :: string
  status :: i32
  created_at :: "Timestamp option"

record v3_agent_CreateResultsResponse =
  results :: "v3_agent_ResultMetaData list"
  communication_token :: string

record v3_agent_create_results_meta_data_request_ResultCreate =
  name :: string

record v3_agent_CreateResultsMetaDataRequest =
  results :: "v3_agent_create_results_meta_data_request_ResultCreate list"
  session_id :: string
  communication_token :: string

record v3_agent_CreateResultsMetaDataResponse =
  results :: "v3_agent_ResultMetaData list"
  communication_token :: string

record agent_ResultMetaData =
  session_id :: string
  result_id :: string
  name :: string
  status :: ResultStatus
  created_at :: "Timestamp option"

definition agent_ResultMetaData_default :: agent_ResultMetaData where
  "agent_ResultMetaData_default = \<lparr>
     agent_ResultMetaData.session_id = '''',
     agent_ResultMetaData.result_id = '''',
     agent_ResultMetaData.name = '''',
     agent_ResultMetaData.status = ResultStatus_default,
     agent_ResultMetaData.created_at = None\<rparr>"

definition agent_ResultMetaData_to_v3 :: "agent_ResultMetaData \<Rightarrow> v3_agent_ResultMetaData" where
  "agent_ResultMetaData_to_v3 v = \<lparr>
     v3_agent_ResultMetaData.session_id = agent_ResultMetaData.session_id v,
     v3_agent_ResultMetaData.result_id = agent_ResultMetaData.result_id v,
     v3_agent_ResultMetaData.name = agent_ResultMetaData.name v,
     v3_agent_ResultMetaData.status = ResultStatus_as_i32 (agent_ResultMetaData.status v),
     v3_agent_ResultMetaData.created_at = map_option (\<lambda>x. x) (agent_ResultMetaData.created_at v)\<rparr>"

definition agent_ResultMetaData_of_v3 :: "v3_agent_ResultMetaData \<Rightarrow> agent_ResultMetaData" where
  "agent_ResultMetaData_of_v3 v = \<lparr>
     agent_ResultMetaData.session_id = v3_agent_ResultMetaData.session_id v,
     agent_ResultMetaData.result_id = v3_agent_ResultMetaData.result_id v,
     agent_ResultMetaData.name = v3_agent_ResultMetaData.name v,
     agent_ResultMetaData.status = ResultStatus_of_i32 (v3_agent_ResultMetaData.status v),
     agent_ResultMetaData.created_at = map_option (\<lambda>x. x) (v3_agent_ResultMetaData.created_at v)\<rparr>"

interpretation agent_ResultMetaData_codec: wire_codec agent_ResultMetaData_to_v3 agent_ResultMetaData_of_v3
  by unfold_locales (simp add: agent_ResultMetaData_to_v3_def agent_ResultMetaData_of_v3_def)

record agent_create_results_RequestItem =
  name :: string
  data :: "u8 list"

definition agent_create_results_RequestItem_default :: agent_create_results_RequestItem where
  "agent_create_results_RequestItem_default = \<lparr>
     agent_create_results_RequestItem.name = '''',
     agent_create_results_RequestItem.data = []\<rparr>"

definition agent_create_results_RequestItem_from :: "string \<times> u8 list \<Rightarrow> agent_create_results_RequestItem" where
  "agent_create_results_RequestItem_from p = (case p of (n, d) \<Rightarrow>
     \<lparr>agent_create_results_RequestItem.name = n, agent_create_results_RequestItem.data = d\<rparr>)"

definition agent_create_results_RequestItem_to_v3 :: "agent_create_results_RequestItem \<Rightarrow> v3_agent_create_results_request_ResultCreate" where
  "agent_create_results_RequestItem_to_v3 v = \<lparr>
     v3_agent_create_results_request_ResultCreate.name = agent_create_results_RequestItem.name v,
     v3_agent_create_results_request_ResultCreate.data = agent_create_results_RequestItem.data v\<rparr>"

definition agent_create_results_RequestItem_of_v3 :: "v3_agent_create_results_request_ResultCreate \<Rightarrow> agent_create_results_RequestItem" where
  "agent_create_results_RequestItem_of_v3 v = \<lparr>
     agent_create_results_RequestItem.name = v3_agent_create_results_request_ResultCreate.name v,
     agent_create_results_RequestItem.data = v3_agent_create_results_request_ResultCreate.data v\<rparr>"

interpretation agent_create_results_RequestItem_codec: wire_codec agent_create_results_RequestItem_to_v3 agent_create_results_RequestItem_of_v3
  by unfold_locales (simp add: agent_create_results_RequestItem_to_v3_def agent_create_results_RequestItem_of_v3_def)

record agent_create_results_Request =
  communication_token :: string
  results :: "agent_create_results_RequestItem list"
  session_id :: string

definition agent_create_results_Request_default :: agent_create_results_Request where
  "agent_create_results_Request_default = \<lparr>
     agent_create_results_Request.communication_token = '''',
     agent_create_results_Request.results = [],
     agent_create_results_Request.session_id = ''''\<rparr>"

definition agent_create_results_Request_to_v3 :: "agent_create_results_Request \<Rightarrow> v3_agent_CreateResultsRequest" where
  "agent_create_results_Request_to_v3 v = \<lparr>
     v3_agent_CreateResultsRequest.results = into_collect agent_create_results_RequestItem_to_v3 (agent_create_results_Request.results v),
     v3_agent_CreateResultsRequest.session_id = agent_create_results_Request.session_id v,
     v3_agent_CreateResultsRequest.communication_token = agent_create_results_Request.communication_token v\<rparr>"

definition agent_create_results_Request_of_v3 :: "v3_agent_CreateResultsRequest \<Rightarrow> agent_create_results_Request" where
  "agent_create_results_Request_of_v3 v = \<lparr>
     agent_create_results_Request.communication_token = v3_agent_CreateResultsRequest.communication_token v,
     agent_create_results_Request.results = into_collect agent_create_results_RequestItem_of_v3 (v3_agent_CreateResultsRequest.results v),
     agent_create_results_Request.session_id = v3_agent_CreateResultsRequest.session_id v\<rparr>"

interpretation agent_create_results_Request_codec: wire_codec agent_create_results_Request_to_v3 agent_create_results_Request_of_v3
  by unfold_locales (simp add: agent_create_results_Request_to_v3_def agent_create_results_Request_of_v3_def)

record agent_create_results_Response =
  communication_token :: string
  results :: "agent_ResultMetaData list"

definition agent_create_results_Response_default :: agent_create_results_Response where
  "agent_create_results_Response_default = \<lparr>
     agent_create_results_Response.communication_token = '''',
     agent_create_results_Response.results = []\<rparr>"

definition agent_create_results_Response_to_v3 :: "agent_create_results_Response \<Rightarrow> v3_agent_CreateResultsResponse" where
  "agent_create_results_Response_to_v3 v = \<lparr>
     v3_agent_CreateResultsResponse.results = into_collect agent_ResultMetaData_to_v3 (agent_create_results_Response.results v),
     v3_agent_CreateResultsResponse.communication_token = agent_create_results_Response.communication_token v\<rparr>"

definition agent_create_results_Response_of_v3 :: "v3_agent_CreateResultsResponse \<Rightarrow> agent_create_results_Response" where
  "agent_create_results_Response_of_v3 v = \<lparr>
     agent_create_results_Response.communication_token = v3_agent_CreateResultsResponse.communication_token v,
     agent_create_results_Response.results = into_collect agent_ResultMetaData_of_v3 (v3_agent_CreateResultsResponse.results v)\<rparr>"

interpretation agent_create_results_Response_codec: wire_codec agent_create_results_Response_to_v3 agent_create_results_Response_of_v3
  by unfold_locales (simp add: agent_create_results_Response_to_v3_def agent_create_results_Response_of_v3_def)

record agent_create_results_metadata_RequestItem =
  name :: string

definition agent_create_results_metadata_RequestItem_default :: agent_create_results_metadata_RequestItem where
  "agent_create_results_metadata_RequestItem_default = \<lparr>
     agent_create_results_metadata_RequestItem.name = ''''\<rparr>"

definition agent_create_results_metadata_RequestItem_from ::
  "string \<Rightarrow> agent_create_results_metadata_RequestItem" where
  "agent_create_results_metadata_RequestItem_from n =
     \<lparr>agent_create_results_metadata_RequestItem.name = n\<rparr>"

definition agent_create_results_metadata_RequestItem_to_v3 :: "agent_create_results_metadata_RequestItem \<Rightarrow> v3_agent_create_results_meta_data_request_ResultCreate" where
  "agent_create_results_metadata_RequestItem_to_v3 v = \<lparr>
     v3_agent_create_results_meta_data_request_ResultCreate.name = agent_create_results_metadata_RequestItem.name v\<rparr>"

definition agent_create_results_metadata_RequestItem_of_v3 :: "v3_agent_create_results_meta_data_request_ResultCreate \<Rightarrow> agent_create_results_metadata_RequestItem" where
  "agent_create_results_metadata_RequestItem_of_v3 v = \<lparr>
     agent_create_results_metadata_RequestItem.name = v3_agent_create_results_meta_data_request_ResultCreate.name v\<rparr>"

interpretation agent_create_results_metadata_RequestItem_codec: wire_codec agent_create_results_metadata_RequestItem_to_v3 agent_create_results_metadata_RequestItem_of_v3
  by unfold_locales (simp add: agent_create_results_metadata_RequestItem_to_v3_def agent_create_results_metadata_RequestItem_of_v3_def)

record agent_create_results_metadata_Request =
  communication_token :: string
  results :: "agent_create_results_metadata_RequestItem list"
  session_id :: string

definition agent_create_results_metadata_Request_default :: agent_create_results_metadata_Request where
  "agent_create_results_metadata_Request_default = \<lparr>
     agent_create_results_metadata_Request.communication_token = '''',
     agent_create_results_metadata_Request.results = [],
     agent_create_results_metadata_Request.session_id = ''''\<rparr>"

definition agent_create_results_metadata_Request_to_v3 :: "agent_create_results_metadata_Request \<Rightarrow> v3_agent_CreateResultsMetaDataRequest" where
  "agent_create_results_metadata_Request_to_v3 v = \<lparr>
     v3_agent_CreateResultsMetaDataRequest.results = into_collect agent_create_results_metadata_RequestItem_to_v3 (agent_create_results_metadata_Request.results v),
     v3_agent_CreateResultsMetaDataRequest.session_id = agent_create_results_metadata_Request.session_id v,
     v3_agent_CreateResultsMetaDataRequest.communication_token = agent_create_results_metadata_Request.communication_token v\<rparr>"

definition agent_create_results_metadata_Request_of_v3 :: "v3_agent_CreateResultsMetaDataRequest \<Rightarrow> agent_create_results_metadata_Request" where
  "agent_create_results_metadata_Request_of_v3 v = \<lparr>
     agent_create_results_metadata_Request.communication_token = v3_agent_CreateResultsMetaDataRequest.communication_token v,
     agent_create_results_metadata_Request.results = into_collect agent_create_results_metadata_RequestItem_of_v3 (v3_agent_CreateResultsMetaDataRequest.results v),
     agent_create_results_metadata_Request.session_id = v3_agent_CreateResultsMetaDataRequest.session_id v\<rparr>"

interpretation agent_create_results_metadata_Request_codec: wire_codec agent_create_results_metadata_Request_to_v3 agent_create_results_metadata_Request_of_v3
  by unfold_locales (simp add: agent_create_results_metadata_Request_to_v3_def agent_create_results_metadata_Request_of_v3_def)

record agent_create_results_metadata_Response =
  communication_token :: string
  results :: "agent_ResultMetaData list"

definition agent_create_results_metadata_Response_default :: agent_create_results_metadata_Response where
  "agent_create_results_metadata_Response_default = \<lparr>
     agent_create_results_metadata_Response.communication_token = '''',
     agent_create_results_metadata_Response.results = []\<rparr>"

definition agent_create_results_metadata_Response_to_v3 :: "agent_create_results_metadata_Response \<Rightarrow> v3_agent_CreateResultsMetaDataResponse" where
  "agent_create_results_metadata_Response_to_v3 v = \<lparr>
     v3_agent_CreateResultsMetaDataResponse.results = into_collect agent_ResultMetaData_to_v3 (agent_create_results_metadata_Response.results v),
     v3_agent_CreateResultsMetaDataResponse.communication_token = agent_create_results_metadata_Response.communication_token v\<rparr>"

definition agent_create_results_metadata_Response_of_v3 :: "v3_agent_CreateResultsMetaDataResponse \<Rightarrow> agent_create_results_metadata_Response" where
  "agent_create_results_metadata_Response_of_v3 v = \<lparr>
     agent_create_results_metadata_Response.communication_token = v3_agent_CreateResultsMetaDataResponse.communication_token v,
     agent_create_results_metadata_Response.results = into_collect agent_ResultMetaData_of_v3 (v3_agent_CreateResultsMetaDataResponse.results v)\<rparr>"

interpretation agent_create_results_metadata_Response_codec: wire_codec agent_create_results_metadata_Response_to_v3 agent_create_results_metadata_Response_of_v3
  by unfold_locales (simp add: agent_create_results_metadata_Response_to_v3_def agent_create_results_metadata_Response_of_v3_def)

section \<open>Data retrieval\<close>

record v3_agent_DataRequest =
  communication_token :: string
  result_id :: string

record v3_agent_DataResponse =
  result_id :: string

record agent_get_common_data_Request =
  communication_token :: string
  result_id :: string

definition agent_get_common_data_Request_default :: agent_get_common_data_Request where
  "agent_get_common_data_Request_default = \<lparr>
     agent_get_common_data_Request.communication_token = '''',
     agent_get_common_data_Request.result_id = ''''\<rparr>"

definition agent_get_common_data_Request_to_v3 :: "agent_get_common_data_Request \<Rightarrow> v3_agent_DataRequest" where
  "agent_get_common_data_Request_to_v3 v = \<lparr>
     v3_agent_DataRequest.communication_token = agent_get_common_data_Request.communication_token v,
     v3_agent_DataRequest.result_id = agent_get_common_data_Request.result_id v\<rparr>"

definition agent_get_common_data_Request_of_v3 :: "v3_agent_DataRequest \<Rightarrow> agent_get_common_data_Request" where
  "agent_get_common_data_Request_of_v3 v = \<lparr>
     agent_get_common_data_Request.communication_token = v3_agent_DataRequest.communication_token v,
     agent_get_common_data_Request.result_id = v3_agent_DataRequest.result_id v\<rparr>"

interpretation agent_get_common_data_Request_codec: wire_codec agent_get_common_data_Request_to_v3 agent_get_common_data_Request_of_v3
  by unfold_locales (simp add: agent_get_common_data_Request_to_v3_def agent_get_common_data_Request_of_v3_def)

record agent_get_common_data_Response =
  result_id :: string

definition agent_get_common_data_Response_default :: agent_get_common_data_Response where
  "agent_get_common_data_Response_default = \<lparr>
     agent_get_common_data_Response.result_id = ''''\<rparr>"

definition agent_get_common_data_Response_to_v3 :: "agent_get_common_data_Response \<Rightarrow> v3_agent_DataResponse" where
  "agent_get_common_data_Response_to_v3 v = \<lparr>
     v3_agent_DataResponse.result_id = agent_get_common_data_Response.result_id v\<rparr>"

definition agent_get_common_data_Response_of_v3 :: "v3_agent_DataResponse \<Rightarrow> agent_get_common_data_Response" where
  "agent_get_common_data_Response_of_v3 v = \<lparr>
     agent_get_common_data_Response.result_id = v3_agent_DataResponse.result_id v\<rparr>"

interpretation agent_get_common_data_Response_codec: wire_codec agent_get_common_data_Response_to_v3 agent_get_common_data_Response_of_v3
  by unfold_locales (simp add: agent_get_common_data_Response_to_v3_def agent_get_common_data_Response_of_v3_def)

record agent_get_direct_data_Request =
  communication_token :: string
  result_id :: string

definition agent_get_direct_data_Request_default :: agent_get_direct_data_Request where
  "agent_get_direct_data_Request_default = \<lparr>
     agent_get_direct_data_Request.communication_token = '''',
     agent_get_direct_data_Request.result_id = ''''\<rparr>"

definition agent_get_direct_data_Request_to_v3 :: "agent_get_direct_data_Request \<Rightarrow> v3_agent_DataRequest" where
  "agent_get_direct_data_Request_to_v3 v = \<lparr>
     v3_agent_DataRequest.communication_token = agent_get_direct_data_Request.communication_token v,
     v3_agent_DataRequest.result_id = agent_get_direct_data_Request.result_id v\<rparr>"

definition agent_get_direct_data_Request_of_v3 :: "v3_agent_DataRequest \<Rightarrow> agent_get_direct_data_Request" where
  "agent_get_direct_data_Request_of_v3 v = \<lparr>
     agent_get_direct_data_Request.communication_token = v3_agent_DataRequest.communication_token v,
     agent_get_direct_data_Request.result_id = v3_agent_DataRequest.result_id v\<rparr>"

interpretation agent_get_direct_data_Request_codec: wire_codec agent_get_direct_data_Request_to_v3 agent_get_direct_data_Request_of_v3
  by unfold_locales (simp add: agent_get_direct_data_Request_to_v3_def agent_get_direct_data_Request_of_v3_def)

record agent_get_direct_data_Response =
  result_id :: string

definition agent_get_direct_data_Response_default :: agent_get_direct_data_Response where
  "agent_get_direct_data_Response_default = \<lparr>
     agent_get_direct_data_Response.result_id = ''''\<rparr>"

definition agent_get_direct_data_Response_to_v3 :: "agent_get_direct_data_Response \<Rightarrow> v3_agent_DataResponse" where
  "agent_get_direct_data_Response_to_v3 v = \<lparr>
     v3_agent_DataResponse.result_id = agent_get_direct_data_Response.result_id v\<rparr>"

definition agent_get_direct_data_Response_of_v3 :: "v3_agent_DataResponse \<Rightarrow> agent_get_direct_data_Response" where
  "agent_get_direct_data_Response_of_v3 v = \<lparr>
     agent_get_direct_data_Response.result_id = v3_agent_DataResponse.result_id v\<rparr>"

interpretation agent_get_direct_data_Response_codec: wire_codec agent_get_direct_data_Response_to_v3 agent_get_direct_data_Response_of_v3
  by unfold_locales (simp add: agent_get_direct_data_Response_to_v3_def agent_get_direct_data_Response_of_v3_def)

record agent_get_resource_data_Request =
  communication_token :: string
  result_id :: string

definition agent_get_resource_data_Request_default :: agent_get_resource_data_Request where
  "agent_get_resource_data_Request_default = \<lparr>
     agent_get_resource_data_Request.communication_token = '''',
     agent_get_resource_data_Request.result_id = ''''\<rparr>"

definition agent_get_resource_data_Request_to_v3 :: "agent_get_resource_data_Request \<Rightarrow> v3_agent_DataRequest" where
  "agent_get_resource_data_Request_to_v3 v = \<lparr>
     v3_agent_DataRequest.communication_token = agent_get_resource_data_Request.communication_token v,
     v3_agent_DataRequest.result_id = agent_get_resource_data_Request.result_id v\<rparr>"

definition agent_get_resource_data_Request_of_v3 :: "v3_agent_DataRequest \<Rightarrow> agent_get_resource_data_Request" where
  "agent_get_resource_data_Request_of_v3 v = \<lparr>
     agent_get_resource_data_Request.communication_token = v3_agent_DataRequest.communication_token v,
     agent_get_resource_data_Request.result_id = v3_agent_DataRequest.result_id v\<rparr>"

interpretation agent_get_resource_data_Request_codec: wire_codec agent_get_resource_data_Request_to_v3 agent_get_resource_data_Request_of_v3
  by unfold_locales (simp add: agent_get_resource_data_Request_to_v3_def agent_get_resource_data_Request_of_v3_def)

record agent_get_resource_data_Response =
  result_id :: string

definition agent_get_resource_data_Response_default :: agent_get_resource_data_Response where
  "agent_get_resource_data_Response_default = \<lparr>
     agent_get_resource_data_Response.result_id = ''''\<rparr>"

definition agent_get_resource_data_Response_to_v3 :: "agent_get_resource_data_Response \<Rightarrow> v3_agent_DataResponse" where
  "agent_get_resource_data_Response_to_v3 v = \<lparr>
     v3_agent_DataResponse.result_id = agent_get_resource_data_Response.result_id v\<rparr>"

definition agent_get_resource_data_Response_of_v3 :: "v3_agent_DataResponse \<Rightarrow> agent_get_resource_data_Response" where
  "agent_get_resource_data_Response_of_v3 v = \<lparr>
     agent_get_resource_data_Response.result_id = v3_agent_DataResponse.result_id v\<rparr>"

interpretation agent_get_resource_data_Response_codec: wire_codec agent_get_resource_data_Response_to_v3 agent_get_resource_data_Response_of_v3
  by unfold_locales (simp add: agent_get_resource_data_Response_to_v3_def agent_get_resource_data_Response_of_v3_def)

section \<open>Notification of results\<close>

text \<open>
  The wire repeats the session in every identifier; decoding keeps the session of the first
  identifier. Hence the session is lost when there is no result to notify.
\<close>

record v3_agent_notify_result_data_request_ResultIdentifier =
  session_id :: string
  result_id :: string

record v3_agent_NotifyResultDataRequest =
  ids :: "v3_agent_notify_result_data_request_ResultIdentifier list"
  communication_token :: string

record v3_agent_NotifyResultDataResponse =
  result_ids :: "string list"

record agent_notify_result_data_Request =
  communication_token :: string
  session_id :: string
  result_ids :: "string list"

definition agent_notify_result_data_Request_default :: agent_notify_result_data_Request where
  "agent_notify_result_data_Request_default = \<lparr>
     agent_notify_result_data_Request.communication_token = '''',
     agent_notify_result_data_Request.session_id = '''',
     agent_notify_result_data_Request.result_ids = []\<rparr>"

definition agent_notify_result_data_Request_to_v3 ::
  "agent_notify_result_data_Request \<Rightarrow> v3_agent_NotifyResultDataRequest" where
  "agent_notify_result_data_Request_to_v3 v = \<lparr>
     v3_agent_NotifyResultDataRequest.ids = map (\<lambda>r.
       \<lparr>v3_agent_notify_result_data_request_ResultIdentifier.session_id =
          agent_notify_result_data_Request.session_id v,
        v3_agent_notify_result_data_request_ResultIdentifier.result_id = r\<rparr>)
       (agent_notify_result_data_Request.result_ids v),
     v3_agent_NotifyResultDataRequest.communication_token =
       agent_notify_result_data_Request.communication_token v\<rparr>"

text \<open>The closure that maps the identifiers also records the session of the first one it sees.\<close>

primrec agent_notify_collect ::
  "v3_agent_notify_result_data_request_ResultIdentifier list \<Rightarrow> string option
   \<Rightarrow> string option \<times> string list" where
    "agent_notify_collect [] s = (s, [])"
  | "agent_notify_collect (i # is) s =
       (let s' = (if s = None
                  then Some (v3_agent_notify_result_data_request_ResultIdentifier.session_id i)
                  else s);
            (s'', rs) = agent_notify_collect is s'
        in (s'', v3_agent_notify_result_data_request_ResultIdentifier.result_id i # rs))"

definition agent_notify_result_data_Request_of_v3 ::
  "v3_agent_NotifyResultDataRequest \<Rightarrow> agent_notify_result_data_Request" where
  "agent_notify_result_data_Request_of_v3 v =
     (let (s, rs) = agent_notify_collect (v3_agent_NotifyResultDataRequest.ids v) None in \<lparr>
        agent_notify_result_data_Request.communication_token =
          v3_agent_NotifyResultDataRequest.communication_token v,
        agent_notify_result_data_Request.session_id = (case s of None \<Rightarrow> '''' | Some x \<Rightarrow> x),
        agent_notify_result_data_Request.result_ids = rs\<rparr>)"

lemma agent_notify_collect_eq:
  "agent_notify_collect is s =
     (case is of [] \<Rightarrow> s | i # _ \<Rightarrow>
        (case s of None \<Rightarrow> Some (v3_agent_notify_result_data_request_ResultIdentifier.session_id i)
                 | Some x \<Rightarrow> Some x),
      map v3_agent_notify_result_data_request_ResultIdentifier.result_id is)"
  by (induction "is" arbitrary: s) (auto split: list.splits option.splits)

definition agent_notify_faithful :: "agent_notify_result_data_Request \<Rightarrow> bool" where
  "agent_notify_faithful r \<longleftrightarrow>
     agent_notify_result_data_Request.result_ids r \<noteq> []
     \<or> agent_notify_result_data_Request.session_id r = ''''"

lemma agent_notify_normalised:
  "agent_notify_result_data_Request_of_v3 (agent_notify_result_data_Request_to_v3 r) =
     (if agent_notify_faithful r then r else r\<lparr>agent_notify_result_data_Request.session_id := ''''\<rparr>)"
  by (cases "agent_notify_result_data_Request.result_ids r")
    (auto simp: agent_notify_result_data_Request_of_v3_def agent_notify_result_data_Request_to_v3_def
      agent_notify_collect_eq agent_notify_faithful_def o_def)

interpretation agent_notify_codec: partial_codec agent_notify_result_data_Request_to_v3
    agent_notify_result_data_Request_of_v3 agent_notify_faithful
  by unfold_locales (simp add: agent_notify_normalised)

record agent_notify_result_data_Response =
  result_ids :: "string list"

definition agent_notify_result_data_Response_default :: agent_notify_result_data_Response where
  "agent_notify_result_data_Response_default = \<lparr>
     agent_notify_result_data_Response.result_ids = []\<rparr>"

definition agent_notify_result_data_Response_to_v3 :: "agent_notify_result_data_Response \<Rightarrow> v3_agent_NotifyResultDataResponse" where
  "agent_notify_result_data_Response_to_v3 v = \<lparr>
     v3_agent_NotifyResultDataResponse.result_ids = into_collect (\<lambda>x. x) (agent_notify_result_data_Response.result_ids v)\<rparr>"

definition agent_notify_result_data_Response_of_v3 :: "v3_agent_NotifyResultDataResponse \<Rightarrow> agent_notify_result_data_Response" where
  "agent_notify_result_data_Response_of_v3 v = \<lparr>
     agent_notify_result_data_Response.result_ids = into_collect (\<lambda>x. x) (v3_agent_NotifyResultDataResponse.result_ids v)\<rparr>"

interpretation agent_notify_result_data_Response_codec: wire_codec agent_notify_result_data_Response_to_v3 agent_notify_result_data_Response_of_v3
  by unfold_locales (simp add: agent_notify_result_data_Response_to_v3_def agent_notify_result_data_Response_of_v3_def)

section \<open>Task submission\<close>

record v3_agent_submit_tasks_request_TaskCreation =
  expected_output_keys :: "string list"
  data_dependencies :: "string list"
  payload_id :: string
  task_options :: "v3_TaskOptions option"

record v3_agent_SubmitTasksRequest =
  session_id :: string
  task_options :: "v3_TaskOptions option"
  task_creations :: "v3_agent_submit_tasks_request_TaskCreation list"
  communication_token :: string

record v3_agent_submit_tasks_response_TaskInfo =
  task_id :: string
  expected_output_ids :: "string list"
  data_dependencies :: "string list"
  payload_id :: string

record v3_agent_SubmitTasksResponse =
  task_infos :: "v3_agent_submit_tasks_response_TaskInfo list"
  communication_token :: string

record agent_submit_tasks_RequestItem =
  expected_output_keys :: "string list"
  data_dependencies :: "string list"
  payload_id :: string
  task_options :: "TaskOptions option"

definition agent_submit_tasks_RequestItem_default :: agent_submit_tasks_RequestItem where
  "agent_submit_tasks_RequestItem_default = \<lparr>
     agent_submit_tasks_RequestItem.expected_output_keys = [],
     agent_submit_tasks_RequestItem.data_dependencies = [],
     agent_submit_tasks_RequestItem.payload_id = '''',
     agent_submit_tasks_RequestItem.task_options = None\<rparr>"

definition agent_submit_tasks_RequestItem_to_v3 :: "agent_submit_tasks_RequestItem \<Rightarrow> v3_agent_submit_tasks_request_TaskCreation" where
  "agent_submit_tasks_RequestItem_to_v3 v = \<lparr>
     v3_agent_submit_tasks_request_TaskCreation.expected_output_keys = agent_submit_tasks_RequestItem.expected_output_keys v,
     v3_agent_submit_tasks_request_TaskCreation.data_dependencies = agent_submit_tasks_RequestItem.data_dependencies v,
     v3_agent_submit_tasks_request_TaskCreation.payload_id = agent_submit_tasks_RequestItem.payload_id v,
     v3_agent_submit_tasks_request_TaskCreation.task_options = map_option TaskOptions_to_v3 (agent_submit_tasks_RequestItem.task_options v)\<rparr>"

definition agent_submit_tasks_RequestItem_of_v3 :: "v3_agent_submit_tasks_request_TaskCreation \<Rightarrow> agent_submit_tasks_RequestItem" where
  "agent_submit_tasks_RequestItem_of_v3 v = \<lparr>
     agent_submit_tasks_RequestItem.expected_output_keys = v3_agent_submit_tasks_request_TaskCreation.expected_output_keys v,
     agent_submit_tasks_RequestItem.data_dependencies = v3_agent_submit_tasks_request_TaskCreation.data_dependencies v,
     agent_submit_tasks_RequestItem.payload_id = v3_agent_submit_tasks_request_TaskCreation.payload_id v,
     agent_submit_tasks_RequestItem.task_options = map_option TaskOptions_of_v3 (v3_agent_submit_tasks_request_TaskCreation.task_options v)\<rparr>"

interpretation agent_submit_tasks_RequestItem_codec: wire_codec agent_submit_tasks_RequestItem_to_v3 agent_submit_tasks_RequestItem_of_v3
  by unfold_locales (simp add: agent_submit_tasks_RequestItem_to_v3_def agent_submit_tasks_RequestItem_of_v3_def)

record agent_submit_tasks_Request =
  communication_token :: string
  session_id :: string
  task_options :: "TaskOptions option"
  items :: "agent_submit_tasks_RequestItem list"

definition agent_submit_tasks_Request_default :: agent_submit_tasks_Request where
  "agent_submit_tasks_Request_default = \<lparr>
     agent_submit_tasks_Request.communication_token = '''',
     agent_submit_tasks_Request.session_id = '''',
     agent_submit_tasks_Request.task_options = None,
     agent_submit_tasks_Request.items = []\<rparr>"

definition agent_submit_tasks_Request_to_v3 :: "agent_submit_tasks_Request \<Rightarrow> v3_agent_SubmitTasksRequest" where
  "agent_submit_tasks_Request_to_v3 v = \<lparr>
     v3_agent_SubmitTasksRequest.session_id = agent_submit_tasks_Request.session_id v,
     v3_agent_SubmitTasksRequest.task_options = map_option TaskOptions_to_v3 (agent_submit_tasks_Request.task_options v),
     v3_agent_SubmitTasksRequest.task_creations = into_collect agent_submit_tasks_RequestItem_to_v3 (agent_submit_tasks_Request.items v),
     v3_agent_SubmitTasksRequest.communication_token = agent_submit_tasks_Request.communication_token v\<rparr>"

definition agent_submit_tasks_Request_of_v3 :: "v3_agent_SubmitTasksRequest \<Rightarrow> agent_submit_tasks_Request" where
  "agent_submit_tasks_Request_of_v3 v = \<lparr>
     agent_submit_tasks_Request.communication_token = v3_agent_SubmitTasksRequest.communication_token v,
     agent_submit_tasks_Request.session_id = v3_agent_SubmitTasksRequest.session_id v,
     agent_submit_tasks_Request.task_options = map_option TaskOptions_of_v3 (v3_agent_SubmitTasksRequest.task_options v),
     agent_submit_tasks_Request.items = into_collect agent_submit_tasks_RequestItem_of_v3 (v3_agent_SubmitTasksRequest.task_creations v)\<rparr>"

interpretation agent_submit_tasks_Request_codec: wire_codec agent_submit_tasks_Request_to_v3 agent_submit_tasks_Request_of_v3
  by unfold_locales (simp add: agent_submit_tasks_Request_to_v3_def agent_submit_tasks_Request_of_v3_def)

record agent_submit_tasks_ResponseItem =
  task_id :: string
  expected_output_ids :: "string list"
  data_dependencies :: "string list"
  payload_id :: string

definition agent_submit_tasks_ResponseItem_default :: agent_submit_tasks_ResponseItem where
  "agent_submit_tasks_ResponseItem_default = \<lparr>
     agent_submit_tasks_ResponseItem.task_id = '''',
     agent_submit_tasks_ResponseItem.expected_output_ids = [],
     agent_submit_tasks_ResponseItem.data_dependencies = [],
     agent_submit_tasks_ResponseItem.payload_id = ''''\<rparr>"

definition agent_submit_tasks_ResponseItem_to_v3 :: "agent_submit_tasks_ResponseItem \<Rightarrow> v3_agent_submit_tasks_response_TaskInfo" where
  "agent_submit_tasks_ResponseItem_to_v3 v = \<lparr>
     v3_agent_submit_tasks_response_TaskInfo.task_id = agent_submit_tasks_ResponseItem.task_id v,
     v3_agent_submit_tasks_response_TaskInfo.expected_output_ids = agent_submit_tasks_ResponseItem.expected_output_ids v,
     v3_agent_submit_tasks_response_TaskInfo.data_dependencies = agent_submit_tasks_ResponseItem.data_dependencies v,
     v3_agent_submit_tasks_response_TaskInfo.payload_id = agent_submit_tasks_ResponseItem.payload_id v\<rparr>"

definition agent_submit_tasks_ResponseItem_of_v3 :: "v3_agent_submit_tasks_response_TaskInfo \<Rightarrow> agent_submit_tasks_ResponseItem" where
  "agent_submit_tasks_ResponseItem_of_v3 v = \<lparr>
     agent_submit_tasks_ResponseItem.task_id = v3_agent_submit_tasks_response_TaskInfo.task_id v,
     agent_submit_tasks_ResponseItem.expected_output_ids = v3_agent_submit_tasks_response_TaskInfo.expected_output_ids v,
     agent_submit_tasks_ResponseItem.data_dependencies = v3_agent_submit_tasks_response_TaskInfo.data_dependencies v,
     agent_submit_tasks_ResponseItem.payload_id = v3_agent_submit_tasks_response_TaskInfo.payload_id v\<rparr>"

interpretation agent_submit_tasks_ResponseItem_codec: wire_codec agent_submit_tasks_ResponseItem_to_v3 agent_submit_tasks_ResponseItem_of_v3
  by unfold_locales (simp add: agent_submit_tasks_ResponseItem_to_v3_def agent_submit_tasks_ResponseItem_of_v3_def)

record agent_submit_tasks_Response =
  communication_token :: string
  items :: "agent_submit_tasks_ResponseItem list"

definition agent_submit_tasks_Response_default :: agent_submit_tasks_Response where
  "agent_submit_tasks_Response_default = \<lparr>
     agent_submit_tasks_Response.communication_token = '''',
     agent_submit_tasks_Response.items = []\<rparr>"

definition agent_submit_tasks_Response_to_v3 :: "agent_submit_tasks_Response \<Rightarrow> v3_agent_SubmitTasksResponse" where
  "agent_submit_tasks_Response_to_v3 v = \<lparr>
     v3_agent_SubmitTasksResponse.task_infos = into_collect agent_submit_tasks_ResponseItem_to_v3 (agent_submit_tasks_Response.items v),
     v3_agent_SubmitTasksResponse.communication_token = agent_submit_tasks_Response.communication_token v\<rparr>"

definition agent_submit_tasks_Response_of_v3 :: "v3_agent_SubmitTasksResponse \<Rightarrow> agent_submit_tasks_Response" where
  "agent_submit_tasks_Response_of_v3 v = \<lparr>
     agent_submit_tasks_Response.communication_token = v3_agent_SubmitTasksResponse.communication_token v,
     agent_submit_tasks_Response.items = into_collect agent_submit_tasks_ResponseItem_of_v3 (v3_agent_SubmitTasksResponse.task_infos v)\<rparr>"

interpretation agent_submit_tasks_Response_codec: wire_codec agent_submit_tasks_Response_to_v3 agent_submit_tasks_Response_of_v3
  by unfold_locales (simp add: agent_submit_tasks_Response_to_v3_def agent_submit_tasks_Response_of_v3_def)

section \<open>Task creation stream\<close>

record v3_agent_create_task_request_InitRequest =
  task_options :: "v3_TaskOptions option"

datatype v3_agent_create_task_request_Type =
    InitRequest v3_agent_create_task_request_InitRequest
  | InitTask v3_InitTaskRequest
  | TaskPayload v3_DataChunk

record v3_agent_CreateTaskRequest =
  oneof_type :: "v3_agent_create_task_request_Type option"
  communication_token :: string

record v3_agent_create_task_reply_TaskInfo =
  task_id :: string
  expected_output_keys :: "string list"
  data_dependencies :: "string list"
  payload_id :: string

datatype v3_agent_create_task_reply_creation_status_Status =
    TaskInfo v3_agent_create_task_reply_TaskInfo
  | Error string

record v3_agent_create_task_reply_CreationStatus =
  status :: "v3_agent_create_task_reply_creation_status_Status option"

record v3_agent_create_task_reply_CreationStatusList =
  creation_statuses :: "v3_agent_create_task_reply_CreationStatus list"

datatype v3_agent_create_task_reply_Response =
    CreationStatusList v3_agent_create_task_reply_CreationStatusList
  | Error string

record v3_agent_CreateTaskReply =
  response :: "v3_agent_create_task_reply_Response option"
  communication_token :: string

record agent_create_tasks_InitRequest =
  task_options :: "TaskOptions option"

definition agent_create_tasks_InitRequest_default :: agent_create_tasks_InitRequest where
  "agent_create_tasks_InitRequest_default = \<lparr>
     agent_create_tasks_InitRequest.task_options = None\<rparr>"

definition agent_create_tasks_InitRequest_to_v3 :: "agent_create_tasks_InitRequest \<Rightarrow> v3_agent_create_task_request_InitRequest" where
  "agent_create_tasks_InitRequest_to_v3 v = \<lparr>
     v3_agent_create_task_request_InitRequest.task_options = map_option TaskOptions_to_v3 (agent_create_tasks_InitRequest.task_options v)\<rparr>"

definition agent_create_tasks_InitRequest_of_v3 :: "v3_agent_create_task_request_InitRequest \<Rightarrow> agent_create_tasks_InitRequest" where
  "agent_create_tasks_InitRequest_of_v3 v = \<lparr>
     agent_create_tasks_InitRequest.task_options = map_option TaskOptions_of_v3 (v3_agent_create_task_request_InitRequest.task_options v)\<rparr>"

interpretation agent_create_tasks_InitRequest_codec: wire_codec agent_create_tasks_InitRequest_to_v3 agent_create_tasks_InitRequest_of_v3
  by unfold_locales (simp add: agent_create_tasks_InitRequest_to_v3_def agent_create_tasks_InitRequest_of_v3_def)

datatype agent_create_tasks_Request =
    Invalid
  | InitRequest string agent_create_tasks_InitRequest
  | InitTaskRequest string InitTaskRequest
  | DataChunk string DataChunk

definition agent_create_tasks_Request_default :: agent_create_tasks_Request where
  "agent_create_tasks_Request_default = agent_create_tasks_Request.Invalid"

primrec agent_create_tasks_Request_to_v3 ::
  "agent_create_tasks_Request \<Rightarrow> v3_agent_CreateTaskRequest" where
    "agent_create_tasks_Request_to_v3 agent_create_tasks_Request.Invalid =
       \<lparr>v3_agent_CreateTaskRequest.oneof_type = None,
        v3_agent_CreateTaskRequest.communication_token = ''''\<rparr>"
  | "agent_create_tasks_Request_to_v3 (agent_create_tasks_Request.InitRequest tok r) =
       \<lparr>v3_agent_CreateTaskRequest.oneof_type =
          Some (v3_agent_create_task_request_Type.InitRequest (agent_create_tasks_InitRequest_to_v3 r)),
        v3_agent_CreateTaskRequest.communication_token = tok\<rparr>"
  | "agent_create_tasks_Request_to_v3 (agent_create_tasks_Request.InitTaskRequest tok r) =
       \<lparr>v3_agent_CreateTaskRequest.oneof_type =
          Some (v3_agent_create_task_request_Type.InitTask (InitTaskRequest_to_v3 r)),
        v3_agent_CreateTaskRequest.communication_token = tok\<rparr>"
  | "agent_create_tasks_Request_to_v3 (agent_create_tasks_Request.DataChunk tok c) =
       \<lparr>v3_agent_CreateTaskRequest.oneof_type =
          Some (v3_agent_create_task_request_Type.TaskPayload (DataChunk_to_v3 c)),
        v3_agent_CreateTaskRequest.communication_token = tok\<rparr>"

definition agent_create_tasks_Request_of_v3 ::
  "v3_agent_CreateTaskRequest \<Rightarrow> agent_create_tasks_Request" where
  "agent_create_tasks_Request_of_v3 v = (case v3_agent_CreateTaskRequest.oneof_type v of
       Some (v3_agent_create_task_request_Type.InitRequest r) \<Rightarrow>
         agent_create_tasks_Request.InitRequest
           (v3_agent_CreateTaskRequest.communication_token v) (agent_create_tasks_InitRequest_of_v3 r)
     | Some (v3_agent_create_task_request_Type.InitTask r) \<Rightarrow>
         agent_create_tasks_Request.InitTaskRequest
           (v3_agent_CreateTaskRequest.communication_token v) (InitTaskRequest_of_v3 r)
     | Some (v3_agent_create_task_request_Type.TaskPayload c) \<Rightarrow>
         agent_create_tasks_Request.DataChunk
           (v3_agent_CreateTaskRequest.communication_token v) (DataChunk_of_v3 c)
     | None \<Rightarrow> agent_create_tasks_Request.Invalid)"

interpretation agent_create_tasks_Request_codec:
  wire_codec agent_create_tasks_Request_to_v3 agent_create_tasks_Request_of_v3
proof unfold_locales
  fix x
  show "agent_create_tasks_Request_of_v3 (agent_create_tasks_Request_to_v3 x) = x"
    by (cases x) (simp_all add: agent_create_tasks_Request_of_v3_def)
qed

datatype agent_create_tasks_Status =
    TaskInfo string "string list" "string list" string
  | Error string

definition agent_create_tasks_Status_default :: agent_create_tasks_Status where
  "agent_create_tasks_Status_default = agent_create_tasks_Status.Error ''''"

primrec agent_create_tasks_Status_to_v3 ::
  "agent_create_tasks_Status \<Rightarrow> v3_agent_create_task_reply_CreationStatus" where
    "agent_create_tasks_Status_to_v3 (agent_create_tasks_Status.TaskInfo t ks ds p) =
       \<lparr>v3_agent_create_task_reply_CreationStatus.status = Some (v3_agent_create_task_reply_creation_status_Status.TaskInfo
          \<lparr>v3_agent_create_task_reply_TaskInfo.task_id = t,
           v3_agent_create_task_reply_TaskInfo.expected_output_keys = ks,
           v3_agent_create_task_reply_TaskInfo.data_dependencies = ds,
           v3_agent_create_task_reply_TaskInfo.payload_id = p\<rparr>)\<rparr>"
  | "agent_create_tasks_Status_to_v3 (agent_create_tasks_Status.Error m) =
       \<lparr>v3_agent_create_task_reply_CreationStatus.status = Some (v3_agent_create_task_reply_creation_status_Status.Error m)\<rparr>"

definition agent_create_tasks_Status_of_v3 ::
  "v3_agent_create_task_reply_CreationStatus \<Rightarrow> agent_create_tasks_Status" where
  "agent_create_tasks_Status_of_v3 v = (case v3_agent_create_task_reply_CreationStatus.status v of
       Some (v3_agent_create_task_reply_creation_status_Status.TaskInfo i) \<Rightarrow>
         agent_create_tasks_Status.TaskInfo
           (v3_agent_create_task_reply_TaskInfo.task_id i)
           (v3_agent_create_task_reply_TaskInfo.expected_output_keys i)
           (v3_agent_create_task_reply_TaskInfo.data_dependencies i)
           (v3_agent_create_task_reply_TaskInfo.payload_id i)
     | Some (v3_agent_create_task_reply_creation_status_Status.Error m) \<Rightarrow> agent_create_tasks_Status.Error m
     | None \<Rightarrow> agent_create_tasks_Status_default)"

interpretation agent_create_tasks_Status_codec: wire_codec agent_create_tasks_Status_to_v3 agent_create_tasks_Status_of_v3
proof unfold_locales
  fix x
  show "agent_create_tasks_Status_of_v3 (agent_create_tasks_Status_to_v3 x) = x"
    by (cases x) (simp_all add: agent_create_tasks_Status_of_v3_def)
qed

datatype agent_create_tasks_Response =
    Status string "agent_create_tasks_Status list"
  | Error string string

definition agent_create_tasks_Response_default :: agent_create_tasks_Response where
  "agent_create_tasks_Response_default = agent_create_tasks_Response.Error [] []"

primrec agent_create_tasks_Response_to_v3 ::
  "agent_create_tasks_Response \<Rightarrow> v3_agent_CreateTaskReply" where
    "agent_create_tasks_Response_to_v3 (agent_create_tasks_Response.Status tok ss) =
       \<lparr>v3_agent_CreateTaskReply.response =
          Some (v3_agent_create_task_reply_Response.CreationStatusList
            \<lparr>v3_agent_create_task_reply_CreationStatusList.creation_statuses =
               into_collect agent_create_tasks_Status_to_v3 ss\<rparr>),
        v3_agent_CreateTaskReply.communication_token = tok\<rparr>"
  | "agent_create_tasks_Response_to_v3 (agent_create_tasks_Response.Error tok e) =
       \<lparr>v3_agent_CreateTaskReply.response = Some (v3_agent_create_task_reply_Response.Error e),
        v3_agent_CreateTaskReply.communication_token = tok\<rparr>"

definition agent_create_tasks_Response_of_v3 ::
  "v3_agent_CreateTaskReply \<Rightarrow> agent_create_tasks_Response" where
  "agent_create_tasks_Response_of_v3 v = (case v3_agent_CreateTaskReply.response v of
       Some (v3_agent_create_task_reply_Response.CreationStatusList s) \<Rightarrow>
         agent_create_tasks_Response.Status
           (v3_agent_CreateTaskReply.communication_token v)
           (into_collect agent_create_tasks_Status_of_v3
             (v3_agent_create_task_reply_CreationStatusList.creation_statuses s))
     | Some (v3_agent_create_task_reply_Response.Error e) \<Rightarrow>
         agent_create_tasks_Response.Error (v3_agent_CreateTaskReply.communication_token v) e
     | None \<Rightarrow> agent_create_tasks_Response_default)"

interpretation agent_create_tasks_Response_codec:
  wire_codec agent_create_tasks_Response_to_v3 agent_create_tasks_Response_of_v3
proof unfold_locales
  fix x
  show "agent_create_tasks_Response_of_v3 (agent_create_tasks_Response_to_v3 x) = x"
    by (cases x) (simp_all add: agent_create_tasks_Response_of_v3_def)
qed

end
