(* ===== verification/Agent_Service.thy ===== *)
theory Agent_Service
  imports Request_Count Agent
begin

text \<open>
  The agent service: the client (\<^verbatim>\<open>client/agent.rs\<close>) and the server glue (\<^verbatim>\<open>server/agent.rs\<close>) around
  the generated stub and trait, and the composition of the two.
\<close>

section \<open>The generated stub\<close>

record 'c v3_agent_AgentClient =
  create_task :: "(v3_agent_CreateTaskRequest Stream, 'c, v3_agent_CreateTaskReply) stub"
  create_results_meta_data :: "(v3_agent_CreateResultsMetaDataRequest, 'c, v3_agent_CreateResultsMetaDataResponse) stub"
  create_results :: "(v3_agent_CreateResultsRequest, 'c, v3_agent_CreateResultsResponse) stub"
  notify_result_data :: "(v3_agent_NotifyResultDataRequest, 'c, v3_agent_NotifyResultDataResponse) stub"
  submit_tasks :: "(v3_agent_SubmitTasksRequest, 'c, v3_agent_SubmitTasksResponse) stub"
  get_resource_data :: "(v3_agent_DataRequest, 'c, v3_agent_DataResponse) stub"
  get_common_data :: "(v3_agent_DataRequest, 'c, v3_agent_DataResponse) stub"
  get_direct_data :: "(v3_agent_DataRequest, 'c, v3_agent_DataResponse) stub"

text \<open>A stub that also records which procedures are called.\<close>

definition agent_recording :: "'c v3_agent_AgentClient \<Rightarrow> 'c recording v3_agent_AgentClient" where
  "agent_recording cl = \<lparr>
     v3_agent_AgentClient.create_task = recorded ''Agent'' ''CreateTask'' (v3_agent_AgentClient.create_task cl),
     v3_agent_AgentClient.create_results_meta_data = recorded ''Agent'' ''CreateResultsMetaData'' (v3_agent_AgentClient.create_results_meta_data cl),
     v3_agent_AgentClient.create_results = recorded ''Agent'' ''CreateResults'' (v3_agent_AgentClient.create_results cl),
     v3_agent_AgentClient.notify_result_data = recorded ''Agent'' ''NotifyResultData'' (v3_agent_AgentClient.notify_result_data cl),
     v3_agent_AgentClient.submit_tasks = recorded ''Agent'' ''SubmitTasks'' (v3_agent_AgentClient.submit_tasks cl),
     v3_agent_AgentClient.get_resource_data = recorded ''Agent'' ''GetResourceData'' (v3_agent_AgentClient.get_resource_data cl),
     v3_agent_AgentClient.get_common_data = recorded ''Agent'' ''GetCommonData'' (v3_agent_AgentClient.get_common_data cl),
     v3_agent_AgentClient.get_direct_data = recorded ''Agent'' ''GetDirectData'' (v3_agent_AgentClient.get_direct_data cl)\<rparr>"

section \<open>Client\<close>

subsection \<open>Raw calls\<close>

definition Agent_call_create_results_metadata :: "'c v3_agent_AgentClient \<Rightarrow> agent_create_results_metadata_Request \<Rightarrow> 'c \<Rightarrow> (RequestError + agent_create_results_metadata_Response) \<times> 'c" where
  "Agent_call_create_results_metadata cl req c =
     unary_call agent_create_results_metadata_Request_to_v3 agent_create_results_metadata_Response_of_v3 (v3_agent_AgentClient.create_results_meta_data cl) req c"

definition Agent_call_create_results :: "'c v3_agent_AgentClient \<Rightarrow> agent_create_results_Request \<Rightarrow> 'c \<Rightarrow> (RequestError + agent_create_results_Response) \<times> 'c" where
  "Agent_call_create_results cl req c =
     unary_call agent_create_results_Request_to_v3 agent_create_results_Response_of_v3 (v3_agent_AgentClient.create_results cl) req c"

definition Agent_call_notify_result_data :: "'c v3_agent_AgentClient \<Rightarrow> agent_notify_result_data_Request \<Rightarrow> 'c \<Rightarrow> (RequestError + agent_notify_result_data_Response) \<times> 'c" where
  "Agent_call_notify_result_data cl req c =
     unary_call agent_notify_result_data_Request_to_v3 agent_notify_result_data_Response_of_v3 (v3_agent_AgentClient.notify_result_data cl) req c"

definition Agent_call_submit_tasks :: "'c v3_agent_AgentClient \<Rightarrow> agent_submit_tasks_Request \<Rightarrow> 'c \<Rightarrow> (RequestError + agent_submit_tasks_Response) \<times> 'c" where
  "Agent_call_submit_tasks cl req c =
     unary_call agent_submit_tasks_Request_to_v3 agent_submit_tasks_Response_of_v3 (v3_agent_AgentClient.submit_tasks cl) req c"

definition Agent_call_get_resource_data :: "'c v3_agent_AgentClient \<Rightarrow> agent_get_resource_data_Request \<Rightarrow> 'c \<Rightarrow> (RequestError + agent_get_resource_data_Response) \<times> 'c" where
  "Agent_call_get_resource_data cl req c =
     unary_call agent_get_resource_data_Request_to_v3 agent_get_resource_data_Response_of_v3 (v3_agent_AgentClient.get_resource_data cl) req c"

definition Agent_call_get_common_data :: "'c v3_agent_AgentClient \<Rightarrow> agent_get_common_data_Request \<Rightarrow> 'c \<Rightarrow> (RequestError + agent_get_common_data_Response) \<times> 'c" where
  "Agent_call_get_common_data cl req c =
     unary_call agent_get_common_data_Request_to_v3 agent_get_common_data_Response_of_v3 (v3_agent_AgentClient.get_common_data cl) req c"

definition Agent_call_get_direct_data :: "'c v3_agent_AgentClient \<Rightarrow> agent_get_direct_data_Request \<Rightarrow> 'c \<Rightarrow> (RequestError + agent_get_direct_data_Response) \<times> 'c" where
  "Agent_call_get_direct_data cl req c =
     unary_call agent_get_direct_data_Request_to_v3 agent_get_direct_data_Response_of_v3 (v3_agent_AgentClient.get_direct_data cl) req c"

definition Agent_call_create_tasks :: "'c v3_agent_AgentClient \<Rightarrow> agent_create_tasks_Request Stream \<Rightarrow> 'c \<Rightarrow> (RequestError + agent_create_tasks_Response) \<times> 'c" where
  "Agent_call_create_tasks cl req c =
     client_stream_call agent_create_tasks_Request_to_v3 agent_create_tasks_Response_of_v3 (v3_agent_AgentClient.create_task cl) req c"

subsection \<open>Methods\<close>

definition Agent_notify_result_data :: "'c v3_agent_AgentClient \<Rightarrow> string \<Rightarrow> string \<Rightarrow> string list \<Rightarrow> 'c \<Rightarrow> (RequestError + string list) \<times> 'c" where
  "Agent_notify_result_data cl token' session_id' result_ids' c =
     map_ok agent_notify_result_data_Response.result_ids (Agent_call_notify_result_data cl \<lparr>agent_notify_result_data_Request.communication_token = token', agent_notify_result_data_Request.session_id = session_id', agent_notify_result_data_Request.result_ids = into_collect (\<lambda>x. x) result_ids'\<rparr> c)"

definition Agent_submit_tasks :: "'c v3_agent_AgentClient \<Rightarrow> string \<Rightarrow> string \<Rightarrow> TaskOptions option \<Rightarrow> agent_submit_tasks_RequestItem list \<Rightarrow> 'c \<Rightarrow> (RequestError + agent_submit_tasks_ResponseItem list) \<times> 'c" where
  "Agent_submit_tasks cl token' session_id' task_options' items' c =
     map_ok agent_submit_tasks_Response.items (Agent_call_submit_tasks cl \<lparr>agent_submit_tasks_Request.communication_token = token', agent_submit_tasks_Request.session_id = session_id', agent_submit_tasks_Request.task_options = task_options', agent_submit_tasks_Request.items = into_collect (\<lambda>x. x) items'\<rparr> c)"

definition Agent_create_results_metadata ::
  "'c v3_agent_AgentClient \<Rightarrow> string \<Rightarrow> string \<Rightarrow> string list \<Rightarrow> 'c \<Rightarrow> (RequestError + agent_ResultMetaData list) \<times> 'c" where
  "Agent_create_results_metadata cl token' session_id' names' c =
     map_ok agent_create_results_metadata_Response.results (Agent_call_create_results_metadata cl
       \<lparr>agent_create_results_metadata_Request.communication_token = token',
        agent_create_results_metadata_Request.results = map agent_create_results_metadata_RequestItem_from names',
        agent_create_results_metadata_Request.session_id = session_id'\<rparr> c)"

definition Agent_create_results ::
  "'c v3_agent_AgentClient \<Rightarrow> string \<Rightarrow> string \<Rightarrow> (string \<times> u8 list) list \<Rightarrow> 'c
   \<Rightarrow> (RequestError + agent_ResultMetaData list) \<times> 'c" where
  "Agent_create_results cl token' session_id' results' c =
     map_ok agent_create_results_Response.results (Agent_call_create_results cl
       \<lparr>agent_create_results_Request.communication_token = token',
        agent_create_results_Request.results = map agent_create_results_RequestItem_from results',
        agent_create_results_Request.session_id = session_id'\<rparr> c)"

definition Agent_create_tasks ::
  "'c v3_agent_AgentClient \<Rightarrow> agent_create_tasks_Request Stream \<Rightarrow> 'c
   \<Rightarrow> (RequestError + agent_create_tasks_Status list) \<times> 'c" where
  "Agent_create_tasks cl reqs c =
     and_then (Agent_call_create_tasks cl reqs c) (\<lambda>response. case response of
         agent_create_tasks_Response.Status _ statuses \<Rightarrow> Inr statuses
       | agent_create_tasks_Response.Error _ err \<Rightarrow> Inl (Grpc (Status_internal err)))"

lemmas agent_client_defs =
  Agent_call_create_results_metadata_def Agent_call_create_results_def Agent_call_notify_result_data_def Agent_call_submit_tasks_def Agent_call_get_resource_data_def Agent_call_get_common_data_def Agent_call_get_direct_data_def Agent_call_create_tasks_def Agent_notify_result_data_def Agent_submit_tasks_def Agent_create_results_metadata_def Agent_create_results_def Agent_create_tasks_def

section \<open>Server\<close>

record ('h, 'e, 's) AgentService =
  create_results_metadata :: "(agent_create_results_metadata_Request, 'h, 'e, 's, agent_create_results_metadata_Response) handler"
  create_results :: "(agent_create_results_Request, 'h, 'e, 's, agent_create_results_Response) handler"
  notify_result_data :: "(agent_notify_result_data_Request, 'h, 'e, 's, agent_notify_result_data_Response) handler"
  submit_tasks :: "(agent_submit_tasks_Request, 'h, 'e, 's, agent_submit_tasks_Response) handler"
  get_resource_data :: "(agent_get_resource_data_Request, 'h, 'e, 's, agent_get_resource_data_Response) handler"
  get_common_data :: "(agent_get_common_data_Request, 'h, 'e, 's, agent_get_common_data_Response) handler"
  get_direct_data :: "(agent_get_direct_data_Request, 'h, 'e, 's, agent_get_direct_data_Response) handler"
  create_tasks :: "((tonic_Status + agent_create_tasks_Request) Stream, 'h, 'e, 's, agent_create_tasks_Response) handler"

definition AgentService_create_results_meta_data :: "('m \<Rightarrow> 'h) \<Rightarrow> ('h, 'e, 's) AgentService
    \<Rightarrow> ('m, 'e, v3_agent_CreateResultsMetaDataRequest) tonic_Request \<Rightarrow> 's \<Rightarrow> (tonic_Status + v3_agent_CreateResultsMetaDataResponse) \<times> 's" where
  "AgentService_create_results_meta_data ih svc =
     unary_server ih agent_create_results_metadata_Request_of_v3 agent_create_results_metadata_Response_to_v3 (AgentService.create_results_metadata svc)"

definition AgentService_create_results :: "('m \<Rightarrow> 'h) \<Rightarrow> ('h, 'e, 's) AgentService
    \<Rightarrow> ('m, 'e, v3_agent_CreateResultsRequest) tonic_Request \<Rightarrow> 's \<Rightarrow> (tonic_Status + v3_agent_CreateResultsResponse) \<times> 's" where
  "AgentService_create_results ih svc =
     unary_server ih agent_create_results_Request_of_v3 agent_create_results_Response_to_v3 (AgentService.create_results svc)"

definition AgentService_notify_result_data :: "('m \<Rightarrow> 'h) \<Rightarrow> ('h, 'e, 's) AgentService
    \<Rightarrow> ('m, 'e, v3_agent_NotifyResultDataRequest) tonic_Request \<Rightarrow> 's \<Rightarrow> (tonic_Status + v3_agent_NotifyResultDataResponse) \<times> 's" where
  "AgentService_notify_result_data ih svc =
     unary_server ih agent_notify_result_data_Request_of_v3 agent_notify_result_data_Response_to_v3 (AgentService.notify_result_data svc)"

definition AgentService_submit_tasks :: "('m \<Rightarrow> 'h) \<Rightarrow> ('h, 'e, 's) AgentService
    \<Rightarrow> ('m, 'e, v3_agent_SubmitTasksRequest) tonic_Request \<Rightarrow> 's \<Rightarrow> (tonic_Status + v3_agent_SubmitTasksResponse) \<times> 's" where
  "AgentService_submit_tasks ih svc =
     unary_server ih agent_submit_tasks_Request_of_v3 agent_submit_tasks_Response_to_v3 (AgentService.submit_tasks svc)"

definition AgentService_get_resource_data :: "('m \<Rightarrow> 'h) \<Rightarrow> ('h, 'e, 's) AgentService
    \<Rightarrow> ('m, 'e, v3_agent_DataRequest) tonic_Request \<Rightarrow> 's \<Rightarrow> (tonic_Status + v3_agent_DataResponse) \<times> 's" where
  "AgentService_get_resource_data ih svc =
     unary_server ih agent_get_resource_data_Request_of_v3 agent_get_resource_data_Response_to_v3 (AgentService.get_resource_data svc)"

definition AgentService_get_common_data :: "('m \<Rightarrow> 'h) \<Rightarrow> ('h, 'e, 's) AgentService
    \<Rightarrow> ('m, 'e, v3_agent_DataRequest) tonic_Request \<Rightarrow> 's \<Rightarrow> (tonic_Status + v3_agent_DataResponse) \<times> 's" where
  "AgentService_get_common_data ih svc =
     unary_server ih agent_get_common_data_Request_of_v3 agent_get_common_data_Response_to_v3 (AgentService.get_common_data svc)"

definition AgentService_get_direct_data :: "('m \<Rightarrow> 'h) \<Rightarrow> ('h, 'e, 's) AgentService
    \<Rightarrow> ('m, 'e, v3_agent_DataRequest) tonic_Request \<Rightarrow> 's \<Rightarrow> (tonic_Status + v3_agent_DataResponse) \<times> 's" where
  "AgentService_get_direct_data ih svc =
     unary_server ih agent_get_direct_data_Request_of_v3 agent_get_direct_data_Response_to_v3 (AgentService.get_direct_data svc)"

definition AgentService_create_task :: "('m \<Rightarrow> 'h) \<Rightarrow> ('h, 'e, 's) AgentService
    \<Rightarrow> ('m, 'e, (tonic_Status + v3_agent_CreateTaskRequest) Stream) tonic_Request \<Rightarrow> 's \<Rightarrow> (tonic_Status + v3_agent_CreateTaskReply) \<times> 's" where
  "AgentService_create_task ih svc =
     client_stream_server ih agent_create_tasks_Request_of_v3 agent_create_tasks_Response_to_v3 (AgentService.create_tasks svc)"

section \<open>A client connected to a server\<close>

definition agent_loopback :: "('m \<Rightarrow> 'h) \<Rightarrow> 'm \<Rightarrow> 'e \<Rightarrow> ('h, 'e, 's) AgentService \<Rightarrow> 's v3_agent_AgentClient" where
  "agent_loopback ih m e svc = \<lparr>
     v3_agent_AgentClient.create_task = (\<lambda>ws. AgentService_create_task ih svc (direct_request m e (as_received ws))),
     v3_agent_AgentClient.create_results_meta_data = (\<lambda>w. AgentService_create_results_meta_data ih svc (direct_request m e w)),
     v3_agent_AgentClient.create_results = (\<lambda>w. AgentService_create_results ih svc (direct_request m e w)),
     v3_agent_AgentClient.notify_result_data = (\<lambda>w. AgentService_notify_result_data ih svc (direct_request m e w)),
     v3_agent_AgentClient.submit_tasks = (\<lambda>w. AgentService_submit_tasks ih svc (direct_request m e w)),
     v3_agent_AgentClient.get_resource_data = (\<lambda>w. AgentService_get_resource_data ih svc (direct_request m e w)),
     v3_agent_AgentClient.get_common_data = (\<lambda>w. AgentService_get_common_data ih svc (direct_request m e w)),
     v3_agent_AgentClient.get_direct_data = (\<lambda>w. AgentService_get_direct_data ih svc (direct_request m e w))\<rparr>"

text \<open>The contract of each remote procedure.\<close>

interpretation agent_create_results_metadata_rpc: total_rpc_link
    agent_create_results_metadata_Request_to_v3 agent_create_results_metadata_Request_of_v3
    agent_create_results_metadata_Response_to_v3 agent_create_results_metadata_Response_of_v3
  by unfold_locales

interpretation agent_create_results_rpc: total_rpc_link
    agent_create_results_Request_to_v3 agent_create_results_Request_of_v3
    agent_create_results_Response_to_v3 agent_create_results_Response_of_v3
  by unfold_locales

interpretation agent_notify_result_data_rpc: rpc_link
    agent_notify_result_data_Request_to_v3 agent_notify_result_data_Request_of_v3 "agent_notify_faithful"
    agent_notify_result_data_Response_to_v3 agent_notify_result_data_Response_of_v3 "\<lambda>_. True"
  by unfold_locales

interpretation agent_submit_tasks_rpc: total_rpc_link
    agent_submit_tasks_Request_to_v3 agent_submit_tasks_Request_of_v3
    agent_submit_tasks_Response_to_v3 agent_submit_tasks_Response_of_v3
  by unfold_locales

interpretation agent_get_resource_data_rpc: total_rpc_link
    agent_get_resource_data_Request_to_v3 agent_get_resource_data_Request_of_v3
    agent_get_resource_data_Response_to_v3 agent_get_resource_data_Response_of_v3
  by unfold_locales

interpretation agent_get_common_data_rpc: total_rpc_link
    agent_get_common_data_Request_to_v3 agent_get_common_data_Request_of_v3
    agent_get_common_data_Response_to_v3 agent_get_common_data_Response_of_v3
  by unfold_locales

interpretation agent_get_direct_data_rpc: total_rpc_link
    agent_get_direct_data_Request_to_v3 agent_get_direct_data_Request_of_v3
    agent_get_direct_data_Response_to_v3 agent_get_direct_data_Response_of_v3
  by unfold_locales

interpretation agent_create_tasks_rpc: total_rpc_link
    agent_create_tasks_Request_to_v3 agent_create_tasks_Request_of_v3
    agent_create_tasks_Response_to_v3 agent_create_tasks_Response_of_v3
  by unfold_locales

lemmas agent_link_defs = agent_loopback_def agent_client_defs
  AgentService_create_results_meta_data_def AgentService_create_results_def AgentService_notify_result_data_def AgentService_submit_tasks_def AgentService_get_resource_data_def AgentService_get_common_data_def AgentService_get_direct_data_def AgentService_create_task_def

lemma Agent_call_create_results_metadata_transparent:
  "Agent_call_create_results_metadata (agent_loopback ih m e svc) r s =
     in_process (AgentService.create_results_metadata svc r (direct_context ih m e) s)"
  by (simp add: agent_link_defs)

lemma Agent_call_create_results_transparent:
  "Agent_call_create_results (agent_loopback ih m e svc) r s =
     in_process (AgentService.create_results svc r (direct_context ih m e) s)"
  by (simp add: agent_link_defs)

lemma Agent_call_submit_tasks_transparent:
  "Agent_call_submit_tasks (agent_loopback ih m e svc) r s =
     in_process (AgentService.submit_tasks svc r (direct_context ih m e) s)"
  by (simp add: agent_link_defs)

lemma Agent_call_get_resource_data_transparent:
  "Agent_call_get_resource_data (agent_loopback ih m e svc) r s =
     in_process (AgentService.get_resource_data svc r (direct_context ih m e) s)"
  by (simp add: agent_link_defs)

lemma Agent_call_get_common_data_transparent:
  "Agent_call_get_common_data (agent_loopback ih m e svc) r s =
     in_process (AgentService.get_common_data svc r (direct_context ih m e) s)"
  by (simp add: agent_link_defs)

lemma Agent_call_get_direct_data_transparent:
  "Agent_call_get_direct_data (agent_loopback ih m e svc) r s =
     in_process (AgentService.get_direct_data svc r (direct_context ih m e) s)"
  by (simp add: agent_link_defs)

lemma Agent_call_create_tasks_transparent:
  "Agent_call_create_tasks (agent_loopback ih m e svc) r s =
     in_process (AgentService.create_tasks svc (as_received r) (direct_context ih m e) s)"
  by (simp add: agent_link_defs)

lemma agent_raw_calls_once:
  "calls (Agent_call_create_results_metadata (agent_recording cl) req0 (l, c)) = l @ [(''Agent'', ''CreateResultsMetaData'')]"
  "calls (Agent_call_create_results (agent_recording cl) req1 (l, c)) = l @ [(''Agent'', ''CreateResults'')]"
  "calls (Agent_call_notify_result_data (agent_recording cl) req2 (l, c)) = l @ [(''Agent'', ''NotifyResultData'')]"
  "calls (Agent_call_submit_tasks (agent_recording cl) req3 (l, c)) = l @ [(''Agent'', ''SubmitTasks'')]"
  "calls (Agent_call_get_resource_data (agent_recording cl) req4 (l, c)) = l @ [(''Agent'', ''GetResourceData'')]"
  "calls (Agent_call_get_common_data (agent_recording cl) req5 (l, c)) = l @ [(''Agent'', ''GetCommonData'')]"
  "calls (Agent_call_get_direct_data (agent_recording cl) req6 (l, c)) = l @ [(''Agent'', ''GetDirectData'')]"
  "calls (Agent_call_create_tasks (agent_recording cl) req7 (l, c)) = l @ [(''Agent'', ''CreateTask'')]"
  by (simp_all add: agent_client_defs agent_recording_def)

lemma agent_methods_call_once:
  "calls (Agent_notify_result_data (agent_recording cl) token0 session_id0 result_ids0 (l, c)) = l @ [(''Agent'', ''NotifyResultData'')]"
  "calls (Agent_submit_tasks (agent_recording cl) token1 session_id1 task_options1 items1 (l, c)) = l @ [(''Agent'', ''SubmitTasks'')]"
  by (simp_all add: agent_client_defs agent_recording_def)

lemma Agent_call_notify_result_data_transparent:
  assumes "agent_notify_faithful r"
  shows "Agent_call_notify_result_data (agent_loopback ih m e svc) r s =
    in_process (AgentService.notify_result_data svc r (direct_context ih m e) s)"
  using assms by (simp add: agent_link_defs agent_notify_result_data_rpc.unary_transparent)

text \<open>In general a notification that names no result arrives without its session.\<close>

lemma agent_notify_loopback:
  "Agent_call_notify_result_data (agent_loopback ih m e svc) r s = in_process (AgentService.notify_result_data svc
     (if agent_notify_faithful r then r else r\<lparr>agent_notify_result_data_Request.session_id := ''''\<rparr>)
     (direct_context ih m e) s)"
  by (simp add: agent_link_defs unary_loopback agent_notify_normalised)

lemma agent_other_methods_call_once:
  "calls (Agent_create_results_metadata (agent_recording cl) t1 s1 ns (l, c)) = l @ [(''Agent'', ''CreateResultsMetaData'')]"
  "calls (Agent_create_results (agent_recording cl) t2 s2 rs (l, c)) = l @ [(''Agent'', ''CreateResults'')]"
  "calls (Agent_create_tasks (agent_recording cl) reqs (l, c)) = l @ [(''Agent'', ''CreateTask'')]"
  by (simp_all add: agent_client_defs agent_recording_def)

end
