(* ===== verification/Agent_Tests.thy ===== *)
theory Agent_Tests
  imports Agent_Service
begin

text \<open>
  The unit tests of \<^verbatim>\<open>client/agent.rs\<close>: each is the counter it reads and the call it makes, with the arguments of the
  source. Against the mock server a test passes exactly when the answer to its call is the one it expects.
\<close>

definition Agent_test_create_results_metadata :: "('c v3_agent_AgentClient, 'c) client_test" where
  "Agent_test_create_results_metadata = \<lparr>
     client_test.counter_service = ''Agent'', client_test.counter_rpc = ''CreateResultsMetaData'',
     client_test.test_call = (\<lambda>cl c. unwrap (Agent_create_results_metadata cl ''token'' ''session-id'' [''result1'', ''result2''] c))\<rparr>"

definition Agent_test_create_results :: "('c v3_agent_AgentClient, 'c) client_test" where
  "Agent_test_create_results = \<lparr>
     client_test.counter_service = ''Agent'', client_test.counter_rpc = ''CreateResults'',
     client_test.test_call = (\<lambda>cl c. unwrap (Agent_create_results cl ''token'' ''session-id'' [(''result1'', map of_char ''payload'')] c))\<rparr>"

definition Agent_test_notify_result_data :: "('c v3_agent_AgentClient, 'c) client_test" where
  "Agent_test_notify_result_data = \<lparr>
     client_test.counter_service = ''Agent'', client_test.counter_rpc = ''NotifyResultData'',
     client_test.test_call = (\<lambda>cl c. unwrap (Agent_notify_result_data cl ''token'' ''session-id'' [''result1'', ''result2''] c))\<rparr>"

definition Agent_test_submit :: "('c v3_agent_AgentClient, 'c) client_test" where
  "Agent_test_submit = \<lparr>
     client_test.counter_service = ''Agent'', client_test.counter_rpc = ''SubmitTasks'',
     client_test.test_call = (\<lambda>cl c. unwrap (Agent_submit_tasks cl ''token'' ''session-id'' None [] c))\<rparr>"

definition Agent_test_create_tasks :: "('c v3_agent_AgentClient, 'c) client_test" where
  "Agent_test_create_tasks = \<lparr>
     client_test.counter_service = ''Agent'', client_test.counter_rpc = ''CreateTask'',
     client_test.test_call = (\<lambda>cl c. unwrap (Agent_create_tasks cl (stream_iter [agent_create_tasks_Request.Invalid]) c))\<rparr>"

definition Agent_test_create_results_metadata_call :: "('c v3_agent_AgentClient, 'c) client_test" where
  "Agent_test_create_results_metadata_call = \<lparr>
     client_test.counter_service = ''Agent'', client_test.counter_rpc = ''CreateResultsMetaData'',
     client_test.test_call = (\<lambda>cl c. unwrap (Agent_call_create_results_metadata cl \<lparr>agent_create_results_metadata_Request.communication_token = ''token'', agent_create_results_metadata_Request.results = [], agent_create_results_metadata_Request.session_id = ''session-id''\<rparr> c))\<rparr>"

definition Agent_test_create_results_call :: "('c v3_agent_AgentClient, 'c) client_test" where
  "Agent_test_create_results_call = \<lparr>
     client_test.counter_service = ''Agent'', client_test.counter_rpc = ''CreateResults'',
     client_test.test_call = (\<lambda>cl c. unwrap (Agent_call_create_results cl \<lparr>agent_create_results_Request.communication_token = ''token'', agent_create_results_Request.results = [], agent_create_results_Request.session_id = ''session-id''\<rparr> c))\<rparr>"

definition Agent_test_notify_result_data_call :: "('c v3_agent_AgentClient, 'c) client_test" where
  "Agent_test_notify_result_data_call = \<lparr>
     client_test.counter_service = ''Agent'', client_test.counter_rpc = ''NotifyResultData'',
     client_test.test_call = (\<lambda>cl c. unwrap (Agent_call_notify_result_data cl \<lparr>agent_notify_result_data_Request.communication_token = ''token'', agent_notify_result_data_Request.session_id = ''session-id'', agent_notify_result_data_Request.result_ids = []\<rparr> c))\<rparr>"

definition Agent_test_submit_tasks_call :: "('c v3_agent_AgentClient, 'c) client_test" where
  "Agent_test_submit_tasks_call = \<lparr>
     client_test.counter_service = ''Agent'', client_test.counter_rpc = ''SubmitTasks'',
     client_test.test_call = (\<lambda>cl c. unwrap (Agent_call_submit_tasks cl \<lparr>agent_submit_tasks_Request.communication_token = ''token'', agent_submit_tasks_Request.session_id = ''session-id'', agent_submit_tasks_Request.task_options = None, agent_submit_tasks_Request.items = []\<rparr> c))\<rparr>"

definition Agent_test_get_resource_data_call :: "('c v3_agent_AgentClient, 'c) client_test" where
  "Agent_test_get_resource_data_call = \<lparr>
     client_test.counter_service = ''Agent'', client_test.counter_rpc = ''GetResourceData'',
     client_test.test_call = (\<lambda>cl c. unwrap (Agent_call_get_resource_data cl \<lparr>agent_get_resource_data_Request.communication_token = ''token'', agent_get_resource_data_Request.result_id = ''result-id''\<rparr> c))\<rparr>"

definition Agent_test_get_common_data_call :: "('c v3_agent_AgentClient, 'c) client_test" where
  "Agent_test_get_common_data_call = \<lparr>
     client_test.counter_service = ''Agent'', client_test.counter_rpc = ''GetCommonData'',
     client_test.test_call = (\<lambda>cl c. unwrap (Agent_call_get_common_data cl \<lparr>agent_get_common_data_Request.communication_token = ''token'', agent_get_common_data_Request.result_id = ''result-id''\<rparr> c))\<rparr>"

definition Agent_test_get_direct_data_call :: "('c v3_agent_AgentClient, 'c) client_test" where
  "Agent_test_get_direct_data_call = \<lparr>
     client_test.counter_service = ''Agent'', client_test.counter_rpc = ''GetDirectData'',
     client_test.test_call = (\<lambda>cl c. unwrap (Agent_call_get_direct_data cl \<lparr>agent_get_direct_data_Request.communication_token = ''token'', agent_get_direct_data_Request.result_id = ''result-id''\<rparr> c))\<rparr>"

definition Agent_test_create_tasks_call :: "('c v3_agent_AgentClient, 'c) client_test" where
  "Agent_test_create_tasks_call = \<lparr>
     client_test.counter_service = ''Agent'', client_test.counter_rpc = ''CreateTask'',
     client_test.test_call = (\<lambda>cl c. unwrap (Agent_call_create_tasks cl (stream_iter [agent_create_tasks_Request.Invalid]) c))\<rparr>"

definition Agent_tests :: "('c v3_agent_AgentClient, 'c) client_test list" where
  "Agent_tests = [
     Agent_test_create_results_metadata,
     Agent_test_create_results,
     Agent_test_notify_result_data,
     Agent_test_submit,
     Agent_test_create_tasks,
     Agent_test_create_results_metadata_call,
     Agent_test_create_results_call,
     Agent_test_notify_result_data_call,
     Agent_test_submit_tasks_call,
     Agent_test_get_resource_data_call,
     Agent_test_get_common_data_call,
     Agent_test_get_direct_data_call,
     Agent_test_create_tasks_call]"

section \<open>The answers of the mock server\<close>

text \<open>
  The class of the mock server that implements the service, as the stub of a client connected to it. A field that is not set
  has its default. Its methods keep no state; one that is sent a stream reads it to its end, which the streams of the tests
  have.
\<close>

definition agent_mock :: "'c v3_agent_AgentClient" where
  "agent_mock = \<lparr>
     v3_agent_AgentClient.create_task = (\<lambda>r c. (Inr \<lparr>v3_agent_CreateTaskReply.response = Some (v3_agent_create_task_reply_Response.CreationStatusList \<lparr>v3_agent_create_task_reply_CreationStatusList.creation_statuses = []\<rparr>), v3_agent_CreateTaskReply.communication_token = ''communication-token''\<rparr>, c)),
     v3_agent_AgentClient.create_results_meta_data = (\<lambda>r c. (Inr \<lparr>v3_agent_CreateResultsMetaDataResponse.results = [], v3_agent_CreateResultsMetaDataResponse.communication_token = v3_agent_CreateResultsMetaDataRequest.communication_token r\<rparr>, c)),
     v3_agent_AgentClient.create_results = (\<lambda>r c. (Inr \<lparr>v3_agent_CreateResultsResponse.results = [], v3_agent_CreateResultsResponse.communication_token = v3_agent_CreateResultsRequest.communication_token r\<rparr>, c)),
     v3_agent_AgentClient.notify_result_data = (\<lambda>r c. (Inr \<lparr>v3_agent_NotifyResultDataResponse.result_ids = map v3_agent_notify_result_data_request_ResultIdentifier.result_id (v3_agent_NotifyResultDataRequest.ids r)\<rparr>, c)),
     v3_agent_AgentClient.submit_tasks = (\<lambda>r c. (Inr \<lparr>v3_agent_SubmitTasksResponse.task_infos = [], v3_agent_SubmitTasksResponse.communication_token = v3_agent_SubmitTasksRequest.communication_token r\<rparr>, c)),
     v3_agent_AgentClient.get_resource_data = (\<lambda>r c. (Inr \<lparr>v3_agent_DataResponse.result_id = v3_agent_DataRequest.result_id r\<rparr>, c)),
     v3_agent_AgentClient.get_common_data = (\<lambda>r c. (Inr \<lparr>v3_agent_DataResponse.result_id = v3_agent_DataRequest.result_id r\<rparr>, c)),
     v3_agent_AgentClient.get_direct_data = (\<lambda>r c. (Inr \<lparr>v3_agent_DataResponse.result_id = v3_agent_DataRequest.result_id r\<rparr>, c))\<rparr>"

section \<open>When the tests pass\<close>

lemma Agent_test_create_results_metadata_iff:
  "length l < 2 ^ 63 - 1 \<Longrightarrow> counted mock_counter (\<lambda>_. Some (agent_recording cl)) Agent_test_create_results_metadata (l, c) \<longleftrightarrow>
     fst (test_call Agent_test_create_results_metadata cl c)"
  by (rule counted_iff [where rec = agent_recording and svc = "''Agent''" and rpc = "''CreateResultsMetaData''"])
    (simp_all add: Agent_test_create_results_metadata_def agent_client_defs agent_recording_def logged_simps counts_simps)

lemma Agent_test_create_results_iff:
  "length l < 2 ^ 63 - 1 \<Longrightarrow> counted mock_counter (\<lambda>_. Some (agent_recording cl)) Agent_test_create_results (l, c) \<longleftrightarrow>
     fst (test_call Agent_test_create_results cl c)"
  by (rule counted_iff [where rec = agent_recording and svc = "''Agent''" and rpc = "''CreateResults''"])
    (simp_all add: Agent_test_create_results_def agent_client_defs agent_recording_def logged_simps counts_simps)

lemma Agent_test_notify_result_data_iff:
  "length l < 2 ^ 63 - 1 \<Longrightarrow> counted mock_counter (\<lambda>_. Some (agent_recording cl)) Agent_test_notify_result_data (l, c) \<longleftrightarrow>
     fst (test_call Agent_test_notify_result_data cl c)"
  by (rule counted_iff [where rec = agent_recording and svc = "''Agent''" and rpc = "''NotifyResultData''"])
    (simp_all add: Agent_test_notify_result_data_def agent_client_defs agent_recording_def logged_simps counts_simps)

lemma Agent_test_submit_iff:
  "length l < 2 ^ 63 - 1 \<Longrightarrow> counted mock_counter (\<lambda>_. Some (agent_recording cl)) Agent_test_submit (l, c) \<longleftrightarrow>
     fst (test_call Agent_test_submit cl c)"
  by (rule counted_iff [where rec = agent_recording and svc = "''Agent''" and rpc = "''SubmitTasks''"])
    (simp_all add: Agent_test_submit_def agent_client_defs agent_recording_def logged_simps counts_simps)

lemma Agent_test_create_tasks_iff:
  "length l < 2 ^ 63 - 1 \<Longrightarrow> counted mock_counter (\<lambda>_. Some (agent_recording cl)) Agent_test_create_tasks (l, c) \<longleftrightarrow>
     fst (test_call Agent_test_create_tasks cl c)"
  by (rule counted_iff [where rec = agent_recording and svc = "''Agent''" and rpc = "''CreateTask''"])
    (simp_all add: Agent_test_create_tasks_def agent_client_defs agent_recording_def logged_simps counts_simps)

lemma Agent_test_create_results_metadata_call_iff:
  "length l < 2 ^ 63 - 1 \<Longrightarrow> counted mock_counter (\<lambda>_. Some (agent_recording cl)) Agent_test_create_results_metadata_call (l, c) \<longleftrightarrow>
     fst (test_call Agent_test_create_results_metadata_call cl c)"
  by (rule counted_iff [where rec = agent_recording and svc = "''Agent''" and rpc = "''CreateResultsMetaData''"])
    (simp_all add: Agent_test_create_results_metadata_call_def agent_client_defs agent_recording_def logged_simps counts_simps)

lemma Agent_test_create_results_call_iff:
  "length l < 2 ^ 63 - 1 \<Longrightarrow> counted mock_counter (\<lambda>_. Some (agent_recording cl)) Agent_test_create_results_call (l, c) \<longleftrightarrow>
     fst (test_call Agent_test_create_results_call cl c)"
  by (rule counted_iff [where rec = agent_recording and svc = "''Agent''" and rpc = "''CreateResults''"])
    (simp_all add: Agent_test_create_results_call_def agent_client_defs agent_recording_def logged_simps counts_simps)

lemma Agent_test_notify_result_data_call_iff:
  "length l < 2 ^ 63 - 1 \<Longrightarrow> counted mock_counter (\<lambda>_. Some (agent_recording cl)) Agent_test_notify_result_data_call (l, c) \<longleftrightarrow>
     fst (test_call Agent_test_notify_result_data_call cl c)"
  by (rule counted_iff [where rec = agent_recording and svc = "''Agent''" and rpc = "''NotifyResultData''"])
    (simp_all add: Agent_test_notify_result_data_call_def agent_client_defs agent_recording_def logged_simps counts_simps)

lemma Agent_test_submit_tasks_call_iff:
  "length l < 2 ^ 63 - 1 \<Longrightarrow> counted mock_counter (\<lambda>_. Some (agent_recording cl)) Agent_test_submit_tasks_call (l, c) \<longleftrightarrow>
     fst (test_call Agent_test_submit_tasks_call cl c)"
  by (rule counted_iff [where rec = agent_recording and svc = "''Agent''" and rpc = "''SubmitTasks''"])
    (simp_all add: Agent_test_submit_tasks_call_def agent_client_defs agent_recording_def logged_simps counts_simps)

lemma Agent_test_get_resource_data_call_iff:
  "length l < 2 ^ 63 - 1 \<Longrightarrow> counted mock_counter (\<lambda>_. Some (agent_recording cl)) Agent_test_get_resource_data_call (l, c) \<longleftrightarrow>
     fst (test_call Agent_test_get_resource_data_call cl c)"
  by (rule counted_iff [where rec = agent_recording and svc = "''Agent''" and rpc = "''GetResourceData''"])
    (simp_all add: Agent_test_get_resource_data_call_def agent_client_defs agent_recording_def logged_simps counts_simps)

lemma Agent_test_get_common_data_call_iff:
  "length l < 2 ^ 63 - 1 \<Longrightarrow> counted mock_counter (\<lambda>_. Some (agent_recording cl)) Agent_test_get_common_data_call (l, c) \<longleftrightarrow>
     fst (test_call Agent_test_get_common_data_call cl c)"
  by (rule counted_iff [where rec = agent_recording and svc = "''Agent''" and rpc = "''GetCommonData''"])
    (simp_all add: Agent_test_get_common_data_call_def agent_client_defs agent_recording_def logged_simps counts_simps)

lemma Agent_test_get_direct_data_call_iff:
  "length l < 2 ^ 63 - 1 \<Longrightarrow> counted mock_counter (\<lambda>_. Some (agent_recording cl)) Agent_test_get_direct_data_call (l, c) \<longleftrightarrow>
     fst (test_call Agent_test_get_direct_data_call cl c)"
  by (rule counted_iff [where rec = agent_recording and svc = "''Agent''" and rpc = "''GetDirectData''"])
    (simp_all add: Agent_test_get_direct_data_call_def agent_client_defs agent_recording_def logged_simps counts_simps)

lemma Agent_test_create_tasks_call_iff:
  "length l < 2 ^ 63 - 1 \<Longrightarrow> counted mock_counter (\<lambda>_. Some (agent_recording cl)) Agent_test_create_tasks_call (l, c) \<longleftrightarrow>
     fst (test_call Agent_test_create_tasks_call cl c)"
  by (rule counted_iff [where rec = agent_recording and svc = "''Agent''" and rpc = "''CreateTask''"])
    (simp_all add: Agent_test_create_tasks_call_def agent_client_defs agent_recording_def logged_simps counts_simps)

lemma Agent_tests_iff:
  "length l < 2 ^ 63 - 1 \<Longrightarrow>
     map (\<lambda>t. counted mock_counter (\<lambda>_. Some (agent_recording cl)) t (l, c)) Agent_tests =
     map (\<lambda>t. fst (test_call t cl c)) Agent_tests"
  by (simp add: Agent_tests_def
      Agent_test_create_results_metadata_iff
      Agent_test_create_results_iff
      Agent_test_notify_result_data_iff
      Agent_test_submit_iff
      Agent_test_create_tasks_iff
      Agent_test_create_results_metadata_call_iff
      Agent_test_create_results_call_iff
      Agent_test_notify_result_data_call_iff
      Agent_test_submit_tasks_call_iff
      Agent_test_get_resource_data_call_iff
      Agent_test_get_common_data_call_iff
      Agent_test_get_direct_data_call_iff
      Agent_test_create_tasks_call_iff)

text \<open>The mock server answers all of them as they expect.\<close>

lemma agent_mock_answers: "list_all (\<lambda>t. fst (test_call t agent_mock c)) Agent_tests"
  by (simp add: Agent_tests_def agent_mock_def agent_create_tasks_Response_of_v3_def agent_create_tasks_Status_of_v3_def mock_simps agent_client_defs
      Agent_test_create_results_metadata_def
      Agent_test_create_results_def
      Agent_test_notify_result_data_def
      Agent_test_submit_def
      Agent_test_create_tasks_def
      Agent_test_create_results_metadata_call_def
      Agent_test_create_results_call_def
      Agent_test_notify_result_data_call_def
      Agent_test_submit_tasks_call_def
      Agent_test_get_resource_data_call_def
      Agent_test_get_common_data_call_def
      Agent_test_get_direct_data_call_def
      Agent_test_create_tasks_call_def)

lemma Agent_tests_pass:
  "length l < 2 ^ 63 - 1 \<Longrightarrow>
     list_all (\<lambda>t. counted mock_counter (\<lambda>_. Some (agent_recording agent_mock)) t (l, c)) Agent_tests"
  by (rule list_all_decided [OF _ agent_mock_answers]) (rule Agent_tests_iff)

section \<open>The integration tests\<close>

text \<open>
  \<^verbatim>\<open>tests/agent.rs\<close>: the service that the tests start, and the tests that depend on no clock,
  each on a client \<open>cl\<close> connected to it. The handler of \<^verbatim>\<open>create_tasks\<close>, where
  the stream never ends, is the one of \<open>svc\<close>.
\<close>

partial_function (option) agent_read_requests ::
  "string option \<Rightarrow> (tonic_Status + agent_create_tasks_Request) Stream \<Rightarrow> (tonic_Status + string option) option" where
  "agent_read_requests token rs = (case rs of
       SNil \<Rightarrow> Some (Inr token)
     | SCons (Inl err) _ \<Rightarrow> Some (Inl err)
     | SCons (Inr (agent_create_tasks_Request.InitTaskRequest communication_token' _)) rs' \<Rightarrow>
         agent_read_requests (Some communication_token') rs'
     | SCons (Inr _) rs' \<Rightarrow> agent_read_requests token rs')"

lemma agent_read_requests_simps [simp]:
  "agent_read_requests token SNil = Some (Inr token)"
  "agent_read_requests token (SCons (Inl err) rs) = Some (Inl err)"
  "agent_read_requests token (SCons (Inr r) rs) = agent_read_requests
     (case r of agent_create_tasks_Request.InitTaskRequest communication_token' _ \<Rightarrow> Some communication_token' | _ \<Rightarrow> token) rs"
  by (subst agent_read_requests.simps, simp split: agent_create_tasks_Request.split)+

text \<open>A stream that ends is read to its end or to its first error.\<close>

lemma agent_read_requests_returns: "\<exists>r. agent_read_requests token (stream_iter rs) = Some r"
proof (induction rs arbitrary: token)
  case (Cons x rs)
  then show ?case by (cases x) simp_all
qed simp

definition agent_test_service ::
  "tonic_Status option \<Rightarrow> ('h, 'e, 's) AgentService \<Rightarrow> ('h, 'e, 's) AgentService" where
  "agent_test_service fails svc = svc\<lparr>
     AgentService.create_results_metadata := (\<lambda>r ctx. unary_rpc_impl fails \<lparr>agent_create_results_metadata_Response.communication_token = agent_create_results_metadata_Request.communication_token r, agent_create_results_metadata_Response.results = map (\<lambda>i. (agent_ResultMetaData_default\<lparr>agent_ResultMetaData.session_id := ''rpc-create-results-metadata-output'', agent_ResultMetaData.name := agent_create_results_metadata_RequestItem.name i\<rparr>)) (agent_create_results_metadata_Request.results r)\<rparr>),
     AgentService.create_results := (\<lambda>r ctx. unary_rpc_impl fails \<lparr>agent_create_results_Response.communication_token = agent_create_results_Request.communication_token r, agent_create_results_Response.results = map (\<lambda>i. (agent_ResultMetaData_default\<lparr>agent_ResultMetaData.name := agent_create_results_RequestItem.name i, agent_ResultMetaData.session_id := ''rpc-create-results-output''\<rparr>)) (agent_create_results_Request.results r)\<rparr>),
     AgentService.notify_result_data := (\<lambda>r ctx. unary_rpc_impl fails \<lparr>agent_notify_result_data_Response.result_ids = [agent_notify_result_data_Request.communication_token r, ''rpc-notify-result-data-output'']\<rparr>),
     AgentService.submit_tasks := (\<lambda>r ctx. unary_rpc_impl fails \<lparr>agent_submit_tasks_Response.communication_token = agent_submit_tasks_Request.communication_token r, agent_submit_tasks_Response.items = [(agent_submit_tasks_ResponseItem_default\<lparr>agent_submit_tasks_ResponseItem.task_id := ''rpc-submit-tasks-output''\<rparr>)]\<rparr>),
     AgentService.get_resource_data := (\<lambda>r ctx. unary_rpc_impl fails \<lparr>agent_get_resource_data_Response.result_id = ''rpc-get-resource-data-output''\<rparr>),
     AgentService.get_common_data := (\<lambda>r ctx. unary_rpc_impl fails \<lparr>agent_get_common_data_Response.result_id = ''rpc-get-common-data-output''\<rparr>),
     AgentService.get_direct_data := (\<lambda>r ctx. unary_rpc_impl fails \<lparr>agent_get_direct_data_Response.result_id = ''rpc-get-direct-data-output''\<rparr>),
     AgentService.create_tasks := (\<lambda>rs ctx s. case agent_read_requests None rs of
         None \<Rightarrow> AgentService.create_tasks svc rs ctx s
       | Some (Inl err) \<Rightarrow> (Inl err, s)
       | Some (Inr token) \<Rightarrow> unary_rpc_impl fails (agent_create_tasks_Response.Status (case token of None \<Rightarrow> [] | Some t \<Rightarrow> t)
           [agent_create_tasks_Status.TaskInfo ''rpc-create-tasks-output'' [] [] []]) s)\<rparr>"

definition Agent_integration_create_results_metadata :: "'c v3_agent_AgentClient \<Rightarrow> 'c \<Rightarrow> bool" where
  "Agent_integration_create_results_metadata cl s \<longleftrightarrow> expects (\<lambda>p.
       indexed 0 (\<lambda>x. agent_ResultMetaData.session_id x = ''rpc-create-results-metadata-output'') p)
     (Agent_create_results_metadata cl ''rpc-create-results-metadata-input'' [] [''result-id''] s)"

definition Agent_integration_create_results :: "'c v3_agent_AgentClient \<Rightarrow> 'c \<Rightarrow> bool" where
  "Agent_integration_create_results cl s \<longleftrightarrow> expects (\<lambda>p.
       indexed 0 (\<lambda>x. agent_ResultMetaData.session_id x = ''rpc-create-results-output'') p)
     (Agent_create_results cl ''rpc-create-results-input'' [] [(''result-id'', [])] s)"

definition Agent_integration_notify_result_data :: "'c v3_agent_AgentClient \<Rightarrow> 'c \<Rightarrow> bool" where
  "Agent_integration_notify_result_data cl s \<longleftrightarrow> expects (\<lambda>p.
       indexed 0 (\<lambda>x. x = ''rpc-notify-result-data-input'') p
     \<and> indexed 1 (\<lambda>x. x = ''rpc-notify-result-data-output'') p)
     (Agent_notify_result_data cl ''rpc-notify-result-data-input'' [] [[]] s)"

definition Agent_integration_submit_tasks :: "'c v3_agent_AgentClient \<Rightarrow> 'c \<Rightarrow> bool" where
  "Agent_integration_submit_tasks cl s \<longleftrightarrow> expects (\<lambda>p.
       indexed 0 (\<lambda>x. agent_submit_tasks_ResponseItem.task_id x = ''rpc-submit-tasks-output'') p)
     (Agent_submit_tasks cl ''rpc-submit-tasks-input'' [] None [] s)"

definition Agent_integration_get_resource_data :: "'c v3_agent_AgentClient \<Rightarrow> 'c \<Rightarrow> bool" where
  "Agent_integration_get_resource_data cl s \<longleftrightarrow> expects (\<lambda>p.
       agent_get_resource_data_Response.result_id p = ''rpc-get-resource-data-output'')
     (Agent_call_get_resource_data cl \<lparr>agent_get_resource_data_Request.communication_token = ''rpc-get-resource-data-input'', agent_get_resource_data_Request.result_id = []\<rparr> s)"

definition Agent_integration_get_common_data :: "'c v3_agent_AgentClient \<Rightarrow> 'c \<Rightarrow> bool" where
  "Agent_integration_get_common_data cl s \<longleftrightarrow> expects (\<lambda>p.
       agent_get_common_data_Response.result_id p = ''rpc-get-common-data-output'')
     (Agent_call_get_common_data cl \<lparr>agent_get_common_data_Request.communication_token = ''rpc-get-common-data-input'', agent_get_common_data_Request.result_id = []\<rparr> s)"

definition Agent_integration_get_direct_data :: "'c v3_agent_AgentClient \<Rightarrow> 'c \<Rightarrow> bool" where
  "Agent_integration_get_direct_data cl s \<longleftrightarrow> expects (\<lambda>p.
       agent_get_direct_data_Response.result_id p = ''rpc-get-direct-data-output'')
     (Agent_call_get_direct_data cl \<lparr>agent_get_direct_data_Request.communication_token = ''rpc-get-direct-data-input'', agent_get_direct_data_Request.result_id = []\<rparr> s)"

definition Agent_integration_create_tasks :: "'c v3_agent_AgentClient \<Rightarrow> 'c \<Rightarrow> bool" where
  "Agent_integration_create_tasks cl s \<longleftrightarrow> expects (\<lambda>p.
       indexed 0 (\<lambda>x. case x of agent_create_tasks_Status.TaskInfo task_id' _ _ _ \<Rightarrow> task_id' = ''rpc-create-tasks-output''
         | agent_create_tasks_Status.Error _ \<Rightarrow> False) p)
     (Agent_create_tasks cl (stream_iter [agent_create_tasks_Request.InitRequest ''rpc-create-tasks-input''
       \<lparr>agent_create_tasks_InitRequest.task_options = None\<rparr>]) s)"

definition Agent_integration :: "('c v3_agent_AgentClient \<Rightarrow> 'c \<Rightarrow> bool) list" where
  "Agent_integration = [
     Agent_integration_create_results_metadata,
     Agent_integration_create_results,
     Agent_integration_notify_result_data,
     Agent_integration_submit_tasks,
     Agent_integration_get_resource_data,
     Agent_integration_get_common_data,
     Agent_integration_get_direct_data,
     Agent_integration_create_tasks]"

text \<open>They pass, whatever the state of the service.\<close>

lemmas agent_integration_defs = Agent_integration_def agent_test_service_def indexed_def
  Agent_integration_create_results_metadata_def
  Agent_integration_create_results_def
  Agent_integration_notify_result_data_def
  Agent_integration_submit_tasks_def
  Agent_integration_get_resource_data_def
  Agent_integration_get_common_data_def
  Agent_integration_get_direct_data_def
  Agent_integration_create_tasks_def

lemma Agent_integration_passes:
  "list_all (\<lambda>t. t (agent_loopback ih m e (agent_test_service None svc)) s) (Agent_integration)"
  by (simp add: agent_integration_defs agent_notify_loopback into_collect_def as_received_def and_then_def expects_def in_process_def unary_rpc_impl_def map_ok_def
    Agent_create_results_def Agent_create_results_metadata_def Agent_create_tasks_def Agent_notify_result_data_def Agent_submit_tasks_def
    Agent_call_create_results_metadata_transparent Agent_call_create_results_transparent Agent_call_create_tasks_transparent Agent_call_get_common_data_transparent Agent_call_get_direct_data_transparent Agent_call_get_resource_data_transparent Agent_call_notify_result_data_transparent Agent_call_submit_tasks_transparent)

end
