(* ===== verification/Auth_Health_Versions.thy ===== *)
theory Auth_Health_Versions
  imports Common_Objects
begin

text \<open>
  Objects of the three small services: authentication (\<^verbatim>\<open>objects/auth\<close>), health checks
  (\<^verbatim>\<open>objects/health_checks\<close>) and versions (\<^verbatim>\<open>objects/versions\<close>).
\<close>

section \<open>Authentication\<close>

record v3_auth_User =
  username :: string
  roles :: "string list"
  permissions :: "string list"

datatype v3_auth_GetCurrentUserRequest = v3_auth_GetCurrentUserRequest

record v3_auth_GetCurrentUserResponse =
  user :: "v3_auth_User option"

record auth_User =
  username :: string
  roles :: "string list"
  permissions :: "string list"

definition auth_User_default :: auth_User where
  "auth_User_default = \<lparr>
     auth_User.username = '''',
     auth_User.roles = [],
     auth_User.permissions = []\<rparr>"

definition auth_User_to_v3 :: "auth_User \<Rightarrow> v3_auth_User" where
  "auth_User_to_v3 v = \<lparr>
     v3_auth_User.username = auth_User.username v,
     v3_auth_User.roles = into_collect (\<lambda>x. x) (auth_User.roles v),
     v3_auth_User.permissions = into_collect (\<lambda>x. x) (auth_User.permissions v)\<rparr>"

definition auth_User_of_v3 :: "v3_auth_User \<Rightarrow> auth_User" where
  "auth_User_of_v3 v = \<lparr>
     auth_User.username = v3_auth_User.username v,
     auth_User.roles = into_collect (\<lambda>x. x) (v3_auth_User.roles v),
     auth_User.permissions = into_collect (\<lambda>x. x) (v3_auth_User.permissions v)\<rparr>"

interpretation auth_User_codec: wire_codec auth_User_to_v3 auth_User_of_v3
  by unfold_locales (simp add: auth_User_to_v3_def auth_User_of_v3_def)

datatype auth_current_user_Request = auth_current_user_Request

definition auth_current_user_Request_default :: auth_current_user_Request where
  "auth_current_user_Request_default = auth_current_user_Request"

definition auth_current_user_Request_to_v3 :: "auth_current_user_Request \<Rightarrow> v3_auth_GetCurrentUserRequest" where
  "auth_current_user_Request_to_v3 v = v3_auth_GetCurrentUserRequest"

definition auth_current_user_Request_of_v3 :: "v3_auth_GetCurrentUserRequest \<Rightarrow> auth_current_user_Request" where
  "auth_current_user_Request_of_v3 v = auth_current_user_Request"

interpretation auth_current_user_Request_codec: wire_codec auth_current_user_Request_to_v3 auth_current_user_Request_of_v3
  by unfold_locales (metis auth_current_user_Request.exhaust auth_current_user_Request_of_v3_def)

record auth_current_user_Response =
  user :: auth_User

definition auth_current_user_Response_default :: auth_current_user_Response where
  "auth_current_user_Response_default = \<lparr>
     auth_current_user_Response.user = auth_User_default\<rparr>"

definition auth_current_user_Response_to_v3 :: "auth_current_user_Response \<Rightarrow> v3_auth_GetCurrentUserResponse" where
  "auth_current_user_Response_to_v3 v = \<lparr>
     v3_auth_GetCurrentUserResponse.user = Some (auth_User_to_v3 (auth_current_user_Response.user v))\<rparr>"

definition auth_current_user_Response_of_v3 :: "v3_auth_GetCurrentUserResponse \<Rightarrow> auth_current_user_Response" where
  "auth_current_user_Response_of_v3 v = \<lparr>
     auth_current_user_Response.user = map_or_default auth_User_default auth_User_of_v3 (v3_auth_GetCurrentUserResponse.user v)\<rparr>"

interpretation auth_current_user_Response_codec: wire_codec auth_current_user_Response_to_v3 auth_current_user_Response_of_v3
  by unfold_locales (simp add: auth_current_user_Response_to_v3_def auth_current_user_Response_of_v3_def)

section \<open>Health checks\<close>

datatype health_checks_Status =
    Unspecified
  | Healthy
  | Degraded
  | Unhealthy

primrec health_checks_Status_as_i32 :: "health_checks_Status \<Rightarrow> i32" where
    "health_checks_Status_as_i32 health_checks_Status.Unspecified = 0"
  | "health_checks_Status_as_i32 health_checks_Status.Healthy = 1"
  | "health_checks_Status_as_i32 health_checks_Status.Degraded = 2"
  | "health_checks_Status_as_i32 health_checks_Status.Unhealthy = 3"

definition health_checks_Status_default :: health_checks_Status where
  "health_checks_Status_default = health_checks_Status.Unspecified"

definition health_checks_Status_of_i32 :: "i32 \<Rightarrow> health_checks_Status" where
  "health_checks_Status_of_i32 i =
    (if i = 0 then health_checks_Status.Unspecified
     else if i = 1 then health_checks_Status.Healthy
     else if i = 2 then health_checks_Status.Degraded
     else if i = 3 then health_checks_Status.Unhealthy
     else health_checks_Status_default)"

datatype v3_health_checks_HealthStatusEnum =
    Unspecified
  | Healthy
  | Degraded
  | Unhealthy

primrec v3_health_checks_HealthStatusEnum_as_i32 :: "v3_health_checks_HealthStatusEnum \<Rightarrow> i32" where
    "v3_health_checks_HealthStatusEnum_as_i32 v3_health_checks_HealthStatusEnum.Unspecified = 0"
  | "v3_health_checks_HealthStatusEnum_as_i32 v3_health_checks_HealthStatusEnum.Healthy = 1"
  | "v3_health_checks_HealthStatusEnum_as_i32 v3_health_checks_HealthStatusEnum.Degraded = 2"
  | "v3_health_checks_HealthStatusEnum_as_i32 v3_health_checks_HealthStatusEnum.Unhealthy = 3"

primrec health_checks_Status_to_v3 :: "health_checks_Status \<Rightarrow> v3_health_checks_HealthStatusEnum" where
    "health_checks_Status_to_v3 health_checks_Status.Unspecified = v3_health_checks_HealthStatusEnum.Unspecified"
  | "health_checks_Status_to_v3 health_checks_Status.Healthy = v3_health_checks_HealthStatusEnum.Healthy"
  | "health_checks_Status_to_v3 health_checks_Status.Degraded = v3_health_checks_HealthStatusEnum.Degraded"
  | "health_checks_Status_to_v3 health_checks_Status.Unhealthy = v3_health_checks_HealthStatusEnum.Unhealthy"

primrec health_checks_Status_of_v3 :: "v3_health_checks_HealthStatusEnum \<Rightarrow> health_checks_Status" where
    "health_checks_Status_of_v3 v3_health_checks_HealthStatusEnum.Unspecified = health_checks_Status.Unspecified"
  | "health_checks_Status_of_v3 v3_health_checks_HealthStatusEnum.Healthy = health_checks_Status.Healthy"
  | "health_checks_Status_of_v3 v3_health_checks_HealthStatusEnum.Degraded = health_checks_Status.Degraded"
  | "health_checks_Status_of_v3 v3_health_checks_HealthStatusEnum.Unhealthy = health_checks_Status.Unhealthy"

interpretation health_checks_Status_enum: mirrored_enum health_checks_Status_as_i32 health_checks_Status_of_i32 health_checks_Status_default
    health_checks_Status_to_v3 health_checks_Status_of_v3 v3_health_checks_HealthStatusEnum_as_i32
proof unfold_locales
  fix e
  show "health_checks_Status_of_i32 (health_checks_Status_as_i32 e) = e" by (cases e) (simp_all add: health_checks_Status_of_i32_def health_checks_Status_default_def)
next
  fix i
  assume "health_checks_Status_of_i32 i \<noteq> health_checks_Status_default"
  then show "health_checks_Status_as_i32 (health_checks_Status_of_i32 i) = i"
    by (simp add: health_checks_Status_of_i32_def health_checks_Status_default_def split: if_splits)
next
  fix e
  show "health_checks_Status_of_v3 (health_checks_Status_to_v3 e) = e" by (cases e) simp_all
next
  fix w
  show "health_checks_Status_to_v3 (health_checks_Status_of_v3 w) = w" by (cases w) simp_all
next
  fix e
  show "v3_health_checks_HealthStatusEnum_as_i32 (health_checks_Status_to_v3 e) = health_checks_Status_as_i32 e" by (cases e) simp_all
qed

datatype v3_health_checks_CheckHealthRequest = v3_health_checks_CheckHealthRequest

record v3_health_checks_check_health_response_ServiceHealth =
  name :: string
  message :: string
  healthy :: i32

record v3_health_checks_CheckHealthResponse =
  services :: "v3_health_checks_check_health_response_ServiceHealth list"

record health_checks_ServiceHealth =
  name :: string
  message :: string
  health :: health_checks_Status

definition health_checks_ServiceHealth_default :: health_checks_ServiceHealth where
  "health_checks_ServiceHealth_default = \<lparr>
     health_checks_ServiceHealth.name = '''',
     health_checks_ServiceHealth.message = '''',
     health_checks_ServiceHealth.health = health_checks_Status_default\<rparr>"

definition health_checks_ServiceHealth_to_v3 :: "health_checks_ServiceHealth \<Rightarrow> v3_health_checks_check_health_response_ServiceHealth" where
  "health_checks_ServiceHealth_to_v3 v = \<lparr>
     v3_health_checks_check_health_response_ServiceHealth.name = health_checks_ServiceHealth.name v,
     v3_health_checks_check_health_response_ServiceHealth.message = health_checks_ServiceHealth.message v,
     v3_health_checks_check_health_response_ServiceHealth.healthy = health_checks_Status_as_i32 (health_checks_ServiceHealth.health v)\<rparr>"

definition health_checks_ServiceHealth_of_v3 :: "v3_health_checks_check_health_response_ServiceHealth \<Rightarrow> health_checks_ServiceHealth" where
  "health_checks_ServiceHealth_of_v3 v = \<lparr>
     health_checks_ServiceHealth.name = v3_health_checks_check_health_response_ServiceHealth.name v,
     health_checks_ServiceHealth.message = v3_health_checks_check_health_response_ServiceHealth.message v,
     health_checks_ServiceHealth.health = health_checks_Status_of_i32 (v3_health_checks_check_health_response_ServiceHealth.healthy v)\<rparr>"

interpretation health_checks_ServiceHealth_codec: wire_codec health_checks_ServiceHealth_to_v3 health_checks_ServiceHealth_of_v3
  by unfold_locales (simp add: health_checks_ServiceHealth_to_v3_def health_checks_ServiceHealth_of_v3_def)

datatype health_checks_check_Request = health_checks_check_Request

definition health_checks_check_Request_default :: health_checks_check_Request where
  "health_checks_check_Request_default = health_checks_check_Request"

definition health_checks_check_Request_to_v3 :: "health_checks_check_Request \<Rightarrow> v3_health_checks_CheckHealthRequest" where
  "health_checks_check_Request_to_v3 v = v3_health_checks_CheckHealthRequest"

definition health_checks_check_Request_of_v3 :: "v3_health_checks_CheckHealthRequest \<Rightarrow> health_checks_check_Request" where
  "health_checks_check_Request_of_v3 v = health_checks_check_Request"

interpretation health_checks_check_Request_codec: wire_codec health_checks_check_Request_to_v3 health_checks_check_Request_of_v3
  by unfold_locales (metis health_checks_check_Request.exhaust health_checks_check_Request_of_v3_def)

record health_checks_check_Response =
  services :: "health_checks_ServiceHealth list"

definition health_checks_check_Response_default :: health_checks_check_Response where
  "health_checks_check_Response_default = \<lparr>
     health_checks_check_Response.services = []\<rparr>"

definition health_checks_check_Response_to_v3 :: "health_checks_check_Response \<Rightarrow> v3_health_checks_CheckHealthResponse" where
  "health_checks_check_Response_to_v3 v = \<lparr>
     v3_health_checks_CheckHealthResponse.services = into_collect health_checks_ServiceHealth_to_v3 (health_checks_check_Response.services v)\<rparr>"

definition health_checks_check_Response_of_v3 :: "v3_health_checks_CheckHealthResponse \<Rightarrow> health_checks_check_Response" where
  "health_checks_check_Response_of_v3 v = \<lparr>
     health_checks_check_Response.services = into_collect health_checks_ServiceHealth_of_v3 (v3_health_checks_CheckHealthResponse.services v)\<rparr>"

interpretation health_checks_check_Response_codec: wire_codec health_checks_check_Response_to_v3 health_checks_check_Response_of_v3
  by unfold_locales (simp add: health_checks_check_Response_to_v3_def health_checks_check_Response_of_v3_def)

section \<open>Versions\<close>

datatype v3_versions_ListVersionsRequest = v3_versions_ListVersionsRequest

record v3_versions_ListVersionsResponse =
  core :: string
  api :: string

datatype versions_list_Request = versions_list_Request

definition versions_list_Request_default :: versions_list_Request where
  "versions_list_Request_default = versions_list_Request"

definition versions_list_Request_to_v3 :: "versions_list_Request \<Rightarrow> v3_versions_ListVersionsRequest" where
  "versions_list_Request_to_v3 v = v3_versions_ListVersionsRequest"

definition versions_list_Request_of_v3 :: "v3_versions_ListVersionsRequest \<Rightarrow> versions_list_Request" where
  "versions_list_Request_of_v3 v = versions_list_Request"

interpretation versions_list_Request_codec: wire_codec versions_list_Request_to_v3 versions_list_Request_of_v3
  by unfold_locales (metis versions_list_Request.exhaust versions_list_Request_of_v3_def)

record versions_list_Response =
  core :: string
  api :: string

definition versions_list_Response_default :: versions_list_Response where
  "versions_list_Response_default = \<lparr>
     versions_list_Response.core = '''',
     versions_list_Response.api = ''''\<rparr>"

definition versions_list_Response_to_v3 :: "versions_list_Response \<Rightarrow> v3_versions_ListVersionsResponse" where
  "versions_list_Response_to_v3 v = \<lparr>
     v3_versions_ListVersionsResponse.core = versions_list_Response.core v,
     v3_versions_ListVersionsResponse.api = versions_list_Response.api v\<rparr>"

definition versions_list_Response_of_v3 :: "v3_versions_ListVersionsResponse \<Rightarrow> versions_list_Response" where
  "versions_list_Response_of_v3 v = \<lparr>
     versions_list_Response.core = v3_versions_ListVersionsResponse.core v,
     versions_list_Response.api = v3_versions_ListVersionsResponse.api v\<rparr>"

interpretation versions_list_Response_codec: wire_codec versions_list_Response_to_v3 versions_list_Response_of_v3
  by unfold_locales (simp add: versions_list_Response_to_v3_def versions_list_Response_of_v3_def)

end
