(* ===== verification/Auth_Service.thy ===== *)
theory Auth_Service
  imports Request_Count Auth_Health_Versions
begin

text \<open>
  The auth service: the client (\<^verbatim>\<open>client/auth.rs\<close>) and the server glue (\<^verbatim>\<open>server/auth.rs\<close>) around
  the generated stub and trait, and the composition of the two.
\<close>

section \<open>The generated stub\<close>

record 'c v3_auth_AuthenticationClient =
  get_current_user :: "(v3_auth_GetCurrentUserRequest, 'c, v3_auth_GetCurrentUserResponse) stub"

text \<open>A stub that also records which procedures are called.\<close>

definition auth_recording :: "'c v3_auth_AuthenticationClient \<Rightarrow> 'c recording v3_auth_AuthenticationClient" where
  "auth_recording cl = \<lparr>
     v3_auth_AuthenticationClient.get_current_user = recorded ''Authentication'' ''GetCurrentUser'' (v3_auth_AuthenticationClient.get_current_user cl)\<rparr>"

section \<open>Client\<close>

subsection \<open>Raw calls\<close>

definition Auth_call_current_user :: "'c v3_auth_AuthenticationClient \<Rightarrow> auth_current_user_Request \<Rightarrow> 'c \<Rightarrow> (RequestError + auth_current_user_Response) \<times> 'c" where
  "Auth_call_current_user cl req c =
     unary_call auth_current_user_Request_to_v3 auth_current_user_Response_of_v3 (v3_auth_AuthenticationClient.get_current_user cl) req c"

subsection \<open>Methods\<close>

definition Auth_current_user :: "'c v3_auth_AuthenticationClient \<Rightarrow> 'c \<Rightarrow> (RequestError + auth_User) \<times> 'c" where
  "Auth_current_user cl c =
     map_ok auth_current_user_Response.user (Auth_call_current_user cl auth_current_user_Request c)"

lemmas auth_client_defs =
  Auth_call_current_user_def Auth_current_user_def

section \<open>Server\<close>

record ('h, 'e, 's) AuthService =
  current_user :: "(auth_current_user_Request, 'h, 'e, 's, auth_current_user_Response) handler"

definition AuthService_get_current_user :: "('m \<Rightarrow> 'h) \<Rightarrow> ('h, 'e, 's) AuthService
    \<Rightarrow> ('m, 'e, v3_auth_GetCurrentUserRequest) tonic_Request \<Rightarrow> 's \<Rightarrow> (tonic_Status + v3_auth_GetCurrentUserResponse) \<times> 's" where
  "AuthService_get_current_user ih svc =
     unary_server ih auth_current_user_Request_of_v3 auth_current_user_Response_to_v3 (AuthService.current_user svc)"

section \<open>A client connected to a server\<close>

definition auth_loopback :: "('m \<Rightarrow> 'h) \<Rightarrow> 'm \<Rightarrow> 'e \<Rightarrow> ('h, 'e, 's) AuthService \<Rightarrow> 's v3_auth_AuthenticationClient" where
  "auth_loopback ih m e svc = \<lparr>
     v3_auth_AuthenticationClient.get_current_user = (\<lambda>w. AuthService_get_current_user ih svc (direct_request m e w))\<rparr>"

text \<open>The contract of each remote procedure.\<close>

interpretation auth_current_user_rpc: total_rpc_link
    auth_current_user_Request_to_v3 auth_current_user_Request_of_v3
    auth_current_user_Response_to_v3 auth_current_user_Response_of_v3
  by unfold_locales

lemmas auth_link_defs = auth_loopback_def auth_client_defs
  AuthService_get_current_user_def

lemma Auth_call_current_user_transparent:
  "Auth_call_current_user (auth_loopback ih m e svc) r s =
     in_process (AuthService.current_user svc r (direct_context ih m e) s)"
  by (simp add: auth_link_defs)

lemma auth_raw_calls_once:
  "calls (Auth_call_current_user (auth_recording cl) req0 (l, c)) = l @ [(''Authentication'', ''GetCurrentUser'')]"
  by (simp_all add: auth_client_defs auth_recording_def)

lemma auth_methods_call_once:
  "calls (Auth_current_user (auth_recording cl) (l, c)) = l @ [(''Authentication'', ''GetCurrentUser'')]"
  by (simp_all add: auth_client_defs auth_recording_def)

end
