(* ===== verification/Auth_Tests.thy ===== *)
theory Auth_Tests
  imports Auth_Service
begin

text \<open>
  The unit tests of \<^verbatim>\<open>client/auth.rs\<close>: each is the counter it reads and the call it makes, with the arguments of the
  source. Against the mock server a test passes exactly when the answer to its call is the one it expects.
\<close>

definition Auth_test_current_user :: "('c v3_auth_AuthenticationClient, 'c) client_test" where
  "Auth_test_current_user = \<lparr>
     client_test.counter_service = ''Authentication'', client_test.counter_rpc = ''GetCurrentUser'',
     client_test.test_call = (\<lambda>cl c. unwrap (Auth_current_user cl c))\<rparr>"

definition Auth_test_current_user_call :: "('c v3_auth_AuthenticationClient, 'c) client_test" where
  "Auth_test_current_user_call = \<lparr>
     client_test.counter_service = ''Authentication'', client_test.counter_rpc = ''GetCurrentUser'',
     client_test.test_call = (\<lambda>cl c. unwrap (Auth_call_current_user cl auth_current_user_Request c))\<rparr>"

definition Auth_tests :: "('c v3_auth_AuthenticationClient, 'c) client_test list" where
  "Auth_tests = [
     Auth_test_current_user,
     Auth_test_current_user_call]"

section \<open>The answers of the mock server\<close>

text \<open>
  The class of the mock server that implements the service, as the stub of a client connected to it. A field that is not set
  has its default. Its methods keep no state; one that is sent a stream reads it to its end, which the streams of the tests
  have.
\<close>

definition auth_mock :: "'c v3_auth_AuthenticationClient" where
  "auth_mock = \<lparr>
     v3_auth_AuthenticationClient.get_current_user = (\<lambda>r c. (Inr \<lparr>v3_auth_GetCurrentUserResponse.user = Some \<lparr>v3_auth_User.username = ''username'', v3_auth_User.roles = [], v3_auth_User.permissions = []\<rparr>\<rparr>, c))\<rparr>"

section \<open>When the tests pass\<close>

lemma Auth_test_current_user_iff:
  "length l < 2 ^ 63 - 1 \<Longrightarrow> counted mock_counter (\<lambda>_. Some (auth_recording cl)) Auth_test_current_user (l, c) \<longleftrightarrow>
     fst (test_call Auth_test_current_user cl c)"
  by (rule counted_iff [where rec = auth_recording and svc = "''Authentication''" and rpc = "''GetCurrentUser''"])
    (simp_all add: Auth_test_current_user_def auth_client_defs auth_recording_def logged_simps counts_simps)

lemma Auth_test_current_user_call_iff:
  "length l < 2 ^ 63 - 1 \<Longrightarrow> counted mock_counter (\<lambda>_. Some (auth_recording cl)) Auth_test_current_user_call (l, c) \<longleftrightarrow>
     fst (test_call Auth_test_current_user_call cl c)"
  by (rule counted_iff [where rec = auth_recording and svc = "''Authentication''" and rpc = "''GetCurrentUser''"])
    (simp_all add: Auth_test_current_user_call_def auth_client_defs auth_recording_def logged_simps counts_simps)

lemma Auth_tests_iff:
  "length l < 2 ^ 63 - 1 \<Longrightarrow>
     map (\<lambda>t. counted mock_counter (\<lambda>_. Some (auth_recording cl)) t (l, c)) Auth_tests =
     map (\<lambda>t. fst (test_call t cl c)) Auth_tests"
  by (simp add: Auth_tests_def
      Auth_test_current_user_iff
      Auth_test_current_user_call_iff)

text \<open>The mock server answers all of them as they expect.\<close>

lemma auth_mock_answers: "list_all (\<lambda>t. fst (test_call t auth_mock c)) Auth_tests"
  by (simp add: Auth_tests_def auth_mock_def mock_simps auth_client_defs
      Auth_test_current_user_def
      Auth_test_current_user_call_def)

lemma Auth_tests_pass:
  "length l < 2 ^ 63 - 1 \<Longrightarrow>
     list_all (\<lambda>t. counted mock_counter (\<lambda>_. Some (auth_recording auth_mock)) t (l, c)) Auth_tests"
  by (rule list_all_decided [OF _ auth_mock_answers]) (rule Auth_tests_iff)

section \<open>The integration tests\<close>

text \<open>
  \<^verbatim>\<open>tests/auth.rs\<close>: the service that the tests start, and the tests, each on a client
  \<open>cl\<close> connected to it.
\<close>

definition auth_test_service ::
  "tonic_Status option \<Rightarrow> ('h, 'e, 's) AuthService" where
  "auth_test_service fails = \<lparr>
     AuthService.current_user = (\<lambda>r ctx. unary_rpc_impl fails \<lparr>auth_current_user_Response.user = (auth_User_default\<lparr>auth_User.username := ''rpc-current-user-output''\<rparr>)\<rparr>)\<rparr>"

definition Auth_integration_current_user :: "'c v3_auth_AuthenticationClient \<Rightarrow> 'c \<Rightarrow> bool" where
  "Auth_integration_current_user cl s \<longleftrightarrow> expects (\<lambda>p.
       auth_User.username p = ''rpc-current-user-output'')
     (Auth_current_user cl s)"

definition Auth_integration :: "('c v3_auth_AuthenticationClient \<Rightarrow> 'c \<Rightarrow> bool) list" where
  "Auth_integration = [
     Auth_integration_current_user]"

text \<open>They pass, whatever the state of the service.\<close>

lemmas auth_integration_defs = Auth_integration_def auth_test_service_def indexed_def
  Auth_integration_current_user_def

lemma Auth_integration_passes:
  "list_all (\<lambda>t. t (auth_loopback ih m e (auth_test_service None)) s) (Auth_integration)"
  by (simp add: auth_integration_defs 
    Auth_current_user_def
    Auth_call_current_user_transparent)

end
