(* ===== verification/Health_Checks_Service.thy ===== *)
theory Health_Checks_Service
  imports Auth_Tests Request_Count Auth_Health_Versions
begin

text \<open>
  The health_checks service: the client (\<^verbatim>\<open>client/health_checks.rs\<close>) and the server glue (\<^verbatim>\<open>server/health_checks.rs\<close>) around
  the generated stub and trait, and the composition of the two.
\<close>

section \<open>The generated stub\<close>

record 'c v3_health_checks_HealthChecksServiceClient =
  check_health :: "(v3_health_checks_CheckHealthRequest, 'c, v3_health_checks_CheckHealthResponse) stub"

text \<open>A stub that also records which procedures are called.\<close>

definition health_checks_recording :: "'c v3_health_checks_HealthChecksServiceClient \<Rightarrow> 'c recording v3_health_checks_HealthChecksServiceClient" where
  "health_checks_recording cl = \<lparr>
     v3_health_checks_HealthChecksServiceClient.check_health = recorded ''HealthChecksService'' ''CheckHealth'' (v3_health_checks_HealthChecksServiceClient.check_health cl)\<rparr>"

section \<open>Client\<close>

subsection \<open>Raw calls\<close>

definition HealthChecks_call_check :: "'c v3_health_checks_HealthChecksServiceClient \<Rightarrow> health_checks_check_Request \<Rightarrow> 'c \<Rightarrow> (RequestError + health_checks_check_Response) \<times> 'c" where
  "HealthChecks_call_check cl req c =
     unary_call health_checks_check_Request_to_v3 health_checks_check_Response_of_v3 (v3_health_checks_HealthChecksServiceClient.check_health cl) req c"

subsection \<open>Methods\<close>

definition HealthChecks_check :: "'c v3_health_checks_HealthChecksServiceClient \<Rightarrow> 'c \<Rightarrow> (RequestError + health_checks_ServiceHealth list) \<times> 'c" where
  "HealthChecks_check cl c =
     map_ok health_checks_check_Response.services (HealthChecks_call_check cl health_checks_check_Request c)"

lemmas health_checks_client_defs =
  HealthChecks_call_check_def HealthChecks_check_def

section \<open>Server\<close>

record ('h, 'e, 's) HealthChecksService =
  check :: "(health_checks_check_Request, 'h, 'e, 's, health_checks_check_Response) handler"

definition HealthChecksService_check_health :: "('m \<Rightarrow> 'h) \<Rightarrow> ('h, 'e, 's) HealthChecksService
    \<Rightarrow> ('m, 'e, v3_health_checks_CheckHealthRequest) tonic_Request \<Rightarrow> 's \<Rightarrow> (tonic_Status + v3_health_checks_CheckHealthResponse) \<times> 's" where
  "HealthChecksService_check_health ih svc =
     unary_server ih health_checks_check_Request_of_v3 health_checks_check_Response_to_v3 (HealthChecksService.check svc)"

section \<open>A client connected to a server\<close>

definition health_checks_loopback :: "('m \<Rightarrow> 'h) \<Rightarrow> 'm \<Rightarrow> 'e \<Rightarrow> ('h, 'e, 's) HealthChecksService \<Rightarrow> 's v3_health_checks_HealthChecksServiceClient" where
  "health_checks_loopback ih m e svc = \<lparr>
     v3_health_checks_HealthChecksServiceClient.check_health = (\<lambda>w. HealthChecksService_check_health ih svc (direct_request m e w))\<rparr>"

text \<open>The contract of each remote procedure.\<close>

interpretation health_checks_check_rpc: total_rpc_link
    health_checks_check_Request_to_v3 health_checks_check_Request_of_v3
    health_checks_check_Response_to_v3 health_checks_check_Response_of_v3
  by unfold_locales

lemmas health_checks_link_defs = health_checks_loopback_def health_checks_client_defs
  HealthChecksService_check_health_def

lemma HealthChecks_call_check_transparent:
  "HealthChecks_call_check (health_checks_loopback ih m e svc) r s =
     in_process (HealthChecksService.check svc r (direct_context ih m e) s)"
  by (simp add: health_checks_link_defs)

lemma health_checks_raw_calls_once:
  "calls (HealthChecks_call_check (health_checks_recording cl) req0 (l, c)) = l @ [(''HealthChecksService'', ''CheckHealth'')]"
  by (simp_all add: health_checks_client_defs health_checks_recording_def)

lemma health_checks_methods_call_once:
  "calls (HealthChecks_check (health_checks_recording cl) (l, c)) = l @ [(''HealthChecksService'', ''CheckHealth'')]"
  by (simp_all add: health_checks_client_defs health_checks_recording_def)

end
