(* ===== verification/Health_Checks_Tests.thy ===== *)
theory Health_Checks_Tests
  imports Health_Checks_Service
begin

text \<open>
  The unit tests of \<^verbatim>\<open>client/health_checks.rs\<close>: each is the counter it reads and the call it makes, with the arguments of the
  source. Against the mock server a test passes exactly when the answer to its call is the one it expects.
\<close>

definition HealthChecks_test_check :: "('c v3_health_checks_HealthChecksServiceClient, 'c) client_test" where
  "HealthChecks_test_check = \<lparr>
     client_test.counter_service = ''HealthChecks'', client_test.counter_rpc = ''CheckHealth'',
     client_test.test_call = (\<lambda>cl c. unwrap (HealthChecks_check cl c))\<rparr>"

definition HealthChecks_test_check_call :: "('c v3_health_checks_HealthChecksServiceClient, 'c) client_test" where
  "HealthChecks_test_check_call = \<lparr>
     client_test.counter_service = ''HealthChecks'', client_test.counter_rpc = ''CheckHealth'',
     client_test.test_call = (\<lambda>cl c. unwrap (HealthChecks_call_check cl health_checks_check_Request c))\<rparr>"

definition HealthChecks_tests :: "('c v3_health_checks_HealthChecksServiceClient, 'c) client_test list" where
  "HealthChecks_tests = [
     HealthChecks_test_check,
     HealthChecks_test_check_call]"

section \<open>The answers of the mock server\<close>

text \<open>
  The class of the mock server that implements the service, as the stub of a client connected to it. A field that is not set
  has its default. Its methods keep no state; one that is sent a stream reads it to its end, which the streams of the tests
  have.
\<close>

definition health_checks_mock :: "'c v3_health_checks_HealthChecksServiceClient" where
  "health_checks_mock = \<lparr>
     v3_health_checks_HealthChecksServiceClient.check_health = (\<lambda>r c. (Inr \<lparr>v3_health_checks_CheckHealthResponse.services = [\<lparr>v3_health_checks_check_health_response_ServiceHealth.name = ''mock'', v3_health_checks_check_health_response_ServiceHealth.message = ''Mock is healthy'', v3_health_checks_check_health_response_ServiceHealth.healthy = 1\<rparr>]\<rparr>, c))\<rparr>"

section \<open>When the tests pass\<close>

lemma HealthChecks_test_check_iff:
  "length l < 2 ^ 63 - 1 \<Longrightarrow> counted mock_counter (\<lambda>_. Some (health_checks_recording cl)) HealthChecks_test_check (l, c) \<longleftrightarrow>
     fst (test_call HealthChecks_test_check cl c)"
  by (rule counted_iff [where rec = health_checks_recording and svc = "''HealthChecksService''" and rpc = "''CheckHealth''"])
    (simp_all add: HealthChecks_test_check_def health_checks_client_defs health_checks_recording_def logged_simps counts_simps)

lemma HealthChecks_test_check_call_iff:
  "length l < 2 ^ 63 - 1 \<Longrightarrow> counted mock_counter (\<lambda>_. Some (health_checks_recording cl)) HealthChecks_test_check_call (l, c) \<longleftrightarrow>
     fst (test_call HealthChecks_test_check_call cl c)"
  by (rule counted_iff [where rec = health_checks_recording and svc = "''HealthChecksService''" and rpc = "''CheckHealth''"])
    (simp_all add: HealthChecks_test_check_call_def health_checks_client_defs health_checks_recording_def logged_simps counts_simps)

lemma HealthChecks_tests_iff:
  "length l < 2 ^ 63 - 1 \<Longrightarrow>
     map (\<lambda>t. counted mock_counter (\<lambda>_. Some (health_checks_recording cl)) t (l, c)) HealthChecks_tests =
     map (\<lambda>t. fst (test_call t cl c)) HealthChecks_tests"
  by (simp add: HealthChecks_tests_def
      HealthChecks_test_check_iff
      HealthChecks_test_check_call_iff)

text \<open>The mock server answers all of them as they expect.\<close>

lemma health_checks_mock_answers: "list_all (\<lambda>t. fst (test_call t health_checks_mock c)) HealthChecks_tests"
  by (simp add: HealthChecks_tests_def health_checks_mock_def mock_simps health_checks_client_defs
      HealthChecks_test_check_def
      HealthChecks_test_check_call_def)

lemma HealthChecks_tests_pass:
  "length l < 2 ^ 63 - 1 \<Longrightarrow>
     list_all (\<lambda>t. counted mock_counter (\<lambda>_. Some (health_checks_recording health_checks_mock)) t (l, c)) HealthChecks_tests"
  by (rule list_all_decided [OF _ health_checks_mock_answers]) (rule HealthChecks_tests_iff)

end
