(* ===== verification/Versions_Service.thy ===== *)
theory Versions_Service
  imports Health_Checks_Tests Request_Count Auth_Health_Versions
begin

text \<open>
  The versions service: the client (\<^verbatim>\<open>client/versions.rs\<close>) and the server glue (\<^verbatim>\<open>server/versions.rs\<close>) around
  the generated stub and trait, and the composition of the two.
\<close>

section \<open>The generated stub\<close>

record 'c v3_versions_VersionsClient =
  list_versions :: "(v3_versions_ListVersionsRequest, 'c, v3_versions_ListVersionsResponse) stub"

text \<open>A stub that also records which procedures are called.\<close>

definition versions_recording :: "'c v3_versions_VersionsClient \<Rightarrow> 'c recording v3_versions_VersionsClient" where
  "versions_recording cl = \<lparr>
     v3_versions_VersionsClient.list_versions = recorded ''Versions'' ''ListVersions'' (v3_versions_VersionsClient.list_versions cl)\<rparr>"

section \<open>Client\<close>

subsection \<open>Raw calls\<close>

definition Versions_call_list :: "'c v3_versions_VersionsClient \<Rightarrow> versions_list_Request \<Rightarrow> 'c \<Rightarrow> (RequestError + versions_list_Response) \<times> 'c" where
  "Versions_call_list cl req c =
     unary_call versions_list_Request_to_v3 versions_list_Response_of_v3 (v3_versions_VersionsClient.list_versions cl) req c"

subsection \<open>Methods\<close>

definition Versions_list :: "'c v3_versions_VersionsClient \<Rightarrow> 'c \<Rightarrow> (RequestError + versions_list_Response) \<times> 'c" where
  "Versions_list cl c =
     Versions_call_list cl versions_list_Request c"

lemmas versions_client_defs =
  Versions_call_list_def Versions_list_def

section \<open>Server\<close>

record ('h, 'e, 's) VersionsService =
  list :: "(versions_list_Request, 'h, 'e, 's, versions_list_Response) handler"

definition VersionsService_list_versions :: "('m \<Rightarrow> 'h) \<Rightarrow> ('h, 'e, 's) VersionsService
    \<Rightarrow> ('m, 'e, v3_versions_ListVersionsRequest) tonic_Request \<Rightarrow> 's \<Rightarrow> (tonic_Status + v3_versions_ListVersionsResponse) \<times> 's" where
  "VersionsService_list_versions ih svc =
     unary_server ih versions_list_Request_of_v3 versions_list_Response_to_v3 (VersionsService.list svc)"

section \<open>A client connected to a server\<close>

definition versions_loopback :: "('m \<Rightarrow> 'h) \<Rightarrow> 'm \<Rightarrow> 'e \<Rightarrow> ('h, 'e, 's) VersionsService \<Rightarrow> 's v3_versions_VersionsClient" where
  "versions_loopback ih m e svc = \<lparr>
     v3_versions_VersionsClient.list_versions = (\<lambda>w. VersionsService_list_versions ih svc (direct_request m e w))\<rparr>"

text \<open>The contract of each remote procedure.\<close>

interpretation versions_list_rpc: total_rpc_link
    versions_list_Request_to_v3 versions_list_Request_of_v3
    versions_list_Response_to_v3 versions_list_Response_of_v3
  by unfold_locales

lemmas versions_link_defs = versions_loopback_def versions_client_defs
  VersionsService_list_versions_def

lemma Versions_call_list_transparent:
  "Versions_call_list (versions_loopback ih m e svc) r s =
     in_process (VersionsService.list svc r (direct_context ih m e) s)"
  by (simp add: versions_link_defs)

lemma versions_raw_calls_once:
  "calls (Versions_call_list (versions_recording cl) req0 (l, c)) = l @ [(''Versions'', ''ListVersions'')]"
  by (simp_all add: versions_client_defs versions_recording_def)

lemma versions_methods_call_once:
  "calls (Versions_list (versions_recording cl) (l, c)) = l @ [(''Versions'', ''ListVersions'')]"
  by (simp_all add: versions_client_defs versions_recording_def)

end
