(* ===== verification/Versions_Tests.thy ===== *)
theory Versions_Tests
  imports Versions_Service
begin

text \<open>
  The unit tests of \<^verbatim>\<open>client/versions.rs\<close>: each is the counter it reads and the call it makes, with the arguments of the
  source. Against the mock server a test passes exactly when the answer to its call is the one it expects.
\<close>

definition Versions_test_list :: "('c v3_versions_VersionsClient, 'c) client_test" where
  "Versions_test_list = \<lparr>
     client_test.counter_service = ''Versions'', client_test.counter_rpc = ''ListVersions'',
     client_test.test_call = (\<lambda>cl c. unwrap (Versions_list cl c))\<rparr>"

definition Versions_test_list_call :: "('c v3_versions_VersionsClient, 'c) client_test" where
  "Versions_test_list_call = \<lparr>
     client_test.counter_service = ''Versions'', client_test.counter_rpc = ''ListVersions'',
     client_test.test_call = (\<lambda>cl c. unwrap (Versions_call_list cl versions_list_Request c))\<rparr>"

definition Versions_tests :: "('c v3_versions_VersionsClient, 'c) client_test list" where
  "Versions_tests = [
     Versions_test_list,
     Versions_test_list_call]"

section \<open>The answers of the mock server\<close>

text \<open>
  The class of the mock server that implements the service, as the stub of a client connected to it. A field that is not set
  has its default. Its methods keep no state; one that is sent a stream reads it to its end, which the streams of the tests
  have.
\<close>

definition versions_mock :: "string \<Rightarrow> 'c v3_versions_VersionsClient" where
  "versions_mock api_version = \<lparr>
     v3_versions_VersionsClient.list_versions = (\<lambda>r c. (Inr \<lparr>v3_versions_ListVersionsResponse.core = ''Unknown'', v3_versions_ListVersionsResponse.api = api_version\<rparr>, c))\<rparr>"

section \<open>When the tests pass\<close>

lemma Versions_test_list_iff:
  "length l < 2 ^ 63 - 1 \<Longrightarrow> counted mock_counter (\<lambda>_. Some (versions_recording cl)) Versions_test_list (l, c) \<longleftrightarrow>
     fst (test_call Versions_test_list cl c)"
  by (rule counted_iff [where rec = versions_recording and svc = "''Versions''" and rpc = "''ListVersions''"])
    (simp_all add: Versions_test_list_def versions_client_defs versions_recording_def logged_simps counts_simps)

lemma Versions_test_list_call_iff:
  "length l < 2 ^ 63 - 1 \<Longrightarrow> counted mock_counter (\<lambda>_. Some (versions_recording cl)) Versions_test_list_call (l, c) \<longleftrightarrow>
     fst (test_call Versions_test_list_call cl c)"
  by (rule counted_iff [where rec = versions_recording and svc = "''Versions''" and rpc = "''ListVersions''"])
    (simp_all add: Versions_test_list_call_def versions_client_defs versions_recording_def logged_simps counts_simps)

lemma Versions_tests_iff:
  "length l < 2 ^ 63 - 1 \<Longrightarrow>
     map (\<lambda>t. counted mock_counter (\<lambda>_. Some (versions_recording cl)) t (l, c)) Versions_tests =
     map (\<lambda>t. fst (test_call t cl c)) Versions_tests"
  by (simp add: Versions_tests_def
      Versions_test_list_iff
      Versions_test_list_call_iff)

text \<open>The mock server answers all of them as they expect.\<close>

lemma versions_mock_answers: "list_all (\<lambda>t. fst (test_call t (versions_mock api_version) c)) Versions_tests"
  by (simp add: Versions_tests_def versions_mock_def mock_simps versions_client_defs
      Versions_test_list_def
      Versions_test_list_call_def)

lemma Versions_tests_pass:
  "length l < 2 ^ 63 - 1 \<Longrightarrow>
     list_all (\<lambda>t. counted mock_counter (\<lambda>_. Some (versions_recording (versions_mock api_version))) t (l, c)) Versions_tests"
  by (rule list_all_decided [OF _ versions_mock_answers]) (rule Versions_tests_iff)

section \<open>The integration tests\<close>

text \<open>
  \<^verbatim>\<open>tests/versions.rs\<close>: the service that the tests start, and the tests, each on a client
  \<open>cl\<close> connected to it.
\<close>

definition versions_test_service ::
  "tonic_Status option \<Rightarrow> ('h, 'e, 's) VersionsService" where
  "versions_test_service fails = \<lparr>
     VersionsService.list = (\<lambda>r ctx. unary_rpc_impl fails (versions_list_Response_default\<lparr>versions_list_Response.core := ''rpc-list-output''\<rparr>))\<rparr>"

definition Versions_integration_list :: "'c v3_versions_VersionsClient \<Rightarrow> 'c \<Rightarrow> bool" where
  "Versions_integration_list cl s \<longleftrightarrow> expects (\<lambda>p.
       versions_list_Response.core p = ''rpc-list-output'')
     (Versions_list cl s)"

definition Versions_integration :: "('c v3_versions_VersionsClient \<Rightarrow> 'c \<Rightarrow> bool) list" where
  "Versions_integration = [
     Versions_integration_list]"

text \<open>They pass, whatever the state of the service.\<close>

lemmas versions_integration_defs = Versions_integration_def versions_test_service_def indexed_def
  Versions_integration_list_def

lemma Versions_integration_passes:
  "list_all (\<lambda>t. t (versions_loopback ih m e (versions_test_service None)) s) (Versions_integration)"
  by (simp add: versions_integration_defs 
    Versions_list_def
    Versions_call_list_transparent)

end
