(* ===== verification/Worker.thy ===== *)
theory Worker
  imports Auth_Health_Versions Common_Objects
begin

text \<open>Objects of the worker service (\<^verbatim>\<open>objects/worker\<close>).\<close>

section \<open>Health check\<close>

datatype worker_health_check_Request = worker_health_check_Request

definition worker_health_check_Request_default :: worker_health_check_Request where
  "worker_health_check_Request_default = worker_health_check_Request"

definition worker_health_check_Request_to_v3 :: "worker_health_check_Request \<Rightarrow> v3_Empty" where
  "worker_health_check_Request_to_v3 v = v3_Empty"

definition worker_health_check_Request_of_v3 :: "v3_Empty \<Rightarrow> worker_health_check_Request" where
  "worker_health_check_Request_of_v3 v = worker_health_check_Request"

interpretation worker_health_check_Request_codec: wire_codec worker_health_check_Request_to_v3 worker_health_check_Request_of_v3
  by unfold_locales (metis worker_health_check_Request.exhaust worker_health_check_Request_of_v3_def)

datatype worker_health_check_Response =
    Unknown
  | Serving
  | NotServing

primrec worker_health_check_Response_as_i32 :: "worker_health_check_Response \<Rightarrow> i32" where
    "worker_health_check_Response_as_i32 worker_health_check_Response.Unknown = 0"
  | "worker_health_check_Response_as_i32 worker_health_check_Response.Serving = 1"
  | "worker_health_check_Response_as_i32 worker_health_check_Response.NotServing = 2"

definition worker_health_check_Response_default :: worker_health_check_Response where
  "worker_health_check_Response_default = worker_health_check_Response.Unknown"

definition worker_health_check_Response_of_i32 :: "i32 \<Rightarrow> worker_health_check_Response" where
  "worker_health_check_Response_of_i32 i =
    (if i = 0 then worker_health_check_Response.Unknown
     else if i = 1 then worker_health_check_Response.Serving
     else if i = 2 then worker_health_check_Response.NotServing
     else worker_health_check_Response.Unknown)"

interpretation worker_health_check_Response_enum: proto_enum worker_health_check_Response_as_i32 worker_health_check_Response_of_i32 worker_health_check_Response.Unknown
proof unfold_locales
  fix e
  show "worker_health_check_Response_of_i32 (worker_health_check_Response_as_i32 e) = e" by (cases e) (simp_all add: worker_health_check_Response_of_i32_def worker_health_check_Response_default_def)
next
  fix i
  assume "worker_health_check_Response_of_i32 i \<noteq> worker_health_check_Response.Unknown"
  then show "worker_health_check_Response_as_i32 (worker_health_check_Response_of_i32 i) = i"
    by (simp add: worker_health_check_Response_of_i32_def worker_health_check_Response_default_def split: if_splits)
qed

datatype v3_worker_health_check_reply_ServingStatus =
    Unknown
  | Serving
  | NotServing

primrec v3_worker_health_check_reply_ServingStatus_as_i32 :: "v3_worker_health_check_reply_ServingStatus \<Rightarrow> i32" where
    "v3_worker_health_check_reply_ServingStatus_as_i32 v3_worker_health_check_reply_ServingStatus.Unknown = 0"
  | "v3_worker_health_check_reply_ServingStatus_as_i32 v3_worker_health_check_reply_ServingStatus.Serving = 1"
  | "v3_worker_health_check_reply_ServingStatus_as_i32 v3_worker_health_check_reply_ServingStatus.NotServing = 2"

primrec worker_health_check_Response_schema :: "worker_health_check_Response \<Rightarrow> v3_worker_health_check_reply_ServingStatus" where
    "worker_health_check_Response_schema worker_health_check_Response.Unknown = v3_worker_health_check_reply_ServingStatus.Unknown"
  | "worker_health_check_Response_schema worker_health_check_Response.Serving = v3_worker_health_check_reply_ServingStatus.Serving"
  | "worker_health_check_Response_schema worker_health_check_Response.NotServing = v3_worker_health_check_reply_ServingStatus.NotServing"

interpretation worker_health_check_Response_numbers: schema_enum worker_health_check_Response_as_i32 worker_health_check_Response_of_i32 worker_health_check_Response.Unknown
    worker_health_check_Response_schema v3_worker_health_check_reply_ServingStatus_as_i32
proof unfold_locales
  fix e
  show "v3_worker_health_check_reply_ServingStatus_as_i32 (worker_health_check_Response_schema e) = worker_health_check_Response_as_i32 e" by (cases e) simp_all
next
  have "w \<in> range worker_health_check_Response_schema" for w
    by (cases w) (metis rangeI worker_health_check_Response_schema.simps)+
  then show "surj worker_health_check_Response_schema" by blast
qed

record v3_worker_HealthCheckReply =
  status :: i32

definition worker_health_check_Response_to_v3 :: "worker_health_check_Response \<Rightarrow> v3_worker_HealthCheckReply" where
  "worker_health_check_Response_to_v3 v =
     \<lparr>v3_worker_HealthCheckReply.status = worker_health_check_Response_as_i32 v\<rparr>"

definition worker_health_check_Response_of_v3 :: "v3_worker_HealthCheckReply \<Rightarrow> worker_health_check_Response" where
  "worker_health_check_Response_of_v3 v =
     worker_health_check_Response_of_i32 (v3_worker_HealthCheckReply.status v)"

interpretation worker_health_check_Response_codec:
  wire_codec worker_health_check_Response_to_v3 worker_health_check_Response_of_v3
  by unfold_locales
    (simp add: worker_health_check_Response_to_v3_def worker_health_check_Response_of_v3_def)

section \<open>Processing a task\<close>

record v3_worker_ProcessRequest =
  communication_token :: string
  session_id :: string
  task_id :: string
  task_options :: "v3_TaskOptions option"
  expected_output_keys :: "string list"
  payload_id :: string
  data_dependencies :: "string list"
  data_folder :: string
  configuration :: "v3_Configuration option"

record v3_worker_ProcessReply =
  "output" :: "v3_Output option"

record worker_process_Request =
  communication_token :: string
  session_id :: string
  task_id :: string
  task_options :: TaskOptions
  expected_output_keys :: "string list"
  payload_id :: string
  data_dependencies :: "string list"
  data_folder :: string
  configuration :: Configuration

definition worker_process_Request_default :: worker_process_Request where
  "worker_process_Request_default = \<lparr>
     worker_process_Request.communication_token = '''',
     worker_process_Request.session_id = '''',
     worker_process_Request.task_id = '''',
     worker_process_Request.task_options = TaskOptions_default,
     worker_process_Request.expected_output_keys = [],
     worker_process_Request.payload_id = '''',
     worker_process_Request.data_dependencies = [],
     worker_process_Request.data_folder = '''',
     worker_process_Request.configuration = Configuration_default\<rparr>"

definition worker_process_Request_to_v3 :: "worker_process_Request \<Rightarrow> v3_worker_ProcessRequest" where
  "worker_process_Request_to_v3 v = \<lparr>
     v3_worker_ProcessRequest.communication_token = worker_process_Request.communication_token v,
     v3_worker_ProcessRequest.session_id = worker_process_Request.session_id v,
     v3_worker_ProcessRequest.task_id = worker_process_Request.task_id v,
     v3_worker_ProcessRequest.task_options = Some (TaskOptions_to_v3 (worker_process_Request.task_options v)),
     v3_worker_ProcessRequest.expected_output_keys = into_collect (\<lambda>x. x) (worker_process_Request.expected_output_keys v),
     v3_worker_ProcessRequest.payload_id = worker_process_Request.payload_id v,
     v3_worker_ProcessRequest.data_dependencies = into_collect (\<lambda>x. x) (worker_process_Request.data_dependencies v),
     v3_worker_ProcessRequest.data_folder = worker_process_Request.data_folder v,
     v3_worker_ProcessRequest.configuration = Some (Configuration_to_v3 (worker_process_Request.configuration v))\<rparr>"

definition worker_process_Request_of_v3 :: "v3_worker_ProcessRequest \<Rightarrow> worker_process_Request" where
  "worker_process_Request_of_v3 v = \<lparr>
     worker_process_Request.communication_token = v3_worker_ProcessRequest.communication_token v,
     worker_process_Request.session_id = v3_worker_ProcessRequest.session_id v,
     worker_process_Request.task_id = v3_worker_ProcessRequest.task_id v,
     worker_process_Request.task_options = map_or_default TaskOptions_default TaskOptions_of_v3 (v3_worker_ProcessRequest.task_options v),
     worker_process_Request.expected_output_keys = into_collect (\<lambda>x. x) (v3_worker_ProcessRequest.expected_output_keys v),
     worker_process_Request.payload_id = v3_worker_ProcessRequest.payload_id v,
     worker_process_Request.data_dependencies = into_collect (\<lambda>x. x) (v3_worker_ProcessRequest.data_dependencies v),
     worker_process_Request.data_folder = v3_worker_ProcessRequest.data_folder v,
     worker_process_Request.configuration = map_or_default Configuration_default Configuration_of_v3 (v3_worker_ProcessRequest.configuration v)\<rparr>"

interpretation worker_process_Request_codec: wire_codec worker_process_Request_to_v3 worker_process_Request_of_v3
  by unfold_locales (simp add: worker_process_Request_to_v3_def worker_process_Request_of_v3_def)

record worker_process_Response =
  "output" :: Output

definition worker_process_Response_default :: worker_process_Response where
  "worker_process_Response_default = \<lparr>
     worker_process_Response.output = Output_default\<rparr>"

definition worker_process_Response_to_v3 :: "worker_process_Response \<Rightarrow> v3_worker_ProcessReply" where
  "worker_process_Response_to_v3 v = \<lparr>
     v3_worker_ProcessReply.output = Some (Output_to_v3 (worker_process_Response.output v))\<rparr>"

definition worker_process_Response_of_v3 :: "v3_worker_ProcessReply \<Rightarrow> worker_process_Response" where
  "worker_process_Response_of_v3 v = \<lparr>
     worker_process_Response.output = map_or_default Output_default Output_of_v3 (v3_worker_ProcessReply.output v)\<rparr>"

interpretation worker_process_Response_codec: wire_codec worker_process_Response_to_v3 worker_process_Response_of_v3
  by unfold_locales (simp add: worker_process_Response_to_v3_def worker_process_Response_of_v3_def)

end
