(* ===== verification/Worker_Service.thy ===== *)
theory Worker_Service
  imports Versions_Tests Request_Count Worker
begin

text \<open>
  The worker service: the client (\<^verbatim>\<open>client/worker.rs\<close>) and the server glue (\<^verbatim>\<open>server/worker.rs\<close>) around
  the generated stub and trait, and the composition of the two.
\<close>

section \<open>The generated stub\<close>

record 'c v3_worker_WorkerClient =
  process :: "(v3_worker_ProcessRequest, 'c, v3_worker_ProcessReply) stub"
  health_check :: "(v3_Empty, 'c, v3_worker_HealthCheckReply) stub"

text \<open>A stub that also records which procedures are called.\<close>

definition worker_recording :: "'c v3_worker_WorkerClient \<Rightarrow> 'c recording v3_worker_WorkerClient" where
  "worker_recording cl = \<lparr>
     v3_worker_WorkerClient.process = recorded ''Worker'' ''Process'' (v3_worker_WorkerClient.process cl),
     v3_worker_WorkerClient.health_check = recorded ''Worker'' ''HealthCheck'' (v3_worker_WorkerClient.health_check cl)\<rparr>"

section \<open>Client\<close>

subsection \<open>Raw calls\<close>

definition Worker_call_health_check :: "'c v3_worker_WorkerClient \<Rightarrow> worker_health_check_Request \<Rightarrow> 'c \<Rightarrow> (RequestError + worker_health_check_Response) \<times> 'c" where
  "Worker_call_health_check cl req c =
     unary_call worker_health_check_Request_to_v3 worker_health_check_Response_of_v3 (v3_worker_WorkerClient.health_check cl) req c"

definition Worker_call_process :: "'c v3_worker_WorkerClient \<Rightarrow> worker_process_Request \<Rightarrow> 'c \<Rightarrow> (RequestError + worker_process_Response) \<times> 'c" where
  "Worker_call_process cl req c =
     unary_call worker_process_Request_to_v3 worker_process_Response_of_v3 (v3_worker_WorkerClient.process cl) req c"

subsection \<open>Methods\<close>

definition Worker_health_check :: "'c v3_worker_WorkerClient \<Rightarrow> 'c \<Rightarrow> (RequestError + worker_health_check_Response) \<times> 'c" where
  "Worker_health_check cl c =
     Worker_call_health_check cl worker_health_check_Request c"

definition Worker_process ::
  "'c v3_worker_WorkerClient \<Rightarrow> worker_process_Request \<Rightarrow> 'c \<Rightarrow> (RequestError + Output) \<times> 'c" where
  "Worker_process cl req c = map_ok worker_process_Response.output (Worker_call_process cl req c)"

lemmas worker_client_defs =
  Worker_call_health_check_def Worker_call_process_def Worker_health_check_def Worker_process_def

section \<open>Server\<close>

record ('h, 'e, 's) WorkerService =
  health_check :: "(worker_health_check_Request, 'h, 'e, 's, worker_health_check_Response) handler"
  process :: "(worker_process_Request, 'h, 'e, 's, worker_process_Response) handler"

definition WorkerService_health_check :: "('m \<Rightarrow> 'h) \<Rightarrow> ('h, 'e, 's) WorkerService
    \<Rightarrow> ('m, 'e, v3_Empty) tonic_Request \<Rightarrow> 's \<Rightarrow> (tonic_Status + v3_worker_HealthCheckReply) \<times> 's" where
  "WorkerService_health_check ih svc =
     unary_server ih worker_health_check_Request_of_v3 worker_health_check_Response_to_v3 (WorkerService.health_check svc)"

definition WorkerService_process :: "('m \<Rightarrow> 'h) \<Rightarrow> ('h, 'e, 's) WorkerService
    \<Rightarrow> ('m, 'e, v3_worker_ProcessRequest) tonic_Request \<Rightarrow> 's \<Rightarrow> (tonic_Status + v3_worker_ProcessReply) \<times> 's" where
  "WorkerService_process ih svc =
     unary_server ih worker_process_Request_of_v3 worker_process_Response_to_v3 (WorkerService.process svc)"

section \<open>A client connected to a server\<close>

definition worker_loopback :: "('m \<Rightarrow> 'h) \<Rightarrow> 'm \<Rightarrow> 'e \<Rightarrow> ('h, 'e, 's) WorkerService \<Rightarrow> 's v3_worker_WorkerClient" where
  "worker_loopback ih m e svc = \<lparr>
     v3_worker_WorkerClient.process = (\<lambda>w. WorkerService_process ih svc (direct_request m e w)),
     v3_worker_WorkerClient.health_check = (\<lambda>w. WorkerService_health_check ih svc (direct_request m e w))\<rparr>"

text \<open>The contract of each remote procedure.\<close>

interpretation worker_health_check_rpc: total_rpc_link
    worker_health_check_Request_to_v3 worker_health_check_Request_of_v3
    worker_health_check_Response_to_v3 worker_health_check_Response_of_v3
  by unfold_locales

interpretation worker_process_rpc: total_rpc_link
    worker_process_Request_to_v3 worker_process_Request_of_v3
    worker_process_Response_to_v3 worker_process_Response_of_v3
  by unfold_locales

lemmas worker_link_defs = worker_loopback_def worker_client_defs
  WorkerService_health_check_def WorkerService_process_def

lemma Worker_call_health_check_transparent:
  "Worker_call_health_check (worker_loopback ih m e svc) r s =
     in_process (WorkerService.health_check svc r (direct_context ih m e) s)"
  by (simp add: worker_link_defs)

lemma Worker_call_process_transparent:
  "Worker_call_process (worker_loopback ih m e svc) r s =
     in_process (WorkerService.process svc r (direct_context ih m e) s)"
  by (simp add: worker_link_defs)

lemma worker_raw_calls_once:
  "calls (Worker_call_health_check (worker_recording cl) req0 (l, c)) = l @ [(''Worker'', ''HealthCheck'')]"
  "calls (Worker_call_process (worker_recording cl) req1 (l, c)) = l @ [(''Worker'', ''Process'')]"
  by (simp_all add: worker_client_defs worker_recording_def)

lemma worker_methods_call_once:
  "calls (Worker_health_check (worker_recording cl) (l, c)) = l @ [(''Worker'', ''HealthCheck'')]"
  by (simp_all add: worker_client_defs worker_recording_def)

lemma Worker_process_calls_once:
  "calls (Worker_process (worker_recording cl) req (l, c)) = l @ [(''Worker'', ''Process'')]"
  by (simp add: worker_client_defs worker_recording_def)

end
