(* ===== verification/Worker_Tests.thy ===== *)
theory Worker_Tests
  imports Worker_Service
begin

text \<open>The client of the worker has no unit tests; its integration tests are those of \<^verbatim>\<open>tests/worker.rs\<close>.\<close>

section \<open>The integration tests\<close>

text \<open>
  \<^verbatim>\<open>tests/worker.rs\<close>: the service that the tests start, and the tests, each on a client
  \<open>cl\<close> connected to it.
\<close>

definition worker_test_service ::
  "tonic_Status option \<Rightarrow> ('h, 'e, 's) WorkerService" where
  "worker_test_service fails = \<lparr>
     WorkerService.health_check = (\<lambda>r ctx. unary_rpc_impl fails worker_health_check_Response.Serving),
     WorkerService.process = (\<lambda>r ctx. unary_rpc_impl fails \<lparr>worker_process_Response.output = Output.Error ''rpc-process-output''\<rparr>)\<rparr>"

definition Worker_integration_health_check :: "'c v3_worker_WorkerClient \<Rightarrow> 'c \<Rightarrow> bool" where
  "Worker_integration_health_check cl s \<longleftrightarrow> expects (\<lambda>p.
       p = worker_health_check_Response.Serving)
     (Worker_health_check cl s)"

definition Worker_integration_process :: "'c v3_worker_WorkerClient \<Rightarrow> 'c \<Rightarrow> bool" where
  "Worker_integration_process cl s \<longleftrightarrow> expects (\<lambda>p.
       (case p of Output.Ok \<Rightarrow> False | Output.Error d \<Rightarrow> d = ''rpc-process-output''))
     (Worker_process cl (worker_process_Request_default\<lparr>worker_process_Request.communication_token := ''rpc-process-input''\<rparr>) s)"

definition Worker_integration :: "('c v3_worker_WorkerClient \<Rightarrow> 'c \<Rightarrow> bool) list" where
  "Worker_integration = [
     Worker_integration_health_check,
     Worker_integration_process]"

text \<open>They pass, whatever the state of the service.\<close>

lemmas worker_integration_defs = Worker_integration_def worker_test_service_def indexed_def
  Worker_integration_health_check_def
  Worker_integration_process_def

lemma Worker_integration_passes:
  "list_all (\<lambda>t. t (worker_loopback ih m e (worker_test_service None)) s) (Worker_integration)"
  by (simp add: worker_integration_defs 
    Worker_health_check_def Worker_process_def
    Worker_call_health_check_transparent Worker_call_process_transparent)

end
