(* ===== verification/Applications.thy ===== *)
theory Applications
  imports Filters
begin

text \<open>Objects of the applications service (\<^verbatim>\<open>objects/applications\<close>).\<close>

section \<open>Fields\<close>

datatype applications_Field =
    Unspecified
  | Name
  | Version
  | Namespace
  | Service

primrec applications_Field_as_i32 :: "applications_Field \<Rightarrow> i32" where
    "applications_Field_as_i32 applications_Field.Unspecified = 0"
  | "applications_Field_as_i32 applications_Field.Name = 1"
  | "applications_Field_as_i32 applications_Field.Version = 2"
  | "applications_Field_as_i32 applications_Field.Namespace = 3"
  | "applications_Field_as_i32 applications_Field.Service = 4"

definition applications_Field_default :: applications_Field where
  "applications_Field_default = applications_Field.Name"

definition applications_Field_of_i32 :: "i32 \<Rightarrow> applications_Field" where
  "applications_Field_of_i32 i =
    (if i = 0 then applications_Field.Unspecified
     else if i = 1 then applications_Field.Name
     else if i = 2 then applications_Field.Version
     else if i = 3 then applications_Field.Namespace
     else if i = 4 then applications_Field.Service
     else applications_Field.Unspecified)"

interpretation applications_Field_enum: proto_enum applications_Field_as_i32 applications_Field_of_i32 applications_Field.Unspecified
proof unfold_locales
  fix e
  show "applications_Field_of_i32 (applications_Field_as_i32 e) = e" by (cases e) (simp_all add: applications_Field_of_i32_def applications_Field_default_def)
next
  fix i
  assume "applications_Field_of_i32 i \<noteq> applications_Field.Unspecified"
  then show "applications_Field_as_i32 (applications_Field_of_i32 i) = i"
    by (simp add: applications_Field_of_i32_def applications_Field_default_def split: if_splits)
qed

text \<open>The numbers are those of the schema.\<close>

datatype v3_applications_ApplicationRawEnumField =
    Unspecified
  | Name
  | Version
  | Namespace
  | Service

primrec v3_applications_ApplicationRawEnumField_as_i32 :: "v3_applications_ApplicationRawEnumField \<Rightarrow> i32" where
    "v3_applications_ApplicationRawEnumField_as_i32 v3_applications_ApplicationRawEnumField.Unspecified = 0"
  | "v3_applications_ApplicationRawEnumField_as_i32 v3_applications_ApplicationRawEnumField.Name = 1"
  | "v3_applications_ApplicationRawEnumField_as_i32 v3_applications_ApplicationRawEnumField.Version = 2"
  | "v3_applications_ApplicationRawEnumField_as_i32 v3_applications_ApplicationRawEnumField.Namespace = 3"
  | "v3_applications_ApplicationRawEnumField_as_i32 v3_applications_ApplicationRawEnumField.Service = 4"

primrec applications_Field_schema :: "applications_Field \<Rightarrow> v3_applications_ApplicationRawEnumField" where
    "applications_Field_schema applications_Field.Unspecified = v3_applications_ApplicationRawEnumField.Unspecified"
  | "applications_Field_schema applications_Field.Name = v3_applications_ApplicationRawEnumField.Name"
  | "applications_Field_schema applications_Field.Version = v3_applications_ApplicationRawEnumField.Version"
  | "applications_Field_schema applications_Field.Namespace = v3_applications_ApplicationRawEnumField.Namespace"
  | "applications_Field_schema applications_Field.Service = v3_applications_ApplicationRawEnumField.Service"

interpretation applications_Field_numbers: schema_enum applications_Field_as_i32 applications_Field_of_i32 applications_Field.Unspecified
    applications_Field_schema v3_applications_ApplicationRawEnumField_as_i32
proof unfold_locales
  fix e
  show "v3_applications_ApplicationRawEnumField_as_i32 (applications_Field_schema e) = applications_Field_as_i32 e" by (cases e) simp_all
next
  have "w \<in> range applications_Field_schema" for w
    by (cases w) (metis rangeI applications_Field_schema.simps)+
  then show "surj applications_Field_schema" by blast
qed

record v3_applications_ApplicationRawField =
  field :: i32

datatype v3_applications_application_field_Field =
    ApplicationField v3_applications_ApplicationRawField

record v3_applications_ApplicationField =
  field :: "v3_applications_application_field_Field option"

definition applications_Field_to_v3 :: "applications_Field \<Rightarrow> v3_applications_ApplicationField" where
  "applications_Field_to_v3 v =
     \<lparr>v3_applications_ApplicationField.field =
        Some (v3_applications_application_field_Field.ApplicationField
          \<lparr>v3_applications_ApplicationRawField.field = applications_Field_as_i32 v\<rparr>)\<rparr>"

definition applications_Field_of_v3 :: "v3_applications_ApplicationField \<Rightarrow> applications_Field" where
  "applications_Field_of_v3 v = (case v3_applications_ApplicationField.field v of
       Some (v3_applications_application_field_Field.ApplicationField f) \<Rightarrow>
         applications_Field_of_i32 (v3_applications_ApplicationRawField.field f)
     | None \<Rightarrow> applications_Field.Unspecified)"

interpretation applications_Field_codec: wire_codec applications_Field_to_v3 applications_Field_of_v3
  by unfold_locales (simp add: applications_Field_to_v3_def applications_Field_of_v3_def)

section \<open>Filters\<close>

datatype v3_applications_filter_field_ValueCondition =
    FilterString v3_FilterString

record v3_applications_FilterField =
  field :: "v3_applications_ApplicationField option"
  value_condition :: "v3_applications_filter_field_ValueCondition option"

record v3_applications_FiltersAnd =
  and_fields :: "v3_applications_FilterField list"

record v3_applications_Filters =
  or_ands :: "v3_applications_FiltersAnd list"

datatype applications_filter_Condition =
    String FilterString

definition applications_filter_Condition_default :: applications_filter_Condition where
  "applications_filter_Condition_default = applications_filter_Condition.String FilterString_default"

primrec applications_filter_Condition_to_v3 :: "applications_filter_Condition \<Rightarrow> v3_applications_filter_field_ValueCondition" where
    "applications_filter_Condition_to_v3 (applications_filter_Condition.String cond) = v3_applications_filter_field_ValueCondition.FilterString (FilterString_to_v3 cond)"

primrec applications_filter_Condition_of_v3 :: "v3_applications_filter_field_ValueCondition \<Rightarrow> applications_filter_Condition" where
    "applications_filter_Condition_of_v3 (v3_applications_filter_field_ValueCondition.FilterString cond) = applications_filter_Condition.String (FilterString_of_v3 cond)"

interpretation applications_filter_Condition_codec: wire_codec applications_filter_Condition_to_v3 applications_filter_Condition_of_v3
proof unfold_locales
  fix c
  show "applications_filter_Condition_of_v3 (applications_filter_Condition_to_v3 c) = c" by (cases c) simp_all
qed

record applications_filter_Field =
  field :: applications_Field
  condition :: applications_filter_Condition

definition applications_filter_Field_default :: applications_filter_Field where
  "applications_filter_Field_default = \<lparr>
     applications_filter_Field.field = applications_Field_default,
     applications_filter_Field.condition = applications_filter_Condition_default\<rparr>"

definition applications_filter_Field_to_v3 :: "applications_filter_Field \<Rightarrow> v3_applications_FilterField" where
  "applications_filter_Field_to_v3 v = \<lparr>
     v3_applications_FilterField.field = Some (applications_Field_to_v3 (applications_filter_Field.field v)),
     v3_applications_FilterField.value_condition = Some (applications_filter_Condition_to_v3 (applications_filter_Field.condition v))\<rparr>"

definition applications_filter_Field_of_v3 :: "v3_applications_FilterField \<Rightarrow> applications_filter_Field" where
  "applications_filter_Field_of_v3 v = \<lparr>
     applications_filter_Field.field = map_or_default applications_Field_default applications_Field_of_v3 (v3_applications_FilterField.field v),
     applications_filter_Field.condition = map_or_default applications_filter_Condition_default applications_filter_Condition_of_v3 (v3_applications_FilterField.value_condition v)\<rparr>"

interpretation applications_filter_Field_codec: wire_codec applications_filter_Field_to_v3 applications_filter_Field_of_v3
  by unfold_locales (simp add: applications_filter_Field_to_v3_def applications_filter_Field_of_v3_def)

record applications_filter_And =
  and_fields :: "applications_filter_Field list"

definition applications_filter_And_default :: applications_filter_And where
  "applications_filter_And_default = \<lparr>
     applications_filter_And.and_fields = []\<rparr>"

definition applications_filter_And_to_v3 :: "applications_filter_And \<Rightarrow> v3_applications_FiltersAnd" where
  "applications_filter_And_to_v3 v = \<lparr>
     v3_applications_FiltersAnd.and_fields = into_collect applications_filter_Field_to_v3 (applications_filter_And.and_fields v)\<rparr>"

definition applications_filter_And_of_v3 :: "v3_applications_FiltersAnd \<Rightarrow> applications_filter_And" where
  "applications_filter_And_of_v3 v = \<lparr>
     applications_filter_And.and_fields = into_collect applications_filter_Field_of_v3 (v3_applications_FiltersAnd.and_fields v)\<rparr>"

interpretation applications_filter_And_codec: wire_codec applications_filter_And_to_v3 applications_filter_And_of_v3
  by unfold_locales (simp add: applications_filter_And_to_v3_def applications_filter_And_of_v3_def)

record applications_filter_Or =
  or_ands :: "applications_filter_And list"

definition applications_filter_Or_default :: applications_filter_Or where
  "applications_filter_Or_default = \<lparr>
     applications_filter_Or.or_ands = []\<rparr>"

definition applications_filter_Or_to_v3 :: "applications_filter_Or \<Rightarrow> v3_applications_Filters" where
  "applications_filter_Or_to_v3 v = \<lparr>
     v3_applications_Filters.or_ands = into_collect applications_filter_And_to_v3 (applications_filter_Or.or_ands v)\<rparr>"

definition applications_filter_Or_of_v3 :: "v3_applications_Filters \<Rightarrow> applications_filter_Or" where
  "applications_filter_Or_of_v3 v = \<lparr>
     applications_filter_Or.or_ands = into_collect applications_filter_And_of_v3 (v3_applications_Filters.or_ands v)\<rparr>"

interpretation applications_filter_Or_codec: wire_codec applications_filter_Or_to_v3 applications_filter_Or_of_v3
  by unfold_locales (simp add: applications_filter_Or_to_v3_def applications_filter_Or_of_v3_def)

text \<open>Both are wrappers of vectors: they collect from and iterate like their vector.\<close>

definition applications_filter_And_from_iter :: "applications_filter_Field list \<Rightarrow> applications_filter_And" where
  "applications_filter_And_from_iter xs = \<lparr>applications_filter_And.and_fields = xs\<rparr>"

definition applications_filter_And_into_iter :: "applications_filter_And \<Rightarrow> applications_filter_Field list" where
  "applications_filter_And_into_iter v = applications_filter_And.and_fields v"

interpretation applications_filter_And_wrapper: vec_wrapper applications_filter_And.and_fields applications_filter_And.and_fields_update applications_filter_And_from_iter
  by unfold_locales (simp_all add: applications_filter_And_from_iter_def)

definition applications_filter_Or_from_iter :: "applications_filter_And list \<Rightarrow> applications_filter_Or" where
  "applications_filter_Or_from_iter xs = \<lparr>applications_filter_Or.or_ands = xs\<rparr>"

definition applications_filter_Or_into_iter :: "applications_filter_Or \<Rightarrow> applications_filter_And list" where
  "applications_filter_Or_into_iter v = applications_filter_Or.or_ands v"

interpretation applications_filter_Or_wrapper: vec_wrapper applications_filter_Or.or_ands applications_filter_Or.or_ands_update applications_filter_Or_from_iter
  by unfold_locales (simp_all add: applications_filter_Or_from_iter_def)

text \<open>The lists of lists of conditions that the client methods accept.\<close>

definition applications_filter_collect :: "applications_filter_Field list list \<Rightarrow> applications_filter_Or" where
  "applications_filter_collect fss = applications_filter_Or_from_iter (map (\<lambda>fs. applications_filter_And_from_iter (map (\<lambda>f. f) fs)) fss)"

definition applications_filter_lists :: "applications_filter_Or \<Rightarrow> applications_filter_Field list list" where
  "applications_filter_lists v = map applications_filter_And_into_iter (applications_filter_Or_into_iter v)"

lemmas applications_filter_wrapper_defs = applications_filter_And_from_iter_def applications_filter_And_into_iter_def applications_filter_Or_from_iter_def applications_filter_Or_into_iter_def
  applications_filter_collect_def applications_filter_lists_def

lemma applications_filter_collect_lists [simp]: "applications_filter_collect (applications_filter_lists v) = v"
  by (cases v) (auto simp: applications_filter_wrapper_defs intro!: map_idI)

section \<open>Sort\<close>

record v3_applications_list_applications_request_Sort =
  sort_fields :: "v3_applications_ApplicationField list"
  direction :: i32

record v3_applications_ListApplicationsRequest =
  page :: i32
  page_size :: i32
  filters :: "v3_applications_Filters option"
  sort :: "v3_applications_list_applications_request_Sort option"

record v3_applications_ApplicationRaw =
  name :: string
  version :: string
  namespace :: string
  service :: string

record v3_applications_ListApplicationsResponse =
  applications :: "v3_applications_ApplicationRaw list"
  page :: i32
  page_size :: i32
  total :: i32

type_synonym applications_Sort = "applications_Field SortMany"

definition applications_Sort_default :: applications_Sort where
  "applications_Sort_default = SortMany_default"

definition applications_Sort_to_v3 :: "applications_Sort \<Rightarrow> v3_applications_list_applications_request_Sort" where
  "applications_Sort_to_v3 v = \<lparr>
     v3_applications_list_applications_request_Sort.sort_fields = into_collect applications_Field_to_v3 (SortMany.sort_fields v),
     v3_applications_list_applications_request_Sort.direction = SortDirection_as_i32 (SortMany.direction v)\<rparr>"

definition applications_Sort_of_v3 :: "v3_applications_list_applications_request_Sort \<Rightarrow> applications_Sort" where
  "applications_Sort_of_v3 v = \<lparr>
     SortMany.sort_fields = into_collect applications_Field_of_v3 (v3_applications_list_applications_request_Sort.sort_fields v),
     SortMany.direction = SortDirection_of_i32 (v3_applications_list_applications_request_Sort.direction v)\<rparr>"

interpretation applications_Sort_codec: wire_codec applications_Sort_to_v3 applications_Sort_of_v3
  by unfold_locales (simp add: applications_Sort_to_v3_def applications_Sort_of_v3_def)

section \<open>Listing\<close>

record applications_Raw =
  name :: string
  version :: string
  namespace :: string
  service :: string

definition applications_Raw_default :: applications_Raw where
  "applications_Raw_default = \<lparr>
     applications_Raw.name = '''',
     applications_Raw.version = '''',
     applications_Raw.namespace = '''',
     applications_Raw.service = ''''\<rparr>"

definition applications_Raw_to_v3 :: "applications_Raw \<Rightarrow> v3_applications_ApplicationRaw" where
  "applications_Raw_to_v3 v = \<lparr>
     v3_applications_ApplicationRaw.name = applications_Raw.name v,
     v3_applications_ApplicationRaw.version = applications_Raw.version v,
     v3_applications_ApplicationRaw.namespace = applications_Raw.namespace v,
     v3_applications_ApplicationRaw.service = applications_Raw.service v\<rparr>"

definition applications_Raw_of_v3 :: "v3_applications_ApplicationRaw \<Rightarrow> applications_Raw" where
  "applications_Raw_of_v3 v = \<lparr>
     applications_Raw.name = v3_applications_ApplicationRaw.name v,
     applications_Raw.version = v3_applications_ApplicationRaw.version v,
     applications_Raw.namespace = v3_applications_ApplicationRaw.namespace v,
     applications_Raw.service = v3_applications_ApplicationRaw.service v\<rparr>"

interpretation applications_Raw_codec: wire_codec applications_Raw_to_v3 applications_Raw_of_v3
  by unfold_locales (simp add: applications_Raw_to_v3_def applications_Raw_of_v3_def)

record applications_list_Request =
  page :: i32
  page_size :: i32
  filters :: applications_filter_Or
  sort :: applications_Sort

definition applications_list_Request_default :: applications_list_Request where
  "applications_list_Request_default = \<lparr>
     applications_list_Request.page = 0,
     applications_list_Request.page_size = 100,
     applications_list_Request.filters = applications_filter_Or_default,
     applications_list_Request.sort = applications_Sort_default\<rparr>"

definition applications_list_Request_to_v3 :: "applications_list_Request \<Rightarrow> v3_applications_ListApplicationsRequest" where
  "applications_list_Request_to_v3 v = \<lparr>
     v3_applications_ListApplicationsRequest.page = applications_list_Request.page v,
     v3_applications_ListApplicationsRequest.page_size = applications_list_Request.page_size v,
     v3_applications_ListApplicationsRequest.filters = Some (applications_filter_Or_to_v3 (applications_list_Request.filters v)),
     v3_applications_ListApplicationsRequest.sort = Some (applications_Sort_to_v3 (applications_list_Request.sort v))\<rparr>"

definition applications_list_Request_of_v3 :: "v3_applications_ListApplicationsRequest \<Rightarrow> applications_list_Request" where
  "applications_list_Request_of_v3 v = \<lparr>
     applications_list_Request.page = v3_applications_ListApplicationsRequest.page v,
     applications_list_Request.page_size = v3_applications_ListApplicationsRequest.page_size v,
     applications_list_Request.filters = map_or_default applications_filter_Or_default applications_filter_Or_of_v3 (v3_applications_ListApplicationsRequest.filters v),
     applications_list_Request.sort = map_or_default applications_Sort_default applications_Sort_of_v3 (v3_applications_ListApplicationsRequest.sort v)\<rparr>"

interpretation applications_list_Request_codec: wire_codec applications_list_Request_to_v3 applications_list_Request_of_v3
  by unfold_locales (simp add: applications_list_Request_to_v3_def applications_list_Request_of_v3_def)

record applications_list_Response =
  applications :: "applications_Raw list"
  page :: i32
  page_size :: i32
  total :: i32

definition applications_list_Response_default :: applications_list_Response where
  "applications_list_Response_default = \<lparr>
     applications_list_Response.applications = [],
     applications_list_Response.page = 0,
     applications_list_Response.page_size = 100,
     applications_list_Response.total = 0\<rparr>"

definition applications_list_Response_to_v3 :: "applications_list_Response \<Rightarrow> v3_applications_ListApplicationsResponse" where
  "applications_list_Response_to_v3 v = \<lparr>
     v3_applications_ListApplicationsResponse.applications = into_collect applications_Raw_to_v3 (applications_list_Response.applications v),
     v3_applications_ListApplicationsResponse.page = applications_list_Response.page v,
     v3_applications_ListApplicationsResponse.page_size = applications_list_Response.page_size v,
     v3_applications_ListApplicationsResponse.total = applications_list_Response.total v\<rparr>"

definition applications_list_Response_of_v3 :: "v3_applications_ListApplicationsResponse \<Rightarrow> applications_list_Response" where
  "applications_list_Response_of_v3 v = \<lparr>
     applications_list_Response.applications = into_collect applications_Raw_of_v3 (v3_applications_ListApplicationsResponse.applications v),
     applications_list_Response.page = v3_applications_ListApplicationsResponse.page v,
     applications_list_Response.page_size = v3_applications_ListApplicationsResponse.page_size v,
     applications_list_Response.total = v3_applications_ListApplicationsResponse.total v\<rparr>"

interpretation applications_list_Response_codec: wire_codec applications_list_Response_to_v3 applications_list_Response_of_v3
  by unfold_locales (simp add: applications_list_Response_to_v3_def applications_list_Response_of_v3_def)

end
