(* ===== verification/Applications_Service.thy ===== *)
theory Applications_Service
  imports Request_Count Applications
begin

text \<open>
  The applications service: the client (\<^verbatim>\<open>client/applications.rs\<close>) and the server glue (\<^verbatim>\<open>server/applications.rs\<close>) around
  the generated stub and trait, and the composition of the two.
\<close>

section \<open>The generated stub\<close>

record 'c v3_applications_ApplicationsClient =
  list_applications :: "(v3_applications_ListApplicationsRequest, 'c, v3_applications_ListApplicationsResponse) stub"

text \<open>A stub that also records which procedures are called.\<close>

definition applications_recording :: "'c v3_applications_ApplicationsClient \<Rightarrow> 'c recording v3_applications_ApplicationsClient" where
  "applications_recording cl = \<lparr>
     v3_applications_ApplicationsClient.list_applications = recorded ''Applications'' ''ListApplications'' (v3_applications_ApplicationsClient.list_applications cl)\<rparr>"

section \<open>Client\<close>

subsection \<open>Raw calls\<close>

definition Applications_call_list :: "'c v3_applications_ApplicationsClient \<Rightarrow> applications_list_Request \<Rightarrow> 'c \<Rightarrow> (RequestError + applications_list_Response) \<times> 'c" where
  "Applications_call_list cl req c =
     unary_call applications_list_Request_to_v3 applications_list_Response_of_v3 (v3_applications_ApplicationsClient.list_applications cl) req c"

subsection \<open>Methods\<close>

definition Applications_list :: "'c v3_applications_ApplicationsClient \<Rightarrow> (applications_filter_Field list) list \<Rightarrow> applications_Sort \<Rightarrow> i32 \<Rightarrow> i32 \<Rightarrow> 'c \<Rightarrow> (RequestError + applications_list_Response) \<times> 'c" where
  "Applications_list cl filters' sort' page' page_size' c =
     Applications_call_list cl \<lparr>applications_list_Request.page = page', applications_list_Request.page_size = page_size', applications_list_Request.filters = applications_filter_collect filters', applications_list_Request.sort = sort'\<rparr> c"

lemmas applications_client_defs =
  Applications_call_list_def Applications_list_def

section \<open>Server\<close>

record ('h, 'e, 's) ApplicationsService =
  list :: "(applications_list_Request, 'h, 'e, 's, applications_list_Response) handler"

definition ApplicationsService_list_applications :: "('m \<Rightarrow> 'h) \<Rightarrow> ('h, 'e, 's) ApplicationsService
    \<Rightarrow> ('m, 'e, v3_applications_ListApplicationsRequest) tonic_Request \<Rightarrow> 's \<Rightarrow> (tonic_Status + v3_applications_ListApplicationsResponse) \<times> 's" where
  "ApplicationsService_list_applications ih svc =
     unary_server ih applications_list_Request_of_v3 applications_list_Response_to_v3 (ApplicationsService.list svc)"

section \<open>A client connected to a server\<close>

definition applications_loopback :: "('m \<Rightarrow> 'h) \<Rightarrow> 'm \<Rightarrow> 'e \<Rightarrow> ('h, 'e, 's) ApplicationsService \<Rightarrow> 's v3_applications_ApplicationsClient" where
  "applications_loopback ih m e svc = \<lparr>
     v3_applications_ApplicationsClient.list_applications = (\<lambda>w. ApplicationsService_list_applications ih svc (direct_request m e w))\<rparr>"

text \<open>The contract of each remote procedure.\<close>

interpretation applications_list_rpc: total_rpc_link
    applications_list_Request_to_v3 applications_list_Request_of_v3
    applications_list_Response_to_v3 applications_list_Response_of_v3
  by unfold_locales

lemmas applications_link_defs = applications_loopback_def applications_client_defs
  ApplicationsService_list_applications_def

lemma Applications_call_list_transparent:
  "Applications_call_list (applications_loopback ih m e svc) r s =
     in_process (ApplicationsService.list svc r (direct_context ih m e) s)"
  by (simp add: applications_link_defs)

lemma applications_raw_calls_once:
  "calls (Applications_call_list (applications_recording cl) req0 (l, c)) = l @ [(''Applications'', ''ListApplications'')]"
  by (simp_all add: applications_client_defs applications_recording_def)

lemma applications_methods_call_once:
  "calls (Applications_list (applications_recording cl) filters0 sort0 page0 page_size0 (l, c)) = l @ [(''Applications'', ''ListApplications'')]"
  by (simp_all add: applications_client_defs applications_recording_def)

end
