(* ===== verification/Applications_Tests.thy ===== *)
theory Applications_Tests
  imports Applications_Service
begin

text \<open>
  The unit tests of \<^verbatim>\<open>client/applications.rs\<close>: each is the counter it reads and the call it makes, with the arguments of the
  source. Against the mock server a test passes exactly when the answer to its call is the one it expects.
\<close>

definition Applications_test_list :: "('c v3_applications_ApplicationsClient, 'c) client_test" where
  "Applications_test_list = \<lparr>
     client_test.counter_service = ''Applications'', client_test.counter_rpc = ''ListApplications'',
     client_test.test_call = (\<lambda>cl c. unwrap (Applications_list cl (applications_filter_lists \<lparr>applications_filter_Or.or_ands = [\<lparr>applications_filter_And.and_fields = []\<rparr>]\<rparr>) applications_Sort_default 0 10 c))\<rparr>"

definition Applications_test_list_call :: "('c v3_applications_ApplicationsClient, 'c) client_test" where
  "Applications_test_list_call = \<lparr>
     client_test.counter_service = ''Applications'', client_test.counter_rpc = ''ListApplications'',
     client_test.test_call = (\<lambda>cl c. unwrap (Applications_call_list cl (applications_list_Request_default\<lparr>applications_list_Request.page_size := 10\<rparr>) c))\<rparr>"

definition Applications_tests :: "('c v3_applications_ApplicationsClient, 'c) client_test list" where
  "Applications_tests = [
     Applications_test_list,
     Applications_test_list_call]"

section \<open>The answers of the mock server\<close>

text \<open>
  The class of the mock server that implements the service, as the stub of a client connected to it. A field that is not set
  has its default. Its methods keep no state; one that is sent a stream reads it to its end, which the streams of the tests
  have.
\<close>

definition applications_mock :: "'c v3_applications_ApplicationsClient" where
  "applications_mock = \<lparr>
     v3_applications_ApplicationsClient.list_applications = (\<lambda>r c. (Inr \<lparr>v3_applications_ListApplicationsResponse.applications = [], v3_applications_ListApplicationsResponse.page = v3_applications_ListApplicationsRequest.page r, v3_applications_ListApplicationsResponse.page_size = v3_applications_ListApplicationsRequest.page_size r, v3_applications_ListApplicationsResponse.total = 0\<rparr>, c))\<rparr>"

section \<open>When the tests pass\<close>

lemma Applications_test_list_iff:
  "length l < 2 ^ 63 - 1 \<Longrightarrow> counted mock_counter (\<lambda>_. Some (applications_recording cl)) Applications_test_list (l, c) \<longleftrightarrow>
     fst (test_call Applications_test_list cl c)"
  by (rule counted_iff [where rec = applications_recording and svc = "''Applications''" and rpc = "''ListApplications''"])
    (simp_all add: Applications_test_list_def applications_client_defs applications_recording_def logged_simps counts_simps)

lemma Applications_test_list_call_iff:
  "length l < 2 ^ 63 - 1 \<Longrightarrow> counted mock_counter (\<lambda>_. Some (applications_recording cl)) Applications_test_list_call (l, c) \<longleftrightarrow>
     fst (test_call Applications_test_list_call cl c)"
  by (rule counted_iff [where rec = applications_recording and svc = "''Applications''" and rpc = "''ListApplications''"])
    (simp_all add: Applications_test_list_call_def applications_client_defs applications_recording_def logged_simps counts_simps)

lemma Applications_tests_iff:
  "length l < 2 ^ 63 - 1 \<Longrightarrow>
     map (\<lambda>t. counted mock_counter (\<lambda>_. Some (applications_recording cl)) t (l, c)) Applications_tests =
     map (\<lambda>t. fst (test_call t cl c)) Applications_tests"
  by (simp add: Applications_tests_def
      Applications_test_list_iff
      Applications_test_list_call_iff)

text \<open>The mock server answers all of them as they expect.\<close>

lemma applications_mock_answers: "list_all (\<lambda>t. fst (test_call t applications_mock c)) Applications_tests"
  by (simp add: Applications_tests_def applications_mock_def mock_simps applications_client_defs
      Applications_test_list_def
      Applications_test_list_call_def)

lemma Applications_tests_pass:
  "length l < 2 ^ 63 - 1 \<Longrightarrow>
     list_all (\<lambda>t. counted mock_counter (\<lambda>_. Some (applications_recording applications_mock)) t (l, c)) Applications_tests"
  by (rule list_all_decided [OF _ applications_mock_answers]) (rule Applications_tests_iff)

section \<open>The integration tests\<close>

text \<open>
  \<^verbatim>\<open>tests/applications.rs\<close>: the service that the tests start, and the tests, each on a client
  \<open>cl\<close> connected to it.
\<close>

definition applications_test_service ::
  "tonic_Status option \<Rightarrow> ('h, 'e, 's) ApplicationsService" where
  "applications_test_service fails = \<lparr>
     ApplicationsService.list = (\<lambda>r ctx. unary_rpc_impl fails \<lparr>applications_list_Response.applications = [(applications_Raw_default\<lparr>applications_Raw.name := ''rpc-list-output''\<rparr>)], applications_list_Response.page = applications_list_Request.page r, applications_list_Response.page_size = applications_list_Request.page_size r, applications_list_Response.total = 1337\<rparr>)\<rparr>"

definition Applications_integration_list :: "'c v3_applications_ApplicationsClient \<Rightarrow> 'c \<Rightarrow> bool" where
  "Applications_integration_list cl s \<longleftrightarrow> expects (\<lambda>p.
       applications_list_Response.page p = 3 \<and> applications_list_Response.page_size p = 12 \<and> applications_list_Response.total p = 1337
     \<and> indexed 0 (\<lambda>x. applications_Raw.name x = ''rpc-list-output'') (applications_list_Response.applications p))
     (Applications_list cl (applications_filter_lists applications_filter_Or_default) applications_Sort_default 3 12 s)"

definition Applications_integration :: "('c v3_applications_ApplicationsClient \<Rightarrow> 'c \<Rightarrow> bool) list" where
  "Applications_integration = [
     Applications_integration_list]"

text \<open>They pass, whatever the state of the service.\<close>

lemmas applications_integration_defs = Applications_integration_def applications_test_service_def indexed_def
  Applications_integration_list_def

lemma Applications_integration_passes:
  "list_all (\<lambda>t. t (applications_loopback ih m e (applications_test_service None)) s) (Applications_integration)"
  by (simp add: applications_integration_defs 
    Applications_list_def
    Applications_call_list_transparent)

end
