(* ===== verification/Partitions.thy ===== *)
theory Partitions
  imports Applications Filters
begin

text \<open>Objects of the partitions service (\<^verbatim>\<open>objects/partitions\<close>).\<close>

section \<open>Fields\<close>

datatype partitions_Field =
    Unspecified
  | Id
  | ParentPartitionIds
  | PodReserved
  | PodMax
  | PreemptionPercentage
  | Priority

primrec partitions_Field_as_i32 :: "partitions_Field \<Rightarrow> i32" where
    "partitions_Field_as_i32 partitions_Field.Unspecified = 0"
  | "partitions_Field_as_i32 partitions_Field.Id = 1"
  | "partitions_Field_as_i32 partitions_Field.ParentPartitionIds = 2"
  | "partitions_Field_as_i32 partitions_Field.PodReserved = 3"
  | "partitions_Field_as_i32 partitions_Field.PodMax = 4"
  | "partitions_Field_as_i32 partitions_Field.PreemptionPercentage = 5"
  | "partitions_Field_as_i32 partitions_Field.Priority = 6"

definition partitions_Field_default :: partitions_Field where
  "partitions_Field_default = partitions_Field.Id"

definition partitions_Field_of_i32 :: "i32 \<Rightarrow> partitions_Field" where
  "partitions_Field_of_i32 i =
    (if i = 0 then partitions_Field.Unspecified
     else if i = 1 then partitions_Field.Id
     else if i = 2 then partitions_Field.ParentPartitionIds
     else if i = 3 then partitions_Field.PodReserved
     else if i = 4 then partitions_Field.PodMax
     else if i = 5 then partitions_Field.PreemptionPercentage
     else if i = 6 then partitions_Field.Priority
     else partitions_Field.Unspecified)"

interpretation partitions_Field_enum: proto_enum partitions_Field_as_i32 partitions_Field_of_i32 partitions_Field.Unspecified
proof unfold_locales
  fix e
  show "partitions_Field_of_i32 (partitions_Field_as_i32 e) = e" by (cases e) (simp_all add: partitions_Field_of_i32_def partitions_Field_default_def)
next
  fix i
  assume "partitions_Field_of_i32 i \<noteq> partitions_Field.Unspecified"
  then show "partitions_Field_as_i32 (partitions_Field_of_i32 i) = i"
    by (simp add: partitions_Field_of_i32_def partitions_Field_default_def split: if_splits)
qed

text \<open>The numbers are those of the schema.\<close>

datatype v3_partitions_PartitionRawEnumField =
    Unspecified
  | Id
  | ParentPartitionIds
  | PodReserved
  | PodMax
  | PreemptionPercentage
  | Priority

primrec v3_partitions_PartitionRawEnumField_as_i32 :: "v3_partitions_PartitionRawEnumField \<Rightarrow> i32" where
    "v3_partitions_PartitionRawEnumField_as_i32 v3_partitions_PartitionRawEnumField.Unspecified = 0"
  | "v3_partitions_PartitionRawEnumField_as_i32 v3_partitions_PartitionRawEnumField.Id = 1"
  | "v3_partitions_PartitionRawEnumField_as_i32 v3_partitions_PartitionRawEnumField.ParentPartitionIds = 2"
  | "v3_partitions_PartitionRawEnumField_as_i32 v3_partitions_PartitionRawEnumField.PodReserved = 3"
  | "v3_partitions_PartitionRawEnumField_as_i32 v3_partitions_PartitionRawEnumField.PodMax = 4"
  | "v3_partitions_PartitionRawEnumField_as_i32 v3_partitions_PartitionRawEnumField.PreemptionPercentage = 5"
  | "v3_partitions_PartitionRawEnumField_as_i32 v3_partitions_PartitionRawEnumField.Priority = 6"

primrec partitions_Field_schema :: "partitions_Field \<Rightarrow> v3_partitions_PartitionRawEnumField" where
    "partitions_Field_schema partitions_Field.Unspecified = v3_partitions_PartitionRawEnumField.Unspecified"
  | "partitions_Field_schema partitions_Field.Id = v3_partitions_PartitionRawEnumField.Id"
  | "partitions_Field_schema partitions_Field.ParentPartitionIds = v3_partitions_PartitionRawEnumField.ParentPartitionIds"
  | "partitions_Field_schema partitions_Field.PodReserved = v3_partitions_PartitionRawEnumField.PodReserved"
  | "partitions_Field_schema partitions_Field.PodMax = v3_partitions_PartitionRawEnumField.PodMax"
  | "partitions_Field_schema partitions_Field.PreemptionPercentage = v3_partitions_PartitionRawEnumField.PreemptionPercentage"
  | "partitions_Field_schema partitions_Field.Priority = v3_partitions_PartitionRawEnumField.Priority"

interpretation partitions_Field_numbers: schema_enum partitions_Field_as_i32 partitions_Field_of_i32 partitions_Field.Unspecified
    partitions_Field_schema v3_partitions_PartitionRawEnumField_as_i32
proof unfold_locales
  fix e
  show "v3_partitions_PartitionRawEnumField_as_i32 (partitions_Field_schema e) = partitions_Field_as_i32 e" by (cases e) simp_all
next
  have "w \<in> range partitions_Field_schema" for w
    by (cases w) (metis rangeI partitions_Field_schema.simps)+
  then show "surj partitions_Field_schema" by blast
qed

record v3_partitions_PartitionRawField =
  field :: i32

datatype v3_partitions_partition_field_Field =
    PartitionRawField v3_partitions_PartitionRawField

record v3_partitions_PartitionField =
  field :: "v3_partitions_partition_field_Field option"

definition partitions_Field_to_v3 :: "partitions_Field \<Rightarrow> v3_partitions_PartitionField" where
  "partitions_Field_to_v3 v =
     \<lparr>v3_partitions_PartitionField.field =
        Some (v3_partitions_partition_field_Field.PartitionRawField
          \<lparr>v3_partitions_PartitionRawField.field = partitions_Field_as_i32 v\<rparr>)\<rparr>"

definition partitions_Field_of_v3 :: "v3_partitions_PartitionField \<Rightarrow> partitions_Field" where
  "partitions_Field_of_v3 v = (case v3_partitions_PartitionField.field v of
       Some (v3_partitions_partition_field_Field.PartitionRawField f) \<Rightarrow>
         partitions_Field_of_i32 (v3_partitions_PartitionRawField.field f)
     | None \<Rightarrow> partitions_Field.Unspecified)"

interpretation partitions_Field_codec: wire_codec partitions_Field_to_v3 partitions_Field_of_v3
  by unfold_locales (simp add: partitions_Field_to_v3_def partitions_Field_of_v3_def)

section \<open>Filters and sort\<close>

datatype v3_partitions_filter_field_ValueCondition =
    FilterString v3_FilterString
  | FilterNumber v3_FilterNumber
  | FilterBoolean v3_FilterBoolean
  | FilterArray v3_FilterArray

record v3_partitions_FilterField =
  field :: "v3_partitions_PartitionField option"
  value_condition :: "v3_partitions_filter_field_ValueCondition option"

record v3_partitions_FiltersAnd =
  and_fields :: "v3_partitions_FilterField list"

record v3_partitions_Filters =
  or_ands :: "v3_partitions_FiltersAnd list"

datatype partitions_filter_Condition =
    String FilterString
  | Number FilterNumber
  | Boolean FilterBoolean
  | Array FilterArray

definition partitions_filter_Condition_default :: partitions_filter_Condition where
  "partitions_filter_Condition_default = partitions_filter_Condition.String FilterString_default"

primrec partitions_filter_Condition_to_v3 :: "partitions_filter_Condition \<Rightarrow> v3_partitions_filter_field_ValueCondition" where
    "partitions_filter_Condition_to_v3 (partitions_filter_Condition.String cond) = v3_partitions_filter_field_ValueCondition.FilterString (FilterString_to_v3 cond)"
  | "partitions_filter_Condition_to_v3 (partitions_filter_Condition.Number cond) = v3_partitions_filter_field_ValueCondition.FilterNumber (FilterNumber_to_v3 cond)"
  | "partitions_filter_Condition_to_v3 (partitions_filter_Condition.Boolean cond) = v3_partitions_filter_field_ValueCondition.FilterBoolean (FilterBoolean_to_v3 cond)"
  | "partitions_filter_Condition_to_v3 (partitions_filter_Condition.Array cond) = v3_partitions_filter_field_ValueCondition.FilterArray (FilterArray_to_v3 cond)"

primrec partitions_filter_Condition_of_v3 :: "v3_partitions_filter_field_ValueCondition \<Rightarrow> partitions_filter_Condition" where
    "partitions_filter_Condition_of_v3 (v3_partitions_filter_field_ValueCondition.FilterString cond) = partitions_filter_Condition.String (FilterString_of_v3 cond)"
  | "partitions_filter_Condition_of_v3 (v3_partitions_filter_field_ValueCondition.FilterNumber cond) = partitions_filter_Condition.Number (FilterNumber_of_v3 cond)"
  | "partitions_filter_Condition_of_v3 (v3_partitions_filter_field_ValueCondition.FilterBoolean cond) = partitions_filter_Condition.Boolean (FilterBoolean_of_v3 cond)"
  | "partitions_filter_Condition_of_v3 (v3_partitions_filter_field_ValueCondition.FilterArray cond) = partitions_filter_Condition.Array (FilterArray_of_v3 cond)"

interpretation partitions_filter_Condition_codec: wire_codec partitions_filter_Condition_to_v3 partitions_filter_Condition_of_v3
proof unfold_locales
  fix c
  show "partitions_filter_Condition_of_v3 (partitions_filter_Condition_to_v3 c) = c" by (cases c) simp_all
qed

record partitions_filter_Field =
  field :: partitions_Field
  condition :: partitions_filter_Condition

definition partitions_filter_Field_default :: partitions_filter_Field where
  "partitions_filter_Field_default = \<lparr>
     partitions_filter_Field.field = partitions_Field_default,
     partitions_filter_Field.condition = partitions_filter_Condition_default\<rparr>"

definition partitions_filter_Field_to_v3 :: "partitions_filter_Field \<Rightarrow> v3_partitions_FilterField" where
  "partitions_filter_Field_to_v3 v = \<lparr>
     v3_partitions_FilterField.field = Some (partitions_Field_to_v3 (partitions_filter_Field.field v)),
     v3_partitions_FilterField.value_condition = Some (partitions_filter_Condition_to_v3 (partitions_filter_Field.condition v))\<rparr>"

definition partitions_filter_Field_of_v3 :: "v3_partitions_FilterField \<Rightarrow> partitions_filter_Field" where
  "partitions_filter_Field_of_v3 v = \<lparr>
     partitions_filter_Field.field = map_or_default partitions_Field_default partitions_Field_of_v3 (v3_partitions_FilterField.field v),
     partitions_filter_Field.condition = map_or_default partitions_filter_Condition_default partitions_filter_Condition_of_v3 (v3_partitions_FilterField.value_condition v)\<rparr>"

interpretation partitions_filter_Field_codec: wire_codec partitions_filter_Field_to_v3 partitions_filter_Field_of_v3
  by unfold_locales (simp add: partitions_filter_Field_to_v3_def partitions_filter_Field_of_v3_def)

record partitions_filter_And =
  and_fields :: "partitions_filter_Field list"

definition partitions_filter_And_default :: partitions_filter_And where
  "partitions_filter_And_default = \<lparr>
     partitions_filter_And.and_fields = []\<rparr>"

definition partitions_filter_And_to_v3 :: "partitions_filter_And \<Rightarrow> v3_partitions_FiltersAnd" where
  "partitions_filter_And_to_v3 v = \<lparr>
     v3_partitions_FiltersAnd.and_fields = into_collect partitions_filter_Field_to_v3 (partitions_filter_And.and_fields v)\<rparr>"

definition partitions_filter_And_of_v3 :: "v3_partitions_FiltersAnd \<Rightarrow> partitions_filter_And" where
  "partitions_filter_And_of_v3 v = \<lparr>
     partitions_filter_And.and_fields = into_collect partitions_filter_Field_of_v3 (v3_partitions_FiltersAnd.and_fields v)\<rparr>"

interpretation partitions_filter_And_codec: wire_codec partitions_filter_And_to_v3 partitions_filter_And_of_v3
  by unfold_locales (simp add: partitions_filter_And_to_v3_def partitions_filter_And_of_v3_def)

record partitions_filter_Or =
  or_ands :: "partitions_filter_And list"

definition partitions_filter_Or_default :: partitions_filter_Or where
  "partitions_filter_Or_default = \<lparr>
     partitions_filter_Or.or_ands = []\<rparr>"

definition partitions_filter_Or_to_v3 :: "partitions_filter_Or \<Rightarrow> v3_partitions_Filters" where
  "partitions_filter_Or_to_v3 v = \<lparr>
     v3_partitions_Filters.or_ands = into_collect partitions_filter_And_to_v3 (partitions_filter_Or.or_ands v)\<rparr>"

definition partitions_filter_Or_of_v3 :: "v3_partitions_Filters \<Rightarrow> partitions_filter_Or" where
  "partitions_filter_Or_of_v3 v = \<lparr>
     partitions_filter_Or.or_ands = into_collect partitions_filter_And_of_v3 (v3_partitions_Filters.or_ands v)\<rparr>"

interpretation partitions_filter_Or_codec: wire_codec partitions_filter_Or_to_v3 partitions_filter_Or_of_v3
  by unfold_locales (simp add: partitions_filter_Or_to_v3_def partitions_filter_Or_of_v3_def)

text \<open>Both are wrappers of vectors: they collect from and iterate like their vector.\<close>

definition partitions_filter_And_from_iter :: "partitions_filter_Field list \<Rightarrow> partitions_filter_And" where
  "partitions_filter_And_from_iter xs = \<lparr>partitions_filter_And.and_fields = xs\<rparr>"

definition partitions_filter_And_into_iter :: "partitions_filter_And \<Rightarrow> partitions_filter_Field list" where
  "partitions_filter_And_into_iter v = partitions_filter_And.and_fields v"

interpretation partitions_filter_And_wrapper: vec_wrapper partitions_filter_And.and_fields partitions_filter_And.and_fields_update partitions_filter_And_from_iter
  by unfold_locales (simp_all add: partitions_filter_And_from_iter_def)

definition partitions_filter_Or_from_iter :: "partitions_filter_And list \<Rightarrow> partitions_filter_Or" where
  "partitions_filter_Or_from_iter xs = \<lparr>partitions_filter_Or.or_ands = xs\<rparr>"

definition partitions_filter_Or_into_iter :: "partitions_filter_Or \<Rightarrow> partitions_filter_And list" where
  "partitions_filter_Or_into_iter v = partitions_filter_Or.or_ands v"

interpretation partitions_filter_Or_wrapper: vec_wrapper partitions_filter_Or.or_ands partitions_filter_Or.or_ands_update partitions_filter_Or_from_iter
  by unfold_locales (simp_all add: partitions_filter_Or_from_iter_def)

text \<open>The lists of lists of conditions that the client methods accept.\<close>

definition partitions_filter_collect :: "partitions_filter_Field list list \<Rightarrow> partitions_filter_Or" where
  "partitions_filter_collect fss = partitions_filter_Or_from_iter (map (\<lambda>fs. partitions_filter_And_from_iter (map (\<lambda>f. f) fs)) fss)"

definition partitions_filter_lists :: "partitions_filter_Or \<Rightarrow> partitions_filter_Field list list" where
  "partitions_filter_lists v = map partitions_filter_And_into_iter (partitions_filter_Or_into_iter v)"

lemmas partitions_filter_wrapper_defs = partitions_filter_And_from_iter_def partitions_filter_And_into_iter_def partitions_filter_Or_from_iter_def partitions_filter_Or_into_iter_def
  partitions_filter_collect_def partitions_filter_lists_def

lemma partitions_filter_collect_lists [simp]: "partitions_filter_collect (partitions_filter_lists v) = v"
  by (cases v) (auto simp: partitions_filter_wrapper_defs intro!: map_idI)

record v3_partitions_list_partitions_request_Sort =
  field :: "v3_partitions_PartitionField option"
  direction :: i32

record v3_partitions_ListPartitionsRequest =
  page :: i32
  page_size :: i32
  filters :: "v3_partitions_Filters option"
  sort :: "v3_partitions_list_partitions_request_Sort option"

record v3_partitions_PartitionRaw =
  id :: string
  parent_partition_ids :: "string list"
  pod_reserved :: i64
  pod_max :: i64
  pod_configuration :: "(string, string) fmap"
  preemption_percentage :: i64
  priority :: i64

record v3_partitions_ListPartitionsResponse =
  partitions :: "v3_partitions_PartitionRaw list"
  page :: i32
  page_size :: i32
  total :: i32

record v3_partitions_GetPartitionRequest =
  id :: string

record v3_partitions_GetPartitionResponse =
  partition :: "v3_partitions_PartitionRaw option"

type_synonym partitions_Sort = "partitions_Field Sort"

definition partitions_Sort_default :: partitions_Sort where
  "partitions_Sort_default = Sort_default partitions_Field_default"

definition partitions_Sort_to_v3 :: "partitions_Sort \<Rightarrow> v3_partitions_list_partitions_request_Sort" where
  "partitions_Sort_to_v3 v = \<lparr>
     v3_partitions_list_partitions_request_Sort.field = Some (partitions_Field_to_v3 (Sort.field v)),
     v3_partitions_list_partitions_request_Sort.direction = SortDirection_as_i32 (Sort.direction v)\<rparr>"

definition partitions_Sort_of_v3 :: "v3_partitions_list_partitions_request_Sort \<Rightarrow> partitions_Sort" where
  "partitions_Sort_of_v3 v = \<lparr>
     Sort.field = map_or_default partitions_Field_default partitions_Field_of_v3 (v3_partitions_list_partitions_request_Sort.field v),
     Sort.direction = SortDirection_of_i32 (v3_partitions_list_partitions_request_Sort.direction v)\<rparr>"

interpretation partitions_Sort_codec: wire_codec partitions_Sort_to_v3 partitions_Sort_of_v3
  by unfold_locales (simp add: partitions_Sort_to_v3_def partitions_Sort_of_v3_def)

section \<open>Partitions\<close>

record partitions_Raw =
  partition_id :: string
  parent_partition_ids :: "string list"
  pod_reserved :: i64
  pod_max :: i64
  pod_configuration :: "(string, string) fmap"
  preemption_percentage :: i64
  priority :: i64

definition partitions_Raw_default :: partitions_Raw where
  "partitions_Raw_default = \<lparr>
     partitions_Raw.partition_id = '''',
     partitions_Raw.parent_partition_ids = [],
     partitions_Raw.pod_reserved = 0,
     partitions_Raw.pod_max = 0,
     partitions_Raw.pod_configuration = fmempty,
     partitions_Raw.preemption_percentage = 0,
     partitions_Raw.priority = 0\<rparr>"

definition partitions_Raw_to_v3 :: "partitions_Raw \<Rightarrow> v3_partitions_PartitionRaw" where
  "partitions_Raw_to_v3 v = \<lparr>
     v3_partitions_PartitionRaw.id = partitions_Raw.partition_id v,
     v3_partitions_PartitionRaw.parent_partition_ids = partitions_Raw.parent_partition_ids v,
     v3_partitions_PartitionRaw.pod_reserved = partitions_Raw.pod_reserved v,
     v3_partitions_PartitionRaw.pod_max = partitions_Raw.pod_max v,
     v3_partitions_PartitionRaw.pod_configuration = partitions_Raw.pod_configuration v,
     v3_partitions_PartitionRaw.preemption_percentage = partitions_Raw.preemption_percentage v,
     v3_partitions_PartitionRaw.priority = partitions_Raw.priority v\<rparr>"

definition partitions_Raw_of_v3 :: "v3_partitions_PartitionRaw \<Rightarrow> partitions_Raw" where
  "partitions_Raw_of_v3 v = \<lparr>
     partitions_Raw.partition_id = v3_partitions_PartitionRaw.id v,
     partitions_Raw.parent_partition_ids = v3_partitions_PartitionRaw.parent_partition_ids v,
     partitions_Raw.pod_reserved = v3_partitions_PartitionRaw.pod_reserved v,
     partitions_Raw.pod_max = v3_partitions_PartitionRaw.pod_max v,
     partitions_Raw.pod_configuration = v3_partitions_PartitionRaw.pod_configuration v,
     partitions_Raw.preemption_percentage = v3_partitions_PartitionRaw.preemption_percentage v,
     partitions_Raw.priority = v3_partitions_PartitionRaw.priority v\<rparr>"

interpretation partitions_Raw_codec: wire_codec partitions_Raw_to_v3 partitions_Raw_of_v3
  by unfold_locales (simp add: partitions_Raw_to_v3_def partitions_Raw_of_v3_def)

record partitions_get_Request =
  partition_id :: string

definition partitions_get_Request_default :: partitions_get_Request where
  "partitions_get_Request_default = \<lparr>
     partitions_get_Request.partition_id = ''''\<rparr>"

definition partitions_get_Request_to_v3 :: "partitions_get_Request \<Rightarrow> v3_partitions_GetPartitionRequest" where
  "partitions_get_Request_to_v3 v = \<lparr>
     v3_partitions_GetPartitionRequest.id = partitions_get_Request.partition_id v\<rparr>"

definition partitions_get_Request_of_v3 :: "v3_partitions_GetPartitionRequest \<Rightarrow> partitions_get_Request" where
  "partitions_get_Request_of_v3 v = \<lparr>
     partitions_get_Request.partition_id = v3_partitions_GetPartitionRequest.id v\<rparr>"

interpretation partitions_get_Request_codec: wire_codec partitions_get_Request_to_v3 partitions_get_Request_of_v3
  by unfold_locales (simp add: partitions_get_Request_to_v3_def partitions_get_Request_of_v3_def)

record partitions_get_Response =
  partition :: partitions_Raw

definition partitions_get_Response_default :: partitions_get_Response where
  "partitions_get_Response_default = \<lparr>
     partitions_get_Response.partition = partitions_Raw_default\<rparr>"

definition partitions_get_Response_to_v3 :: "partitions_get_Response \<Rightarrow> v3_partitions_GetPartitionResponse" where
  "partitions_get_Response_to_v3 v = \<lparr>
     v3_partitions_GetPartitionResponse.partition = Some (partitions_Raw_to_v3 (partitions_get_Response.partition v))\<rparr>"

definition partitions_get_Response_of_v3 :: "v3_partitions_GetPartitionResponse \<Rightarrow> partitions_get_Response" where
  "partitions_get_Response_of_v3 v = \<lparr>
     partitions_get_Response.partition = map_or_default partitions_Raw_default partitions_Raw_of_v3 (v3_partitions_GetPartitionResponse.partition v)\<rparr>"

interpretation partitions_get_Response_codec: wire_codec partitions_get_Response_to_v3 partitions_get_Response_of_v3
  by unfold_locales (simp add: partitions_get_Response_to_v3_def partitions_get_Response_of_v3_def)

record partitions_list_Request =
  page :: i32
  page_size :: i32
  filters :: partitions_filter_Or
  sort :: partitions_Sort

definition partitions_list_Request_default :: partitions_list_Request where
  "partitions_list_Request_default = \<lparr>
     partitions_list_Request.page = 0,
     partitions_list_Request.page_size = 100,
     partitions_list_Request.filters = partitions_filter_Or_default,
     partitions_list_Request.sort = partitions_Sort_default\<rparr>"

definition partitions_list_Request_to_v3 :: "partitions_list_Request \<Rightarrow> v3_partitions_ListPartitionsRequest" where
  "partitions_list_Request_to_v3 v = \<lparr>
     v3_partitions_ListPartitionsRequest.page = partitions_list_Request.page v,
     v3_partitions_ListPartitionsRequest.page_size = partitions_list_Request.page_size v,
     v3_partitions_ListPartitionsRequest.filters = Some (partitions_filter_Or_to_v3 (partitions_list_Request.filters v)),
     v3_partitions_ListPartitionsRequest.sort = Some (partitions_Sort_to_v3 (partitions_list_Request.sort v))\<rparr>"

definition partitions_list_Request_of_v3 :: "v3_partitions_ListPartitionsRequest \<Rightarrow> partitions_list_Request" where
  "partitions_list_Request_of_v3 v = \<lparr>
     partitions_list_Request.page = v3_partitions_ListPartitionsRequest.page v,
     partitions_list_Request.page_size = v3_partitions_ListPartitionsRequest.page_size v,
     partitions_list_Request.filters = map_or_default partitions_filter_Or_default partitions_filter_Or_of_v3 (v3_partitions_ListPartitionsRequest.filters v),
     partitions_list_Request.sort = map_or_default partitions_Sort_default partitions_Sort_of_v3 (v3_partitions_ListPartitionsRequest.sort v)\<rparr>"

interpretation partitions_list_Request_codec: wire_codec partitions_list_Request_to_v3 partitions_list_Request_of_v3
  by unfold_locales (simp add: partitions_list_Request_to_v3_def partitions_list_Request_of_v3_def)

record partitions_list_Response =
  partitions :: "partitions_Raw list"
  page :: i32
  page_size :: i32
  total :: i32

definition partitions_list_Response_default :: partitions_list_Response where
  "partitions_list_Response_default = \<lparr>
     partitions_list_Response.partitions = [],
     partitions_list_Response.page = 0,
     partitions_list_Response.page_size = 100,
     partitions_list_Response.total = 0\<rparr>"

definition partitions_list_Response_to_v3 :: "partitions_list_Response \<Rightarrow> v3_partitions_ListPartitionsResponse" where
  "partitions_list_Response_to_v3 v = \<lparr>
     v3_partitions_ListPartitionsResponse.partitions = into_collect partitions_Raw_to_v3 (partitions_list_Response.partitions v),
     v3_partitions_ListPartitionsResponse.page = partitions_list_Response.page v,
     v3_partitions_ListPartitionsResponse.page_size = partitions_list_Response.page_size v,
     v3_partitions_ListPartitionsResponse.total = partitions_list_Response.total v\<rparr>"

definition partitions_list_Response_of_v3 :: "v3_partitions_ListPartitionsResponse \<Rightarrow> partitions_list_Response" where
  "partitions_list_Response_of_v3 v = \<lparr>
     partitions_list_Response.partitions = into_collect partitions_Raw_of_v3 (v3_partitions_ListPartitionsResponse.partitions v),
     partitions_list_Response.page = v3_partitions_ListPartitionsResponse.page v,
     partitions_list_Response.page_size = v3_partitions_ListPartitionsResponse.page_size v,
     partitions_list_Response.total = v3_partitions_ListPartitionsResponse.total v\<rparr>"

interpretation partitions_list_Response_codec: wire_codec partitions_list_Response_to_v3 partitions_list_Response_of_v3
  by unfold_locales (simp add: partitions_list_Response_to_v3_def partitions_list_Response_of_v3_def)

end
