(* ===== verification/Partitions_Service.thy ===== *)
theory Partitions_Service
  imports Applications_Tests Request_Count Partitions
begin

text \<open>
  The partitions service: the client (\<^verbatim>\<open>client/partitions.rs\<close>) and the server glue (\<^verbatim>\<open>server/partitions.rs\<close>) around
  the generated stub and trait, and the composition of the two.
\<close>

section \<open>The generated stub\<close>

record 'c v3_partitions_PartitionsClient =
  list_partitions :: "(v3_partitions_ListPartitionsRequest, 'c, v3_partitions_ListPartitionsResponse) stub"
  get_partition :: "(v3_partitions_GetPartitionRequest, 'c, v3_partitions_GetPartitionResponse) stub"

text \<open>A stub that also records which procedures are called.\<close>

definition partitions_recording :: "'c v3_partitions_PartitionsClient \<Rightarrow> 'c recording v3_partitions_PartitionsClient" where
  "partitions_recording cl = \<lparr>
     v3_partitions_PartitionsClient.list_partitions = recorded ''Partitions'' ''ListPartitions'' (v3_partitions_PartitionsClient.list_partitions cl),
     v3_partitions_PartitionsClient.get_partition = recorded ''Partitions'' ''GetPartition'' (v3_partitions_PartitionsClient.get_partition cl)\<rparr>"

section \<open>Client\<close>

subsection \<open>Raw calls\<close>

definition Partitions_call_list :: "'c v3_partitions_PartitionsClient \<Rightarrow> partitions_list_Request \<Rightarrow> 'c \<Rightarrow> (RequestError + partitions_list_Response) \<times> 'c" where
  "Partitions_call_list cl req c =
     unary_call partitions_list_Request_to_v3 partitions_list_Response_of_v3 (v3_partitions_PartitionsClient.list_partitions cl) req c"

definition Partitions_call_get :: "'c v3_partitions_PartitionsClient \<Rightarrow> partitions_get_Request \<Rightarrow> 'c \<Rightarrow> (RequestError + partitions_get_Response) \<times> 'c" where
  "Partitions_call_get cl req c =
     unary_call partitions_get_Request_to_v3 partitions_get_Response_of_v3 (v3_partitions_PartitionsClient.get_partition cl) req c"

subsection \<open>Methods\<close>

definition Partitions_list :: "'c v3_partitions_PartitionsClient \<Rightarrow> (partitions_filter_Field list) list \<Rightarrow> partitions_Sort \<Rightarrow> i32 \<Rightarrow> i32 \<Rightarrow> 'c \<Rightarrow> (RequestError + partitions_list_Response) \<times> 'c" where
  "Partitions_list cl filters' sort' page' page_size' c =
     Partitions_call_list cl \<lparr>partitions_list_Request.page = page', partitions_list_Request.page_size = page_size', partitions_list_Request.filters = partitions_filter_collect filters', partitions_list_Request.sort = sort'\<rparr> c"

definition Partitions_get :: "'c v3_partitions_PartitionsClient \<Rightarrow> string \<Rightarrow> 'c \<Rightarrow> (RequestError + partitions_Raw) \<times> 'c" where
  "Partitions_get cl partition_id' c =
     map_ok partitions_get_Response.partition (Partitions_call_get cl \<lparr>partitions_get_Request.partition_id = partition_id'\<rparr> c)"

lemmas partitions_client_defs =
  Partitions_call_list_def Partitions_call_get_def Partitions_list_def Partitions_get_def

section \<open>Server\<close>

record ('h, 'e, 's) PartitionsService =
  list :: "(partitions_list_Request, 'h, 'e, 's, partitions_list_Response) handler"
  get :: "(partitions_get_Request, 'h, 'e, 's, partitions_get_Response) handler"

definition PartitionsService_list_partitions :: "('m \<Rightarrow> 'h) \<Rightarrow> ('h, 'e, 's) PartitionsService
    \<Rightarrow> ('m, 'e, v3_partitions_ListPartitionsRequest) tonic_Request \<Rightarrow> 's \<Rightarrow> (tonic_Status + v3_partitions_ListPartitionsResponse) \<times> 's" where
  "PartitionsService_list_partitions ih svc =
     unary_server ih partitions_list_Request_of_v3 partitions_list_Response_to_v3 (PartitionsService.list svc)"

definition PartitionsService_get_partition :: "('m \<Rightarrow> 'h) \<Rightarrow> ('h, 'e, 's) PartitionsService
    \<Rightarrow> ('m, 'e, v3_partitions_GetPartitionRequest) tonic_Request \<Rightarrow> 's \<Rightarrow> (tonic_Status + v3_partitions_GetPartitionResponse) \<times> 's" where
  "PartitionsService_get_partition ih svc =
     unary_server ih partitions_get_Request_of_v3 partitions_get_Response_to_v3 (PartitionsService.get svc)"

section \<open>A client connected to a server\<close>

definition partitions_loopback :: "('m \<Rightarrow> 'h) \<Rightarrow> 'm \<Rightarrow> 'e \<Rightarrow> ('h, 'e, 's) PartitionsService \<Rightarrow> 's v3_partitions_PartitionsClient" where
  "partitions_loopback ih m e svc = \<lparr>
     v3_partitions_PartitionsClient.list_partitions = (\<lambda>w. PartitionsService_list_partitions ih svc (direct_request m e w)),
     v3_partitions_PartitionsClient.get_partition = (\<lambda>w. PartitionsService_get_partition ih svc (direct_request m e w))\<rparr>"

text \<open>The contract of each remote procedure.\<close>

interpretation partitions_list_rpc: total_rpc_link
    partitions_list_Request_to_v3 partitions_list_Request_of_v3
    partitions_list_Response_to_v3 partitions_list_Response_of_v3
  by unfold_locales

interpretation partitions_get_rpc: total_rpc_link
    partitions_get_Request_to_v3 partitions_get_Request_of_v3
    partitions_get_Response_to_v3 partitions_get_Response_of_v3
  by unfold_locales

lemmas partitions_link_defs = partitions_loopback_def partitions_client_defs
  PartitionsService_list_partitions_def PartitionsService_get_partition_def

lemma Partitions_call_list_transparent:
  "Partitions_call_list (partitions_loopback ih m e svc) r s =
     in_process (PartitionsService.list svc r (direct_context ih m e) s)"
  by (simp add: partitions_link_defs)

lemma Partitions_call_get_transparent:
  "Partitions_call_get (partitions_loopback ih m e svc) r s =
     in_process (PartitionsService.get svc r (direct_context ih m e) s)"
  by (simp add: partitions_link_defs)

lemma partitions_raw_calls_once:
  "calls (Partitions_call_list (partitions_recording cl) req0 (l, c)) = l @ [(''Partitions'', ''ListPartitions'')]"
  "calls (Partitions_call_get (partitions_recording cl) req1 (l, c)) = l @ [(''Partitions'', ''GetPartition'')]"
  by (simp_all add: partitions_client_defs partitions_recording_def)

lemma partitions_methods_call_once:
  "calls (Partitions_list (partitions_recording cl) filters0 sort0 page0 page_size0 (l, c)) = l @ [(''Partitions'', ''ListPartitions'')]"
  "calls (Partitions_get (partitions_recording cl) partition_id1 (l, c)) = l @ [(''Partitions'', ''GetPartition'')]"
  by (simp_all add: partitions_client_defs partitions_recording_def)

end
