(* ===== verification/Partitions_Tests.thy ===== *)
theory Partitions_Tests
  imports Partitions_Service
begin

text \<open>
  The unit tests of \<^verbatim>\<open>client/partitions.rs\<close>: each is the counter it reads and the call it makes, with the arguments of the
  source. Against the mock server a test passes exactly when the answer to its call is the one it expects.
\<close>

definition Partitions_test_list :: "('c v3_partitions_PartitionsClient, 'c) client_test" where
  "Partitions_test_list = \<lparr>
     client_test.counter_service = ''Partitions'', client_test.counter_rpc = ''ListPartitions'',
     client_test.test_call = (\<lambda>cl c. unwrap (Partitions_list cl (partitions_filter_lists \<lparr>partitions_filter_Or.or_ands = [\<lparr>partitions_filter_And.and_fields = []\<rparr>]\<rparr>) partitions_Sort_default 0 10 c))\<rparr>"

definition Partitions_test_get :: "('c v3_partitions_PartitionsClient, 'c) client_test" where
  "Partitions_test_get = \<lparr>
     client_test.counter_service = ''Partitions'', client_test.counter_rpc = ''GetPartition'',
     client_test.test_call = (\<lambda>cl c. unwrap (Partitions_get cl ''part1'' c))\<rparr>"

definition Partitions_test_list_call :: "('c v3_partitions_PartitionsClient, 'c) client_test" where
  "Partitions_test_list_call = \<lparr>
     client_test.counter_service = ''Partitions'', client_test.counter_rpc = ''ListPartitions'',
     client_test.test_call = (\<lambda>cl c. unwrap (Partitions_call_list cl (partitions_list_Request_default\<lparr>partitions_list_Request.page_size := 10\<rparr>) c))\<rparr>"

definition Partitions_test_get_call :: "('c v3_partitions_PartitionsClient, 'c) client_test" where
  "Partitions_test_get_call = \<lparr>
     client_test.counter_service = ''Partitions'', client_test.counter_rpc = ''GetPartition'',
     client_test.test_call = (\<lambda>cl c. unwrap (Partitions_call_get cl \<lparr>partitions_get_Request.partition_id = ''part1''\<rparr> c))\<rparr>"

definition Partitions_tests :: "('c v3_partitions_PartitionsClient, 'c) client_test list" where
  "Partitions_tests = [
     Partitions_test_list,
     Partitions_test_get,
     Partitions_test_list_call,
     Partitions_test_get_call]"

section \<open>The answers of the mock server\<close>

text \<open>
  The class of the mock server that implements the service, as the stub of a client connected to it. A field that is not set
  has its default. Its methods keep no state; one that is sent a stream reads it to its end, which the streams of the tests
  have.
\<close>

definition partitions_mock :: "'c v3_partitions_PartitionsClient" where
  "partitions_mock = \<lparr>
     v3_partitions_PartitionsClient.list_partitions = (\<lambda>r c. (Inr \<lparr>v3_partitions_ListPartitionsResponse.partitions = [], v3_partitions_ListPartitionsResponse.page = 0, v3_partitions_ListPartitionsResponse.page_size = v3_partitions_ListPartitionsRequest.page_size r, v3_partitions_ListPartitionsResponse.total = 0\<rparr>, c)),
     v3_partitions_PartitionsClient.get_partition = (\<lambda>r c. (Inr \<lparr>v3_partitions_GetPartitionResponse.partition = Some \<lparr>v3_partitions_PartitionRaw.id = ''partition-id'', v3_partitions_PartitionRaw.parent_partition_ids = [], v3_partitions_PartitionRaw.pod_reserved = 1, v3_partitions_PartitionRaw.pod_max = 1, v3_partitions_PartitionRaw.pod_configuration = fmempty, v3_partitions_PartitionRaw.preemption_percentage = 0, v3_partitions_PartitionRaw.priority = 1\<rparr>\<rparr>, c))\<rparr>"

section \<open>When the tests pass\<close>

lemma Partitions_test_list_iff:
  "length l < 2 ^ 63 - 1 \<Longrightarrow> counted mock_counter (\<lambda>_. Some (partitions_recording cl)) Partitions_test_list (l, c) \<longleftrightarrow>
     fst (test_call Partitions_test_list cl c)"
  by (rule counted_iff [where rec = partitions_recording and svc = "''Partitions''" and rpc = "''ListPartitions''"])
    (simp_all add: Partitions_test_list_def partitions_client_defs partitions_recording_def logged_simps counts_simps)

lemma Partitions_test_get_iff:
  "length l < 2 ^ 63 - 1 \<Longrightarrow> counted mock_counter (\<lambda>_. Some (partitions_recording cl)) Partitions_test_get (l, c) \<longleftrightarrow>
     fst (test_call Partitions_test_get cl c)"
  by (rule counted_iff [where rec = partitions_recording and svc = "''Partitions''" and rpc = "''GetPartition''"])
    (simp_all add: Partitions_test_get_def partitions_client_defs partitions_recording_def logged_simps counts_simps)

lemma Partitions_test_list_call_iff:
  "length l < 2 ^ 63 - 1 \<Longrightarrow> counted mock_counter (\<lambda>_. Some (partitions_recording cl)) Partitions_test_list_call (l, c) \<longleftrightarrow>
     fst (test_call Partitions_test_list_call cl c)"
  by (rule counted_iff [where rec = partitions_recording and svc = "''Partitions''" and rpc = "''ListPartitions''"])
    (simp_all add: Partitions_test_list_call_def partitions_client_defs partitions_recording_def logged_simps counts_simps)

lemma Partitions_test_get_call_iff:
  "length l < 2 ^ 63 - 1 \<Longrightarrow> counted mock_counter (\<lambda>_. Some (partitions_recording cl)) Partitions_test_get_call (l, c) \<longleftrightarrow>
     fst (test_call Partitions_test_get_call cl c)"
  by (rule counted_iff [where rec = partitions_recording and svc = "''Partitions''" and rpc = "''GetPartition''"])
    (simp_all add: Partitions_test_get_call_def partitions_client_defs partitions_recording_def logged_simps counts_simps)

lemma Partitions_tests_iff:
  "length l < 2 ^ 63 - 1 \<Longrightarrow>
     map (\<lambda>t. counted mock_counter (\<lambda>_. Some (partitions_recording cl)) t (l, c)) Partitions_tests =
     map (\<lambda>t. fst (test_call t cl c)) Partitions_tests"
  by (simp add: Partitions_tests_def
      Partitions_test_list_iff
      Partitions_test_get_iff
      Partitions_test_list_call_iff
      Partitions_test_get_call_iff)

text \<open>The mock server answers all of them as they expect.\<close>

lemma partitions_mock_answers: "list_all (\<lambda>t. fst (test_call t partitions_mock c)) Partitions_tests"
  by (simp add: Partitions_tests_def partitions_mock_def mock_simps partitions_client_defs
      Partitions_test_list_def
      Partitions_test_get_def
      Partitions_test_list_call_def
      Partitions_test_get_call_def)

lemma Partitions_tests_pass:
  "length l < 2 ^ 63 - 1 \<Longrightarrow>
     list_all (\<lambda>t. counted mock_counter (\<lambda>_. Some (partitions_recording partitions_mock)) t (l, c)) Partitions_tests"
  by (rule list_all_decided [OF _ partitions_mock_answers]) (rule Partitions_tests_iff)

section \<open>The integration tests\<close>

text \<open>
  \<^verbatim>\<open>tests/partitions.rs\<close>: the service that the tests start, and the tests, each on a client
  \<open>cl\<close> connected to it.
\<close>

definition partitions_test_service ::
  "tonic_Status option \<Rightarrow> ('h, 'e, 's) PartitionsService" where
  "partitions_test_service fails = \<lparr>
     PartitionsService.list = (\<lambda>r ctx. unary_rpc_impl fails \<lparr>partitions_list_Response.partitions = [(partitions_Raw_default\<lparr>partitions_Raw.partition_id := ''rpc-list-output''\<rparr>)], partitions_list_Response.page = partitions_list_Request.page r, partitions_list_Response.page_size = partitions_list_Request.page_size r, partitions_list_Response.total = 1337\<rparr>),
     PartitionsService.get = (\<lambda>r ctx. unary_rpc_impl fails \<lparr>partitions_get_Response.partition = (partitions_Raw_default\<lparr>partitions_Raw.partition_id := partitions_get_Request.partition_id r, partitions_Raw.parent_partition_ids := [''rpc-get-output'']\<rparr>)\<rparr>)\<rparr>"

definition Partitions_integration_list :: "'c v3_partitions_PartitionsClient \<Rightarrow> 'c \<Rightarrow> bool" where
  "Partitions_integration_list cl s \<longleftrightarrow> expects (\<lambda>p.
       partitions_list_Response.page p = 3 \<and> partitions_list_Response.page_size p = 12 \<and> partitions_list_Response.total p = 1337
     \<and> indexed 0 (\<lambda>x. partitions_Raw.partition_id x = ''rpc-list-output'') (partitions_list_Response.partitions p))
     (Partitions_list cl (partitions_filter_lists partitions_filter_Or_default) partitions_Sort_default 3 12 s)"

definition Partitions_integration_get :: "'c v3_partitions_PartitionsClient \<Rightarrow> 'c \<Rightarrow> bool" where
  "Partitions_integration_get cl s \<longleftrightarrow> expects (\<lambda>p.
       partitions_Raw.partition_id p = ''rpc-get-input'' \<and> indexed 0 (\<lambda>x. x = ''rpc-get-output'') (partitions_Raw.parent_partition_ids p))
     (Partitions_get cl ''rpc-get-input'' s)"

definition Partitions_integration :: "('c v3_partitions_PartitionsClient \<Rightarrow> 'c \<Rightarrow> bool) list" where
  "Partitions_integration = [
     Partitions_integration_list,
     Partitions_integration_get]"

text \<open>They pass, whatever the state of the service.\<close>

lemmas partitions_integration_defs = Partitions_integration_def partitions_test_service_def indexed_def
  Partitions_integration_list_def
  Partitions_integration_get_def

lemma Partitions_integration_passes:
  "list_all (\<lambda>t. t (partitions_loopback ih m e (partitions_test_service None)) s) (Partitions_integration)"
  by (simp add: partitions_integration_defs 
    Partitions_get_def Partitions_list_def
    Partitions_call_get_transparent Partitions_call_list_transparent)

end
