(* ===== verification/Rust_Parse.thy ===== *)
theory Rust_Parse
  imports Rust_Prelude
begin

text \<open>
  The parts of the Rust standard library that the configuration code parses its options with:
  \<^verbatim>\<open>str::parse::<u32>()\<close> and \<^verbatim>\<open>str::parse::<u64>()\<close> with their three errors, \<^verbatim>\<open>str::split\<close> on a
  character, and \<^verbatim>\<open>std::time::Duration\<close>. The lemmas characterise exactly which strings parse and
  to which number, with the bound of the machine type.
\<close>

section \<open>Unsigned integers\<close>

datatype ParseIntError = Empty | InvalidDigit | PosOverflow

definition is_digit :: "char \<Rightarrow> bool" where
  "is_digit c \<longleftrightarrow> 48 \<le> (of_char c :: nat) \<and> (of_char c :: nat) \<le> 57"

definition digit_value :: "char \<Rightarrow> nat" where
  "digit_value c = of_char c - 48"

text \<open>
  The loop of \<^verbatim>\<open>from_str_radix\<close>: each character is checked to be a digit first, then the
  multiplication and the addition are checked against the largest value \<open>mx\<close> of the type.
\<close>

fun parse_digits :: "nat \<Rightarrow> string \<Rightarrow> nat \<Rightarrow> ParseIntError + nat" where
    "parse_digits mx [] acc = Inr acc"
  | "parse_digits mx (c # cs) acc =
       (if \<not> is_digit c then Inl InvalidDigit
        else if acc * 10 + digit_value c > mx then Inl PosOverflow
        else parse_digits mx cs (acc * 10 + digit_value c))"

definition parse_unsigned :: "nat \<Rightarrow> string \<Rightarrow> ParseIntError + nat" where
  "parse_unsigned mx s =
     (if s = [] then Inl Empty
      else if s = ''+'' \<or> s = ''-'' then Inl InvalidDigit
      else parse_digits mx (if hd s = CHR ''+'' then tl s else s) 0)"

definition parse_u32 :: "string \<Rightarrow> ParseIntError + u32" where
  "parse_u32 s = map_sum (\<lambda>e. e) word_of_nat (parse_unsigned (2 ^ 32 - 1) s)"

definition parse_u64 :: "string \<Rightarrow> ParseIntError + u64" where
  "parse_u64 s = map_sum (\<lambda>e. e) word_of_nat (parse_unsigned (2 ^ 64 - 1) s)"

text \<open>The value of a decimal numeral.\<close>

definition dec_value :: "string \<Rightarrow> nat" where
  "dec_value ds = foldl (\<lambda>a c. a * 10 + digit_value c) 0 ds"

lemma foldl_dec_ge: "a \<le> foldl (\<lambda>a c. a * 10 + digit_value c) a ds"
proof (induction ds arbitrary: a)
  case (Cons c ds)
  have "a \<le> a * 10 + digit_value c" by simp
  also have "\<dots> \<le> foldl (\<lambda>a c. a * 10 + digit_value c) (a * 10 + digit_value c) ds" by (rule Cons)
  finally show ?case by simp
qed simp

lemma parse_digits_Inr_iff:
  "parse_digits mx ds acc = Inr n \<longleftrightarrow>
     list_all is_digit ds \<and> n = foldl (\<lambda>a c. a * 10 + digit_value c) acc ds \<and> (ds = [] \<or> n \<le> mx)"
proof (induction ds arbitrary: acc)
  case (Cons c ds)
  have "acc * 10 + digit_value c \<le> mx"
    if "foldl (\<lambda>a c. a * 10 + digit_value c) (acc * 10 + digit_value c) ds \<le> mx"
    using foldl_dec_ge that by (rule order_trans)
  then show ?case by (auto simp: Cons.IH)
qed auto

lemma parse_digits_error:
  "parse_digits mx ds acc = Inl e \<Longrightarrow> e = InvalidDigit \<or> e = PosOverflow"
  by (induction ds arbitrary: acc) (auto split: if_splits)

text \<open>
  Exactly the non-empty decimal numerals, optionally after one plus sign, whose value fits, parse.
\<close>

definition numeral_of :: "string \<Rightarrow> string" where
  "numeral_of s = (if s \<noteq> [] \<and> hd s = CHR ''+'' then tl s else s)"

lemma is_digit_sign [simp]: "\<not> is_digit (CHR ''+'')" "\<not> is_digit (CHR ''-'')"
  by (simp_all add: is_digit_def)

lemma parse_unsigned_Inr_iff:
  "parse_unsigned mx s = Inr n \<longleftrightarrow>
     numeral_of s \<noteq> [] \<and> list_all is_digit (numeral_of s) \<and> n = dec_value (numeral_of s) \<and> n \<le> mx"
proof (cases s)
  case (Cons c cs)
  then show ?thesis
    by (auto simp: parse_unsigned_def numeral_of_def parse_digits_Inr_iff dec_value_def)
qed (simp add: parse_unsigned_def numeral_of_def)

lemma parse_unsigned_Empty_iff: "parse_unsigned mx s = Inl Empty \<longleftrightarrow> s = []"
  by (auto simp: parse_unsigned_def dest: parse_digits_error)

lemma word_of_nat_eq_iff_unat:
  "n < 2 ^ LENGTH('a) \<Longrightarrow> (word_of_nat n :: 'a :: len word) = w \<longleftrightarrow> n = unat w"
  by (auto simp: unsigned_of_nat take_bit_nat_eq_self)

lemma parse_u64_Inr_iff:
  "parse_u64 s = Inr w \<longleftrightarrow>
     numeral_of s \<noteq> [] \<and> list_all is_digit (numeral_of s) \<and> unat w = dec_value (numeral_of s)"
proof -
  have "parse_u64 s = Inr w \<longleftrightarrow> parse_unsigned (2 ^ 64 - 1) s = Inr (unat w)"
  proof (cases "parse_unsigned (2 ^ 64 - 1) s")
    case (Inr n)
    then have "n < 2 ^ LENGTH(64)" by (simp add: parse_unsigned_Inr_iff)
    then show ?thesis unfolding parse_u64_def Inr by (simp add: word_of_nat_eq_iff_unat)
  qed (simp only: parse_u64_def map_sum.simps, simp)
  moreover have "unat w < 2 ^ LENGTH(64)" by (rule unsigned_less)
  ultimately show ?thesis by (auto simp: parse_unsigned_Inr_iff)
qed

lemma parse_u32_Inr_iff:
  "parse_u32 s = Inr w \<longleftrightarrow>
     numeral_of s \<noteq> [] \<and> list_all is_digit (numeral_of s) \<and> unat w = dec_value (numeral_of s)"
proof -
  have "parse_u32 s = Inr w \<longleftrightarrow> parse_unsigned (2 ^ 32 - 1) s = Inr (unat w)"
  proof (cases "parse_unsigned (2 ^ 32 - 1) s")
    case (Inr n)
    then have "n < 2 ^ LENGTH(32)" by (simp add: parse_unsigned_Inr_iff)
    then show ?thesis unfolding parse_u32_def Inr by (simp add: word_of_nat_eq_iff_unat)
  qed (simp only: parse_u32_def map_sum.simps, simp)
  moreover have "unat w < 2 ^ LENGTH(32)" by (rule unsigned_less)
  ultimately show ?thesis by (auto simp: parse_unsigned_Inr_iff)
qed

section \<open>Splitting a string\<close>

text \<open>\<^verbatim>\<open>s.split(c).collect::<Vec<&str>>()\<close>: one part more than there are separators.\<close>

fun split_on :: "char \<Rightarrow> string \<Rightarrow> string list" where
    "split_on c [] = [[]]"
  | "split_on c (x # xs) =
       (if x = c then [] # split_on c xs
        else (case split_on c xs of p # ps \<Rightarrow> (x # p) # ps | [] \<Rightarrow> [[x]]))"

lemma split_on_not_Nil [simp]: "split_on c s \<noteq> []"
  by (induction s) (auto split: list.splits)

lemma length_split_on: "length (split_on c s) = Suc (length (filter (\<lambda>x. x = c) s))"
  by (induction s) (auto split: list.splits)

lemma split_on_no_sep: "c \<notin> set s \<Longrightarrow> split_on c s = [s]"
  by (induction s) auto

lemma split_on_append: "c \<notin> set a \<Longrightarrow> split_on c (a @ c # b) = a # split_on c b"
  by (induction a) auto

lemma split_on_parts_no_sep: "p \<in> set (split_on c s) \<Longrightarrow> c \<notin> set p"
  by (induction s arbitrary: p) (auto split: if_splits list.splits)

lemma split_on_Cons_join: "split_on c s = p # ps \<Longrightarrow> ps \<noteq> [] \<Longrightarrow> \<exists>r. s = p @ c # r \<and> split_on c r = ps"
proof (induction s arbitrary: p)
  case (Cons x xs)
  show ?case
  proof (cases "x = c")
    case False
    then obtain q where "split_on c xs = q # ps" "p = x # q"
      using Cons.prems by (auto split: list.splits)
    with Cons.IH Cons.prems show ?thesis by fastforce
  qed (use Cons.prems in auto)
qed simp

text \<open>Two parts are exactly the strings with one separator.\<close>

lemma split_on_two_iff:
  "split_on c s = [a, b] \<longleftrightarrow> s = a @ c # b \<and> c \<notin> set a \<and> c \<notin> set b"
proof
  assume two: "split_on c s = [a, b]"
  then obtain r where r: "s = a @ c # r" "split_on c r = [b]"
    using split_on_Cons_join [of c s a "[b]"] by auto
  from r(2) have "c \<notin> set r"
    using length_split_on [of c r] by (auto simp: filter_empty_conv)
  with r(2) have "r = b" by (simp add: split_on_no_sep)
  with r(1) two show "s = a @ c # b \<and> c \<notin> set a \<and> c \<notin> set b"
    by (metis list.set_intros split_on_parts_no_sep)
qed (simp add: split_on_append split_on_no_sep)

section \<open>Durations\<close>

record Duration =
  secs :: u64
  subsec_nanos :: u32

definition Duration_from_secs :: "u64 \<Rightarrow> Duration" where
  "Duration_from_secs s = \<lparr>Duration.secs = s, Duration.subsec_nanos = 0\<rparr>"

definition Duration_is_zero :: "Duration \<Rightarrow> bool" where
  "Duration_is_zero d \<longleftrightarrow> Duration.secs d = 0 \<and> Duration.subsec_nanos d = 0"

section \<open>Contexts of errors\<close>

text \<open>\<^verbatim>\<open>result.context(Snafu { .. })\<close> wraps the error and leaves a success alone.\<close>

definition context_err :: "('e \<Rightarrow> 'f) \<Rightarrow> 'e + 'a \<Rightarrow> 'f + 'a" where
  "context_err f r = (case r of Inl e \<Rightarrow> Inl (f e) | Inr x \<Rightarrow> Inr x)"

lemma context_err_simps [simp]:
  "context_err f (Inl e) = Inl (f e)"
  "context_err f (Inr x) = Inr x"
  by (simp_all add: context_err_def)

lemma context_err_eq_Inr [simp]: "context_err f r = Inr x \<longleftrightarrow> r = Inr x"
  by (cases r) simp_all

lemma context_err_eq_Inl: "context_err f r = Inl e \<longleftrightarrow> (\<exists>e'. r = Inl e' \<and> e = f e')"
  by (cases r) auto

end
