(* ===== verification/Env.thy ===== *)
theory Env
  imports Rust_Parse
begin

text \<open>
  Reading options from the environment (\<^verbatim>\<open>armonik-transport/src/utils.rs\<close>). The process environment
  maps names to operating-system strings, which need not be valid unicode.
\<close>

datatype OsString = Unicode string | NotUnicodeBytes "u8 list"

type_synonym environment = "string \<rightharpoonup> OsString"

text \<open>\<^verbatim>\<open>std::env::var\<close>\<close>

datatype VarError = NotPresent | NotUnicode OsString

definition env_var :: "environment \<Rightarrow> string \<Rightarrow> VarError + string" where
  "env_var env n = (case env n of
       None \<Rightarrow> Inl VarError.NotPresent
     | Some (Unicode s) \<Rightarrow> Inr s
     | Some (NotUnicodeBytes b) \<Rightarrow> Inl (VarError.NotUnicode (NotUnicodeBytes b)))"

datatype ReadEnvError =
    NotUnicode string OsString
  | NotBoolean string string

text \<open>The messages; \<open>dbg\<close> is the debug text of an operating-system string and \<open>loc\<close> the location of snafu.\<close>

primrec ReadEnvError_display :: "(OsString \<Rightarrow> string) \<Rightarrow> string \<Rightarrow> ReadEnvError \<Rightarrow> string" where
    "ReadEnvError_display dbg loc (ReadEnvError.NotUnicode n v) =
       ''Environment variable `'' @ n @ ''='' @ dbg v @ ''` is not a valid unicode string ['' @ loc @ '']''"
  | "ReadEnvError_display dbg loc (ReadEnvError.NotBoolean n v) =
       ''Environment variable `'' @ n @ ''='' @ v @ ''` is not a valid boolean ['' @ loc @ '']''"

definition read_env :: "environment \<Rightarrow> string \<Rightarrow> ReadEnvError + string" where
  "read_env env n = (case env_var env n of
       Inr v \<Rightarrow> Inr v
     | Inl VarError.NotPresent \<Rightarrow> Inr ''''
     | Inl (VarError.NotUnicode v) \<Rightarrow> Inl (ReadEnvError.NotUnicode n v))"

definition read_env_bool :: "environment \<Rightarrow> string \<Rightarrow> ReadEnvError + bool" where
  "read_env_bool env n = bindR (read_env env n) (\<lambda>v.
     if v \<in> {''0'', ''false'', ''no'', ''disable'', ''disallow'', ''forbid'', ''''} then Inr False
     else if v \<in> {''1'', ''true'', ''yes'', ''enable'', ''allow'', ''authorize''} then Inr True
     else Inl (ReadEnvError.NotBoolean n v))"

lemma read_env_cases:
  "read_env env n = (case env n of
       None \<Rightarrow> Inr ''''
     | Some (Unicode s) \<Rightarrow> Inr s
     | Some (NotUnicodeBytes b) \<Rightarrow> Inl (ReadEnvError.NotUnicode n (NotUnicodeBytes b)))"
  by (simp add: read_env_def env_var_def split: option.splits OsString.splits)

lemma read_env_unset [simp]: "env n = None \<Longrightarrow> read_env env n = Inr ''''"
  by (simp add: read_env_cases)

lemma read_env_bool_unset [simp]: "env n = None \<Longrightarrow> read_env_bool env n = Inr False"
  by (simp add: read_env_bool_def)

lemma read_env_cong: "env n = env' n \<Longrightarrow> read_env env n = read_env env' n"
  by (simp add: read_env_cases)

lemma read_env_bool_cong: "env n = env' n \<Longrightarrow> read_env_bool env n = read_env_bool env' n"
  by (simp add: read_env_bool_def read_env_cong [of env n env'])

text \<open>The accepted spellings of a boolean option.\<close>

definition bool_words :: "bool \<Rightarrow> string set" where
  "bool_words b = (if b then {''1'', ''true'', ''yes'', ''enable'', ''allow'', ''authorize''}
     else {''0'', ''false'', ''no'', ''disable'', ''disallow'', ''forbid'', ''''})"

lemma bool_words_disjoint: "v \<in> bool_words True \<Longrightarrow> v \<notin> bool_words False"
  by (auto simp: bool_words_def)

lemma read_env_bool_eq:
  "read_env_bool env n = bindR (read_env env n) (\<lambda>v.
     if v \<in> bool_words False then Inr False
     else if v \<in> bool_words True then Inr True else Inl (ReadEnvError.NotBoolean n v))"
  by (simp only: read_env_bool_def bool_words_def if_False if_True)

lemma read_env_bool_Inr_iff:
  "read_env_bool env n = Inr b \<longleftrightarrow> (\<exists>v. read_env env n = Inr v \<and> v \<in> bool_words b)"
  using bool_words_disjoint
  by (cases "read_env env n"; cases b) (auto simp: read_env_bool_eq split: if_splits)

lemma read_env_bool_error_iff:
  "read_env_bool env n = Inl (ReadEnvError.NotBoolean m v) \<longleftrightarrow>
     m = n \<and> read_env env n = Inr v \<and> v \<notin> bool_words False \<and> v \<notin> bool_words True"
  by (auto simp: read_env_bool_eq bindR_eq_Inl_iff read_env_cases
      split: option.splits OsString.splits if_splits)

section \<open>The verifier behind unsafe connections\<close>

text \<open>
  \<^verbatim>\<open>InsecureCertVerifier\<close> accepts every certificate and every handshake signature and claims to
  support the listed signature schemes; the types of rustls it is given are not inspected.
\<close>

datatype ServerCertVerified = assertion_cert
datatype HandshakeSignatureValid = assertion_signature

datatype SignatureScheme =
    RSA_PKCS1_SHA1 | ECDSA_SHA1_Legacy | RSA_PKCS1_SHA256 | ECDSA_NISTP256_SHA256
  | RSA_PKCS1_SHA384 | ECDSA_NISTP384_SHA384 | RSA_PKCS1_SHA512 | ECDSA_NISTP521_SHA512
  | RSA_PSS_SHA256 | RSA_PSS_SHA384 | RSA_PSS_SHA512 | ED25519 | ED448

definition verify_server_cert ::
  "'cert \<Rightarrow> 'cert list \<Rightarrow> 'name \<Rightarrow> u8 list \<Rightarrow> 'time \<Rightarrow> string + ServerCertVerified" where
  "verify_server_cert end_entity intermediates server_name ocsp_response now = Inr assertion_cert"

definition verify_tls12_signature ::
  "u8 list \<Rightarrow> 'cert \<Rightarrow> 'dss \<Rightarrow> string + HandshakeSignatureValid" where
  "verify_tls12_signature message cert dss = Inr assertion_signature"

definition verify_tls13_signature ::
  "u8 list \<Rightarrow> 'cert \<Rightarrow> 'dss \<Rightarrow> string + HandshakeSignatureValid" where
  "verify_tls13_signature message cert dss = Inr assertion_signature"

definition supported_verify_schemes :: "SignatureScheme list" where
  "supported_verify_schemes =
     [RSA_PKCS1_SHA1, ECDSA_SHA1_Legacy, RSA_PKCS1_SHA256, ECDSA_NISTP256_SHA256,
      RSA_PKCS1_SHA384, ECDSA_NISTP384_SHA384, RSA_PKCS1_SHA512, ECDSA_NISTP521_SHA512,
      RSA_PSS_SHA256, RSA_PSS_SHA384, RSA_PSS_SHA512, ED25519, ED448]"

end
