(* ===== verification/Config.thy ===== *)
theory Config
  imports Env
begin

text \<open>
  The configuration of a client (\<^verbatim>\<open>armonik-transport/src/config.rs\<close>): the options as text
  (\<open>ClientConfigArgs\<close>), read from the environment, and the checked configuration (\<open>ClientConfig\<close>)
  that \<open>from_config_args\<close> builds from them or refuses with an error that names the offending option.

  The URI, PEM, header and duration parsers of the crates the code calls, and the file system, are
  the fields of the parameter \<open>config_libs\<close>; their errors are kept as opaque texts. Nothing is assumed
  of them unless a lemma says so.
\<close>

section \<open>Options as text\<close>

record ClientConfigArgs =
  endpoint :: string
  cert_pem :: string
  key_pem :: string
  ca_cert :: string
  allow_unsafe_connection :: bool
  override_target_name :: string
  connect_timeout :: string
  timeout :: string
  rate_limit :: string
  tcp_keepalive :: string
  tcp_keepalive_interval :: string
  tcp_keepalive_retries :: string
  tcp_nagle_algorithm :: bool
  http2_keep_alive_interval :: string
  http2_keep_alive_timeout :: string
  http2_keep_alive_while_idle :: bool
  http2_max_header_list_size :: string
  user_agent :: string

definition ClientConfigArgs_default :: ClientConfigArgs where
  "ClientConfigArgs_default = \<lparr>
     ClientConfigArgs.endpoint = '''',
     ClientConfigArgs.cert_pem = '''',
     ClientConfigArgs.key_pem = '''',
     ClientConfigArgs.ca_cert = '''',
     ClientConfigArgs.allow_unsafe_connection = False,
     ClientConfigArgs.override_target_name = '''',
     ClientConfigArgs.connect_timeout = '''',
     ClientConfigArgs.timeout = '''',
     ClientConfigArgs.rate_limit = '''',
     ClientConfigArgs.tcp_keepalive = '''',
     ClientConfigArgs.tcp_keepalive_interval = '''',
     ClientConfigArgs.tcp_keepalive_retries = '''',
     ClientConfigArgs.tcp_nagle_algorithm = False,
     ClientConfigArgs.http2_keep_alive_interval = '''',
     ClientConfigArgs.http2_keep_alive_timeout = '''',
     ClientConfigArgs.http2_keep_alive_while_idle = False,
     ClientConfigArgs.http2_max_header_list_size = '''',
     ClientConfigArgs.user_agent = ''''\<rparr>"

section \<open>Errors\<close>

datatype ConfigError =
    Env ReadEnvError
  | Tls string
  | Uri string string
  | Http string string
  | Io string string
  | IncompatibleOptions string
  | InvalidDuration string string
  | InvalidRateLimitCount ParseIntError string
  | InvalidInteger ParseIntError string
  | InvalidUserAgent string string

text \<open>
  The messages shown to the user; \<open>loc\<close> is the source location that snafu appends. The first argument
  of a constructor is the source error, which the message does not show.
\<close>

primrec ConfigError_display :: "string \<Rightarrow> ConfigError \<Rightarrow> string" where
    "ConfigError_display loc (ConfigError.Env e) = ''Could not read environment variable ['' @ loc @ '']''"
  | "ConfigError_display loc (ConfigError.Tls e) = ''Invalid TLS configuration ['' @ loc @ '']''"
  | "ConfigError_display loc (ConfigError.Uri e u) = ''Endpoint URI is not valid: `'' @ u @ ''` ['' @ loc @ '']''"
  | "ConfigError_display loc (ConfigError.Http e u) = ''Override URI is not valid: `'' @ u @ ''` ['' @ loc @ '']''"
  | "ConfigError_display loc (ConfigError.Io e p) = ''Could not read file `'' @ p @ ''` ['' @ loc @ '']''"
  | "ConfigError_display loc (ConfigError.IncompatibleOptions m) = m @ '' ['' @ loc @ '']''"
  | "ConfigError_display loc (ConfigError.InvalidDuration e v) =
       ''`GrpcClient__ConnectTimeout='' @ v @ ''` is not a valid duration (e.g. `30s` or `1m`) ['' @ loc @ '']''"
  | "ConfigError_display loc (ConfigError.InvalidRateLimitCount e v) =
       ''Rate limit count `'' @ v @ ''` is not a valid integer ['' @ loc @ '']''"
  | "ConfigError_display loc (ConfigError.InvalidInteger e v) = ''`'' @ v @ ''` is not a valid integer ['' @ loc @ '']''"
  | "ConfigError_display loc (ConfigError.InvalidUserAgent e v) = ''Invalid user agent `'' @ v @ ''` ['' @ loc @ '']''"

section \<open>Reading the options from the environment\<close>

definition ClientConfigArgs_from_env :: "environment \<Rightarrow> ConfigError + ClientConfigArgs" where
  "ClientConfigArgs_from_env env =
     bindR (context_err ConfigError.Env (read_env env ''GrpcClient__Endpoint'')) (\<lambda>endpoint'.
     bindR (context_err ConfigError.Env (read_env env ''GrpcClient__CertPem'')) (\<lambda>cert_pem'.
     bindR (context_err ConfigError.Env (read_env env ''GrpcClient__KeyPem'')) (\<lambda>key_pem'.
     bindR (context_err ConfigError.Env (read_env env ''GrpcClient__CaCert'')) (\<lambda>ca_cert'.
     bindR (context_err ConfigError.Env (read_env_bool env ''GrpcClient__AllowUnsafeConnection'')) (\<lambda>allow_unsafe_connection'.
     bindR (context_err ConfigError.Env (read_env env ''GrpcClient__OverrideTargetName'')) (\<lambda>override_target_name'.
     bindR (context_err ConfigError.Env (read_env env ''GrpcClient__ConnectTimeout'')) (\<lambda>connect_timeout'.
     bindR (context_err ConfigError.Env (read_env env ''GrpcClient__Timeout'')) (\<lambda>timeout'.
     bindR (context_err ConfigError.Env (read_env env ''GrpcClient__RateLimit'')) (\<lambda>rate_limit'.
     bindR (context_err ConfigError.Env (read_env env ''GrpcClient__TcpKeepalive'')) (\<lambda>tcp_keepalive'.
     bindR (context_err ConfigError.Env (read_env env ''GrpcClient__TcpKeepaliveInterval'')) (\<lambda>tcp_keepalive_interval'.
     bindR (context_err ConfigError.Env (read_env env ''GrpcClient__TcpKeepaliveRetries'')) (\<lambda>tcp_keepalive_retries'.
     bindR (context_err ConfigError.Env (read_env_bool env ''GrpcClient__TcpNagleAlgorithm'')) (\<lambda>tcp_nagle_algorithm'.
     bindR (context_err ConfigError.Env (read_env env ''GrpcClient__Http2KeepAliveInterval'')) (\<lambda>http2_keep_alive_interval'.
     bindR (context_err ConfigError.Env (read_env env ''GrpcClient__Http2KeepAliveTimeout'')) (\<lambda>http2_keep_alive_timeout'.
     bindR (context_err ConfigError.Env (read_env_bool env ''GrpcClient__Http2KeepAliveWhileIdle'')) (\<lambda>http2_keep_alive_while_idle'.
     bindR (context_err ConfigError.Env (read_env env ''GrpcClient__Http2MaxHeaderListSize'')) (\<lambda>http2_max_header_list_size'.
     bindR (context_err ConfigError.Env (read_env env ''GrpcClient__UserAgent'')) (\<lambda>user_agent'.
     Inr \<lparr>
       ClientConfigArgs.endpoint = endpoint',
       ClientConfigArgs.cert_pem = cert_pem',
       ClientConfigArgs.key_pem = key_pem',
       ClientConfigArgs.ca_cert = ca_cert',
       ClientConfigArgs.allow_unsafe_connection = allow_unsafe_connection',
       ClientConfigArgs.override_target_name = override_target_name',
       ClientConfigArgs.connect_timeout = connect_timeout',
       ClientConfigArgs.timeout = timeout',
       ClientConfigArgs.rate_limit = rate_limit',
       ClientConfigArgs.tcp_keepalive = tcp_keepalive',
       ClientConfigArgs.tcp_keepalive_interval = tcp_keepalive_interval',
       ClientConfigArgs.tcp_keepalive_retries = tcp_keepalive_retries',
       ClientConfigArgs.tcp_nagle_algorithm = tcp_nagle_algorithm',
       ClientConfigArgs.http2_keep_alive_interval = http2_keep_alive_interval',
       ClientConfigArgs.http2_keep_alive_timeout = http2_keep_alive_timeout',
       ClientConfigArgs.http2_keep_alive_while_idle = http2_keep_alive_while_idle',
       ClientConfigArgs.http2_max_header_list_size = http2_max_header_list_size',
       ClientConfigArgs.user_agent = user_agent'\<rparr>))))))))))))))))))"

text \<open>The variables it reads, in order.\<close>

definition grpc_variables :: "string list" where
  "grpc_variables = [
     ''GrpcClient__Endpoint'',
     ''GrpcClient__CertPem'',
     ''GrpcClient__KeyPem'',
     ''GrpcClient__CaCert'',
     ''GrpcClient__AllowUnsafeConnection'',
     ''GrpcClient__OverrideTargetName'',
     ''GrpcClient__ConnectTimeout'',
     ''GrpcClient__Timeout'',
     ''GrpcClient__RateLimit'',
     ''GrpcClient__TcpKeepalive'',
     ''GrpcClient__TcpKeepaliveInterval'',
     ''GrpcClient__TcpKeepaliveRetries'',
     ''GrpcClient__TcpNagleAlgorithm'',
     ''GrpcClient__Http2KeepAliveInterval'',
     ''GrpcClient__Http2KeepAliveTimeout'',
     ''GrpcClient__Http2KeepAliveWhileIdle'',
     ''GrpcClient__Http2MaxHeaderListSize'',
     ''GrpcClient__UserAgent'']"

lemma from_env_cong:
  assumes "\<forall>n \<in> set grpc_variables. env n = env' n"
  shows "ClientConfigArgs_from_env env = ClientConfigArgs_from_env env'"
proof -
  have r: "read_env env n = read_env env' n" "read_env_bool env n = read_env_bool env' n"
    if "n \<in> set grpc_variables" for n
    using that assms by (auto intro: read_env_cong read_env_bool_cong)
  show ?thesis unfolding ClientConfigArgs_from_env_def
    by (simp add: r grpc_variables_def)
qed

text \<open>It succeeds exactly when every variable can be read, each into its own option.\<close>

lemma from_env_Inr_iff:
  "ClientConfigArgs_from_env env = Inr a \<longleftrightarrow>
     read_env env ''GrpcClient__Endpoint'' = Inr (ClientConfigArgs.endpoint a)
   \<and> read_env env ''GrpcClient__CertPem'' = Inr (ClientConfigArgs.cert_pem a)
   \<and> read_env env ''GrpcClient__KeyPem'' = Inr (ClientConfigArgs.key_pem a)
   \<and> read_env env ''GrpcClient__CaCert'' = Inr (ClientConfigArgs.ca_cert a)
   \<and> read_env_bool env ''GrpcClient__AllowUnsafeConnection'' = Inr (ClientConfigArgs.allow_unsafe_connection a)
   \<and> read_env env ''GrpcClient__OverrideTargetName'' = Inr (ClientConfigArgs.override_target_name a)
   \<and> read_env env ''GrpcClient__ConnectTimeout'' = Inr (ClientConfigArgs.connect_timeout a)
   \<and> read_env env ''GrpcClient__Timeout'' = Inr (ClientConfigArgs.timeout a)
   \<and> read_env env ''GrpcClient__RateLimit'' = Inr (ClientConfigArgs.rate_limit a)
   \<and> read_env env ''GrpcClient__TcpKeepalive'' = Inr (ClientConfigArgs.tcp_keepalive a)
   \<and> read_env env ''GrpcClient__TcpKeepaliveInterval'' = Inr (ClientConfigArgs.tcp_keepalive_interval a)
   \<and> read_env env ''GrpcClient__TcpKeepaliveRetries'' = Inr (ClientConfigArgs.tcp_keepalive_retries a)
   \<and> read_env_bool env ''GrpcClient__TcpNagleAlgorithm'' = Inr (ClientConfigArgs.tcp_nagle_algorithm a)
   \<and> read_env env ''GrpcClient__Http2KeepAliveInterval'' = Inr (ClientConfigArgs.http2_keep_alive_interval a)
   \<and> read_env env ''GrpcClient__Http2KeepAliveTimeout'' = Inr (ClientConfigArgs.http2_keep_alive_timeout a)
   \<and> read_env_bool env ''GrpcClient__Http2KeepAliveWhileIdle'' = Inr (ClientConfigArgs.http2_keep_alive_while_idle a)
   \<and> read_env env ''GrpcClient__Http2MaxHeaderListSize'' = Inr (ClientConfigArgs.http2_max_header_list_size a)
   \<and> read_env env ''GrpcClient__UserAgent'' = Inr (ClientConfigArgs.user_agent a)"
  unfolding ClientConfigArgs_from_env_def bindR_eq_Inr_iff context_err_eq_Inr
  by (cases a) auto

section \<open>The configuration\<close>

record ('uri, 'cert, 'key, 'hv) ClientConfig =
  endpoint :: 'uri
  allow_unsafe_connection :: bool
  identity :: "('cert \<times> 'key) option"
  cacert :: "'cert option"
  override_target :: "'uri option"
  connect_timeout :: "Duration option"
  timeout :: "Duration option"
  rate_limit :: "(u64 \<times> Duration) option"
  tcp_keepalive :: "Duration option"
  tcp_keepalive_interval :: "Duration option"
  tcp_keepalive_retries :: "u32 option"
  tcp_nagle_algorithm :: bool
  http2_keep_alive_interval :: "Duration option"
  http2_keep_alive_timeout :: "Duration option"
  http2_keep_alive_while_idle :: bool
  http2_max_header_list_size :: "u32 option"
  user_agent :: "'hv option"

text \<open>
  \<^verbatim>\<open>clone\<close> copies every field; a private key is copied by \<^verbatim>\<open>clone_key\<close>, the parameter \<open>ck\<close>.
\<close>

definition ClientConfig_clone :: "('key \<Rightarrow> 'key) \<Rightarrow> ('uri, 'cert, 'key, 'hv) ClientConfig \<Rightarrow> ('uri, 'cert, 'key, 'hv) ClientConfig" where
  "ClientConfig_clone ck c = \<lparr>
     ClientConfig.endpoint = ClientConfig.endpoint c,
     ClientConfig.allow_unsafe_connection = ClientConfig.allow_unsafe_connection c,
     ClientConfig.identity = map_option (\<lambda>(cert, key). (cert, ck key)) (ClientConfig.identity c),
     ClientConfig.cacert = ClientConfig.cacert c,
     ClientConfig.override_target = ClientConfig.override_target c,
     ClientConfig.connect_timeout = ClientConfig.connect_timeout c,
     ClientConfig.timeout = ClientConfig.timeout c,
     ClientConfig.rate_limit = ClientConfig.rate_limit c,
     ClientConfig.tcp_keepalive = ClientConfig.tcp_keepalive c,
     ClientConfig.tcp_keepalive_interval = ClientConfig.tcp_keepalive_interval c,
     ClientConfig.tcp_keepalive_retries = ClientConfig.tcp_keepalive_retries c,
     ClientConfig.tcp_nagle_algorithm = ClientConfig.tcp_nagle_algorithm c,
     ClientConfig.http2_keep_alive_interval = ClientConfig.http2_keep_alive_interval c,
     ClientConfig.http2_keep_alive_timeout = ClientConfig.http2_keep_alive_timeout c,
     ClientConfig.http2_keep_alive_while_idle = ClientConfig.http2_keep_alive_while_idle c,
     ClientConfig.http2_max_header_list_size = ClientConfig.http2_max_header_list_size c,
     ClientConfig.user_agent = ClientConfig.user_agent c\<rparr>"

text \<open>What the configuration code calls outside the crate.\<close>

record ('uri, 'auth, 'scheme, 'pq, 'cert, 'key, 'hv) config_libs =
  read_to_string :: "string \<Rightarrow> string + string"
  read_file :: "string \<Rightarrow> string + u8 list"
  cert_from_pem_slice :: "u8 list \<Rightarrow> string + 'cert"
  key_from_pem_slice :: "u8 list \<Rightarrow> string + 'key"
  uri_try_from :: "string \<Rightarrow> string + 'uri"
  uri_to_string :: "'uri \<Rightarrow> string"
  uri_scheme :: "'uri \<Rightarrow> 'scheme option"
  uri_authority :: "'uri \<Rightarrow> 'auth option"
  uri_path_and_query :: "'uri \<Rightarrow> 'pq option"
  authority_parse :: "string \<Rightarrow> string + 'auth"
  uri_build :: "'scheme option \<Rightarrow> 'auth option \<Rightarrow> 'pq option \<Rightarrow> string + 'uri"
  humantime_parse :: "string \<Rightarrow> string + Duration"
  header_from_str :: "string \<Rightarrow> string + 'hv"

definition as_bytes :: "string \<Rightarrow> u8 list" where
  "as_bytes s = map of_char s"

subsection \<open>Certificates\<close>

definition config_cacert :: "('uri, 'auth, 'scheme, 'pq, 'cert, 'key, 'hv) config_libs \<Rightarrow> string \<Rightarrow> ConfigError + 'cert option" where
  "config_cacert libs p =
     (if p \<noteq> '''' then
        bindR (context_err (\<lambda>e. ConfigError.Io e p) (read_to_string libs p)) (\<lambda>pem.
        bindR (context_err ConfigError.Tls (cert_from_pem_slice libs (as_bytes pem))) (\<lambda>c.
        Inr (Some c)))
      else Inr None)"

definition config_identity ::
  "('uri, 'auth, 'scheme, 'pq, 'cert, 'key, 'hv) config_libs \<Rightarrow> string \<Rightarrow> string \<Rightarrow> ConfigError + ('cert \<times> 'key) option" where
  "config_identity libs cp kp =
     (if cp = '''' \<and> kp = '''' then Inr None
      else if cp = '''' \<or> kp = '''' then
        Inl (ConfigError.IncompatibleOptions (''`GrpcClient__CertPem='' @ cp @ ''` and `GrpcClient__KeyPem='' @ kp
          @ ''` must be either both empty or both set''))
      else
        bindR (context_err (\<lambda>e. ConfigError.Io e cp) (read_to_string libs cp)) (\<lambda>cert_pem'.
        bindR (context_err (\<lambda>e. ConfigError.Io e kp) (read_file libs kp)) (\<lambda>key_pem'.
        bindR (context_err ConfigError.Tls (cert_from_pem_slice libs (as_bytes cert_pem'))) (\<lambda>cert.
        bindR (context_err ConfigError.Tls (key_from_pem_slice libs key_pem')) (\<lambda>key.
        Inr (Some (cert, key)))))))"

subsection \<open>Override of the target name\<close>

text \<open>
  A bare authority replaces the authority of the endpoint and keeps its path; a full URI gives both,
  falling back to the endpoint's authority. The scheme is always the endpoint's.
\<close>

definition override_parts ::
  "('uri, 'auth, 'scheme, 'pq, 'cert, 'key, 'hv) config_libs \<Rightarrow> 'uri \<Rightarrow> string \<Rightarrow> ConfigError + ('auth option \<times> 'pq option)" where
  "override_parts libs ep name =
     (case authority_parse libs name of
        Inr auth \<Rightarrow> Inr (Some auth, uri_path_and_query libs ep)
      | Inl _ \<Rightarrow>
          bindR (context_err (\<lambda>e. ConfigError.Uri e (uri_to_string libs ep)) (uri_try_from libs name)) (\<lambda>u.
          Inr (uri_authority libs u, uri_path_and_query libs u)))"

definition config_override ::
  "('uri, 'auth, 'scheme, 'pq, 'cert, 'key, 'hv) config_libs \<Rightarrow> 'uri \<Rightarrow> string \<Rightarrow> ConfigError + 'uri option" where
  "config_override libs ep name =
     (if name = '''' then Inr None
      else
        bindR (override_parts libs ep name) (\<lambda>(auth, pq).
        bindR (context_err (\<lambda>e. ConfigError.Http e name)
          (uri_build libs (uri_scheme libs ep)
            (case auth of Some a \<Rightarrow> Some a | None \<Rightarrow> uri_authority libs ep) pq)) (\<lambda>u.
        Inr (Some u))))"

subsection \<open>Durations, integers and the user agent\<close>

definition config_connect_timeout :: "('uri, 'auth, 'scheme, 'pq, 'cert, 'key, 'hv) config_libs \<Rightarrow> string \<Rightarrow> ConfigError + Duration option" where
  "config_connect_timeout libs s =
     (if s = '''' then Inr (Some (Duration_from_secs 60))
      else bindR (context_err (\<lambda>e. ConfigError.InvalidDuration e s) (humantime_parse libs s)) (\<lambda>d. Inr (Some d)))"

text \<open>The other durations are handled alike: the timeout, the keepalives and the HTTP/2 settings.\<close>

definition config_duration :: "('uri, 'auth, 'scheme, 'pq, 'cert, 'key, 'hv) config_libs \<Rightarrow> string \<Rightarrow> ConfigError + Duration option" where
  "config_duration libs s =
     (if s = '''' then Inr None
      else bindR (context_err (\<lambda>e. ConfigError.InvalidDuration e s) (humantime_parse libs s)) (\<lambda>d. Inr (Some d)))"

definition config_rate_limit :: "('uri, 'auth, 'scheme, 'pq, 'cert, 'key, 'hv) config_libs \<Rightarrow> string \<Rightarrow> ConfigError + (u64 \<times> Duration) option" where
  "config_rate_limit libs s =
     (if s = '''' then Inr None
      else (case split_on CHR ''/'' s of
          [l, d] \<Rightarrow>
            bindR (context_err (\<lambda>e. ConfigError.InvalidRateLimitCount e l) (parse_u64 l)) (\<lambda>limit.
            bindR (context_err (\<lambda>e. ConfigError.InvalidDuration e s) (humantime_parse libs d)) (\<lambda>dur.
            if limit = 0 \<or> Duration_is_zero dur then
              Inl (ConfigError.IncompatibleOptions (''`GrpcClient__RateLimit='' @ s
                @ ''` has a zero count or duration. Both have to be above zero, as in `100/1s`; leave it empty for no rate limit''))
            else Inr (Some (limit, dur))))
        | _ \<Rightarrow>
            Inl (ConfigError.IncompatibleOptions
              (''Rate limit should be in the format `number/duration`, e.g. `100/1s`, but got `'' @ s @ ''`''))))"

definition config_u32 :: "string \<Rightarrow> ConfigError + u32 option" where
  "config_u32 s =
     (if s = '''' then Inr None
      else bindR (context_err (\<lambda>e. ConfigError.InvalidInteger e s) (parse_u32 s)) (\<lambda>n. Inr (Some n)))"

definition config_user_agent :: "('uri, 'auth, 'scheme, 'pq, 'cert, 'key, 'hv) config_libs \<Rightarrow> string \<Rightarrow> ConfigError + 'hv option" where
  "config_user_agent libs s =
     (if s = '''' then Inr None
      else bindR (context_err (\<lambda>e. ConfigError.InvalidUserAgent e s) (header_from_str libs s)) (\<lambda>h. Inr (Some h)))"

subsection \<open>The whole configuration\<close>

definition from_config_args :: "('uri, 'auth, 'scheme, 'pq, 'cert, 'key, 'hv) config_libs \<Rightarrow> ClientConfigArgs \<Rightarrow> ConfigError + ('uri, 'cert, 'key, 'hv) ClientConfig" where
  "from_config_args libs args =
     bindR (config_cacert libs (ClientConfigArgs.ca_cert args)) (\<lambda>cacert'.
     bindR (config_identity libs (ClientConfigArgs.cert_pem args) (ClientConfigArgs.key_pem args)) (\<lambda>identity'.
     bindR (context_err (\<lambda>e. ConfigError.Uri e (ClientConfigArgs.endpoint args))
       (uri_try_from libs (ClientConfigArgs.endpoint args))) (\<lambda>endpoint'.
     bindR (config_override libs endpoint' (ClientConfigArgs.override_target_name args)) (\<lambda>override_target'.
     bindR (config_connect_timeout libs (ClientConfigArgs.connect_timeout args)) (\<lambda>connect_timeout'.
     bindR (config_duration libs (ClientConfigArgs.timeout args)) (\<lambda>timeout'.
     bindR (config_rate_limit libs (ClientConfigArgs.rate_limit args)) (\<lambda>rate_limit'.
     bindR (config_duration libs (ClientConfigArgs.tcp_keepalive args)) (\<lambda>tcp_keepalive'.
     bindR (config_duration libs (ClientConfigArgs.tcp_keepalive_interval args)) (\<lambda>tcp_keepalive_interval'.
     bindR (config_u32 (ClientConfigArgs.tcp_keepalive_retries args)) (\<lambda>tcp_keepalive_retries'.
     bindR (config_duration libs (ClientConfigArgs.http2_keep_alive_interval args)) (\<lambda>http2_keep_alive_interval'.
     bindR (config_duration libs (ClientConfigArgs.http2_keep_alive_timeout args)) (\<lambda>http2_keep_alive_timeout'.
     bindR (config_u32 (ClientConfigArgs.http2_max_header_list_size args)) (\<lambda>http2_max_header_list_size'.
     bindR (config_user_agent libs (ClientConfigArgs.user_agent args)) (\<lambda>user_agent'.
     Inr \<lparr>
       ClientConfig.endpoint = endpoint',
       ClientConfig.allow_unsafe_connection = ClientConfigArgs.allow_unsafe_connection args,
       ClientConfig.identity = identity',
       ClientConfig.cacert = cacert',
       ClientConfig.override_target = override_target',
       ClientConfig.connect_timeout = connect_timeout',
       ClientConfig.timeout = timeout',
       ClientConfig.rate_limit = rate_limit',
       ClientConfig.tcp_keepalive = tcp_keepalive',
       ClientConfig.tcp_keepalive_interval = tcp_keepalive_interval',
       ClientConfig.tcp_keepalive_retries = tcp_keepalive_retries',
       ClientConfig.tcp_nagle_algorithm = ClientConfigArgs.tcp_nagle_algorithm args,
       ClientConfig.http2_keep_alive_interval = http2_keep_alive_interval',
       ClientConfig.http2_keep_alive_timeout = http2_keep_alive_timeout',
       ClientConfig.http2_keep_alive_while_idle = ClientConfigArgs.http2_keep_alive_while_idle args,
       ClientConfig.http2_max_header_list_size = http2_max_header_list_size',
       ClientConfig.user_agent = user_agent'\<rparr>))))))))))))))"

definition ClientConfig_from_env :: "('uri, 'auth, 'scheme, 'pq, 'cert, 'key, 'hv) config_libs \<Rightarrow> environment \<Rightarrow> ConfigError + ('uri, 'cert, 'key, 'hv) ClientConfig" where
  "ClientConfig_from_env libs env = bindR (ClientConfigArgs_from_env env) (from_config_args libs)"

section \<open>What the parts accept\<close>

lemma config_rate_limit_Inr_iff:
  "config_rate_limit libs s = Inr r \<longleftrightarrow>
     (if s = '''' then r = None
      else \<exists>l d n dur. s = l @ CHR ''/'' # d \<and> CHR ''/'' \<notin> set l \<and> CHR ''/'' \<notin> set d
        \<and> parse_u64 l = Inr n \<and> humantime_parse libs d = Inr dur
        \<and> n \<noteq> 0 \<and> \<not> Duration_is_zero dur \<and> r = Some (n, dur))"
proof (cases "\<exists>l d. split_on CHR ''/'' s = [l, d]")
  case True
  then obtain l d where ld: "split_on CHR ''/'' s = [l, d]" by blast
  then have s: "s = l @ CHR ''/'' # d" "CHR ''/'' \<notin> set l" "CHR ''/'' \<notin> set d"
    by (simp_all add: split_on_two_iff)
  have uniq: "l' = l \<and> d' = d"
    if "s = l' @ CHR ''/'' # d'" "CHR ''/'' \<notin> set l'" "CHR ''/'' \<notin> set d'" for l' d'
    using that ld by (metis list.inject split_on_two_iff)
  have ne: "s \<noteq> ''''" using s(1) by simp
  have "config_rate_limit libs s = Inr r \<longleftrightarrow>
      (\<exists>n dur. parse_u64 l = Inr n \<and> humantime_parse libs d = Inr dur
        \<and> n \<noteq> 0 \<and> \<not> Duration_is_zero dur \<and> r = Some (n, dur))"
    using ne by (auto simp: config_rate_limit_def ld bindR_eq_Inr_iff)
  also have "\<dots> \<longleftrightarrow> (\<exists>l d n dur. s = l @ CHR ''/'' # d \<and> CHR ''/'' \<notin> set l \<and> CHR ''/'' \<notin> set d
        \<and> parse_u64 l = Inr n \<and> humantime_parse libs d = Inr dur
        \<and> n \<noteq> 0 \<and> \<not> Duration_is_zero dur \<and> r = Some (n, dur))"
    using s uniq by metis
  finally show ?thesis using ne by simp
next
  case False
  then have "\<nexists>l d. s = l @ CHR ''/'' # d \<and> CHR ''/'' \<notin> set l \<and> CHR ''/'' \<notin> set d"
    by (metis split_on_two_iff)
  moreover have "config_rate_limit libs s \<noteq> Inr r" if "s \<noteq> ''''"
    using False that by (auto simp: config_rate_limit_def split: list.splits)
  ultimately show ?thesis by (auto simp: config_rate_limit_def)
qed

lemma config_rate_limit_positive:
  "config_rate_limit libs s = Inr (Some (n, d)) \<Longrightarrow> n \<noteq> 0 \<and> \<not> Duration_is_zero d"
  by (auto simp: config_rate_limit_Inr_iff split: if_splits)

lemma config_identity_Inr_cases:
  assumes "config_identity libs cp kp = Inr i"
  shows "(cp = '''' \<longleftrightarrow> kp = '''') \<and> (i = None \<longleftrightarrow> cp = '''')"
  using assms by (auto simp: config_identity_def bindR_eq_Inr_iff split: if_splits)

lemma config_duration_Inr_iff:
  "config_duration libs s = Inr d \<longleftrightarrow>
     (if s = '''' then d = None else \<exists>x. humantime_parse libs s = Inr x \<and> d = Some x)"
  by (auto simp: config_duration_def bindR_eq_Inr_iff)

lemma config_connect_timeout_Inr_iff:
  "config_connect_timeout libs s = Inr d \<longleftrightarrow>
     (if s = '''' then d = Some (Duration_from_secs 60) else \<exists>x. humantime_parse libs s = Inr x \<and> d = Some x)"
  by (auto simp: config_connect_timeout_def bindR_eq_Inr_iff)

lemma config_u32_Inr_iff:
  "config_u32 s = Inr n \<longleftrightarrow>
     (if s = '''' then n = None else \<exists>x. parse_u32 s = Inr x \<and> n = Some x)"
  by (auto simp: config_u32_def bindR_eq_Inr_iff)

lemma config_parts_empty [simp]:
  "config_cacert libs '''' = Inr None"
  "config_identity libs '''' '''' = Inr None"
  "config_override libs ep '''' = Inr None"
  "config_connect_timeout libs '''' = Inr (Some (Duration_from_secs 60))"
  "config_duration libs '''' = Inr None"
  "config_rate_limit libs '''' = Inr None"
  "config_u32 '''' = Inr None"
  "config_user_agent libs '''' = Inr None"
  by (simp_all add: config_cacert_def config_identity_def config_override_def config_connect_timeout_def
      config_duration_def config_rate_limit_def config_u32_def config_user_agent_def)

text \<open>A successful configuration decomposes into its parts.\<close>

lemma from_config_args_Inr_iff:
  "from_config_args libs args = Inr c \<longleftrightarrow>
     config_cacert libs (ClientConfigArgs.ca_cert args) = Inr (ClientConfig.cacert c)
   \<and> config_identity libs (ClientConfigArgs.cert_pem args) (ClientConfigArgs.key_pem args) = Inr (ClientConfig.identity c)
   \<and> uri_try_from libs (ClientConfigArgs.endpoint args) = Inr (ClientConfig.endpoint c)
   \<and> config_override libs (ClientConfig.endpoint c) (ClientConfigArgs.override_target_name args) = Inr (ClientConfig.override_target c)
   \<and> config_connect_timeout libs (ClientConfigArgs.connect_timeout args) = Inr (ClientConfig.connect_timeout c)
   \<and> config_duration libs (ClientConfigArgs.timeout args) = Inr (ClientConfig.timeout c)
   \<and> config_rate_limit libs (ClientConfigArgs.rate_limit args) = Inr (ClientConfig.rate_limit c)
   \<and> config_duration libs (ClientConfigArgs.tcp_keepalive args) = Inr (ClientConfig.tcp_keepalive c)
   \<and> config_duration libs (ClientConfigArgs.tcp_keepalive_interval args) = Inr (ClientConfig.tcp_keepalive_interval c)
   \<and> config_u32 (ClientConfigArgs.tcp_keepalive_retries args) = Inr (ClientConfig.tcp_keepalive_retries c)
   \<and> config_duration libs (ClientConfigArgs.http2_keep_alive_interval args) = Inr (ClientConfig.http2_keep_alive_interval c)
   \<and> config_duration libs (ClientConfigArgs.http2_keep_alive_timeout args) = Inr (ClientConfig.http2_keep_alive_timeout c)
   \<and> config_u32 (ClientConfigArgs.http2_max_header_list_size args) = Inr (ClientConfig.http2_max_header_list_size c)
   \<and> config_user_agent libs (ClientConfigArgs.user_agent args) = Inr (ClientConfig.user_agent c)
   \<and> ClientConfig.allow_unsafe_connection c = ClientConfigArgs.allow_unsafe_connection args
   \<and> ClientConfig.tcp_nagle_algorithm c = ClientConfigArgs.tcp_nagle_algorithm args
   \<and> ClientConfig.http2_keep_alive_while_idle c = ClientConfigArgs.http2_keep_alive_while_idle args"
  unfolding from_config_args_def bindR_eq_Inr_iff context_err_eq_Inr
  by (cases c) (auto simp del: config_parts_empty)

end
