(* ===== verification/Config_Serde.thy ===== *)
theory Config_Serde
  imports Config Json
begin

text \<open>
  The options of a client as JSON (the feature \<^verbatim>\<open>serde\<close> of \<^verbatim>\<open>armonik-transport/src/config.rs\<close>): what the derived
  \<^verbatim>\<open>Serialize\<close> and \<^verbatim>\<open>Deserialize\<close> of \<open>ClientConfigArgs\<close> do, with \<^verbatim>\<open>serde(default)\<close> on every field but the endpoint.
  An object may name the fields in any order and leave out those with a default; members that are no field are skipped; a
  field that comes twice is refused. An array gives the fields in their order and may stop early.
\<close>

section \<open>Fields\<close>

datatype arg = Text string | Flag bool

primrec text_of :: "arg \<Rightarrow> string" where
    "text_of (Text s) = s"
  | "text_of (Flag b) = []"

primrec flag_of :: "arg \<Rightarrow> bool" where
    "flag_of (Flag b) = b"
  | "flag_of (Text s) = False"

primrec arg_to_json :: "arg \<Rightarrow> json" where
    "arg_to_json (Text s) = JString s"
  | "arg_to_json (Flag b) = JBool b"

definition arg_fields :: "string list" where
  "arg_fields = [
     ''endpoint'',
     ''cert_pem'',
     ''key_pem'',
     ''ca_cert'',
     ''allow_unsafe_connection'',
     ''override_target_name'',
     ''connect_timeout'',
     ''timeout'',
     ''rate_limit'',
     ''tcp_keepalive'',
     ''tcp_keepalive_interval'',
     ''tcp_keepalive_retries'',
     ''tcp_nagle_algorithm'',
     ''http2_keep_alive_interval'',
     ''http2_keep_alive_timeout'',
     ''http2_keep_alive_while_idle'',
     ''http2_max_header_list_size'',
     ''user_agent'']"

definition is_flag :: "string \<Rightarrow> bool" where
  "is_flag k \<longleftrightarrow> k \<in> {''allow_unsafe_connection'', ''tcp_nagle_algorithm'', ''http2_keep_alive_while_idle''}"

definition arg_default :: "string \<Rightarrow> arg" where
  "arg_default k = (if is_flag k then Flag False else Text [])"

definition arg_from_json :: "string \<Rightarrow> json \<Rightarrow> json_error + arg" where
  "arg_from_json k j =
     (if is_flag k then bindR (json_bool j) (\<lambda>b. Inr (Flag b)) else bindR (json_string j) (\<lambda>s. Inr (Text s)))"

definition args_values :: "ClientConfigArgs \<Rightarrow> (string \<times> arg) list" where
  "args_values a = [
     (''endpoint'', Text (ClientConfigArgs.endpoint a)),
     (''cert_pem'', Text (ClientConfigArgs.cert_pem a)),
     (''key_pem'', Text (ClientConfigArgs.key_pem a)),
     (''ca_cert'', Text (ClientConfigArgs.ca_cert a)),
     (''allow_unsafe_connection'', Flag (ClientConfigArgs.allow_unsafe_connection a)),
     (''override_target_name'', Text (ClientConfigArgs.override_target_name a)),
     (''connect_timeout'', Text (ClientConfigArgs.connect_timeout a)),
     (''timeout'', Text (ClientConfigArgs.timeout a)),
     (''rate_limit'', Text (ClientConfigArgs.rate_limit a)),
     (''tcp_keepalive'', Text (ClientConfigArgs.tcp_keepalive a)),
     (''tcp_keepalive_interval'', Text (ClientConfigArgs.tcp_keepalive_interval a)),
     (''tcp_keepalive_retries'', Text (ClientConfigArgs.tcp_keepalive_retries a)),
     (''tcp_nagle_algorithm'', Flag (ClientConfigArgs.tcp_nagle_algorithm a)),
     (''http2_keep_alive_interval'', Text (ClientConfigArgs.http2_keep_alive_interval a)),
     (''http2_keep_alive_timeout'', Text (ClientConfigArgs.http2_keep_alive_timeout a)),
     (''http2_keep_alive_while_idle'', Flag (ClientConfigArgs.http2_keep_alive_while_idle a)),
     (''http2_max_header_list_size'', Text (ClientConfigArgs.http2_max_header_list_size a)),
     (''user_agent'', Text (ClientConfigArgs.user_agent a))]"

definition args_of :: "(string \<Rightarrow> arg) \<Rightarrow> ClientConfigArgs" where
  "args_of f = \<lparr>
     ClientConfigArgs.endpoint = text_of (f ''endpoint''),
     ClientConfigArgs.cert_pem = text_of (f ''cert_pem''),
     ClientConfigArgs.key_pem = text_of (f ''key_pem''),
     ClientConfigArgs.ca_cert = text_of (f ''ca_cert''),
     ClientConfigArgs.allow_unsafe_connection = flag_of (f ''allow_unsafe_connection''),
     ClientConfigArgs.override_target_name = text_of (f ''override_target_name''),
     ClientConfigArgs.connect_timeout = text_of (f ''connect_timeout''),
     ClientConfigArgs.timeout = text_of (f ''timeout''),
     ClientConfigArgs.rate_limit = text_of (f ''rate_limit''),
     ClientConfigArgs.tcp_keepalive = text_of (f ''tcp_keepalive''),
     ClientConfigArgs.tcp_keepalive_interval = text_of (f ''tcp_keepalive_interval''),
     ClientConfigArgs.tcp_keepalive_retries = text_of (f ''tcp_keepalive_retries''),
     ClientConfigArgs.tcp_nagle_algorithm = flag_of (f ''tcp_nagle_algorithm''),
     ClientConfigArgs.http2_keep_alive_interval = text_of (f ''http2_keep_alive_interval''),
     ClientConfigArgs.http2_keep_alive_timeout = text_of (f ''http2_keep_alive_timeout''),
     ClientConfigArgs.http2_keep_alive_while_idle = flag_of (f ''http2_keep_alive_while_idle''),
     ClientConfigArgs.http2_max_header_list_size = text_of (f ''http2_max_header_list_size''),
     ClientConfigArgs.user_agent = text_of (f ''user_agent'')\<rparr>"

section \<open>Serialize and Deserialize\<close>

definition ClientConfigArgs_serialize :: "ClientConfigArgs \<Rightarrow> json" where
  "ClientConfigArgs_serialize a = JObject (map (\<lambda>(k, v). (k, arg_to_json v)) (args_values a))"

primrec visit_members :: "(string \<times> json) list \<Rightarrow> (string \<rightharpoonup> arg) \<Rightarrow> json_error + (string \<rightharpoonup> arg)" where
    "visit_members [] st = Inr st"
  | "visit_members (kv # kvs) st =
       (if fst kv \<notin> set arg_fields then visit_members kvs st
        else if st (fst kv) \<noteq> None then Inl (DuplicateField (fst kv))
        else bindR (arg_from_json (fst kv) (snd kv)) (\<lambda>v. visit_members kvs (st(fst kv \<mapsto> v))))"

definition or_default :: "(string \<rightharpoonup> arg) \<Rightarrow> string \<Rightarrow> arg" where
  "or_default st k = (case st k of None \<Rightarrow> arg_default k | Some v \<Rightarrow> v)"

definition visit_map :: "(string \<times> json) list \<Rightarrow> json_error + ClientConfigArgs" where
  "visit_map kvs = bindR (visit_members kvs Map.empty) (\<lambda>st.
     if st ''endpoint'' = None then Inl (MissingField ''endpoint'') else Inr (args_of (or_default st)))"

fun visit_elements :: "string list \<Rightarrow> json list \<Rightarrow> (string \<rightharpoonup> arg) \<Rightarrow> json_error + (string \<rightharpoonup> arg)" where
    "visit_elements [] [] st = Inr st"
  | "visit_elements [] (j # js) st = Inl TrailingElements"
  | "visit_elements (k # ks) [] st =
       (if k = ''endpoint'' then Inl (InvalidLength 0 ''struct ClientConfigArgs with 18 elements'')
        else visit_elements ks [] st)"
  | "visit_elements (k # ks) (j # js) st = bindR (arg_from_json k j) (\<lambda>v. visit_elements ks js (st(k \<mapsto> v)))"

definition visit_seq :: "json list \<Rightarrow> json_error + ClientConfigArgs" where
  "visit_seq js = bindR (visit_elements arg_fields js Map.empty) (\<lambda>st. Inr (args_of (or_default st)))"

fun ClientConfigArgs_deserialize :: "json \<Rightarrow> json_error + ClientConfigArgs" where
    "ClientConfigArgs_deserialize (JObject kvs) = visit_map kvs"
  | "ClientConfigArgs_deserialize (JArray js) = visit_seq js"
  | "ClientConfigArgs_deserialize _ = Inl (InvalidType ''struct ClientConfigArgs'')"

section \<open>The unit test\<close>

text \<open>
  The parameters stand for the text side of \<^verbatim>\<open>serde_json::from_str\<close> and \<^verbatim>\<open>serde_json::to_string\<close>.
\<close>

definition quoted :: "string \<Rightarrow> string" where
  "quoted s = CHR 0x22 # s @ [CHR 0x22]"

definition serde_test_text :: string where
  "serde_test_text = ''{'' @ quoted ''endpoint'' @ '':'' @ quoted ''http://localhost:5001'' @ '','' @
     quoted ''timeout'' @ '':'' @ quoted ''30s'' @ ''}''"

definition from_str :: "(string \<Rightarrow> string + json) \<Rightarrow> string \<Rightarrow> (string + json_error) + ClientConfigArgs" where
  "from_str parse t = (case parse t of
       Inl e \<Rightarrow> Inl (Inl e)
     | Inr j \<Rightarrow> (case ClientConfigArgs_deserialize j of Inl e \<Rightarrow> Inl (Inr e) | Inr a \<Rightarrow> Inr a))"

definition arguments_round_trip_through_serde_with_absent_fields_defaulted ::
  "(string \<Rightarrow> string + json) \<Rightarrow> (json \<Rightarrow> string) \<Rightarrow> bool" where
  "arguments_round_trip_through_serde_with_absent_fields_defaulted parse to_string \<longleftrightarrow>
     (case from_str parse serde_test_text of
        Inl _ \<Rightarrow> False
      | Inr deserialised \<Rightarrow>
          ClientConfigArgs.endpoint deserialised = ''http://localhost:5001''
        \<and> ClientConfigArgs.timeout deserialised = ''30s''
        \<and> ClientConfigArgs.cert_pem deserialised = []
        \<and> \<not> ClientConfigArgs.allow_unsafe_connection deserialised
        \<and> (case from_str parse (to_string (ClientConfigArgs_serialize deserialised)) of
              Inl _ \<Rightarrow> False
            | Inr round_tripped \<Rightarrow> round_tripped = deserialised))"

section \<open>What is accepted, and as what\<close>

definition typed :: "string \<Rightarrow> arg \<Rightarrow> bool" where
  "typed k v \<longleftrightarrow> (case v of Flag _ \<Rightarrow> is_flag k | Text _ \<Rightarrow> \<not> is_flag k)"

lemma arg_from_json_Inr_iff: "arg_from_json k j = Inr v \<longleftrightarrow> j = arg_to_json v \<and> typed k v"
  by (cases v) (auto simp: arg_from_json_def typed_def bindR_eq_Inr_iff)

lemma typed_default [simp]: "typed k (arg_default k)"
  by (simp add: typed_def arg_default_def)

lemma arg_to_json_inject [simp]: "arg_to_json v = arg_to_json w \<longleftrightarrow> v = w"
  by (cases v; cases w) simp_all

lemma args_values_keys: "map fst (args_values a) = arg_fields"
  by (simp add: args_values_def arg_fields_def)

lemma arg_fields_distinct: "distinct arg_fields"
  by (simp add: arg_fields_def)

lemma args_values_typed: "(k, v) \<in> set (args_values a) \<Longrightarrow> typed k v"
  by (auto simp: args_values_def typed_def is_flag_def)

lemma map_of_args_values: "(k, v) \<in> set (args_values a) \<longleftrightarrow> map_of (args_values a) k = Some v"
  by (rule sym, rule map_of_eq_Some_iff) (simp add: args_values_keys arg_fields_distinct)

lemma args_values_domain: "k \<in> set arg_fields \<longleftrightarrow> (\<exists>v. (k, v) \<in> set (args_values a))"
  unfolding args_values_keys [of a, symmetric] by force

lemma args_values_field: "(k, v) \<in> set (args_values a) \<Longrightarrow> k \<in> set arg_fields"
  using args_values_domain by blast

lemma args_of_values: "(\<And>k v. (k, v) \<in> set (args_values a) \<Longrightarrow> f k = v) \<Longrightarrow> args_of f = a"
  by (cases a) (simp add: args_values_def args_of_def)

lemma args_values_of:
  assumes "\<And>k. k \<in> set arg_fields \<Longrightarrow> typed k (f k)"
  shows "args_values (args_of f) = map (\<lambda>k. (k, f k)) arg_fields"
proof -
  have "Text (text_of (f k)) = f k" if "k \<in> set arg_fields" "\<not> is_flag k" for k
    using assms [OF that(1)] that(2) by (cases "f k") (simp_all add: typed_def)
  moreover have "Flag (flag_of (f k)) = f k" if "k \<in> set arg_fields" "is_flag k" for k
    using assms [OF that(1)] that(2) by (cases "f k") (simp_all add: typed_def)
  ultimately show ?thesis by (simp add: args_values_def args_of_def arg_fields_def is_flag_def)
qed

lemma args_of_eq_iff:
  assumes "\<And>k. k \<in> set arg_fields \<Longrightarrow> typed k (f k)"
  shows "args_of f = a \<longleftrightarrow> (\<forall>(k, v) \<in> set (args_values a). f k = v)"
proof
  assume "args_of f = a"
  with args_values_of [OF assms] show "\<forall>(k, v) \<in> set (args_values a). f k = v" by auto
qed (auto intro: args_of_values)

definition known :: "(string \<times> json) list \<Rightarrow> string list" where
  "known kvs = filter (\<lambda>k. k \<in> set arg_fields) (map fst kvs)"

text \<open>The state after an object: each field it names is set once, from its member.\<close>

lemma visit_members_Inr_iff:
  "visit_members kvs st = Inr st' \<longleftrightarrow>
     distinct (known kvs) \<and> (\<forall>k \<in> set (known kvs). st k = None)
   \<and> (\<forall>k \<in> set (known kvs). \<exists>v. map_of kvs k = Some (arg_to_json v) \<and> typed k v \<and> st' k = Some v)
   \<and> (\<forall>k. k \<notin> set (known kvs) \<longrightarrow> st' k = st k)"
proof (induction kvs arbitrary: st)
  case Nil
  show ?case by (auto simp: known_def)
next
  case (Cons kv kvs)
  obtain k j where kv: "kv = (k, j)" by (cases kv)
  show ?case
  proof (cases "k \<in> set arg_fields")
    case False
    then have "known (kv # kvs) = known kvs" "\<And>k'. k' \<in> set (known kvs) \<Longrightarrow> k' \<noteq> k" by (auto simp: known_def kv)
    with False Cons.IH show ?thesis by (simp add: kv)
  next
    case True
    then have known: "known (kv # kvs) = k # known kvs" by (simp add: known_def kv)
    have step: "visit_members (kv # kvs) st = Inr st' \<longleftrightarrow>
        st k = None \<and> (\<exists>v. j = arg_to_json v \<and> typed k v \<and> visit_members kvs (st(k \<mapsto> v)) = Inr st')"
      using True by (auto simp: kv bindR_eq_Inr_iff arg_from_json_Inr_iff)
    show ?thesis
    proof (cases "k \<in> set (known kvs)")
      case True
      then show ?thesis unfolding step known Cons.IH by auto
    next
      case False
      then have other: "k' \<in> set (known kvs) \<Longrightarrow> k' \<noteq> k" for k' by blast
      have "st' k = Some v \<and> (\<forall>k'. k' \<notin> set (k # known kvs) \<longrightarrow> st' k' = st k') \<longleftrightarrow>
          (\<forall>k'. k' \<notin> set (known kvs) \<longrightarrow> st' k' = (st(k \<mapsto> v)) k')" for v
        using False by auto
      with False show ?thesis unfolding step known Cons.IH by (simp add: kv other cong: ball_cong) blast
    qed
  qed
qed

lemma known_iff: "k \<in> set (known kvs) \<longleftrightarrow> k \<in> set arg_fields \<and> map_of kvs k \<noteq> None"
  by (auto simp: known_def map_of_eq_None_iff)

lemma endpoint_known: "''endpoint'' \<in> set (known kvs) \<longleftrightarrow> ''endpoint'' \<in> fst ` set kvs"
  by (simp add: known_iff map_of_eq_None_iff) (simp add: arg_fields_def)

lemma visit_members_read:
  assumes "visit_members kvs Map.empty = Inr st"
  shows "st ''endpoint'' \<noteq> None \<and> args_of (or_default st) = a \<longleftrightarrow> ''endpoint'' \<in> fst ` set kvs
    \<and> (\<forall>(k, v) \<in> set (args_values a). map_of kvs k = Some (arg_to_json v) \<or> map_of kvs k = None \<and> v = arg_default k)"
proof -
  have member: "\<exists>v. map_of kvs k = Some (arg_to_json v) \<and> typed k v \<and> st k = Some v" if "k \<in> set (known kvs)" for k
    using assms that unfolding visit_members_Inr_iff by simp
  have absent: "st k = None" if "k \<notin> set (known kvs)" for k
    using assms that unfolding visit_members_Inr_iff by simp
  have value_iff: "or_default st k = v \<longleftrightarrow>
      map_of kvs k = Some (arg_to_json v) \<or> map_of kvs k = None \<and> v = arg_default k" if "k \<in> set arg_fields" for k v
    using member [of k] absent [of k] that by (cases "map_of kvs k") (auto simp: known_iff or_default_def)
  have "typed k (or_default st k)" for k
    using member [of k] absent [of k] by (cases "k \<in> set (known kvs)") (auto simp: or_default_def)
  then have "args_of (or_default st) = a \<longleftrightarrow> (\<forall>(k, v) \<in> set (args_values a). or_default st k = v)"
    by (rule args_of_eq_iff)
  also have "\<dots> \<longleftrightarrow> (\<forall>(k, v) \<in> set (args_values a).
      map_of kvs k = Some (arg_to_json v) \<or> map_of kvs k = None \<and> v = arg_default k)"
    using value_iff by (intro ball_cong refl) (auto dest: args_values_field)
  finally have "args_of (or_default st) = a \<longleftrightarrow> (\<forall>(k, v) \<in> set (args_values a).
      map_of kvs k = Some (arg_to_json v) \<or> map_of kvs k = None \<and> v = arg_default k)" .
  moreover have "st ''endpoint'' \<noteq> None \<longleftrightarrow> ''endpoint'' \<in> fst ` set kvs"
    using member [of "''endpoint''"] absent [of "''endpoint''"] endpoint_known [of kvs] by auto
  ultimately show ?thesis by simp
qed

text \<open>
  An object is accepted exactly when it names no field twice and names the endpoint; each field is then the value of its
  member, or its default.
\<close>

lemma deserialize_object_iff:
  "ClientConfigArgs_deserialize (JObject kvs) = Inr a \<longleftrightarrow>
     distinct (known kvs) \<and> ''endpoint'' \<in> fst ` set kvs
   \<and> (\<forall>(k, v) \<in> set (args_values a).
        map_of kvs k = Some (arg_to_json v) \<or> map_of kvs k = None \<and> v = arg_default k)"
  (is "?L \<longleftrightarrow> distinct _ \<and> _ \<and> ?V")
proof
  assume ?L
  then obtain st where "visit_members kvs Map.empty = Inr st" "st ''endpoint'' \<noteq> None" "args_of (or_default st) = a"
    by (auto simp: visit_map_def bindR_eq_Inr_iff split: if_splits)
  with visit_members_read [of kvs st a] show "distinct (known kvs) \<and> ''endpoint'' \<in> fst ` set kvs \<and> ?V"
    unfolding visit_members_Inr_iff by blast
next
  assume R: "distinct (known kvs) \<and> ''endpoint'' \<in> fst ` set kvs \<and> ?V"
  define st where "st k = (if k \<in> set (known kvs) then map_of (args_values a) k else None)" for k
  have "\<exists>v. map_of kvs k = Some (arg_to_json v) \<and> typed k v \<and> st k = Some v" if k: "k \<in> set (known kvs)" for k
  proof -
    obtain v where v: "(k, v) \<in> set (args_values a)" using k known_iff [of k kvs] args_values_domain [of k a] by blast
    with R k args_values_typed [OF v] show ?thesis by (auto simp: known_iff st_def map_of_args_values)
  qed
  with R have "visit_members kvs Map.empty = Inr st" by (simp add: visit_members_Inr_iff st_def)
  with visit_members_read [of kvs st a] R show ?L by (simp add: visit_map_def)
qed

text \<open>Writing and reading back: as an object, and as the array of its values.\<close>

lemma deserialize_serialize: "ClientConfigArgs_deserialize (ClientConfigArgs_serialize a) = Inr a"
proof -
  have "map fst (map (\<lambda>(k, v). (k, arg_to_json v)) (args_values a)) = arg_fields"
    using args_values_keys [of a] by (simp add: comp_def split_beta)
  then have "distinct (known (map (\<lambda>(k, v). (k, arg_to_json v)) (args_values a)))"
    "''endpoint'' \<in> fst ` set (map (\<lambda>(k, v). (k, arg_to_json v)) (args_values a))"
    using arg_fields_distinct by (auto simp: known_def args_values_def)
  moreover have "map_of (map (\<lambda>(k, v). (k, arg_to_json v)) (args_values a)) k = Some (arg_to_json v)"
    if "(k, v) \<in> set (args_values a)" for k v
    using that by (simp add: map_of_args_values map_of_map comp_def)
  ultimately show ?thesis
    unfolding ClientConfigArgs_serialize_def deserialize_object_iff by blast
qed

lemma deserialize_array: "ClientConfigArgs_deserialize (JArray (map (\<lambda>(k, v). arg_to_json v) (args_values a))) = Inr a"
  by (cases a) (simp add: visit_seq_def args_values_def arg_fields_def arg_from_json_def is_flag_def args_of_def or_default_def)

lemma deserialize_empty:
  "ClientConfigArgs_deserialize (JObject []) = Inl (MissingField ''endpoint'')"
  "ClientConfigArgs_deserialize (JArray []) = Inl (InvalidLength 0 ''struct ClientConfigArgs with 18 elements'')"
  by (simp_all add: visit_map_def visit_seq_def arg_fields_def)

text \<open>The test passes with any reader and writer that agree on the two texts it uses.\<close>

definition serde_test_json :: json where
  "serde_test_json = JObject [(''endpoint'', JString ''http://localhost:5001''), (''timeout'', JString ''30s'')]"

definition serde_test_args :: ClientConfigArgs where
  "serde_test_args = ClientConfigArgs_default
     \<lparr>ClientConfigArgs.endpoint := ''http://localhost:5001'', ClientConfigArgs.timeout := ''30s''\<rparr>"

lemma deserialize_test: "ClientConfigArgs_deserialize serde_test_json = Inr serde_test_args"
  by (simp add: serde_test_json_def serde_test_args_def visit_map_def arg_fields_def arg_from_json_def is_flag_def
      args_of_def or_default_def arg_default_def ClientConfigArgs_default_def)

lemma serde_test_passes:
  assumes "parse serde_test_text = Inr serde_test_json"
    and "parse (to_string (ClientConfigArgs_serialize serde_test_args)) = Inr (ClientConfigArgs_serialize serde_test_args)"
  shows "arguments_round_trip_through_serde_with_absent_fields_defaulted parse to_string"
proof -
  have "from_str parse serde_test_text = Inr serde_test_args"
    "from_str parse (to_string (ClientConfigArgs_serialize serde_test_args)) = Inr serde_test_args"
    using assms by (simp_all add: from_str_def deserialize_test deserialize_serialize)
  then show ?thesis
    by (simp add: arguments_round_trip_through_serde_with_absent_fields_defaulted_def)
      (simp add: serde_test_args_def ClientConfigArgs_default_def)
qed

end
