(* ===== verification/Config_Errors.thy ===== *)
theory Config_Errors
  imports Config_Serde Config
begin

text \<open>
  Which error a bad configuration is refused with. The abstract specification is a list of the checks of
  \<open>ClientConfigArgs_from_env\<close> and \<open>from_config_args\<close>, in the order of the source, each with the error it finds
  or none; the code reports the first. A check is independent of the options it does not name, so
  the errors of the later ones are there whether or not an earlier one failed.
\<close>

section \<open>The first of several errors\<close>

primrec first_error :: "'e option list \<Rightarrow> 'e option" where
    "first_error [] = None"
  | "first_error (e # es) = (case e of None \<Rightarrow> first_error es | Some x \<Rightarrow> Some x)"

fun err_of :: "'e + 'a \<Rightarrow> 'e option" where
    "err_of (Inl e) = Some e"
  | "err_of (Inr x) = None"

lemma err_of_bindR: "err_of (bindR r f) = (case r of Inl e \<Rightarrow> Some e | Inr x \<Rightarrow> err_of (f x))"
  by (cases r) simp_all

lemma first_error_append:
  "first_error (es @ fs) = (case first_error es of None \<Rightarrow> first_error fs | Some e \<Rightarrow> Some e)"
  by (induction es) (simp_all split: option.split)

lemma first_error_None_iff: "first_error es = None \<longleftrightarrow> (\<forall>e \<in> set es. e = None)"
  by (induction es) (simp_all split: option.split)

lemma ex_less_Suc_split: "(\<exists>n < Suc k. P n) \<longleftrightarrow> P 0 \<or> (\<exists>n < k. P (Suc n))"
  using less_Suc_eq_0_disj by auto

lemma all_less_Suc_split: "(\<forall>n < Suc k. P n) \<longleftrightarrow> P 0 \<and> (\<forall>n < k. P (Suc n))"
  using less_Suc_eq_0_disj by auto

lemma first_error_Some_iff:
  "first_error es = Some e \<longleftrightarrow> (\<exists>n < length es. es ! n = Some e \<and> (\<forall>m < n. es ! m = None))"
proof (induction es)
  case (Cons a es)
  then show ?case by (cases a) (simp_all add: nth_Cons all_less_Suc_split ex_less_Suc_split)
qed simp

text \<open>A step that passes leaves the rest of the checks; one that fails decides.\<close>

lemma first_error_step:
  "(\<And>x. r = Inr x \<Longrightarrow> err_of (f x) = first_error es) \<Longrightarrow> err_of (bindR r f) = first_error (err_of r # es)"
  by (cases r) simp_all

section \<open>The checks\<close>

text \<open>The variables of the environment, in the order they are read; three of them are booleans.\<close>

definition boolean_variables :: "string list" where
  "boolean_variables =
     [''GrpcClient__AllowUnsafeConnection'', ''GrpcClient__TcpNagleAlgorithm'', ''GrpcClient__Http2KeepAliveWhileIdle'']"

definition variable_check :: "environment \<Rightarrow> string \<Rightarrow> ConfigError option" where
  "variable_check env n =
     (if n \<in> set boolean_variables then err_of (context_err ConfigError.Env (read_env_bool env n))
      else err_of (context_err ConfigError.Env (read_env env n)))"

definition env_checks :: "environment \<Rightarrow> ConfigError option list" where
  "env_checks env = map (variable_check env) grpc_variables"

definition arg_checks ::
  "('uri, 'auth, 'scheme, 'pq, 'cert, 'key, 'hv) config_libs \<Rightarrow> ClientConfigArgs \<Rightarrow> ConfigError option list" where
  "arg_checks libs args =
     [err_of (config_cacert libs (ClientConfigArgs.ca_cert args)),
      err_of (config_identity libs (ClientConfigArgs.cert_pem args) (ClientConfigArgs.key_pem args)),
      err_of (context_err (\<lambda>e. ConfigError.Uri e (ClientConfigArgs.endpoint args))
        (uri_try_from libs (ClientConfigArgs.endpoint args))),
      (case uri_try_from libs (ClientConfigArgs.endpoint args) of
         Inr ep \<Rightarrow> err_of (config_override libs ep (ClientConfigArgs.override_target_name args))
       | Inl _ \<Rightarrow> None),
      err_of (config_connect_timeout libs (ClientConfigArgs.connect_timeout args)),
      err_of (config_duration libs (ClientConfigArgs.timeout args)),
      err_of (config_rate_limit libs (ClientConfigArgs.rate_limit args)),
      err_of (config_duration libs (ClientConfigArgs.tcp_keepalive args)),
      err_of (config_duration libs (ClientConfigArgs.tcp_keepalive_interval args)),
      err_of (config_u32 (ClientConfigArgs.tcp_keepalive_retries args)),
      err_of (config_duration libs (ClientConfigArgs.http2_keep_alive_interval args)),
      err_of (config_duration libs (ClientConfigArgs.http2_keep_alive_timeout args)),
      err_of (config_u32 (ClientConfigArgs.http2_max_header_list_size args)),
      err_of (config_user_agent libs (ClientConfigArgs.user_agent args))]"

lemma from_env_first_error: "err_of (ClientConfigArgs_from_env env) = first_error (env_checks env)"
  unfolding ClientConfigArgs_from_env_def env_checks_def grpc_variables_def list.map
    variable_check_def boolean_variables_def
  by (simp del: first_error.simps) (intro first_error_step, simp)

lemma from_config_args_first_error: "err_of (from_config_args libs args) = first_error (arg_checks libs args)"
  unfolding from_config_args_def arg_checks_def
  by (cases "uri_try_from libs (ClientConfigArgs.endpoint args)")
    (simp_all add: err_of_bindR split: sum.split)

section \<open>Rejected durations\<close>

lemma config_duration_Inl_iff:
  "config_duration libs s = Inl err \<longleftrightarrow>
     s \<noteq> '''' \<and> (\<exists>c. humantime_parse libs s = Inl c \<and> err = ConfigError.InvalidDuration c s)"
  by (auto simp: config_duration_def bindR_eq_Inl_iff context_err_eq_Inl)

lemma config_connect_timeout_Inl_iff:
  "config_connect_timeout libs s = Inl err \<longleftrightarrow>
     s \<noteq> '''' \<and> (\<exists>c. humantime_parse libs s = Inl c \<and> err = ConfigError.InvalidDuration c s)"
  by (auto simp: config_connect_timeout_def bindR_eq_Inl_iff context_err_eq_Inl)

text \<open>In a rate limit the error keeps the whole option, not only its duration.\<close>

lemma config_rate_limit_InvalidDuration_iff:
  "config_rate_limit libs s = Inl (ConfigError.InvalidDuration c v) \<longleftrightarrow>
     v = s \<and> (\<exists>l d n. s = l @ CHR ''/'' # d \<and> CHR ''/'' \<notin> set l \<and> CHR ''/'' \<notin> set d
       \<and> parse_u64 l = Inr n \<and> humantime_parse libs d = Inl c)"
proof (cases "\<exists>l d. split_on CHR ''/'' s = [l, d]")
  case True
  then obtain l d where ld: "split_on CHR ''/'' s = [l, d]" by blast
  have "s \<noteq> ''''" using ld by auto
  then have "config_rate_limit libs s = Inl (ConfigError.InvalidDuration c v) \<longleftrightarrow>
      v = s \<and> (\<exists>n. parse_u64 l = Inr n \<and> humantime_parse libs d = Inl c)"
    by (auto simp: config_rate_limit_def ld bindR_eq_Inl_iff context_err_eq_Inl split: if_splits)
  also have "\<dots> \<longleftrightarrow> v = s \<and> (\<exists>l d n. split_on CHR ''/'' s = [l, d] \<and> parse_u64 l = Inr n \<and> humantime_parse libs d = Inl c)"
    by (simp add: ld)
  finally show ?thesis by (simp add: split_on_two_iff)
next
  case False
  then have "config_rate_limit libs s \<noteq> Inl (ConfigError.InvalidDuration c v)"
    by (auto simp: config_rate_limit_def split: list.split)
  moreover from False have "\<not> (s = l @ CHR ''/'' # d \<and> CHR ''/'' \<notin> set l \<and> CHR ''/'' \<notin> set d)" for l d
    by (metis split_on_two_iff)
  ultimately show ?thesis by blast
qed

lemma other_checks_no_duration [simp]:
  "config_cacert libs p \<noteq> Inl (ConfigError.InvalidDuration c v)"
  "config_identity libs cp kp \<noteq> Inl (ConfigError.InvalidDuration c v)"
  "config_override libs ep name \<noteq> Inl (ConfigError.InvalidDuration c v)"
  "config_u32 s \<noteq> Inl (ConfigError.InvalidDuration c v)"
  "config_user_agent libs s \<noteq> Inl (ConfigError.InvalidDuration c v)"
  by (auto simp: config_cacert_def config_identity_def config_override_def override_parts_def config_u32_def
      config_user_agent_def bindR_eq_Inl_iff context_err_eq_Inl split: if_splits sum.splits)

lemma err_of_Some_iff [simp]: "Some e = err_of r \<longleftrightarrow> r = Inl e"
  by (cases r) auto

lemma first_error_in_set: "first_error es = Some e \<Longrightarrow> Some e \<in> set es"
  by (induction es) (auto split: option.splits)

text \<open>A rejected duration is the one of the part that reads it, of one of the seven options with a duration.\<close>

lemma from_config_args_InvalidDuration:
  assumes "from_config_args libs args = Inl (ConfigError.InvalidDuration c v)"
  shows "v = ClientConfigArgs.connect_timeout args \<and> config_connect_timeout libs v = Inl (ConfigError.InvalidDuration c v)
   \<or> v = ClientConfigArgs.rate_limit args \<and> config_rate_limit libs v = Inl (ConfigError.InvalidDuration c v)
   \<or> v \<in> {ClientConfigArgs.timeout args, ClientConfigArgs.tcp_keepalive args, ClientConfigArgs.tcp_keepalive_interval args,
       ClientConfigArgs.http2_keep_alive_interval args, ClientConfigArgs.http2_keep_alive_timeout args}
     \<and> config_duration libs v = Inl (ConfigError.InvalidDuration c v)"
proof -
  from assms have "first_error (arg_checks libs args) = Some (ConfigError.InvalidDuration c v)"
    using from_config_args_first_error [of libs args] by simp
  then have "Some (ConfigError.InvalidDuration c v) \<in> set (arg_checks libs args)" by (rule first_error_in_set)
  then show ?thesis
    by (auto simp: arg_checks_def config_duration_Inl_iff config_connect_timeout_Inl_iff
        config_rate_limit_InvalidDuration_iff context_err_eq_Inl split: sum.splits)
qed

end
