(* ===== verification/Config_Tests.thy ===== *)
theory Config_Tests
  imports Config_Errors Config "HOL-Library.Sublist"
begin

text \<open>
  The unit tests of \<^verbatim>\<open>armonik-transport/src/config.rs\<close> and \<^verbatim>\<open>armonik-transport/src/utils.rs\<close>, as predicates on the model: one
  definition per \<^verbatim>\<open>#[test]\<close>, with the inputs and the assertions of the source, \<^verbatim>\<open>expect\<close> and \<^verbatim>\<open>expect_err\<close> being
  false on the other branch. That they all hold of the model, for every library that behaves as
  documented on the inputs of the tests, is the check that the model and the code were written to the
  same expectations.
\<close>

section \<open>Helpers of the tests\<close>

definition test_args :: ClientConfigArgs where
  "test_args = ClientConfigArgs_default\<lparr>ClientConfigArgs.endpoint := ''http://localhost:5001''\<rparr>"

text \<open>
  \<open>causes\<close> gives the messages of the sources of an error, outermost first; \<open>loc\<close> is the location of
  snafu.
\<close>

definition error_chain :: "(ConfigError \<Rightarrow> string list) \<Rightarrow> string \<Rightarrow> ConfigError \<Rightarrow> string" where
  "error_chain causes loc err = foldl (\<lambda>rendered cause. rendered @ '' | '' @ cause) (ConfigError_display loc err) (causes err)"

definition expect :: "'e + 'a \<Rightarrow> ('a \<Rightarrow> bool) \<Rightarrow> bool" where
  "expect r P = (case r of Inr x \<Rightarrow> P x | Inl _ \<Rightarrow> False)"

definition expect_err :: "'e + 'a \<Rightarrow> ('e \<Rightarrow> bool) \<Rightarrow> bool" where
  "expect_err r P = (case r of Inl e \<Rightarrow> P e | Inr _ \<Rightarrow> False)"

lemma expect_simps [simp]:
  "expect (Inr x) P = P x" "expect (Inl e) P = False"
  "expect_err (Inl e) Q = Q e" "expect_err (Inr x) Q = False"
  by (simp_all add: expect_def expect_err_def)

definition contains :: "string \<Rightarrow> string \<Rightarrow> bool" where
  "contains hay needle = sublist needle hay"

definition Duration_from_millis :: "u64 \<Rightarrow> Duration" where
  "Duration_from_millis ms =
     \<lparr>Duration.secs = ms div 1000, Duration.subsec_nanos = ucast (ms mod 1000) * 1000000\<rparr>"

section \<open>The tests of the configuration\<close>

definition the_minimum_is_an_endpoint :: "('uri, 'auth, 'scheme, 'pq, 'cert, 'key, 'hv) config_libs \<Rightarrow> bool" where
  "the_minimum_is_an_endpoint libs \<longleftrightarrow>
     expect (from_config_args libs test_args) (\<lambda>config.
       uri_to_string libs (ClientConfig.endpoint config) = ''http://localhost:5001/''
     \<and> ClientConfig.identity config = None
     \<and> ClientConfig.cacert config = None
     \<and> ClientConfig.override_target config = None
     \<and> ClientConfig.rate_limit config = None)"

definition an_endpoint_that_is_not_a_uri_is_reported :: "('uri, 'auth, 'scheme, 'pq, 'cert, 'key, 'hv) config_libs \<Rightarrow> bool" where
  "an_endpoint_that_is_not_a_uri_is_reported libs \<longleftrightarrow>
     expect_err (from_config_args libs (test_args\<lparr>ClientConfigArgs.endpoint := ''''\<rparr>))
       (\<lambda>err. case err of ConfigError.Uri _ _ \<Rightarrow> True | _ \<Rightarrow> False)"

definition durations_are_read_in_the_units_they_are_written_in :: "('uri, 'auth, 'scheme, 'pq, 'cert, 'key, 'hv) config_libs \<Rightarrow> bool" where
  "durations_are_read_in_the_units_they_are_written_in libs \<longleftrightarrow>
     expect (from_config_args libs (test_args\<lparr>ClientConfigArgs.connect_timeout := ''500ms'', ClientConfigArgs.tcp_keepalive := ''30s'',
         ClientConfigArgs.tcp_keepalive_interval := ''2m'', ClientConfigArgs.http2_keep_alive_interval := ''1h''\<rparr>)) (\<lambda>config.
       ClientConfig.connect_timeout config = Some (Duration_from_millis 500)
     \<and> ClientConfig.tcp_keepalive config = Some (Duration_from_secs 30)
     \<and> ClientConfig.tcp_keepalive_interval config = Some (Duration_from_secs 120)
     \<and> ClientConfig.http2_keep_alive_interval config = Some (Duration_from_secs 3600))"

definition a_duration_that_cannot_be_parsed_names_the_value :: "(ConfigError \<Rightarrow> string list) \<Rightarrow> string \<Rightarrow> ('uri, 'auth, 'scheme, 'pq, 'cert, 'key, 'hv) config_libs \<Rightarrow> bool" where
  "a_duration_that_cannot_be_parsed_names_the_value causes loc libs \<longleftrightarrow>
     expect_err (from_config_args libs (test_args\<lparr>ClientConfigArgs.tcp_keepalive := ''soon''\<rparr>)) (\<lambda>err.
       (case err of ConfigError.InvalidDuration _ _ \<Rightarrow> True | _ \<Rightarrow> False)
     \<and> contains (error_chain causes loc err) ''soon'')"

definition integers_are_read_and_a_bad_one_names_the_value :: "(ConfigError \<Rightarrow> string list) \<Rightarrow> string \<Rightarrow> ('uri, 'auth, 'scheme, 'pq, 'cert, 'key, 'hv) config_libs \<Rightarrow> bool" where
  "integers_are_read_and_a_bad_one_names_the_value causes loc libs \<longleftrightarrow>
     expect (from_config_args libs (test_args\<lparr>ClientConfigArgs.tcp_keepalive_retries := ''3'', ClientConfigArgs.http2_max_header_list_size := ''16384''\<rparr>)) (\<lambda>config.
       ClientConfig.tcp_keepalive_retries config = Some 3
     \<and> ClientConfig.http2_max_header_list_size config = Some 16384)
   \<and> expect_err (from_config_args libs (test_args\<lparr>ClientConfigArgs.tcp_keepalive_retries := ''many''\<rparr>)) (\<lambda>err.
       (case err of ConfigError.InvalidInteger _ _ \<Rightarrow> True | _ \<Rightarrow> False)
     \<and> contains (error_chain causes loc err) ''many'')"

definition an_integer_that_does_not_fit_is_rejected_rather_than_wrapped :: "('uri, 'auth, 'scheme, 'pq, 'cert, 'key, 'hv) config_libs \<Rightarrow> bool" where
  "an_integer_that_does_not_fit_is_rejected_rather_than_wrapped libs \<longleftrightarrow>
     expect_err (from_config_args libs (test_args\<lparr>ClientConfigArgs.http2_max_header_list_size := ''4294967296''\<rparr>))
       (\<lambda>err. case err of ConfigError.InvalidInteger _ _ \<Rightarrow> True | _ \<Rightarrow> False)"

definition a_rate_limit_is_a_count_and_a_duration :: "('uri, 'auth, 'scheme, 'pq, 'cert, 'key, 'hv) config_libs \<Rightarrow> bool" where
  "a_rate_limit_is_a_count_and_a_duration libs \<longleftrightarrow>
     expect (from_config_args libs (test_args\<lparr>ClientConfigArgs.rate_limit := ''100/1s''\<rparr>))
       (\<lambda>config. ClientConfig.rate_limit config = Some (100, Duration_from_secs 1))"

definition a_zero_rate_limit_is_rejected_rather_than_left_to_panic :: "string \<Rightarrow> ('uri, 'auth, 'scheme, 'pq, 'cert, 'key, 'hv) config_libs \<Rightarrow> bool" where
  "a_zero_rate_limit_is_rejected_rather_than_left_to_panic loc libs \<longleftrightarrow>
     list_all (\<lambda>val. expect_err (from_config_args libs (test_args\<lparr>ClientConfigArgs.rate_limit := val\<rparr>)) (\<lambda>err.
         contains (ConfigError_display loc err) ''zero count or duration''
       \<and> contains (ConfigError_display loc err) val))
       [''0/1s'', ''1/0s'', ''0/0s'']"

definition a_rate_limit_missing_its_duration_is_reported_with_the_expected_shape :: "(ConfigError \<Rightarrow> string list) \<Rightarrow> string \<Rightarrow> ('uri, 'auth, 'scheme, 'pq, 'cert, 'key, 'hv) config_libs \<Rightarrow> bool" where
  "a_rate_limit_missing_its_duration_is_reported_with_the_expected_shape causes loc libs \<longleftrightarrow>
     expect_err (from_config_args libs (test_args\<lparr>ClientConfigArgs.rate_limit := ''100''\<rparr>)) (\<lambda>err.
       (case err of ConfigError.IncompatibleOptions _ \<Rightarrow> True | _ \<Rightarrow> False)
     \<and> contains (error_chain causes loc err) ''number/duration''
     \<and> contains (error_chain causes loc err) ''100'')"

definition each_half_of_a_rate_limit_is_validated_separately :: "('uri, 'auth, 'scheme, 'pq, 'cert, 'key, 'hv) config_libs \<Rightarrow> bool" where
  "each_half_of_a_rate_limit_is_validated_separately libs \<longleftrightarrow>
     expect_err (from_config_args libs (test_args\<lparr>ClientConfigArgs.rate_limit := ''plenty/1s''\<rparr>))
       (\<lambda>err. case err of ConfigError.InvalidRateLimitCount _ _ \<Rightarrow> True | _ \<Rightarrow> False)
   \<and> expect_err (from_config_args libs (test_args\<lparr>ClientConfigArgs.rate_limit := ''100/soon''\<rparr>))
       (\<lambda>err. case err of ConfigError.InvalidDuration _ _ \<Rightarrow> True | _ \<Rightarrow> False)"

definition half_an_identity_is_rejected_and_names_both_variables :: "(ConfigError \<Rightarrow> string list) \<Rightarrow> string \<Rightarrow> ('uri, 'auth, 'scheme, 'pq, 'cert, 'key, 'hv) config_libs \<Rightarrow> bool" where
  "half_an_identity_is_rejected_and_names_both_variables causes loc libs \<longleftrightarrow>
     list_all (\<lambda>(cert, key). expect_err (from_config_args libs (test_args\<lparr>ClientConfigArgs.cert_pem := cert, ClientConfigArgs.key_pem := key\<rparr>)) (\<lambda>err.
         (case err of ConfigError.IncompatibleOptions _ \<Rightarrow> True | _ \<Rightarrow> False)
       \<and> contains (error_chain causes loc err) ''GrpcClient__CertPem''
       \<and> contains (error_chain causes loc err) ''GrpcClient__KeyPem''))
       [(''cert.pem'', ''''), ('''', ''key.pem'')]"

definition neither_half_is_no_identity_rather_than_an_error :: "('uri, 'auth, 'scheme, 'pq, 'cert, 'key, 'hv) config_libs \<Rightarrow> bool" where
  "neither_half_is_no_identity_rather_than_an_error libs \<longleftrightarrow>
     expect (from_config_args libs test_args) (\<lambda>config. ClientConfig.identity config = None)"

definition a_certificate_path_that_does_not_exist_is_reported_with_the_path :: "(ConfigError \<Rightarrow> string list) \<Rightarrow> string \<Rightarrow> ('uri, 'auth, 'scheme, 'pq, 'cert, 'key, 'hv) config_libs \<Rightarrow> bool" where
  "a_certificate_path_that_does_not_exist_is_reported_with_the_path causes loc libs \<longleftrightarrow>
     expect_err (from_config_args libs (test_args\<lparr>ClientConfigArgs.cert_pem := ''no/such/cert.pem'', ClientConfigArgs.key_pem := ''no/such/key.pem''\<rparr>)) (\<lambda>err.
       (case err of ConfigError.Io _ _ \<Rightarrow> True | _ \<Rightarrow> False)
     \<and> contains (error_chain causes loc err) ''no/such/cert.pem'')"

definition a_missing_ca_certificate_is_reported_with_the_path :: "(ConfigError \<Rightarrow> string list) \<Rightarrow> string \<Rightarrow> ('uri, 'auth, 'scheme, 'pq, 'cert, 'key, 'hv) config_libs \<Rightarrow> bool" where
  "a_missing_ca_certificate_is_reported_with_the_path causes loc libs \<longleftrightarrow>
     expect_err (from_config_args libs (test_args\<lparr>ClientConfigArgs.ca_cert := ''no/such/ca.pem''\<rparr>)) (\<lambda>err.
       (case err of ConfigError.Io _ _ \<Rightarrow> True | _ \<Rightarrow> False)
     \<and> contains (error_chain causes loc err) ''no/such/ca.pem'')"

text \<open>
  The accessors of a URI that the tests read: \<open>scheme_str\<close>, the text \<open>auth_str\<close> of an authority and the path
  \<open>pq_path\<close> of a path with its query.
\<close>

definition an_override_target_given_as_a_host_keeps_the_endpoints_scheme_and_path :: "('scheme \<Rightarrow> string) \<Rightarrow> ('auth \<Rightarrow> string) \<Rightarrow> ('pq \<Rightarrow> string) \<Rightarrow> ('uri, 'auth, 'scheme, 'pq, 'cert, 'key, 'hv) config_libs \<Rightarrow> bool" where
  "an_override_target_given_as_a_host_keeps_the_endpoints_scheme_and_path scheme_str auth_str pq_path libs \<longleftrightarrow>
     expect (from_config_args libs (test_args\<lparr>ClientConfigArgs.endpoint := ''https://10.0.0.1:5003/base'',
         ClientConfigArgs.override_target_name := ''server.example.com''\<rparr>)) (\<lambda>config.
       case ClientConfig.override_target config of None \<Rightarrow> False
       | Some t \<Rightarrow> map_option scheme_str (uri_scheme libs t) = Some ''https''
           \<and> map_option auth_str (uri_authority libs t) = Some ''server.example.com''
           \<and> map_option pq_path (uri_path_and_query libs t) = Some ''/base'')"

definition an_override_target_given_as_a_uri_replaces_the_authority_and_the_path :: "('scheme \<Rightarrow> string) \<Rightarrow> ('auth \<Rightarrow> string) \<Rightarrow> ('pq \<Rightarrow> string) \<Rightarrow> ('uri, 'auth, 'scheme, 'pq, 'cert, 'key, 'hv) config_libs \<Rightarrow> bool" where
  "an_override_target_given_as_a_uri_replaces_the_authority_and_the_path scheme_str auth_str pq_path libs \<longleftrightarrow>
     expect (from_config_args libs (test_args\<lparr>ClientConfigArgs.endpoint := ''https://10.0.0.1:5003/base'',
         ClientConfigArgs.override_target_name := ''https://server.example.com/other''\<rparr>)) (\<lambda>config.
       case ClientConfig.override_target config of None \<Rightarrow> False
       | Some t \<Rightarrow> map_option scheme_str (uri_scheme libs t) = Some ''https''
           \<and> map_option auth_str (uri_authority libs t) = Some ''server.example.com''
           \<and> map_option pq_path (uri_path_and_query libs t) = Some ''/other'')"

definition no_override_target_leaves_it_unset :: "('uri, 'auth, 'scheme, 'pq, 'cert, 'key, 'hv) config_libs \<Rightarrow> bool" where
  "no_override_target_leaves_it_unset libs \<longleftrightarrow>
     expect (from_config_args libs test_args) (\<lambda>config. ClientConfig.override_target config = None)"

section \<open>The tests of the environment\<close>

text \<open>The body runs with the variable set, or removed; the variable is removed afterwards.\<close>

definition with_var :: "string \<Rightarrow> string option \<Rightarrow> (environment \<Rightarrow> 'a) \<Rightarrow> environment \<Rightarrow> 'a \<times> environment" where
  "with_var n v test env =
     (let env' = (case v of Some x \<Rightarrow> env(n \<mapsto> Unicode x) | None \<Rightarrow> env(n := None));
          outcome = test env'
      in (outcome, env'(n := None)))"

definition every_accepted_spelling_is_accepted :: "environment \<Rightarrow> bool" where
  "every_accepted_spelling_is_accepted env \<longleftrightarrow>
     list_all (\<lambda>spelling. expect
         (fst (with_var ''ARMONIK_TEST_BOOL'' (Some spelling) (\<lambda>env. read_env_bool env ''ARMONIK_TEST_BOOL'') env)) (\<lambda>b. b))
       [''1'', ''true'', ''yes'', ''enable'', ''allow'', ''authorize'']
   \<and> list_all (\<lambda>spelling. expect
         (fst (with_var ''ARMONIK_TEST_BOOL'' (Some spelling) (\<lambda>env. read_env_bool env ''ARMONIK_TEST_BOOL'') env)) (\<lambda>b. \<not> b))
       [''0'', ''false'', ''no'', ''disable'', ''disallow'', ''forbid'', '''']"

definition an_unset_variable_reads_as_false :: "environment \<Rightarrow> bool" where
  "an_unset_variable_reads_as_false env \<longleftrightarrow>
     expect (fst (with_var ''ARMONIK_TEST_BOOL'' None (\<lambda>env. read_env_bool env ''ARMONIK_TEST_BOOL'') env)) (\<lambda>b. \<not> b)"

definition an_unrecognised_value_is_reported_with_its_name_and_value :: "(OsString \<Rightarrow> string) \<Rightarrow> string \<Rightarrow> environment \<Rightarrow> bool" where
  "an_unrecognised_value_is_reported_with_its_name_and_value dbg loc env \<longleftrightarrow>
     expect_err (fst (with_var ''ARMONIK_TEST_BOOL'' (Some ''perhaps'')
         (\<lambda>env. read_env_bool env ''ARMONIK_TEST_BOOL'') env)) (\<lambda>err.
       contains (ReadEnvError_display dbg loc err) ''ARMONIK_TEST_BOOL''
     \<and> contains (ReadEnvError_display dbg loc err) ''perhaps'')"

definition reading_a_plain_string_passes_it_through_and_maps_absent_to_empty :: "environment \<Rightarrow> bool" where
  "reading_a_plain_string_passes_it_through_and_maps_absent_to_empty env \<longleftrightarrow>
     expect (fst (with_var ''ARMONIK_TEST_STRING'' (Some '' spaced '')
         (\<lambda>env. read_env env ''ARMONIK_TEST_STRING'') env)) (\<lambda>val. val = '' spaced '')
   \<and> expect (fst (with_var ''ARMONIK_TEST_STRING'' None
         (\<lambda>env. read_env env ''ARMONIK_TEST_STRING'') env)) (\<lambda>val. val = '''')"

section \<open>What the tests need of the libraries\<close>

definition documented_uris :: "('uri, 'auth, 'scheme, 'pq, 'cert, 'key, 'hv) config_libs \<Rightarrow> bool" where
  "documented_uris libs \<longleftrightarrow>
     (\<exists>u. uri_try_from libs ''http://localhost:5001'' = Inr u \<and> uri_to_string libs u = ''http://localhost:5001/'')
   \<and> (\<exists>e. uri_try_from libs '''' = Inl e)"

definition documented_durations :: "('uri, 'auth, 'scheme, 'pq, 'cert, 'key, 'hv) config_libs \<Rightarrow> bool" where
  "documented_durations libs \<longleftrightarrow>
     humantime_parse libs ''500ms'' = Inr (Duration_from_millis 500)
   \<and> humantime_parse libs ''0s'' = Inr (Duration_from_secs 0)
   \<and> humantime_parse libs ''1s'' = Inr (Duration_from_secs 1)
   \<and> humantime_parse libs ''30s'' = Inr (Duration_from_secs 30)
   \<and> humantime_parse libs ''2m'' = Inr (Duration_from_secs 120)
   \<and> humantime_parse libs ''1h'' = Inr (Duration_from_secs 3600)
   \<and> (\<exists>e. humantime_parse libs ''soon'' = Inl e)"

definition missing_files :: "('uri, 'auth, 'scheme, 'pq, 'cert, 'key, 'hv) config_libs \<Rightarrow> bool" where
  "missing_files libs \<longleftrightarrow>
     (\<exists>e. read_to_string libs ''no/such/cert.pem'' = Inl e) \<and> (\<exists>e. read_to_string libs ''no/such/ca.pem'' = Inl e)"

definition documented_overrides ::
  "('scheme \<Rightarrow> string) \<Rightarrow> ('auth \<Rightarrow> string) \<Rightarrow> ('pq \<Rightarrow> string)
   \<Rightarrow> ('uri, 'auth, 'scheme, 'pq, 'cert, 'key, 'hv) config_libs \<Rightarrow> bool" where
  "documented_overrides scheme_str auth_str pq_path libs \<longleftrightarrow>
     (\<exists>u s p. uri_try_from libs ''https://10.0.0.1:5003/base'' = Inr u
        \<and> uri_scheme libs u = Some s \<and> scheme_str s = ''https''
        \<and> uri_path_and_query libs u = Some p \<and> pq_path p = ''/base'')
   \<and> (\<exists>a. authority_parse libs ''server.example.com'' = Inr a \<and> auth_str a = ''server.example.com'')
   \<and> (\<exists>e. authority_parse libs ''https://server.example.com/other'' = Inl e)
   \<and> (\<exists>u a p. uri_try_from libs ''https://server.example.com/other'' = Inr u
        \<and> uri_authority libs u = Some a \<and> auth_str a = ''server.example.com''
        \<and> uri_path_and_query libs u = Some p \<and> pq_path p = ''/other'')
   \<and> (\<forall>s a p. \<exists>u. uri_build libs (Some s) (Some a) (Some p) = Inr u
        \<and> uri_scheme libs u = Some s \<and> uri_authority libs u = Some a \<and> uri_path_and_query libs u = Some p)"

section \<open>The tests pass\<close>

lemma contains_Cons [simp]: "contains (x # xs) (n # ns) \<longleftrightarrow> prefix (n # ns) (x # xs) \<or> contains xs (n # ns)"
  by (simp add: contains_def sublist_Cons_right)

lemma contains_append: "contains hay needle \<Longrightarrow> contains (hay @ s) needle"
  unfolding contains_def by (metis append.assoc sublist_def)

lemma contains_chain [simp]:
  "contains (ConfigError_display loc err) s \<Longrightarrow> contains (error_chain causes loc err) s"
proof -
  have "contains d s \<Longrightarrow> contains (foldl (\<lambda>r c. r @ '' | '' @ c) d cs) s" for d cs
    by (induction cs arbitrary: d) (simp_all add: contains_append)
  then show "contains (ConfigError_display loc err) s \<Longrightarrow> contains (error_chain causes loc err) s"
    by (simp add: error_chain_def)
qed

text \<open>
  A configuration of which only some options are set: the others take their defaults, by
  \<open>config_parts_empty\<close>.
\<close>

lemmas run_test = from_config_args_def test_args_def ClientConfigArgs_default_def

lemma endpoint_tests:
  assumes "documented_uris libs"
  shows "the_minimum_is_an_endpoint libs" "an_endpoint_that_is_not_a_uri_is_reported libs"
    "neither_half_is_no_identity_rather_than_an_error libs" "no_override_target_leaves_it_unset libs"
  using assms
  by (auto simp: documented_uris_def run_test the_minimum_is_an_endpoint_def
      an_endpoint_that_is_not_a_uri_is_reported_def neither_half_is_no_identity_rather_than_an_error_def
      no_override_target_leaves_it_unset_def)

lemma duration_tests:
  assumes "documented_uris libs" "documented_durations libs"
  shows "durations_are_read_in_the_units_they_are_written_in libs"
    "a_duration_that_cannot_be_parsed_names_the_value causes loc libs"
  using assms
  by (auto simp: documented_uris_def documented_durations_def run_test config_duration_def
      config_connect_timeout_def durations_are_read_in_the_units_they_are_written_in_def
      a_duration_that_cannot_be_parsed_names_the_value_def)

lemma parsed_integers [simp]:
  "parse_u32 ''3'' = Inr 3" "parse_u32 ''16384'' = Inr 16384"
  "parse_u32 ''many'' = Inl InvalidDigit" "parse_u32 ''4294967296'' = Inl PosOverflow"
  "parse_u64 ''0'' = Inr 0" "parse_u64 ''1'' = Inr 1" "parse_u64 ''100'' = Inr 100"
  "parse_u64 ''plenty'' = Inl InvalidDigit"
  by (simp_all add: parse_u32_def parse_u64_def parse_unsigned_def is_digit_def digit_value_def)

lemma integer_tests:
  assumes "documented_uris libs"
  shows "integers_are_read_and_a_bad_one_names_the_value causes loc libs"
    "an_integer_that_does_not_fit_is_rejected_rather_than_wrapped libs"
  using assms
  by (auto simp: documented_uris_def run_test config_u32_def
      integers_are_read_and_a_bad_one_names_the_value_def
      an_integer_that_does_not_fit_is_rejected_rather_than_wrapped_def)

lemma rate_limit_tests:
  assumes "documented_uris libs" "documented_durations libs"
  shows "a_rate_limit_is_a_count_and_a_duration libs"
    "a_zero_rate_limit_is_rejected_rather_than_left_to_panic loc libs"
    "a_rate_limit_missing_its_duration_is_reported_with_the_expected_shape causes loc libs"
    "each_half_of_a_rate_limit_is_validated_separately libs"
  using assms
  by (auto simp: documented_uris_def documented_durations_def run_test config_rate_limit_def
      Duration_is_zero_def Duration_from_secs_def
      a_rate_limit_is_a_count_and_a_duration_def
      a_zero_rate_limit_is_rejected_rather_than_left_to_panic_def
      a_rate_limit_missing_its_duration_is_reported_with_the_expected_shape_def
      each_half_of_a_rate_limit_is_validated_separately_def)

lemma certificate_tests:
  assumes "documented_uris libs" "missing_files libs"
  shows "half_an_identity_is_rejected_and_names_both_variables causes loc libs"
    "a_certificate_path_that_does_not_exist_is_reported_with_the_path causes loc libs"
    "a_missing_ca_certificate_is_reported_with_the_path causes loc libs"
  using assms
  by (auto simp: documented_uris_def missing_files_def run_test config_identity_def config_cacert_def
      half_an_identity_is_rejected_and_names_both_variables_def
      a_certificate_path_that_does_not_exist_is_reported_with_the_path_def
      a_missing_ca_certificate_is_reported_with_the_path_def)

lemma override_tests:
  assumes "documented_overrides scheme_str auth_str pq_path libs"
  shows "an_override_target_given_as_a_host_keeps_the_endpoints_scheme_and_path scheme_str auth_str pq_path libs"
    "an_override_target_given_as_a_uri_replaces_the_authority_and_the_path scheme_str auth_str pq_path libs"
proof -
  from assms obtain u s p a v b q where
    uri: "uri_try_from libs ''https://10.0.0.1:5003/base'' = Inr u" "uri_scheme libs u = Some s" "scheme_str s = ''https''"
      "uri_path_and_query libs u = Some p" "pq_path p = ''/base''"
    and host: "authority_parse libs ''server.example.com'' = Inr a" "auth_str a = ''server.example.com''"
    and other: "\<exists>e. authority_parse libs ''https://server.example.com/other'' = Inl e"
      "uri_try_from libs ''https://server.example.com/other'' = Inr v" "uri_authority libs v = Some b"
      "auth_str b = ''server.example.com''" "uri_path_and_query libs v = Some q" "pq_path q = ''/other''"
    and build: "\<And>s a p. \<exists>u. uri_build libs (Some s) (Some a) (Some p) = Inr u
      \<and> uri_scheme libs u = Some s \<and> uri_authority libs u = Some a \<and> uri_path_and_query libs u = Some p"
    unfolding documented_overrides_def by blast
  show "an_override_target_given_as_a_host_keeps_the_endpoints_scheme_and_path scheme_str auth_str pq_path libs"
    using uri host build [of s a p]
    by (auto simp: run_test config_override_def override_parts_def
        an_override_target_given_as_a_host_keeps_the_endpoints_scheme_and_path_def)
  show "an_override_target_given_as_a_uri_replaces_the_authority_and_the_path scheme_str auth_str pq_path libs"
    using uri other build [of s b q]
    by (auto simp: run_test config_override_def override_parts_def
        an_override_target_given_as_a_uri_replaces_the_authority_and_the_path_def)
qed

lemma environment_tests:
  "every_accepted_spelling_is_accepted env"
  "an_unset_variable_reads_as_false env"
  "an_unrecognised_value_is_reported_with_its_name_and_value dbg loc env"
  "reading_a_plain_string_passes_it_through_and_maps_absent_to_empty env"
  by (simp_all add: with_var_def read_env_bool_def read_env_cases
      every_accepted_spelling_is_accepted_def an_unset_variable_reads_as_false_def
      an_unrecognised_value_is_reported_with_its_name_and_value_def
      reading_a_plain_string_passes_it_through_and_maps_absent_to_empty_def)

end
