(* ===== verification/Connect.thy ===== *)
theory Connect
  imports Config
begin

text \<open>
  Turning a configuration into a connected channel (\<^verbatim>\<open>armonik-transport/src/connect.rs\<close>) and creating a
  client from the environment (\<^verbatim>\<open>armonik/src/client/mod.rs\<close>). The builders of rustls, hyper and tonic
  are represented by the settings the code gives them (an option is \<^verbatim>\<open>None\<close> where the setter is not
  called); the calls that can fail are the fields of the parameter \<open>connect_libs\<close>. A failed
  \<^verbatim>\<open>expect\<close> is the outcome \<open>Panic\<close>.
\<close>

section \<open>Outcomes\<close>

datatype ('e, 'a) Outcome = Ok 'a | Err 'e | Panic string

definition bindO :: "('e, 'a) Outcome \<Rightarrow> ('a \<Rightarrow> ('e, 'b) Outcome) \<Rightarrow> ('e, 'b) Outcome" where
  "bindO r f = (case r of Outcome.Ok x \<Rightarrow> f x | Outcome.Err e \<Rightarrow> Outcome.Err e | Outcome.Panic m \<Rightarrow> Outcome.Panic m)"

definition tryO :: "('x \<Rightarrow> 'e) \<Rightarrow> 'x + 'a \<Rightarrow> ('e, 'a) Outcome" where
  "tryO f r = (case r of Inl e \<Rightarrow> Outcome.Err (f e) | Inr x \<Rightarrow> Outcome.Ok x)"

lemma bindO_simps [simp]:
  "bindO (Outcome.Ok x) f = f x"
  "bindO (Outcome.Err e) f = Outcome.Err e"
  "bindO (Outcome.Panic m) f = Outcome.Panic m"
  by (simp_all add: bindO_def)

lemma bindO_Ok_iff: "bindO r f = Outcome.Ok y \<longleftrightarrow> (\<exists>x. r = Outcome.Ok x \<and> f x = Outcome.Ok y)"
  by (cases r) simp_all

lemma bindO_Panic_iff:
  "bindO r f = Outcome.Panic m \<longleftrightarrow> r = Outcome.Panic m \<or> (\<exists>x. r = Outcome.Ok x \<and> f x = Outcome.Panic m)"
  by (cases r) simp_all

lemma tryO_simps [simp]:
  "tryO f (Inl e) = Outcome.Err (f e)"
  "tryO f (Inr x) = Outcome.Ok x"
  by (simp_all add: tryO_def)

lemma tryO_not_Panic [simp]: "tryO f r \<noteq> Outcome.Panic m"
  by (cases r) simp_all

lemma tryO_Ok_iff [simp]: "tryO f r = Outcome.Ok x \<longleftrightarrow> r = Inr x"
  by (cases r) simp_all

section \<open>Connector\<close>

datatype 'uri ConnectionError =
    Config ConfigError
  | Transport 'uri string
  | Tls 'uri string
  | Io string

text \<open>How the server is verified and how the client authenticates itself.\<close>

datatype 'cert ServerVerification = InsecureCertVerifier | RootCertificates 'cert | NativeRoots

datatype ('cert, 'key) ClientAuth = NoClientAuth | ClientAuthCert "'cert list" 'key

record HttpConnector =
  enforce_http :: bool
  nodelay :: bool
  keepalive :: "Duration option"
  keepalive_interval :: "Duration option"
  keepalive_retries :: "u32 option"
  connect_timeout :: "Duration option"

record ('cert, 'key, 'name) HttpsConnector =
  verification :: "'cert ServerVerification"
  client_auth :: "('cert, 'key) ClientAuth"
  server_name_resolver :: "'name option"
  http1 :: bool
  http2 :: bool
  http :: HttpConnector

record ('uri, 'hv) Endpoint =
  uri :: 'uri
  origin :: "'uri option"
  timeout :: "Duration option"
  rate_limit :: "(u64 \<times> Duration) option"
  http2_keep_alive_interval :: "Duration option"
  keep_alive_timeout :: "Duration option"
  keep_alive_while_idle :: "bool option"
  http2_max_header_list_size :: "u32 option"
  user_agent :: "'hv option"

text \<open>The fallible calls into rustls, hyper-rustls and tonic.\<close>

record ('uri, 'cert, 'key, 'hv, 'name, 'channel) connect_libs =
  safe_default_protocol_versions :: "string + unit"
  root_store_add :: "'cert \<Rightarrow> string + unit"
  with_native_roots :: "string + unit"
  with_client_auth_cert :: "'cert list \<Rightarrow> 'key \<Rightarrow> string + unit"
  uri_host :: "'uri \<Rightarrow> string option"
  server_name_try_from :: "string \<Rightarrow> string + 'name"
  connect_with_connector ::
    "('uri, 'hv) Endpoint \<Rightarrow> ('cert, 'key, 'name) HttpsConnector \<Rightarrow> (string, 'channel) Outcome"

definition configure_verification ::
  "('uri, 'cert, 'key, 'hv, 'name, 'channel) connect_libs \<Rightarrow> ('uri, 'cert, 'key, 'hv) ClientConfig
   \<Rightarrow> ('uri ConnectionError, 'cert ServerVerification) Outcome" where
  "configure_verification libs c =
     (if ClientConfig.allow_unsafe_connection c then Outcome.Ok InsecureCertVerifier
      else (case ClientConfig.cacert c of
          Some ca \<Rightarrow>
            bindO (tryO (ConnectionError.Tls (ClientConfig.endpoint c)) (root_store_add libs ca))
              (\<lambda>_. Outcome.Ok (RootCertificates ca))
        | None \<Rightarrow>
            bindO (tryO ConnectionError.Io (with_native_roots libs)) (\<lambda>_. Outcome.Ok NativeRoots)))"

definition configure_client_auth ::
  "('uri, 'cert, 'key, 'hv, 'name, 'channel) connect_libs \<Rightarrow> ('uri, 'cert, 'key, 'hv) ClientConfig
   \<Rightarrow> ('uri ConnectionError, ('cert, 'key) ClientAuth) Outcome" where
  "configure_client_auth libs c = (case ClientConfig.identity c of
       Some (cert, key) \<Rightarrow>
         bindO (tryO (ConnectionError.Tls (ClientConfig.endpoint c)) (with_client_auth_cert libs [cert] key))
           (\<lambda>_. Outcome.Ok (ClientAuthCert [cert] key))
     | None \<Rightarrow> Outcome.Ok NoClientAuth)"

definition configure_server_name ::
  "('uri, 'cert, 'key, 'hv, 'name, 'channel) connect_libs \<Rightarrow> ('uri, 'cert, 'key, 'hv) ClientConfig
   \<Rightarrow> ('uri ConnectionError, 'name option) Outcome" where
  "configure_server_name libs c = (case ClientConfig.override_target c of
       Some target \<Rightarrow>
         (case server_name_try_from libs (case uri_host libs target of None \<Rightarrow> '''' | Some h \<Rightarrow> h) of
            Inl e \<Rightarrow> Outcome.Panic ''A valid URI host should be a valid ServerName''
          | Inr n \<Rightarrow> Outcome.Ok (Some n))
     | None \<Rightarrow> Outcome.Ok None)"

definition https_connector ::
  "('uri, 'cert, 'key, 'hv, 'name, 'channel) connect_libs \<Rightarrow> ('uri, 'cert, 'key, 'hv) ClientConfig
   \<Rightarrow> ('uri ConnectionError, ('cert, 'key, 'name) HttpsConnector) Outcome" where
  "https_connector libs c =
     bindO (tryO (ConnectionError.Tls (ClientConfig.endpoint c)) (safe_default_protocol_versions libs)) (\<lambda>_.
     bindO (configure_verification libs c) (\<lambda>ver.
     bindO (configure_client_auth libs c) (\<lambda>auth.
     bindO (configure_server_name libs c) (\<lambda>name.
     Outcome.Ok \<lparr>
       HttpsConnector.verification = ver,
       HttpsConnector.client_auth = auth,
       HttpsConnector.server_name_resolver = name,
       HttpsConnector.http1 = True,
       HttpsConnector.http2 = True,
       HttpsConnector.http = \<lparr>
         HttpConnector.enforce_http = False,
         HttpConnector.nodelay = (\<not> ClientConfig.tcp_nagle_algorithm c),
         HttpConnector.keepalive = ClientConfig.tcp_keepalive c,
         HttpConnector.keepalive_interval = ClientConfig.tcp_keepalive_interval c,
         HttpConnector.keepalive_retries = ClientConfig.tcp_keepalive_retries c,
         HttpConnector.connect_timeout = ClientConfig.connect_timeout c\<rparr>\<rparr>))))"

section \<open>Connection\<close>

definition Endpoint_from :: "'uri \<Rightarrow> ('uri, 'hv) Endpoint" where
  "Endpoint_from u = \<lparr>
     Endpoint.uri = u,
     Endpoint.origin = None,
     Endpoint.timeout = None,
     Endpoint.rate_limit = None,
     Endpoint.http2_keep_alive_interval = None,
     Endpoint.keep_alive_timeout = None,
     Endpoint.keep_alive_while_idle = None,
     Endpoint.http2_max_header_list_size = None,
     Endpoint.user_agent = None\<rparr>"

text \<open>
  The setters are applied one after the other, each only when its option is set. The one of the user agent converts its
  argument to a header value, which it is already: the error type of that conversion is \<^verbatim>\<open>Infallible\<close>, a type without values,
  so the \<^verbatim>\<open>expect\<close> on it is not a branch.
\<close>

definition when_set :: "'v option \<Rightarrow> ('v \<Rightarrow> 'b \<Rightarrow> 'b) \<Rightarrow> 'b \<Rightarrow> 'b" where
  "when_set x f b = (case x of None \<Rightarrow> b | Some v \<Rightarrow> f v b)"

lemma when_set_simps [simp]:
  "when_set None f b = b"
  "when_set (Some v) f b = f v b"
  by (simp_all add: when_set_def)

definition transport_endpoint :: "('uri, 'cert, 'key, 'hv) ClientConfig \<Rightarrow> ('uri, 'hv) Endpoint" where
  "transport_endpoint c =
     (let e0 = Endpoint_from (ClientConfig.endpoint c);
          e1 = when_set (ClientConfig.override_target c) (\<lambda>t e. e\<lparr>Endpoint.origin := Some t\<rparr>) e0;
          e2 = when_set (ClientConfig.timeout c) (\<lambda>t e. e\<lparr>Endpoint.timeout := Some t\<rparr>) e1;
          e3 = when_set (ClientConfig.rate_limit c) (\<lambda>r e. e\<lparr>Endpoint.rate_limit := Some r\<rparr>) e2;
          e4 = when_set (ClientConfig.http2_keep_alive_interval c)
                 (\<lambda>i e. e\<lparr>Endpoint.http2_keep_alive_interval := Some i\<rparr>) e3;
          e5 = when_set (ClientConfig.http2_keep_alive_timeout c)
                 (\<lambda>t e. e\<lparr>Endpoint.keep_alive_timeout := Some t\<rparr>) e4;
          e6 = e5\<lparr>Endpoint.keep_alive_while_idle := Some (ClientConfig.http2_keep_alive_while_idle c)\<rparr>;
          e7 = when_set (ClientConfig.http2_max_header_list_size c)
                 (\<lambda>m e. e\<lparr>Endpoint.http2_max_header_list_size := Some m\<rparr>) e6
      in when_set (ClientConfig.user_agent c) (\<lambda>u e. e\<lparr>Endpoint.user_agent := Some u\<rparr>) e7)"

definition connect ::
  "('uri, 'cert, 'key, 'hv, 'name, 'channel) connect_libs \<Rightarrow> ('uri, 'cert, 'key, 'hv) ClientConfig
   \<Rightarrow> ('uri ConnectionError, 'channel) Outcome" where
  "connect libs c =
     bindO (https_connector libs c) (\<lambda>https.
     (case connect_with_connector libs (transport_endpoint c) https of
        Outcome.Ok ch \<Rightarrow> Outcome.Ok ch
      | Outcome.Err e \<Rightarrow> Outcome.Err (ConnectionError.Transport (ClientConfig.endpoint c) e)
      | Outcome.Panic m \<Rightarrow> Outcome.Panic m))"

section \<open>Clients\<close>

record 'ch Client =
  channel :: 'ch

definition with_channel :: "'ch \<Rightarrow> 'ch Client" where
  "with_channel ch = \<lparr>Client.channel = ch\<rparr>"

definition with_config ::
  "('uri, 'cert, 'key, 'hv, 'name, 'channel) connect_libs \<Rightarrow> ('uri, 'cert, 'key, 'hv) ClientConfig
   \<Rightarrow> ('uri ConnectionError, 'channel Client) Outcome" where
  "with_config libs c = bindO (connect libs c) (\<lambda>ch. Outcome.Ok (with_channel ch))"

definition Client_new ::
  "('uri, 'auth, 'scheme, 'pq, 'cert, 'key, 'hv) config_libs
   \<Rightarrow> ('uri, 'cert, 'key, 'hv, 'name, 'channel) connect_libs \<Rightarrow> environment
   \<Rightarrow> ('uri ConnectionError, 'channel Client) Outcome" where
  "Client_new clibs libs env =
     bindO (tryO ConnectionError.Config (ClientConfig_from_env clibs env)) (with_config libs)"

section \<open>Which settings reach the libraries\<close>

lemma transport_endpoint_fields:
  "transport_endpoint c = \<lparr>
     Endpoint.uri = ClientConfig.endpoint c,
     Endpoint.origin = ClientConfig.override_target c,
     Endpoint.timeout = ClientConfig.timeout c,
     Endpoint.rate_limit = ClientConfig.rate_limit c,
     Endpoint.http2_keep_alive_interval = ClientConfig.http2_keep_alive_interval c,
     Endpoint.keep_alive_timeout = ClientConfig.http2_keep_alive_timeout c,
     Endpoint.keep_alive_while_idle = Some (ClientConfig.http2_keep_alive_while_idle c),
     Endpoint.http2_max_header_list_size = ClientConfig.http2_max_header_list_size c,
     Endpoint.user_agent = ClientConfig.user_agent c\<rparr>"
  by (simp add: transport_endpoint_def Endpoint_from_def when_set_def Let_def split: option.split)

lemma verification_Ok_iff:
  "configure_verification libs c = Outcome.Ok v \<longleftrightarrow>
     (if ClientConfig.allow_unsafe_connection c then v = InsecureCertVerifier
      else case ClientConfig.cacert c of
             Some ca \<Rightarrow> root_store_add libs ca = Inr () \<and> v = RootCertificates ca
           | None \<Rightarrow> with_native_roots libs = Inr () \<and> v = NativeRoots)"
  by (auto simp: configure_verification_def bindO_Ok_iff split: option.splits)

lemma client_auth_Ok_iff:
  "configure_client_auth libs c = Outcome.Ok a \<longleftrightarrow>
     (case ClientConfig.identity c of
        Some (cert, key) \<Rightarrow> with_client_auth_cert libs [cert] key = Inr () \<and> a = ClientAuthCert [cert] key
      | None \<Rightarrow> a = NoClientAuth)"
  by (auto simp: configure_client_auth_def bindO_Ok_iff split: option.splits)

lemma https_connector_Ok_iff:
  "https_connector libs c = Outcome.Ok h \<longleftrightarrow>
     safe_default_protocol_versions libs = Inr ()
   \<and> configure_verification libs c = Outcome.Ok (HttpsConnector.verification h)
   \<and> configure_client_auth libs c = Outcome.Ok (HttpsConnector.client_auth h)
   \<and> configure_server_name libs c = Outcome.Ok (HttpsConnector.server_name_resolver h)
   \<and> HttpsConnector.http1 h \<and> HttpsConnector.http2 h
   \<and> HttpsConnector.http h = \<lparr>
         HttpConnector.enforce_http = False,
         HttpConnector.nodelay = (\<not> ClientConfig.tcp_nagle_algorithm c),
         HttpConnector.keepalive = ClientConfig.tcp_keepalive c,
         HttpConnector.keepalive_interval = ClientConfig.tcp_keepalive_interval c,
         HttpConnector.keepalive_retries = ClientConfig.tcp_keepalive_retries c,
         HttpConnector.connect_timeout = ClientConfig.connect_timeout c\<rparr>"
  unfolding https_connector_def bindO_Ok_iff tryO_Ok_iff
  by (cases h) auto

lemma connect_Ok_iff:
  "connect libs c = Outcome.Ok ch \<longleftrightarrow> (\<exists>h. https_connector libs c = Outcome.Ok h
     \<and> connect_with_connector libs (transport_endpoint c) h = Outcome.Ok ch)"
proof -
  have wrapped: "(case r of Outcome.Ok ch \<Rightarrow> Outcome.Ok ch | Outcome.Err e \<Rightarrow> Outcome.Err (f e)
      | Outcome.Panic m \<Rightarrow> Outcome.Panic m) = Outcome.Ok ch \<longleftrightarrow> r = Outcome.Ok ch" for r f
    by (cases r) simp_all
  show ?thesis by (simp add: connect_def bindO_Ok_iff wrapped)
qed

text \<open>The only panic of the connector is a target whose host is no server name.\<close>

definition bad_server_name ::
  "('uri, 'cert, 'key, 'hv, 'name, 'channel) connect_libs \<Rightarrow> ('uri, 'cert, 'key, 'hv) ClientConfig \<Rightarrow> bool" where
  "bad_server_name libs c \<longleftrightarrow> (case ClientConfig.override_target c of
       None \<Rightarrow> False
     | Some t \<Rightarrow> (case server_name_try_from libs (case uri_host libs t of None \<Rightarrow> '''' | Some h \<Rightarrow> h) of
                    Inl _ \<Rightarrow> True | Inr _ \<Rightarrow> False))"

lemma bad_server_name_iff:
  "bad_server_name libs c \<longleftrightarrow> (\<exists>t e. ClientConfig.override_target c = Some t
     \<and> server_name_try_from libs (case uri_host libs t of None \<Rightarrow> '''' | Some h \<Rightarrow> h) = Inl e)"
  by (auto simp: bad_server_name_def split: option.splits sum.splits)

lemma server_name_Panic_iff:
  "configure_server_name libs c = Outcome.Panic m \<longleftrightarrow>
     m = ''A valid URI host should be a valid ServerName'' \<and> bad_server_name libs c"
  by (auto simp: configure_server_name_def bad_server_name_def split: option.splits sum.splits)

lemma verification_no_Panic: "configure_verification libs c \<noteq> Outcome.Panic m"
  by (auto simp: configure_verification_def bindO_Panic_iff split: option.splits)

lemma client_auth_no_Panic: "configure_client_auth libs c \<noteq> Outcome.Panic m"
  by (auto simp: configure_client_auth_def bindO_Panic_iff split: option.splits)

lemma https_connector_Panic_iff:
  "https_connector libs c = Outcome.Panic m \<longleftrightarrow>
     m = ''A valid URI host should be a valid ServerName'' \<and> bad_server_name libs c
   \<and> safe_default_protocol_versions libs = Inr ()
   \<and> (\<exists>v. configure_verification libs c = Outcome.Ok v) \<and> (\<exists>a. configure_client_auth libs c = Outcome.Ok a)"
  unfolding https_connector_def bindO_Panic_iff server_name_Panic_iff
  by (auto simp: verification_no_Panic client_auth_no_Panic)

lemma connect_Panic_iff:
  "connect libs c = Outcome.Panic m \<longleftrightarrow> https_connector libs c = Outcome.Panic m
    \<or> (\<exists>h. https_connector libs c = Outcome.Ok h \<and> connect_with_connector libs (transport_endpoint c) h = Outcome.Panic m)"
proof -
  have wrapped: "(case r of Outcome.Ok ch \<Rightarrow> Outcome.Ok ch | Outcome.Err e \<Rightarrow> Outcome.Err (f e)
      | Outcome.Panic m \<Rightarrow> Outcome.Panic m) = Outcome.Panic m \<longleftrightarrow> r = Outcome.Panic m" for r f
    by (cases r) simp_all
  show ?thesis by (auto simp: connect_def bindO_Panic_iff wrapped)
qed

end
