(* ===== verification/Request_Counter.thy ===== *)
theory Request_Counter
  imports Config_Tests Connect Request_Count
begin

text \<open>
  How the unit tests of the service clients read a counter of the mock server (\<^verbatim>\<open>Client::get_nb_request\<close> in
  \<^verbatim>\<open>armonik/src/client/mod.rs\<close>): over HTTP, at the endpoint of the configuration or at the one that the variable
  \<^verbatim>\<open>Http__Endpoint\<close> names, with the connector that the clients use. Every failure is a panic, \<open>Inl\<close> with its message.
\<close>

section \<open>Reading over HTTP\<close>

text \<open>What hyper and \<^verbatim>\<open>serde_json\<close> do; the answer to a request depends on the state \<open>w\<close> of the server.\<close>

record ('cert, 'key, 'name, 'request, 'response, 'w) http_libs =
  request_get :: "string \<Rightarrow> string + 'request"
  client_request :: "('cert, 'key, 'name) HttpsConnector \<Rightarrow> 'request \<Rightarrow> 'w \<Rightarrow> string + 'response"
  response_collect :: "'response \<Rightarrow> string + u8 list"
  json_from_slice :: "u8 list \<Rightarrow> string + json"

definition expectR :: "string \<Rightarrow> 'e + 'a \<Rightarrow> string + 'a" where
  "expectR msg r = (case r of Inl _ \<Rightarrow> Inl msg | Inr x \<Rightarrow> Inr x)"

definition expectO :: "string \<Rightarrow> ('e, 'a) Outcome \<Rightarrow> string + 'a" where
  "expectO msg r = (case r of Outcome.Ok x \<Rightarrow> Inr x | Outcome.Err _ \<Rightarrow> Inl msg | Outcome.Panic m \<Rightarrow> Inl m)"

definition index_map :: "(string \<rightharpoonup> 'v) \<Rightarrow> string \<Rightarrow> string + 'v" where
  "index_map m k = (case m k of None \<Rightarrow> Inl ''no entry found for key'' | Some v \<Rightarrow> Inr v)"

definition http_endpoint ::
  "('uri, 'auth, 'scheme, 'pq, 'cert, 'key, 'hv) config_libs \<Rightarrow> environment
   \<Rightarrow> ('uri, 'cert, 'key, 'hv) ClientConfig \<Rightarrow> string + ('uri, 'cert, 'key, 'hv) ClientConfig" where
  "http_endpoint clibs env config = (case env_var env ''Http__Endpoint'' of
       Inr v \<Rightarrow>
         if v \<noteq> [] then
           bindR (expectR ''HTTP endpoint'' (uri_try_from clibs v)) (\<lambda>u. Inr (config\<lparr>ClientConfig.endpoint := u\<rparr>))
         else Inr config
     | Inl VarError.NotPresent \<Rightarrow> Inr config
     | Inl (VarError.NotUnicode v) \<Rightarrow> Inl ''is not a valid unicode string'')"

definition get_nb_request ::
  "('uri, 'auth, 'scheme, 'pq, 'cert, 'key, 'hv) config_libs
   \<Rightarrow> ('uri, 'cert, 'key, 'hv, 'name, 'channel) connect_libs
   \<Rightarrow> ('cert, 'key, 'name, 'request, 'response, 'w) http_libs
   \<Rightarrow> environment \<Rightarrow> string \<Rightarrow> string \<Rightarrow> 'w \<Rightarrow> string + nat" where
  "get_nb_request clibs libs hlibs env srv rpc w =
     bindR (expectR ''called `Result::unwrap()` on an `Err` value'' (ClientConfig_from_env clibs env)) (\<lambda>config0.
     bindR (http_endpoint clibs env config0) (\<lambda>config.
     bindR (expectR ''Request''
       (request_get hlibs (uri_to_string clibs (ClientConfig.endpoint config) @ ''calls.json''))) (\<lambda>request.
     bindR (expectO ''Build connection information'' (https_connector libs config)) (\<lambda>https.
     bindR (expectR ''/calls.json'' (client_request hlibs https request w)) (\<lambda>answer.
     bindR (expectR ''Response'' (response_collect hlibs answer)) (\<lambda>bytes.
     bindR (expectR ''Invalid JSON request'' (json_from_slice hlibs bytes)) (\<lambda>j.
     bindR (expectR ''Invalid JSON request'' (calls_from_json j)) (\<lambda>counts.
     bindR (index_map counts srv) (\<lambda>methods. index_map methods rpc)))))))))"

lemma expectR_simps [simp]: "expectR msg (Inr x) = Inr x" "expectR msg (Inl e) = Inl msg"
  by (simp_all add: expectR_def)

lemma expectR_Inr_iff [simp]: "expectR msg r = Inr x \<longleftrightarrow> r = Inr x"
  by (cases r) simp_all

lemma expectO_simps [simp]:
  "expectO msg (Outcome.Ok x) = Inr x" "expectO msg (Outcome.Err e) = Inl msg" "expectO msg (Outcome.Panic m) = Inl m"
  by (simp_all add: expectO_def)

section \<open>Reading from the mock server\<close>

text \<open>
  \<open>serves_calls\<close>: in every state that records its calls, a server answers the request for its counters at the endpoint
  \<open>config\<close> has, and the answer is the JSON of the counters.
\<close>

definition serves_calls ::
  "('uri, 'auth, 'scheme, 'pq, 'cert, 'key, 'hv) config_libs
   \<Rightarrow> ('cert, 'key, 'name, 'request, 'response, 'c recording) http_libs
   \<Rightarrow> ('uri, 'cert, 'key, 'hv) ClientConfig \<Rightarrow> ('cert, 'key, 'name) HttpsConnector \<Rightarrow> 'c recording \<Rightarrow> bool" where
  "serves_calls clibs hlibs config https w \<longleftrightarrow>
     bindR (request_get hlibs (uri_to_string clibs (ClientConfig.endpoint config) @ ''calls.json'')) (\<lambda>request.
     bindR (client_request hlibs https request w) (\<lambda>answer.
     bindR (response_collect hlibs answer) (json_from_slice hlibs))) = Inr (Calls Map.empty (served (fst w)))"

lemma get_nb_request_served:
  assumes config: "ClientConfig_from_env clibs env = Inr config0" "http_endpoint clibs env config0 = Inr config"
    and https: "https_connector libs config = Outcome.Ok https"
    and served: "serves_calls clibs hlibs config https w" and bound: "length (fst w) < 2 ^ 63"
  shows "get_nb_request clibs libs hlibs env cls m w =
    (if counts_method cls m then Inr (occurrences (fst w) cls m) else Inl ''no entry found for key'')"
proof -
  obtain request answer bytes where answer:
    "request_get hlibs (uri_to_string clibs (ClientConfig.endpoint config) @ ''calls.json'') = Inr request"
    "client_request hlibs https request w = Inr answer"
    "response_collect hlibs answer = Inr bytes"
    "json_from_slice hlibs bytes = Inr (Calls Map.empty (served (fst w)))"
    using served by (auto simp: serves_calls_def bindR_eq_Inr_iff)
  obtain counts where counts: "calls_from_json (Calls Map.empty (served (fst w))) = Inr counts"
    using calls_from_json_served [OF bound] by blast
  have "get_nb_request clibs libs hlibs env cls m w = bindR (index_map counts cls) (\<lambda>methods. index_map methods m)"
    unfolding get_nb_request_def config https answer expectR_simps expectO_simps bindR_simps counts ..
  also have "\<dots> = (case mock_counter cls m w of None \<Rightarrow> Inl ''no entry found for key'' | Some n \<Rightarrow> Inr n)"
    unfolding mock_counter_def counts by (simp add: index_map_def split: option.split)
  finally show ?thesis by (simp add: mock_counter_eq [OF bound])
qed

text \<open>
  The variable wins over the endpoint of the configuration; when it is unset or empty the configuration is kept.
\<close>

lemma http_endpoint_Inr_iff:
  "http_endpoint clibs env config = Inr config' \<longleftrightarrow>
     (case env ''Http__Endpoint'' of
        None \<Rightarrow> config' = config
      | Some (Unicode v) \<Rightarrow>
          if v = [] then config' = config
          else \<exists>u. uri_try_from clibs v = Inr u \<and> config' = config\<lparr>ClientConfig.endpoint := u\<rparr>
      | Some (NotUnicodeBytes b) \<Rightarrow> False)"
  by (auto simp: http_endpoint_def env_var_def bindR_eq_Inr_iff split: option.splits OsString.splits)

end
