(* ===== verification/Polling.thy ===== *)
theory Polling
  imports Rpc
begin

text \<open>
  The streams of the server as they are polled. \<^verbatim>\<open>Rpc\<close> gives a stream as the sequence of its items; here a
  stream is what \<^verbatim>\<open>futures::Stream\<close> makes of it, a state with a \<^verbatim>\<open>poll_next\<close> that answers
  \<^verbatim>\<open>Poll::Pending\<close> until an item, or the end, is ready. The theory has the \<^verbatim>\<open>ServerStream\<close> of
  \<^verbatim>\<open>armonik/src/server/mod.rs\<close>, the stream that the macro \<^verbatim>\<open>impl_trait_methods!\<close> puts in it, and the proof that
  polling it delivers exactly the items that the model of the macro states, no sooner and no later
  than the handler's own stream has them.
\<close>

section \<open>Polling\<close>

datatype 'a Poll = Pending | Ready 'a

text \<open>
  One call of \<^verbatim>\<open>poll_next\<close>: the task context (its waker) and the state of the stream before, the answer
  and the state of the stream after. \<^verbatim>\<open>Ready(None)\<close> is the end of the stream.
\<close>

type_synonym ('cx, 's, 'i) poller = "'cx \<Rightarrow> 's \<Rightarrow> 'i option Poll \<times> 's"

text \<open>
  \<^verbatim>\<open>StreamExt::map\<close>: poll the inner stream once and apply the function to the item that is ready.
\<close>

definition poll_map :: "('i \<Rightarrow> 'j) \<Rightarrow> ('cx, 's, 'i) poller \<Rightarrow> ('cx, 's, 'j) poller" where
  "poll_map f p cx s =
     (case p cx s of
        (Pending, s') \<Rightarrow> (Pending, s')
      | (Ready None, s') \<Rightarrow> (Ready None, s')
      | (Ready (Some x), s') \<Rightarrow> (Ready (Some (f x)), s'))"

text \<open>\<^verbatim>\<open>BoxStream\<close>: a stream with its own \<^verbatim>\<open>poll_next\<close>, in a box.\<close>

record ('cx, 's, 'i) BoxStream =
  box_state :: 's
  box_poll :: "('cx, 's, 'i) poller"

definition boxed :: "('cx, 's, 'i) poller \<Rightarrow> 's \<Rightarrow> ('cx, 's, 'i) BoxStream" where
  "boxed p s = \<lparr>BoxStream.box_state = s, BoxStream.box_poll = p\<rparr>"

definition BoxStream_poll_next :: "('cx, ('cx, 's, 'i) BoxStream, 'i) poller" where
  "BoxStream_poll_next cx b =
     (case box_poll b cx (box_state b) of (r, s') \<Rightarrow> (r, b\<lparr>box_state := s'\<rparr>))"

record ('cx, 's, 'i) ServerStream =
  receiver :: "('cx, 's, tonic_Status + 'i) BoxStream"

definition ServerStream_poll_next :: "('cx, ('cx, 's, 'i) ServerStream, tonic_Status + 'i) poller" where
  "ServerStream_poll_next cx st =
     (case BoxStream_poll_next cx (receiver st) of (r, b) \<Rightarrow> (r, st\<lparr>receiver := b\<rparr>))"

text \<open>
  The success branch of \<^verbatim>\<open>stream server\<close>: the handler's stream is mapped item by item, boxed and put in a
  \<^verbatim>\<open>ServerStream\<close>. The whole branch, with a handler that answers a stream to be polled, is
  \<open>polled_stream_server\<close>.
\<close>

definition response_stream ::
  "('p \<Rightarrow> 'v) \<Rightarrow> ('cx, 's, tonic_Status + 'p) poller \<Rightarrow> 's \<Rightarrow> ('cx, 's, 'v) ServerStream" where
  "response_stream enc p s =
     (let stream = poll_map (\<lambda>r. case r of Inr x \<Rightarrow> Inr (enc x) | Inl err \<Rightarrow> Inl err) p
      in \<lparr>ServerStream.receiver = boxed stream s\<rparr>)"

definition polled_stream_server ::
  "('m \<Rightarrow> 'h) \<Rightarrow> ('w \<Rightarrow> 'r) \<Rightarrow> ('p \<Rightarrow> 'v) \<Rightarrow> ('cx, 't, tonic_Status + 'p) poller
   \<Rightarrow> ('r, 'h, 'e, 's, 't) handler \<Rightarrow> ('m, 'e, 'w) tonic_Request \<Rightarrow> 's
   \<Rightarrow> (tonic_Status + ('cx, 't, 'v) ServerStream) \<times> 's" where
  "polled_stream_server ih dec enc p h req s =
     (let request = dec (tonic_Request.body req);
          ctx = RequestContext_new (ih (tonic_Request.metadata req)) (tonic_Request.request_extensions req)
      in case h request ctx s of
           (Inr stream, s') \<Rightarrow> (Inr (response_stream enc p stream), s')
         | (Inl err, s') \<Rightarrow> (Inl err, s'))"

section \<open>What a polled stream delivers\<close>

text \<open>
  \<open>resolves p n s r s'\<close>: from \<open>s\<close> the stream answers \<open>n\<close> times that it is pending and then \<open>r\<close>, in
  whatever task context it is polled. \<open>delivers p s S\<close>: polled again and again, the stream yields the
  items of \<open>S\<close> one after the other, each after finitely many polls, and ends where \<open>S\<close> ends.
\<close>

inductive resolves :: "('cx, 's, 'i) poller \<Rightarrow> nat \<Rightarrow> 's \<Rightarrow> 'i option \<Rightarrow> 's \<Rightarrow> bool" for p where
    now: "(\<And>cx. p cx s = (Ready r, s')) \<Longrightarrow> resolves p 0 s r s'"
  | later: "(\<And>cx. p cx s = (Pending, s'')) \<Longrightarrow> resolves p n s'' r s' \<Longrightarrow> resolves p (Suc n) s r s'"

inductive_cases resolves_0E: "resolves p 0 s r s'"
inductive_cases resolves_SucE: "resolves p (Suc n) s r s'"

coinductive delivers :: "('cx, 's, 'i) poller \<Rightarrow> 's \<Rightarrow> 'i Stream \<Rightarrow> bool" for p where
    ended: "resolves p n s None s' \<Longrightarrow> delivers p s SNil"
  | item: "resolves p n s (Some x) s' \<Longrightarrow> delivers p s' S \<Longrightarrow> delivers p s (SCons x S)"

inductive_cases delivers_SNilE: "delivers p s SNil"
inductive_cases delivers_SConsE: "delivers p s (SCons x S)"

text \<open>The items that a task has after polling once in each context of a list.\<close>

fun poll_items :: "('cx, 's, 'i) poller \<Rightarrow> 'cx list \<Rightarrow> 's \<Rightarrow> 'i list" where
    "poll_items p [] s = []"
  | "poll_items p (cx # cxs) s =
       (case p cx s of
          (Pending, s') \<Rightarrow> poll_items p cxs s'
        | (Ready None, s') \<Rightarrow> []
        | (Ready (Some x), s') \<Rightarrow> x # poll_items p cxs s')"

lemma resolves_poll_items:
  "resolves p n s r s' \<Longrightarrow> poll_items p cxs s =
     (if length cxs \<le> n then [] else case r of None \<Rightarrow> [] | Some x \<Rightarrow> x # poll_items p (drop (Suc n) cxs) s')"
proof (induction arbitrary: cxs rule: resolves.induct)
  case (now s r s')
  then show ?case by (cases cxs) (auto split: option.split)
next
  case (later s s'' n r s')
  then show ?case by (cases cxs) (auto split: option.split)
qed

text \<open>Safety: whatever has been received is a prefix of the stream.\<close>

lemma poll_items_prefix:
  "delivers p s S \<Longrightarrow> poll_items p cxs s = stake (length (poll_items p cxs s)) S"
proof (induction cxs arbitrary: s S rule: length_induct)
  case (1 cxs)
  from \<open>delivers p s S\<close> show ?case
  proof cases
    case (ended n s')
    then show ?thesis by (simp add: resolves_poll_items)
  next
    case (item n x s' S')
    show ?thesis
    proof (cases "length cxs \<le> n")
      case False
      then have "length (drop (Suc n) cxs) < length cxs" by simp
      with 1(1) item(3) have "poll_items p (drop (Suc n) cxs) s' =
        stake (length (poll_items p (drop (Suc n) cxs) s')) S'" by blast
      with False show ?thesis by (simp add: resolves_poll_items [OF item(2)] item(1))
    qed (simp add: resolves_poll_items [OF item(2)])
  qed
qed

text \<open>Liveness: enough polls bring any number of its items.\<close>

lemma poll_items_progress:
  "delivers p s S \<Longrightarrow> \<exists>N. \<forall>cxs. N \<le> length cxs \<longrightarrow> take k (poll_items p cxs s) = stake k S"
proof (induction k arbitrary: s S)
  case (Suc k)
  from Suc.prems show ?case
  proof cases
    case (ended n s')
    then show ?thesis by (auto simp: resolves_poll_items)
  next
    case (item n x s' S')
    from Suc.IH [OF item(3)] obtain N
      where N: "\<And>cxs. N \<le> length cxs \<Longrightarrow> take k (poll_items p cxs s') = stake k S'" by blast
    have "take (Suc k) (poll_items p cxs s) = stake (Suc k) S" if "Suc n + N \<le> length cxs" for cxs
      using that by (simp add: resolves_poll_items [OF item(2)] item(1) N)
    then show ?thesis by blast
  qed
qed simp

section \<open>Streams that run in lock step\<close>

text \<open>
  The contract between a stream and one that is built on it: related states stay related, and the outer
  stream answers what the inner one does, with the items changed by a function. Then the outer one
  delivers the mapped items, after the same number of polls.
\<close>

locale stream_adapter =
  fixes inner :: "('cx, 's, 'i) poller" and outer :: "('cx, 't, 'j) poller"
    and wrap :: "'s \<Rightarrow> 't" and f :: "'i \<Rightarrow> 'j"
  assumes lock_step: "outer cx (wrap s) = (case inner cx s of (r, s') \<Rightarrow> (map_Poll (map_option f) r, wrap s'))"
begin

lemma resolves_adapter: "resolves inner n s r s' \<Longrightarrow> resolves outer n (wrap s) (map_option f r) (wrap s')"
proof (induction rule: resolves.induct)
  case (now s r s')
  then show ?case by (intro resolves.now) (simp add: lock_step)
next
  case (later s s'' n r s')
  show ?case by (rule resolves.later [OF _ later.IH]) (simp add: lock_step later.hyps)
qed

lemma delivers_adapter: "delivers inner s S \<Longrightarrow> delivers outer (wrap s) (map_Stream f S)"
proof (coinduction arbitrary: s S)
  case delivers
  then show ?case
  proof cases
    case (ended n s')
    then show ?thesis using resolves_adapter by fastforce
  next
    case (item n x s' S')
    with resolves_adapter [OF item(2)] show ?thesis by auto
  qed
qed

lemma poll_items_adapter: "poll_items outer cxs (wrap s) = map f (poll_items inner cxs s)"
  by (induction cxs arbitrary: s) (auto simp: lock_step split: prod.split Poll.split option.split)

end

lemma map_Poll_ident_fun [simp]: "map_Poll (map_option (\<lambda>i. i)) r = r"
  by (cases r) (simp_all add: option.map_ident)

lemma poll_map_eq: "poll_map f p cx s = (case p cx s of (r, s') \<Rightarrow> (map_Poll (map_option f) r, s'))"
  by (simp add: poll_map_def split: prod.split Poll.split option.split)

interpretation mapped: stream_adapter p "poll_map f p" "\<lambda>s. s" f for p f
  by unfold_locales (simp add: poll_map_eq)

interpretation box: stream_adapter p BoxStream_poll_next "boxed p" "\<lambda>i. i" for p
  by unfold_locales
    (auto simp: BoxStream_poll_next_def boxed_def split: prod.split)

interpretation server: stream_adapter BoxStream_poll_next ServerStream_poll_next
  "\<lambda>b. \<lparr>ServerStream.receiver = b\<rparr>" "\<lambda>i. i"
  by unfold_locales
    (auto simp: ServerStream_poll_next_def split: prod.split)

lemma response_stream_delivers:
  assumes "delivers p s S"
  shows "delivers ServerStream_poll_next (response_stream enc p s) (map_Stream (map_sum (\<lambda>e. e) enc) S)"
  using server.delivers_adapter [OF box.delivers_adapter [OF mapped.delivers_adapter [OF assms]]]
  by (simp add: response_stream_def case_sum_map_sum)

lemma response_stream_items:
  "poll_items ServerStream_poll_next cxs (response_stream enc p s) =
     map (map_sum (\<lambda>e. e) enc) (poll_items p cxs s)"
  by (simp add: response_stream_def server.poll_items_adapter box.poll_items_adapter
      mapped.poll_items_adapter case_sum_map_sum)

text \<open>
  The polled handler refines the one of \<^verbatim>\<open>Rpc\<close>: where the handler's stream delivers \<open>S\<close>, the answered
  \<^verbatim>\<open>ServerStream\<close> delivers what \<open>server_stream_server\<close> answers for \<open>S\<close>; a status is the same status.
\<close>

definition stream_refines ::
  "('cx, 't, 'i) poller \<Rightarrow> (tonic_Status + 't) \<times> 's \<Rightarrow> (tonic_Status + 'i Stream) \<times> 's \<Rightarrow> bool" where
  "stream_refines p polled spec =
     (snd polled = snd spec \<and> rel_sum (=) (delivers p) (fst polled) (fst spec))"

lemma polled_stream_server_refines:
  assumes "\<And>r ctx s. stream_refines p (h r ctx s) (g r ctx s)"
  shows "stream_refines ServerStream_poll_next
    (polled_stream_server ih dec enc p h req s) (server_stream_server ih dec enc g req s)"
proof -
  let ?r = "dec (tonic_Request.body req)"
  let ?c = "RequestContext_new (ih (tonic_Request.metadata req)) (tonic_Request.request_extensions req)"
  obtain x t where h: "h ?r ?c s = (x, t)" by fastforce
  obtain y u where g: "g ?r ?c s = (y, u)" by fastforce
  from assms [of ?r ?c s] have "t = u" "rel_sum (=) (delivers p) x y"
    by (simp_all add: stream_refines_def h g)
  then show ?thesis
    by (cases x; cases y)
      (simp_all add: stream_refines_def polled_stream_server_def server_stream_server_def h g
        case_sum_map_sum response_stream_delivers)
qed

section \<open>A concrete stream\<close>

text \<open>A buffered stream that is pending once before each item, as a channel between two tasks is.\<close>

fun lazy_poll :: "('cx, bool \<times> 'i list, 'i) poller" where
    "lazy_poll cx (False, xs) = (Pending, (True, xs))"
  | "lazy_poll cx (True, []) = (Ready None, (True, []))"
  | "lazy_poll cx (True, x # xs) = (Ready (Some x), (False, xs))"

lemma lazy_poll_delivers: "delivers lazy_poll (b, xs) (stream_iter xs)"
proof (induction xs arbitrary: b)
  case Nil
  have "resolves lazy_poll 0 (True, []) None (True, [])" by (rule resolves.now) simp
  then have "resolves lazy_poll (if b then 0 else 1) (b, []) None (True, [])"
    by (cases b) (auto intro: resolves.later)
  then show ?case by (auto intro: delivers.ended)
next
  case (Cons x xs)
  have "resolves lazy_poll 0 (True, x # xs) (Some x) (False, xs)" by (rule resolves.now) simp
  then have "resolves lazy_poll (if b then 0 else 1) (b, x # xs) (Some x) (False, xs)"
    by (cases b) (auto intro: resolves.later)
  then show ?case using Cons.IH by (auto intro: delivers.item)
qed

end
