(* ===== verification/Service_Access.thy ===== *)
theory Service_Access
  imports Request_Counter Connect Polling
begin

text \<open>
  How a program gets at the services: the client of one service that is built on a \<^verbatim>\<open>Client\<close>, owned or
  borrowed (\<^verbatim>\<open>armonik/src/client/mod.rs\<close> and the \<^verbatim>\<open>with_channel\<close> of every service client), the
  \<^verbatim>\<open>GrpcService\<close> implementations that make a \<^verbatim>\<open>Client\<close>, and a mutable reference to one, a transport, the
  servers made from an implementation of a service (\<^verbatim>\<open>armonik/src/server\<close>), and the accessors of the context
  that a handler receives.

  The generated clients and servers are parameters: \<open>new\<close> is \<^verbatim>\<open>XClient::new\<close> and \<open>serve\<close> is \<^verbatim>\<open>XServer::new\<close>,
  by the name of the generated type.
\<close>

section \<open>A client as a transport\<close>

text \<open>
  \<^verbatim>\<open>tonic::client::GrpcService\<close>: \<^verbatim>\<open>poll_ready\<close> asks whether a request can be sent, \<^verbatim>\<open>call\<close> sends it and answers a
  future. Both may change the channel.
\<close>

record ('cx, 'ch, 'q, 'fut, 'err) GrpcService =
  grpc_poll_ready :: "'cx \<Rightarrow> 'ch \<Rightarrow> ('err + unit) Poll \<times> 'ch"
  grpc_call :: "'q \<Rightarrow> 'ch \<Rightarrow> 'fut \<times> 'ch"

definition Client_poll_ready ::
  "('cx, 'ch, 'q, 'fut, 'err) GrpcService \<Rightarrow> 'cx \<Rightarrow> 'ch Client \<Rightarrow> ('err + unit) Poll \<times> 'ch Client" where
  "Client_poll_ready G cx c =
     (case grpc_poll_ready G cx (Client.channel c) of (r, ch) \<Rightarrow> (r, c\<lparr>Client.channel := ch\<rparr>))"

definition Client_call ::
  "('cx, 'ch, 'q, 'fut, 'err) GrpcService \<Rightarrow> 'q \<Rightarrow> 'ch Client \<Rightarrow> 'fut \<times> 'ch Client" where
  "Client_call G q c =
     (case grpc_call G q (Client.channel c) of (r, ch) \<Rightarrow> (r, c\<lparr>Client.channel := ch\<rparr>))"

definition GrpcService_for_Client ::
  "('cx, 'ch, 'q, 'fut, 'err) GrpcService \<Rightarrow> ('cx, 'ch Client, 'q, 'fut, 'err) GrpcService" where
  "GrpcService_for_Client G =
     \<lparr>GrpcService.grpc_poll_ready = Client_poll_ready G, GrpcService.grpc_call = Client_call G\<rparr>"

text \<open>
  A mutable reference is an address, and a call through it changes the client that the memory has
  there: \<open>(a, m)\<close> is the reference \<open>a\<close> with the memory \<open>m\<close>.
\<close>

type_synonym 'ch memory = "nat \<Rightarrow> 'ch Client"

definition Client_mut_poll_ready ::
  "('cx, 'ch, 'q, 'fut, 'err) GrpcService \<Rightarrow> 'cx \<Rightarrow> nat \<times> 'ch memory \<Rightarrow> ('err + unit) Poll \<times> nat \<times> 'ch memory" where
  "Client_mut_poll_ready G cx am = (case am of (a, m) \<Rightarrow>
     (case grpc_poll_ready G cx (Client.channel (m a)) of
        (r, ch) \<Rightarrow> (r, (a, m(a := (m a)\<lparr>Client.channel := ch\<rparr>)))))"

definition Client_mut_call ::
  "('cx, 'ch, 'q, 'fut, 'err) GrpcService \<Rightarrow> 'q \<Rightarrow> nat \<times> 'ch memory \<Rightarrow> 'fut \<times> nat \<times> 'ch memory" where
  "Client_mut_call G q am = (case am of (a, m) \<Rightarrow>
     (case grpc_call G q (Client.channel (m a)) of
        (r, ch) \<Rightarrow> (r, (a, m(a := (m a)\<lparr>Client.channel := ch\<rparr>)))))"

definition GrpcService_for_Client_mut ::
  "('cx, 'ch, 'q, 'fut, 'err) GrpcService \<Rightarrow> ('cx, nat \<times> 'ch memory, 'q, 'fut, 'err) GrpcService" where
  "GrpcService_for_Client_mut G =
     \<lparr>GrpcService.grpc_poll_ready = Client_mut_poll_ready G, GrpcService.grpc_call = Client_mut_call G\<rparr>"

text \<open>
  What a generated client does with its transport is a sequence of the two operations; \<open>transact\<close> runs
  one, with the answers it gets.
\<close>

datatype ('cx, 'q) transport_op = PollReady 'cx | Call 'q

datatype ('fut, 'err) transport_answer = Readiness "('err + unit) Poll" | Started 'fut

fun transact ::
  "('cx, 'ch, 'q, 'fut, 'err) GrpcService \<Rightarrow> ('cx, 'q) transport_op list \<Rightarrow> 'ch
   \<Rightarrow> ('fut, 'err) transport_answer list \<times> 'ch" where
    "transact G [] ch = ([], ch)"
  | "transact G (PollReady cx # ops) ch =
       (case grpc_poll_ready G cx ch of (r, ch') \<Rightarrow>
          (case transact G ops ch' of (rs, ch'') \<Rightarrow> (Readiness r # rs, ch'')))"
  | "transact G (Call q # ops) ch =
       (case grpc_call G q ch of (r, ch') \<Rightarrow>
          (case transact G ops ch' of (rs, ch'') \<Rightarrow> (Started r # rs, ch'')))"

text \<open>
  The contract of a transport that stands for another: each operation is the operation of the other on
  the part of the state that \<open>get\<close> and \<open>put\<close> select.
\<close>

locale transport_proxy =
  fixes G :: "('cx, 'ch, 'q, 'fut, 'err) GrpcService" and H :: "('cx, 's, 'q, 'fut, 'err) GrpcService"
    and get :: "'s \<Rightarrow> 'ch" and put :: "'ch \<Rightarrow> 's \<Rightarrow> 's"
  assumes get_put [simp]: "get (put ch s) = ch"
    and put_put [simp]: "put ch (put ch' s) = put ch s"
    and put_get [simp]: "put (get s) s = s"
    and poll_ready_proxy: "grpc_poll_ready H cx s =
      (case grpc_poll_ready G cx (get s) of (r, ch) \<Rightarrow> (r, put ch s))"
    and call_proxy: "grpc_call H q s = (case grpc_call G q (get s) of (r, ch) \<Rightarrow> (r, put ch s))"
begin

lemma transact_proxy: "transact H ops s = (case transact G ops (get s) of (rs, ch) \<Rightarrow> (rs, put ch s))"
proof (induction ops arbitrary: s)
  case (Cons op ops)
  then show ?case by (cases op) (simp_all add: poll_ready_proxy call_proxy split: prod.split)
qed simp

end

interpretation owned: transport_proxy G "GrpcService_for_Client G"
  Client.channel "\<lambda>ch c. c\<lparr>Client.channel := ch\<rparr>" for G
  by unfold_locales (simp_all add: GrpcService_for_Client_def Client_poll_ready_def Client_call_def)

interpretation borrowed: transport_proxy G "GrpcService_for_Client_mut G"
  "\<lambda>(a, m). Client.channel (m a)" "\<lambda>ch (a, m). (a, m(a := (m a)\<lparr>Client.channel := ch\<rparr>))" for G
  by unfold_locales
    (auto simp: GrpcService_for_Client_mut_def Client_mut_poll_ready_def Client_mut_call_def)

section \<open>The clients of the services\<close>

datatype stub_client =
    AgentClient | ApplicationsClient | AuthenticationClient | EventsClient | HealthChecksServiceClient | PartitionsClient
  | ResultsClient | SessionsClient | SubmitterClient | TasksClient | VersionsClient | WorkerClient

datatype (plugins only: code) 'i Agent_client = Agent_client (Agent_inner: 'i)

definition Agent_with_channel :: "(stub_client \<Rightarrow> 'ch \<Rightarrow> 'i) \<Rightarrow> 'ch \<Rightarrow> 'i Agent_client" where
  "Agent_with_channel new ch = Agent_client (new AgentClient ch)"

datatype (plugins only: code) 'i Applications_client = Applications_client (Applications_inner: 'i)

definition Applications_with_channel :: "(stub_client \<Rightarrow> 'ch \<Rightarrow> 'i) \<Rightarrow> 'ch \<Rightarrow> 'i Applications_client" where
  "Applications_with_channel new ch = Applications_client (new ApplicationsClient ch)"

datatype (plugins only: code) 'i Auth_client = Auth_client (Auth_inner: 'i)

definition Auth_with_channel :: "(stub_client \<Rightarrow> 'ch \<Rightarrow> 'i) \<Rightarrow> 'ch \<Rightarrow> 'i Auth_client" where
  "Auth_with_channel new ch = Auth_client (new AuthenticationClient ch)"

datatype (plugins only: code) 'i Events_client = Events_client (Events_inner: 'i)

definition Events_with_channel :: "(stub_client \<Rightarrow> 'ch \<Rightarrow> 'i) \<Rightarrow> 'ch \<Rightarrow> 'i Events_client" where
  "Events_with_channel new ch = Events_client (new EventsClient ch)"

datatype (plugins only: code) 'i HealthChecks_client = HealthChecks_client (HealthChecks_inner: 'i)

definition HealthChecks_with_channel :: "(stub_client \<Rightarrow> 'ch \<Rightarrow> 'i) \<Rightarrow> 'ch \<Rightarrow> 'i HealthChecks_client" where
  "HealthChecks_with_channel new ch = HealthChecks_client (new HealthChecksServiceClient ch)"

datatype (plugins only: code) 'i Partitions_client = Partitions_client (Partitions_inner: 'i)

definition Partitions_with_channel :: "(stub_client \<Rightarrow> 'ch \<Rightarrow> 'i) \<Rightarrow> 'ch \<Rightarrow> 'i Partitions_client" where
  "Partitions_with_channel new ch = Partitions_client (new PartitionsClient ch)"

datatype (plugins only: code) 'i Results_client = Results_client (Results_inner: 'i)

definition Results_with_channel :: "(stub_client \<Rightarrow> 'ch \<Rightarrow> 'i) \<Rightarrow> 'ch \<Rightarrow> 'i Results_client" where
  "Results_with_channel new ch = Results_client (new ResultsClient ch)"

datatype (plugins only: code) 'i Sessions_client = Sessions_client (Sessions_inner: 'i)

definition Sessions_with_channel :: "(stub_client \<Rightarrow> 'ch \<Rightarrow> 'i) \<Rightarrow> 'ch \<Rightarrow> 'i Sessions_client" where
  "Sessions_with_channel new ch = Sessions_client (new SessionsClient ch)"

datatype (plugins only: code) 'i Submitter_client = Submitter_client (Submitter_inner: 'i)

definition Submitter_with_channel :: "(stub_client \<Rightarrow> 'ch \<Rightarrow> 'i) \<Rightarrow> 'ch \<Rightarrow> 'i Submitter_client" where
  "Submitter_with_channel new ch = Submitter_client (new SubmitterClient ch)"

datatype (plugins only: code) 'i Tasks_client = Tasks_client (Tasks_inner: 'i)

definition Tasks_with_channel :: "(stub_client \<Rightarrow> 'ch \<Rightarrow> 'i) \<Rightarrow> 'ch \<Rightarrow> 'i Tasks_client" where
  "Tasks_with_channel new ch = Tasks_client (new TasksClient ch)"

datatype (plugins only: code) 'i Versions_client = Versions_client (Versions_inner: 'i)

definition Versions_with_channel :: "(stub_client \<Rightarrow> 'ch \<Rightarrow> 'i) \<Rightarrow> 'ch \<Rightarrow> 'i Versions_client" where
  "Versions_with_channel new ch = Versions_client (new VersionsClient ch)"

datatype (plugins only: code) 'i Worker_client = Worker_client (Worker_inner: 'i)

definition Worker_with_channel :: "(stub_client \<Rightarrow> 'ch \<Rightarrow> 'i) \<Rightarrow> 'ch \<Rightarrow> 'i Worker_client" where
  "Worker_with_channel new ch = Worker_client (new WorkerClient ch)"

text \<open>The accessors of \<^verbatim>\<open>Client\<close>: a borrowed service client holds a reference to the client, an owned one the client.\<close>

definition Client_agent :: "(stub_client \<Rightarrow> nat \<Rightarrow> 'i) \<Rightarrow> nat \<Rightarrow> 'i Agent_client" where
  "Client_agent new a = Agent_with_channel new a"

definition Client_into_agent :: "(stub_client \<Rightarrow> 'ch Client \<Rightarrow> 'i) \<Rightarrow> 'ch Client \<Rightarrow> 'i Agent_client" where
  "Client_into_agent new c = Agent_with_channel new c"

definition Client_applications :: "(stub_client \<Rightarrow> nat \<Rightarrow> 'i) \<Rightarrow> nat \<Rightarrow> 'i Applications_client" where
  "Client_applications new a = Applications_with_channel new a"

definition Client_into_applications :: "(stub_client \<Rightarrow> 'ch Client \<Rightarrow> 'i) \<Rightarrow> 'ch Client \<Rightarrow> 'i Applications_client" where
  "Client_into_applications new c = Applications_with_channel new c"

definition Client_auth :: "(stub_client \<Rightarrow> nat \<Rightarrow> 'i) \<Rightarrow> nat \<Rightarrow> 'i Auth_client" where
  "Client_auth new a = Auth_with_channel new a"

definition Client_into_auth :: "(stub_client \<Rightarrow> 'ch Client \<Rightarrow> 'i) \<Rightarrow> 'ch Client \<Rightarrow> 'i Auth_client" where
  "Client_into_auth new c = Auth_with_channel new c"

definition Client_events :: "(stub_client \<Rightarrow> nat \<Rightarrow> 'i) \<Rightarrow> nat \<Rightarrow> 'i Events_client" where
  "Client_events new a = Events_with_channel new a"

definition Client_into_events :: "(stub_client \<Rightarrow> 'ch Client \<Rightarrow> 'i) \<Rightarrow> 'ch Client \<Rightarrow> 'i Events_client" where
  "Client_into_events new c = Events_with_channel new c"

definition Client_health_checks :: "(stub_client \<Rightarrow> nat \<Rightarrow> 'i) \<Rightarrow> nat \<Rightarrow> 'i HealthChecks_client" where
  "Client_health_checks new a = HealthChecks_with_channel new a"

definition Client_into_health_checks :: "(stub_client \<Rightarrow> 'ch Client \<Rightarrow> 'i) \<Rightarrow> 'ch Client \<Rightarrow> 'i HealthChecks_client" where
  "Client_into_health_checks new c = HealthChecks_with_channel new c"

definition Client_partitions :: "(stub_client \<Rightarrow> nat \<Rightarrow> 'i) \<Rightarrow> nat \<Rightarrow> 'i Partitions_client" where
  "Client_partitions new a = Partitions_with_channel new a"

definition Client_into_partitions :: "(stub_client \<Rightarrow> 'ch Client \<Rightarrow> 'i) \<Rightarrow> 'ch Client \<Rightarrow> 'i Partitions_client" where
  "Client_into_partitions new c = Partitions_with_channel new c"

definition Client_results :: "(stub_client \<Rightarrow> nat \<Rightarrow> 'i) \<Rightarrow> nat \<Rightarrow> 'i Results_client" where
  "Client_results new a = Results_with_channel new a"

definition Client_into_results :: "(stub_client \<Rightarrow> 'ch Client \<Rightarrow> 'i) \<Rightarrow> 'ch Client \<Rightarrow> 'i Results_client" where
  "Client_into_results new c = Results_with_channel new c"

definition Client_sessions :: "(stub_client \<Rightarrow> nat \<Rightarrow> 'i) \<Rightarrow> nat \<Rightarrow> 'i Sessions_client" where
  "Client_sessions new a = Sessions_with_channel new a"

definition Client_into_sessions :: "(stub_client \<Rightarrow> 'ch Client \<Rightarrow> 'i) \<Rightarrow> 'ch Client \<Rightarrow> 'i Sessions_client" where
  "Client_into_sessions new c = Sessions_with_channel new c"

definition Client_submitter :: "(stub_client \<Rightarrow> nat \<Rightarrow> 'i) \<Rightarrow> nat \<Rightarrow> 'i Submitter_client" where
  "Client_submitter new a = Submitter_with_channel new a"

definition Client_into_submitter :: "(stub_client \<Rightarrow> 'ch Client \<Rightarrow> 'i) \<Rightarrow> 'ch Client \<Rightarrow> 'i Submitter_client" where
  "Client_into_submitter new c = Submitter_with_channel new c"

definition Client_tasks :: "(stub_client \<Rightarrow> nat \<Rightarrow> 'i) \<Rightarrow> nat \<Rightarrow> 'i Tasks_client" where
  "Client_tasks new a = Tasks_with_channel new a"

definition Client_into_tasks :: "(stub_client \<Rightarrow> 'ch Client \<Rightarrow> 'i) \<Rightarrow> 'ch Client \<Rightarrow> 'i Tasks_client" where
  "Client_into_tasks new c = Tasks_with_channel new c"

definition Client_versions :: "(stub_client \<Rightarrow> nat \<Rightarrow> 'i) \<Rightarrow> nat \<Rightarrow> 'i Versions_client" where
  "Client_versions new a = Versions_with_channel new a"

definition Client_into_versions :: "(stub_client \<Rightarrow> 'ch Client \<Rightarrow> 'i) \<Rightarrow> 'ch Client \<Rightarrow> 'i Versions_client" where
  "Client_into_versions new c = Versions_with_channel new c"

definition Client_worker :: "(stub_client \<Rightarrow> nat \<Rightarrow> 'i) \<Rightarrow> nat \<Rightarrow> 'i Worker_client" where
  "Client_worker new a = Worker_with_channel new a"

definition Client_into_worker :: "(stub_client \<Rightarrow> 'ch Client \<Rightarrow> 'i) \<Rightarrow> 'ch Client \<Rightarrow> 'i Worker_client" where
  "Client_into_worker new c = Worker_with_channel new c"

lemmas with_channel_defs =
  Agent_with_channel_def
  Applications_with_channel_def
  Auth_with_channel_def
  Events_with_channel_def
  HealthChecks_with_channel_def
  Partitions_with_channel_def
  Results_with_channel_def
  Sessions_with_channel_def
  Submitter_with_channel_def
  Tasks_with_channel_def
  Versions_with_channel_def
  Worker_with_channel_def

lemmas accessor_defs =
  Client_agent_def Client_into_agent_def
  Client_applications_def Client_into_applications_def
  Client_auth_def Client_into_auth_def
  Client_events_def Client_into_events_def
  Client_health_checks_def Client_into_health_checks_def
  Client_partitions_def Client_into_partitions_def
  Client_results_def Client_into_results_def
  Client_sessions_def Client_into_sessions_def
  Client_submitter_def Client_into_submitter_def
  Client_tasks_def Client_into_tasks_def
  Client_versions_def Client_into_versions_def
  Client_worker_def Client_into_worker_def

text \<open>The generated clients that the accessors build, each with the transport it is given.\<close>

definition borrowed_stubs :: "(stub_client \<Rightarrow> nat \<Rightarrow> 'i) \<Rightarrow> nat \<Rightarrow> 'i list" where
  "borrowed_stubs new a =
     [Agent_inner (Client_agent new a),
      Applications_inner (Client_applications new a),
      Auth_inner (Client_auth new a),
      Events_inner (Client_events new a),
      HealthChecks_inner (Client_health_checks new a),
      Partitions_inner (Client_partitions new a),
      Results_inner (Client_results new a),
      Sessions_inner (Client_sessions new a),
      Submitter_inner (Client_submitter new a),
      Tasks_inner (Client_tasks new a),
      Versions_inner (Client_versions new a),
      Worker_inner (Client_worker new a)]"

definition owned_stubs :: "(stub_client \<Rightarrow> 'ch Client \<Rightarrow> 'i) \<Rightarrow> 'ch Client \<Rightarrow> 'i list" where
  "owned_stubs new c =
     [Agent_inner (Client_into_agent new c),
      Applications_inner (Client_into_applications new c),
      Auth_inner (Client_into_auth new c),
      Events_inner (Client_into_events new c),
      HealthChecks_inner (Client_into_health_checks new c),
      Partitions_inner (Client_into_partitions new c),
      Results_inner (Client_into_results new c),
      Sessions_inner (Client_into_sessions new c),
      Submitter_inner (Client_into_submitter new c),
      Tasks_inner (Client_into_tasks new c),
      Versions_inner (Client_into_versions new c),
      Worker_inner (Client_into_worker new c)]"

definition generated_clients :: "stub_client list" where
  "generated_clients =
     [AgentClient, ApplicationsClient, AuthenticationClient, EventsClient, HealthChecksServiceClient, PartitionsClient,
      ResultsClient, SessionsClient, SubmitterClient, TasksClient, VersionsClient, WorkerClient]"

lemma borrowed_stubs_eq: "borrowed_stubs new a = map (\<lambda>k. new k a) generated_clients"
  by (simp add: borrowed_stubs_def accessor_defs with_channel_defs generated_clients_def)

lemma owned_stubs_eq: "owned_stubs new c = map (\<lambda>k. new k c) generated_clients"
  by (simp add: owned_stubs_def accessor_defs with_channel_defs generated_clients_def)

lemma generated_clients_all: "distinct generated_clients" "k \<in> set generated_clients"
  by (simp add: generated_clients_def, cases k) (simp_all add: generated_clients_def)

section \<open>The servers of the services\<close>

datatype stub_server =
    AgentServer | ApplicationsServer | AuthenticationServer | EventsServer | HealthChecksServiceServer | PartitionsServer
  | ResultsServer | SessionsServer | SubmitterServer | TasksServer | VersionsServer | WorkerServer

definition agent_server :: "(stub_server \<Rightarrow> 'h \<Rightarrow> 'v) \<Rightarrow> 'h \<Rightarrow> 'v" where
  "agent_server serve h = serve AgentServer h"

definition applications_server :: "(stub_server \<Rightarrow> 'h \<Rightarrow> 'v) \<Rightarrow> 'h \<Rightarrow> 'v" where
  "applications_server serve h = serve ApplicationsServer h"

definition auth_server :: "(stub_server \<Rightarrow> 'h \<Rightarrow> 'v) \<Rightarrow> 'h \<Rightarrow> 'v" where
  "auth_server serve h = serve AuthenticationServer h"

definition events_server :: "(stub_server \<Rightarrow> 'h \<Rightarrow> 'v) \<Rightarrow> 'h \<Rightarrow> 'v" where
  "events_server serve h = serve EventsServer h"

definition health_checks_server :: "(stub_server \<Rightarrow> 'h \<Rightarrow> 'v) \<Rightarrow> 'h \<Rightarrow> 'v" where
  "health_checks_server serve h = serve HealthChecksServiceServer h"

definition partitions_server :: "(stub_server \<Rightarrow> 'h \<Rightarrow> 'v) \<Rightarrow> 'h \<Rightarrow> 'v" where
  "partitions_server serve h = serve PartitionsServer h"

definition results_server :: "(stub_server \<Rightarrow> 'h \<Rightarrow> 'v) \<Rightarrow> 'h \<Rightarrow> 'v" where
  "results_server serve h = serve ResultsServer h"

definition sessions_server :: "(stub_server \<Rightarrow> 'h \<Rightarrow> 'v) \<Rightarrow> 'h \<Rightarrow> 'v" where
  "sessions_server serve h = serve SessionsServer h"

definition submitter_server :: "(stub_server \<Rightarrow> 'h \<Rightarrow> 'v) \<Rightarrow> 'h \<Rightarrow> 'v" where
  "submitter_server serve h = serve SubmitterServer h"

definition tasks_server :: "(stub_server \<Rightarrow> 'h \<Rightarrow> 'v) \<Rightarrow> 'h \<Rightarrow> 'v" where
  "tasks_server serve h = serve TasksServer h"

definition versions_server :: "(stub_server \<Rightarrow> 'h \<Rightarrow> 'v) \<Rightarrow> 'h \<Rightarrow> 'v" where
  "versions_server serve h = serve VersionsServer h"

definition worker_server :: "(stub_server \<Rightarrow> 'h \<Rightarrow> 'v) \<Rightarrow> 'h \<Rightarrow> 'v" where
  "worker_server serve h = serve WorkerServer h"

text \<open>All servers of one implementation, as a router gets them.\<close>

definition all_servers :: "(stub_server \<Rightarrow> 'h \<Rightarrow> 'v) \<Rightarrow> 'h \<Rightarrow> 'v list" where
  "all_servers serve h =
     [agent_server serve h,
      applications_server serve h,
      auth_server serve h,
      events_server serve h,
      health_checks_server serve h,
      partitions_server serve h,
      results_server serve h,
      sessions_server serve h,
      submitter_server serve h,
      tasks_server serve h,
      versions_server serve h,
      worker_server serve h]"

fun server_of :: "stub_client \<Rightarrow> stub_server" where
    "server_of AgentClient = AgentServer"
  | "server_of ApplicationsClient = ApplicationsServer"
  | "server_of AuthenticationClient = AuthenticationServer"
  | "server_of EventsClient = EventsServer"
  | "server_of HealthChecksServiceClient = HealthChecksServiceServer"
  | "server_of PartitionsClient = PartitionsServer"
  | "server_of ResultsClient = ResultsServer"
  | "server_of SessionsClient = SessionsServer"
  | "server_of SubmitterClient = SubmitterServer"
  | "server_of TasksClient = TasksServer"
  | "server_of VersionsClient = VersionsServer"
  | "server_of WorkerClient = WorkerServer"

lemmas server_defs =
  agent_server_def applications_server_def auth_server_def events_server_def health_checks_server_def partitions_server_def
  results_server_def sessions_server_def submitter_server_def tasks_server_def versions_server_def worker_server_def

lemma all_servers_eq: "all_servers serve h = map (\<lambda>k. serve (server_of k) h) generated_clients"
  by (simp add: all_servers_def server_defs generated_clients_def)

section \<open>The context of a request\<close>

definition RequestContext_headers :: "('h, 'e) RequestContext \<Rightarrow> 'h" where
  "RequestContext_headers c = headers c"

definition RequestContext_headers_mut :: "('h \<Rightarrow> 'h) \<Rightarrow> ('h, 'e) RequestContext \<Rightarrow> ('h, 'e) RequestContext" where
  "RequestContext_headers_mut f c = c\<lparr>headers := f (headers c)\<rparr>"

definition RequestContext_extensions :: "('h, 'e) RequestContext \<Rightarrow> 'e" where
  "RequestContext_extensions c = extensions c"

definition RequestContext_extensions_mut :: "('e \<Rightarrow> 'e) \<Rightarrow> ('h, 'e) RequestContext \<Rightarrow> ('h, 'e) RequestContext" where
  "RequestContext_extensions_mut f c = c\<lparr>extensions := f (extensions c)\<rparr>"

lemmas context_defs =
  RequestContext_headers_def RequestContext_headers_mut_def
  RequestContext_extensions_def RequestContext_extensions_mut_def

interpretation context_headers: field_view RequestContext_headers RequestContext_headers_mut
  by unfold_locales (auto simp: context_defs)

interpretation context_extensions: field_view RequestContext_extensions RequestContext_extensions_mut
  by unfold_locales (auto simp: context_defs)

lemma context_mut_frame [simp]:
  "RequestContext_extensions (RequestContext_headers_mut f c) = RequestContext_extensions c"
  "RequestContext_headers (RequestContext_extensions_mut g c) = RequestContext_headers c"
  by (simp_all add: context_defs)

lemma context_mut_commute:
  "RequestContext_headers_mut f (RequestContext_extensions_mut g c) =
   RequestContext_extensions_mut g (RequestContext_headers_mut f c)"
  by (simp add: context_defs)

end
