(* ===== verification/Convert_Macro.thy ===== *)
theory Convert_Macro
  imports Rust_Prelude
begin

text \<open>
  The macro \<^verbatim>\<open>impl_convert!\<close> of \<^verbatim>\<open>objects/mod.rs\<close>, which generates the conversions of most objects. An
  invocation lists the fields of a struct and, where they differ, the fields of the message; the macro
  munches the list one field at a time and emits one initialiser per field, in both directions.

  The macro is modelled as the token rewriting it is: its arms are patterns over tokens, tried in the
  order of the source, and an arm that does not fit leaves the input to the next one. No arm at all is a
  compile error (\<open>None\<close>). The lemmas show that the expansion ends and how deep it recurses, which
  invocations expand and to what, and why the two generated conversions are inverse to each other.
\<close>

section \<open>Tokens and patterns\<close>

text \<open>
  The words \<^verbatim>\<open>enum\<close>, \<^verbatim>\<open>option\<close> and \<^verbatim>\<open>list\<close> are matched literally by some arms and also by the fragment
  \<^verbatim>\<open>ident\<close>, as any other identifier.
\<close>

datatype token = KwEnum | KwOption | KwList | Ident string | Arrow | Comma

fun ident_of :: "token \<Rightarrow> string option" where
    "ident_of KwEnum = Some ''enum''"
  | "ident_of KwOption = Some ''option''"
  | "ident_of KwList = Some ''list''"
  | "ident_of (Ident x) = Some x"
  | "ident_of Arrow = None"
  | "ident_of Comma = None"

datatype pattern = PIdent | PTok token

text \<open>A pattern consumes a prefix of the tokens and binds its identifiers; the rest is the tail.\<close>

fun match_pattern :: "pattern list \<Rightarrow> token list \<Rightarrow> (string list \<times> token list) option" where
    "match_pattern [] ts = Some ([], ts)"
  | "match_pattern (p # ps) [] = None"
  | "match_pattern (PTok t # ps) (u # us) = (if t = u then match_pattern ps us else None)"
  | "match_pattern (PIdent # ps) (u # us) =
       (case ident_of u of
          None \<Rightarrow> None
        | Some x \<Rightarrow> (case match_pattern ps us of None \<Rightarrow> None | Some (xs, rest) \<Rightarrow> Some (x # xs, rest)))"

lemma match_pattern_length:
  "match_pattern ps ts = Some (xs, rest) \<Longrightarrow> length ts = length ps + length rest"
  by (induction ps ts arbitrary: xs rest rule: match_pattern.induct)
    (auto split: if_splits option.splits prod.splits)

section \<open>The arms\<close>

text \<open>What the initialiser of a field applies to the field it reads.\<close>

datatype conversion =
    Into  \<comment> \<open>\<^verbatim>\<open>value.a.into()\<close>\<close>
  | AsI32  \<comment> \<open>\<^verbatim>\<open>value.a as i32\<close>\<close>
  | SomeInto  \<comment> \<open>\<^verbatim>\<open>Some(value.a.into())\<close>\<close>
  | MapOrDefault  \<comment> \<open>\<^verbatim>\<open>value.a.map_or_else(Default::default, Into::into)\<close>\<close>
  | MapInto  \<comment> \<open>\<^verbatim>\<open>value.a.map(Into::into)\<close>\<close>
  | IntoCollect  \<comment> \<open>\<^verbatim>\<open>into_collect(value.a)\<close>\<close>

text \<open>An initialiser \<^verbatim>\<open>b: conv(value.a)\<close>.\<close>

record initialiser =
  target :: string
  conv :: conversion
  source :: string

definition struct_arms :: "(pattern list \<times> conversion) list" where
  "struct_arms = [
     ([PIdent, PTok Arrow, PIdent, PTok Comma], Into),
     ([PIdent, PTok Arrow, PTok KwEnum, PIdent, PTok Comma], AsI32),
     ([PTok KwEnum, PIdent, PTok Arrow, PIdent, PTok Comma], Into),
     ([PIdent, PTok Arrow, PTok KwOption, PIdent, PTok Comma], SomeInto),
     ([PTok KwOption, PIdent, PTok Arrow, PIdent, PTok Comma], MapOrDefault),
     ([PTok KwOption, PIdent, PTok Arrow, PTok KwOption, PIdent, PTok Comma], MapInto),
     ([PTok KwList, PIdent, PTok Arrow, PTok KwList, PIdent, PTok Comma], IntoCollect)]"

text \<open>The first arm that fits, with the initialiser it emits and the remaining tokens.\<close>

fun first_arm :: "(pattern list \<times> conversion) list \<Rightarrow> token list \<Rightarrow> (initialiser \<times> token list) option" where
    "first_arm [] ts = None"
  | "first_arm ((ps, k) # arms) ts =
       (case match_pattern ps ts of
          Some ([a, b], rest) \<Rightarrow> Some (\<lparr>target = b, conv = k, source = a\<rparr>, rest)
        | _ \<Rightarrow> first_arm arms ts)"

text \<open>
  The arm for a field given once, \<^verbatim>\<open>$($a:ident)+ ,\<close>: it is written on both sides of an arrow and munched
  again.
\<close>

definition leading_idents :: "token list \<Rightarrow> token list" where
  "leading_idents ts = takeWhile (\<lambda>t. ident_of t \<noteq> None) ts"

definition bare_arm :: "token list \<Rightarrow> token list option" where
  "bare_arm ts =
     (let ids = leading_idents ts in
      case drop (length ids) ts of
        Comma # rest \<Rightarrow> if ids = [] then None else Some (ids @ Arrow # ids @ Comma # rest)
      | _ \<Rightarrow> None)"

section \<open>Expansion\<close>

text \<open>The expansion always ends: an arm consumes a comma, and a bare field is rewritten at most once.\<close>

definition commas :: "token list \<Rightarrow> nat" where
  "commas ts = length (filter (\<lambda>t. t = Comma) ts)"

definition bare :: "token list \<Rightarrow> bool" where
  "bare ts \<longleftrightarrow> bare_arm ts \<noteq> None"

lemma commas_simps [simp]:
  "commas [] = 0"
  "commas (t # ts) = (if t = Comma then Suc (commas ts) else commas ts)"
  "commas (ts @ us) = commas ts + commas us"
  by (simp_all add: commas_def)

lemma match_pattern_commas:
  "match_pattern ps ts = Some (xs, rest) \<Longrightarrow>
     commas ts = length (filter (\<lambda>p. p = PTok Comma) ps) + commas rest"
proof (induction ps ts arbitrary: xs rest rule: match_pattern.induct)
  case (4 ps u us)
  then show ?case by (cases u) (auto split: option.splits prod.splits)
qed (auto split: if_splits)

lemma first_arm_match:
  assumes "first_arm arms ts = Some (i, rest)"
  shows "\<exists>ps k xs. (ps, k) \<in> set arms \<and> match_pattern ps ts = Some (xs, rest)"
  using assms
proof (induction arms)
  case (Cons arm arms)
  obtain ps k where arm: "arm = (ps, k)" by (cases arm)
  show ?case
  proof (cases "\<exists>a b rest'. match_pattern ps ts = Some ([a, b], rest')")
    case True
    then obtain a b rest' where m: "match_pattern ps ts = Some ([a, b], rest')" by blast
    with Cons.prems have "rest = rest'" by (simp add: arm)
    with m show ?thesis by (auto simp: arm)
  next
    case False
    have "first_arm (arm # arms) ts = first_arm arms ts"
    proof (cases "match_pattern ps ts")
      case (Some p)
      obtain xs r where p: "p = (xs, r)" by (cases p)
      show ?thesis using False by (auto simp: arm Some p split: list.split)
    qed (simp add: arm)
    with Cons show ?thesis by auto
  qed
qed simp

lemma arm_commas: "first_arm struct_arms ts = Some (i, rest) \<Longrightarrow> commas ts = Suc (commas rest)"
  by (drule first_arm_match) (auto simp: struct_arms_def dest!: match_pattern_commas)

lemma idents_no_comma [simp]: "commas (leading_idents ts) = 0"
proof -
  have "t \<noteq> Comma" if "t \<in> set (leading_idents ts)" for t
    using that by (auto simp: leading_idents_def dest: set_takeWhileD)
  then show ?thesis by (auto simp: commas_def filter_empty_conv)
qed

lemma leading_idents_append:
  "list_all (\<lambda>t. ident_of t \<noteq> None) ids \<Longrightarrow> ident_of t = None \<Longrightarrow> leading_idents (ids @ t # ts) = ids"
  by (induction ids) (auto simp: leading_idents_def)

lemma leading_idents_all: "list_all (\<lambda>t. ident_of t \<noteq> None) (leading_idents ts)"
  by (auto simp: leading_idents_def list_all_iff dest: set_takeWhileD)

lemma bare_arm_Some_iff:
  "bare_arm ts = Some us \<longleftrightarrow> (\<exists>ids rest. ids \<noteq> [] \<and> list_all (\<lambda>t. ident_of t \<noteq> None) ids
     \<and> ts = ids @ Comma # rest \<and> us = ids @ Arrow # ids @ Comma # rest)" (is "?l \<longleftrightarrow> ?r")
proof
  assume ?l
  then obtain rest where rest: "drop (length (leading_idents ts)) ts = Comma # rest" "leading_idents ts \<noteq> []"
    "us = leading_idents ts @ Arrow # leading_idents ts @ Comma # rest"
    by (auto simp: bare_arm_def Let_def split: list.splits token.splits if_splits)
  have "ts = leading_idents ts @ drop (length (leading_idents ts)) ts"
    by (simp add: leading_idents_def dropWhile_eq_drop [symmetric])
  with rest leading_idents_all [of ts] show ?r by (metis (no_types, lifting))
next
  assume ?r
  then show ?l by (auto simp: bare_arm_def leading_idents_append)
qed

lemma bare_arm_commas: "bare_arm ts = Some us \<Longrightarrow> commas us = commas ts \<and> \<not> bare us"
proof -
  assume "bare_arm ts = Some us"
  then obtain ids rest where ids: "ids \<noteq> []" "list_all (\<lambda>t. ident_of t \<noteq> None) ids" "ts = ids @ Comma # rest"
    and us: "us = ids @ Arrow # ids @ Comma # rest"
    by (auto simp: bare_arm_Some_iff)
  have "leading_idents ts = ids" using ids by (simp add: leading_idents_append)
  then have "commas ids = 0" using idents_no_comma [of ts] by simp
  moreover have "leading_idents us = ids" using ids us by (simp add: leading_idents_append)
  ultimately show ?thesis using ids us by (simp add: bare_def bare_arm_def)
qed

text \<open>One recursive invocation of the macro: an arm emits an initialiser, or a bare field is doubled.\<close>

definition munch :: "initialiser list \<times> token list \<Rightarrow> (initialiser list \<times> token list) option" where
  "munch st = (case st of (body, ts) \<Rightarrow>
     (case first_arm struct_arms ts of
        Some (i, rest) \<Rightarrow> Some (body @ [i], rest)
      | None \<Rightarrow> map_option (\<lambda>us. (body, us)) (bare_arm ts)))"

definition munch_order :: "((initialiser list \<times> token list) \<times> initialiser list \<times> token list) set" where
  "munch_order = measures [\<lambda>st. commas (snd st), \<lambda>st. if bare (snd st) then 1 else 0]"

lemma munch_cases:
  assumes "munch st = Some st'"
  shows "commas (snd st) = Suc (commas (snd st'))
    \<or> commas (snd st) = commas (snd st') \<and> bare (snd st) \<and> \<not> bare (snd st')"
proof (cases "first_arm struct_arms (snd st)")
  case None
  with assms obtain us where us: "bare_arm (snd st) = Some us" "snd st' = us"
    by (auto simp: munch_def split: prod.splits)
  then show ?thesis using bare_arm_commas [of "snd st" us] by (simp add: bare_def)
next
  case (Some p)
  then obtain i rest where "first_arm struct_arms (snd st) = Some (i, rest)" by (cases p) auto
  with assms show ?thesis
    using arm_commas [of "snd st" i rest] by (auto simp: munch_def split: prod.splits)
qed

lemma munch_decreases: "munch st = Some st' \<Longrightarrow> (st', st) \<in> munch_order"
  by (drule munch_cases) (auto simp: munch_order_def)

lemma wf_munch_order: "wf munch_order"
  by (simp add: munch_order_def)

function convert_struct :: "initialiser list \<times> token list \<Rightarrow> initialiser list option" where
  "convert_struct st =
     (if snd st = [] then Some (fst st)
      else case munch st of None \<Rightarrow> None | Some st' \<Rightarrow> convert_struct st')"
  by pat_completeness auto
termination by (relation munch_order) (auto intro: wf_munch_order munch_decreases)

text \<open>How many times the macro invokes itself.\<close>

function convert_depth :: "initialiser list \<times> token list \<Rightarrow> nat" where
  "convert_depth st =
     (if snd st = [] then 0
      else case munch st of None \<Rightarrow> 0 | Some st' \<Rightarrow> Suc (convert_depth st'))"
  by pat_completeness auto
termination by (relation munch_order) (auto intro: wf_munch_order munch_decreases)

declare convert_struct.simps [simp del] convert_depth.simps [simp del]

lemma bare_commas: "bare ts \<Longrightarrow> 0 < commas ts"
  by (auto simp: bare_def bare_arm_Some_iff)

lemma convert_depth_bound: "convert_depth st \<le> 2 * commas (snd st)"
proof -
  have "convert_depth st + (if bare (snd st) \<or> commas (snd st) = 0 then 0 else 1) \<le> 2 * commas (snd st)"
  proof (induction st rule: convert_depth.induct)
    case (1 st)
    show ?case
    proof (cases "snd st = [] \<or> munch st = None")
      case True
      then have "convert_depth st = 0" by (subst convert_depth.simps) auto
      then show ?thesis by auto
    next
      case False
      then obtain st' where st': "munch st = Some st'" by auto
      with False have d: "convert_depth st = Suc (convert_depth st')"
        by (subst convert_depth.simps) simp
      from False st' have "convert_depth st' + (if bare (snd st') \<or> commas (snd st') = 0 then 0 else 1)
          \<le> 2 * commas (snd st')"
        using 1 by blast
      with munch_cases [OF st'] bare_commas [of "snd st"] show ?thesis
        unfolding d by (auto split: if_splits)
    qed
  qed
  then show ?thesis by simp
qed

section \<open>Invocations\<close>

text \<open>
  A field of an invocation, with the modifier written before it. An invocation pairs the fields of the
  two structs, or names a field once for both.
\<close>

datatype side = Plain string | Enum string | Opt string | Many string

fun side_tokens :: "side \<Rightarrow> token list" where
    "side_tokens (Plain x) = [Ident x]"
  | "side_tokens (Enum x) = [KwEnum, Ident x]"
  | "side_tokens (Opt x) = [KwOption, Ident x]"
  | "side_tokens (Many x) = [KwList, Ident x]"

fun side_name :: "side \<Rightarrow> string" where
    "side_name (Plain x) = x"
  | "side_name (Enum x) = x"
  | "side_name (Opt x) = x"
  | "side_name (Many x) = x"

type_synonym convert_row = "side \<times> side option"

definition left :: "convert_row \<Rightarrow> side" where
  "left r = fst r"

definition right :: "convert_row \<Rightarrow> side" where
  "right r = (case snd r of None \<Rightarrow> fst r | Some s \<Rightarrow> s)"

text \<open>The entry point starts one expansion in each direction.\<close>

definition forward_tokens :: "convert_row list \<Rightarrow> token list" where
  "forward_tokens rows = concat (map (\<lambda>(a, b).
     side_tokens a @ (case b of None \<Rightarrow> [] | Some b' \<Rightarrow> Arrow # side_tokens b') @ [Comma]) rows)"

definition backward_tokens :: "convert_row list \<Rightarrow> token list" where
  "backward_tokens rows = concat (map (\<lambda>(a, b).
     (case b of None \<Rightarrow> [] | Some b' \<Rightarrow> side_tokens b' @ [Arrow]) @ side_tokens a @ [Comma]) rows)"

definition impl_convert :: "convert_row list \<Rightarrow> initialiser list option \<times> initialiser list option" where
  "impl_convert rows =
     (convert_struct ([], forward_tokens rows), convert_struct ([], backward_tokens rows))"

text \<open>Which pairs of modifiers have an arm, and what it emits.\<close>

fun pair_init :: "side \<times> side \<Rightarrow> initialiser option" where
    "pair_init (Plain a, Plain b) = Some \<lparr>target = b, conv = Into, source = a\<rparr>"
  | "pair_init (Plain a, Enum b) = Some \<lparr>target = b, conv = AsI32, source = a\<rparr>"
  | "pair_init (Enum a, Plain b) = Some \<lparr>target = b, conv = Into, source = a\<rparr>"
  | "pair_init (Plain a, Opt b) = Some \<lparr>target = b, conv = SomeInto, source = a\<rparr>"
  | "pair_init (Opt a, Plain b) = Some \<lparr>target = b, conv = MapOrDefault, source = a\<rparr>"
  | "pair_init (Opt a, Opt b) = Some \<lparr>target = b, conv = MapInto, source = a\<rparr>"
  | "pair_init (Many a, Many b) = Some \<lparr>target = b, conv = IntoCollect, source = a\<rparr>"
  | "pair_init _ = None"

lemma first_arm_pair:
  "first_arm struct_arms (side_tokens s @ Arrow # side_tokens t @ Comma # rest) =
     map_option (\<lambda>i. (i, rest)) (pair_init (s, t))"
  by (cases s; cases t) (simp_all add: struct_arms_def)

lemma side_tokens_idents: "side_tokens s \<noteq> []" "list_all (\<lambda>t. ident_of t \<noteq> None) (side_tokens s)"
  by (cases s; simp)+

lemma first_arm_bare: "first_arm struct_arms (side_tokens s @ Comma # rest) = None"
  by (cases s) (auto simp: struct_arms_def split: list.split token.split option.split)

lemma bare_arm_side: "bare_arm (side_tokens s @ Comma # rest) = Some (side_tokens s @ Arrow # side_tokens s @ Comma # rest)"
  using side_tokens_idents [of s] by (auto simp: bare_arm_Some_iff)

lemma bare_arm_arrow: "bare_arm (side_tokens s @ Arrow # ts) = None"
proof -
  have "leading_idents (side_tokens s @ Arrow # ts) = side_tokens s"
    using side_tokens_idents [of s] by (simp add: leading_idents_append)
  then show ?thesis by (simp add: bare_arm_def)
qed

lemma convert_pair:
  "convert_struct (body, side_tokens s @ Arrow # side_tokens t @ Comma # rest) =
     (case pair_init (s, t) of None \<Rightarrow> None | Some i \<Rightarrow> convert_struct (body @ [i], rest))"
  using side_tokens_idents [of s]
  by (subst convert_struct.simps)
    (simp add: munch_def first_arm_pair bare_arm_arrow split: option.split)

lemma convert_bare:
  "convert_struct (body, side_tokens s @ Comma # rest) =
     convert_struct (body, side_tokens s @ Arrow # side_tokens s @ Comma # rest)"
  using side_tokens_idents [of s]
  by (subst convert_struct.simps) (simp add: munch_def first_arm_bare bare_arm_side)

text \<open>The expansion is the list of initialisers of the pairs, in order, or an error.\<close>

lemma convert_forward:
  "convert_struct (body, forward_tokens rows) =
     map_option ((@) body) (those (map (\<lambda>r. pair_init (left r, right r)) rows))"
proof (induction rows arbitrary: body)
  case Nil
  show ?case by (simp add: forward_tokens_def convert_struct.simps)
next
  case (Cons r rows)
  obtain a b where r: "r = (a, b)" by (cases r)
  have "convert_struct (body, forward_tokens (r # rows)) =
      convert_struct (body, side_tokens (left r) @ Arrow # side_tokens (right r) @ Comma # forward_tokens rows)"
    by (cases b) (simp_all add: r forward_tokens_def left_def right_def convert_bare)
  then show ?case by (simp add: convert_pair Cons.IH option.map_comp o_def split: option.split)
qed

lemma convert_backward:
  "convert_struct (body, backward_tokens rows) =
     map_option ((@) body) (those (map (\<lambda>r. pair_init (right r, left r)) rows))"
proof (induction rows arbitrary: body)
  case Nil
  show ?case by (simp add: backward_tokens_def convert_struct.simps)
next
  case (Cons r rows)
  obtain a b where r: "r = (a, b)" by (cases r)
  have "convert_struct (body, backward_tokens (r # rows)) =
      convert_struct (body, side_tokens (right r) @ Arrow # side_tokens (left r) @ Comma # backward_tokens rows)"
    by (cases b) (simp_all add: r backward_tokens_def left_def right_def convert_bare)
  then show ?case by (simp add: convert_pair Cons.IH option.map_comp o_def split: option.split)
qed

lemma commas_side [simp]: "commas (side_tokens s) = 0"
  by (cases s) simp_all

lemma commas_rows: "commas (forward_tokens rows) = length rows" "commas (backward_tokens rows) = length rows"
  by (induction rows) (auto simp: forward_tokens_def backward_tokens_def split: option.split)

section \<open>What the generated conversions compute\<close>

text \<open>
  The value of a field is one value, a number (a message's enumeration), an optional value or a vector. A
  struct is its list of fields. The \<^verbatim>\<open>Into\<close> and \<^verbatim>\<open>Default\<close> implementations that type inference chooses for
  a field are functions of the field that is read.
\<close>

datatype 'v cell = One 'v | Num i32 | Maybe "'v option" | Vec "'v list"

record ('v, 'w) impls =
  impl_into :: "string \<Rightarrow> 'v \<Rightarrow> 'w"
  impl_as_i32 :: "string \<Rightarrow> 'v \<Rightarrow> i32"
  impl_of_i32 :: "string \<Rightarrow> i32 \<Rightarrow> 'w"
  impl_default :: "string \<Rightarrow> 'w"

text \<open>\<open>None\<close> is an initialiser that does not type check.\<close>

fun eval_conversion :: "('v, 'w) impls \<Rightarrow> string \<Rightarrow> conversion \<Rightarrow> 'v cell \<Rightarrow> 'w cell option" where
    "eval_conversion I a Into (One v) = Some (One (impl_into I a v))"
  | "eval_conversion I a Into (Num i) = Some (One (impl_of_i32 I a i))"
  | "eval_conversion I a AsI32 (One v) = Some (Num (impl_as_i32 I a v))"
  | "eval_conversion I a SomeInto (One v) = Some (Maybe (Some (impl_into I a v)))"
  | "eval_conversion I a MapOrDefault (Maybe x) = Some (One (map_or_default (impl_default I a) (impl_into I a) x))"
  | "eval_conversion I a MapInto (Maybe x) = Some (Maybe (map_option (impl_into I a) x))"
  | "eval_conversion I a IntoCollect (Vec xs) = Some (Vec (into_collect (impl_into I a) xs))"
  | "eval_conversion I a _ _ = None"

type_synonym 'v struct = "(string \<times> 'v cell) list"

definition eval_initialiser :: "('v, 'w) impls \<Rightarrow> 'v struct \<Rightarrow> initialiser \<Rightarrow> (string \<times> 'w cell) option" where
  "eval_initialiser I v i = (case map_of v (source i) of
       None \<Rightarrow> None
     | Some c \<Rightarrow> map_option (Pair (target i)) (eval_conversion I (source i) (conv i) c))"

definition from_struct :: "('v, 'w) impls \<Rightarrow> initialiser list \<Rightarrow> 'v struct \<Rightarrow> 'w struct option" where
  "from_struct I is v = those (map (eval_initialiser I v) is)"

text \<open>The shape of the cell that a side of an invocation reads.\<close>

fun cell_fits :: "side \<Rightarrow> 'v cell \<Rightarrow> bool" where
    "cell_fits (Plain x) (One v) = True"
  | "cell_fits (Enum x) (Num i) = True"
  | "cell_fits (Opt x) (Maybe v) = True"
  | "cell_fits (Many x) (Vec vs) = True"
  | "cell_fits _ _ = False"

definition struct_fits :: "side list \<Rightarrow> 'v struct \<Rightarrow> bool" where
  "struct_fits ss v \<longleftrightarrow> list_all2 (\<lambda>s (x, c). x = side_name s \<and> cell_fits s c) ss v"

text \<open>
  The pairs that lose nothing on the way to the message: the object's side is never a number, and an
  optional field stays optional.
\<close>

fun keeps :: "convert_row \<Rightarrow> bool" where
    "keeps (a, None) = (case a of Enum _ \<Rightarrow> False | _ \<Rightarrow> True)"
  | "keeps (Plain _, Some (Plain _)) = True"
  | "keeps (Plain _, Some (Enum _)) = True"
  | "keeps (Plain _, Some (Opt _)) = True"
  | "keeps (Opt _, Some (Opt _)) = True"
  | "keeps (Many _, Some (Many _)) = True"
  | "keeps _ = False"

text \<open>
  The values that the declared type of a field allows: \<open>T x\<close> for the field \<open>x\<close>. A cell conforms when the values in it do.
\<close>

type_synonym 'v typing = "string \<Rightarrow> 'v \<Rightarrow> bool"

fun cell_conforms :: "('v \<Rightarrow> bool) \<Rightarrow> 'v cell \<Rightarrow> bool" where
    "cell_conforms P (One v) = P v"
  | "cell_conforms P (Num i) = True"
  | "cell_conforms P (Maybe x) = pred_option P x"
  | "cell_conforms P (Vec vs) = list_all P vs"

definition struct_conforms :: "'v typing \<Rightarrow> 'v struct \<Rightarrow> bool" where
  "struct_conforms T v \<longleftrightarrow> list_all (\<lambda>(x, c). cell_conforms (T x) c) v"

text \<open>
  The implementations that the initialisers of a field use are inverse, on the values of its type: \<^verbatim>\<open>as i32\<close> and the
  conversion from \<^verbatim>\<open>i32\<close> where the message has an enumeration, the two \<^verbatim>\<open>into\<close> otherwise.
\<close>

definition inverse_impls :: "'v typing \<Rightarrow> ('v, 'w) impls \<Rightarrow> ('w, 'v) impls \<Rightarrow> convert_row \<Rightarrow> bool" where
  "inverse_impls T F G r \<longleftrightarrow>
     (\<forall>v. T (side_name (left r)) v \<longrightarrow> (case right r of
        Enum y \<Rightarrow> impl_of_i32 G y (impl_as_i32 F (side_name (left r)) v) = v
      | _ \<Rightarrow> impl_into G (side_name (right r)) (impl_into F (side_name (left r)) v) = v))"

lemma pair_init_names:
  "pair_init (s, t) = Some i \<Longrightarrow> target i = side_name t \<and> source i = side_name s"
  by (cases s; cases t) auto

lemma keeps_pair_init:
  assumes "keeps r"
  obtains i j where "pair_init (left r, right r) = Some i" "pair_init (right r, left r) = Some j"
proof -
  obtain a b where r: "r = (a, b)" by (cases r)
  have "pair_init (left r, right r) \<noteq> None \<and> pair_init (right r, left r) \<noteq> None"
    using assms unfolding r left_def right_def by (cases b; cases a; cases "the b") auto
  then show thesis using that by auto
qed

text \<open>An invocation whose pairs all have an arm expands, and initialises the fields it names.\<close>

lemma those_pair_init_names:
  "those (map (\<lambda>r. pair_init (f r, g r)) rows) = Some is \<Longrightarrow>
     map source is = map (side_name \<circ> f) rows \<and> map target is = map (side_name \<circ> g) rows"
proof (induction rows arbitrary: "is")
  case (Cons r rows)
  then show ?case by (auto split: option.splits dest: pair_init_names)
qed simp

lemma impl_convert_fields:
  assumes "impl_convert rows = (Some is, Some js)"
  shows "map source is = map (side_name \<circ> left) rows \<and> map target is = map (side_name \<circ> right) rows"
    and "map source js = map (side_name \<circ> right) rows \<and> map target js = map (side_name \<circ> left) rows"
  using assms
  by (auto simp: impl_convert_def convert_forward convert_backward dest: those_pair_init_names)

lemma those_all_Some: "list_all (\<lambda>x. f x \<noteq> None) xs \<Longrightarrow> those (map f xs) \<noteq> None"
  by (induction xs) auto

lemma impl_convert_expands:
  assumes "list_all keeps rows"
  shows "\<exists>is js. impl_convert rows = (Some is, Some js)"
proof -
  have "list_all (\<lambda>r. pair_init (left r, right r) \<noteq> None) rows" "list_all (\<lambda>r. pair_init (right r, left r) \<noteq> None) rows"
    using assms by (auto simp: list_all_iff elim: keeps_pair_init)
  from this [THEN those_all_Some] show ?thesis
    by (auto simp: impl_convert_def convert_forward convert_backward)
qed

text \<open>One field, there and back.\<close>

lemma option_kept: "(\<And>v. P v \<Longrightarrow> g (f v) = v) \<Longrightarrow> pred_option P x \<Longrightarrow> map_option (\<lambda>v. g (f v)) x = x"
  by (cases x) simp_all

lemma list_kept: "(\<And>v. P v \<Longrightarrow> g (f v) = v) \<Longrightarrow> list_all P vs \<Longrightarrow> map (\<lambda>v. g (f v)) vs = vs"
  by (induction vs) simp_all

lemma into_roundtrip:
  assumes "keeps r" and "\<forall>y. right r \<noteq> Enum y"
    and inv: "\<And>v. P v \<Longrightarrow> impl_into G (side_name (right r)) (impl_into F (side_name (left r)) v) = v"
    and "cell_fits (left r) c" and "cell_conforms P c"
    and "pair_init (left r, right r) = Some i" and "pair_init (right r, left r) = Some j"
  shows "\<exists>c'. eval_conversion F (source i) (conv i) c = Some c' \<and> cell_fits (right r) c'
    \<and> eval_conversion G (source j) (conv j) c' = Some c"
proof -
  obtain a b where r: "r = (a, b)" by (cases r)
  have opt: "map_option (\<lambda>v. impl_into G (side_name (right r)) (impl_into F (side_name (left r)) v)) x = x"
    if "pred_option P x" for x
    using inv that by (rule option_kept)
  have vec: "map (\<lambda>v. impl_into G (side_name (right r)) (impl_into F (side_name (left r)) v)) vs = vs"
    if "list_all P vs" for vs
    using inv that by (rule list_kept)
  show ?thesis
    using assms(1,2,4-7) inv opt vec unfolding r left_def right_def
    by (cases "(a, b)" rule: keeps.cases; cases c)
      (auto simp: option.map_comp into_collect_def o_def split: side.splits)
qed

lemma field_roundtrip:
  assumes "keeps r" and "inverse_impls T F G r" and "cell_fits (left r) c"
    and "cell_conforms (T (side_name (left r))) c"
    and "pair_init (left r, right r) = Some i" and "pair_init (right r, left r) = Some j"
  shows "\<exists>c'. eval_conversion F (source i) (conv i) c = Some c' \<and> cell_fits (right r) c'
    \<and> eval_conversion G (source j) (conv j) c' = Some c"
proof (cases "\<exists>y. right r = Enum y")
  case True
  then obtain y where "right r = Enum y" by blast
  with assms(1) obtain x where x: "r = (Plain x, Some (Enum y))"
    by (cases r rule: keeps.cases) (auto simp: right_def split: side.splits)
  with assms(3) obtain v where "c = One v" by (cases c) (auto simp: left_def)
  with assms x show ?thesis by (auto simp: left_def right_def inverse_impls_def)
next
  case False
  have inv: "T (side_name (left r)) v \<Longrightarrow> impl_into G (side_name (right r)) (impl_into F (side_name (left r)) v) = v" for v
    using assms(2) False by (cases "right r") (simp_all add: inverse_impls_def)
  show ?thesis using False by (intro into_roundtrip [OF assms(1) _ inv assms(3-6)]) simp_all
qed

text \<open>A struct and a message that the two expansions turn into each other, field by field.\<close>

fun linked :: "('v, 'w) impls \<Rightarrow> ('w, 'v) impls \<Rightarrow> convert_row list \<Rightarrow> 'v struct \<Rightarrow> 'w struct \<Rightarrow> bool" where
    "linked F G [] [] [] = True"
  | "linked F G (r # rows) ((x, c) # v) ((y, c') # w) =
       ((\<exists>i j. pair_init (left r, right r) = Some i \<and> pair_init (right r, left r) = Some j
          \<and> source i = x \<and> target i = y \<and> source j = y \<and> target j = x
          \<and> eval_conversion F x (conv i) c = Some c' \<and> eval_conversion G y (conv j) c' = Some c)
        \<and> linked F G rows v w)"
  | "linked F G _ _ _ = False"

lemma ex_linked:
  assumes "struct_fits (map left rows) v" and "list_all keeps rows" and "list_all (inverse_impls T F G) rows"
    and "struct_conforms T v"
  shows "\<exists>w. linked F G rows v w \<and> struct_fits (map right rows) w"
  using assms
proof (induction rows arbitrary: v)
  case Nil
  then have "linked F G [] v [] \<and> struct_fits (map right []) ([] :: 'w struct)" for F G
    by (simp add: struct_fits_def)
  then show ?case by blast
next
  case (Cons r rows)
  then obtain x c v' where v: "v = (x, c) # v'" "x = side_name (left r)" "cell_fits (left r) c"
    "struct_fits (map left rows) v'" "cell_conforms (T (side_name (left r))) c" "struct_conforms T v'"
    by (auto simp: struct_fits_def struct_conforms_def list_all2_Cons1)
  with Cons obtain w where w: "linked F G rows v' w" "struct_fits (map right rows) w" by auto
  from Cons.prems(2) obtain i j where ij: "pair_init (left r, right r) = Some i" "pair_init (right r, left r) = Some j"
    by (auto elim: keeps_pair_init)
  have "keeps r" "inverse_impls T F G r" using Cons.prems by simp_all
  from field_roundtrip [OF this v(3,5) ij] obtain c' where
    c': "eval_conversion F (source i) (conv i) c = Some c'" "cell_fits (right r) c'"
      "eval_conversion G (source j) (conv j) c' = Some c"
    by blast
  have "linked F G (r # rows) v ((side_name (right r), c') # w)"
    using v ij c' w pair_init_names [OF ij(1)] pair_init_names [OF ij(2)] by auto
  moreover have "struct_fits (map right (r # rows)) ((side_name (right r), c') # w)"
    using c' w by (simp add: struct_fits_def)
  ultimately show ?case by blast
qed

lemma linked_forward:
  "linked F G rows v w \<Longrightarrow> (\<And>x c. (x, c) \<in> set v \<Longrightarrow> map_of V x = Some c) \<Longrightarrow>
     \<exists>is. those (map (\<lambda>r. pair_init (left r, right r)) rows) = Some is \<and> from_struct F is V = Some w"
  by (induction F G rows v w rule: linked.induct) (fastforce simp: from_struct_def eval_initialiser_def)+

lemma linked_backward:
  "linked F G rows v w \<Longrightarrow> (\<And>y c. (y, c) \<in> set w \<Longrightarrow> map_of W y = Some c) \<Longrightarrow>
     \<exists>is. those (map (\<lambda>r. pair_init (right r, left r)) rows) = Some is \<and> from_struct G is W = Some v"
  by (induction F G rows v w rule: linked.induct) (fastforce simp: from_struct_def eval_initialiser_def)+

lemma struct_fits_keys: "struct_fits ss v \<Longrightarrow> map fst v = map side_name ss"
  by (induction ss arbitrary: v) (auto simp: struct_fits_def list_all2_Cons1)

lemma struct_lookup:
  assumes "struct_fits ss v" and "distinct (map side_name ss)" and "(x, c) \<in> set v"
  shows "map_of v x = Some c"
  using assms by (metis map_of_is_SomeI struct_fits_keys)

text \<open>The two conversions that an invocation generates are inverse to each other.\<close>

lemma impl_convert_roundtrip:
  assumes "list_all keeps rows" and "list_all (inverse_impls T F G) rows"
    and "distinct (map (side_name \<circ> left) rows)" and "distinct (map (side_name \<circ> right) rows)"
    and "struct_fits (map left rows) v" and "struct_conforms T v"
  shows "\<exists>is js w. impl_convert rows = (Some is, Some js) \<and> from_struct F is v = Some w
    \<and> struct_fits (map right rows) w \<and> from_struct G js w = Some v"
proof -
  from ex_linked [OF assms(5,1,2,6)] obtain w where w: "linked F G rows v w" "struct_fits (map right rows) w"
    by blast
  have "map_of v x = Some c" if "(x, c) \<in> set v" for x c
    using struct_lookup [OF assms(5) _ that] assms(3) by simp
  with linked_forward [OF w(1)] obtain inits where
    inits: "those (map (\<lambda>r. pair_init (left r, right r)) rows) = Some inits" "from_struct F inits v = Some w"
    by blast
  have "map_of w y = Some c" if "(y, c) \<in> set w" for y c
    using struct_lookup [OF w(2) _ that] assms(4) by simp
  with linked_backward [OF w(1)] obtain js where
    js: "those (map (\<lambda>r. pair_init (right r, left r)) rows) = Some js" "from_struct G js w = Some v"
    by blast
  have "impl_convert rows = (Some inits, Some js)"
    by (simp add: impl_convert_def convert_forward convert_backward inits js)
  with inits js w show ?thesis by blast
qed

end
