(* ===== verification/Convert_Uses.thy ===== *)
theory Convert_Uses
  imports Convert_Macro
begin

text \<open>
  Every invocation of \<^verbatim>\<open>impl_convert!\<close> in \<^verbatim>\<open>objects\<close>, as the rows that are written in the source: a field of the
  struct with its modifier, and the field of the message where it differs. The theorem at the end checks all
  of them against the macro.
\<close>

definition rows_agent_create_results_RequestItem :: "convert_row list" where
  "rows_agent_create_results_RequestItem = [(Plain ''name'', None), (Plain ''data'', None)]"

definition rows_agent_create_results_Request :: "convert_row list" where
  "rows_agent_create_results_Request = [
     (Plain ''communication_token'', None),
     (Many ''results'', None),
     (Plain ''session_id'', None)]"

definition rows_agent_create_results_Response :: "convert_row list" where
  "rows_agent_create_results_Response = [(Plain ''communication_token'', None), (Many ''results'', None)]"

definition rows_agent_create_results_metadata_RequestItem :: "convert_row list" where
  "rows_agent_create_results_metadata_RequestItem = [(Plain ''name'', None)]"

definition rows_agent_create_results_metadata_Request :: "convert_row list" where
  "rows_agent_create_results_metadata_Request = [
     (Plain ''communication_token'', None),
     (Many ''results'', None),
     (Plain ''session_id'', None)]"

definition rows_agent_create_results_metadata_Response :: "convert_row list" where
  "rows_agent_create_results_metadata_Response = [(Plain ''communication_token'', None), (Many ''results'', None)]"

definition rows_agent_create_tasks_InitRequest :: "convert_row list" where
  "rows_agent_create_tasks_InitRequest = [(Opt ''task_options'', None)]"

definition rows_agent_get_common_data_Request :: "convert_row list" where
  "rows_agent_get_common_data_Request = [(Plain ''communication_token'', None), (Plain ''result_id'', None)]"

definition rows_agent_get_common_data_Response :: "convert_row list" where
  "rows_agent_get_common_data_Response = [(Plain ''result_id'', None)]"

definition rows_agent_get_direct_data_Request :: "convert_row list" where
  "rows_agent_get_direct_data_Request = [(Plain ''communication_token'', None), (Plain ''result_id'', None)]"

definition rows_agent_get_direct_data_Response :: "convert_row list" where
  "rows_agent_get_direct_data_Response = [(Plain ''result_id'', None)]"

definition rows_agent_get_resource_data_Request :: "convert_row list" where
  "rows_agent_get_resource_data_Request = [(Plain ''communication_token'', None), (Plain ''result_id'', None)]"

definition rows_agent_get_resource_data_Response :: "convert_row list" where
  "rows_agent_get_resource_data_Response = [(Plain ''result_id'', None)]"

definition rows_agent_notify_result_data_Response :: "convert_row list" where
  "rows_agent_notify_result_data_Response = [(Many ''result_ids'', None)]"

definition rows_agent_result_metadata_ResultMetaData :: "convert_row list" where
  "rows_agent_result_metadata_ResultMetaData = [
     (Plain ''session_id'', None),
     (Plain ''result_id'', None),
     (Plain ''name'', None),
     (Plain ''status'', Some (Enum ''status'')),
     (Opt ''created_at'', None)]"

definition rows_agent_submit_tasks_RequestItem :: "convert_row list" where
  "rows_agent_submit_tasks_RequestItem = [
     (Plain ''expected_output_keys'', None),
     (Plain ''data_dependencies'', None),
     (Plain ''payload_id'', None),
     (Opt ''task_options'', None)]"

definition rows_agent_submit_tasks_Request :: "convert_row list" where
  "rows_agent_submit_tasks_Request = [
     (Plain ''communication_token'', None),
     (Plain ''session_id'', None),
     (Opt ''task_options'', None),
     (Many ''items'', Some (Many ''task_creations''))]"

definition rows_agent_submit_tasks_ResponseItem :: "convert_row list" where
  "rows_agent_submit_tasks_ResponseItem = [
     (Plain ''task_id'', None),
     (Plain ''expected_output_ids'', None),
     (Plain ''data_dependencies'', None),
     (Plain ''payload_id'', None)]"

definition rows_agent_submit_tasks_Response :: "convert_row list" where
  "rows_agent_submit_tasks_Response = [(Plain ''communication_token'', None), (Many ''items'', Some (Many ''task_infos''))]"

definition rows_applications_list_Request :: "convert_row list" where
  "rows_applications_list_Request = [
     (Plain ''page'', None),
     (Plain ''page_size'', None),
     (Plain ''filters'', Some (Opt ''filters'')),
     (Plain ''sort'', Some (Opt ''sort''))]"

definition rows_applications_list_Response :: "convert_row list" where
  "rows_applications_list_Response = [
     (Many ''applications'', None),
     (Plain ''page'', None),
     (Plain ''page_size'', None),
     (Plain ''total'', None)]"

definition rows_applications_Sort :: "convert_row list" where
  "rows_applications_Sort = [(Plain ''direction'', Some (Enum ''direction'')), (Many ''fields'', None)]"

definition rows_applications_raw_Raw :: "convert_row list" where
  "rows_applications_raw_Raw = [
     (Plain ''name'', None),
     (Plain ''version'', None),
     (Plain ''namespace'', None),
     (Plain ''service'', None)]"

definition rows_auth_current_user_Request :: "convert_row list" where
  "rows_auth_current_user_Request = []"

definition rows_auth_current_user_Response :: "convert_row list" where
  "rows_auth_current_user_Response = [(Plain ''user'', Some (Opt ''user''))]"

definition rows_auth_user_User :: "convert_row list" where
  "rows_auth_user_User = [
     (Plain ''username'', None),
     (Many ''roles'', None),
     (Many ''permissions'', None)]"

definition rows_Configuration :: "convert_row list" where
  "rows_Configuration = [(Plain ''data_chunk_max_size'', None)]"

definition rows_Error :: "convert_row list" where
  "rows_Error = [(Plain ''task_status'', Some (Enum ''task_status'')), (Plain ''details'', Some (Plain ''detail''))]"

definition rows_events_new_result_NewResult :: "convert_row list" where
  "rows_events_new_result_NewResult = [
     (Plain ''result_id'', None),
     (Plain ''owner_id'', None),
     (Plain ''status'', Some (Enum ''status''))]"

definition rows_events_new_task_NewTask :: "convert_row list" where
  "rows_events_new_task_NewTask = [
     (Plain ''task_id'', None),
     (Plain ''payload_id'', None),
     (Plain ''origin_task_id'', None),
     (Plain ''status'', Some (Enum ''status'')),
     (Plain ''expected_output_keys'', None),
     (Plain ''data_dependencies'', None),
     (Plain ''retry_of_ids'', None),
     (Plain ''parent_task_ids'', None)]"

definition rows_events_result_owner_update_ResultOwnerUpdate :: "convert_row list" where
  "rows_events_result_owner_update_ResultOwnerUpdate = [
     (Plain ''result_id'', None),
     (Plain ''previous_owner_id'', None),
     (Plain ''current_owner_id'', None)]"

definition rows_events_result_status_update_ResultStatusUpdate :: "convert_row list" where
  "rows_events_result_status_update_ResultStatusUpdate = [(Plain ''result_id'', None), (Plain ''status'', Some (Enum ''status''))]"

definition rows_events_subscribe_Response :: "convert_row list" where
  "rows_events_subscribe_Response = [(Plain ''session_id'', None), (Plain ''update'', Some (Plain ''update''))]"

definition rows_events_task_status_update_TaskStatusUpdate :: "convert_row list" where
  "rows_events_task_status_update_TaskStatusUpdate = [(Plain ''task_id'', None), (Plain ''status'', Some (Enum ''status''))]"

definition rows_filters_Or :: "convert_row list" where
  "rows_filters_Or = [(Many ''or'', None)]"

definition rows_filters_And :: "convert_row list" where
  "rows_filters_And = [(Many ''and'', None)]"

definition rows_filters_Field :: "convert_row list" where
  "rows_filters_Field = [(Plain ''field'', Some (Opt ''field'')), (Plain ''condition'', Some (Opt ''value_condition''))]"

definition rows_health_checks_check_Request :: "convert_row list" where
  "rows_health_checks_check_Request = []"

definition rows_health_checks_check_Response :: "convert_row list" where
  "rows_health_checks_check_Response = [(Many ''services'', None)]"

definition rows_health_checks_service_health_ServiceHealth :: "convert_row list" where
  "rows_health_checks_service_health_ServiceHealth = [
     (Plain ''name'', None),
     (Plain ''message'', None),
     (Plain ''health'', Some (Enum ''healthy''))]"

definition rows_partitions_get_Request :: "convert_row list" where
  "rows_partitions_get_Request = [(Plain ''partition_id'', Some (Plain ''id''))]"

definition rows_partitions_get_Response :: "convert_row list" where
  "rows_partitions_get_Response = [(Plain ''partition'', Some (Opt ''partition''))]"

definition rows_partitions_list_Request :: "convert_row list" where
  "rows_partitions_list_Request = [
     (Plain ''page'', None),
     (Plain ''page_size'', None),
     (Plain ''filters'', Some (Opt ''filters'')),
     (Plain ''sort'', Some (Opt ''sort''))]"

definition rows_partitions_list_Response :: "convert_row list" where
  "rows_partitions_list_Response = [
     (Many ''partitions'', None),
     (Plain ''page'', None),
     (Plain ''page_size'', None),
     (Plain ''total'', None)]"

definition rows_partitions_Sort :: "convert_row list" where
  "rows_partitions_Sort = [(Plain ''field'', Some (Opt ''field'')), (Plain ''direction'', Some (Enum ''direction''))]"

definition rows_partitions_raw_Raw :: "convert_row list" where
  "rows_partitions_raw_Raw = [
     (Plain ''partition_id'', Some (Plain ''id'')),
     (Plain ''parent_partition_ids'', None),
     (Plain ''pod_reserved'', None),
     (Plain ''pod_max'', None),
     (Plain ''pod_configuration'', None),
     (Plain ''preemption_percentage'', None),
     (Plain ''priority'', None)]"

definition rows_ResultRequest :: "convert_row list" where
  "rows_ResultRequest = [(Plain ''session_id'', Some (Plain ''session'')), (Plain ''result_id'', None)]"

definition rows_results_create_RequestItem :: "convert_row list" where
  "rows_results_create_RequestItem = [
     (Plain ''name'', None),
     (Plain ''data'', None),
     (Plain ''manual_deletion'', None)]"

definition rows_results_create_Request :: "convert_row list" where
  "rows_results_create_Request = [(Many ''results'', Some (Many ''results'')), (Plain ''session_id'', None)]"

definition rows_results_create_Response :: "convert_row list" where
  "rows_results_create_Response = [(Many ''results'', None)]"

definition rows_results_create_metadata_RequestItem :: "convert_row list" where
  "rows_results_create_metadata_RequestItem = [(Plain ''name'', None), (Plain ''manual_deletion'', None)]"

definition rows_results_create_metadata_Request :: "convert_row list" where
  "rows_results_create_metadata_Request = [(Many ''results'', Some (Many ''results'')), (Plain ''session_id'', None)]"

definition rows_results_create_metadata_Response :: "convert_row list" where
  "rows_results_create_metadata_Response = [(Many ''results'', None)]"

definition rows_results_delete_data_Request :: "convert_row list" where
  "rows_results_delete_data_Request = [(Plain ''session_id'', None), (Plain ''result_ids'', Some (Plain ''result_id''))]"

definition rows_results_delete_data_Response :: "convert_row list" where
  "rows_results_delete_data_Response = [(Plain ''session_id'', None), (Plain ''result_ids'', Some (Plain ''result_id''))]"

definition rows_results_download_Request :: "convert_row list" where
  "rows_results_download_Request = [(Plain ''session_id'', None), (Plain ''result_id'', None)]"

definition rows_results_download_Response :: "convert_row list" where
  "rows_results_download_Response = [(Plain ''data_chunk'', None)]"

definition rows_results_filter_Status :: "convert_row list" where
  "rows_results_filter_Status = [(Plain ''value'', Some (Enum ''value'')), (Plain ''operator'', Some (Enum ''operator''))]"

definition rows_results_get_Request :: "convert_row list" where
  "rows_results_get_Request = [(Plain ''id'', Some (Plain ''result_id''))]"

definition rows_results_get_Response :: "convert_row list" where
  "rows_results_get_Response = [(Plain ''result'', Some (Opt ''result''))]"

definition rows_results_get_owner_task_id_Request :: "convert_row list" where
  "rows_results_get_owner_task_id_Request = [(Plain ''session_id'', None), (Many ''result_ids'', Some (Many ''result_id''))]"

definition rows_results_get_service_configuration_Request :: "convert_row list" where
  "rows_results_get_service_configuration_Request = []"

definition rows_results_get_service_configuration_Response :: "convert_row list" where
  "rows_results_get_service_configuration_Response = [(Plain ''data_chunk_max_size'', None)]"

definition rows_results_list_Request :: "convert_row list" where
  "rows_results_list_Request = [
     (Plain ''page'', None),
     (Plain ''page_size'', None),
     (Plain ''filters'', Some (Opt ''filters'')),
     (Plain ''sort'', Some (Opt ''sort''))]"

definition rows_results_list_Response :: "convert_row list" where
  "rows_results_list_Response = [
     (Many ''results'', None),
     (Plain ''page'', None),
     (Plain ''page_size'', None),
     (Plain ''total'', None)]"

definition rows_results_Sort :: "convert_row list" where
  "rows_results_Sort = [(Plain ''field'', Some (Opt ''field'')), (Plain ''direction'', Some (Enum ''direction''))]"

definition rows_results_raw_Raw :: "convert_row list" where
  "rows_results_raw_Raw = [
     (Plain ''session_id'', None),
     (Plain ''name'', None),
     (Plain ''owner_task_id'', None),
     (Plain ''status'', Some (Enum ''status'')),
     (Plain ''created_at'', None),
     (Plain ''completed_at'', None),
     (Plain ''result_id'', None),
     (Plain ''size'', None),
     (Plain ''created_by'', None),
     (Plain ''opaque_id'', None),
     (Plain ''manual_deletion'', None)]"

definition rows_results_upload_Response :: "convert_row list" where
  "rows_results_upload_Response = [(Plain ''result'', Some (Opt ''result''))]"

definition rows_Session :: "convert_row list" where
  "rows_Session = [(Plain ''session_id'', Some (Plain ''id''))]"

definition rows_sessions_cancel_Request :: "convert_row list" where
  "rows_sessions_cancel_Request = [(Plain ''session_id'', None)]"

definition rows_sessions_cancel_Response :: "convert_row list" where
  "rows_sessions_cancel_Response = [(Plain ''session'', Some (Opt ''session''))]"

definition rows_sessions_close_Request :: "convert_row list" where
  "rows_sessions_close_Request = [(Plain ''session_id'', None)]"

definition rows_sessions_close_Response :: "convert_row list" where
  "rows_sessions_close_Response = [(Plain ''session'', Some (Opt ''session''))]"

definition rows_sessions_create_Request :: "convert_row list" where
  "rows_sessions_create_Request = [(Plain ''default_task_options'', Some (Opt ''default_task_option'')), (Plain ''partition_ids'', None)]"

definition rows_sessions_create_Response :: "convert_row list" where
  "rows_sessions_create_Response = [(Plain ''session_id'', None)]"

definition rows_sessions_delete_Request :: "convert_row list" where
  "rows_sessions_delete_Request = [(Plain ''session_id'', None)]"

definition rows_sessions_delete_Response :: "convert_row list" where
  "rows_sessions_delete_Response = [(Plain ''session'', Some (Opt ''session''))]"

definition rows_sessions_filter_Status :: "convert_row list" where
  "rows_sessions_filter_Status = [(Plain ''value'', Some (Enum ''value'')), (Plain ''operator'', Some (Enum ''operator''))]"

definition rows_sessions_get_Request :: "convert_row list" where
  "rows_sessions_get_Request = [(Plain ''session_id'', None)]"

definition rows_sessions_get_Response :: "convert_row list" where
  "rows_sessions_get_Response = [(Plain ''session'', Some (Opt ''session''))]"

definition rows_sessions_list_Request :: "convert_row list" where
  "rows_sessions_list_Request = [
     (Plain ''page'', None),
     (Plain ''page_size'', None),
     (Plain ''filters'', Some (Opt ''filters'')),
     (Plain ''sort'', Some (Opt ''sort'')),
     (Plain ''with_task_options'', None)]"

definition rows_sessions_list_Response :: "convert_row list" where
  "rows_sessions_list_Response = [
     (Many ''sessions'', None),
     (Plain ''page'', None),
     (Plain ''page_size'', None),
     (Plain ''total'', None)]"

definition rows_sessions_Sort :: "convert_row list" where
  "rows_sessions_Sort = [(Plain ''field'', Some (Opt ''field'')), (Plain ''direction'', Some (Enum ''direction''))]"

definition rows_sessions_pause_Request :: "convert_row list" where
  "rows_sessions_pause_Request = [(Plain ''session_id'', None)]"

definition rows_sessions_pause_Response :: "convert_row list" where
  "rows_sessions_pause_Response = [(Plain ''session'', Some (Opt ''session''))]"

definition rows_sessions_purge_Request :: "convert_row list" where
  "rows_sessions_purge_Request = [(Plain ''session_id'', None)]"

definition rows_sessions_purge_Response :: "convert_row list" where
  "rows_sessions_purge_Response = [(Plain ''session'', Some (Opt ''session''))]"

definition rows_sessions_raw_Raw :: "convert_row list" where
  "rows_sessions_raw_Raw = [
     (Plain ''session_id'', None),
     (Plain ''status'', Some (Enum ''status'')),
     (Plain ''client_submission'', None),
     (Plain ''worker_submission'', None),
     (Plain ''partition_ids'', None),
     (Plain ''default_task_options'', Some (Opt ''options'')),
     (Plain ''created_at'', None),
     (Plain ''cancelled_at'', None),
     (Plain ''closed_at'', None),
     (Plain ''purged_at'', None),
     (Plain ''deleted_at'', None),
     (Plain ''duration'', None)]"

definition rows_sessions_resume_Request :: "convert_row list" where
  "rows_sessions_resume_Request = [(Plain ''session_id'', None)]"

definition rows_sessions_resume_Response :: "convert_row list" where
  "rows_sessions_resume_Response = [(Plain ''session'', Some (Opt ''session''))]"

definition rows_sessions_stop_submission_Request :: "convert_row list" where
  "rows_sessions_stop_submission_Request = [
     (Plain ''session_id'', None),
     (Plain ''client'', None),
     (Plain ''worker'', None)]"

definition rows_sessions_stop_submission_Response :: "convert_row list" where
  "rows_sessions_stop_submission_Response = [(Plain ''session'', Some (Opt ''session''))]"

definition rows_StatusCount :: "convert_row list" where
  "rows_StatusCount = [(Plain ''status'', Some (Enum ''status'')), (Plain ''count'', None)]"

definition rows_submitter_cancel_session_Request :: "convert_row list" where
  "rows_submitter_cancel_session_Request = [(Plain ''session_id'', Some (Plain ''id''))]"

definition rows_submitter_cancel_session_Response :: "convert_row list" where
  "rows_submitter_cancel_session_Response = []"

definition rows_submitter_cancel_tasks_Response :: "convert_row list" where
  "rows_submitter_cancel_tasks_Response = []"

definition rows_submitter_create_session_Request :: "convert_row list" where
  "rows_submitter_create_session_Request = [(Plain ''default_task_options'', Some (Opt ''default_task_option'')), (Plain ''partition_ids'', None)]"

definition rows_submitter_create_session_Response :: "convert_row list" where
  "rows_submitter_create_session_Response = [(Plain ''session_id'', None)]"

definition rows_submitter_create_tasks_SmallRequest :: "convert_row list" where
  "rows_submitter_create_tasks_SmallRequest = [
     (Plain ''session_id'', None),
     (Opt ''task_options'', None),
     (Many ''task_requests'', None)]"

definition rows_submitter_create_tasks_InitRequest :: "convert_row list" where
  "rows_submitter_create_tasks_InitRequest = [(Plain ''session_id'', None), (Opt ''task_options'', None)]"

definition rows_submitter_get_service_configuration_Request :: "convert_row list" where
  "rows_submitter_get_service_configuration_Request = []"

definition rows_submitter_list_sessions_Response :: "convert_row list" where
  "rows_submitter_list_sessions_Response = [(Many ''session_ids'', None)]"

definition rows_submitter_list_tasks_Response :: "convert_row list" where
  "rows_submitter_list_tasks_Response = [(Many ''task_ids'', None)]"

definition rows_submitter_result_status_Request :: "convert_row list" where
  "rows_submitter_result_status_Request = [(Plain ''session_id'', None), (Many ''result_ids'', None)]"

definition rows_submitter_session_filter_SessionFilter :: "convert_row list" where
  "rows_submitter_session_filter_SessionFilter = [(Many ''ids'', Some (Many ''sessions'')), (Plain ''statuses'', Some (Opt ''statuses''))]"

definition rows_submitter_task_filter_TaskFilter :: "convert_row list" where
  "rows_submitter_task_filter_TaskFilter = [(Plain ''ids'', Some (Opt ''ids'')), (Plain ''statuses'', Some (Opt ''statuses''))]"

definition rows_submitter_task_status_Request :: "convert_row list" where
  "rows_submitter_task_status_Request = [(Many ''task_ids'', None)]"

definition rows_submitter_try_get_result_Request :: "convert_row list" where
  "rows_submitter_try_get_result_Request = [(Plain ''session_id'', Some (Plain ''session'')), (Plain ''result_id'', None)]"

definition rows_submitter_try_get_task_output_Request :: "convert_row list" where
  "rows_submitter_try_get_task_output_Request = [(Plain ''session_id'', Some (Plain ''session'')), (Plain ''task_id'', None)]"

definition rows_submitter_wait_for_availability_Request :: "convert_row list" where
  "rows_submitter_wait_for_availability_Request = [(Plain ''session_id'', Some (Plain ''session'')), (Plain ''result_id'', None)]"

definition rows_submitter_wait_for_completion_Request :: "convert_row list" where
  "rows_submitter_wait_for_completion_Request = [
     (Plain ''filter'', Some (Opt ''filter'')),
     (Plain ''stop_on_first_task_error'', None),
     (Plain ''stop_on_first_task_cancellation'', None)]"

definition rows_TaskError :: "convert_row list" where
  "rows_TaskError = [(Plain ''task_id'', None), (Many ''errors'', None)]"

definition rows_TaskId :: "convert_row list" where
  "rows_TaskId = [(Plain ''session_id'', Some (Plain ''session'')), (Plain ''task_id'', Some (Plain ''task''))]"

definition rows_TaskIdList :: "convert_row list" where
  "rows_TaskIdList = [(Plain ''task_ids'', None)]"

definition rows_TaskIdWithStatus :: "convert_row list" where
  "rows_TaskIdWithStatus = [(Plain ''task_id'', Some (Opt ''task_id'')), (Plain ''status'', Some (Enum ''status''))]"

definition rows_TaskList :: "convert_row list" where
  "rows_TaskList = [(Many ''task_ids'', None)]"

definition rows_TaskOutputRequest :: "convert_row list" where
  "rows_TaskOutputRequest = [(Plain ''session_id'', Some (Plain ''session'')), (Plain ''task_id'', None)]"

definition rows_TaskRequest :: "convert_row list" where
  "rows_TaskRequest = [
     (Plain ''expected_output_keys'', None),
     (Plain ''data_dependencies'', None),
     (Plain ''payload'', None),
     (Plain ''payload_name'', None)]"

definition rows_TaskRequestHeader :: "convert_row list" where
  "rows_TaskRequestHeader = [(Plain ''expected_output_keys'', None), (Plain ''data_dependencies'', None)]"

definition rows_tasks_cancel_Request :: "convert_row list" where
  "rows_tasks_cancel_Request = [(Plain ''task_ids'', None)]"

definition rows_tasks_cancel_Response :: "convert_row list" where
  "rows_tasks_cancel_Response = [(Many ''tasks'', None)]"

definition rows_tasks_count_status_Request :: "convert_row list" where
  "rows_tasks_count_status_Request = [(Plain ''filters'', Some (Opt ''filters''))]"

definition rows_tasks_count_status_Response :: "convert_row list" where
  "rows_tasks_count_status_Response = [(Many ''status'', None)]"

definition rows_tasks_filter_Status :: "convert_row list" where
  "rows_tasks_filter_Status = [(Plain ''value'', Some (Enum ''value'')), (Plain ''operator'', Some (Enum ''operator''))]"

definition rows_tasks_get_Request :: "convert_row list" where
  "rows_tasks_get_Request = [(Plain ''task_id'', None)]"

definition rows_tasks_get_Response :: "convert_row list" where
  "rows_tasks_get_Response = [(Plain ''task'', Some (Opt ''task''))]"

definition rows_tasks_get_result_ids_Request :: "convert_row list" where
  "rows_tasks_get_result_ids_Request = [(Many ''task_ids'', Some (Many ''task_id''))]"

definition rows_tasks_list_Request :: "convert_row list" where
  "rows_tasks_list_Request = [
     (Plain ''page'', None),
     (Plain ''page_size'', None),
     (Plain ''filters'', Some (Opt ''filters'')),
     (Plain ''sort'', Some (Opt ''sort'')),
     (Plain ''with_errors'', None)]"

definition rows_tasks_list_Response :: "convert_row list" where
  "rows_tasks_list_Response = [
     (Many ''tasks'', None),
     (Plain ''page'', None),
     (Plain ''page_size'', None),
     (Plain ''total'', None)]"

definition rows_tasks_list_detailed_Request :: "convert_row list" where
  "rows_tasks_list_detailed_Request = [
     (Plain ''page'', None),
     (Plain ''page_size'', None),
     (Plain ''filters'', Some (Opt ''filters'')),
     (Plain ''sort'', Some (Opt ''sort'')),
     (Plain ''with_errors'', None)]"

definition rows_tasks_list_detailed_Response :: "convert_row list" where
  "rows_tasks_list_detailed_Response = [
     (Many ''tasks'', None),
     (Plain ''page'', None),
     (Plain ''page_size'', None),
     (Plain ''total'', None)]"

definition rows_tasks_Sort :: "convert_row list" where
  "rows_tasks_Sort = [(Plain ''field'', Some (Opt ''field'')), (Plain ''direction'', Some (Enum ''direction''))]"

definition rows_tasks_raw_Raw :: "convert_row list" where
  "rows_tasks_raw_Raw = [
     (Plain ''task_id'', Some (Plain ''id'')),
     (Plain ''session_id'', None),
     (Plain ''owner_pod_id'', None),
     (Plain ''initial_task_id'', None),
     (Plain ''parent_task_ids'', None),
     (Plain ''data_dependencies'', None),
     (Plain ''expected_output_ids'', None),
     (Plain ''retry_of_ids'', None),
     (Plain ''status'', Some (Enum ''status'')),
     (Plain ''status_message'', None),
     (Plain ''options'', Some (Opt ''options'')),
     (Plain ''created_at'', None),
     (Plain ''submitted_at'', None),
     (Plain ''received_at'', None),
     (Plain ''acquired_at'', None),
     (Plain ''fetched_at'', None),
     (Plain ''started_at'', None),
     (Plain ''processed_at'', None),
     (Plain ''ended_at'', None),
     (Plain ''creation_to_end_duration'', None),
     (Plain ''processing_to_end_duration'', None),
     (Plain ''received_to_end_duration'', None),
     (Plain ''pod_ttl'', None),
     (Plain ''output'', Some (Opt ''output'')),
     (Plain ''pod_hostname'', None),
     (Plain ''payload_id'', None),
     (Plain ''created_by'', None)]"

definition rows_tasks_submit_RequestItem :: "convert_row list" where
  "rows_tasks_submit_RequestItem = [
     (Plain ''expected_output_keys'', None),
     (Plain ''data_dependencies'', None),
     (Plain ''payload_id'', None),
     (Opt ''task_options'', None)]"

definition rows_tasks_submit_Request :: "convert_row list" where
  "rows_tasks_submit_Request = [
     (Plain ''session_id'', None),
     (Opt ''task_options'', None),
     (Many ''items'', Some (Many ''task_creations''))]"

definition rows_tasks_submit_ResponseItem :: "convert_row list" where
  "rows_tasks_submit_ResponseItem = [
     (Plain ''task_id'', None),
     (Plain ''expected_output_ids'', None),
     (Plain ''data_dependencies'', None),
     (Plain ''payload_id'', None)]"

definition rows_tasks_submit_Response :: "convert_row list" where
  "rows_tasks_submit_Response = [(Many ''items'', Some (Many ''task_infos''))]"

definition rows_versions_list_Request :: "convert_row list" where
  "rows_versions_list_Request = []"

definition rows_versions_list_Response :: "convert_row list" where
  "rows_versions_list_Response = [(Plain ''core'', None), (Plain ''api'', None)]"

definition rows_worker_health_check_Request :: "convert_row list" where
  "rows_worker_health_check_Request = []"

definition rows_worker_process_Request :: "convert_row list" where
  "rows_worker_process_Request = [
     (Plain ''communication_token'', None),
     (Plain ''session_id'', None),
     (Plain ''task_id'', None),
     (Plain ''task_options'', Some (Opt ''task_options'')),
     (Many ''expected_output_keys'', None),
     (Plain ''payload_id'', None),
     (Many ''data_dependencies'', None),
     (Plain ''data_folder'', None),
     (Plain ''configuration'', Some (Opt ''configuration''))]"

definition rows_worker_process_Response :: "convert_row list" where
  "rows_worker_process_Response = [(Plain ''output'', Some (Opt ''output''))]"

section \<open>All invocations\<close>

definition all_invocations :: "convert_row list list" where
  "all_invocations = [rows_agent_create_results_RequestItem,
     rows_agent_create_results_Request,
     rows_agent_create_results_Response,
     rows_agent_create_results_metadata_RequestItem,
     rows_agent_create_results_metadata_Request,
     rows_agent_create_results_metadata_Response,
     rows_agent_create_tasks_InitRequest,
     rows_agent_get_common_data_Request,
     rows_agent_get_common_data_Response,
     rows_agent_get_direct_data_Request,
     rows_agent_get_direct_data_Response,
     rows_agent_get_resource_data_Request,
     rows_agent_get_resource_data_Response,
     rows_agent_notify_result_data_Response,
     rows_agent_result_metadata_ResultMetaData,
     rows_agent_submit_tasks_RequestItem,
     rows_agent_submit_tasks_Request,
     rows_agent_submit_tasks_ResponseItem,
     rows_agent_submit_tasks_Response,
     rows_applications_list_Request,
     rows_applications_list_Response,
     rows_applications_Sort,
     rows_applications_raw_Raw,
     rows_auth_current_user_Request,
     rows_auth_current_user_Response,
     rows_auth_user_User,
     rows_Configuration,
     rows_Error,
     rows_events_new_result_NewResult,
     rows_events_new_task_NewTask,
     rows_events_result_owner_update_ResultOwnerUpdate,
     rows_events_result_status_update_ResultStatusUpdate,
     rows_events_subscribe_Response,
     rows_events_task_status_update_TaskStatusUpdate,
     rows_filters_Or,
     rows_filters_And,
     rows_filters_Field,
     rows_health_checks_check_Request,
     rows_health_checks_check_Response,
     rows_health_checks_service_health_ServiceHealth,
     rows_partitions_get_Request,
     rows_partitions_get_Response,
     rows_partitions_list_Request,
     rows_partitions_list_Response,
     rows_partitions_Sort,
     rows_partitions_raw_Raw,
     rows_ResultRequest,
     rows_results_create_RequestItem,
     rows_results_create_Request,
     rows_results_create_Response,
     rows_results_create_metadata_RequestItem,
     rows_results_create_metadata_Request,
     rows_results_create_metadata_Response,
     rows_results_delete_data_Request,
     rows_results_delete_data_Response,
     rows_results_download_Request,
     rows_results_download_Response,
     rows_results_filter_Status,
     rows_results_get_Request,
     rows_results_get_Response,
     rows_results_get_owner_task_id_Request,
     rows_results_get_service_configuration_Request,
     rows_results_get_service_configuration_Response,
     rows_results_list_Request,
     rows_results_list_Response,
     rows_results_Sort,
     rows_results_raw_Raw,
     rows_results_upload_Response,
     rows_Session,
     rows_sessions_cancel_Request,
     rows_sessions_cancel_Response,
     rows_sessions_close_Request,
     rows_sessions_close_Response,
     rows_sessions_create_Request,
     rows_sessions_create_Response,
     rows_sessions_delete_Request,
     rows_sessions_delete_Response,
     rows_sessions_filter_Status,
     rows_sessions_get_Request,
     rows_sessions_get_Response,
     rows_sessions_list_Request,
     rows_sessions_list_Response,
     rows_sessions_Sort,
     rows_sessions_pause_Request,
     rows_sessions_pause_Response,
     rows_sessions_purge_Request,
     rows_sessions_purge_Response,
     rows_sessions_raw_Raw,
     rows_sessions_resume_Request,
     rows_sessions_resume_Response,
     rows_sessions_stop_submission_Request,
     rows_sessions_stop_submission_Response,
     rows_StatusCount,
     rows_submitter_cancel_session_Request,
     rows_submitter_cancel_session_Response,
     rows_submitter_cancel_tasks_Response,
     rows_submitter_create_session_Request,
     rows_submitter_create_session_Response,
     rows_submitter_create_tasks_SmallRequest,
     rows_submitter_create_tasks_InitRequest,
     rows_submitter_get_service_configuration_Request,
     rows_submitter_list_sessions_Response,
     rows_submitter_list_tasks_Response,
     rows_submitter_result_status_Request,
     rows_submitter_session_filter_SessionFilter,
     rows_submitter_task_filter_TaskFilter,
     rows_submitter_task_status_Request,
     rows_submitter_try_get_result_Request,
     rows_submitter_try_get_task_output_Request,
     rows_submitter_wait_for_availability_Request,
     rows_submitter_wait_for_completion_Request,
     rows_TaskError,
     rows_TaskId,
     rows_TaskIdList,
     rows_TaskIdWithStatus,
     rows_TaskList,
     rows_TaskOutputRequest,
     rows_TaskRequest,
     rows_TaskRequestHeader,
     rows_tasks_cancel_Request,
     rows_tasks_cancel_Response,
     rows_tasks_count_status_Request,
     rows_tasks_count_status_Response,
     rows_tasks_filter_Status,
     rows_tasks_get_Request,
     rows_tasks_get_Response,
     rows_tasks_get_result_ids_Request,
     rows_tasks_list_Request,
     rows_tasks_list_Response,
     rows_tasks_list_detailed_Request,
     rows_tasks_list_detailed_Response,
     rows_tasks_Sort,
     rows_tasks_raw_Raw,
     rows_tasks_submit_RequestItem,
     rows_tasks_submit_Request,
     rows_tasks_submit_ResponseItem,
     rows_tasks_submit_Response,
     rows_versions_list_Request,
     rows_versions_list_Response,
     rows_worker_health_check_Request,
     rows_worker_process_Request,
     rows_worker_process_Response]"

lemmas rows_defs =
  rows_agent_create_results_RequestItem_def
  rows_agent_create_results_Request_def
  rows_agent_create_results_Response_def
  rows_agent_create_results_metadata_RequestItem_def
  rows_agent_create_results_metadata_Request_def
  rows_agent_create_results_metadata_Response_def
  rows_agent_create_tasks_InitRequest_def
  rows_agent_get_common_data_Request_def
  rows_agent_get_common_data_Response_def
  rows_agent_get_direct_data_Request_def
  rows_agent_get_direct_data_Response_def
  rows_agent_get_resource_data_Request_def
  rows_agent_get_resource_data_Response_def
  rows_agent_notify_result_data_Response_def
  rows_agent_result_metadata_ResultMetaData_def
  rows_agent_submit_tasks_RequestItem_def
  rows_agent_submit_tasks_Request_def
  rows_agent_submit_tasks_ResponseItem_def
  rows_agent_submit_tasks_Response_def
  rows_applications_list_Request_def
  rows_applications_list_Response_def
  rows_applications_Sort_def
  rows_applications_raw_Raw_def
  rows_auth_current_user_Request_def
  rows_auth_current_user_Response_def
  rows_auth_user_User_def
  rows_Configuration_def
  rows_Error_def
  rows_events_new_result_NewResult_def
  rows_events_new_task_NewTask_def
  rows_events_result_owner_update_ResultOwnerUpdate_def
  rows_events_result_status_update_ResultStatusUpdate_def
  rows_events_subscribe_Response_def
  rows_events_task_status_update_TaskStatusUpdate_def
  rows_filters_Or_def
  rows_filters_And_def
  rows_filters_Field_def
  rows_health_checks_check_Request_def
  rows_health_checks_check_Response_def
  rows_health_checks_service_health_ServiceHealth_def
  rows_partitions_get_Request_def
  rows_partitions_get_Response_def
  rows_partitions_list_Request_def
  rows_partitions_list_Response_def
  rows_partitions_Sort_def
  rows_partitions_raw_Raw_def
  rows_ResultRequest_def
  rows_results_create_RequestItem_def
  rows_results_create_Request_def
  rows_results_create_Response_def
  rows_results_create_metadata_RequestItem_def
  rows_results_create_metadata_Request_def
  rows_results_create_metadata_Response_def
  rows_results_delete_data_Request_def
  rows_results_delete_data_Response_def
  rows_results_download_Request_def
  rows_results_download_Response_def
  rows_results_filter_Status_def
  rows_results_get_Request_def
  rows_results_get_Response_def
  rows_results_get_owner_task_id_Request_def
  rows_results_get_service_configuration_Request_def
  rows_results_get_service_configuration_Response_def
  rows_results_list_Request_def
  rows_results_list_Response_def
  rows_results_Sort_def
  rows_results_raw_Raw_def
  rows_results_upload_Response_def
  rows_Session_def
  rows_sessions_cancel_Request_def
  rows_sessions_cancel_Response_def
  rows_sessions_close_Request_def
  rows_sessions_close_Response_def
  rows_sessions_create_Request_def
  rows_sessions_create_Response_def
  rows_sessions_delete_Request_def
  rows_sessions_delete_Response_def
  rows_sessions_filter_Status_def
  rows_sessions_get_Request_def
  rows_sessions_get_Response_def
  rows_sessions_list_Request_def
  rows_sessions_list_Response_def
  rows_sessions_Sort_def
  rows_sessions_pause_Request_def
  rows_sessions_pause_Response_def
  rows_sessions_purge_Request_def
  rows_sessions_purge_Response_def
  rows_sessions_raw_Raw_def
  rows_sessions_resume_Request_def
  rows_sessions_resume_Response_def
  rows_sessions_stop_submission_Request_def
  rows_sessions_stop_submission_Response_def
  rows_StatusCount_def
  rows_submitter_cancel_session_Request_def
  rows_submitter_cancel_session_Response_def
  rows_submitter_cancel_tasks_Response_def
  rows_submitter_create_session_Request_def
  rows_submitter_create_session_Response_def
  rows_submitter_create_tasks_SmallRequest_def
  rows_submitter_create_tasks_InitRequest_def
  rows_submitter_get_service_configuration_Request_def
  rows_submitter_list_sessions_Response_def
  rows_submitter_list_tasks_Response_def
  rows_submitter_result_status_Request_def
  rows_submitter_session_filter_SessionFilter_def
  rows_submitter_task_filter_TaskFilter_def
  rows_submitter_task_status_Request_def
  rows_submitter_try_get_result_Request_def
  rows_submitter_try_get_task_output_Request_def
  rows_submitter_wait_for_availability_Request_def
  rows_submitter_wait_for_completion_Request_def
  rows_TaskError_def
  rows_TaskId_def
  rows_TaskIdList_def
  rows_TaskIdWithStatus_def
  rows_TaskList_def
  rows_TaskOutputRequest_def
  rows_TaskRequest_def
  rows_TaskRequestHeader_def
  rows_tasks_cancel_Request_def
  rows_tasks_cancel_Response_def
  rows_tasks_count_status_Request_def
  rows_tasks_count_status_Response_def
  rows_tasks_filter_Status_def
  rows_tasks_get_Request_def
  rows_tasks_get_Response_def
  rows_tasks_get_result_ids_Request_def
  rows_tasks_list_Request_def
  rows_tasks_list_Response_def
  rows_tasks_list_detailed_Request_def
  rows_tasks_list_detailed_Response_def
  rows_tasks_Sort_def
  rows_tasks_raw_Raw_def
  rows_tasks_submit_RequestItem_def
  rows_tasks_submit_Request_def
  rows_tasks_submit_ResponseItem_def
  rows_tasks_submit_Response_def
  rows_versions_list_Request_def
  rows_versions_list_Response_def
  rows_worker_health_check_Request_def
  rows_worker_process_Request_def
  rows_worker_process_Response_def

text \<open>Every row has an arm in both directions and keeps its value, and no field is named twice.\<close>

definition well_formed_rows :: "convert_row list \<Rightarrow> bool" where
  "well_formed_rows rows \<longleftrightarrow> list_all keeps rows
     \<and> distinct (map (side_name \<circ> left) rows) \<and> distinct (map (side_name \<circ> right) rows)"

lemma all_invocations_well_formed: "list_all well_formed_rows all_invocations"
  unfolding all_invocations_def
  by (simp add: well_formed_rows_def left_def right_def rows_defs)

lemma all_invocations_count: "length all_invocations = 142"
  by (simp add: all_invocations_def)

lemma all_invocations_short: "list_all (\<lambda>rows. length rows \<le> 27) all_invocations"
  unfolding all_invocations_def by (simp add: rows_defs)

end
