(* ===== verification/Spec2Isabelle.thy ===== *)
theory Spec2Isabelle
  imports Events_Tests Sessions_Tests Tasks_Tests Results_Tests Submitter_Tests Agent_Tests
    Worker_Tests Partitions_Tests Service_Access Convert_Uses
begin

text \<open>
  Verification of the Rust crates of the ArmoniK API (\<^verbatim>\<open>src/packages/rust\<close>): \<^verbatim>\<open>armonik\<close>, the typed client
  and server of the ArmoniK gRPC services, and \<^verbatim>\<open>armonik-transport\<close>, which configures and opens the
  connection.

  \<^bold>\<open>The program.\<close> A user of \<^verbatim>\<open>armonik\<close> obtains a \<^verbatim>\<open>Client\<close> (\<^verbatim>\<open>client/mod.rs\<close>): its options are read from
  the environment and checked (\<^verbatim>\<open>config.rs\<close>, \<^verbatim>\<open>utils.rs\<close> of \<^verbatim>\<open>armonik-transport\<close>), then a TLS connector
  and an HTTP/2 endpoint are built from them (\<^verbatim>\<open>connect.rs\<close>). Each service has a client
  (\<^verbatim>\<open>client/*.rs\<close>) whose methods build a request object and make one remote call: the object is converted
  to the protobuf message, sent through the stub that tonic generates, and the reply is converted
  back. The server side (\<^verbatim>\<open>server/*.rs\<close>) does the reverse around a trait that the application implements.
  The objects and their conversions (\<^verbatim>\<open>objects/**\<close>) are most of the code.

  \<^bold>\<open>Theories and sources.\<close>
  \<^item> \<^verbatim>\<open>Rust_Prelude\<close>: machine integers as words, \<^verbatim>\<open>HashMap\<close> as a finite map whose iteration order is a
    parameter, \<^verbatim>\<open>Result\<close> as a sum, \<^verbatim>\<open>utils.rs\<close> (collections, the vector wrappers of the filters, serde of dates);
    the interfaces as locales: \<open>proto_enum\<close>, \<open>schema_enum\<close>, \<open>mirrored_enum\<close> of the enumerations,
    \<open>partial_codec\<close>, \<open>wire_codec\<close> of the conversions, \<open>field_view\<close> of a field that is read and updated, and
    \<open>vec_wrapper\<close>, which extends it.
  \<^item> \<^verbatim>\<open>Convert_Macro\<close>, \<^verbatim>\<open>Convert_Uses\<close>: the macro \<^verbatim>\<open>impl_convert!\<close> of \<^verbatim>\<open>objects/mod.rs\<close> as a rewriting of tokens, with its
    arms in the order they are tried, and the rows of its 142 struct invocations in \<^verbatim>\<open>objects\<close>.
  \<^item> \<^verbatim>\<open>Enums\<close>: the status, sort and operator enumerations of \<^verbatim>\<open>objects/*.rs\<close> and \<^verbatim>\<open>objects/filters\<close>, their
    numbers, and the enums generated from the schema; each interprets the enumeration locales.
  \<^item> \<^verbatim>\<open>Common_Objects\<close>, \<^verbatim>\<open>Filters\<close>, \<^verbatim>\<open>Applications\<close>, \<^verbatim>\<open>Partitions\<close>, \<^verbatim>\<open>Results\<close>, \<^verbatim>\<open>Sessions\<close>, \<^verbatim>\<open>Tasks\<close>, \<^verbatim>\<open>Events\<close>,
    \<^verbatim>\<open>Auth_Health_Versions\<close>, \<^verbatim>\<open>Worker\<close>, \<^verbatim>\<open>Agent\<close>, \<^verbatim>\<open>Submitter\<close>: one record or datatype per struct or enum of
    \<^verbatim>\<open>objects\<close>, its default, and the two conversions \<open>X_to_v3\<close> and \<open>X_of_v3\<close>; each interprets
    \<open>wire_codec\<close>, or \<open>partial_codec\<close> where the conversion loses something.
  \<^item> \<^verbatim>\<open>Rust_Parse\<close>, \<^verbatim>\<open>Env\<close>, \<^verbatim>\<open>Config\<close>, \<^verbatim>\<open>Connect\<close>: integer parsing and splitting of the standard library;
    \<^verbatim>\<open>armonik-transport/src/utils.rs\<close>; \<^verbatim>\<open>config.rs\<close>; \<^verbatim>\<open>connect.rs\<close> and the creation of a client. \<^verbatim>\<open>Config_Errors\<close>: the
    checks of a configuration as a list, the specification of which error is reported. \<^verbatim>\<open>Config_Tests\<close>: the unit
    tests of \<^verbatim>\<open>config.rs\<close> and \<^verbatim>\<open>utils.rs\<close> as predicates on the model. \<^verbatim>\<open>Json\<close>, \<^verbatim>\<open>Config_Serde\<close>: JSON values, and the
    derived \<^verbatim>\<open>Serialize\<close> and \<^verbatim>\<open>Deserialize\<close> of the options with the unit test of that feature.
  \<^item> \<^verbatim>\<open>Request_Count\<close>: the counters of the mock server (\<^verbatim>\<open>csharp/ArmoniK.Api.Mock\<close>) as a function of the calls it
    received, and the shapes that the unit tests of the service clients and the integration tests (\<^verbatim>\<open>armonik/tests\<close>)
    share. \<^verbatim>\<open>Request_Counter\<close>: reading a counter over HTTP (\<^verbatim>\<open>Client::get_nb_request\<close> of \<^verbatim>\<open>client/mod.rs\<close>).
  \<^item> \<^verbatim>\<open>Rpc\<close>: the calling machinery of \<^verbatim>\<open>client/mod.rs\<close> and the macro \<^verbatim>\<open>impl_trait_methods!\<close> of
    \<^verbatim>\<open>server/mod.rs\<close> for unary, client-streaming and server-streaming procedures; streams as a codatatype; the
    contract of a remote procedure as the locales \<open>rpc_link\<close> and \<open>total_rpc_link\<close>.
  \<^item> \<^verbatim>\<open>Polling\<close>: \<^verbatim>\<open>ServerStream\<close> and the server-streaming arm of the macro on streams that are polled and may be pending;
    \<open>delivers\<close> relates such a stream to the sequence of its items, and the locale \<open>stream_adapter\<close> is the
    contract of a stream built on another one.
  \<^item> \<^verbatim>\<open>Service_Access\<close>: a \<^verbatim>\<open>Client\<close> as the transport of the service clients (\<^verbatim>\<open>client/mod.rs\<close>), owned or by a mutable
    reference into a memory, with the locale \<open>transport_proxy\<close>; the accessors and constructors of the service
    clients and servers; the accessors of \<^verbatim>\<open>RequestContext\<close>.
  \<^item> \<^verbatim>\<open>Sessions_Service\<close>, \<^verbatim>\<open>Tasks_Service\<close>, \<^verbatim>\<open>Results_Service\<close>, \<^verbatim>\<open>Agent_Service\<close>, \<^verbatim>\<open>Submitter_Service\<close>,
    \<^verbatim>\<open>Events_Service\<close>, \<^verbatim>\<open>Worker_Service\<close>, \<^verbatim>\<open>Partitions_Service\<close>, \<^verbatim>\<open>Applications_Service\<close>, \<^verbatim>\<open>Auth_Service\<close>,
    \<^verbatim>\<open>Health_Checks_Service\<close>, \<^verbatim>\<open>Versions_Service\<close>: for each service the stub as a record, every raw call
    \<open>X_call_m\<close> and every method \<open>X_m\<close> of the client, the trait as a record of handlers, the server glue,
    and a client connected to a server (\<open>x_loopback\<close>); each procedure interprets \<open>rpc_link\<close>. The unit tests of
    \<^verbatim>\<open>client/*.rs\<close> are in \<^verbatim>\<open>Sessions_Tests\<close>, \<^verbatim>\<open>Tasks_Tests\<close>, \<^verbatim>\<open>Results_Tests\<close>, \<^verbatim>\<open>Agent_Tests\<close>, \<^verbatim>\<open>Submitter_Tests\<close>,
    \<^verbatim>\<open>Events_Tests\<close>, \<^verbatim>\<open>Partitions_Tests\<close>, \<^verbatim>\<open>Applications_Tests\<close>, \<^verbatim>\<open>Auth_Tests\<close>, \<^verbatim>\<open>Health_Checks_Tests\<close> and
    \<^verbatim>\<open>Versions_Tests\<close>, each the counter it reads, the call it makes and what it does with the answer, with the answers of
    the class of the mock server (\<open>x_mock\<close>). The same theories and \<^verbatim>\<open>Worker_Tests\<close> hold the integration tests
    of \<^verbatim>\<open>armonik/tests/*.rs\<close>: the service that a test starts (\<open>x_test_service\<close>), whose loops over the stream of a client
    are partial functions shown to return when the stream ends, and the test as a predicate on a client connected to it.

  \<^bold>\<open>How code becomes definitions.\<close> A struct is a record with the source's field names, a Rust enum a
  datatype, \<^verbatim>\<open>impl_convert!\<close> the pair of functions it expands to. The messages that \<^verbatim>\<open>build.rs\<close> generates are
  records read off \<^verbatim>\<open>Protos/V1\<close> by prost's rules: a message field is an option, an enum field an \<^verbatim>\<open>i32\<close>, a
  \<^verbatim>\<open>oneof\<close> an optional datatype. A future is run to completion: a call maps the state of the channel to a
  result and a new state. Tracing spans have no effect on results and are left out. Errors are values; a
  failed \<^verbatim>\<open>expect\<close> is the outcome \<open>Panic\<close>. Names that occur in several modules carry the module
  (\<open>tasks_list_Request\<close>).

  \<^bold>\<open>Parameters.\<close> What the crates call outside the repository is passed in: the URI, PEM, header and duration
  parsers and the file system (\<open>config_libs\<close>), rustls, hyper and tonic's connection (\<open>connect_libs\<close>), the
  stubs, the HTTP client of the tests (\<open>http_libs\<close>) and the reader and writer of JSON texts,
  \<^verbatim>\<open>MetadataMap::into_headers\<close>, and the iteration order of a hash map, of which only \<open>iterates\<close> is used: every entry
  once, in some order; the streams of the handlers, by their \<^verbatim>\<open>poll_next\<close>; the generated clients and
  servers, by their constructors. No recursion needs fuel: all recursions are structural but that of the macro, which
  comes with its order (\<open>munch_order\<close>), and those of the loops over a stream of a client in the integration tests, which are
  partial functions; streams may be infinite.

  \<^bold>\<open>What is proved.\<close> Services: with a client connected to a server over an intact transport, every remote call
  returns what the handler returns in process and changes the state of the service as the handler does, for the unary and
  streaming procedures of all twelve services, and where a conversion loses something the theorem says exactly
  what; every raw call and every method makes one call, to its own procedure; the errors of task creation and task
  output; the order of the streams; a polled response stream makes progress and refines the whole stream; a client is
  interchangeable with its channel; the unit tests of the clients pass against the mock server, and the counter that one
  reads is the number of calls received; the integration tests that depend on no clock pass on the services
  they start. Configuration: which options are accepted, which variables are read, the one case in which creating a client
  panics, that verification is off only when asked for, and that the connection uses exactly the configured settings, which of several errors is reported, that the unit tests
  hold for all libraries that behave as documented, and which JSON values are read as which options. The macro: its expansion ends within the compiler's limit, all
  its invocations expand, and what it generates is inverse when the conversions of the fields are. Objects: the numbers of the enumerations
  against the schema and under unknown numbers, and the round trips of the objects, filters and maps. Five
  theorems state behaviour that contradicts what the code means to do: \<open>submitter_filter_calls_flipped\<close> (with the lemma
  \<open>submitter_filters_flip\<close>), \<open>session_fields_renumbered\<close>, \<open>task_options_equality_blind\<close>,
  \<open>duration_errors_blame_connect_timeout\<close>, \<open>client_new_panics_only_on_server_name\<close>. The integration tests of the
  submitter pass all the same, because its service never looks at the statuses of a filter.

  \<^bold>\<open>Not modelled.\<close> The code generated by tonic and prost (\<^verbatim>\<open>api/v3.rs\<close>, \<^verbatim>\<open>build.rs\<close>) beyond the shape of its
  messages and stubs; scheduling, cancellation and back pressure of futures beyond the polling of a response stream;
  tracing; the integration tests that wait, run under a timeout or look at a cancellation token, and those of
  \<^verbatim>\<open>armonik-transport\<close>, which measure time-outs; the other languages of the repository but for the mock server of the tests. The source locations
  that snafu attaches to errors are kept out of the error values. Worth adding: the serde representation of the objects
  beyond dates, and the identification of the conversions \<open>X_to_v3\<close> with the expansion of their rows.
\<close>

section \<open>Instances of the parameters\<close>

text \<open>A result service that only answers imports, with one result under its own name.\<close>

definition one_result_service :: "('h, 'e, 's) ResultsService" where
  "one_result_service = \<lparr>
     ResultsService.list = (\<lambda>r ctx s. (Inl (Status_internal ''not available''), s)),
     ResultsService.get = (\<lambda>r ctx s. (Inl (Status_internal ''not available''), s)),
     ResultsService.get_owner_task_id = (\<lambda>r ctx s. (Inl (Status_internal ''not available''), s)),
     ResultsService.create_metadata = (\<lambda>r ctx s. (Inl (Status_internal ''not available''), s)),
     ResultsService.create = (\<lambda>r ctx s. (Inl (Status_internal ''not available''), s)),
     ResultsService.import = (\<lambda>r ctx s. (Inr \<lparr>results_import_Response.results =
       fmap_of_list [(''out'', results_Raw_default\<lparr>results_Raw.name := ''out''\<rparr>)]\<rparr>, s)),
     ResultsService.delete_data = (\<lambda>r ctx s. (Inl (Status_internal ''not available''), s)),
     ResultsService.get_service_configuration = (\<lambda>r ctx s. (Inl (Status_internal ''not available''), s)),
     ResultsService.download = (\<lambda>r ctx s. (Inl (Status_internal ''not available''), s)),
     ResultsService.upload = (\<lambda>r ctx s. (Inl (Status_internal ''not available''), s))\<rparr>"

lemma one_result_import:
  "ResultsService.import one_result_service r ctx s = (Inr \<lparr>results_import_Response.results =
     fmap_of_list [(''out'', results_Raw_default\<lparr>results_Raw.name := ''out''\<rparr>)]\<rparr>, s)"
  by (simp add: one_result_service_def)

text \<open>
  A simple instance of the libraries the configuration and the connection call, used to show that the
  hypotheses of the theorems can hold: URIs are triples of scheme, authority and path, files hold their own
  name, and the transport panics exactly on a zero rate limit, as tower does.
\<close>

type_synonym plain_uri = "string option \<times> string option \<times> string option"

definition plain_config_libs ::
  "(plain_uri, string, string, string, u8 list, u8 list, string) config_libs" where
  "plain_config_libs = \<lparr>
     read_to_string = (\<lambda>p. Inr p),
     read_file = (\<lambda>p. Inr (as_bytes p)),
     cert_from_pem_slice = Inr,
     key_from_pem_slice = Inr,
     uri_try_from = (\<lambda>s. if s = '''' then Inl ''empty'' else Inr (Some ''http'', Some s, Some ''/'')),
     uri_to_string = (\<lambda>u. ''uri''),
     uri_scheme = fst,
     uri_authority = (\<lambda>u. fst (snd u)),
     uri_path_and_query = (\<lambda>u. snd (snd u)),
     authority_parse = (\<lambda>s. if CHR ''/'' \<in> set s then Inl ''not an authority'' else Inr s),
     uri_build = (\<lambda>s a p. Inr (s, a, p)),
     humantime_parse = (\<lambda>s. if s = ''1s'' then Inr (Duration_from_secs 1)
       else if s = ''0s'' then Inr (Duration_from_secs 0) else Inl ''bad duration''),
     header_from_str = Inr\<rparr>"

definition plain_connect_libs ::
  "(plain_uri, u8 list, u8 list, string, string, unit) connect_libs" where
  "plain_connect_libs = \<lparr>
     safe_default_protocol_versions = Inr (),
     root_store_add = (\<lambda>c. Inr ()),
     with_native_roots = Inr (),
     with_client_auth_cert = (\<lambda>cs k. Inr ()),
     uri_host = (\<lambda>u. fst (snd u)),
     server_name_try_from = Inr,
     connect_with_connector = (\<lambda>ep h. case Endpoint.rate_limit ep of
         None \<Rightarrow> Outcome.Ok ()
       | Some (n, d) \<Rightarrow> if n = 0 \<or> Duration_is_zero d then Outcome.Panic ''rate limit'' else Outcome.Ok ())\<rparr>"

text \<open>The same with a library that knows server names: an address in brackets, as a URI writes it, is none.\<close>

definition bracket_connect_libs ::
  "(plain_uri, u8 list, u8 list, string, string, unit) connect_libs" where
  "bracket_connect_libs = plain_connect_libs\<lparr>
     server_name_try_from := (\<lambda>h. case h of c # _ \<Rightarrow> if c = CHR ''['' then Inl ''invalid server name'' else Inr h
       | [] \<Rightarrow> Inl ''invalid server name'')\<rparr>"

definition plain_environment :: "string \<Rightarrow> string \<Rightarrow> environment" where
  "plain_environment n v = [''GrpcClient__Endpoint'' \<mapsto> Unicode ''host'', n \<mapsto> Unicode v]"

definition plain_config :: "(plain_uri, u8 list, u8 list, string) ClientConfig" where
  "plain_config = \<lparr>
     ClientConfig.endpoint = (Some ''http'', Some ''host'', Some ''/''),
     ClientConfig.allow_unsafe_connection = True,
     ClientConfig.identity = None,
     ClientConfig.cacert = None,
     ClientConfig.override_target = None,
     ClientConfig.connect_timeout = Some (Duration_from_secs 60),
     ClientConfig.timeout = None,
     ClientConfig.rate_limit = None,
     ClientConfig.tcp_keepalive = None,
     ClientConfig.tcp_keepalive_interval = None,
     ClientConfig.tcp_keepalive_retries = None,
     ClientConfig.tcp_nagle_algorithm = False,
     ClientConfig.http2_keep_alive_interval = None,
     ClientConfig.http2_keep_alive_timeout = None,
     ClientConfig.http2_keep_alive_while_idle = False,
     ClientConfig.http2_max_header_list_size = None,
     ClientConfig.user_agent = None\<rparr>"

lemma plain_args_unsafe:
  "ClientConfigArgs_from_env (plain_environment ''GrpcClient__AllowUnsafeConnection'' ''yes'') =
     Inr (ClientConfigArgs_default\<lparr>ClientConfigArgs.endpoint := ''host'', ClientConfigArgs.allow_unsafe_connection := True\<rparr>)"
  by (simp add: from_env_Inr_iff plain_environment_def read_env_bool_def read_env_cases ClientConfigArgs_default_def)

lemma plain_args_override:
  "ClientConfigArgs_from_env (plain_environment ''GrpcClient__OverrideTargetName'' ''[::1]'') =
     Inr (ClientConfigArgs_default\<lparr>ClientConfigArgs.endpoint := ''host'', ClientConfigArgs.override_target_name := ''[::1]''\<rparr>)"
  by (simp add: from_env_Inr_iff plain_environment_def read_env_bool_def read_env_cases ClientConfigArgs_default_def)

lemma plain_configuration_unsafe:
  "ClientConfig_from_env plain_config_libs (plain_environment ''GrpcClient__AllowUnsafeConnection'' ''yes'') = Inr plain_config"
  by (simp add: ClientConfig_from_env_def plain_args_unsafe from_config_args_def ClientConfigArgs_default_def
      plain_config_libs_def plain_config_def)

text \<open>An HTTP server that has received three calls and serves their counters.\<close>

definition plain_calls :: "(string \<times> string) list" where
  "plain_calls = [(''HealthChecksService'', ''CheckHealth''), (''Sessions'', ''GetSession''), (''HealthChecksService'', ''CheckHealth'')]"

definition plain_http_libs :: "(u8 list, u8 list, string, string, string, unit recording) http_libs" where
  "plain_http_libs = \<lparr>
     request_get = Inr,
     client_request = (\<lambda>https request w. Inr request),
     response_collect = (\<lambda>answer. if answer = ''uricalls.json'' then Inr [] else Inl ''not found''),
     json_from_slice = (\<lambda>bytes. Inr (Calls Map.empty (served plain_calls)))\<rparr>"

text \<open>
  Libraries that know the URIs, the durations and the files of the unit tests, with a URI as the triple of its scheme,
  its authority and its path.
\<close>

definition sample_libs ::
  "(plain_uri, string, string, string, u8 list, u8 list, string) config_libs" where
  "sample_libs = plain_config_libs\<lparr>
     read_to_string := (\<lambda>p. Inl ''no such file''),
     uri_try_from := (\<lambda>s.
       if s = ''http://localhost:5001'' then Inr (Some ''http'', Some ''localhost:5001'', Some ''/'')
       else if s = ''https://10.0.0.1:5003/base'' then Inr (Some ''https'', Some ''10.0.0.1:5003'', Some ''/base'')
       else if s = ''https://server.example.com/other'' then Inr (Some ''https'', Some ''server.example.com'', Some ''/other'')
       else Inl ''not a URI''),
     uri_to_string := (\<lambda>(s, a, p). the s @ ''://'' @ the a @ the p),
     humantime_parse := (\<lambda>s.
       if s = ''500ms'' then Inr (Duration_from_millis 500)
       else if s = ''0s'' then Inr (Duration_from_secs 0)
       else if s = ''1s'' then Inr (Duration_from_secs 1)
       else if s = ''30s'' then Inr (Duration_from_secs 30)
       else if s = ''2m'' then Inr (Duration_from_secs 120)
       else if s = ''1h'' then Inr (Duration_from_secs 3600)
       else Inl ''not a duration'')\<rparr>"

lemma sample_libs_documented:
  "documented_uris sample_libs" "documented_durations sample_libs" "missing_files sample_libs"
  "documented_overrides (\<lambda>s. s) (\<lambda>a. a) (\<lambda>p. p) sample_libs"
  by (simp_all add: documented_uris_def documented_durations_def missing_files_def documented_overrides_def
      sample_libs_def plain_config_libs_def)

text \<open>
  Fields of two types, texts and task statuses: a text is kept by \<^verbatim>\<open>into\<close>, a status goes through its number, with the
  conversions of \<^verbatim>\<open>TaskStatus\<close>.
\<close>

datatype sample_value = Sample_Text string | Sample_Status TaskStatus

definition sample_typing :: "sample_value typing" where
  "sample_typing x v = (case v of Sample_Text _ \<Rightarrow> x = ''task_id'' | Sample_Status _ \<Rightarrow> x = ''status'')"

definition sample_impls :: "(sample_value, sample_value) impls" where
  "sample_impls = \<lparr>impls.impl_into = (\<lambda>_ v. v),
     impls.impl_as_i32 = (\<lambda>_ v. case v of Sample_Text _ \<Rightarrow> 0 | Sample_Status s \<Rightarrow> TaskStatus_as_i32 s),
     impls.impl_of_i32 = (\<lambda>_ i. Sample_Status (TaskStatus_of_i32 i)), impls.impl_default = (\<lambda>_. Sample_Text [])\<rparr>"

section \<open>Services\<close>

text \<open>
  C1: a remote call of the sessions, agent, partitions, applications, authentication, health check, versions or worker
  service is indistinguishable from calling the handler of the service in process: same response or status, same effect on
  the state of the service. A notification that names no result arrives without its session.
  The client is connected to a server that implements the service with handlers \<open>svc\<close>, over a transport that
  delivers messages intact; \<open>in_process\<close> is the result of calling the handler directly.
\<close>

theorem service_calls_transparent:
  "Sessions_call_list (sessions_loopback ih m e svc_se) r0 s = in_process (SessionsService.list svc_se r0 (direct_context ih m e) s)
   \<and> Sessions_call_get (sessions_loopback ih m e svc_se) r1 s = in_process (SessionsService.get svc_se r1 (direct_context ih m e) s)
   \<and> Sessions_call_cancel (sessions_loopback ih m e svc_se) r2 s = in_process (SessionsService.cancel svc_se r2 (direct_context ih m e) s)
   \<and> Sessions_call_create (sessions_loopback ih m e svc_se) r3 s = in_process (SessionsService.create svc_se r3 (direct_context ih m e) s)
   \<and> Sessions_call_pause (sessions_loopback ih m e svc_se) r4 s = in_process (SessionsService.pause svc_se r4 (direct_context ih m e) s)
   \<and> Sessions_call_resume (sessions_loopback ih m e svc_se) r5 s = in_process (SessionsService.resume svc_se r5 (direct_context ih m e) s)
   \<and> Sessions_call_close (sessions_loopback ih m e svc_se) r6 s = in_process (SessionsService.close svc_se r6 (direct_context ih m e) s)
   \<and> Sessions_call_purge (sessions_loopback ih m e svc_se) r7 s = in_process (SessionsService.purge svc_se r7 (direct_context ih m e) s)
   \<and> Sessions_call_delete (sessions_loopback ih m e svc_se) r8 s = in_process (SessionsService.delete svc_se r8 (direct_context ih m e) s)
   \<and> Sessions_call_stop_submission (sessions_loopback ih m e svc_se) r9 s = in_process (SessionsService.stop_submission svc_se r9 (direct_context ih m e) s)
   \<and> Agent_call_create_results_metadata (agent_loopback ih m e svc_ag) r10 s = in_process (AgentService.create_results_metadata svc_ag r10 (direct_context ih m e) s)
   \<and> Agent_call_create_results (agent_loopback ih m e svc_ag) r11 s = in_process (AgentService.create_results svc_ag r11 (direct_context ih m e) s)
   \<and> Agent_call_submit_tasks (agent_loopback ih m e svc_ag) r12 s = in_process (AgentService.submit_tasks svc_ag r12 (direct_context ih m e) s)
   \<and> Agent_call_get_resource_data (agent_loopback ih m e svc_ag) r13 s = in_process (AgentService.get_resource_data svc_ag r13 (direct_context ih m e) s)
   \<and> Agent_call_get_common_data (agent_loopback ih m e svc_ag) r14 s = in_process (AgentService.get_common_data svc_ag r14 (direct_context ih m e) s)
   \<and> Agent_call_get_direct_data (agent_loopback ih m e svc_ag) r15 s = in_process (AgentService.get_direct_data svc_ag r15 (direct_context ih m e) s)
   \<and> Partitions_call_list (partitions_loopback ih m e svc_pa) r16 s = in_process (PartitionsService.list svc_pa r16 (direct_context ih m e) s)
   \<and> Partitions_call_get (partitions_loopback ih m e svc_pa) r17 s = in_process (PartitionsService.get svc_pa r17 (direct_context ih m e) s)
   \<and> Applications_call_list (applications_loopback ih m e svc_ap) r18 s = in_process (ApplicationsService.list svc_ap r18 (direct_context ih m e) s)
   \<and> Auth_call_current_user (auth_loopback ih m e svc_au) r19 s = in_process (AuthService.current_user svc_au r19 (direct_context ih m e) s)
   \<and> HealthChecks_call_check (health_checks_loopback ih m e svc_he) r20 s = in_process (HealthChecksService.check svc_he r20 (direct_context ih m e) s)
   \<and> Versions_call_list (versions_loopback ih m e svc_ve) r21 s = in_process (VersionsService.list svc_ve r21 (direct_context ih m e) s)
   \<and> Worker_call_health_check (worker_loopback ih m e svc_wo) r22 s = in_process (WorkerService.health_check svc_wo r22 (direct_context ih m e) s)
   \<and> Worker_call_process (worker_loopback ih m e svc_wo) r23 s = in_process (WorkerService.process svc_wo r23 (direct_context ih m e) s)
   \<and> Agent_call_create_tasks (agent_loopback ih m e svc_ag) r24 s = in_process (AgentService.create_tasks svc_ag (as_received r24) (direct_context ih m e) s)
   \<and> Agent_call_notify_result_data (agent_loopback ih m e svc_ag) r25 s = in_process (AgentService.notify_result_data svc_ag
       (if agent_notify_faithful r25 then r25 else r25\<lparr>agent_notify_result_data_Request.session_id := ''''\<rparr>)
       (direct_context ih m e) s)"
  by (simp add: agent_notify_loopback Agent_call_create_tasks_transparent
    Sessions_call_list_transparent Sessions_call_get_transparent Sessions_call_cancel_transparent Sessions_call_create_transparent Sessions_call_pause_transparent Sessions_call_resume_transparent Sessions_call_close_transparent Sessions_call_purge_transparent Sessions_call_delete_transparent Sessions_call_stop_submission_transparent Agent_call_create_results_metadata_transparent Agent_call_create_results_transparent Agent_call_submit_tasks_transparent Agent_call_get_resource_data_transparent Agent_call_get_common_data_transparent Agent_call_get_direct_data_transparent Partitions_call_list_transparent Partitions_call_get_transparent Applications_call_list_transparent Auth_call_current_user_transparent HealthChecks_call_check_transparent Versions_call_list_transparent Worker_call_health_check_transparent Worker_call_process_transparent)

text \<open>
  C2: the same for the task and the result service, with streams in both directions. Listing and cancelling tasks additionally
  show a failure with an empty message as a success; importing needs a handler that keys the results by their names, as the
  server side sends no other key.
\<close>

theorem tasks_results_calls_transparent:
  assumes "iterates it_ids" and "iterates it_owner" and "iterates it_raw" and "iterates it_opaque"
    and keyed: "\<And>r p s s'. ResultsService.import svc r (direct_context ih m e) s = (Inr p, s') \<Longrightarrow> keyed_by_name p"
  shows "Tasks_call_list_detailed (tasks_loopback ih it_ids m e tsvc) q0 s = in_process (TasksService.list_detailed tsvc q0 (direct_context ih m e) s)
   \<and> Tasks_call_get (tasks_loopback ih it_ids m e tsvc) q1 s = in_process (TasksService.get tsvc q1 (direct_context ih m e) s)
   \<and> Tasks_call_count_status (tasks_loopback ih it_ids m e tsvc) q2 s = in_process (TasksService.count_status tsvc q2 (direct_context ih m e) s)
   \<and> Tasks_call_submit (tasks_loopback ih it_ids m e tsvc) q3 s = in_process (TasksService.submit tsvc q3 (direct_context ih m e) s)
   \<and> Tasks_call_get_result_ids (tasks_loopback ih it_ids m e tsvc) q4 s = in_process (TasksService.get_result_ids tsvc q4 (direct_context ih m e) s)
   \<and> Tasks_call_list (tasks_loopback ih it_ids m e tsvc) qlist s = in_process (map_ok (\<lambda>p. p\<lparr>tasks_list_Response.tasks :=
       map tasks_Summary_normal (tasks_list_Response.tasks p)\<rparr>) (TasksService.list tsvc qlist (direct_context ih m e) s))
   \<and> Tasks_call_cancel (tasks_loopback ih it_ids m e tsvc) qcancel s = in_process (map_ok (\<lambda>p. p\<lparr>tasks_cancel_Response.tasks :=
       map tasks_Summary_normal (tasks_cancel_Response.tasks p)\<rparr>) (TasksService.cancel tsvc qcancel (direct_context ih m e) s))
   \<and> Results_call_list (results_loopback ih it_owner it_raw m e svc) r0 s = in_process (ResultsService.list svc r0 (direct_context ih m e) s)
   \<and> Results_call_get (results_loopback ih it_owner it_raw m e svc) r1 s = in_process (ResultsService.get svc r1 (direct_context ih m e) s)
   \<and> Results_call_create_metadata (results_loopback ih it_owner it_raw m e svc) r2 s = in_process (ResultsService.create_metadata svc r2 (direct_context ih m e) s)
   \<and> Results_call_create (results_loopback ih it_owner it_raw m e svc) r3 s = in_process (ResultsService.create svc r3 (direct_context ih m e) s)
   \<and> Results_call_delete_data (results_loopback ih it_owner it_raw m e svc) r4 s = in_process (ResultsService.delete_data svc r4 (direct_context ih m e) s)
   \<and> Results_call_get_service_configuration (results_loopback ih it_owner it_raw m e svc) r5 s = in_process (ResultsService.get_service_configuration svc r5 (direct_context ih m e) s)
   \<and> Results_call_get_owner_task_id (results_loopback ih it_owner it_raw m e svc) r6 s = in_process (ResultsService.get_owner_task_id svc r6 (direct_context ih m e) s)
   \<and> Results_call_upload (results_loopback ih it_owner it_raw m e svc) r7 s = in_process (ResultsService.upload svc (as_received r7) (direct_context ih m e) s)
   \<and> Results_call_download (results_loopback ih it_owner it_raw m e svc) r8 s = in_process_stream (ResultsService.download svc r8 (direct_context ih m e) s)
   \<and> Results_call_import it_opaque (results_loopback ih it_owner it_raw m e svc) r9 s = in_process (ResultsService.import svc r9 (direct_context ih m e) s)"
  by (simp add: Tasks_call_list_normalised Tasks_call_cancel_normalised Tasks_call_get_result_ids_transparent [OF assms(1)]
    Tasks_call_list_detailed_transparent Tasks_call_get_transparent Tasks_call_count_status_transparent Tasks_call_submit_transparent
    Results_call_get_owner_task_id_transparent [OF assms(2)]
    Results_call_import_transparent [OF assms(4,3) keyed]
    Results_call_upload_transparent Results_call_download_transparent
    Results_call_list_transparent Results_call_get_transparent Results_call_create_metadata_transparent Results_call_create_transparent Results_call_delete_data_transparent Results_call_get_service_configuration_transparent)

theorem tasks_results_calls_transparent_witness:
  "Results_call_import sorted_list_of_fmap
      (results_loopback (\<lambda>m. m) sorted_list_of_fmap sorted_list_of_fmap () () one_result_service)
      \<lparr>results_import_Request.results = fmap_of_list [(''out'', [1, 2])],
       results_import_Request.session_id = ''session''\<rparr> (0 :: nat)
     = (Inr \<lparr>results_import_Response.results =
          fmap_of_list [(''out'', results_Raw_default\<lparr>results_Raw.name := ''out''\<rparr>)]\<rparr>, 0)"
proof -
  let ?ctx = "direct_context (\<lambda>m. m) () ()"
  have keyed: "keyed_by_name p" if "ResultsService.import one_result_service r ?ctx s = (Inr p, s')"
    for r p and s s' :: nat
    using that by (auto simp: one_result_import keyed_by_name_def fmpred_iff split: if_splits)
  have "Results_call_import sorted_list_of_fmap
      (results_loopback (\<lambda>m. m) sorted_list_of_fmap sorted_list_of_fmap () () one_result_service) r (0 :: nat)
     = in_process (ResultsService.import one_result_service r ?ctx 0)" for r
    by (intro tasks_results_calls_transparent [where it_ids = sorted_list_of_fmap, THEN conjunct2, THEN conjunct2, THEN conjunct2,
          THEN conjunct2, THEN conjunct2, THEN conjunct2, THEN conjunct2, THEN conjunct2, THEN conjunct2,
          THEN conjunct2, THEN conjunct2, THEN conjunct2, THEN conjunct2, THEN conjunct2, THEN conjunct2, THEN conjunct2]
        iterates_sorted_list_of_fmap) (rule keyed)
  then show ?thesis by (simp add: one_result_import in_process_def)
qed



text \<open>
  C4: every submitter call that carries a filter reaches the handler with the inclusion and the exclusion of statuses
  exchanged; cancelling the tasks in given statuses cancels the ones in the other statuses.
\<close>

theorem submitter_filter_calls_flipped:
  assumes "iterates it_count"
  shows "Submitter_call_list_tasks (submitter_loopback ih it_count it_ts it_rs m e svc) r0 s =
       in_process (SubmitterService.list_tasks svc (r0\<lparr>submitter_list_tasks_Request.filter := (submitter_list_tasks_Request.filter r0)
         \<lparr>submitter_TaskFilter.statuses := TaskFilterStatuses_flip (submitter_TaskFilter.statuses (submitter_list_tasks_Request.filter r0))\<rparr>\<rparr>)
         (direct_context ih m e) s)
   \<and> Submitter_call_list_sessions (submitter_loopback ih it_count it_ts it_rs m e svc) r1 s =
       in_process (SubmitterService.list_sessions svc (r1\<lparr>submitter_list_sessions_Request.filter := (submitter_list_sessions_Request.filter r1)
         \<lparr>submitter_SessionFilter.statuses := SessionFilterStatuses_flip (submitter_SessionFilter.statuses (submitter_list_sessions_Request.filter r1))\<rparr>\<rparr>)
         (direct_context ih m e) s)
   \<and> Submitter_call_cancel_tasks (submitter_loopback ih it_count it_ts it_rs m e svc) r2 s =
       in_process (SubmitterService.cancel_tasks svc (r2\<lparr>submitter_cancel_tasks_Request.filter := (submitter_cancel_tasks_Request.filter r2)
         \<lparr>submitter_TaskFilter.statuses := TaskFilterStatuses_flip (submitter_TaskFilter.statuses (submitter_cancel_tasks_Request.filter r2))\<rparr>\<rparr>)
         (direct_context ih m e) s)
   \<and> Submitter_call_count_tasks (submitter_loopback ih it_count it_ts it_rs m e svc) r3 s =
       in_process (SubmitterService.count_tasks svc (r3\<lparr>submitter_count_tasks_Request.filter := (submitter_count_tasks_Request.filter r3)
         \<lparr>submitter_TaskFilter.statuses := TaskFilterStatuses_flip (submitter_TaskFilter.statuses (submitter_count_tasks_Request.filter r3))\<rparr>\<rparr>)
         (direct_context ih m e) s)
   \<and> Submitter_call_wait_for_completion (submitter_loopback ih it_count it_ts it_rs m e svc) r4 s =
       in_process (SubmitterService.wait_for_completion svc (r4\<lparr>submitter_wait_for_completion_Request.filter := (submitter_wait_for_completion_Request.filter r4)
         \<lparr>submitter_TaskFilter.statuses := TaskFilterStatuses_flip (submitter_TaskFilter.statuses (submitter_wait_for_completion_Request.filter r4))\<rparr>\<rparr>)
         (direct_context ih m e) s)"
  by (simp add: Submitter_call_count_tasks_flipped [OF assms] Submitter_call_wait_for_completion_flipped [OF assms]
    Submitter_call_list_tasks_flipped Submitter_call_list_sessions_flipped Submitter_call_cancel_tasks_flipped)

theorem submitter_filter_calls_flipped_witness:
  "\<forall>svc ids'. Submitter_call_cancel_tasks
      (submitter_loopback (\<lambda>m. m) sorted_list_of_fmap sorted_list_of_fmap sorted_list_of_fmap () () svc)
      \<lparr>submitter_cancel_tasks_Request.filter = \<lparr>submitter_TaskFilter.ids = ids',
        submitter_TaskFilter.statuses = submitter_TaskFilterStatuses.Include [TaskStatus.Error]\<rparr>\<rparr> (0 :: nat)
     = in_process (SubmitterService.cancel_tasks svc
        \<lparr>submitter_cancel_tasks_Request.filter = \<lparr>submitter_TaskFilter.ids = ids',
          submitter_TaskFilter.statuses = submitter_TaskFilterStatuses.Exclude [TaskStatus.Error]\<rparr>\<rparr>
        (direct_context (\<lambda>m. m) () ()) 0)"
  by (simp add: submitter_filter_calls_flipped [OF iterates_sorted_list_of_fmap])

text \<open>
  C5: uploading a result hands the service one stream: the identifier of the result, then every chunk in order and
  unchanged, also when the data never ends; the client returns the result the handler answers with, or its status.
\<close>

theorem upload_sends_identifier_then_chunks:
  "Results_upload (results_loopback ih it_owner it_raw m e svc) sid rid chunks s =
     map_ok results_upload_Response.result (in_process (ResultsService.upload svc
       (SCons (Inr (results_upload_Request.Identifier sid rid))
         (map_Stream (\<lambda>chunk. Inr (results_upload_Request.DataChunk chunk)) chunks))
       (direct_context ih m e) s))"
  by (simp add: Results_upload_eq Results_call_upload_transparent as_received_def Stream.map_comp o_def)

text \<open>
  C6: downloading a result, subscribing to events and reading a result from the submitter give the items the handler
  produces, in order, with a status inside the stream as a request error.
\<close>

theorem streams_received_in_order:
  "Results_download (results_loopback ih it_owner it_raw m e svc) sid rid s =
     map_ok (map_Stream (map_sum (\<lambda>err. err) results_download_Response.data_chunk))
       (in_process_stream (ResultsService.download svc
         \<lparr>results_download_Request.session_id = sid, results_download_Request.result_id = rid\<rparr> (direct_context ih m e) s))
   \<and> Events_subscribe (events_loopback ih m e esvc) sid tf rf evs s =
     in_process_stream (EventsService.subscribe esvc
       \<lparr>events_subscribe_Request.session_id = sid,
        events_subscribe_Request.task_filters = tasks_filter_collect tf,
        events_subscribe_Request.result_filters = results_filter_collect rf,
        events_subscribe_Request.returned_events = evs\<rparr> (direct_context ih m e) s)
   \<and> Submitter_try_get_result (submitter_loopback ih it_count it_ts it_rs m e ssvc) sid rid s =
     in_process_stream (SubmitterService.try_get_result ssvc
       \<lparr>submitter_try_get_result_Request.session_id = sid, submitter_try_get_result_Request.result_id = rid\<rparr>
       (direct_context ih m e) s)"
  by (simp add: Results_download_eq Results_call_download_transparent events_link_defs submitter_link_defs)

text \<open>
  C7: creating tasks, small or large, through the agent or the submitter returns the statuses of the response, turns an error
  in the response into an internal status with its message, and passes a status of the handler on. Getting the output
  of a task succeeds exactly when the handler reports success; processing a task returns the output of the worker.
\<close>

theorem task_outcomes:
  "Agent_create_tasks (agent_loopback ih m e asvc) areqs s =
     (case AgentService.create_tasks asvc (as_received areqs) (direct_context ih m e) s of
        (Inr (agent_create_tasks_Response.Status tok sts), s') \<Rightarrow> (Inr sts, s')
      | (Inr (agent_create_tasks_Response.Error tok msg), s') \<Rightarrow> (Inl (Grpc (Status_internal msg)), s')
      | (Inl st, s') \<Rightarrow> (Inl (Grpc st), s'))
   \<and> Submitter_create_small_tasks (submitter_loopback ih it_count it_ts it_rs m e svc) sid opts ts s =
     (case SubmitterService.create_small_tasks svc
         \<lparr>submitter_create_tasks_SmallRequest.session_id = sid,
          submitter_create_tasks_SmallRequest.task_options = opts,
          submitter_create_tasks_SmallRequest.task_requests = ts\<rparr> (direct_context ih m e) s of
        (Inr (submitter_create_tasks_Response.Status sts), s') \<Rightarrow> (Inr sts, s')
      | (Inr (submitter_create_tasks_Response.Error msg), s') \<Rightarrow> (Inl (Grpc (Status_internal msg)), s')
      | (Inl st, s') \<Rightarrow> (Inl (Grpc st), s'))
   \<and> Submitter_create_large_tasks (submitter_loopback ih it_count it_ts it_rs m e svc) sreqs s =
     (case SubmitterService.create_large_tasks svc (as_received sreqs) (direct_context ih m e) s of
        (Inr (submitter_create_tasks_Response.Status sts), s') \<Rightarrow> (Inr sts, s')
      | (Inr (submitter_create_tasks_Response.Error msg), s') \<Rightarrow> (Inl (Grpc (Status_internal msg)), s')
      | (Inl st, s') \<Rightarrow> (Inl (Grpc st), s'))
   \<and> Submitter_try_get_task_output (submitter_loopback ih it_count it_ts it_rs m e svc) sid tid s =
     (case SubmitterService.try_get_task_output svc
         \<lparr>submitter_try_get_task_output_Request.session_id = sid,
          submitter_try_get_task_output_Request.task_id = tid\<rparr> (direct_context ih m e) s of
        (Inr Output.Ok, s') \<Rightarrow> (Inr (), s')
      | (Inr (Output.Error msg), s') \<Rightarrow> (Inl (Grpc (Status_internal msg)), s')
      | (Inl st, s') \<Rightarrow> (Inl (Grpc st), s'))
   \<and> Worker_process (worker_loopback ih m e wsvc) req s =
     (case WorkerService.process wsvc req (direct_context ih m e) s of
        (Inr p, s') \<Rightarrow> (Inr (worker_process_Response.output p), s')
      | (Inl st, s') \<Rightarrow> (Inl (Grpc st), s'))"
  by (simp add: Agent_create_tasks_def Agent_call_create_tasks_transparent
      Submitter_create_small_tasks_def Submitter_call_create_small_tasks_transparent
      Submitter_create_large_tasks_def Submitter_call_create_large_tasks_transparent
      Submitter_try_get_task_output_def Submitter_call_try_get_task_output_transparent
      Worker_process_def Worker_call_process_transparent creation_statuses_of_def in_process_def
      split: prod.split sum.split agent_create_tasks_Response.split submitter_create_tasks_Response.split
        Output.split)

text \<open>
  C8: every raw call and every method of the twelve service clients makes exactly one remote call, to its own procedure: none is
  wired to another one's, none retries and none calls nothing, streaming calls included.
\<close>

theorem client_calls_once:
  "calls (Sessions_call_list (sessions_recording sessions_cl) a0_0 (l, c)) = l @ [(''Sessions'', ''ListSessions'')]
   \<and> calls (Sessions_call_get (sessions_recording sessions_cl) a1_0 (l, c)) = l @ [(''Sessions'', ''GetSession'')]
   \<and> calls (Sessions_call_cancel (sessions_recording sessions_cl) a2_0 (l, c)) = l @ [(''Sessions'', ''CancelSession'')]
   \<and> calls (Sessions_call_create (sessions_recording sessions_cl) a3_0 (l, c)) = l @ [(''Sessions'', ''CreateSession'')]
   \<and> calls (Sessions_call_pause (sessions_recording sessions_cl) a4_0 (l, c)) = l @ [(''Sessions'', ''PauseSession'')]
   \<and> calls (Sessions_call_resume (sessions_recording sessions_cl) a5_0 (l, c)) = l @ [(''Sessions'', ''ResumeSession'')]
   \<and> calls (Sessions_call_close (sessions_recording sessions_cl) a6_0 (l, c)) = l @ [(''Sessions'', ''CloseSession'')]
   \<and> calls (Sessions_call_purge (sessions_recording sessions_cl) a7_0 (l, c)) = l @ [(''Sessions'', ''PurgeSession'')]
   \<and> calls (Sessions_call_delete (sessions_recording sessions_cl) a8_0 (l, c)) = l @ [(''Sessions'', ''DeleteSession'')]
   \<and> calls (Sessions_call_stop_submission (sessions_recording sessions_cl) a9_0 (l, c)) = l @ [(''Sessions'', ''StopSubmission'')]
   \<and> calls (Sessions_list (sessions_recording sessions_cl) a10_0 a10_1 a10_2 a10_3 a10_4 (l, c)) = l @ [(''Sessions'', ''ListSessions'')]
   \<and> calls (Sessions_get (sessions_recording sessions_cl) a11_0 (l, c)) = l @ [(''Sessions'', ''GetSession'')]
   \<and> calls (Sessions_cancel (sessions_recording sessions_cl) a12_0 (l, c)) = l @ [(''Sessions'', ''CancelSession'')]
   \<and> calls (Sessions_create (sessions_recording sessions_cl) a13_0 a13_1 (l, c)) = l @ [(''Sessions'', ''CreateSession'')]
   \<and> calls (Sessions_pause (sessions_recording sessions_cl) a14_0 (l, c)) = l @ [(''Sessions'', ''PauseSession'')]
   \<and> calls (Sessions_resume (sessions_recording sessions_cl) a15_0 (l, c)) = l @ [(''Sessions'', ''ResumeSession'')]
   \<and> calls (Sessions_close (sessions_recording sessions_cl) a16_0 (l, c)) = l @ [(''Sessions'', ''CloseSession'')]
   \<and> calls (Sessions_purge (sessions_recording sessions_cl) a17_0 (l, c)) = l @ [(''Sessions'', ''PurgeSession'')]
   \<and> calls (Sessions_delete (sessions_recording sessions_cl) a18_0 (l, c)) = l @ [(''Sessions'', ''DeleteSession'')]
   \<and> calls (Sessions_stop_submission (sessions_recording sessions_cl) a19_0 a19_1 a19_2 (l, c)) = l @ [(''Sessions'', ''StopSubmission'')]
   \<and> calls (Tasks_call_list (tasks_recording tasks_cl) a20_0 (l, c)) = l @ [(''Tasks'', ''ListTasks'')]
   \<and> calls (Tasks_call_list_detailed (tasks_recording tasks_cl) a21_0 (l, c)) = l @ [(''Tasks'', ''ListTasksDetailed'')]
   \<and> calls (Tasks_call_get (tasks_recording tasks_cl) a22_0 (l, c)) = l @ [(''Tasks'', ''GetTask'')]
   \<and> calls (Tasks_call_cancel (tasks_recording tasks_cl) a23_0 (l, c)) = l @ [(''Tasks'', ''CancelTasks'')]
   \<and> calls (Tasks_call_get_result_ids (tasks_recording tasks_cl) a24_0 (l, c)) = l @ [(''Tasks'', ''GetResultIds'')]
   \<and> calls (Tasks_call_count_status (tasks_recording tasks_cl) a25_0 (l, c)) = l @ [(''Tasks'', ''CountTasksByStatus'')]
   \<and> calls (Tasks_call_submit (tasks_recording tasks_cl) a26_0 (l, c)) = l @ [(''Tasks'', ''SubmitTasks'')]
   \<and> calls (Tasks_list (tasks_recording tasks_cl) a27_0 a27_1 a27_2 a27_3 a27_4 (l, c)) = l @ [(''Tasks'', ''ListTasks'')]
   \<and> calls (Tasks_list_detailed (tasks_recording tasks_cl) a28_0 a28_1 a28_2 a28_3 a28_4 (l, c)) = l @ [(''Tasks'', ''ListTasksDetailed'')]
   \<and> calls (Tasks_get (tasks_recording tasks_cl) a29_0 (l, c)) = l @ [(''Tasks'', ''GetTask'')]
   \<and> calls (Tasks_cancel (tasks_recording tasks_cl) a30_0 (l, c)) = l @ [(''Tasks'', ''CancelTasks'')]
   \<and> calls (Tasks_get_result_ids (tasks_recording tasks_cl) a31_0 (l, c)) = l @ [(''Tasks'', ''GetResultIds'')]
   \<and> calls (Tasks_count_status (tasks_recording tasks_cl) a32_0 (l, c)) = l @ [(''Tasks'', ''CountTasksByStatus'')]
   \<and> calls (Tasks_submit (tasks_recording tasks_cl) a33_0 a33_1 a33_2 (l, c)) = l @ [(''Tasks'', ''SubmitTasks'')]
   \<and> calls (Results_call_list (results_recording results_cl) a34_0 (l, c)) = l @ [(''Results'', ''ListResults'')]
   \<and> calls (Results_call_get (results_recording results_cl) a35_0 (l, c)) = l @ [(''Results'', ''GetResult'')]
   \<and> calls (Results_call_get_owner_task_id (results_recording results_cl) a36_0 (l, c)) = l @ [(''Results'', ''GetOwnerTaskId'')]
   \<and> calls (Results_call_create_metadata (results_recording results_cl) a37_0 (l, c)) = l @ [(''Results'', ''CreateResultsMetaData'')]
   \<and> calls (Results_call_create (results_recording results_cl) a38_0 (l, c)) = l @ [(''Results'', ''CreateResults'')]
   \<and> calls (Results_call_delete_data (results_recording results_cl) a39_0 (l, c)) = l @ [(''Results'', ''DeleteResultsData'')]
   \<and> calls (Results_call_get_service_configuration (results_recording results_cl) a40_0 (l, c)) = l @ [(''Results'', ''GetServiceConfiguration'')]
   \<and> calls (Results_call_import it_opaque (results_recording results_cl) a41_0 (l, c)) = l @ [(''Results'', ''ImportResultsData'')]
   \<and> calls (Results_call_download (results_recording results_cl) a42_0 (l, c)) = l @ [(''Results'', ''DownloadResultData'')]
   \<and> calls (Results_call_upload (results_recording results_cl) a43_0 (l, c)) = l @ [(''Results'', ''UploadResultData'')]
   \<and> calls (Results_list (results_recording results_cl) a44_0 a44_1 a44_2 a44_3 (l, c)) = l @ [(''Results'', ''ListResults'')]
   \<and> calls (Results_get (results_recording results_cl) a45_0 (l, c)) = l @ [(''Results'', ''GetResult'')]
   \<and> calls (Results_get_owner_task_id (results_recording results_cl) a46_0 a46_1 (l, c)) = l @ [(''Results'', ''GetOwnerTaskId'')]
   \<and> calls (Results_create_metadata (results_recording results_cl) a47_0 a47_1 (l, c)) = l @ [(''Results'', ''CreateResultsMetaData'')]
   \<and> calls (Results_create (results_recording results_cl) a48_0 a48_1 (l, c)) = l @ [(''Results'', ''CreateResults'')]
   \<and> calls (Results_delete_data (results_recording results_cl) a49_0 a49_1 (l, c)) = l @ [(''Results'', ''DeleteResultsData'')]
   \<and> calls (Results_get_service_configuration (results_recording results_cl) (l, c)) = l @ [(''Results'', ''GetServiceConfiguration'')]
   \<and> calls (Results_import it_opaque (results_recording results_cl) a51_0 a51_1 (l, c)) = l @ [(''Results'', ''ImportResultsData'')]
   \<and> calls (Results_upload (results_recording results_cl) a52_0 a52_1 a52_2 (l, c)) = l @ [(''Results'', ''UploadResultData'')]
   \<and> calls (Results_download (results_recording results_cl) a53_0 a53_1 (l, c)) = l @ [(''Results'', ''DownloadResultData'')]
   \<and> calls (Agent_call_create_results_metadata (agent_recording agent_cl) a54_0 (l, c)) = l @ [(''Agent'', ''CreateResultsMetaData'')]
   \<and> calls (Agent_call_create_results (agent_recording agent_cl) a55_0 (l, c)) = l @ [(''Agent'', ''CreateResults'')]
   \<and> calls (Agent_call_notify_result_data (agent_recording agent_cl) a56_0 (l, c)) = l @ [(''Agent'', ''NotifyResultData'')]
   \<and> calls (Agent_call_submit_tasks (agent_recording agent_cl) a57_0 (l, c)) = l @ [(''Agent'', ''SubmitTasks'')]
   \<and> calls (Agent_call_get_resource_data (agent_recording agent_cl) a58_0 (l, c)) = l @ [(''Agent'', ''GetResourceData'')]
   \<and> calls (Agent_call_get_common_data (agent_recording agent_cl) a59_0 (l, c)) = l @ [(''Agent'', ''GetCommonData'')]
   \<and> calls (Agent_call_get_direct_data (agent_recording agent_cl) a60_0 (l, c)) = l @ [(''Agent'', ''GetDirectData'')]
   \<and> calls (Agent_call_create_tasks (agent_recording agent_cl) a61_0 (l, c)) = l @ [(''Agent'', ''CreateTask'')]
   \<and> calls (Agent_notify_result_data (agent_recording agent_cl) a62_0 a62_1 a62_2 (l, c)) = l @ [(''Agent'', ''NotifyResultData'')]
   \<and> calls (Agent_submit_tasks (agent_recording agent_cl) a63_0 a63_1 a63_2 a63_3 (l, c)) = l @ [(''Agent'', ''SubmitTasks'')]
   \<and> calls (Agent_create_results_metadata (agent_recording agent_cl) a64_0 a64_1 a64_2 (l, c)) = l @ [(''Agent'', ''CreateResultsMetaData'')]
   \<and> calls (Agent_create_results (agent_recording agent_cl) a65_0 a65_1 a65_2 (l, c)) = l @ [(''Agent'', ''CreateResults'')]
   \<and> calls (Agent_create_tasks (agent_recording agent_cl) a66_0 (l, c)) = l @ [(''Agent'', ''CreateTask'')]
   \<and> calls (Submitter_call_get_service_configuration (submitter_recording submitter_cl) a67_0 (l, c)) = l @ [(''Submitter'', ''GetServiceConfiguration'')]
   \<and> calls (Submitter_call_create_session (submitter_recording submitter_cl) a68_0 (l, c)) = l @ [(''Submitter'', ''CreateSession'')]
   \<and> calls (Submitter_call_cancel_session (submitter_recording submitter_cl) a69_0 (l, c)) = l @ [(''Submitter'', ''CancelSession'')]
   \<and> calls (Submitter_call_create_small_tasks (submitter_recording submitter_cl) a70_0 (l, c)) = l @ [(''Submitter'', ''CreateSmallTasks'')]
   \<and> calls (Submitter_call_list_tasks (submitter_recording submitter_cl) a71_0 (l, c)) = l @ [(''Submitter'', ''ListTasks'')]
   \<and> calls (Submitter_call_list_sessions (submitter_recording submitter_cl) a72_0 (l, c)) = l @ [(''Submitter'', ''ListSessions'')]
   \<and> calls (Submitter_call_count_tasks (submitter_recording submitter_cl) a73_0 (l, c)) = l @ [(''Submitter'', ''CountTasks'')]
   \<and> calls (Submitter_call_try_get_result (submitter_recording submitter_cl) a74_0 (l, c)) = l @ [(''Submitter'', ''TryGetResultStream'')]
   \<and> calls (Submitter_call_try_get_task_output (submitter_recording submitter_cl) a75_0 (l, c)) = l @ [(''Submitter'', ''TryGetTaskOutput'')]
   \<and> calls (Submitter_call_wait_for_availability (submitter_recording submitter_cl) a76_0 (l, c)) = l @ [(''Submitter'', ''WaitForAvailability'')]
   \<and> calls (Submitter_call_wait_for_completion (submitter_recording submitter_cl) a77_0 (l, c)) = l @ [(''Submitter'', ''WaitForCompletion'')]
   \<and> calls (Submitter_call_cancel_tasks (submitter_recording submitter_cl) a78_0 (l, c)) = l @ [(''Submitter'', ''CancelTasks'')]
   \<and> calls (Submitter_call_task_status (submitter_recording submitter_cl) a79_0 (l, c)) = l @ [(''Submitter'', ''GetTaskStatus'')]
   \<and> calls (Submitter_call_result_status (submitter_recording submitter_cl) a80_0 (l, c)) = l @ [(''Submitter'', ''GetResultStatus'')]
   \<and> calls (Submitter_call_create_large_tasks (submitter_recording submitter_cl) a81_0 (l, c)) = l @ [(''Submitter'', ''CreateLargeTasks'')]
   \<and> calls (Submitter_get_service_configuration (submitter_recording submitter_cl) (l, c)) = l @ [(''Submitter'', ''GetServiceConfiguration'')]
   \<and> calls (Submitter_create_session (submitter_recording submitter_cl) a83_0 a83_1 (l, c)) = l @ [(''Submitter'', ''CreateSession'')]
   \<and> calls (Submitter_cancel_session (submitter_recording submitter_cl) a84_0 (l, c)) = l @ [(''Submitter'', ''CancelSession'')]
   \<and> calls (Submitter_list_tasks (submitter_recording submitter_cl) a85_0 (l, c)) = l @ [(''Submitter'', ''ListTasks'')]
   \<and> calls (Submitter_list_sessions (submitter_recording submitter_cl) a86_0 (l, c)) = l @ [(''Submitter'', ''ListSessions'')]
   \<and> calls (Submitter_count_tasks (submitter_recording submitter_cl) a87_0 (l, c)) = l @ [(''Submitter'', ''CountTasks'')]
   \<and> calls (Submitter_wait_for_availability (submitter_recording submitter_cl) a88_0 a88_1 (l, c)) = l @ [(''Submitter'', ''WaitForAvailability'')]
   \<and> calls (Submitter_wait_for_completion (submitter_recording submitter_cl) a89_0 a89_1 a89_2 (l, c)) = l @ [(''Submitter'', ''WaitForCompletion'')]
   \<and> calls (Submitter_cancel_tasks (submitter_recording submitter_cl) a90_0 (l, c)) = l @ [(''Submitter'', ''CancelTasks'')]
   \<and> calls (Submitter_task_status (submitter_recording submitter_cl) a91_0 (l, c)) = l @ [(''Submitter'', ''GetTaskStatus'')]
   \<and> calls (Submitter_result_status (submitter_recording submitter_cl) a92_0 a92_1 (l, c)) = l @ [(''Submitter'', ''GetResultStatus'')]
   \<and> calls (Submitter_create_small_tasks (submitter_recording submitter_cl) a93_0 a93_1 a93_2 (l, c)) = l @ [(''Submitter'', ''CreateSmallTasks'')]
   \<and> calls (Submitter_create_large_tasks (submitter_recording submitter_cl) a94_0 (l, c)) = l @ [(''Submitter'', ''CreateLargeTasks'')]
   \<and> calls (Submitter_try_get_result (submitter_recording submitter_cl) a95_0 a95_1 (l, c)) = l @ [(''Submitter'', ''TryGetResultStream'')]
   \<and> calls (Submitter_try_get_task_output (submitter_recording submitter_cl) a96_0 a96_1 (l, c)) = l @ [(''Submitter'', ''TryGetTaskOutput'')]
   \<and> calls (Events_call_subscribe (events_recording events_cl) a97_0 (l, c)) = l @ [(''Events'', ''GetEvents'')]
   \<and> calls (Events_subscribe (events_recording events_cl) a98_0 a98_1 a98_2 a98_3 (l, c)) = l @ [(''Events'', ''GetEvents'')]
   \<and> calls (Worker_call_health_check (worker_recording worker_cl) a99_0 (l, c)) = l @ [(''Worker'', ''HealthCheck'')]
   \<and> calls (Worker_call_process (worker_recording worker_cl) a100_0 (l, c)) = l @ [(''Worker'', ''Process'')]
   \<and> calls (Worker_health_check (worker_recording worker_cl) (l, c)) = l @ [(''Worker'', ''HealthCheck'')]
   \<and> calls (Worker_process (worker_recording worker_cl) a102_0 (l, c)) = l @ [(''Worker'', ''Process'')]
   \<and> calls (Partitions_call_list (partitions_recording partitions_cl) a103_0 (l, c)) = l @ [(''Partitions'', ''ListPartitions'')]
   \<and> calls (Partitions_call_get (partitions_recording partitions_cl) a104_0 (l, c)) = l @ [(''Partitions'', ''GetPartition'')]
   \<and> calls (Partitions_list (partitions_recording partitions_cl) a105_0 a105_1 a105_2 a105_3 (l, c)) = l @ [(''Partitions'', ''ListPartitions'')]
   \<and> calls (Partitions_get (partitions_recording partitions_cl) a106_0 (l, c)) = l @ [(''Partitions'', ''GetPartition'')]
   \<and> calls (Applications_call_list (applications_recording applications_cl) a107_0 (l, c)) = l @ [(''Applications'', ''ListApplications'')]
   \<and> calls (Applications_list (applications_recording applications_cl) a108_0 a108_1 a108_2 a108_3 (l, c)) = l @ [(''Applications'', ''ListApplications'')]
   \<and> calls (Auth_call_current_user (auth_recording auth_cl) a109_0 (l, c)) = l @ [(''Authentication'', ''GetCurrentUser'')]
   \<and> calls (Auth_current_user (auth_recording auth_cl) (l, c)) = l @ [(''Authentication'', ''GetCurrentUser'')]
   \<and> calls (HealthChecks_call_check (health_checks_recording health_checks_cl) a111_0 (l, c)) = l @ [(''HealthChecksService'', ''CheckHealth'')]
   \<and> calls (HealthChecks_check (health_checks_recording health_checks_cl) (l, c)) = l @ [(''HealthChecksService'', ''CheckHealth'')]
   \<and> calls (Versions_call_list (versions_recording versions_cl) a113_0 (l, c)) = l @ [(''Versions'', ''ListVersions'')]
   \<and> calls (Versions_list (versions_recording versions_cl) (l, c)) = l @ [(''Versions'', ''ListVersions'')]"
  by (simp add: sessions_raw_calls_once sessions_methods_call_once tasks_raw_calls_once tasks_methods_call_once results_raw_calls_once results_methods_call_once results_other_methods_call_once agent_raw_calls_once agent_methods_call_once agent_other_methods_call_once submitter_raw_calls_once submitter_methods_call_once submitter_other_methods_call_once events_methods_call_once worker_raw_calls_once worker_methods_call_once Worker_process_calls_once partitions_raw_calls_once partitions_methods_call_once applications_raw_calls_once applications_methods_call_once auth_raw_calls_once auth_methods_call_once health_checks_raw_calls_once health_checks_methods_call_once versions_raw_calls_once versions_methods_call_once)

text \<open>
  C9: the 110 unit tests of the service clients pass against the mock server, whatever calls it has received before: the
  answer of each is one that the test accepts, the counter it reads is one that the mock keeps, it is the counter of the
  procedure that the call reaches, and it goes up by one. The client is taken to connect. The hypothesis leaves room in the counters, which have 64 bits.
\<close>

theorem client_tests_pass:
  assumes "length l < 2 ^ 63 - 1"
  shows "list_all (\<lambda>t. counted mock_counter (\<lambda>_. Some (agent_recording agent_mock)) t (l, c)) Agent_tests
   \<and> list_all (\<lambda>t. counted mock_counter (\<lambda>_. Some (applications_recording applications_mock)) t (l, c)) Applications_tests
   \<and> list_all (\<lambda>t. counted mock_counter (\<lambda>_. Some (auth_recording auth_mock)) t (l, c)) Auth_tests
   \<and> list_all (\<lambda>t. counted mock_counter (\<lambda>_. Some (events_recording events_mock)) t (l, c)) Events_tests
   \<and> list_all (\<lambda>t. counted mock_counter (\<lambda>_. Some (health_checks_recording health_checks_mock)) t (l, c)) HealthChecks_tests
   \<and> list_all (\<lambda>t. counted mock_counter (\<lambda>_. Some (partitions_recording partitions_mock)) t (l, c)) Partitions_tests
   \<and> list_all (\<lambda>t. counted mock_counter (\<lambda>_. Some (results_recording results_mock)) t (l, c)) (Results_tests it_opaque)
   \<and> list_all (\<lambda>t. counted mock_counter (\<lambda>_. Some (sessions_recording sessions_mock)) t (l, c)) Sessions_tests
   \<and> list_all (\<lambda>t. counted mock_counter (\<lambda>_. Some (submitter_recording submitter_mock)) t (l, c)) Submitter_tests
   \<and> list_all (\<lambda>t. counted mock_counter (\<lambda>_. Some (tasks_recording tasks_mock)) t (l, c)) Tasks_tests
   \<and> list_all (\<lambda>t. counted mock_counter (\<lambda>_. Some (versions_recording (versions_mock api_version))) t (l, c)) Versions_tests"
  using assms by (simp add: Agent_tests_pass Applications_tests_pass Auth_tests_pass Events_tests_pass HealthChecks_tests_pass Partitions_tests_pass Results_tests_pass Sessions_tests_pass Submitter_tests_pass Tasks_tests_pass Versions_tests_pass)

theorem client_tests_pass_witness:
  "list_all (\<lambda>t. counted mock_counter (\<lambda>_. Some (agent_recording agent_mock)) t ([(''Agent'', ''CreateTask'')], 0 :: nat))
     Agent_tests"
  by (rule client_tests_pass [THEN conjunct1]) simp

text \<open>
  C10: the integration tests that depend on no clock pass: a client connected to the service that its test starts gets what
  the test asserts, over streams in both directions too, and the statuses of a service that fails; the service of the
  submitter also checks what it receives and records the call. Hash maps may iterate in any order.
\<close>

theorem integration_tests_pass:
  assumes "iterates it_ids" and "iterates it_owner" and "iterates it_raw" and "iterates it_opaque"
    and "iterates it_count" and "iterates it_ts" and "iterates it_rs"
  shows "list_all (\<lambda>t. t (tasks_loopback ih it_ids m e (tasks_test_service None)) s) Tasks_integration
   \<and> list_all (\<lambda>t. t (results_loopback ih it_owner it_raw m e (results_test_service False None svc_re)) s) (Results_integration it_opaque)
   \<and> list_all (\<lambda>t. t (sessions_loopback ih m e (sessions_test_service None)) s) Sessions_integration
   \<and> list_all (\<lambda>t. t (agent_loopback ih m e (agent_test_service None svc_ag)) s) Agent_integration
   \<and> list_all (\<lambda>t. t (partitions_loopback ih m e (partitions_test_service None)) s) Partitions_integration
   \<and> list_all (\<lambda>t. t (applications_loopback ih m e (applications_test_service None)) s) Applications_integration
   \<and> list_all (\<lambda>t. t (auth_loopback ih m e (auth_test_service None)) s) Auth_integration
   \<and> list_all (\<lambda>t. t (versions_loopback ih m e (versions_test_service None)) s) Versions_integration
   \<and> list_all (\<lambda>t. t (worker_loopback ih m e (worker_test_service None)) s) Worker_integration
   \<and> list_all (\<lambda>(expected, t). t (submitter_loopback ih it_count it_ts it_rs m e
       (submitter_test_service expected svc_su)) called) (Submitter_integration it_ts it_rs)
   \<and> Results_integration_get_failure (results_loopback ih it_owner it_raw m e (results_test_service early
       (Some \<lparr>tonic_Status.code = Code.InvalidArgument, tonic_Status.message = ''rpc-get-error''\<rparr>) svc_re)) s
   \<and> Results_integration_download_failure_early (results_loopback ih it_owner it_raw m e (results_test_service True
       (Some \<lparr>tonic_Status.code = Code.InvalidArgument, tonic_Status.message = ''rpc-download-early-error''\<rparr>) svc_re)) s
   \<and> Results_integration_download_failure_late (results_loopback ih it_owner it_raw m e (results_test_service False
       (Some \<lparr>tonic_Status.code = Code.InvalidArgument, tonic_Status.message = ''rpc-download-late-error''\<rparr>) svc_re)) s
   \<and> Results_integration_upload_failure_end (results_loopback ih it_owner it_raw m e (results_test_service False
       (Some \<lparr>tonic_Status.code = Code.InvalidArgument, tonic_Status.message = ''rpc-download-late-error''\<rparr>) svc_re)) s"
  by (intro conjI Tasks_integration_passes Results_integration_passes Sessions_integration_passes Agent_integration_passes Partitions_integration_passes Applications_integration_passes Auth_integration_passes Versions_integration_passes Worker_integration_passes Submitter_integration_passes
      Results_integration_failures_pass assms)

theorem integration_tests_pass_witness:
  "list_all (\<lambda>t. t (tasks_loopback (\<lambda>m. m) sorted_list_of_fmap () () (tasks_test_service None)) (0 :: nat)) Tasks_integration"
  by (rule integration_tests_pass [where it_owner = sorted_list_of_fmap and it_raw = sorted_list_of_fmap
        and it_opaque = sorted_list_of_fmap and it_count = sorted_list_of_fmap and it_ts = sorted_list_of_fmap
        and it_rs = sorted_list_of_fmap, THEN conjunct1]) (rule iterates_sorted_list_of_fmap)+

text \<open>
  C11: the \<^verbatim>\<open>ServerStream\<close> of a streaming procedure keeps moving: where the handler's stream delivers \<open>S\<close>, enough polls bring
  the first \<open>k\<close> encoded items of \<open>S\<close>, for every \<open>k\<close>, and what has been received at any moment is a prefix of
  them. The task contexts (wakers) make no difference.
\<close>

theorem response_streams_progress:
  assumes "delivers p s S"
  shows "delivers ServerStream_poll_next (response_stream enc p s) (map_Stream (map_sum (\<lambda>e. e) enc) S)
   \<and> (\<exists>N. \<forall>cxs. N \<le> length cxs \<longrightarrow>
        take k (poll_items ServerStream_poll_next cxs (response_stream enc p s)) =
        stake k (map_Stream (map_sum (\<lambda>e. e) enc) S))
   \<and> (\<exists>n. poll_items ServerStream_poll_next cxs (response_stream enc p s) =
        stake n (map_Stream (map_sum (\<lambda>e. e) enc) S))"
  using response_stream_delivers [OF assms]
    poll_items_progress [OF response_stream_delivers [OF assms]]
    poll_items_prefix [OF response_stream_delivers [OF assms]]
  by blast

theorem response_streams_progress_witness:
  "\<exists>N. \<forall>cxs :: unit list. N \<le> length cxs \<longrightarrow>
     take 3 (poll_items ServerStream_poll_next cxs
       (response_stream Suc lazy_poll (False, [Inr 1, Inr 2, Inl (Status_internal ''lost'')])))
     = [Inr 2, Inr 3, Inl (Status_internal ''lost'')]"
  using response_streams_progress
      [OF lazy_poll_delivers [of False "[Inr 1, Inr 2, Inl (Status_internal ''lost'')]"], of Suc 3 "[]",
        THEN conjunct2, THEN conjunct1]
  by (simp add: numeral_3_eq_3 numeral_2_eq_2)

text \<open>
  C12: a server-streaming procedure run on streams that are polled implements the one on whole streams, for which the
  transparency of the calls is proved: same status, same new state, and a stream that delivers the same items.
\<close>

theorem polled_server_refines:
  assumes "\<And>r ctx s. stream_refines p (h r ctx s) (g r ctx s)"
  shows "stream_refines ServerStream_poll_next
    (polled_stream_server ih dec enc p h req s) (server_stream_server ih dec enc g req s)"
  using assms by (rule polled_stream_server_refines)

theorem polled_server_refines_witness:
  "stream_refines (ServerStream_poll_next :: (unit, _, _) poller)
     (polled_stream_server (\<lambda>m :: unit. m) (\<lambda>w :: nat. w) (\<lambda>p :: nat. p) lazy_poll
        (\<lambda>r ctx n. (Inr (False, replicate r (Inr n)), n + r)) (direct_request () () 2) 5)
     (server_stream_server (\<lambda>m :: unit. m) (\<lambda>w :: nat. w) (\<lambda>p :: nat. p)
        (\<lambda>r ctx n. (Inr (stream_iter (replicate r (Inr n))), n + r)) (direct_request () () 2) 5)"
  by (rule polled_server_refines) (simp add: stream_refines_def lazy_poll_delivers)

text \<open>
  C13: a \<^verbatim>\<open>Client\<close> stands for its channel: any sequence of readiness polls and calls that a service client makes on it, owned
  or by a mutable reference, is that sequence on the channel, with the same answers, and no other client in memory
  changes. The accessors give each of the twelve generated clients that transport, and each server constructor builds
  the server of its service.
\<close>

theorem client_stands_for_its_channel:
  "transact (GrpcService_for_Client G) ops c =
     (case transact G ops (Client.channel c) of (rs, ch) \<Rightarrow> (rs, c\<lparr>Client.channel := ch\<rparr>))
   \<and> transact (GrpcService_for_Client_mut G) ops (a, mem) =
     (case transact G ops (Client.channel (mem a)) of
        (rs, ch) \<Rightarrow> (rs, (a, mem(a := (mem a)\<lparr>Client.channel := ch\<rparr>))))
   \<and> owned_stubs new_owned c = map (\<lambda>k. new_owned k c) generated_clients
   \<and> borrowed_stubs new_borrowed a = map (\<lambda>k. new_borrowed k a) generated_clients
   \<and> all_servers serve h = map (\<lambda>k. serve (server_of k) h) generated_clients
   \<and> distinct generated_clients \<and> set generated_clients = UNIV"
  by (auto simp: owned.transact_proxy borrowed.transact_proxy owned_stubs_eq borrowed_stubs_eq all_servers_eq
      generated_clients_all split: prod.split)

text \<open>
  The two procedures that the servers leave out answer every request with the unimplemented status and do not touch the
  state of the service.
\<close>

lemma watch_results_unimplemented:
  "v3_results_ResultsClient.watch_results (results_loopback ih it_owner it_raw m e svc) ws s =
     (Inl \<lparr>tonic_Status.code = Code.Unimplemented, tonic_Status.message = ''Results::WatchResults is not implemented''\<rparr>, s)
   \<and> v3_submitter_SubmitterClient.watch_results (submitter_loopback ih it_count it_ts it_rs m e ssvc) ws' s' =
     (Inl \<lparr>tonic_Status.code = Code.Unimplemented, tonic_Status.message = ''Submitter::WatchResults is not implemented''\<rparr>, s')"
  by (simp add: results_loopback_def ResultsService_watch_results_def submitter_loopback_def
      SubmitterService_watch_results_def Status_unimplemented_def)

text \<open>
  Against the mock server each of the 110 unit tests of the service clients passes exactly when the answer to its call
  is one that it accepts: the counter it reads is one that the mock keeps, it is the counter of the procedure that the call
  reaches, and it goes up by one. The hypothesis leaves room in the counters, which have 64 bits.
\<close>

lemma client_tests_decided_by_answers:
  assumes "length l < 2 ^ 63 - 1"
  shows "map (\<lambda>t. counted mock_counter (\<lambda>_. Some (agent_recording cl_agent)) t (l, c)) Agent_tests =
       map (\<lambda>t. fst (test_call t cl_agent c)) Agent_tests
   \<and> map (\<lambda>t. counted mock_counter (\<lambda>_. Some (applications_recording cl_applications)) t (l, c)) Applications_tests =
       map (\<lambda>t. fst (test_call t cl_applications c)) Applications_tests
   \<and> map (\<lambda>t. counted mock_counter (\<lambda>_. Some (auth_recording cl_auth)) t (l, c)) Auth_tests =
       map (\<lambda>t. fst (test_call t cl_auth c)) Auth_tests
   \<and> map (\<lambda>t. counted mock_counter (\<lambda>_. Some (events_recording cl_events)) t (l, c)) Events_tests =
       map (\<lambda>t. fst (test_call t cl_events c)) Events_tests
   \<and> map (\<lambda>t. counted mock_counter (\<lambda>_. Some (health_checks_recording cl_health_checks)) t (l, c)) HealthChecks_tests =
       map (\<lambda>t. fst (test_call t cl_health_checks c)) HealthChecks_tests
   \<and> map (\<lambda>t. counted mock_counter (\<lambda>_. Some (partitions_recording cl_partitions)) t (l, c)) Partitions_tests =
       map (\<lambda>t. fst (test_call t cl_partitions c)) Partitions_tests
   \<and> map (\<lambda>t. counted mock_counter (\<lambda>_. Some (results_recording cl_results)) t (l, c)) (Results_tests it_opaque) =
       map (\<lambda>t. fst (test_call t cl_results c)) (Results_tests it_opaque)
   \<and> map (\<lambda>t. counted mock_counter (\<lambda>_. Some (sessions_recording cl_sessions)) t (l, c)) Sessions_tests =
       map (\<lambda>t. fst (test_call t cl_sessions c)) Sessions_tests
   \<and> map (\<lambda>t. counted mock_counter (\<lambda>_. Some (submitter_recording cl_submitter)) t (l, c)) Submitter_tests =
       map (\<lambda>t. fst (test_call t cl_submitter c)) Submitter_tests
   \<and> map (\<lambda>t. counted mock_counter (\<lambda>_. Some (tasks_recording cl_tasks)) t (l, c)) Tasks_tests =
       map (\<lambda>t. fst (test_call t cl_tasks c)) Tasks_tests
   \<and> map (\<lambda>t. counted mock_counter (\<lambda>_. Some (versions_recording cl_versions)) t (l, c)) Versions_tests =
       map (\<lambda>t. fst (test_call t cl_versions c)) Versions_tests"
  using assms by (simp add: Agent_tests_iff Applications_tests_iff Auth_tests_iff Events_tests_iff HealthChecks_tests_iff Partitions_tests_iff Results_tests_iff Sessions_tests_iff Submitter_tests_iff Tasks_tests_iff Versions_tests_iff)

section \<open>Configuration and connection\<close>

text \<open>
  C14: creating a client from the environment (\<^verbatim>\<open>Client::new\<close>) panics in one case only, and always in that one: an
  accepted override target whose host rustls refuses as a server name, once the verifier and the client certificate are set
  up. The hypothesis is the documented assertion of tower's \<^verbatim>\<open>Rate::new\<close>: connecting panics only on a rate limit with a
  zero count or a zero period. The checks of \<^verbatim>\<open>from_config_args\<close> on the rate limit exclude both.
\<close>

theorem client_new_panics_only_on_server_name:
  assumes panics: "\<And>ep h p. connect_with_connector libs ep h = Outcome.Panic p \<Longrightarrow>
      \<exists>n d. Endpoint.rate_limit ep = Some (n, d) \<and> (n = 0 \<or> Duration_is_zero d)"
  shows "Client_new clibs libs env = Outcome.Panic p \<longleftrightarrow>
     p = ''A valid URI host should be a valid ServerName''
   \<and> (\<exists>c target e. ClientConfig_from_env clibs env = Inr c
        \<and> ClientConfig.override_target c = Some target
        \<and> server_name_try_from libs (case uri_host libs target of None \<Rightarrow> '''' | Some h \<Rightarrow> h) = Inl e
        \<and> safe_default_protocol_versions libs = Inr ()
        \<and> (\<exists>v. configure_verification libs c = Outcome.Ok v) \<and> (\<exists>a. configure_client_auth libs c = Outcome.Ok a))"
proof -
  have "connect_with_connector libs (transport_endpoint c) h \<noteq> Outcome.Panic p"
    if c: "ClientConfig_from_env clibs env = Inr c" for c h
  proof
    assume "connect_with_connector libs (transport_endpoint c) h = Outcome.Panic p"
    from panics [OF this] obtain n d where nd: "ClientConfig.rate_limit c = Some (n, d)" "n = 0 \<or> Duration_is_zero d"
      by (auto simp: transport_endpoint_fields)
    from c obtain args where "from_config_args clibs args = Inr c"
      by (auto simp: ClientConfig_from_env_def bindR_eq_Inr_iff)
    with nd(1) have "config_rate_limit clibs (ClientConfigArgs.rate_limit args) = Inr (Some (n, d))"
      by (simp add: from_config_args_Inr_iff)
    from config_rate_limit_positive [OF this] nd(2) show False by simp
  qed
  then have "Client_new clibs libs env = Outcome.Panic p \<longleftrightarrow>
      (\<exists>c. ClientConfig_from_env clibs env = Inr c \<and> https_connector libs c = Outcome.Panic p)"
    by (auto simp: Client_new_def with_config_def bindO_Panic_iff connect_Panic_iff)
  then show ?thesis unfolding https_connector_Panic_iff bad_server_name_iff by blast
qed

theorem client_new_panics_only_on_server_name_witness:
  "Client_new plain_config_libs bracket_connect_libs (plain_environment ''GrpcClient__OverrideTargetName'' ''[::1]'')
     = Outcome.Panic ''A valid URI host should be a valid ServerName''
   \<and> Client_new plain_config_libs bracket_connect_libs (plain_environment ''GrpcClient__RateLimit'' ''100/1s'')
     \<noteq> Outcome.Panic ''rate limit''"
proof -
  have panics: "\<exists>n d. Endpoint.rate_limit ep = Some (n, d) \<and> (n = 0 \<or> Duration_is_zero d)"
    if "connect_with_connector bracket_connect_libs ep h = Outcome.Panic p"
    for ep :: "(plain_uri, string) Endpoint" and h :: "(u8 list, u8 list, string) HttpsConnector" and p
    using that by (auto simp: bracket_connect_libs_def plain_connect_libs_def split: option.splits if_splits)
  have "ClientConfig_from_env plain_config_libs (plain_environment ''GrpcClient__OverrideTargetName'' ''[::1]'') =
      Inr (plain_config\<lparr>ClientConfig.allow_unsafe_connection := False,
        ClientConfig.override_target := Some (Some ''http'', Some ''[::1]'', Some ''/'')\<rparr>)"
    by (simp add: ClientConfig_from_env_def plain_args_override from_config_args_def config_override_def override_parts_def
        ClientConfigArgs_default_def plain_config_libs_def plain_config_def)
  then have bracket: "Client_new plain_config_libs bracket_connect_libs (plain_environment ''GrpcClient__OverrideTargetName'' ''[::1]'')
     = Outcome.Panic ''A valid URI host should be a valid ServerName''"
    by (intro client_new_panics_only_on_server_name [THEN iffD2, OF panics])
      (simp_all add: configure_verification_def configure_client_auth_def bracket_connect_libs_def plain_connect_libs_def
        plain_config_def)
  have "Client_new plain_config_libs bracket_connect_libs (plain_environment ''GrpcClient__RateLimit'' ''100/1s'')
     \<noteq> Outcome.Panic ''rate limit''"
    by (rule notI, drule client_new_panics_only_on_server_name [THEN iffD1, OF panics, rotated]) simp_all
  with bracket show ?thesis ..
qed



text \<open>
  C16: exactly the empty text and the texts \<^verbatim>\<open>count/duration\<close> with one slash, a decimal count that fits a \<^verbatim>\<open>u64\<close> and is not
  zero, and a non-zero duration are accepted as rate limits, and the limit is the pair that is written.
\<close>

theorem accepted_rate_limits:
  "config_rate_limit libs s = Inr r \<longleftrightarrow>
     (if s = '''' then r = None
      else \<exists>l d n dur. s = l @ CHR ''/'' # d \<and> CHR ''/'' \<notin> set l \<and> CHR ''/'' \<notin> set d
        \<and> numeral_of l \<noteq> [] \<and> list_all is_digit (numeral_of l) \<and> unat n = dec_value (numeral_of l)
        \<and> humantime_parse libs d = Inr dur
        \<and> n \<noteq> 0 \<and> \<not> Duration_is_zero dur \<and> r = Some (n, dur))"
  by (simp only: config_rate_limit_Inr_iff parse_u64_Inr_iff conj_assoc)

text \<open>
  C17: \<^verbatim>\<open>ClientConfigArgs::from_env\<close> succeeds exactly when each of the eighteen variables can be read, and
  every option is the value of its own variable.
\<close>

theorem environment_fields:
  "ClientConfigArgs_from_env env = Inr a \<longleftrightarrow>
     read_env env ''GrpcClient__Endpoint'' = Inr (ClientConfigArgs.endpoint a)
   \<and> read_env env ''GrpcClient__CertPem'' = Inr (ClientConfigArgs.cert_pem a)
   \<and> read_env env ''GrpcClient__KeyPem'' = Inr (ClientConfigArgs.key_pem a)
   \<and> read_env env ''GrpcClient__CaCert'' = Inr (ClientConfigArgs.ca_cert a)
   \<and> read_env_bool env ''GrpcClient__AllowUnsafeConnection'' = Inr (ClientConfigArgs.allow_unsafe_connection a)
   \<and> read_env env ''GrpcClient__OverrideTargetName'' = Inr (ClientConfigArgs.override_target_name a)
   \<and> read_env env ''GrpcClient__ConnectTimeout'' = Inr (ClientConfigArgs.connect_timeout a)
   \<and> read_env env ''GrpcClient__Timeout'' = Inr (ClientConfigArgs.timeout a)
   \<and> read_env env ''GrpcClient__RateLimit'' = Inr (ClientConfigArgs.rate_limit a)
   \<and> read_env env ''GrpcClient__TcpKeepalive'' = Inr (ClientConfigArgs.tcp_keepalive a)
   \<and> read_env env ''GrpcClient__TcpKeepaliveInterval'' = Inr (ClientConfigArgs.tcp_keepalive_interval a)
   \<and> read_env env ''GrpcClient__TcpKeepaliveRetries'' = Inr (ClientConfigArgs.tcp_keepalive_retries a)
   \<and> read_env_bool env ''GrpcClient__TcpNagleAlgorithm'' = Inr (ClientConfigArgs.tcp_nagle_algorithm a)
   \<and> read_env env ''GrpcClient__Http2KeepAliveInterval'' = Inr (ClientConfigArgs.http2_keep_alive_interval a)
   \<and> read_env env ''GrpcClient__Http2KeepAliveTimeout'' = Inr (ClientConfigArgs.http2_keep_alive_timeout a)
   \<and> read_env_bool env ''GrpcClient__Http2KeepAliveWhileIdle'' = Inr (ClientConfigArgs.http2_keep_alive_while_idle a)
   \<and> read_env env ''GrpcClient__Http2MaxHeaderListSize'' = Inr (ClientConfigArgs.http2_max_header_list_size a)
   \<and> read_env env ''GrpcClient__UserAgent'' = Inr (ClientConfigArgs.user_agent a)"
  by (rule from_env_Inr_iff)

text \<open>
  C18: no other variable of the environment influences the options that \<^verbatim>\<open>from_env\<close> reads, the configuration made of them, or the
  error. What the TLS library may read when it loads the native roots of the system is not part of it.
\<close>

theorem environment_only_own_variables:
  assumes "\<forall>n \<in> set grpc_variables. env n = env' n"
  shows "ClientConfigArgs_from_env env = ClientConfigArgs_from_env env'
   \<and> ClientConfig_from_env clibs env = ClientConfig_from_env clibs env'"
  using from_env_cong [OF assms] by (simp add: ClientConfig_from_env_def)

theorem environment_only_own_variables_witness:
  "ClientConfigArgs_from_env [''PATH'' \<mapsto> Unicode ''/bin'', ''GrpcClient__Endpoint'' \<mapsto> Unicode ''http://a'']
   = ClientConfigArgs_from_env [''GrpcClient__Endpoint'' \<mapsto> Unicode ''http://a'']"
  by (rule environment_only_own_variables [THEN conjunct1]) (simp add: grpc_variables_def)

text \<open>
  C19: with only the endpoint given the configuration has a connect timeout of sixty seconds and everything else off; a
  bad endpoint is reported with its text.
\<close>

theorem endpoint_only_configuration:
  "from_config_args libs (ClientConfigArgs_default\<lparr>ClientConfigArgs.endpoint := u\<rparr>) =
     (case uri_try_from libs u of
        Inl err \<Rightarrow> Inl (ConfigError.Uri err u)
      | Inr ep \<Rightarrow> Inr \<lparr>
          ClientConfig.endpoint = ep,
          ClientConfig.allow_unsafe_connection = False,
          ClientConfig.identity = None,
          ClientConfig.cacert = None,
          ClientConfig.override_target = None,
          ClientConfig.connect_timeout = Some (Duration_from_secs 60),
          ClientConfig.timeout = None,
          ClientConfig.rate_limit = None,
          ClientConfig.tcp_keepalive = None,
          ClientConfig.tcp_keepalive_interval = None,
          ClientConfig.tcp_keepalive_retries = None,
          ClientConfig.tcp_nagle_algorithm = False,
          ClientConfig.http2_keep_alive_interval = None,
          ClientConfig.http2_keep_alive_timeout = None,
          ClientConfig.http2_keep_alive_while_idle = False,
          ClientConfig.http2_max_header_list_size = None,
          ClientConfig.user_agent = None\<rparr>)"
  by (simp add: from_config_args_def ClientConfigArgs_default_def split: sum.split)

text \<open>
  C20: a client identity needs both the certificate and the key: an accepted configuration gave both or neither, and has an
  identity exactly in the first case.
\<close>

theorem identity_both_or_none:
  assumes "from_config_args libs args = Inr c"
  shows "(ClientConfigArgs.cert_pem args = '''' \<longleftrightarrow> ClientConfigArgs.key_pem args = '''')
    \<and> (ClientConfig.identity c = None \<longleftrightarrow> ClientConfigArgs.cert_pem args = '''')"
proof -
  from assms have "config_identity libs (ClientConfigArgs.cert_pem args) (ClientConfigArgs.key_pem args)
      = Inr (ClientConfig.identity c)"
    by (simp add: from_config_args_Inr_iff)
  then show ?thesis by (rule config_identity_Inr_cases)
qed

theorem identity_both_or_none_witness:
  "\<exists>c. from_config_args plain_config_libs (ClientConfigArgs_default\<lparr>ClientConfigArgs.endpoint := ''h'',
      ClientConfigArgs.cert_pem := ''c.pem'', ClientConfigArgs.key_pem := ''k.pem''\<rparr>) = Inr c
    \<and> ClientConfig.identity c \<noteq> None"
proof -
  let ?args = "ClientConfigArgs_default\<lparr>ClientConfigArgs.endpoint := ''h'',
      ClientConfigArgs.cert_pem := ''c.pem'', ClientConfigArgs.key_pem := ''k.pem''\<rparr>"
  have "\<exists>c. from_config_args plain_config_libs ?args = Inr c"
    by (simp add: from_config_args_def ClientConfigArgs_default_def plain_config_libs_def config_identity_def)
  then obtain c where "from_config_args plain_config_libs ?args = Inr c" by blast
  with identity_both_or_none [OF this] show ?thesis by auto
qed

text \<open>
  C21: the override target always has the scheme of the endpoint, and a bare authority gives that authority with the path
  of the endpoint. The hypothesis is what the builder of the \<^verbatim>\<open>http\<close> crate documents: the parts of a built URI are
  the given ones.
\<close>

theorem override_keeps_scheme:
  assumes built: "\<And>sch au pq u. uri_build libs sch au pq = Inr u \<Longrightarrow>
      uri_scheme libs u = sch \<and> uri_authority libs u = au \<and> uri_path_and_query libs u = pq"
    and target: "config_override libs ep nm = Inr (Some t)"
  shows "uri_scheme libs t = uri_scheme libs ep
    \<and> (case authority_parse libs nm of
         Inr a \<Rightarrow> uri_authority libs t = Some a \<and> uri_path_and_query libs t = uri_path_and_query libs ep
       | Inl _ \<Rightarrow> True)"
  using target
  by (auto simp: config_override_def override_parts_def bindR_eq_Inr_iff dest!: built split: if_splits sum.splits)

theorem override_keeps_scheme_witness:
  "uri_scheme plain_config_libs (Some ''https'', Some ''other'', Some ''/p'') = Some ''https''
   \<and> (case authority_parse plain_config_libs ''other'' of
        Inr a \<Rightarrow> Some ''other'' = Some a \<and> Some ''/p'' = Some ''/p'' | Inl _ \<Rightarrow> True)"
proof -
  let ?ep = "(Some ''https'', Some ''host'', Some ''/p'') :: plain_uri"
  let ?t = "(Some ''https'', Some ''other'', Some ''/p'') :: plain_uri"
  have "config_override plain_config_libs ?ep ''other'' = Inr (Some ?t)"
    by (simp add: config_override_def override_parts_def plain_config_libs_def)
  from override_keeps_scheme [of plain_config_libs, OF _ this] show ?thesis
    by (auto simp: plain_config_libs_def)
qed

text \<open>
  C22: what is handed to the libraries when a connection succeeds is exactly the configuration: the endpoint settings, the
  settings of the TCP connector, and the client identity.
\<close>

theorem connection_settings:
  assumes "connect libs c = Outcome.Ok ch"
  shows "\<exists>h. connect_with_connector libs \<lparr>
       Endpoint.uri = ClientConfig.endpoint c,
       Endpoint.origin = ClientConfig.override_target c,
       Endpoint.timeout = ClientConfig.timeout c,
       Endpoint.rate_limit = ClientConfig.rate_limit c,
       Endpoint.http2_keep_alive_interval = ClientConfig.http2_keep_alive_interval c,
       Endpoint.keep_alive_timeout = ClientConfig.http2_keep_alive_timeout c,
       Endpoint.keep_alive_while_idle = Some (ClientConfig.http2_keep_alive_while_idle c),
       Endpoint.http2_max_header_list_size = ClientConfig.http2_max_header_list_size c,
       Endpoint.user_agent = ClientConfig.user_agent c\<rparr> h = Outcome.Ok ch
   \<and> HttpsConnector.http h = \<lparr>
       HttpConnector.enforce_http = False,
       HttpConnector.nodelay = (\<not> ClientConfig.tcp_nagle_algorithm c),
       HttpConnector.keepalive = ClientConfig.tcp_keepalive c,
       HttpConnector.keepalive_interval = ClientConfig.tcp_keepalive_interval c,
       HttpConnector.keepalive_retries = ClientConfig.tcp_keepalive_retries c,
       HttpConnector.connect_timeout = ClientConfig.connect_timeout c\<rparr>
   \<and> HttpsConnector.client_auth h = (case ClientConfig.identity c of
       None \<Rightarrow> NoClientAuth | Some (cert, key) \<Rightarrow> ClientAuthCert [cert] key)
   \<and> HttpsConnector.verification h = (if ClientConfig.allow_unsafe_connection c then InsecureCertVerifier
       else case ClientConfig.cacert c of None \<Rightarrow> NativeRoots | Some ca \<Rightarrow> RootCertificates ca)"
proof -
  from assms obtain h where h: "https_connector libs c = Outcome.Ok h"
    and ok: "connect_with_connector libs (transport_endpoint c) h = Outcome.Ok ch"
    by (auto simp: connect_Ok_iff)
  from h have "HttpsConnector.client_auth h = (case ClientConfig.identity c of
       None \<Rightarrow> NoClientAuth | Some (cert, key) \<Rightarrow> ClientAuthCert [cert] key)"
    by (auto simp: https_connector_Ok_iff client_auth_Ok_iff split: option.splits)
  moreover from h have "HttpsConnector.verification h = (if ClientConfig.allow_unsafe_connection c then InsecureCertVerifier
       else case ClientConfig.cacert c of None \<Rightarrow> NativeRoots | Some ca \<Rightarrow> RootCertificates ca)"
    by (auto simp: https_connector_Ok_iff verification_Ok_iff split: option.splits if_splits)
  ultimately show ?thesis
    using h ok by (intro exI [of _ h]) (simp add: transport_endpoint_fields https_connector_Ok_iff)
qed

theorem connection_settings_witness:
  "\<exists>h. connect_with_connector plain_connect_libs (transport_endpoint plain_config) h = Outcome.Ok ()
     \<and> HttpConnector.connect_timeout (HttpsConnector.http h) = Some (Duration_from_secs 60)
     \<and> HttpsConnector.client_auth h = NoClientAuth
     \<and> HttpsConnector.verification h = InsecureCertVerifier"
proof -
  have "connect plain_connect_libs plain_config = Outcome.Ok ()"
    by (simp add: connect_def https_connector_def configure_verification_def configure_client_auth_def
        configure_server_name_def plain_connect_libs_def transport_endpoint_fields plain_config_def)
  from connection_settings [OF this] show ?thesis
    by (auto simp: transport_endpoint_fields plain_config_def)
qed

text \<open>
  C23: a boolean variable reads as true or false exactly for the accepted words, an unset one as false, and every other text
  is reported with the name and the value of the variable.
\<close>

theorem boolean_options:
  "read_env_bool env n =
     (case env n of
        None \<Rightarrow> Inr False
      | Some (NotUnicodeBytes b) \<Rightarrow> Inl (ReadEnvError.NotUnicode n (NotUnicodeBytes b))
      | Some (Unicode v) \<Rightarrow>
          if v \<in> bool_words True then Inr True
          else if v \<in> bool_words False then Inr False
          else Inl (ReadEnvError.NotBoolean n v))"
  using bool_words_disjoint
  by (auto simp: read_env_bool_eq read_env_cases bool_words_def [of False] split: option.split OsString.split)

text \<open>
  C24: an integer option is accepted exactly when it is empty or a decimal numeral, after at most one plus sign, below
  \<^verbatim>\<open>2^32\<close>; the value never wraps around.
\<close>

theorem integer_options:
  "config_u32 s = Inr r \<longleftrightarrow>
     (if s = '''' then r = None
      else numeral_of s \<noteq> [] \<and> list_all is_digit (numeral_of s) \<and> dec_value (numeral_of s) < 2 ^ 32
        \<and> r = Some (word_of_nat (dec_value (numeral_of s))))"
proof -
  have "unat x = k \<longleftrightarrow> k < 2 ^ 32 \<and> x = word_of_nat k" for x :: u32 and k
    using unsigned_less [of x] word_of_nat_eq_iff_unat [of k x] by auto
  then show ?thesis by (auto simp: config_u32_Inr_iff parse_u32_Inr_iff)
qed

text \<open>
  C25: a configuration is refused with the error of the first check that fails: the variables in the order they are read, then
  the checks of the options in the order of the source; it is accepted exactly when none fails.
\<close>

theorem configuration_errors_in_order:
  "err_of (ClientConfig_from_env libs env) =
     first_error (env_checks env @
       (case ClientConfigArgs_from_env env of Inr args \<Rightarrow> arg_checks libs args | Inl _ \<Rightarrow> []))
   \<and> (first_error cs = None \<longleftrightarrow> list_all (\<lambda>c. c = None) cs)
   \<and> (first_error cs = Some err \<longleftrightarrow>
        (\<exists>n < length cs. cs ! n = Some err \<and> list_all (\<lambda>c. c = None) (take n cs)))"
proof -
  have "list_all (\<lambda>c. c = None) (take n cs) \<longleftrightarrow> (\<forall>m < n. cs ! m = None)" if "n < length cs" for n
    using that by (auto simp: list_all_length)
  then show ?thesis
    unfolding first_error_append from_env_first_error [symmetric] ClientConfig_from_env_def
    by (cases "ClientConfigArgs_from_env env")
      (auto simp: from_config_args_first_error first_error_None_iff first_error_Some_iff list_all_iff)
qed

text \<open>
  C26: options written as JSON are read back unchanged, as an object or as the array of their values; an object is accepted
  exactly when it names the endpoint and no field twice, each field being the value of its member or, when it has none, its
  default; members that are no field are skipped. The unit test of the feature \<^verbatim>\<open>serde\<close> passes for every reader and
  writer of JSON texts that agree on the two texts of the test.
\<close>

theorem configuration_from_json:
  "ClientConfigArgs_deserialize (ClientConfigArgs_serialize a) = Inr a
   \<and> ClientConfigArgs_deserialize (JArray (map (\<lambda>(k, v). arg_to_json v) (args_values a))) = Inr a
   \<and> (ClientConfigArgs_deserialize (JObject kvs) = Inr a \<longleftrightarrow>
        distinct (List.filter (\<lambda>k. k \<in> set arg_fields) (map fst kvs)) \<and> ''endpoint'' \<in> fst ` set kvs
      \<and> (\<forall>(k, v) \<in> set (args_values a).
           map_of kvs k = Some (arg_to_json v) \<or> map_of kvs k = None \<and> v = arg_default k))
   \<and> (parse serde_test_text = Inr serde_test_json
        \<and> parse (to_string (ClientConfigArgs_serialize serde_test_args)) = Inr (ClientConfigArgs_serialize serde_test_args)
      \<longrightarrow> arguments_round_trip_through_serde_with_absent_fields_defaulted parse to_string)"
  by (intro conjI impI deserialize_serialize deserialize_array deserialize_object_iff [unfolded known_def]
      serde_test_passes) simp_all

theorem configuration_from_json_witness:
  "ClientConfigArgs_deserialize (JObject [(''timeout'', JString ''1s''), (''comment'', JNull), (''endpoint'', JString ''host'')]) =
     Inr (ClientConfigArgs_default\<lparr>ClientConfigArgs.endpoint := ''host'', ClientConfigArgs.timeout := ''1s''\<rparr>)
   \<and> arguments_round_trip_through_serde_with_absent_fields_defaulted
       (\<lambda>t. if t = serde_test_text then Inr serde_test_json else Inr (ClientConfigArgs_serialize serde_test_args)) (\<lambda>j. ''written'')"
proof -
  have "\<forall>(k, v) \<in> set (args_values (ClientConfigArgs_default
      \<lparr>ClientConfigArgs.endpoint := ''host'', ClientConfigArgs.timeout := ''1s''\<rparr>)).
    map_of [(''timeout'', JString ''1s''), (''comment'', JNull), (''endpoint'', JString ''host'')] k = Some (arg_to_json v)
    \<or> map_of [(''timeout'', JString ''1s''), (''comment'', JNull), (''endpoint'', JString ''host'')] k = None \<and> v = arg_default k"
    by (simp add: args_values_def ClientConfigArgs_default_def arg_default_def is_flag_def)
  moreover have "distinct (List.filter (\<lambda>k. k \<in> set arg_fields) (map fst
      [(''timeout'', JString ''1s''), (''comment'', JNull), (''endpoint'', JString ''host'')]))"
    by (simp add: arg_fields_def)
  moreover have "''written'' \<noteq> serde_test_text" by (simp add: serde_test_text_def)
  ultimately show ?thesis
    using configuration_from_json
      [of "ClientConfigArgs_default\<lparr>ClientConfigArgs.endpoint := ''host'', ClientConfigArgs.timeout := ''1s''\<rparr>"
        "[(''timeout'', JString ''1s''), (''comment'', JNull), (''endpoint'', JString ''host'')]"
        "\<lambda>t. if t = serde_test_text then Inr serde_test_json else Inr (ClientConfigArgs_serialize serde_test_args)"
        "\<lambda>j. ''written''"]
    by simp
qed

text \<open>
  C27: the unit tests of the configuration and of the environment hold, not for one run but for all libraries that behave as
  documented on the inputs of the tests, all environments and all source locations.
\<close>

theorem unit_tests_hold:
  assumes "documented_uris libs" and "documented_durations libs" and "missing_files libs"
    and "documented_overrides scheme_str auth_str pq_path libs"
  shows "the_minimum_is_an_endpoint libs
   \<and> an_endpoint_that_is_not_a_uri_is_reported libs
   \<and> durations_are_read_in_the_units_they_are_written_in libs
   \<and> a_duration_that_cannot_be_parsed_names_the_value causes loc libs
   \<and> integers_are_read_and_a_bad_one_names_the_value causes loc libs
   \<and> an_integer_that_does_not_fit_is_rejected_rather_than_wrapped libs
   \<and> a_rate_limit_is_a_count_and_a_duration libs
   \<and> a_zero_rate_limit_is_rejected_rather_than_left_to_panic loc libs
   \<and> a_rate_limit_missing_its_duration_is_reported_with_the_expected_shape causes loc libs
   \<and> each_half_of_a_rate_limit_is_validated_separately libs
   \<and> half_an_identity_is_rejected_and_names_both_variables causes loc libs
   \<and> neither_half_is_no_identity_rather_than_an_error libs
   \<and> a_certificate_path_that_does_not_exist_is_reported_with_the_path causes loc libs
   \<and> a_missing_ca_certificate_is_reported_with_the_path causes loc libs
   \<and> an_override_target_given_as_a_host_keeps_the_endpoints_scheme_and_path scheme_str auth_str pq_path libs
   \<and> an_override_target_given_as_a_uri_replaces_the_authority_and_the_path scheme_str auth_str pq_path libs
   \<and> no_override_target_leaves_it_unset libs
   \<and> every_accepted_spelling_is_accepted env
   \<and> an_unset_variable_reads_as_false env
   \<and> an_unrecognised_value_is_reported_with_its_name_and_value dbg loc env
   \<and> reading_a_plain_string_passes_it_through_and_maps_absent_to_empty env"
  by (simp only: endpoint_tests [OF assms(1)] duration_tests [OF assms(1,2)] integer_tests [OF assms(1)]
      rate_limit_tests [OF assms(1,2)] certificate_tests [OF assms(1,3)] override_tests [OF assms(4)]
      environment_tests simp_thms)

theorem unit_tests_hold_witness:
  "a_zero_rate_limit_is_rejected_rather_than_left_to_panic ''config.rs:325'' sample_libs
   \<and> an_override_target_given_as_a_host_keeps_the_endpoints_scheme_and_path (\<lambda>s. s) (\<lambda>a. a) (\<lambda>p. p) sample_libs"
  using unit_tests_hold [of sample_libs "\<lambda>s. s" "\<lambda>a. a" "\<lambda>p. p", OF sample_libs_documented]
  by simp

text \<open>
  C28: \<^verbatim>\<open>Client::get_nb_request\<close> returns the number of calls of a method that the mock server has received, and panics for
  a method that the mock does not count. Hypotheses: the configuration is read and the connector is built, the server
  answers the request with the JSON of its counters, and their 64 bits suffice.
\<close>

theorem request_counter_counts:
  assumes "ClientConfig_from_env clibs env = Inr config0" and "http_endpoint clibs env config0 = Inr config"
    and "https_connector libs config = Outcome.Ok https"
    and "serves_calls clibs hlibs config https (l, c)" and "length l < 2 ^ 63"
  shows "get_nb_request clibs libs hlibs env cls m (l, c) =
    (if counts_method cls m
     then Inr (length (List.filter (\<lambda>(svc, rpc). mock_class svc = cls \<and> rpc = m) l))
     else Inl ''no entry found for key'')"
  using get_nb_request_served [OF assms(1-4)] assms(5) by (simp add: occurrences_def)

theorem request_counter_counts_witness:
  "get_nb_request plain_config_libs plain_connect_libs plain_http_libs
     (plain_environment ''GrpcClient__AllowUnsafeConnection'' ''yes'') ''HealthChecks'' ''CheckHealth'' (plain_calls, ()) = Inr 2"
proof -
  have endpoint: "http_endpoint plain_config_libs (plain_environment ''GrpcClient__AllowUnsafeConnection'' ''yes'') plain_config =
      Inr plain_config"
    by (simp add: http_endpoint_def env_var_def plain_environment_def)
  obtain https where https: "https_connector plain_connect_libs plain_config = Outcome.Ok https"
    by (simp add: https_connector_def configure_verification_def configure_client_auth_def configure_server_name_def
        plain_config_def plain_connect_libs_def)
  have "serves_calls plain_config_libs plain_http_libs plain_config https (plain_calls, ())"
    by (simp add: serves_calls_def plain_http_libs_def plain_config_libs_def)
  moreover have "length plain_calls < 2 ^ 63" by (simp add: plain_calls_def)
  ultimately show ?thesis
    using request_counter_counts [OF plain_configuration_unsafe endpoint https, of plain_http_libs plain_calls "()"
      "''HealthChecks''" "''CheckHealth''"]
    by (simp add: plain_calls_def counts_simps)
qed

text \<open>
  C29: a duration that does not parse is an \<^verbatim>\<open>InvalidDuration\<close> that keeps the text of its option, for a rate limit the whole
  \<^verbatim>\<open>count/duration\<close>; a configuration is refused with that error only for one of the seven
  options that hold a duration, and the message shown to the user names \<^verbatim>\<open>GrpcClient__ConnectTimeout\<close> whichever it is.
\<close>

theorem duration_errors_blame_connect_timeout:
  "(config_duration libs s = Inl err \<longleftrightarrow>
      s \<noteq> '''' \<and> (\<exists>c. humantime_parse libs s = Inl c \<and> err = ConfigError.InvalidDuration c s))
   \<and> (config_connect_timeout libs s = Inl err \<longleftrightarrow>
      s \<noteq> '''' \<and> (\<exists>c. humantime_parse libs s = Inl c \<and> err = ConfigError.InvalidDuration c s))
   \<and> (config_rate_limit libs s = Inl (ConfigError.InvalidDuration cause v) \<longleftrightarrow>
      v = s \<and> (\<exists>l d n. s = l @ CHR ''/'' # d \<and> CHR ''/'' \<notin> set l \<and> CHR ''/'' \<notin> set d
        \<and> parse_u64 l = Inr n \<and> humantime_parse libs d = Inl cause))
   \<and> (from_config_args libs args = Inl (ConfigError.InvalidDuration cause v) \<longrightarrow>
      v = ClientConfigArgs.connect_timeout args \<and> config_connect_timeout libs v = Inl (ConfigError.InvalidDuration cause v)
    \<or> v = ClientConfigArgs.rate_limit args \<and> config_rate_limit libs v = Inl (ConfigError.InvalidDuration cause v)
    \<or> v \<in> {ClientConfigArgs.timeout args, ClientConfigArgs.tcp_keepalive args, ClientConfigArgs.tcp_keepalive_interval args,
          ClientConfigArgs.http2_keep_alive_interval args, ClientConfigArgs.http2_keep_alive_timeout args}
        \<and> config_duration libs v = Inl (ConfigError.InvalidDuration cause v))
   \<and> ConfigError_display loc (ConfigError.InvalidDuration cause v) =
        ''`GrpcClient__ConnectTimeout='' @ v @ ''` is not a valid duration (e.g. `30s` or `1m`) ['' @ loc @ '']''"
proof (intro conjI impI)
  assume "from_config_args libs args = Inl (ConfigError.InvalidDuration cause v)"
  then show "v = ClientConfigArgs.connect_timeout args \<and> config_connect_timeout libs v = Inl (ConfigError.InvalidDuration cause v)
    \<or> v = ClientConfigArgs.rate_limit args \<and> config_rate_limit libs v = Inl (ConfigError.InvalidDuration cause v)
    \<or> v \<in> {ClientConfigArgs.timeout args, ClientConfigArgs.tcp_keepalive args, ClientConfigArgs.tcp_keepalive_interval args,
          ClientConfigArgs.http2_keep_alive_interval args, ClientConfigArgs.http2_keep_alive_timeout args}
        \<and> config_duration libs v = Inl (ConfigError.InvalidDuration cause v)"
    by (rule from_config_args_InvalidDuration)
qed (simp_all only: config_duration_Inl_iff config_connect_timeout_Inl_iff config_rate_limit_InvalidDuration_iff
    ConfigError_display.simps)

theorem duration_errors_blame_connect_timeout_witness:
  "let args = ClientConfigArgs_default\<lparr>ClientConfigArgs.endpoint := ''host'', ClientConfigArgs.rate_limit := ''100/soon''\<rparr> in
     from_config_args plain_config_libs args = Inl (ConfigError.InvalidDuration ''bad duration'' ''100/soon'')
   \<and> config_rate_limit plain_config_libs ''100/soon'' = Inl (ConfigError.InvalidDuration ''bad duration'' ''100/soon'')"
proof -
  let ?args = "ClientConfigArgs_default\<lparr>ClientConfigArgs.endpoint := ''host'', ClientConfigArgs.rate_limit := ''100/soon''\<rparr>"
  have e: "from_config_args plain_config_libs ?args = Inl (ConfigError.InvalidDuration ''bad duration'' ''100/soon'')"
    by (simp add: from_config_args_def config_rate_limit_def ClientConfigArgs_default_def plain_config_libs_def)
  from e duration_errors_blame_connect_timeout
      [where args = ?args and libs = plain_config_libs and cause = "''bad duration''" and v = "''100/soon''",
        THEN conjunct2, THEN conjunct2, THEN conjunct2, THEN conjunct1, THEN mp, OF e]
  show ?thesis by (simp add: Let_def ClientConfigArgs_default_def config_duration_def)
qed

section \<open>The conversion macro\<close>

text \<open>
  C30: the expansion of \<^verbatim>\<open>impl_convert!\<close> ends on every input, after at most two invocations of itself per comma; every
  invocation in the repository needs at most 54 in either direction, where the compiler allows 128.
\<close>

theorem conversion_macro_terminates:
  "convert_depth (sofar, ts) \<le> 2 * commas ts
   \<and> list_all (\<lambda>rows. convert_depth ([], forward_tokens rows) \<le> 54 \<and> convert_depth ([], backward_tokens rows) \<le> 54)
       all_invocations"
proof -
  have "convert_depth ([], forward_tokens rows) \<le> 54 \<and> convert_depth ([], backward_tokens rows) \<le> 54"
    if "length rows \<le> 27" for rows
    using convert_depth_bound [of "([], forward_tokens rows)"] convert_depth_bound [of "([], backward_tokens rows)"] that
    by (simp add: commas_rows)
  then show ?thesis
    using all_invocations_short convert_depth_bound [of "(sofar, ts)"] by (simp add: list_all_iff)
qed

text \<open>
  C31: every struct invocation of \<^verbatim>\<open>impl_convert!\<close> in the repository expands in both directions: the struct literal it generates
  initialises every field that the invocation names, once, from the field it is paired with.
\<close>

theorem conversion_macro_expands:
  "length all_invocations = 142
   \<and> list_all (\<lambda>rows. \<exists>is js. impl_convert rows = (Some is, Some js)
       \<and> map target is = map (side_name \<circ> right) rows \<and> map source is = map (side_name \<circ> left) rows
       \<and> map target js = map (side_name \<circ> left) rows \<and> map source js = map (side_name \<circ> right) rows
       \<and> distinct (map target is) \<and> distinct (map target js))
     all_invocations"
proof -
  have "\<exists>is js. impl_convert rows = (Some is, Some js)
       \<and> map target is = map (side_name \<circ> right) rows \<and> map source is = map (side_name \<circ> left) rows
       \<and> map target js = map (side_name \<circ> left) rows \<and> map source js = map (side_name \<circ> right) rows
       \<and> distinct (map target is) \<and> distinct (map target js)"
    if "well_formed_rows rows" for rows
    using that impl_convert_expands [of rows] impl_convert_fields [of rows]
    unfolding well_formed_rows_def by metis
  then show ?thesis
    using all_invocations_well_formed by (simp add: list_all_iff all_invocations_count)
qed

text \<open>
  C32: the two conversions that an invocation in the repository generates are inverse when those that it applies to each
  field are, on the values \<open>T\<close> of the type of that field: a struct of the declared shape becomes a message of the
  declared shape and is read back as it was.
\<close>

theorem conversion_macro_roundtrip:
  assumes "rows \<in> set all_invocations" and "list_all (inverse_impls T F G) rows"
    and "struct_fits (map left rows) v" and "struct_conforms T v"
  shows "\<exists>is js w. impl_convert rows = (Some is, Some js) \<and> from_struct F is v = Some w
    \<and> struct_fits (map right rows) w \<and> from_struct G js w = Some v"
proof -
  have "well_formed_rows rows" using all_invocations_well_formed assms(1) by (simp add: list_all_iff)
  then have wf: "list_all keeps rows" "distinct (map (side_name \<circ> left) rows)" "distinct (map (side_name \<circ> right) rows)"
    by (simp_all add: well_formed_rows_def)
  show ?thesis by (rule impl_convert_roundtrip [OF wf(1) assms(2) wf(2,3) assms(3,4)])
qed

theorem conversion_macro_roundtrip_witness:
  "let v = [(''task_id'', One (Sample_Text ''t1'')), (''status'', One (Sample_Status TaskStatus.Completed))] in
   \<exists>is js w. impl_convert rows_TaskIdWithStatus = (Some is, Some js)
    \<and> from_struct sample_impls is v = Some w
    \<and> struct_fits (map right rows_TaskIdWithStatus) w
    \<and> from_struct sample_impls js w = Some v"
  unfolding Let_def
proof (rule conversion_macro_roundtrip)
  show "rows_TaskIdWithStatus \<in> set all_invocations" by (simp add: all_invocations_def)
  show "list_all (inverse_impls sample_typing sample_impls sample_impls) rows_TaskIdWithStatus"
    by (simp add: rows_TaskIdWithStatus_def inverse_impls_def sample_impls_def sample_typing_def left_def right_def
        split: sample_value.split)
  show "struct_fits (map left rows_TaskIdWithStatus)
      [(''task_id'', One (Sample_Text ''t1'')), (''status'', One (Sample_Status TaskStatus.Completed))]"
    by (simp add: struct_fits_def rows_TaskIdWithStatus_def left_def)
  show "struct_conforms sample_typing
      [(''task_id'', One (Sample_Text ''t1'')), (''status'', One (Sample_Status TaskStatus.Completed))]"
    by (simp add: struct_conforms_def sample_typing_def)
qed

section \<open>Objects and their messages\<close>

text \<open>
  C33: for every enumeration the number of a variant decodes to the variant, and any other number decodes to the fallback
  variant, never to another known value.
\<close>

theorem enum_numbers:
  "TaskStatus_of_i32 (TaskStatus_as_i32 x0) = x0 \<and> TaskStatus_as_i32 (TaskStatus_of_i32 i) = (if i \<in> range TaskStatus_as_i32 then i else TaskStatus_as_i32 TaskStatus_default)
   \<and> ResultStatus_of_i32 (ResultStatus_as_i32 x1) = x1 \<and> ResultStatus_as_i32 (ResultStatus_of_i32 i) = (if i \<in> range ResultStatus_as_i32 then i else ResultStatus_as_i32 ResultStatus_default)
   \<and> SessionStatus_of_i32 (SessionStatus_as_i32 x2) = x2 \<and> SessionStatus_as_i32 (SessionStatus_of_i32 i) = (if i \<in> range SessionStatus_as_i32 then i else SessionStatus_as_i32 SessionStatus_default)
   \<and> SortDirection_of_i32 (SortDirection_as_i32 x3) = x3 \<and> SortDirection_as_i32 (SortDirection_of_i32 i) = (if i \<in> range SortDirection_as_i32 then i else SortDirection_as_i32 SortDirection.Unspecified)
   \<and> FilterStringOperator_of_i32 (FilterStringOperator_as_i32 x4) = x4 \<and> FilterStringOperator_as_i32 (FilterStringOperator_of_i32 i) = (if i \<in> range FilterStringOperator_as_i32 then i else FilterStringOperator_as_i32 FilterStringOperator_default)
   \<and> FilterNumberOperator_of_i32 (FilterNumberOperator_as_i32 x5) = x5 \<and> FilterNumberOperator_as_i32 (FilterNumberOperator_of_i32 i) = (if i \<in> range FilterNumberOperator_as_i32 then i else FilterNumberOperator_as_i32 FilterNumberOperator_default)
   \<and> FilterArrayOperator_of_i32 (FilterArrayOperator_as_i32 x6) = x6 \<and> FilterArrayOperator_as_i32 (FilterArrayOperator_of_i32 i) = (if i \<in> range FilterArrayOperator_as_i32 then i else FilterArrayOperator_as_i32 FilterArrayOperator_default)
   \<and> FilterBooleanOperator_of_i32 (FilterBooleanOperator_as_i32 x7) = x7 \<and> FilterBooleanOperator_as_i32 (FilterBooleanOperator_of_i32 i) = (if i \<in> range FilterBooleanOperator_as_i32 then i else FilterBooleanOperator_as_i32 FilterBooleanOperator_default)
   \<and> FilterDateOperator_of_i32 (FilterDateOperator_as_i32 x8) = x8 \<and> FilterDateOperator_as_i32 (FilterDateOperator_of_i32 i) = (if i \<in> range FilterDateOperator_as_i32 then i else FilterDateOperator_as_i32 FilterDateOperator_default)
   \<and> FilterDurationOperator_of_i32 (FilterDurationOperator_as_i32 x9) = x9 \<and> FilterDurationOperator_as_i32 (FilterDurationOperator_of_i32 i) = (if i \<in> range FilterDurationOperator_as_i32 then i else FilterDurationOperator_as_i32 FilterDurationOperator_default)
   \<and> FilterStatusOperator_of_i32 (FilterStatusOperator_as_i32 x10) = x10 \<and> FilterStatusOperator_as_i32 (FilterStatusOperator_of_i32 i) = (if i \<in> range FilterStatusOperator_as_i32 then i else FilterStatusOperator_as_i32 FilterStatusOperator_default)
   \<and> events_EventsEnum_of_i32 (events_EventsEnum_as_i32 x11) = x11 \<and> events_EventsEnum_as_i32 (events_EventsEnum_of_i32 i) = (if i \<in> range events_EventsEnum_as_i32 then i else events_EventsEnum_as_i32 events_EventsEnum_default)
   \<and> health_checks_Status_of_i32 (health_checks_Status_as_i32 x12) = x12 \<and> health_checks_Status_as_i32 (health_checks_Status_of_i32 i) = (if i \<in> range health_checks_Status_as_i32 then i else health_checks_Status_as_i32 health_checks_Status_default)
   \<and> TaskOptionField_of_i32 (TaskOptionField_as_i32 x13) = x13 \<and> TaskOptionField_as_i32 (TaskOptionField_of_i32 i) = (if i \<in> range TaskOptionField_as_i32 then i else TaskOptionField_as_i32 TaskOptionField.Unspecified)
   \<and> sessions_RawField_of_i32 (sessions_RawField_as_i32 x14) = x14 \<and> sessions_RawField_as_i32 (sessions_RawField_of_i32 i) = (if i \<in> range sessions_RawField_as_i32 then i else sessions_RawField_as_i32 sessions_RawField.Unspecified)
   \<and> tasks_SummaryField_of_i32 (tasks_SummaryField_as_i32 x15) = x15 \<and> tasks_SummaryField_as_i32 (tasks_SummaryField_of_i32 i) = (if i \<in> range tasks_SummaryField_as_i32 then i else tasks_SummaryField_as_i32 tasks_SummaryField.Unspecified)
   \<and> applications_Field_of_i32 (applications_Field_as_i32 x16) = x16 \<and> applications_Field_as_i32 (applications_Field_of_i32 i) = (if i \<in> range applications_Field_as_i32 then i else applications_Field_as_i32 applications_Field.Unspecified)
   \<and> partitions_Field_of_i32 (partitions_Field_as_i32 x17) = x17 \<and> partitions_Field_as_i32 (partitions_Field_of_i32 i) = (if i \<in> range partitions_Field_as_i32 then i else partitions_Field_as_i32 partitions_Field.Unspecified)
   \<and> results_Field_of_i32 (results_Field_as_i32 x18) = x18 \<and> results_Field_as_i32 (results_Field_of_i32 i) = (if i \<in> range results_Field_as_i32 then i else results_Field_as_i32 results_Field.Unspecified)
   \<and> worker_health_check_Response_of_i32 (worker_health_check_Response_as_i32 x19) = x19 \<and> worker_health_check_Response_as_i32 (worker_health_check_Response_of_i32 i) = (if i \<in> range worker_health_check_Response_as_i32 then i else worker_health_check_Response_as_i32 worker_health_check_Response.Unknown)"
  by (intro conjI) (rule TaskStatus_enum.of_as, rule TaskStatus_enum.as_of,
    rule ResultStatus_enum.of_as, rule ResultStatus_enum.as_of,
    rule SessionStatus_enum.of_as, rule SessionStatus_enum.as_of,
    rule SortDirection_enum.of_as, rule SortDirection_enum.as_of,
    rule FilterStringOperator_enum.of_as, rule FilterStringOperator_enum.as_of,
    rule FilterNumberOperator_enum.of_as, rule FilterNumberOperator_enum.as_of,
    rule FilterArrayOperator_enum.of_as, rule FilterArrayOperator_enum.as_of,
    rule FilterBooleanOperator_enum.of_as, rule FilterBooleanOperator_enum.as_of,
    rule FilterDateOperator_enum.of_as, rule FilterDateOperator_enum.as_of,
    rule FilterDurationOperator_enum.of_as, rule FilterDurationOperator_enum.as_of,
    rule FilterStatusOperator_enum.of_as, rule FilterStatusOperator_enum.as_of,
    rule events_EventsEnum_enum.of_as, rule events_EventsEnum_enum.as_of,
    rule health_checks_Status_enum.of_as, rule health_checks_Status_enum.as_of,
    rule TaskOptionField_enum.of_as, rule TaskOptionField_enum.as_of,
    rule sessions_RawField_enum.of_as, rule sessions_RawField_enum.as_of,
    rule tasks_SummaryField_enum.of_as, rule tasks_SummaryField_enum.as_of,
    rule applications_Field_enum.of_as, rule applications_Field_enum.as_of,
    rule partitions_Field_enum.of_as, rule partitions_Field_enum.as_of,
    rule results_Field_enum.of_as, rule results_Field_enum.as_of,
    rule worker_health_check_Response_enum.of_as, rule worker_health_check_Response_enum.as_of)

text \<open>
  C34: the numbers written in the Rust enumerations are those of the corresponding values of the schema, for every
  enumeration but the session fields.
\<close>

theorem enum_numbers_match_schema:
  "v3_task_status_TaskStatus_as_i32 (TaskStatus_to_v3 x0) = TaskStatus_as_i32 x0
   \<and> v3_result_status_ResultStatus_as_i32 (ResultStatus_to_v3 x1) = ResultStatus_as_i32 x1
   \<and> v3_session_status_SessionStatus_as_i32 (SessionStatus_to_v3 x2) = SessionStatus_as_i32 x2
   \<and> v3_sort_direction_SortDirection_as_i32 (SortDirection_to_v3 x3) = SortDirection_as_i32 x3
   \<and> v3_FilterStringOperator_as_i32 (FilterStringOperator_to_v3 x4) = FilterStringOperator_as_i32 x4
   \<and> v3_FilterNumberOperator_as_i32 (FilterNumberOperator_to_v3 x5) = FilterNumberOperator_as_i32 x5
   \<and> v3_FilterArrayOperator_as_i32 (FilterArrayOperator_to_v3 x6) = FilterArrayOperator_as_i32 x6
   \<and> v3_FilterBooleanOperator_as_i32 (FilterBooleanOperator_to_v3 x7) = FilterBooleanOperator_as_i32 x7
   \<and> v3_FilterDateOperator_as_i32 (FilterDateOperator_to_v3 x8) = FilterDateOperator_as_i32 x8
   \<and> v3_FilterDurationOperator_as_i32 (FilterDurationOperator_to_v3 x9) = FilterDurationOperator_as_i32 x9
   \<and> v3_FilterStatusOperator_as_i32 (FilterStatusOperator_to_v3 x10) = FilterStatusOperator_as_i32 x10
   \<and> v3_events_EventsEnum_as_i32 (events_EventsEnum_to_v3 x11) = events_EventsEnum_as_i32 x11
   \<and> v3_health_checks_HealthStatusEnum_as_i32 (health_checks_Status_to_v3 x12) = health_checks_Status_as_i32 x12
   \<and> v3_sessions_TaskOptionEnumField_as_i32 (TaskOptionField_schema_sessions y0) = TaskOptionField_as_i32 y0
   \<and> v3_tasks_TaskOptionEnumField_as_i32 (TaskOptionField_schema_tasks y1) = TaskOptionField_as_i32 y1
   \<and> v3_applications_ApplicationRawEnumField_as_i32 (applications_Field_schema y2) = applications_Field_as_i32 y2
   \<and> v3_partitions_PartitionRawEnumField_as_i32 (partitions_Field_schema y3) = partitions_Field_as_i32 y3
   \<and> v3_results_ResultRawEnumField_as_i32 (results_Field_schema y4) = results_Field_as_i32 y4
   \<and> v3_tasks_TaskSummaryEnumField_as_i32 (tasks_SummaryField_schema y5) = tasks_SummaryField_as_i32 y5
   \<and> v3_worker_health_check_reply_ServingStatus_as_i32 (worker_health_check_Response_schema y6) = worker_health_check_Response_as_i32 y6"
  by (intro conjI) (rule TaskStatus_enum.numbers,
    rule ResultStatus_enum.numbers,
    rule SessionStatus_enum.numbers,
    rule SortDirection_enum.numbers,
    rule FilterStringOperator_enum.numbers,
    rule FilterNumberOperator_enum.numbers,
    rule FilterArrayOperator_enum.numbers,
    rule FilterBooleanOperator_enum.numbers,
    rule FilterDateOperator_enum.numbers,
    rule FilterDurationOperator_enum.numbers,
    rule FilterStatusOperator_enum.numbers,
    rule events_EventsEnum_enum.numbers,
    rule health_checks_Status_enum.numbers,
    rule TaskOptionField_numbers_sessions.schema_numbers,
    rule TaskOptionField_numbers_tasks.schema_numbers,
    rule applications_Field_numbers.schema_numbers,
    rule partitions_Field_numbers.schema_numbers,
    rule results_Field_numbers.schema_numbers,
    rule tasks_SummaryField_numbers.schema_numbers,
    rule worker_health_check_Response_numbers.schema_numbers)

text \<open>
  C35: the number of a session field agrees with the schema except for five fields; a filter or a sort on one of them selects
  another field on the server.
\<close>

theorem session_fields_renumbered:
  "v3_sessions_SessionRawEnumField_as_i32 (sessions_RawField_schema f) = sessions_RawField_as_i32 f \<longleftrightarrow>
     f \<notin> {sessions_RawField.ClientSubmission, sessions_RawField.WorkerSubmission,
       sessions_RawField.ClosedAt, sessions_RawField.PurgedAt, sessions_RawField.DeletedAt}"
  by (simp only: sessions_RawField_number_agrees_iff sessions_RawField_renumbered_def)

text \<open>
  C36: the hand-written equality of \<^verbatim>\<open>TaskOptions\<close> holds exactly when the values agree up to their \<^verbatim>\<open>options\<close> map, which
  it does not look at.
\<close>

theorem task_options_equality_blind:
  "TaskOptions_eq a b \<longleftrightarrow> a\<lparr>TaskOptions.options := TaskOptions.options b\<rparr> = b"
  by (cases a; cases b) (auto simp: TaskOptions_eq_def intro: prost_Duration.equality)

text \<open>
  C37: task options survive the wire; a message without a maximum duration is read with the infinite duration, every other
  field as sent. A task summary survives the wire, except that a failure with an empty message arrives as a success; a
  notification survives it unless it names no result: the session travels with the identifiers of the results and is lost
  when there is none.
\<close>

theorem task_messages_on_the_wire:
  "TaskOptions_of_v3 (TaskOptions_to_v3 opts) = opts
   \<and> TaskOptions_of_v3 ((TaskOptions_to_v3 opts)\<lparr>v3_TaskOptions.max_duration := None\<rparr>) =
       opts\<lparr>TaskOptions.max_duration := INFINITE_DURATION\<rparr>
   \<and> tasks_Summary_of_v3 (tasks_Summary_to_v3 t) =
     (if tasks_Summary.output t = tasks_Output.Error '''' then t\<lparr>tasks_Summary.output := tasks_Output.Success\<rparr> else t)
   \<and> agent_notify_result_data_Request_of_v3 (agent_notify_result_data_Request_to_v3 r) =
     (if agent_notify_result_data_Request.result_ids r = []
      then r\<lparr>agent_notify_result_data_Request.session_id := ''''\<rparr> else r)"
proof -
  have "TaskOptions_of_v3 (TaskOptions_to_v3 opts) = opts"
    by (cases opts) (simp add: TaskOptions_to_v3_def TaskOptions_of_v3_def)
  moreover have "TaskOptions_of_v3 ((TaskOptions_to_v3 opts)\<lparr>v3_TaskOptions.max_duration := None\<rparr>) =
       opts\<lparr>TaskOptions.max_duration := INFINITE_DURATION\<rparr>"
    by (cases opts) (simp add: TaskOptions_to_v3_def TaskOptions_of_v3_def)
  ultimately show ?thesis
    by (simp add: tasks_Summary_normalised tasks_Summary_faithful_def agent_notify_normalised agent_notify_faithful_def)
qed

text \<open>
  C38: the response to an import survives the wire exactly when every result is stored under its own name: the keys are not
  sent and are rebuilt from the names.
\<close>

theorem imported_results_rekeyed:
  assumes "iterates it"
  shows "results_import_Response_of_v3 (results_import_Response_to_v3 it v) = v \<longleftrightarrow>
    (\<forall>k r. fmlookup (results_import_Response.results v) k = Some r \<longrightarrow> results_Raw.name r = k)"
  unfolding results_import_Response_roundtrip_iff [OF assms] by (auto simp: keyed_by_name_def fmpred_iff)

theorem imported_results_rekeyed_witness:
  "results_import_Response_of_v3 (results_import_Response_to_v3 sorted_list_of_fmap
     \<lparr>results_import_Response.results = fmap_of_list [(''id'', results_Raw_default\<lparr>results_Raw.name := ''result''\<rparr>)]\<rparr>)
   \<noteq> \<lparr>results_import_Response.results = fmap_of_list [(''id'', results_Raw_default\<lparr>results_Raw.name := ''result''\<rparr>)]\<rparr>"
  unfolding imported_results_rekeyed [OF iterates_sorted_list_of_fmap]
  by (auto intro!: exI [of _ "''id''"])

text \<open>
  C39: a filter given as a list of lists of conditions (a disjunction of conjunctions) is the same list of lists after being
  collected, sent, received and taken apart, for each of the five services that filter.
\<close>

theorem filters_on_the_wire:
  "sessions_filter_lists (sessions_filter_Or_of_v3 (sessions_filter_Or_to_v3 (sessions_filter_collect xs0))) = xs0
   \<and> tasks_filter_lists (tasks_filter_Or_of_v3 (tasks_filter_Or_to_v3 (tasks_filter_collect xs1))) = xs1
   \<and> results_filter_lists (results_filter_Or_of_v3 (results_filter_Or_to_v3 (results_filter_collect xs2))) = xs2
   \<and> partitions_filter_lists (partitions_filter_Or_of_v3 (partitions_filter_Or_to_v3 (partitions_filter_collect xs3))) = xs3
   \<and> applications_filter_lists (applications_filter_Or_of_v3 (applications_filter_Or_to_v3 (applications_filter_collect xs4))) = xs4"
  by (simp add: sessions_filter_wrapper_defs tasks_filter_wrapper_defs results_filter_wrapper_defs partitions_filter_wrapper_defs applications_filter_wrapper_defs o_def)


text \<open>
  A \<^verbatim>\<open>Count\<close> sent as a list of per-status counts is read back unchanged, whatever the order in
  which the hash map was iterated.
\<close>

lemma count_survives_any_order:
  assumes "iterates it"
  shows "Count_of_v3 (Count_to_v3 it c) = c"
  using assms by (rule Count_roundtrip)

text \<open>
  The status part of a submitter filter never survives the wire: an inclusion arrives as the exclusion of the same
  statuses and the other way round, for tasks and for sessions.
\<close>

lemma submitter_filters_flip:
  "submitter_TaskFilterStatuses_of_v3 (submitter_TaskFilterStatuses_to_v3 (submitter_TaskFilterStatuses.Include ts))
     = submitter_TaskFilterStatuses.Exclude ts
   \<and> submitter_TaskFilterStatuses_of_v3 (submitter_TaskFilterStatuses_to_v3 (submitter_TaskFilterStatuses.Exclude ts))
     = submitter_TaskFilterStatuses.Include ts
   \<and> submitter_SessionFilterStatuses_of_v3 (submitter_SessionFilterStatuses_to_v3 (submitter_SessionFilterStatuses.Include ss))
     = submitter_SessionFilterStatuses.Exclude ss
   \<and> submitter_SessionFilterStatuses_of_v3 (submitter_SessionFilterStatuses_to_v3 (submitter_SessionFilterStatuses.Exclude ss))
     = submitter_SessionFilterStatuses.Include ss
   \<and> submitter_TaskFilter_of_v3 (submitter_TaskFilter_to_v3 f) \<noteq> f
   \<and> submitter_SessionFilter_of_v3 (submitter_SessionFilter_to_v3 g) \<noteq> g"
proof -
  have "submitter_TaskFilter.statuses (submitter_TaskFilter_of_v3 (submitter_TaskFilter_to_v3 f))
      \<noteq> submitter_TaskFilter.statuses f"
    by (cases "submitter_TaskFilter.statuses f") simp_all
  moreover have "submitter_SessionFilter.statuses (submitter_SessionFilter_of_v3 (submitter_SessionFilter_to_v3 g))
      \<noteq> submitter_SessionFilter.statuses g"
    by (cases "submitter_SessionFilter.statuses g") simp_all
  ultimately have "submitter_TaskFilter_of_v3 (submitter_TaskFilter_to_v3 f) \<noteq> f"
    and "submitter_SessionFilter_of_v3 (submitter_SessionFilter_to_v3 g) \<noteq> g"
    by metis+
  then show ?thesis by (simp add: into_collect_def o_def)
qed

text \<open>
  Dates and durations, optional or not, are deserialised to what was serialised.
\<close>

lemma serialised_dates:
  "serde_timestamp_deserialize (serde_timestamp_serialize t) = t
   \<and> serde_duration_deserialize (serde_duration_serialize d) = d
   \<and> serde_option_timestamp_deserialize (serde_option_timestamp_serialize ot) = ot
   \<and> serde_option_duration_deserialize (serde_option_duration_serialize od) = od"
  by simp

end
